(* ===== verification/Unlinger_Prelude.thy ===== *)
theory Unlinger_Prelude
  imports Main "HOL-Library.Word" "HOL-Library.Char_ord" "HOL-Library.List_Lexorder"
    "HOL-Library.Product_Lexorder" "HOL-Library.Option_ord" "HOL-Library.Sublist"
    "HOL-Library.Multiset"
begin

text \<open>
  Shared vocabulary of the development: the machine integers of the crates, Rust's checked and
  saturating arithmetic, the part of \<open>str\<close>, \<open>Path\<close>, \<open>Vec\<close>, \<open>BTreeMap\<close> and \<open>BTreeSet\<close> that the
  sources use, and the generic lemmas about them. A Rust \<open>str\<close> is its UTF-8 byte sequence, so a
  HOL \<open>char\<close> is one byte and \<open>length\<close> is \<open>str::len\<close>. A \<open>BTreeMap\<close> is the key-sorted association
  list that its iterator yields, a \<open>BTreeSet\<close> the sorted list of its elements.
\<close>

named_theorems btree_simps \<open>lookup and key laws of the ordered maps and sets\<close>

named_theorems str_simps \<open>evaluation rules of the string operations\<close>

section \<open>Machine integers\<close>

type_synonym u16 = "16 word"
type_synonym u32 = "32 word"
type_synonym u64 = "64 word"

text \<open>A \<open>usize\<close> here is always the length of an in-memory collection, hence a \<open>nat\<close>; the one
  place where the code adds two of them saturates at the 64-bit bound.\<close>

type_synonym usize = nat

text \<open>A \<open>Duration\<close> is a number of nanoseconds.\<close>

type_synonym duration = nat

definition duration_from_secs :: "nat \<Rightarrow> duration" where
  "duration_from_secs s = s * 1000000000"

definition usize_saturating_add :: "usize \<Rightarrow> usize \<Rightarrow> usize" where
  "usize_saturating_add a b = min (a + b) (2 ^ 64 - 1)"

definition checked_mul :: "u64 \<Rightarrow> u64 \<Rightarrow> u64 option" where
  "checked_mul a b = (if unat a * unat b < 2 ^ 64 then Some (a * b) else None)"

definition checked_sub :: "u64 \<Rightarrow> u64 \<Rightarrow> u64 option" where
  "checked_sub a b = (if b \<le> a then Some (a - b) else None)"

definition saturating_add :: "u64 \<Rightarrow> u64 \<Rightarrow> u64" where
  "saturating_add a b = (if unat a + unat b < 2 ^ 64 then a + b else - 1)"

definition saturating_sub :: "u64 \<Rightarrow> u64 \<Rightarrow> u64" where
  "saturating_sub a b = (if b \<le> a then a - b else 0)"

section \<open>Strings\<close>

definition ascii_lower :: "char \<Rightarrow> char" where
  "ascii_lower c =
     (if 65 \<le> (of_char c :: nat) \<and> (of_char c :: nat) \<le> 90
      then char_of ((of_char c :: nat) + 32) else c)"

definition to_ascii_lowercase :: "string \<Rightarrow> string" where
  "to_ascii_lowercase s = map ascii_lower s"

definition starts_with :: "string \<Rightarrow> string \<Rightarrow> bool" where
  "starts_with s p = (take (length p) s = p)"

definition strip_prefix :: "string \<Rightarrow> string \<Rightarrow> string option" where
  "strip_prefix s p = (if starts_with s p then Some (drop (length p) s) else None)"

fun str_contains :: "string \<Rightarrow> string \<Rightarrow> bool" where
  "str_contains [] p = (p = [])"
| "str_contains (c # s) p = (starts_with (c # s) p \<or> str_contains s p)"

definition str_replace :: "char \<Rightarrow> char \<Rightarrow> string \<Rightarrow> string" where
  "str_replace c d s = map (\<lambda>x. if x = c then d else x) s"

text \<open>\<open>str::split\<close> on one ASCII character: a separator at an end yields an empty piece.\<close>

fun split_on :: "char \<Rightarrow> string \<Rightarrow> string list" where
  "split_on c [] = [[]]"
| "split_on c (x # s) =
     (if x = c then [] # split_on c s
      else (case split_on c s of [] \<Rightarrow> [[x]] | w # ws \<Rightarrow> (x # w) # ws))"

text \<open>The UTF-8 encodings of the code points with the Unicode property \<open>White_Space\<close>, which is
  what \<open>str::trim\<close> removes.\<close>

definition whitespace_encodings :: "string list" where
  "whitespace_encodings =
     map (\<lambda>b. [char_of b]) [9, 10, 11, 12, 13, 32 :: nat] @
     map (\<lambda>b. [char_of (194 :: nat), char_of b]) [133, 160 :: nat] @
     [[char_of (225 :: nat), char_of (154 :: nat), char_of (128 :: nat)]] @
     map (\<lambda>b. [char_of (226 :: nat), char_of (128 :: nat), char_of b])
       [128, 129, 130, 131, 132, 133, 134, 135, 136, 137, 138, 168, 169, 175 :: nat] @
     [[char_of (226 :: nat), char_of (129 :: nat), char_of (159 :: nat)],
      [char_of (227 :: nat), char_of (128 :: nat), char_of (128 :: nat)]]"

function trim_with :: "string list \<Rightarrow> string \<Rightarrow> string" where
  "trim_with ws s =
     (case find (\<lambda>w. w \<noteq> [] \<and> starts_with s w) ws of
        None \<Rightarrow> s
      | Some w \<Rightarrow> trim_with ws (drop (length w) s))"
  by pat_completeness auto
termination
proof (relation "measure (\<lambda>(ws, s). length s)", goal_cases)
  case 1
  show ?case by simp
next
  case (2 ws s w)
  then have "w \<noteq> []" and "starts_with s w" by (auto simp: find_Some_iff)
  then have "0 < length w \<and> 0 < length s" by (cases s) (auto simp: starts_with_def)
  then show ?case by simp
qed

declare trim_with.simps [simp del]

definition trim_start :: "string \<Rightarrow> string" where
  "trim_start s = trim_with whitespace_encodings s"

definition trim_end :: "string \<Rightarrow> string" where
  "trim_end s = rev (trim_with (map rev whitespace_encodings) (rev s))"

definition str_trim :: "string \<Rightarrow> string" where
  "str_trim s = trim_end (trim_start s)"

definition is_ascii_digit :: "char \<Rightarrow> bool" where
  "is_ascii_digit c = (48 \<le> (of_char c :: nat) \<and> (of_char c :: nat) \<le> 57)"

definition is_lower_hex :: "char \<Rightarrow> bool" where
  "is_lower_hex c = (is_ascii_digit c \<or> (97 \<le> (of_char c :: nat) \<and> (of_char c :: nat) \<le> 102))"

definition is_ascii_alphanumeric :: "char \<Rightarrow> bool" where
  "is_ascii_alphanumeric c =
     (is_ascii_digit c \<or> (65 \<le> (of_char c :: nat) \<and> (of_char c :: nat) \<le> 90) \<or>
      (97 \<le> (of_char c :: nat) \<and> (of_char c :: nat) \<le> 122))"

text \<open>Visible ASCII: a string that begins and ends so is its own trimmed form.\<close>

definition printable :: "char \<Rightarrow> bool" where
  "printable c = (33 \<le> (of_char c :: nat) \<and> (of_char c :: nat) \<le> 126)"

text \<open>Decimal (\<open>{}\<close>) and fixed-width lower-case hexadecimal (\<open>{:016x}\<close>) formatting.\<close>

definition digit_char :: "nat \<Rightarrow> char" where
  "digit_char d = char_of (if d < 10 then 48 + d else 87 + d)"

fun dec_string :: "nat \<Rightarrow> string" where
  "dec_string n = (if n < 10 then [digit_char n] else dec_string (n div 10) @ [digit_char (n mod 10)])"

declare dec_string.simps [simp del]

fun hex_digits :: "nat \<Rightarrow> nat \<Rightarrow> string" where
  "hex_digits 0 n = []"
| "hex_digits (Suc k) n = hex_digits k (n div 16) @ [digit_char (n mod 16)]"

definition hex16 :: "u64 \<Rightarrow> string" where
  "hex16 w = hex_digits 16 (unat w)"

definition str_join :: "string \<Rightarrow> string list \<Rightarrow> string" where
  "str_join sep ws = concat (case ws of [] \<Rightarrow> [] | w # rest \<Rightarrow> w # map (\<lambda>x. sep @ x) rest)"

text \<open>\<open>str::from_utf8\<close>, which \<open>Path::to_str\<close> applies to the bytes of a path.\<close>

definition byte_between :: "nat \<Rightarrow> nat \<Rightarrow> char \<Rightarrow> bool" where
  "byte_between lo hi c = (lo \<le> (of_char c :: nat) \<and> (of_char c :: nat) \<le> hi)"

fun utf8_valid :: "string \<Rightarrow> bool" where
  "utf8_valid [] = True"
| "utf8_valid (a # s) =
     (if byte_between 0 127 a then utf8_valid s
      else (case s of
        [] \<Rightarrow> False
      | b # s1 \<Rightarrow>
          if byte_between 194 223 a then byte_between 128 191 b \<and> utf8_valid s1
          else (case s1 of
            [] \<Rightarrow> False
          | c # s2 \<Rightarrow>
              if byte_between 224 239 a then
                byte_between (if of_char a = (224 :: nat) then 160 else 128)
                  (if of_char a = (237 :: nat) then 159 else 191) b
                \<and> byte_between 128 191 c \<and> utf8_valid s2
              else (case s2 of
                [] \<Rightarrow> False
              | d # s3 \<Rightarrow>
                  byte_between 240 244 a \<and>
                  byte_between (if of_char a = (240 :: nat) then 144 else 128)
                    (if of_char a = (244 :: nat) then 143 else 191) b
                  \<and> byte_between 128 191 c \<and> byte_between 128 191 d \<and> utf8_valid s3))))"

section \<open>Paths\<close>

text \<open>\<open>std::path::Path\<close> on Unix: the components of a path, its last normal component and
  \<open>Path::join\<close> with a relative piece.\<close>

datatype path_component = RootDir | CurDir | ParentDir | Normal string

definition path_is_absolute :: "string \<Rightarrow> bool" where
  "path_is_absolute p = starts_with p ''/''"

definition segment_component :: "string \<Rightarrow> path_component" where
  "segment_component s = (if s = ''..'' then ParentDir else Normal s)"

definition path_components :: "string \<Rightarrow> path_component list" where
  "path_components p =
     (let segments = split_on (CHR ''/'') p;
          inner = map segment_component (filter (\<lambda>s. s \<noteq> [] \<and> s \<noteq> ''.'') segments)
      in if path_is_absolute p then RootDir # inner
         else if hd segments = ''.'' then CurDir # inner
         else inner)"

definition path_file_name :: "string \<Rightarrow> string option" where
  "path_file_name p =
     (case rev (path_components p) of Normal s # _ \<Rightarrow> Some s | _ \<Rightarrow> None)"

definition path_join :: "string \<Rightarrow> string \<Rightarrow> string" where
  "path_join p q = (if p \<noteq> [] \<and> last p \<noteq> CHR ''/'' then p @ ''/'' @ q else p @ q)"

section \<open>Ordered maps and sets\<close>

type_synonym ('k, 'v) btree = "('k \<times> 'v) list"

fun bt_insert :: "'k::linorder \<Rightarrow> 'v \<Rightarrow> ('k, 'v) btree \<Rightarrow> ('k, 'v) btree" where
  "bt_insert k v [] = [(k, v)]"
| "bt_insert k v (e # m) =
     (if fst e < k then e # bt_insert k v m
      else (k, v) # (if fst e = k then m else e # m))"

definition bt_get :: "('k, 'v) btree \<Rightarrow> 'k \<Rightarrow> 'v option" where
  "bt_get m k = map_of m k"

definition bt_contains_key :: "('k, 'v) btree \<Rightarrow> 'k \<Rightarrow> bool" where
  "bt_contains_key m k = (bt_get m k \<noteq> None)"

definition bt_keys :: "('k, 'v) btree \<Rightarrow> 'k list" where
  "bt_keys m = map fst m"

definition bt_values :: "('k, 'v) btree \<Rightarrow> 'v list" where
  "bt_values m = map snd m"

definition bt_wf :: "('k::linorder, 'v) btree \<Rightarrow> bool" where
  "bt_wf m = sorted_wrt (<) (map fst m)"

text \<open>\<open>iter().collect::<BTreeMap<_, _>>()\<close>: a later pair replaces an earlier one.\<close>

definition bt_of_list :: "('k::linorder \<times> 'v) list \<Rightarrow> ('k, 'v) btree" where
  "bt_of_list xs = fold (\<lambda>(k, v) m. bt_insert k v m) xs []"

text \<open>\<open>entry(k).or_default()\<close> followed by an update of the entry.\<close>

definition bt_update_default :: "'k::linorder \<Rightarrow> 'v \<Rightarrow> ('v \<Rightarrow> 'v) \<Rightarrow> ('k, 'v) btree \<Rightarrow> ('k, 'v) btree" where
  "bt_update_default k d f m = bt_insert k (f (case bt_get m k of None \<Rightarrow> d | Some v \<Rightarrow> v)) m"

definition bs_of_list :: "'k::linorder list \<Rightarrow> 'k list" where
  "bs_of_list xs = sort (remdups xs)"

definition bs_insert :: "'k::linorder \<Rightarrow> 'k list \<Rightarrow> 'k list" where
  "bs_insert x xs = (if x \<in> set xs then xs else insort x xs)"

section \<open>Laws of the ordered maps\<close>

text \<open>The interface the components rely on: what a lookup returns after an insertion, and that
  the keys are met in increasing order, each once.\<close>

locale ordered_map =
  fixes empty :: "'m"
    and insert :: "'k::linorder \<Rightarrow> 'v \<Rightarrow> 'm \<Rightarrow> 'm"
    and lookup :: "'m \<Rightarrow> 'k \<Rightarrow> 'v option"
    and keys :: "'m \<Rightarrow> 'k list"
    and wf :: "'m \<Rightarrow> bool"
  assumes lookup_empty: "lookup empty k = None"
    and lookup_insert: "lookup (insert k v m) k' = (if k' = k then Some v else lookup m k')"
    and keys_lookup: "k \<in> set (keys m) \<longleftrightarrow> lookup m k \<noteq> None"
    and wf_empty: "wf empty"
    and wf_insert: "wf m \<Longrightarrow> wf (insert k v m)"
    and wf_keys: "wf m \<Longrightarrow> sorted_wrt (<) (keys m)"
begin

lemma lookup_fold_insert:
  "lookup (fold (\<lambda>(k, v). insert k v) xs m) k =
     (case map_of (rev xs) k of None \<Rightarrow> lookup m k | Some v \<Rightarrow> Some v)"
  by (induction xs arbitrary: m)
    (auto simp: lookup_insert map_add_def split: option.splits)

lemma wf_fold_insert: "wf m \<Longrightarrow> wf (fold (\<lambda>(k, v). insert k v) xs m)"
  by (induction xs arbitrary: m) (auto simp: wf_insert)

lemma wf_collect: "wf (fold (\<lambda>(k, v). insert k v) xs empty)"
  by (rule wf_fold_insert [OF wf_empty])

lemma lookup_collect: "lookup (fold (\<lambda>(k, v). insert k v) xs empty) k = map_of (rev xs) k"
  by (simp add: lookup_fold_insert lookup_empty split: option.splits)

lemma set_keys_collect: "set (keys (fold (\<lambda>(k, v). insert k v) xs empty)) = fst ` set xs"
  by (force simp: keys_lookup lookup_collect map_of_eq_None_iff)

lemma keys_distinct: "wf m \<Longrightarrow> distinct (keys m)"
  using wf_keys strict_sorted_iff by blast

end

lemma bt_get_insert [btree_simps]:
  "bt_get (bt_insert k v m) k' = (if k' = k then Some v else bt_get m k')"
  by (induction m) (auto simp: bt_get_def)

lemma set_fst_bt_insert: "fst ` set (bt_insert k v m) = insert k (fst ` set m)"
  by (induction m) auto

lemma bt_wf_insert: "bt_wf m \<Longrightarrow> bt_wf (bt_insert k v m)"
proof (induction m)
  case Nil
  then show ?case by (simp add: bt_wf_def)
next
  case (Cons e m)
  have "set (map fst (bt_insert k v m)) = insert k (set (map fst m))"
    using set_fst_bt_insert by (metis image_set)
  with Cons show ?case by (fastforce simp: bt_wf_def)
qed

interpretation bt: ordered_map "[]" bt_insert bt_get bt_keys bt_wf
proof unfold_locales
  show "bt_get [] k = None" for k by (simp add: bt_get_def)
  show "bt_get (bt_insert k v m) k' = (if k' = k then Some v else bt_get m k')"
    for k k' :: 'a and v :: 'b and m by (rule bt_get_insert)
  show "(k \<in> set (bt_keys m)) = (bt_get m k \<noteq> None)" for k :: 'a and m :: "('a, 'b) btree"
    by (simp add: bt_keys_def bt_get_def map_of_eq_None_iff)
  show "bt_wf []" by (simp add: bt_wf_def)
  show "bt_wf m \<Longrightarrow> bt_wf (bt_insert k v m)" for k :: 'a and v :: 'b and m by (rule bt_wf_insert)
  show "bt_wf m \<Longrightarrow> sorted_wrt (<) (bt_keys m)" for m :: "('a, 'b) btree"
    by (simp add: bt_wf_def bt_keys_def)
qed

lemma bt_of_list_get [btree_simps]: "bt_get (bt_of_list xs) k = map_of (rev xs) k"
  unfolding bt_of_list_def by (rule bt.lookup_collect)

lemma bt_of_list_wf [simp]: "bt_wf (bt_of_list xs)"
  unfolding bt_of_list_def by (rule bt.wf_collect)

lemma bt_of_list_keys [btree_simps]: "set (bt_keys (bt_of_list xs)) = fst ` set xs"
  unfolding bt_of_list_def by (rule bt.set_keys_collect)

lemma bt_get_in_set: "bt_get m k = Some v \<Longrightarrow> (k, v) \<in> set m"
  by (simp add: bt_get_def map_of_SomeD)

lemma bt_in_set_get: "bt_wf m \<Longrightarrow> (k, v) \<in> set m \<Longrightarrow> bt_get m k = Some v"
  by (simp add: bt_wf_def bt_get_def strict_sorted_iff)

lemma bt_values_set: "bt_wf m \<Longrightarrow> v \<in> set (bt_values m) \<longleftrightarrow> (\<exists>k. bt_get m k = Some v)"
  by (force simp: bt_values_def dest: bt_in_set_get bt_get_in_set)

text \<open>With distinct keys the collected map returns each pair that went in.\<close>

lemma map_of_rev_distinct: "distinct (map fst xs) \<Longrightarrow> map_of (rev xs) = map_of xs"
proof (rule ext)
  fix k
  assume d: "distinct (map fst xs)"
  then have d': "distinct (map fst (rev xs))" by (simp add: rev_map [symmetric])
  show "map_of (rev xs) k = map_of xs k"
  proof (cases "map_of xs k")
    case None
    then have "k \<notin> fst ` set (rev xs)" by (simp add: map_of_eq_None_iff)
    then have "map_of (rev xs) k = None" by (simp only: map_of_eq_None_iff not_False_eq_True)
    with None show ?thesis by simp
  next
    case (Some v)
    then have "(k, v) \<in> set (rev xs)" by (simp add: map_of_SomeD)
    with d' Some show ?thesis by simp
  qed
qed

lemma bs_of_list_set [simp]: "set (bs_of_list xs) = set xs"
  by (simp add: bs_of_list_def)

lemma bs_of_list_sorted [simp]: "sorted (bs_of_list xs)" "distinct (bs_of_list xs)"
  by (simp_all add: bs_of_list_def)

lemma bs_insert_set [simp]: "set (bs_insert x xs) = insert x (set xs)"
  by (auto simp: bs_insert_def set_insort_key)

lemma bs_insert_neq_Nil [simp]: "bs_insert x xs \<noteq> []"
  by (auto simp: bs_insert_def)

lemma distinct_remdups_adj_sorted: "sorted xs \<Longrightarrow> distinct (remdups_adj xs)"
  for xs :: "'a::linorder list"
  by (induction xs rule: remdups_adj.induct) (auto simp: less_le order.antisym)

lemma sort_dedup_distinct: "distinct (remdups_adj (sort xs))" for xs :: "'a::linorder list"
  by (simp add: distinct_remdups_adj_sorted)

lemma rtranclp_unfold_left: "R\<^sup>*\<^sup>* a b \<longleftrightarrow> a = b \<or> (\<exists>c. R a c \<and> R\<^sup>*\<^sup>* c b)"
  by (metis converse_rtranclpE converse_rtranclp_into_rtranclp rtranclp.rtrancl_refl)

section \<open>Laws of the string operations\<close>

lemma starts_with_iff: "starts_with s p \<longleftrightarrow> (\<exists>rest. s = p @ rest)"
  by (metis append_eq_conv_conj append_take_drop_id starts_with_def)

lemma strip_prefix_Some: "strip_prefix s p = Some r \<longleftrightarrow> s = p @ r"
  by (auto simp: strip_prefix_def starts_with_iff)

lemma str_contains_iff: "str_contains s p \<longleftrightarrow> (\<exists>a b. s = a @ p @ b)"
proof (induction s)
  case Nil
  then show ?case by simp
next
  case (Cons c s)
  have "(\<exists>a b. c # s = a @ p @ b) \<longleftrightarrow> (\<exists>b. c # s = p @ b) \<or> (\<exists>a b. s = a @ p @ b)"
    by (metis append_Cons append_Nil list.sel(3) neq_Nil_conv)
  with Cons.IH show ?case by (simp add: starts_with_iff)
qed

lemma whitespace_not_printable:
  "list_all (\<lambda>w. \<not> printable (hd w) \<and> \<not> printable (last w)) whitespace_encodings"
  by code_simp

lemma trim_with_printable:
  assumes "s \<noteq> []" "printable (hd s)" "list_all (\<lambda>w. \<not> printable (hd w)) ws"
  shows "trim_with ws s = s"
proof -
  have "\<not> (w \<noteq> [] \<and> starts_with s w)" if "w \<in> set ws" for w
  proof
    assume w: "w \<noteq> [] \<and> starts_with s w"
    then have "hd w = hd s" by (auto simp: starts_with_iff)
    with assms that show False by (auto simp: list_all_iff)
  qed
  then have "find (\<lambda>w. w \<noteq> [] \<and> starts_with s w) ws = None" by (simp add: find_None_iff)
  then show ?thesis by (subst trim_with.simps) simp
qed

lemma str_trim_printable [simp]:
  assumes "s \<noteq> []" "printable (hd s)" "printable (last s)"
  shows "str_trim s = s"
proof -
  have start: "trim_start s = s"
    using assms whitespace_not_printable
    by (simp add: trim_start_def trim_with_printable list_all_iff)
  have "list_all (\<lambda>w. \<not> printable (hd w)) (map rev whitespace_encodings)"
    using whitespace_not_printable by (auto simp: list_all_iff hd_rev)
  then have "trim_with (map rev whitespace_encodings) (rev s) = rev s"
    using assms by (intro trim_with_printable) (simp_all add: hd_rev)
  then show ?thesis by (simp add: str_trim_def trim_end_def start)
qed

lemma of_char_less_256: "(of_char c :: nat) < 256"
proof -
  have "(of_char c :: nat) mod 256 < 256" by simp
  then show ?thesis by (simp only: of_char_mod_256)
qed

lemma ascii_lower_idem [simp]: "ascii_lower (ascii_lower c) = ascii_lower c"
  using of_char_less_256 [of c] by (simp add: ascii_lower_def)

lemma to_ascii_lowercase_idem [simp]: "to_ascii_lowercase (to_ascii_lowercase s) = to_ascii_lowercase s"
  by (simp add: to_ascii_lowercase_def)

lemma length_to_ascii_lowercase [simp]: "length (to_ascii_lowercase s) = length s"
  by (simp add: to_ascii_lowercase_def)

lemma length_str_replace [simp]: "length (str_replace c d s) = length s"
  by (simp add: str_replace_def)

lemma split_on_neq_Nil [simp]: "split_on c s \<noteq> []"
  by (induction s) (auto split: list.splits)

lemma split_on_no_sep: "w \<in> set (split_on c s) \<Longrightarrow> c \<notin> set w"
  by (induction s arbitrary: w) (auto split: if_splits list.splits)

lemma split_on_append: "c \<notin> set w \<Longrightarrow> split_on c (w @ c # s) = w # split_on c s"
  by (induction w) (auto split: list.splits)

lemma split_on_single: "c \<notin> set w \<Longrightarrow> split_on c w = [w]"
  by (induction w) (auto split: list.splits)

lemma length_hex_digits [simp]: "length (hex_digits k n) = k"
  by (induction k arbitrary: n) auto

lemma length_hex16 [simp]: "length (hex16 w) = 16"
  by (simp add: hex16_def)

lemma of_char_digit_char: "d < 16 \<Longrightarrow> of_char (digit_char d) = (if d < 10 then 48 + d else 87 + d)"
  by (simp add: digit_char_def)

lemma digit_char_inject:
  assumes "d < 16" and "e < 16"
  shows "digit_char d = digit_char e \<longleftrightarrow> d = e"
proof
  assume "digit_char d = digit_char e"
  then have "(of_char (digit_char d) :: nat) = of_char (digit_char e)" by simp
  with assms show "d = e" by (simp add: of_char_digit_char split: if_splits)
qed simp

lemma hex_digits_inject:
  "n < 16 ^ k \<Longrightarrow> m < 16 ^ k \<Longrightarrow> hex_digits k n = hex_digits k m \<longleftrightarrow> n = m"
proof (induction k arbitrary: n m)
  case 0
  then show ?case by simp
next
  case (Suc k)
  have "n div 16 < 16 ^ k" "m div 16 < 16 ^ k" using Suc.prems by auto
  with Suc.IH have "hex_digits (Suc k) n = hex_digits (Suc k) m
      \<longleftrightarrow> n div 16 = m div 16 \<and> n mod 16 = m mod 16"
    by (simp add: digit_char_inject)
  then show ?case by (metis div_mult_mod_eq)
qed

lemma hex16_inject: "hex16 a = hex16 b \<longleftrightarrow> a = b"
proof -
  have "unat a < 16 ^ 16" "unat b < 16 ^ 16"
    using unsigned_less [of a, where 'a = nat] unsigned_less [of b, where 'a = nat] by simp_all
  then show ?thesis by (simp add: hex16_def hex_digits_inject word_unat_eq_iff)
qed

lemma hex_digits_lower_hex: "c \<in> set (hex_digits k n) \<Longrightarrow> is_lower_hex c"
proof (induction k arbitrary: n)
  case 0
  then show ?case by simp
next
  case (Suc k)
  have "is_lower_hex (digit_char (n mod 16))"
    using of_char_digit_char [of "n mod 16"] by (auto simp: is_lower_hex_def is_ascii_digit_def)
  with Suc show ?case by auto
qed

lemma dec_string_digits: "c \<in> set (dec_string n) \<Longrightarrow> is_ascii_digit c"
proof (induction n rule: dec_string.induct)
  case (1 n)
  have d: "is_ascii_digit (digit_char (n mod 10))" for n
    by (simp add: is_ascii_digit_def of_char_digit_char)
  show ?case
  proof (cases "n < 10")
    case True
    with 1 d [of n] show ?thesis by (simp add: dec_string.simps [of n])
  next
    case False
    with 1 d [of n] show ?thesis by (auto simp: dec_string.simps [of n])
  qed
qed

lemma dec_string_neq_Nil [simp]: "dec_string n \<noteq> []" "[] \<noteq> dec_string n"
  by (subst dec_string.simps, simp)+

lemma dec_string_inject: "dec_string n = dec_string m \<longleftrightarrow> n = m"
proof (induction n arbitrary: m rule: dec_string.induct)
  case (1 n)
  have small: "dec_string k = [digit_char k]" if "k < 10" for k
    using that by (simp add: dec_string.simps)
  have big: "dec_string k = dec_string (k div 10) @ [digit_char (k mod 10)]" if "\<not> k < 10" for k
    using that by (subst dec_string.simps) simp
  show ?case
  proof (cases "n < 10"; cases "m < 10")
    assume "n < 10" "m < 10"
    then show ?thesis by (simp add: small digit_char_inject)
  next
    assume "n < 10" "\<not> m < 10"
    then show ?thesis by (auto simp: small big)
  next
    assume "\<not> n < 10" "m < 10"
    then show ?thesis by (auto simp: small big)
  next
    assume n: "\<not> n < 10" and m: "\<not> m < 10"
    then have "dec_string n = dec_string m
        \<longleftrightarrow> dec_string (n div 10) = dec_string (m div 10) \<and> digit_char (n mod 10) = digit_char (m mod 10)"
      by (simp add: big)
    also have "\<dots> \<longleftrightarrow> n div 10 = m div 10 \<and> n mod 10 = m mod 10"
      using 1 [OF n] by (simp add: digit_char_inject)
    also have "\<dots> \<longleftrightarrow> n = m" by (metis div_mult_mod_eq)
    finally show ?thesis .
  qed
qed

section \<open>Laws of the integer operations\<close>

lemma checked_sub_Some: "checked_sub a b = Some c \<longleftrightarrow> b \<le> a \<and> unat c + unat b = unat a"
proof -
  have "unat (a - b) = unat a - unat b" if "b \<le> a" using that by (rule unat_sub)
  then show ?thesis by (auto simp: checked_sub_def word_unat_eq_iff word_le_nat_alt)
qed

lemma checked_mul_Some: "checked_mul a b = Some c \<longleftrightarrow> unat c = unat a * unat b"
proof -
  have "unat (a * b) = unat a * unat b" if "unat a * unat b < 2 ^ 64"
    using that by (simp add: unat_word_ariths)
  moreover have "unat c < 2 ^ 64" using unsigned_less [of c, where 'a = nat] by simp
  ultimately show ?thesis by (auto simp: checked_mul_def word_unat_eq_iff)
qed

lemma saturating_add_unat: "unat (saturating_add a b) = min (unat a + unat b) (2 ^ 64 - 1)"
proof (cases "unat a + unat b < 2 ^ 64")
  case True
  then show ?thesis by (simp add: saturating_add_def unat_word_ariths)
next
  case False
  then show ?thesis by (simp add: saturating_add_def unsigned_minus_1_eq_mask mask_eq_exp_minus_1)
qed

lemma find_SomeD: "find P xs = Some x \<Longrightarrow> x \<in> set xs" "find P xs = Some x \<Longrightarrow> P x"
  by (auto simp: find_Some_iff)

end
