(* ===== verification/Core_State.thy ===== *)
theory Core_State
  imports Unlinger_Prelude
begin

text \<open>
  The incident state machine of \<open>crates/unlinger-core/src/state.rs\<close>: the nine states, the
  transition function with its error, and the reachability facts that make it a safety device.
\<close>

datatype incident_state =
    Protected | Active | Cooling | Confirmed | Ambiguous | Reclaiming | Cleared | Revived | Failed

record transition_error =
  te_from :: incident_state
  te_to :: incident_state

definition transition_allowed :: "incident_state \<Rightarrow> incident_state \<Rightarrow> bool" where
  "transition_allowed self to =
     (self = to \<or>
      (case self of
         Active \<Rightarrow> to \<in> {Cooling, Protected, Ambiguous}
       | Cooling \<Rightarrow> to \<in> {Confirmed, Active, Protected, Ambiguous}
       | Confirmed \<Rightarrow> to \<in> {Reclaiming, Active, Protected, Ambiguous}
       | Ambiguous \<Rightarrow> to \<in> {Protected, Active, Cooling}
       | Reclaiming \<Rightarrow> to \<in> {Cleared, Revived, Failed}
       | Revived \<Rightarrow> to \<in> {Cooling, Failed}
       | Failed \<Rightarrow> to \<in> {Cooling, Protected, Ambiguous}
       | Protected \<Rightarrow> False
       | Cleared \<Rightarrow> False))"

definition transition :: "incident_state \<Rightarrow> incident_state \<Rightarrow> transition_error + incident_state" where
  "transition self to =
     (if transition_allowed self to then Inr to else Inl \<lparr>te_from = self, te_to = to\<rparr>)"

text \<open>A history is a sequence of states, each accepted from the one before it.\<close>

fun transition_run :: "incident_state \<Rightarrow> incident_state list \<Rightarrow> transition_error + incident_state" where
  "transition_run s [] = Inr s"
| "transition_run s (t # ts) =
     (case transition s t of Inl e \<Rightarrow> Inl e | Inr s' \<Rightarrow> transition_run s' ts)"

inductive state_step :: "incident_state \<Rightarrow> incident_state \<Rightarrow> bool" where
  accepted: "transition s t = Inr t \<Longrightarrow> s \<noteq> t \<Longrightarrow> state_step s t"

inductive_simps state_step_iff: "state_step s t"

lemma transition_Inr: "transition s t = Inr u \<longleftrightarrow> u = t \<and> transition_allowed s t"
  by (auto simp: transition_def)

lemma state_step_allowed: "state_step s t \<longleftrightarrow> transition_allowed s t \<and> s \<noteq> t"
  by (auto simp: state_step_iff transition_Inr)

lemma step_into_reclaiming: "state_step s Reclaiming \<Longrightarrow> s = Confirmed"
  by (cases s) (auto simp: state_step_allowed transition_allowed_def)

lemma step_into_confirmed: "state_step s Confirmed \<Longrightarrow> s = Cooling"
  by (cases s) (auto simp: state_step_allowed transition_allowed_def)

lemma step_from_terminal: "s \<in> {Protected, Cleared} \<Longrightarrow> \<not> state_step s t"
  by (auto simp: state_step_allowed transition_allowed_def)

lemma transition_run_Cons:
  "transition_run s (t # ts) = Inr u \<longleftrightarrow> transition_allowed s t \<and> transition_run t ts = Inr u"
  by (auto simp: transition_def)

lemma transition_run_append:
  "transition_run s (xs @ ys) = Inr u \<longleftrightarrow>
     (\<exists>m. transition_run s xs = Inr m \<and> transition_run m ys = Inr u)"
  by (induction xs arbitrary: s) (auto simp: transition_run_Cons simp del: transition_run.simps(2))

lemma transition_run_last: "transition_run s ts = Inr u \<Longrightarrow> u = last (s # ts)"
  by (induction ts arbitrary: s) (auto simp: transition_run_Cons simp del: transition_run.simps(2))

lemma transition_run_steps: "transition_run s ts = Inr u \<Longrightarrow> state_step\<^sup>*\<^sup>* s u"
proof (induction ts arbitrary: s)
  case Nil
  then show ?case by simp
next
  case (Cons t ts)
  then have "transition_allowed s t" "state_step\<^sup>*\<^sup>* t u"
    by (auto simp: transition_run_Cons simp del: transition_run.simps(2))
  then show ?case
    by (cases "s = t") (auto intro: converse_rtranclp_into_rtranclp state_step_allowed [THEN iffD2])
qed

lemma terminal_absorbing: "state_step\<^sup>*\<^sup>* s t \<Longrightarrow> s \<in> {Protected, Cleared} \<Longrightarrow> t = s"
  by (induction rule: rtranclp_induct) (use step_from_terminal in blast)+

text \<open>An accepted history that ends in a state with one predecessor only came from there, and stayed since.\<close>

lemma transition_run_tail:
  assumes "\<And>q. state_step q r \<Longrightarrow> q = p" and "transition_run s ts = Inr r" and "s \<noteq> r"
  shows "\<exists>us m. ts = us @ replicate (Suc m) r \<and> transition_run s us = Inr p"
  using assms(2)
proof (induction ts rule: rev_induct)
  case Nil
  with assms(3) show ?case by simp
next
  case (snoc t ts)
  then obtain q where q: "transition_run s ts = Inr q" "transition_allowed q t" "t = r"
    by (auto simp: transition_run_append transition_run_Cons simp del: transition_run.simps(2))
  show ?case
  proof (cases "q = r")
    case True
    then obtain us m where "ts = us @ replicate (Suc m) r" "transition_run s us = Inr p" using snoc.IH q(1) by blast
    then have "ts @ [t] = us @ replicate (Suc (Suc m)) r" "transition_run s us = Inr p"
      by (simp_all add: q(3) replicate_append_same)
    then show ?thesis by blast
  next
    case False
    with q have "q = p" by (auto intro: assms(1) state_step_allowed [THEN iffD2])
    with q have "ts @ [t] = ts @ replicate (Suc 0) r" "transition_run s ts = Inr p" by simp_all
    then show ?thesis by blast
  qed
qed

section \<open>Properties\<close>

text \<open>
  C27: an incident is in \<open>Reclaiming\<close> only after \<open>Cooling\<close> and then \<open>Confirmed\<close>. Every accepted history that starts in neither
  \<open>Confirmed\<close> nor \<open>Reclaiming\<close> and ends in \<open>Reclaiming\<close> ends with \<open>Cooling\<close>, then \<open>Confirmed\<close> one or more times, then \<open>Reclaiming\<close> one or
  more times, with nothing in between.
\<close>

theorem reclaiming_needs_confirmation:
  assumes "transition_run s ts = Inr Reclaiming" and "s \<notin> {Confirmed, Reclaiming}"
  shows "\<exists>xs n m. s # ts = xs @ Cooling # replicate (Suc n) Confirmed @ replicate (Suc m) Reclaiming"
proof -
  obtain us m where us: "ts = us @ replicate (Suc m) Reclaiming" "transition_run s us = Inr Confirmed"
    using transition_run_tail [OF step_into_reclaiming assms(1)] assms(2) by auto
  obtain vs n where vs: "us = vs @ replicate (Suc n) Confirmed" "transition_run s vs = Inr Cooling"
    using transition_run_tail [OF step_into_confirmed us(2)] assms(2) by auto
  have "s # vs = butlast (s # vs) @ [Cooling]"
    using transition_run_last [OF vs(2)] by (metis append_butlast_last_id list.distinct(1))
  then have "s # ts = butlast (s # vs) @ Cooling # replicate (Suc n) Confirmed @ replicate (Suc m) Reclaiming"
    unfolding us(1) vs(1) by (metis append_Cons append_Nil append_assoc)
  then show ?thesis by blast
qed

theorem reclaiming_needs_confirmation_witness:
  "transition_run Active [Cooling, Confirmed, Reclaiming, Reclaiming] = Inr Reclaiming \<and>
   (\<exists>xs n m. [Active, Cooling, Confirmed, Reclaiming, Reclaiming] = xs @ Cooling # replicate (Suc n) Confirmed @ replicate (Suc m) Reclaiming)"
proof -
  have run: "transition_run Active [Cooling, Confirmed, Reclaiming, Reclaiming] = Inr Reclaiming"
    by (simp add: transition_def transition_allowed_def)
  from reclaiming_needs_confirmation [OF run] run show ?thesis by blast
qed

text \<open>
  \<open>Protected\<close> and \<open>Cleared\<close> are absorbing for the transition function: every accepted history
  from one of them stays in it, so no sequence of transitions leads from a protected incident to
  a cleanup.
\<close>

theorem protected_and_cleared_absorbing:
  assumes "transition_run s ts = Inr u" and "s \<in> {Protected, Cleared}"
  shows "u = s \<and> set ts \<subseteq> {s}"
  using assms
proof (induction ts arbitrary: s)
  case Nil
  then show ?case by simp
next
  case (Cons t ts)
  then have "s = t" using step_from_terminal [of s t]
    by (auto simp: transition_run_Cons state_step_allowed simp del: transition_run.simps)
  with Cons show ?case by (auto simp: transition_run_Cons simp del: transition_run.simps)
qed

theorem protected_and_cleared_absorbing_witness:
  "transition_run Protected [Protected, Protected] = Inr Protected \<and>
   Protected = Protected \<and> set [Protected, Protected] \<subseteq> {Protected}"
  using protected_and_cleared_absorbing [of Protected "[Protected, Protected]" Protected]
  by (simp add: transition_def transition_allowed_def)

end
