(* ===== verification/Core_Model.thy ===== *)
theory Core_Model
  imports Unlinger_Prelude
begin

text \<open>
  The process model of \<open>crates/unlinger-core/src/model.rs\<close>: process identities and records, the
  transient runtime facts of a process, and a snapshot with its coverage counters. The two
  coverage predicates decide when a snapshot may be read as a proof of absence.
\<close>

section \<open>Process identity and records\<close>

record executable_identity =
  exe_device :: "u64 option"
  exe_inode :: "u64 option"
  exe_size :: "u64 option"
  exe_modified_unix_nanos :: "int option"

definition is_complete :: "executable_identity \<Rightarrow> bool" where
  "is_complete e = (exe_device e \<noteq> None \<and> exe_inode e \<noteq> None)"

record process_identity =
  pid :: u32
  started_at_unix_micros :: u64
  executable_device :: "u64 option"
  executable_inode :: "u64 option"

definition exact_match :: "process_identity \<Rightarrow> process_identity \<Rightarrow> bool" where
  "exact_match self other =
     (self = other \<and> executable_device self \<noteq> None \<and> executable_inode self \<noteq> None)"

datatype process_status = Running | Sleeping | Stopped | Zombie | OtherStatus u32

record app_bundle_version =
  bundle_id :: string
  short_version :: string

record playwright_cli_runtime =
  cli_session_name :: string
  cli_version :: string
  cli_persistent :: bool
  cli_attached :: bool
  cli_selector_fingerprint :: "string option"

record process_runtime_facts =
  cpu_total_nanos :: u64
  open_file_descriptors :: usize
  descriptor_facts_complete :: bool
  debug_transport_facts_complete :: bool
  tcp_listening_ports :: "u16 list"
  tcp_established_local_ports :: "u16 list"
  connected_unix_sockets :: usize
  attached_debug_transport :: bool
  app_bundle :: "app_bundle_version option"
  crashpad_bundle :: "app_bundle_version option"
  task_session_name :: "string option"
  task_session_facts_complete :: bool
  unix_socket_fingerprints :: "string list"
  connected_named_unix_socket_fingerprints :: "string list"
  playwright_cli :: "playwright_cli_runtime option"

record process_record =
  identity :: process_identity
  parent_pid :: u32
  process_group_id :: u32
  uid :: u32
  tty_device :: "u32 option"
  proc_name :: string
  executable_path :: "string option"
  executable :: executable_identity
  arguments :: "string list option"
  resident_memory_bytes :: u64
  proc_status :: process_status
  runtime :: process_runtime_facts

definition process_pid :: "process_record \<Rightarrow> u32" where
  "process_pid p = pid (identity p)"

text \<open>A \<open>String\<close> is valid UTF-8, and so is each of its path components: the \<open>to_str\<close> step of the
  code succeeds whenever \<open>file_name\<close> does.\<close>

definition executable_basename :: "process_record \<Rightarrow> string" where
  "executable_basename p =
     (case Option.bind (executable_path p) path_file_name of
        Some n \<Rightarrow> if n \<noteq> [] then n else proc_name p
      | None \<Rightarrow> proc_name p)"

definition has_complete_classification_facts :: "process_record \<Rightarrow> bool" where
  "has_complete_classification_facts p =
     (executable_path p \<noteq> None \<and> arguments p \<noteq> None \<and> is_complete (executable p) \<and>
      executable_device (identity p) \<noteq> None \<and> executable_inode (identity p) \<noteq> None)"

section \<open>Snapshots\<close>

record snapshot_coverage =
  listed_processes :: usize
  inspected_processes :: usize
  unreadable_processes :: usize
  arguments_unavailable :: usize
  executable_identity_unavailable :: usize
  executable_path_unavailable :: usize
  executable_path_missing_without_errno :: usize
  executable_vnode_unavailable :: usize
  descriptor_facts_unavailable :: usize

record snapshot =
  observed_at_unix_millis :: u64
  current_uid :: u32
  processes :: "process_record list"
  coverage :: snapshot_coverage

definition proves_complete_exact_identity_coverage :: "snapshot \<Rightarrow> bool" where
  "proves_complete_exact_identity_coverage s =
     (listed_processes (coverage s) = inspected_processes (coverage s)
      \<and> unreadable_processes (coverage s) = 0
      \<and> executable_identity_unavailable (coverage s) = 0
      \<and> length (processes s) = inspected_processes (coverage s)
      \<and> list_all (\<lambda>p. started_at_unix_micros (identity p) > 0
            \<and> executable_device (identity p) \<noteq> None
            \<and> executable_inode (identity p) \<noteq> None) (processes s))"

definition proves_complete_classification_coverage :: "snapshot \<Rightarrow> bool" where
  "proves_complete_classification_coverage s =
     (proves_complete_exact_identity_coverage s
      \<and> arguments_unavailable (coverage s) = 0
      \<and> list_all has_complete_classification_facts (processes s))"

section \<open>Concrete processes\<close>

text \<open>A plain process with a complete identity and no runtime facts, and a snapshot that covers
  its processes: the inputs at which properties are instantiated.\<close>

definition no_runtime_facts :: process_runtime_facts where
  "no_runtime_facts = \<lparr>cpu_total_nanos = 0, open_file_descriptors = 0,
     descriptor_facts_complete = False, debug_transport_facts_complete = False,
     tcp_listening_ports = [], tcp_established_local_ports = [], connected_unix_sockets = 0,
     attached_debug_transport = False, app_bundle = None, crashpad_bundle = None,
     task_session_name = None, task_session_facts_complete = False, unix_socket_fingerprints = [],
     connected_named_unix_socket_fingerprints = [], playwright_cli = None\<rparr>"

definition plain_identity :: "u32 \<Rightarrow> process_identity" where
  "plain_identity p = \<lparr>pid = p, started_at_unix_micros = 1000, executable_device = Some 1,
     executable_inode = Some 7\<rparr>"

definition plain_process :: "u32 \<Rightarrow> u32 \<Rightarrow> process_record" where
  "plain_process p parent = \<lparr>identity = plain_identity p, parent_pid = parent,
     process_group_id = 10, uid = 501, tty_device = None, proc_name = ''p'',
     executable_path = Some ''/tmp/p'',
     executable = \<lparr>exe_device = Some 1, exe_inode = Some 7, exe_size = Some 1,
                   exe_modified_unix_nanos = Some 1\<rparr>,
     arguments = Some [''p''], resident_memory_bytes = 4096, proc_status = Sleeping,
     runtime = no_runtime_facts\<rparr>"

definition covering_snapshot :: "u64 \<Rightarrow> process_record list \<Rightarrow> snapshot" where
  "covering_snapshot now ps = \<lparr>observed_at_unix_millis = now, current_uid = 501, processes = ps,
     coverage = \<lparr>listed_processes = length ps, inspected_processes = length ps,
       unreadable_processes = 0, arguments_unavailable = 0, executable_identity_unavailable = 0,
       executable_path_unavailable = 0, executable_path_missing_without_errno = 0,
       executable_vnode_unavailable = 0, descriptor_facts_unavailable = 0\<rparr>\<rparr>"

section \<open>Identity matching\<close>

lemma exact_match_eq: "exact_match a b \<Longrightarrow> a = b"
  by (simp add: exact_match_def)

lemma exact_match_pid: "exact_match a b \<Longrightarrow> pid a = pid b"
  by (simp add: exact_match_def)

lemma exact_match_sym: "exact_match a b \<Longrightarrow> exact_match b a"
  by (auto simp: exact_match_def)

lemma exact_match_trans: "exact_match a b \<Longrightarrow> exact_match b c \<Longrightarrow> exact_match a c"
  by (auto simp: exact_match_def)

text \<open>\<open>exact_match\<close> is a partial equivalence: an identity without a device or an inode matches
  nothing, itself included, so an unproved identity can never authorise anything.\<close>

lemma exact_match_refl_iff:
  "exact_match a a \<longleftrightarrow> executable_device a \<noteq> None \<and> executable_inode a \<noteq> None"
  by (simp add: exact_match_def)

lemma complete_facts_exact_match:
  "has_complete_classification_facts p \<Longrightarrow> exact_match (identity p) (identity p)"
  by (simp add: has_complete_classification_facts_def exact_match_def)

lemma classification_coverage_imp_identity:
  "proves_complete_classification_coverage s \<Longrightarrow> p \<in> set (processes s)
    \<Longrightarrow> has_complete_classification_facts p \<and> started_at_unix_micros (identity p) > 0"
  by (auto simp: proves_complete_classification_coverage_def
      proves_complete_exact_identity_coverage_def list_all_iff)

end
