(* ===== verification/Core_Fingerprint.thy ===== *)
theory Core_Fingerprint
  imports Core_Model
begin

text \<open>
  The redacted identifiers of \<open>crates/unlinger-core/src/fingerprint.rs\<close>: 64-bit FNV-1a over byte
  parts, printed as sixteen hexadecimal digits, and its use on one process identity and on a set
  of them. The lemmas show what the hash can and cannot confuse.
\<close>

unbundle bit_operations_syntax

definition FNV_OFFSET_BASIS :: u64 where
  "FNV_OFFSET_BASIS = 0xcbf29ce484222325"

definition FNV_PRIME :: u64 where
  "FNV_PRIME = 0x00000100000001b3"

definition byte_of :: "char \<Rightarrow> u64" where
  "byte_of c = word_of_nat (of_char c)"

definition fnv_step :: "u64 \<Rightarrow> u64 \<Rightarrow> u64" where
  "fnv_step hash byte = (hash XOR byte) * FNV_PRIME"

definition fnv_part :: "u64 \<Rightarrow> string \<Rightarrow> u64" where
  "fnv_part hash part = fnv_step (foldl (\<lambda>h c. fnv_step h (byte_of c)) hash part) 0xff"

definition fnv_hash :: "string list \<Rightarrow> u64" where
  "fnv_hash parts = foldl fnv_part FNV_OFFSET_BASIS parts"

definition fingerprint_parts :: "string list \<Rightarrow> string" where
  "fingerprint_parts parts = hex16 (fnv_hash parts)"

definition unwrap_or_default :: "u64 option \<Rightarrow> u64" where
  "unwrap_or_default x = (case x of None \<Rightarrow> 0 | Some v \<Rightarrow> v)"

text \<open>The row \<open>"{}:{}:{}:{}"\<close> of a process identity.\<close>

definition identity_row :: "process_identity \<Rightarrow> string" where
  "identity_row i =
     dec_string (unat (pid i)) @ '':'' @ dec_string (unat (started_at_unix_micros i)) @ '':'' @
     dec_string (unat (unwrap_or_default (executable_device i))) @ '':'' @
     dec_string (unat (unwrap_or_default (executable_inode i)))"

definition fingerprint_process_identity :: "process_identity \<Rightarrow> string" where
  "fingerprint_process_identity i = fingerprint_parts [identity_row i]"

definition fingerprint_process_set :: "process_identity list \<Rightarrow> string" where
  "fingerprint_process_set is = fingerprint_parts (sort (map identity_row is))"

section \<open>The hash step is a bijection\<close>

lemma fnv_prime_inverse: "FNV_PRIME * 0xce965057aff6957b = 1"
  by (simp add: FNV_PRIME_def)

lemma fnv_step_inject: "fnv_step a b = fnv_step a' b' \<longleftrightarrow> a XOR b = a' XOR b'"
proof
  assume "fnv_step a b = fnv_step a' b'"
  then have "(a XOR b) * (FNV_PRIME * 0xce965057aff6957b) = (a' XOR b') * (FNV_PRIME * 0xce965057aff6957b)"
    by (simp add: fnv_step_def mult.assoc [symmetric])
  then show "a XOR b = a' XOR b'" by (simp add: fnv_prime_inverse)
qed (simp add: fnv_step_def)

lemma word_xor_cancel_right: "(a XOR b) XOR b = a" for a b :: u64
  by (simp add: xor.assoc)

lemma fnv_step_left_inject [simp]: "fnv_step a b = fnv_step a' b \<longleftrightarrow> a = a'"
  by (metis fnv_step_inject word_xor_cancel_right)

lemma fnv_step_right_inject [simp]: "fnv_step a b = fnv_step a b' \<longleftrightarrow> b = b'"
  by (metis fnv_step_inject word_xor_cancel_right xor.commute)

lemma byte_of_inject [simp]: "byte_of c = byte_of d \<longleftrightarrow> c = d"
proof -
  have "unat (byte_of c) = of_char c" for c
  proof -
    have "(of_char c :: nat) < 18446744073709551616" using of_char_less_256 [of c] by linarith
    then show ?thesis by (simp add: byte_of_def unat_of_nat)
  qed
  then show ?thesis by (metis of_char_eq_iff)
qed

lemma fnv_bytes_inject [simp]:
  "foldl (\<lambda>h c. fnv_step h (byte_of c)) a s = foldl (\<lambda>h c. fnv_step h (byte_of c)) b s \<longleftrightarrow> a = b"
  by (induction s arbitrary: a b) auto

lemma fnv_part_inject [simp]: "fnv_part a s = fnv_part b s \<longleftrightarrow> a = b"
  by (simp add: fnv_part_def)

lemma fnv_parts_inject [simp]: "foldl fnv_part a ps = foldl fnv_part b ps \<longleftrightarrow> a = b"
  by (induction ps arbitrary: a b) auto

lemma fnv_part_one_byte: "fnv_part h (u @ c # v) = fnv_part h (u @ d # v) \<longleftrightarrow> c = d"
  by (simp add: fnv_part_def)

lemma fingerprint_parts_eq_iff: "fingerprint_parts ps = fingerprint_parts qs \<longleftrightarrow> fnv_hash ps = fnv_hash qs"
  by (simp add: fingerprint_parts_def hex16_inject)

lemma fingerprint_parts_shape:
  "length (fingerprint_parts ps) = 16 \<and> list_all is_lower_hex (fingerprint_parts ps)"
  by (auto simp: fingerprint_parts_def hex16_def list_all_iff dest: hex_digits_lower_hex)

lemma fingerprint_parts_neq_Nil [simp]: "fingerprint_parts ps \<noteq> []"
  using fingerprint_parts_shape [of ps] by (metis list.size(3) zero_neq_numeral)

section \<open>Rows and sets\<close>

lemma colon_no_digit: "\<not> is_ascii_digit (CHR '':'')"
  by (simp add: is_ascii_digit_def)

lemma split_at_separator:
  assumes "c \<notin> set a" "c \<notin> set b" and "a @ c # x = b @ c # y"
  shows "a = b \<and> x = y"
proof -
  have "takeWhile (\<lambda>z. z \<noteq> c) (w @ c # v) = w" if "c \<notin> set w" for w v
    using that by (induction w) auto
  with assms have "a = b" by metis
  with assms(3) show ?thesis by simp
qed

lemma colon_notin_dec: "CHR '':'' \<notin> set (dec_string n)"
  using dec_string_digits colon_no_digit by blast

lemma identity_row_inject:
  "identity_row i = identity_row j \<longleftrightarrow>
     pid i = pid j \<and> started_at_unix_micros i = started_at_unix_micros j
     \<and> unwrap_or_default (executable_device i) = unwrap_or_default (executable_device j)
     \<and> unwrap_or_default (executable_inode i) = unwrap_or_default (executable_inode j)"
  (is "?l = ?r")
proof
  assume ?l
  then have "unat (pid i) = unat (pid j) \<and>
      unat (started_at_unix_micros i) = unat (started_at_unix_micros j) \<and>
      unat (unwrap_or_default (executable_device i)) = unat (unwrap_or_default (executable_device j)) \<and>
      unat (unwrap_or_default (executable_inode i)) = unat (unwrap_or_default (executable_inode j))"
    by (auto simp: identity_row_def dec_string_inject
        dest!: split_at_separator [OF colon_notin_dec colon_notin_dec])
  then show ?r by (simp add: word_unat_eq_iff)
qed (simp add: identity_row_def)

lemma fingerprint_process_set_perm:
  "mset is = mset js \<Longrightarrow> fingerprint_process_set is = fingerprint_process_set js"
  unfolding fingerprint_process_set_def
  by (metis mset_map properties_for_sort mset_sort sorted_sort)

section \<open>What a fingerprint distinguishes\<close>

text \<open>
  C30: a fingerprint is sixteen lower-case hexadecimal digits, and changing one byte of one part
  always changes it.
\<close>

theorem fingerprint_detects_one_byte:
  "length (fingerprint_parts ps) = 16 \<and> list_all is_lower_hex (fingerprint_parts ps) \<and>
   (fingerprint_parts (before @ (u @ c # v) # after) = fingerprint_parts (before @ (u @ d # v) # after) \<longleftrightarrow> c = d)"
  using fingerprint_parts_shape [of ps]
  by (simp add: fingerprint_parts_eq_iff fnv_hash_def fnv_part_one_byte)

text \<open>
  the fingerprint of a set of processes depends on the identities only, not on the order in
  which they are listed.
\<close>

theorem fingerprint_process_set_order:
  "fingerprint_process_set (rev is) = fingerprint_process_set is \<and>
   fingerprint_process_set (xs @ i # ys) = fingerprint_process_set (i # xs @ ys)"
  by (auto intro: fingerprint_process_set_perm)

end
