(* ===== verification/Core_Artifact.thy ===== *)
theory Core_Artifact
  imports Core_Fingerprint
begin

text \<open>
  Runtime artifacts, \<open>crates/unlinger-core/src/artifact.rs\<close>: the one artifact kind, its
  dispositions and actions, the construction of a candidate from a profile path with every error
  of the code, and the frozen artifact with its file identity.
\<close>

datatype runtime_artifact_kind = DevToolsActivePort

datatype artifact_disposition =
    Removed | AlreadyAbsent | ArtifactIdentityMismatch | Referenced | Unsafe | ArtifactRejected
  | ArtifactCancelledBeforeDelivery | ArtifactDeliveryUnknown

definition completed_cleanup :: "artifact_disposition \<Rightarrow> bool" where
  "completed_cleanup d = (case d of Removed \<Rightarrow> True | AlreadyAbsent \<Rightarrow> True | _ \<Rightarrow> False)"

record artifact_action_intent =
  ai_kind :: runtime_artifact_kind
  ai_artifact_fingerprint :: string

record artifact_action =
  aa_kind :: runtime_artifact_kind
  aa_artifact_fingerprint :: string
  aa_disposition :: artifact_disposition

record runtime_artifact_candidate =
  art_kind :: runtime_artifact_kind
  art_profile_path :: string
  art_artifact_path :: string
  art_owner_uid :: u32
  art_session_fingerprint :: string
  art_artifact_fingerprint :: string

datatype artifact_candidate_error =
    RelativePath | UnsafePathComponent | RootProfile | NonUtf8Path | RootOwner
  | MissingArtifactSessionFingerprint

text \<open>The loop over \<open>path.components()\<close>: a non-normal component is an error, normal ones are
  counted. On Unix a path has no \<open>Prefix\<close> component.\<close>

fun count_normal_components :: "path_component list \<Rightarrow> nat \<Rightarrow> artifact_candidate_error + nat" where
  "count_normal_components [] n = Inr n"
| "count_normal_components (c # cs) n =
     (case c of
        RootDir \<Rightarrow> count_normal_components cs n
      | Normal _ \<Rightarrow> count_normal_components cs (n + 1)
      | CurDir \<Rightarrow> Inl UnsafePathComponent
      | ParentDir \<Rightarrow> Inl UnsafePathComponent)"

definition validate_profile_path :: "string \<Rightarrow> artifact_candidate_error + unit" where
  "validate_profile_path path =
     (if \<not> path_is_absolute path then Inl RelativePath
      else (case count_normal_components (path_components path) 0 of
              Inl e \<Rightarrow> Inl e
            | Inr n \<Rightarrow> if n = 0 then Inl RootProfile else Inr ()))"

definition devtools_active_port ::
    "string \<Rightarrow> u32 \<Rightarrow> string \<Rightarrow> artifact_candidate_error + runtime_artifact_candidate" where
  "devtools_active_port profile_path owner_uid session_fp =
     (case validate_profile_path profile_path of
        Inl e \<Rightarrow> Inl e
      | Inr _ \<Rightarrow>
          if owner_uid = 0 then Inl RootOwner
          else if str_trim session_fp = [] then Inl MissingArtifactSessionFingerprint
          else if \<not> utf8_valid profile_path then Inl NonUtf8Path
          else Inr \<lparr>art_kind = DevToolsActivePort,
                    art_profile_path = profile_path,
                    art_artifact_path = path_join profile_path ''DevToolsActivePort'',
                    art_owner_uid = owner_uid,
                    art_session_fingerprint = session_fp,
                    art_artifact_fingerprint =
                      ''art-'' @ fingerprint_parts
                        [''unlinger.runtime-artifact.v1'', ''devtools_active_port'', session_fp,
                         profile_path]\<rparr>)"

definition artifact_intent :: "runtime_artifact_candidate \<Rightarrow> artifact_action_intent" where
  "artifact_intent c =
     \<lparr>ai_kind = art_kind c, ai_artifact_fingerprint = art_artifact_fingerprint c\<rparr>"

record runtime_artifact_identity =
  ra_device :: u64
  ra_inode :: u64
  ra_owner_uid :: u32
  ra_mode :: u32
  ra_link_count :: u64
  ra_parent_device :: u64
  ra_parent_inode :: u64
  ra_parent_owner_uid :: u32
  ra_parent_mode :: u32

record frozen_runtime_artifact =
  frozen_candidate :: runtime_artifact_candidate
  frozen_identity :: runtime_artifact_identity

datatype artifact_freeze = FreezeFrozen frozen_runtime_artifact | FreezeAbsent | FreezeUnsafe

section \<open>Accepted candidates\<close>

lemma completed_cleanup_iff: "completed_cleanup d \<longleftrightarrow> d = Removed \<or> d = AlreadyAbsent"
  by (cases d) (simp_all add: completed_cleanup_def)

lemma count_normal_components_Inr:
  "count_normal_components cs n = Inr m \<longleftrightarrow>
     CurDir \<notin> set cs \<and> ParentDir \<notin> set cs
     \<and> m = n + length (filter (\<lambda>c. \<exists>s. c = Normal s) cs)"
  by (induction cs arbitrary: n) (auto split: path_component.splits)

lemma validate_profile_path_Inr:
  "validate_profile_path p = Inr u \<longleftrightarrow>
     path_is_absolute p \<and> CurDir \<notin> set (path_components p) \<and> ParentDir \<notin> set (path_components p)
     \<and> (\<exists>s. Normal s \<in> set (path_components p))"
proof (cases "count_normal_components (path_components p) 0")
  case (Inl e)
  then have "CurDir \<in> set (path_components p) \<or> ParentDir \<in> set (path_components p)"
    using count_normal_components_Inr [of "path_components p" 0] by auto
  with Inl show ?thesis by (auto simp: validate_profile_path_def)
next
  case (Inr n)
  then show ?thesis
    using count_normal_components_Inr [of "path_components p" 0 n]
    by (auto simp: validate_profile_path_def filter_empty_conv)
qed

end
