(* ===== verification/Core_Evidence.thy ===== *)
theory Core_Evidence
  imports Core_State Core_Artifact
begin

text \<open>
  The report types of \<open>crates/unlinger-core/src/evidence.rs\<close>: evidence items, the ledger of hard
  gates, process roles and targets, browser compatibility and the incident report that the rules
  produce and the cleanup plan is made from.
\<close>

datatype evidence_family = AutomationProvenance | Abandonment | Isolation | Protection

text \<open>The derived \<open>Ord\<close> of a Rust enum compares the declaration order of its variants.\<close>

fun evidence_family_rank :: "evidence_family \<Rightarrow> nat" where
  "evidence_family_rank AutomationProvenance = 0"
| "evidence_family_rank Abandonment = 1"
| "evidence_family_rank Isolation = 2"
| "evidence_family_rank Protection = 3"

lemma evidence_family_rank_inject: "evidence_family_rank a = evidence_family_rank b \<longleftrightarrow> a = b"
  by (cases a; cases b) simp_all

instantiation evidence_family :: linorder
begin

definition less_eq_evidence_family :: "evidence_family \<Rightarrow> evidence_family \<Rightarrow> bool" where
  "less_eq_evidence_family a b = (evidence_family_rank a \<le> evidence_family_rank b)"

definition less_evidence_family :: "evidence_family \<Rightarrow> evidence_family \<Rightarrow> bool" where
  "less_evidence_family a b = (evidence_family_rank a < evidence_family_rank b)"

instance
  by intro_classes
    (auto simp: less_eq_evidence_family_def less_evidence_family_def evidence_family_rank_inject)

end

record evidence_item =
  ev_id :: string
  ev_family :: evidence_family
  ev_source_pid :: "u32 option"

record gate_ledger =
  same_user :: bool
  strong_automation_provenance :: bool
  confirmed_abandonment :: bool
  isolated_session :: bool
  stable_across_two_observations :: bool
  process_identity_unchanged :: bool
  no_protection_rule :: bool

definition cleanup_eligible :: "gate_ledger \<Rightarrow> bool" where
  "cleanup_eligible g =
     (same_user g \<and> strong_automation_provenance g \<and> confirmed_abandonment g \<and> isolated_session g
      \<and> stable_across_two_observations g \<and> process_identity_unchanged g \<and> no_protection_rule g)"

record root_summary =
  root_pid :: u32
  root_started_at_unix_micros :: u64
  root_executable_basename :: string
  root_identity_fingerprint :: string

datatype process_role =
    Controller | BrowserRoot | Renderer | Gpu | Utility | BrowserHelper | CrashHandler | Recorder
  | IncidentMember

fun process_role_rank :: "process_role \<Rightarrow> nat" where
  "process_role_rank Controller = 0"
| "process_role_rank BrowserRoot = 1"
| "process_role_rank Renderer = 2"
| "process_role_rank Gpu = 3"
| "process_role_rank Utility = 4"
| "process_role_rank BrowserHelper = 5"
| "process_role_rank CrashHandler = 6"
| "process_role_rank Recorder = 7"
| "process_role_rank IncidentMember = 8"

lemma process_role_rank_inject: "process_role_rank a = process_role_rank b \<longleftrightarrow> a = b"
  by (cases a; cases b) simp_all

instantiation process_role :: linorder
begin

definition less_eq_process_role :: "process_role \<Rightarrow> process_role \<Rightarrow> bool" where
  "less_eq_process_role a b = (process_role_rank a \<le> process_role_rank b)"

definition less_process_role :: "process_role \<Rightarrow> process_role \<Rightarrow> bool" where
  "less_process_role a b = (process_role_rank a < process_role_rank b)"

instance
  by intro_classes
    (auto simp: less_eq_process_role_def less_process_role_def process_role_rank_inject)

end

datatype browser_product = ChromeForTesting | Chromium | GoogleChrome | OtherProduct | UnknownProduct

datatype browser_compatibility_decision =
    AutomaticDecision | ObserveOnlyDecision | ProtectedDecision | UnknownDecision

record browser_compatibility_facts =
  bc_product :: browser_product
  bc_observed_version :: "string option"
  bc_decision :: browser_compatibility_decision
  bc_reason_id :: "string option"

record process_target =
  target_identity :: process_identity
  target_process_group_id :: u32
  target_role :: process_role

record process_role_count =
  rc_role :: process_role
  rc_count :: usize

record incident_report =
  incident_id :: string
  tracking_key :: string
  session_fingerprint :: string
  signature_pack :: string
  signature_version :: string
  state :: incident_state
  root :: root_summary
  member_count :: usize
  report_resident_memory_bytes :: u64
  member_fingerprint :: string
  roles :: "process_role_count list"
  evidence :: "evidence_item list"
  gates :: gate_ledger
  report_browser_compatibility :: browser_compatibility_facts
  targets :: "process_target list"
  runtime_artifacts :: "runtime_artifact_candidate list"

end
