(* ===== verification/Core_Cleanup.thy ===== *)
theory Core_Cleanup
  imports Core_Evidence
begin

text \<open>
  The data side of \<open>crates/unlinger-core/src/cleanup.rs\<close>: signals, actions, receipts and their
  outcome projection, and the cleanup plan that a confirmed report is frozen into.
\<close>

section \<open>Actions and receipts\<close>

datatype cleanup_signal = Term | Kill

datatype signal_disposition =
    Delivered | AlreadyExited | IdentityMismatch | Rejected | CancelledBeforeDelivery
  | DeliveryUnknown

datatype cleanup_stage = PrimaryTerm | MemberTerm | ExactKill

record cleanup_action_intent =
  intent_stage :: cleanup_stage
  intent_pid :: u32
  intent_identity_fingerprint :: string
  intent_signal :: cleanup_signal

record cleanup_action =
  action_stage :: cleanup_stage
  action_pid :: u32
  action_identity_fingerprint :: string
  action_signal :: cleanup_signal
  action_disposition :: signal_disposition

record resource_snapshot_facts =
  rs_process_count :: usize
  rs_resident_memory_bytes :: u64

record cleanup_resources =
  res_before :: "resource_snapshot_facts option"
  res_after :: "resource_snapshot_facts option"
  res_estimated_reclaimed_memory_bytes :: "u64 option"

record cleanup_receipt =
  rcpt_incident_id :: string
  rcpt_state :: incident_state
  rcpt_reason_id :: "string option"
  rcpt_actions :: "cleanup_action list"
  rcpt_artifact_actions :: "artifact_action list"
  rcpt_survivor_pids :: "u32 list"
  rcpt_revival_checks_completed :: usize
  rcpt_resources :: cleanup_resources

section \<open>Outcomes\<close>

datatype process_outcome =
    ProcessCleared | ProcessRevived | ProcessFailed | ProcessDeliveryUnknown

datatype artifact_outcome = NotApplicable | Reconciled | Residue | ArtifactUnknown

datatype overall_outcome =
    OverallCleared | ClearedWithResidue | OverallRevived | OverallFailed

record cleanup_outcome =
  oc_process :: process_outcome
  oc_artifact :: artifact_outcome
  oc_overall :: overall_outcome
  oc_attention_required :: bool

definition signal_delivery_unknown :: "cleanup_receipt \<Rightarrow> bool" where
  "signal_delivery_unknown r = list_ex (\<lambda>a. action_disposition a = DeliveryUnknown) (rcpt_actions r)"

definition artifact_delivery_unknown :: "cleanup_receipt \<Rightarrow> bool" where
  "artifact_delivery_unknown r =
     (list_ex (\<lambda>a. aa_disposition a = ArtifactDeliveryUnknown) (rcpt_artifact_actions r)
      \<or> rcpt_reason_id r = Some ''cleanup.artifact_delivery_unknown'')"

definition artifact_residue_reason :: "cleanup_receipt \<Rightarrow> bool" where
  "artifact_residue_reason r =
     (rcpt_reason_id r = Some ''cleanup.artifact_identity_changed''
      \<or> rcpt_reason_id r = Some ''cleanup.artifact_live_reference''
      \<or> rcpt_reason_id r = Some ''cleanup.artifact_unsafe''
      \<or> rcpt_reason_id r = Some ''cleanup.artifact_rejected'')"

definition process_outcome_of :: "cleanup_receipt \<Rightarrow> process_outcome" where
  "process_outcome_of r =
     (if signal_delivery_unknown r then ProcessDeliveryUnknown
      else if rcpt_state r = Revived then ProcessRevived
      else if rcpt_state r = Cleared \<or> artifact_residue_reason r \<or> artifact_delivery_unknown r
      then ProcessCleared
      else ProcessFailed)"

definition artifact_outcome_of :: "cleanup_receipt \<Rightarrow> artifact_outcome" where
  "artifact_outcome_of r =
     (if artifact_delivery_unknown r then ArtifactUnknown
      else if artifact_residue_reason r
          \<or> list_ex (\<lambda>a. \<not> completed_cleanup (aa_disposition a)) (rcpt_artifact_actions r)
      then Residue
      else if rcpt_artifact_actions r = [] then NotApplicable
      else Reconciled)"

definition overall_outcome_of :: "process_outcome \<Rightarrow> artifact_outcome \<Rightarrow> overall_outcome" where
  "overall_outcome_of p a =
     (if p = ProcessDeliveryUnknown \<or> a = ArtifactUnknown \<or> p = ProcessFailed then OverallFailed
      else if p = ProcessCleared \<and> (a = NotApplicable \<or> a = Reconciled) then OverallCleared
      else if p = ProcessCleared \<and> a = Residue then ClearedWithResidue
      else OverallRevived)"

definition outcome :: "cleanup_receipt \<Rightarrow> cleanup_outcome" where
  "outcome r =
     (let p = process_outcome_of r;
          a = artifact_outcome_of r;
          o' = overall_outcome_of p a
      in \<lparr>oc_process = p, oc_artifact = a, oc_overall = o',
          oc_attention_required = (o' \<noteq> OverallCleared)\<rparr>)"

definition proves_process_reclaim :: "cleanup_receipt \<Rightarrow> bool" where
  "proves_process_reclaim r =
     (oc_process (outcome r) = ProcessCleared
      \<and> list_ex (\<lambda>a. action_disposition a = Delivered) (rcpt_actions r))"

definition ended_without_intervention :: "cleanup_receipt \<Rightarrow> bool" where
  "ended_without_intervention r =
     (rcpt_state r = Cleared \<and> oc_overall (outcome r) = OverallCleared
      \<and> \<not> proves_process_reclaim r \<and> rcpt_artifact_actions r = [])"

section \<open>Plans\<close>

record cleanup_plan =
  plan_incident_id :: string
  plan_tracking_key :: string
  plan_session_fingerprint :: string
  plan_signature_pack :: string
  plan_signature_version :: string
  plan_root_identity :: process_identity
  plan_member_fingerprint :: string
  plan_targets :: "process_target list"
  plan_artifacts :: "runtime_artifact_candidate list"

datatype cleanup_plan_error =
    NotConfirmed | NoTargets | MissingSessionFingerprint | DuplicateTarget u32
  | IncompleteIdentity u32 | RootMissing | NoPrimaryTarget | TooManyArtifacts | DuplicateArtifact
  | ArtifactSessionMismatch

abbreviation target_pid :: "process_target \<Rightarrow> u32" where
  "target_pid t \<equiv> pid (target_identity t)"

fun check_targets :: "process_target list \<Rightarrow> u32 list \<Rightarrow> cleanup_plan_error + unit" where
  "check_targets [] pids = Inr ()"
| "check_targets (t # ts) pids =
     (if target_pid t \<in> set pids then Inl (DuplicateTarget (target_pid t))
      else if executable_device (target_identity t) = None
           \<or> executable_inode (target_identity t) = None
      then Inl (IncompleteIdentity (target_pid t))
      else check_targets ts (bs_insert (target_pid t) pids))"

fun check_artifacts ::
    "string \<Rightarrow> runtime_artifact_candidate list \<Rightarrow> string list \<Rightarrow> cleanup_plan_error + unit" where
  "check_artifacts session [] seen = Inr ()"
| "check_artifacts session (a # as) seen =
     (if art_session_fingerprint a \<noteq> session then Inl ArtifactSessionMismatch
      else if art_artifact_fingerprint a \<in> set seen then Inl DuplicateArtifact
      else check_artifacts session as (bs_insert (art_artifact_fingerprint a) seen))"

definition from_confirmed :: "incident_report \<Rightarrow> cleanup_plan_error + cleanup_plan" where
  "from_confirmed report =
     (if state report \<noteq> Confirmed \<or> \<not> cleanup_eligible (gates report) then Inl NotConfirmed
      else if targets report = [] then Inl NoTargets
      else if str_trim (session_fingerprint report) = [] then Inl MissingSessionFingerprint
      else (case check_targets (targets report) [] of
        Inl e \<Rightarrow> Inl e
      | Inr _ \<Rightarrow>
          if length (runtime_artifacts report) > 1 then Inl TooManyArtifacts
          else (case check_artifacts (session_fingerprint report) (runtime_artifacts report) [] of
            Inl e \<Rightarrow> Inl e
          | Inr _ \<Rightarrow>
              (case find (\<lambda>t. target_pid t = root_pid (root report)) (targets report) of
                None \<Rightarrow> Inl RootMissing
              | Some root_target \<Rightarrow>
                  if \<not> list_ex (\<lambda>t. target_role t = Controller \<or> target_role t = BrowserRoot)
                         (targets report)
                  then Inl NoPrimaryTarget
                  else Inr \<lparr>plan_incident_id = incident_id report,
                            plan_tracking_key = tracking_key report,
                            plan_session_fingerprint = session_fingerprint report,
                            plan_signature_pack = signature_pack report,
                            plan_signature_version = signature_version report,
                            plan_root_identity = target_identity root_target,
                            plan_member_fingerprint = member_fingerprint report,
                            plan_targets = targets report,
                            plan_artifacts = runtime_artifacts report\<rparr>))))"

definition primary_targets :: "cleanup_plan \<Rightarrow> process_target list" where
  "primary_targets p =
     (let controllers = filter (\<lambda>t. target_role t = Controller) (plan_targets p)
      in if controllers = [] then filter (\<lambda>t. target_role t = BrowserRoot) (plan_targets p)
         else controllers)"

section \<open>Laws of the outcome projection\<close>

lemma outcome_simps [simp]:
  "oc_process (outcome r) = process_outcome_of r"
  "oc_artifact (outcome r) = artifact_outcome_of r"
  "oc_overall (outcome r) = overall_outcome_of (process_outcome_of r) (artifact_outcome_of r)"
  "oc_attention_required (outcome r) \<longleftrightarrow>
     overall_outcome_of (process_outcome_of r) (artifact_outcome_of r) \<noteq> OverallCleared"
  by (simp_all add: outcome_def Let_def)

lemma overall_cleared_iff:
  "overall_outcome_of p a = OverallCleared \<longleftrightarrow>
     p = ProcessCleared \<and> (a = NotApplicable \<or> a = Reconciled)"
  by (auto simp: overall_outcome_of_def)

lemma process_cleared_iff:
  "process_outcome_of r = ProcessCleared \<longleftrightarrow>
     \<not> signal_delivery_unknown r \<and> rcpt_state r \<noteq> Revived
     \<and> (rcpt_state r = Cleared \<or> artifact_residue_reason r \<or> artifact_delivery_unknown r)"
  by (auto simp: process_outcome_of_def)

section \<open>Laws of the plan\<close>

text \<open>A well-formed plan: the invariant the executor relies on.\<close>

definition plan_wf :: "cleanup_plan \<Rightarrow> bool" where
  "plan_wf p \<longleftrightarrow>
     plan_targets p \<noteq> [] \<and> distinct (map target_pid (plan_targets p))
     \<and> (\<forall>t \<in> set (plan_targets p). exact_match (target_identity t) (target_identity t))
     \<and> plan_root_identity p \<in> target_identity ` set (plan_targets p)
     \<and> primary_targets p \<noteq> []
     \<and> length (plan_artifacts p) \<le> 1
     \<and> (\<forall>a \<in> set (plan_artifacts p). art_session_fingerprint a = plan_session_fingerprint p)"

lemma check_targets_Inr:
  "check_targets ts pids = Inr u \<longleftrightarrow>
     distinct (map target_pid ts) \<and> set (map target_pid ts) \<inter> set pids = {}
     \<and> (\<forall>t \<in> set ts. exact_match (target_identity t) (target_identity t))"
  by (induction ts arbitrary: pids) (auto simp: exact_match_refl_iff)

lemma check_artifacts_single:
  "length as \<le> 1 \<Longrightarrow> check_artifacts session as [] = Inr u \<longleftrightarrow>
     (\<forall>a \<in> set as. art_session_fingerprint a = session)"
  by (cases as) auto

lemma primary_targets_neq_Nil:
  "primary_targets p \<noteq> [] \<longleftrightarrow>
     (\<exists>t \<in> set (plan_targets p). target_role t = Controller \<or> target_role t = BrowserRoot)"
  by (auto simp: primary_targets_def Let_def filter_empty_conv)

lemma primary_targets_subset: "set (primary_targets p) \<subseteq> set (plan_targets p)"
  by (auto simp: primary_targets_def Let_def)

lemma from_confirmed_InrD:
  assumes "from_confirmed report = Inr p"
  shows "state report = Confirmed" "cleanup_eligible (gates report)"
    "plan_targets p = targets report" "plan_artifacts p = runtime_artifacts report"
    "plan_session_fingerprint p = session_fingerprint report"
    "plan_incident_id p = incident_id report" "plan_signature_pack p = signature_pack report"
    "plan_signature_version p = signature_version report"
    "check_targets (targets report) [] = Inr ()" "length (runtime_artifacts report) \<le> 1"
    "check_artifacts (session_fingerprint report) (runtime_artifacts report) [] = Inr ()"
    "\<exists>t. find (\<lambda>t. target_pid t = root_pid (root report)) (targets report) = Some t
       \<and> plan_root_identity p = target_identity t"
    "targets report \<noteq> []"
    "\<exists>t \<in> set (targets report). target_role t = Controller \<or> target_role t = BrowserRoot"
  using assms
  by (simp_all add: from_confirmed_def not_less list_ex_iff split: if_splits sum.splits option.splits)
    auto

lemma from_confirmed_wf: "from_confirmed report = Inr p \<Longrightarrow> plan_wf p"
  using from_confirmed_InrD [of report p] check_artifacts_single [of "runtime_artifacts report"]
  by (auto simp: plan_wf_def primary_targets_neq_Nil check_targets_Inr find_Some_iff)

section \<open>Which reports become plans\<close>

text \<open>The structural conditions on a report, without the order in which the code tests them.\<close>

definition plannable :: "incident_report \<Rightarrow> bool" where
  "plannable r \<longleftrightarrow>
     distinct (map target_pid (targets r))
     \<and> list_all (\<lambda>t. exact_match (target_identity t) (target_identity t)) (targets r)
     \<and> root_pid (root r) \<in> target_pid ` set (targets r)
     \<and> list_ex (\<lambda>t. target_role t = Controller \<or> target_role t = BrowserRoot) (targets r)
     \<and> str_trim (session_fingerprint r) \<noteq> []
     \<and> length (runtime_artifacts r) \<le> 1
     \<and> list_all (\<lambda>a. art_session_fingerprint a = session_fingerprint r) (runtime_artifacts r)"

lemma from_confirmed_accepts:
  assumes "state r = Confirmed" "cleanup_eligible (gates r)" "plannable r"
  obtains p where "from_confirmed r = Inr p"
proof -
  have some: "targets r \<noteq> []" using assms(3) by (auto simp: plannable_def)
  have targets: "check_targets (targets r) [] = Inr ()"
    using assms(3) by (simp add: plannable_def check_targets_Inr list_all_iff)
  have artifacts: "check_artifacts (session_fingerprint r) (runtime_artifacts r) [] = Inr ()"
    using assms(3) check_artifacts_single [of "runtime_artifacts r"] by (simp add: plannable_def list_all_iff)
  obtain t where "find (\<lambda>t. target_pid t = root_pid (root r)) (targets r) = Some t"
    using assms(3) by (cases "find (\<lambda>t. target_pid t = root_pid (root r)) (targets r)")
      (auto simp: plannable_def find_None_iff)
  with assms some targets artifacts that show ?thesis by (simp add: from_confirmed_def plannable_def)
qed

lemma from_confirmed_plannable:
  assumes "from_confirmed r = Inr p"
  shows "plannable r"
proof -
  note D = from_confirmed_InrD [OF assms]
  have "str_trim (session_fingerprint r) \<noteq> []"
    using assms by (simp add: from_confirmed_def split: if_splits)
  moreover have "root_pid (root r) \<in> target_pid ` set (targets r)"
    using D(12) by (metis (mono_tags, lifting) find_SomeD(1) find_SomeD(2) image_eqI)
  moreover have "distinct (map target_pid (targets r))"
    "list_all (\<lambda>t. exact_match (target_identity t) (target_identity t)) (targets r)"
    using D(9) by (simp_all add: check_targets_Inr list_all_iff)
  moreover have "list_all (\<lambda>a. art_session_fingerprint a = session_fingerprint r) (runtime_artifacts r)"
    using D(11) check_artifacts_single [OF D(10)] by (simp add: list_all_iff)
  ultimately show ?thesis using D(10,14) by (simp add: plannable_def list_ex_iff)
qed

text \<open>
  C26: a report becomes a cleanup plan exactly when it is confirmed, its seven gates hold and it is
  structurally sound; the plan is then well-formed, freezes exactly the report's targets and artifacts
  and takes its root identity from the target with the root's pid. Every other report is an error.
\<close>

theorem plan_accepted_exactly:
  "case from_confirmed r of
     Inl _ \<Rightarrow> \<not> (state r = Confirmed \<and> cleanup_eligible (gates r) \<and> plannable r)
   | Inr p \<Rightarrow> state r = Confirmed \<and> cleanup_eligible (gates r) \<and> plannable r \<and> plan_wf p
       \<and> plan_targets p = targets r \<and> plan_artifacts p = runtime_artifacts r
       \<and> plan_session_fingerprint p = session_fingerprint r \<and> pid (plan_root_identity p) = root_pid (root r)"
proof (cases "from_confirmed r")
  case (Inl e)
  then show ?thesis using from_confirmed_accepts [of r] by auto
next
  case (Inr p)
  have "pid (plan_root_identity p) = root_pid (root r)"
    using from_confirmed_InrD(12) [OF Inr] by (auto simp: find_Some_iff)
  then show ?thesis
    using from_confirmed_InrD(1-5) [OF Inr] from_confirmed_wf [OF Inr] from_confirmed_plannable [OF Inr]
    by (simp add: Inr)
qed

section \<open>What a receipt may claim\<close>

definition reason_leaves_artifact :: "string option \<Rightarrow> bool" where
  "reason_leaves_artifact reason = (reason \<in> Some ` {''cleanup.artifact_identity_changed'',
     ''cleanup.artifact_live_reference'', ''cleanup.artifact_unsafe'', ''cleanup.artifact_rejected'',
     ''cleanup.artifact_delivery_unknown''})"

text \<open>
  The overall outcome of a receipt is cleared, and then no attention is asked for, exactly when
  its state is cleared, every signal has a known delivery, every artifact action completed and the
  reason leaves no artifact behind. A receipt counts as ended without intervention exactly when in
  addition no signal was delivered and no artifact was acted on.
\<close>

theorem cleared_outcome_exact:
  "(oc_overall (outcome r) = OverallCleared \<longleftrightarrow>
      rcpt_state r = Cleared \<and> list_all (\<lambda>a. action_disposition a \<noteq> DeliveryUnknown) (rcpt_actions r)
      \<and> list_all (\<lambda>a. completed_cleanup (aa_disposition a)) (rcpt_artifact_actions r)
      \<and> \<not> reason_leaves_artifact (rcpt_reason_id r))
   \<and> (oc_attention_required (outcome r) \<longleftrightarrow> oc_overall (outcome r) \<noteq> OverallCleared)
   \<and> (ended_without_intervention r \<longleftrightarrow>
      oc_overall (outcome r) = OverallCleared \<and> rcpt_artifact_actions r = []
      \<and> list_all (\<lambda>a. action_disposition a \<noteq> Delivered) (rcpt_actions r))"
proof -
  have art: "(artifact_outcome_of r = NotApplicable \<or> artifact_outcome_of r = Reconciled) \<longleftrightarrow>
      list_all (\<lambda>a. completed_cleanup (aa_disposition a)) (rcpt_artifact_actions r)
      \<and> \<not> reason_leaves_artifact (rcpt_reason_id r)"
    by (auto simp: artifact_outcome_of_def artifact_delivery_unknown_def artifact_residue_reason_def
        reason_leaves_artifact_def list_all_iff list_ex_iff completed_cleanup_iff)
  have reason: "artifact_residue_reason r \<or> artifact_delivery_unknown r \<Longrightarrow>
      artifact_outcome_of r \<noteq> NotApplicable \<and> artifact_outcome_of r \<noteq> Reconciled"
    by (auto simp: artifact_outcome_of_def)
  have cleared: "oc_overall (outcome r) = OverallCleared \<longleftrightarrow>
      rcpt_state r = Cleared \<and> \<not> signal_delivery_unknown r
      \<and> (artifact_outcome_of r = NotApplicable \<or> artifact_outcome_of r = Reconciled)"
    using reason by (auto simp: overall_cleared_iff process_cleared_iff)
  have "ended_without_intervention r \<longleftrightarrow> oc_overall (outcome r) = OverallCleared \<and> rcpt_artifact_actions r = []
      \<and> list_all (\<lambda>a. action_disposition a \<noteq> Delivered) (rcpt_actions r)"
    unfolding ended_without_intervention_def proves_process_reclaim_def
    using cleared by (auto simp: process_cleared_iff list_all_iff list_ex_iff)
  with cleared art show ?thesis by (simp add: signal_delivery_unknown_def list_all_iff list_ex_iff)
qed

end
