(* ===== verification/Flow.thy ===== *)
theory Flow
  imports Unlinger_Prelude
begin

text \<open>
  Stateful code with early exits. A computation takes the world and either goes on with a value
  (\<open>Next\<close>) or leaves the enclosing function (\<open>Exit\<close>), as \<open>?\<close> and \<open>return\<close> do in Rust, and
  returns the new world in both cases. Invariants of such code are stated as triples
  \<open>fspec P m Q E\<close>: from a world with \<open>P\<close>, \<open>m\<close> goes on to a value and world with \<open>Q\<close> or exits with
  \<open>E\<close>. Every computation is a total function, so a triple speaks about every run.
\<close>

datatype ('r, 'a) flow = Exit 'r | Next 'a

type_synonym ('w, 'r, 'a) comp = "'w \<Rightarrow> ('r, 'a) flow \<times> 'w"

definition fnext :: "'a \<Rightarrow> ('w, 'r, 'a) comp" where
  "fnext a w = (Next a, w)"

definition fexit :: "'r \<Rightarrow> ('w, 'r, 'a) comp" where
  "fexit r w = (Exit r, w)"

definition fbind :: "('w, 'r, 'a) comp \<Rightarrow> ('a \<Rightarrow> ('w, 'r, 'b) comp) \<Rightarrow> ('w, 'r, 'b) comp" where
  "fbind m f w = (case m w of (Next a, w') \<Rightarrow> f a w' | (Exit r, w') \<Rightarrow> (Exit r, w'))"

text \<open>Run an operation of the world, and re-label the exits of a called function.\<close>

definition fcall :: "('w \<Rightarrow> 'a \<times> 'w) \<Rightarrow> ('w, 'r, 'a) comp" where
  "fcall f w = (case f w of (a, w') \<Rightarrow> (Next a, w'))"

definition fexits :: "('q \<Rightarrow> 'r) \<Rightarrow> ('w, 'q, 'a) comp \<Rightarrow> ('w, 'r, 'a) comp" where
  "fexits h m w = (case m w of (Next a, w') \<Rightarrow> (Next a, w') | (Exit q, w') \<Rightarrow> (Exit (h q), w'))"

text \<open>\<open>op().map_err(h)?\<close>, and \<open>match\<close> on the result of a called function.\<close>

definition ftry :: "('w \<Rightarrow> ('e + 'a) \<times> 'w) \<Rightarrow> ('e \<Rightarrow> 'r) \<Rightarrow> ('w, 'r, 'a) comp" where
  "ftry f h = fbind (fcall f) (\<lambda>r. case r of Inl e \<Rightarrow> fexit (h e) | Inr a \<Rightarrow> fnext a)"

definition fcatch :: "('w, 'q, 'a) comp \<Rightarrow> ('w, 'r, 'q + 'a) comp" where
  "fcatch m w = (case m w of (Next a, w') \<Rightarrow> (Next (Inr a), w') | (Exit q, w') \<Rightarrow> (Next (Inl q), w'))"

text \<open>A \<open>for\<close> loop over a list that threads a mutable value.\<close>

fun ffold :: "('x \<Rightarrow> 's \<Rightarrow> ('w, 'r, 's) comp) \<Rightarrow> 'x list \<Rightarrow> 's \<Rightarrow> ('w, 'r, 's) comp" where
  "ffold f [] s = fnext s"
| "ffold f (x # xs) s = fbind (f x s) (ffold f xs)"

section \<open>Triples\<close>

definition fspec :: "('w \<Rightarrow> bool) \<Rightarrow> ('w, 'r, 'a) comp \<Rightarrow> ('a \<Rightarrow> 'w \<Rightarrow> bool) \<Rightarrow> ('r \<Rightarrow> 'w \<Rightarrow> bool) \<Rightarrow> bool" where
  "fspec P m Q E \<longleftrightarrow>
     (\<forall>w. P w \<longrightarrow> (case m w of (Next a, w') \<Rightarrow> Q a w' | (Exit r, w') \<Rightarrow> E r w'))"

lemma fspecD_Next: "fspec P m Q E \<Longrightarrow> P w \<Longrightarrow> m w = (Next a, w') \<Longrightarrow> Q a w'"
  by (fastforce simp: fspec_def)

lemma fspecD_Exit: "fspec P m Q E \<Longrightarrow> P w \<Longrightarrow> m w = (Exit r, w') \<Longrightarrow> E r w'"
  by (fastforce simp: fspec_def)

lemma fspec_next: "fspec (Q a) (fnext a) Q E"
  by (simp add: fspec_def fnext_def)

lemma fspec_exit: "fspec (E r) (fexit r) Q E"
  by (simp add: fspec_def fexit_def)

lemma fspec_bind:
  assumes "fspec P m R E" and "\<And>a. fspec (R a) (f a) Q E"
  shows "fspec P (fbind m f) Q E"
  unfolding fspec_def fbind_def
proof (intro allI impI)
  fix w assume "P w"
  obtain x w' where m: "m w = (x, w')" by fastforce
  show "case (case m w of (Next a, w') \<Rightarrow> f a w' | (Exit r, w') \<Rightarrow> (Exit r, w')) of
      (Next a, w') \<Rightarrow> Q a w' | (Exit r, w') \<Rightarrow> E r w'"
  proof (cases x)
    case (Exit r)
    with assms(1) \<open>P w\<close> m show ?thesis by (auto dest: fspecD_Exit)
  next
    case (Next a)
    with assms(1) \<open>P w\<close> m have "R a w'" by (auto dest: fspecD_Next)
    with assms(2) [of a] m Next show ?thesis by (simp add: fspec_def)
  qed
qed

lemma fspec_call: "(\<And>w. P w \<Longrightarrow> case f w of (a, w') \<Rightarrow> Q a w') \<Longrightarrow> fspec P (fcall f) Q E"
  by (fastforce simp: fspec_def fcall_def split: prod.splits)

lemma fspec_exits: "fspec P m Q (\<lambda>q. E (h q)) \<Longrightarrow> fspec P (fexits h m) Q E"
  unfolding fspec_def fexits_def by (fastforce split: prod.splits flow.splits)

lemma fspec_try:
  "(\<And>w. P w \<Longrightarrow> case f w of (Inl e, w') \<Rightarrow> E (h e) w' | (Inr a, w') \<Rightarrow> Q a w') \<Longrightarrow> fspec P (ftry f h) Q E"
  unfolding ftry_def fspec_def fbind_def fcall_def fexit_def fnext_def
  by (fastforce split: prod.splits sum.splits)

lemma fspec_catch:
  "fspec P m (\<lambda>a. Q (Inr a)) (\<lambda>q. Q (Inl q)) \<Longrightarrow> fspec P (fcatch m) Q E"
  unfolding fspec_def fcatch_def by (fastforce split: prod.splits flow.splits)

lemma fspec_conseq:
  assumes "fspec P' m Q' E'" and "\<And>w. P w \<Longrightarrow> P' w"
    and "\<And>a w. Q' a w \<Longrightarrow> Q a w" and "\<And>r w. E' r w \<Longrightarrow> E r w"
  shows "fspec P m Q E"
  using assms unfolding fspec_def by (fastforce split: prod.splits flow.splits)

lemma fspec_pre: "fspec P' m Q E \<Longrightarrow> (\<And>w. P w \<Longrightarrow> P' w) \<Longrightarrow> fspec P m Q E"
  by (erule fspec_conseq)

lemma fspec_post: "fspec P m Q' E \<Longrightarrow> (\<And>a w. Q' a w \<Longrightarrow> Q a w) \<Longrightarrow> fspec P m Q E"
  by (erule fspec_conseq)

lemma fspec_if:
  "(b \<Longrightarrow> fspec P m Q E) \<Longrightarrow> (\<not> b \<Longrightarrow> fspec P n Q E) \<Longrightarrow> fspec P (if b then m else n) Q E"
  by simp

lemma fspec_pure: "(A \<Longrightarrow> fspec P m Q E) \<Longrightarrow> fspec (\<lambda>w. A \<and> P w) m Q E"
  by (auto simp: fspec_def)

lemma fspec_ex: "(\<And>x. fspec (P x) m Q E) \<Longrightarrow> fspec (\<lambda>w. \<exists>x. P x w) m Q E"
  unfolding fspec_def by (intro allI impI, elim exE) simp

text \<open>A loop keeps an invariant that may mention the elements already handled.\<close>

lemma fspec_ffold_prefix:
  assumes "\<And>pre x post s. xs = pre @ x # post \<Longrightarrow> fspec (I pre s) (f x s) (I (pre @ [x])) E"
  shows "fspec (I [] s) (ffold f xs s) (I xs) E"
proof -
  have gen: "fspec (I pre s) (ffold f ys s) (I xs) E" if "xs = pre @ ys" for pre ys s
    using that
  proof (induction ys arbitrary: pre s)
    case Nil
    then show ?case using fspec_next [of "I xs" s] by simp
  next
    case (Cons y ys)
    have "fspec (I pre s) (f y s) (I (pre @ [y])) E" using assms Cons.prems by blast
    moreover have "fspec (I (pre @ [y]) t) (ffold f ys t) (I xs) E" for t
      using Cons by simp
    ultimately show ?case by (simp add: fspec_bind)
  qed
  show ?thesis by (rule gen) simp
qed

lemma fspec_ffold:
  "(\<And>x s. x \<in> set xs \<Longrightarrow> fspec (I s) (f x s) I E) \<Longrightarrow> fspec (I s) (ffold f xs s) I E"
  by (rule fspec_ffold_prefix [where I = "\<lambda>_. I"]) auto

end
