(* ===== verification/Core_Executor.thy ===== *)
theory Core_Executor
  imports Core_Cleanup Flow
begin

text \<open>
  The cleanup executor of \<open>crates/unlinger-core/src/cleanup.rs\<close>. The traits \<open>CleanupRuntime\<close> and
  \<open>CleanupActionJournal\<close> and the \<open>should_stop\<close> closure are one record of operations on a world
  \<open>'w\<close>, which holds whatever state their implementations share; nothing is assumed about them.
  \<open>IncidentRevalidator::revalidate\<close> is a function of its arguments. \<open>CleanupExecutor::execute\<close> is
  cut at its own paragraphs into the phases below and composed from them in the order of the code;
  an \<open>Exit\<close> carries what \<open>execute\<close> returns, \<open>Inr\<close> for \<open>Ok\<close> and \<open>Inl\<close> for \<open>Err\<close>.
\<close>

section \<open>Interfaces\<close>

record runtime_failure =
  failure_message :: string

record clock_sample =
  wall_unix_millis :: u64
  continuous_millis :: u64
  boot_session_fingerprint :: string

datatype wait_outcome = DeadlineReached | Interrupted

record cleanup_policy =
  primary_term_grace :: duration
  member_term_grace :: duration
  kill_grace :: duration
  revival_windows :: "duration list"

definition default_cleanup_policy :: cleanup_policy where
  "default_cleanup_policy =
     \<lparr>primary_term_grace = duration_from_secs 3, member_term_grace = duration_from_secs 3,
      kill_grace = duration_from_secs 1,
      revival_windows = [duration_from_secs 15, duration_from_secs 60]\<rparr>"

datatype revalidation_phase = BeforeSignal | RevivalCheck

datatype revalidation_status = Eligible | Gone | Blocked | ReappearedSession

record revalidation =
  rv_status :: revalidation_status
  rv_reason_id :: string

type_synonym revalidator = "snapshot \<Rightarrow> cleanup_plan \<Rightarrow> revalidation_phase \<Rightarrow> revalidation"

record 'w cleanup_env =
  env_snapshot :: "'w \<Rightarrow> (runtime_failure + snapshot) \<times> 'w"
  env_lookup_process :: "u32 \<Rightarrow> 'w \<Rightarrow> (runtime_failure + process_record option) \<times> 'w"
  env_clock_sample :: "'w \<Rightarrow> (runtime_failure + clock_sample) \<times> 'w"
  env_signal_exact :: "process_identity \<Rightarrow> cleanup_signal \<Rightarrow> 'w \<Rightarrow> signal_disposition \<times> 'w"
  env_wait_until :: "duration \<Rightarrow> 'w \<Rightarrow> (runtime_failure + wait_outcome) \<times> 'w"
  env_freeze_artifact ::
    "runtime_artifact_candidate \<Rightarrow> 'w \<Rightarrow> (runtime_failure + artifact_freeze) \<times> 'w"
  env_remove_artifact_exact :: "frozen_runtime_artifact \<Rightarrow> 'w \<Rightarrow> artifact_disposition \<times> 'w"
  env_prepare_action :: "cleanup_action_intent \<Rightarrow> u64 \<Rightarrow> 'w \<Rightarrow> (runtime_failure + string) \<times> 'w"
  env_complete_action ::
    "string \<Rightarrow> signal_disposition \<Rightarrow> u64 \<Rightarrow> 'w \<Rightarrow> (runtime_failure + unit) \<times> 'w"
  env_prepare_artifact_action ::
    "artifact_action_intent \<Rightarrow> u64 \<Rightarrow> 'w \<Rightarrow> (runtime_failure + string) \<times> 'w"
  env_complete_artifact_action ::
    "string \<Rightarrow> artifact_disposition \<Rightarrow> u64 \<Rightarrow> 'w \<Rightarrow> (runtime_failure + unit) \<times> 'w"
  env_should_stop :: "'w \<Rightarrow> bool \<times> 'w"

datatype cleanup_error =
    RuntimeError runtime_failure cleanup_receipt
  | AttemptOpen runtime_failure cleanup_receipt string

fun terminal_receipt :: "cleanup_error \<Rightarrow> cleanup_receipt option" where
  "terminal_receipt (RuntimeError _ receipt) = Some receipt"
| "terminal_receipt (AttemptOpen _ _ _) = None"

fun partial_receipt :: "cleanup_error \<Rightarrow> cleanup_receipt" where
  "partial_receipt (RuntimeError _ receipt) = receipt"
| "partial_receipt (AttemptOpen _ receipt _) = receipt"

fun prepared_action_id :: "cleanup_error \<Rightarrow> string option" where
  "prepared_action_id (RuntimeError _ _) = None"
| "prepared_action_id (AttemptOpen _ _ action_id) = Some action_id"

section \<open>Receipts and resources\<close>

definition fail_receipt :: "cleanup_receipt \<Rightarrow> string \<Rightarrow> u32 list \<Rightarrow> cleanup_receipt" where
  "fail_receipt receipt reason survivors =
     receipt\<lparr>rcpt_state := Failed, rcpt_reason_id := Some reason,
             rcpt_survivor_pids := remdups_adj (sort survivors)\<rparr>"

definition terminal_runtime_error :: "runtime_failure \<Rightarrow> cleanup_receipt \<Rightarrow> cleanup_error" where
  "terminal_runtime_error e receipt =
     RuntimeError e (receipt\<lparr>rcpt_state := Failed,
                             rcpt_reason_id := Some ''cleanup.runtime_failure''\<rparr>)"

text \<open>The processes of a snapshot that are exactly the plan's targets, counted and summed with
  saturation. \<open>bt_of_list\<close> is the code's \<open>collect::<BTreeMap<_, _>>\<close>.\<close>

definition resource_snapshot :: "snapshot \<Rightarrow> cleanup_plan \<Rightarrow> resource_snapshot_facts" where
  "resource_snapshot snap plan =
     (let identities = bt_of_list (map (\<lambda>t. (target_pid t, target_identity t)) (plan_targets plan));
          matching = filter (\<lambda>p. case bt_get identities (process_pid p) of
                               None \<Rightarrow> False
                             | Some i \<Rightarrow> exact_match i (identity p)) (processes snap)
      in \<lparr>rs_process_count = length matching,
          rs_resident_memory_bytes =
            fold (\<lambda>p bytes. saturating_add bytes (resident_memory_bytes p)) matching 0\<rparr>)"

definition set_resource_after :: "cleanup_receipt \<Rightarrow> resource_snapshot_facts \<Rightarrow> cleanup_receipt" where
  "set_resource_after receipt after =
     receipt\<lparr>rcpt_resources := (rcpt_resources receipt)
       \<lparr>res_estimated_reclaimed_memory_bytes :=
          Option.bind (res_before (rcpt_resources receipt))
            (\<lambda>before. checked_sub (rs_resident_memory_bytes before) (rs_resident_memory_bytes after)),
        res_after := Some after\<rparr>\<rparr>"

definition snapshot_or_receipt_error ::
    "'w cleanup_env \<Rightarrow> cleanup_receipt \<Rightarrow> ('w, cleanup_error, snapshot) comp" where
  "snapshot_or_receipt_error env receipt =
     ftry (env_snapshot env)
       (\<lambda>e. RuntimeError e (receipt\<lparr>rcpt_state := Failed,
                                    rcpt_reason_id := Some ''cleanup.runtime_failure''\<rparr>))"

definition wait_interrupted ::
    "'w cleanup_env \<Rightarrow> duration \<Rightarrow> cleanup_receipt \<Rightarrow> ('w, cleanup_error, bool) comp" where
  "wait_interrupted env d receipt =
     fbind (fcall (env_should_stop env)) (\<lambda>stop.
       if stop then fnext True
       else fbind (ftry (env_wait_until env d) (\<lambda>e. terminal_runtime_error e receipt)) (\<lambda>out.
         case out of
           DeadlineReached \<Rightarrow> fcall (env_should_stop env)
         | Interrupted \<Rightarrow> fnext True))"

section \<open>Liveness and revalidation\<close>

type_synonym survivors = "(u32, process_identity) btree"

record exact_target_liveness =
  etl_survivors :: survivors
  etl_missing_live_targets :: "u32 list"

definition observe_target ::
    "'w cleanup_env \<Rightarrow> (u32, process_record) btree \<Rightarrow> process_target \<Rightarrow> exact_target_liveness
      \<Rightarrow> ('w, string, exact_target_liveness) comp" where
  "observe_target env by_pid t l =
     fbind (case bt_get by_pid (target_pid t) of
              Some p \<Rightarrow> fnext (Some p, False)
            | None \<Rightarrow> fbind (ftry (env_lookup_process env (target_pid t))
                              (\<lambda>_. ''cleanup.target_lookup_incomplete''))
                        (\<lambda>p. fnext (p, True)))
       (\<lambda>(found, missing_from_snapshot).
          case found of
            None \<Rightarrow> fnext l
          | Some p \<Rightarrow>
              if \<not> exact_match (target_identity t) (identity p) then fexit ''cleanup.identity_changed''
              else fnext \<lparr>etl_survivors = bt_insert (target_pid t) (identity p) (etl_survivors l),
                          etl_missing_live_targets =
                            (if missing_from_snapshot then etl_missing_live_targets l @ [target_pid t]
                             else etl_missing_live_targets l)\<rparr>)"

definition observe_exact_target_liveness ::
    "'w cleanup_env \<Rightarrow> snapshot \<Rightarrow> cleanup_plan \<Rightarrow> ('w, string, exact_target_liveness) comp" where
  "observe_exact_target_liveness env snap plan =
     ffold (observe_target env (bt_of_list (map (\<lambda>p. (process_pid p, p)) (processes snap))))
       (plan_targets plan) \<lparr>etl_survivors = [], etl_missing_live_targets = []\<rparr>"

definition validate_stage ::
    "'w cleanup_env \<Rightarrow> revalidator \<Rightarrow> snapshot \<Rightarrow> cleanup_plan \<Rightarrow> ('w, string, survivors) comp" where
  "validate_stage env rv snap plan =
     fbind (observe_exact_target_liveness env snap plan) (\<lambda>l.
       if etl_missing_live_targets l \<noteq> [] then fexit ''cleanup.snapshot_target_inconsistent''
       else if etl_survivors l = [] then fnext (etl_survivors l)
       else let validation = rv snap plan BeforeSignal
            in case rv_status validation of
                 Eligible \<Rightarrow> fnext (etl_survivors l)
               | Gone \<Rightarrow> fexit ''cleanup.revalidator_gone_with_survivors''
               | Blocked \<Rightarrow> fexit (rv_reason_id validation)
               | ReappearedSession \<Rightarrow> fexit (rv_reason_id validation))"

datatype terminal_revalidation_result =
    TerminalGone | TerminalRevived string | TerminalBlocked string

definition terminal_revalidation ::
    "revalidator \<Rightarrow> snapshot \<Rightarrow> cleanup_plan \<Rightarrow> terminal_revalidation_result" where
  "terminal_revalidation rv snap plan =
     (let validation = rv snap plan RevivalCheck
      in case rv_status validation of
           Gone \<Rightarrow> TerminalGone
         | ReappearedSession \<Rightarrow> TerminalRevived (rv_reason_id validation)
         | Eligible \<Rightarrow> TerminalRevived (rv_reason_id validation)
         | Blocked \<Rightarrow> TerminalBlocked (rv_reason_id validation))"

section \<open>One signal\<close>

definition complete_prepared ::
    "'w cleanup_env \<Rightarrow> cleanup_receipt \<Rightarrow> cleanup_action_intent \<Rightarrow> string \<Rightarrow> signal_disposition
      \<Rightarrow> ('w, cleanup_error, cleanup_receipt) comp" where
  "complete_prepared env receipt intent action_id disposition =
     fbind (ftry (env_clock_sample env) (\<lambda>e. AttemptOpen e receipt action_id)) (\<lambda>clock.
     fbind (ftry (env_complete_action env action_id disposition (wall_unix_millis clock))
              (\<lambda>e. AttemptOpen e receipt action_id)) (\<lambda>_.
     fnext (receipt\<lparr>rcpt_actions := rcpt_actions receipt @
       [\<lparr>action_stage = intent_stage intent, action_pid = intent_pid intent,
         action_identity_fingerprint = intent_identity_fingerprint intent,
         action_signal = intent_signal intent, action_disposition = disposition\<rparr>]\<rparr>)))"

definition signal_intent :: "process_target \<Rightarrow> cleanup_stage \<Rightarrow> cleanup_signal \<Rightarrow> cleanup_action_intent" where
  "signal_intent t stage sig =
     \<lparr>intent_stage = stage, intent_pid = target_pid t,
      intent_identity_fingerprint = fingerprint_process_identity (target_identity t),
      intent_signal = sig\<rparr>"

fun signal_reason :: "signal_disposition \<Rightarrow> string option" where
  "signal_reason Delivered = None"
| "signal_reason AlreadyExited = None"
| "signal_reason IdentityMismatch = Some ''cleanup.signal_identity_mismatch''"
| "signal_reason Rejected = Some ''cleanup.signal_rejected''"
| "signal_reason CancelledBeforeDelivery = Some ''cleanup.drain_requested''"
| "signal_reason DeliveryUnknown = Some ''cleanup.delivery_unknown''"

text \<open>\<open>signal\<close> from the prepared action on: revalidate, check the stop request once more, deliver,
  and complete the action.\<close>

definition signal_prepared ::
    "'w cleanup_env \<Rightarrow> revalidator \<Rightarrow> cleanup_plan \<Rightarrow> process_target \<Rightarrow> cleanup_action_intent \<Rightarrow> string
      \<Rightarrow> cleanup_receipt \<Rightarrow> ('w, cleanup_error, string option \<times> cleanup_receipt) comp" where
  "signal_prepared env rv plan t intent action_id receipt =
     (let complete = complete_prepared env receipt intent action_id
      in fbind (fcall (env_snapshot env)) (\<lambda>snapshot_result.
           case snapshot_result of
             Inl e \<Rightarrow> fbind (complete CancelledBeforeDelivery) (\<lambda>receipt'.
                       fexit (terminal_runtime_error e receipt'))
           | Inr snap \<Rightarrow>
               fbind (fcatch (validate_stage env rv snap plan)) (\<lambda>validated.
                 case validated of
                   Inl reason \<Rightarrow>
                     fbind (complete (if reason = ''cleanup.identity_changed'' then IdentityMismatch
                                      else Rejected))
                       (\<lambda>receipt'. fnext (Some reason, receipt'))
                 | Inr exact \<Rightarrow>
                     if \<not> bt_contains_key exact (target_pid t) then
                       fbind (complete AlreadyExited) (\<lambda>receipt'. fnext (None, receipt'))
                     else fbind (fcall (env_should_stop env)) (\<lambda>stop.
                       if stop then
                         fbind (complete CancelledBeforeDelivery)
                           (\<lambda>receipt'. fnext (Some ''cleanup.drain_requested'', receipt'))
                       else
                         fbind (fcall (env_signal_exact env (target_identity t) (intent_signal intent)))
                           (\<lambda>disposition. fbind (complete disposition)
                              (\<lambda>receipt'. fnext (signal_reason disposition, receipt')))))))"

definition signal ::
    "'w cleanup_env \<Rightarrow> revalidator \<Rightarrow> cleanup_plan \<Rightarrow> process_target \<Rightarrow> cleanup_stage \<Rightarrow> cleanup_signal
      \<Rightarrow> cleanup_receipt \<Rightarrow> ('w, cleanup_error, string option \<times> cleanup_receipt) comp" where
  "signal env rv plan t stage sig receipt =
     (let intent = signal_intent t stage sig
      in fbind (fcall (env_should_stop env)) (\<lambda>stop.
         if stop then fnext (Some ''cleanup.drain_requested'', receipt)
         else
           fbind (ftry (env_clock_sample env) (\<lambda>e. terminal_runtime_error e receipt)) (\<lambda>clock.
           fbind (ftry (env_prepare_action env intent (wall_unix_millis clock))
                    (\<lambda>e. terminal_runtime_error e receipt)) (\<lambda>action_id.
           fbind (fcall (env_should_stop env)) (\<lambda>stop'.
           if stop' then
             fbind (complete_prepared env receipt intent action_id CancelledBeforeDelivery)
               (\<lambda>receipt'. fnext (Some ''cleanup.drain_requested'', receipt'))
           else signal_prepared env rv plan t intent action_id receipt)))))"


section \<open>One artifact\<close>

definition complete_artifact_prepared ::
    "'w cleanup_env \<Rightarrow> cleanup_receipt \<Rightarrow> artifact_action_intent \<Rightarrow> string \<Rightarrow> artifact_disposition
      \<Rightarrow> ('w, cleanup_error, cleanup_receipt) comp" where
  "complete_artifact_prepared env receipt intent action_id disposition =
     fbind (ftry (env_clock_sample env) (\<lambda>e. AttemptOpen e receipt action_id)) (\<lambda>clock.
     fbind (ftry (env_complete_artifact_action env action_id disposition (wall_unix_millis clock))
              (\<lambda>e. AttemptOpen e receipt action_id)) (\<lambda>_.
     fnext (receipt\<lparr>rcpt_artifact_actions := rcpt_artifact_actions receipt @
       [\<lparr>aa_kind = ai_kind intent, aa_artifact_fingerprint = ai_artifact_fingerprint intent,
         aa_disposition = disposition\<rparr>]\<rparr>)))"

fun artifact_failure_reason :: "artifact_disposition \<Rightarrow> string" where
  "artifact_failure_reason Removed = ''cleanup.artifact_reconciled''"
| "artifact_failure_reason AlreadyAbsent = ''cleanup.artifact_reconciled''"
| "artifact_failure_reason ArtifactIdentityMismatch = ''cleanup.artifact_identity_changed''"
| "artifact_failure_reason Referenced = ''cleanup.artifact_live_reference''"
| "artifact_failure_reason Unsafe = ''cleanup.artifact_unsafe''"
| "artifact_failure_reason ArtifactRejected = ''cleanup.artifact_rejected''"
| "artifact_failure_reason ArtifactCancelledBeforeDelivery = ''cleanup.drain_requested''"
| "artifact_failure_reason ArtifactDeliveryUnknown = ''cleanup.artifact_delivery_unknown''"

text \<open>An absent artifact is frozen again before the action is journalled. \<open>None\<close> for
  \<open>absent_revalidation\<close> with an absent artifact is the code's \<open>unreachable!\<close>; the second freeze is
  only skipped for the other two cases, so that branch returns a value no caller can see.\<close>

fun absent_disposition :: "artifact_freeze option \<Rightarrow> artifact_disposition" where
  "absent_disposition (Some FreezeAbsent) = AlreadyAbsent"
| "absent_disposition (Some (FreezeFrozen _)) = ArtifactIdentityMismatch"
| "absent_disposition (Some FreezeUnsafe) = Unsafe"
| "absent_disposition None = Unsafe"

definition artifact_delivery ::
    "'w cleanup_env \<Rightarrow> artifact_freeze \<Rightarrow> artifact_freeze option \<Rightarrow> ('w, 'r, artifact_disposition) comp" where
  "artifact_delivery env frozen absent_revalidation =
     fbind (fcall (env_should_stop env)) (\<lambda>stop.
       if stop then fnext ArtifactCancelledBeforeDelivery
       else case frozen of
              FreezeFrozen f \<Rightarrow> fcall (env_remove_artifact_exact env f)
            | FreezeAbsent \<Rightarrow> fnext (absent_disposition absent_revalidation)
            | FreezeUnsafe \<Rightarrow> fnext Unsafe)"

fun final_disposition :: "artifact_freeze \<Rightarrow> artifact_disposition \<Rightarrow> artifact_disposition" where
  "final_disposition FreezeAbsent disposition = disposition"
| "final_disposition (FreezeFrozen _) disposition = ArtifactIdentityMismatch"
| "final_disposition FreezeUnsafe disposition = Unsafe"

text \<open>\<open>execute_artifact_action\<close> from the prepared action on.\<close>

definition artifact_prepared ::
    "'w cleanup_env \<Rightarrow> cleanup_receipt \<Rightarrow> runtime_artifact_candidate \<Rightarrow> artifact_freeze
      \<Rightarrow> artifact_freeze option \<Rightarrow> string \<Rightarrow> ('w, cleanup_error, artifact_disposition \<times> cleanup_receipt) comp" where
  "artifact_prepared env receipt candidate frozen absent_revalidation action_id =
     fbind (artifact_delivery env frozen absent_revalidation) (\<lambda>disposition.
     fbind (complete_artifact_prepared env receipt (artifact_intent candidate) action_id disposition)
       (\<lambda>receipt'.
     if \<not> completed_cleanup disposition then fnext (disposition, receipt')
     else
       fbind (ftry (env_freeze_artifact env candidate) (\<lambda>e. terminal_runtime_error e receipt'))
         (\<lambda>final_freeze. fnext (final_disposition final_freeze disposition, receipt'))))"

definition execute_artifact_action ::
    "'w cleanup_env \<Rightarrow> cleanup_receipt \<Rightarrow> runtime_artifact_candidate \<Rightarrow> artifact_freeze
      \<Rightarrow> ('w, cleanup_error, artifact_disposition \<times> cleanup_receipt) comp" where
  "execute_artifact_action env receipt candidate frozen =
     (let intent = artifact_intent candidate
      in fbind (fcall (env_should_stop env)) (\<lambda>stop.
         if stop then fnext (ArtifactCancelledBeforeDelivery, receipt)
         else
           fbind (case frozen of
                    FreezeAbsent \<Rightarrow>
                      fbind (ftry (env_freeze_artifact env candidate) (\<lambda>e. terminal_runtime_error e receipt))
                        (\<lambda>again. fnext (Some again))
                  | _ \<Rightarrow> fnext None) (\<lambda>absent_revalidation.
           fbind (ftry (env_clock_sample env) (\<lambda>e. terminal_runtime_error e receipt)) (\<lambda>clock.
           fbind (ftry (env_prepare_artifact_action env intent (wall_unix_millis clock))
                    (\<lambda>e. terminal_runtime_error e receipt)) (\<lambda>action_id.
           artifact_prepared env receipt candidate frozen absent_revalidation action_id)))))"

section \<open>The executor\<close>

type_synonym cleanup_result = "cleanup_error + cleanup_receipt"

text \<open>\<open>?\<close> leaves with \<open>Err\<close>; \<open>return Ok(fail(..))\<close> leaves with a failed receipt.\<close>

abbreviation or_err :: "('w, cleanup_error, 'a) comp \<Rightarrow> ('w, cleanup_result, 'a) comp" where
  "or_err \<equiv> fexits Inl"

definition fail_with :: "cleanup_receipt \<Rightarrow> string \<Rightarrow> u32 list \<Rightarrow> ('w, cleanup_result, 'a) comp" where
  "fail_with receipt reason survivors = fexit (Inr (fail_receipt receipt reason survivors))"

definition or_fail :: "cleanup_receipt \<Rightarrow> ('w, string, 'a) comp \<Rightarrow> ('w, cleanup_result, 'a) comp" where
  "or_fail receipt = fexits (\<lambda>reason. Inr (fail_receipt receipt reason []))"

definition wait_or_drain ::
    "'w cleanup_env \<Rightarrow> duration \<Rightarrow> cleanup_receipt \<Rightarrow> u32 list \<Rightarrow> ('w, cleanup_result, unit) comp" where
  "wait_or_drain env d receipt survivors =
     fbind (or_err (wait_interrupted env d receipt)) (\<lambda>interrupted.
       if interrupted then fail_with receipt ''cleanup.drain_requested'' survivors else fnext ())"

definition signal_or_fail ::
    "'w cleanup_env \<Rightarrow> revalidator \<Rightarrow> cleanup_plan \<Rightarrow> process_target \<Rightarrow> cleanup_stage \<Rightarrow> cleanup_signal
      \<Rightarrow> survivors \<Rightarrow> cleanup_receipt \<Rightarrow> ('w, cleanup_result, cleanup_receipt) comp" where
  "signal_or_fail env rv plan t stage sig survivors receipt =
     fbind (or_err (signal env rv plan t stage sig receipt)) (\<lambda>(reason, receipt').
       case reason of
         Some r \<Rightarrow> fail_with receipt' r (bt_keys survivors)
       | None \<Rightarrow> fnext receipt')"

definition validated_snapshot ::
    "'w cleanup_env \<Rightarrow> revalidator \<Rightarrow> cleanup_plan \<Rightarrow> cleanup_receipt \<Rightarrow> ('w, cleanup_result, survivors) comp" where
  "validated_snapshot env rv plan receipt =
     fbind (or_err (snapshot_or_receipt_error env receipt)) (\<lambda>snap.
       or_fail receipt (validate_stage env rv snap plan))"

definition initial_receipt :: "cleanup_plan \<Rightarrow> cleanup_receipt" where
  "initial_receipt plan =
     \<lparr>rcpt_incident_id = plan_incident_id plan, rcpt_state = Reclaiming, rcpt_reason_id = None,
      rcpt_actions = [], rcpt_artifact_actions = [], rcpt_survivor_pids = [],
      rcpt_revival_checks_completed = 0,
      rcpt_resources = \<lparr>res_before = None, res_after = None,
                        res_estimated_reclaimed_memory_bytes = None\<rparr>\<rparr>"

text \<open>The stop check, the first snapshot, its validation, and the freeze of every artifact.\<close>

definition freeze_artifacts ::
    "'w cleanup_env \<Rightarrow> cleanup_plan \<Rightarrow> cleanup_receipt
      \<Rightarrow> ('w, cleanup_result, (runtime_artifact_candidate \<times> artifact_freeze) list) comp" where
  "freeze_artifacts env plan receipt =
     ffold (\<lambda>candidate frozen_artifacts.
        fbind (or_err (ftry (env_freeze_artifact env candidate) (\<lambda>e. terminal_runtime_error e receipt)))
          (\<lambda>frozen. fnext (frozen_artifacts @ [(candidate, frozen)])))
       (plan_artifacts plan) []"

definition execute_begin ::
    "'w cleanup_env \<Rightarrow> revalidator \<Rightarrow> cleanup_plan
      \<Rightarrow> ('w, cleanup_result, cleanup_receipt \<times> survivors \<times> (runtime_artifact_candidate \<times> artifact_freeze) list) comp" where
  "execute_begin env rv plan =
     (let receipt = initial_receipt plan
      in fbind (fcall (env_should_stop env)) (\<lambda>stop.
         if stop then fail_with receipt ''cleanup.drain_requested'' []
         else
           fbind (or_err (snapshot_or_receipt_error env receipt)) (\<lambda>initial.
           let receipt = receipt\<lparr>rcpt_resources :=
                 (rcpt_resources receipt)\<lparr>res_before := Some (resource_snapshot initial plan)\<rparr>\<rparr>
           in fbind (or_fail receipt (validate_stage env rv initial plan)) (\<lambda>survivors.
              fbind (freeze_artifacts env plan receipt) (\<lambda>frozen.
              fnext (receipt, survivors, frozen))))))"

text \<open>One TERM stage: the loop over \<open>plan.targets\<close> with the stage's own selection, the grace
  period and the next validated snapshot. The code writes it out twice, for the primary targets
  (\<open>primary_pids\<close>) and for every survivor not yet attempted.\<close>

definition term_loop ::
    "'w cleanup_env \<Rightarrow> revalidator \<Rightarrow> cleanup_plan \<Rightarrow> cleanup_stage \<Rightarrow> (u32 list \<Rightarrow> u32 \<Rightarrow> bool) \<Rightarrow> survivors
      \<Rightarrow> cleanup_receipt \<times> u32 list \<Rightarrow> ('w, cleanup_result, cleanup_receipt \<times> u32 list) comp" where
  "term_loop env rv plan stage selected survivors =
     ffold (\<lambda>t (receipt, term_attempted).
        if bt_contains_key survivors (target_pid t) \<and> selected term_attempted (target_pid t) then
          fbind (signal_or_fail env rv plan t stage Term survivors receipt) (\<lambda>receipt'.
            fnext (receipt', bs_insert (target_pid t) term_attempted))
        else fnext (receipt, term_attempted))
       (plan_targets plan)"

definition term_stage ::
    "'w cleanup_env \<Rightarrow> revalidator \<Rightarrow> cleanup_plan \<Rightarrow> cleanup_stage \<Rightarrow> (u32 list \<Rightarrow> u32 \<Rightarrow> bool) \<Rightarrow> duration
      \<Rightarrow> cleanup_receipt \<times> u32 list \<times> survivors
      \<Rightarrow> ('w, cleanup_result, cleanup_receipt \<times> u32 list \<times> survivors) comp" where
  "term_stage env rv plan stage selected grace = (\<lambda>(receipt, term_attempted, survivors).
     if survivors = [] then fnext (receipt, term_attempted, survivors)
     else
       fbind (term_loop env rv plan stage selected survivors (receipt, term_attempted))
         (\<lambda>(receipt', term_attempted').
       fbind (wait_or_drain env grace receipt' (bt_keys survivors)) (\<lambda>_.
       fbind (validated_snapshot env rv plan receipt') (\<lambda>survivors'.
       fnext (receipt', term_attempted', survivors')))))"

definition execute_primary ::
    "'w cleanup_env \<Rightarrow> revalidator \<Rightarrow> cleanup_plan \<Rightarrow> cleanup_policy
      \<Rightarrow> cleanup_receipt \<times> u32 list \<times> survivors
      \<Rightarrow> ('w, cleanup_result, cleanup_receipt \<times> u32 list \<times> survivors) comp" where
  "execute_primary env rv plan policy =
     (let primary_pids = bs_of_list (map target_pid (primary_targets plan))
      in term_stage env rv plan PrimaryTerm (\<lambda>_ pid. pid \<in> set primary_pids) (primary_term_grace policy))"

definition execute_member ::
    "'w cleanup_env \<Rightarrow> revalidator \<Rightarrow> cleanup_plan \<Rightarrow> cleanup_policy
      \<Rightarrow> cleanup_receipt \<times> u32 list \<times> survivors
      \<Rightarrow> ('w, cleanup_result, cleanup_receipt \<times> u32 list \<times> survivors) comp" where
  "execute_member env rv plan policy =
     term_stage env rv plan MemberTerm (\<lambda>term_attempted pid. pid \<notin> set term_attempted)
       (member_term_grace policy)"

definition kill_loop ::
    "'w cleanup_env \<Rightarrow> revalidator \<Rightarrow> cleanup_plan \<Rightarrow> u32 list \<Rightarrow> survivors \<Rightarrow> cleanup_receipt
      \<Rightarrow> ('w, cleanup_result, cleanup_receipt) comp" where
  "kill_loop env rv plan term_attempted survivors =
     ffold (\<lambda>t receipt.
        if bt_contains_key survivors (target_pid t) then
          (if target_pid t \<notin> set term_attempted then
             fail_with receipt ''cleanup.kill_without_term'' (bt_keys survivors)
           else signal_or_fail env rv plan t ExactKill Kill survivors receipt)
        else fnext receipt)
       (plan_targets plan)"

definition execute_kill ::
    "'w cleanup_env \<Rightarrow> revalidator \<Rightarrow> cleanup_plan \<Rightarrow> cleanup_policy
      \<Rightarrow> cleanup_receipt \<times> u32 list \<times> survivors \<Rightarrow> ('w, cleanup_result, cleanup_receipt) comp" where
  "execute_kill env rv plan policy = (\<lambda>(receipt, term_attempted, survivors).
     if survivors = [] then fnext receipt
     else
       fbind (kill_loop env rv plan term_attempted survivors receipt) (\<lambda>receipt'.
       fbind (wait_or_drain env (kill_grace policy) receipt' (bt_keys survivors)) (\<lambda>_.
       fbind (or_err (snapshot_or_receipt_error env receipt')) (\<lambda>snap.
       fbind (or_fail receipt' (observe_exact_target_liveness env snap plan)) (\<lambda>observation.
       if etl_survivors observation \<noteq> [] then
         fail_with receipt' ''cleanup.survivors_after_kill'' (bt_keys (etl_survivors observation))
       else fnext receipt')))))"

text \<open>The revival windows. The last snapshot found \<open>Gone\<close> is carried on.\<close>

definition revived :: "cleanup_receipt \<Rightarrow> string \<Rightarrow> ('w, cleanup_result, 'a) comp" where
  "revived receipt reason =
     fexit (Inr (receipt\<lparr>rcpt_state := Revived, rcpt_reason_id := Some reason\<rparr>))"

definition revival_window ::
    "'w cleanup_env \<Rightarrow> revalidator \<Rightarrow> cleanup_plan \<Rightarrow> duration \<Rightarrow> cleanup_receipt \<times> snapshot option
      \<Rightarrow> ('w, cleanup_result, cleanup_receipt \<times> snapshot option) comp" where
  "revival_window env rv plan window = (\<lambda>(receipt, terminal_snapshot).
     fbind (wait_or_drain env window receipt []) (\<lambda>_.
     fbind (or_err (snapshot_or_receipt_error env receipt)) (\<lambda>snap.
     let receipt = receipt\<lparr>rcpt_revival_checks_completed := rcpt_revival_checks_completed receipt + 1\<rparr>;
         validation = rv snap plan RevivalCheck;
         after = set_resource_after receipt (resource_snapshot snap plan)
     in case rv_status validation of
          Gone \<Rightarrow> fnext (receipt, Some snap)
        | ReappearedSession \<Rightarrow> revived after (rv_reason_id validation)
        | Eligible \<Rightarrow> revived after (rv_reason_id validation)
        | Blocked \<Rightarrow> fail_with after (rv_reason_id validation) [])))"

definition execute_revival ::
    "'w cleanup_env \<Rightarrow> revalidator \<Rightarrow> cleanup_plan \<Rightarrow> cleanup_policy \<Rightarrow> cleanup_receipt
      \<Rightarrow> ('w, cleanup_result, cleanup_receipt \<times> snapshot option) comp" where
  "execute_revival env rv plan policy receipt =
     ffold (revival_window env rv plan) (revival_windows policy) (receipt, None)"

text \<open>The proof that the tree is gone in one snapshot; the code writes it out after the revival
  windows and again after the artifacts, with another reason.\<close>

definition prove_tree_gone ::
    "'w cleanup_env \<Rightarrow> revalidator \<Rightarrow> cleanup_plan \<Rightarrow> string \<Rightarrow> snapshot \<Rightarrow> cleanup_receipt
      \<Rightarrow> ('w, cleanup_result, cleanup_receipt) comp" where
  "prove_tree_gone env rv plan not_gone snap receipt =
     fbind (or_fail receipt (observe_exact_target_liveness env snap plan)) (\<lambda>liveness.
     let receipt = set_resource_after receipt (resource_snapshot snap plan)
     in case terminal_revalidation rv snap plan of
          TerminalGone \<Rightarrow>
            if etl_survivors liveness \<noteq> [] then
              fail_with receipt not_gone (bt_keys (etl_survivors liveness))
            else fnext receipt
        | TerminalRevived reason \<Rightarrow> revived receipt reason
        | TerminalBlocked reason \<Rightarrow> fail_with receipt reason [])"

definition execute_terminal ::
    "'w cleanup_env \<Rightarrow> revalidator \<Rightarrow> cleanup_plan \<Rightarrow> cleanup_receipt \<times> snapshot option
      \<Rightarrow> ('w, cleanup_result, cleanup_receipt) comp" where
  "execute_terminal env rv plan = (\<lambda>(receipt, terminal_snapshot).
     fbind (case terminal_snapshot of
              Some snap \<Rightarrow> fnext snap
            | None \<Rightarrow> or_err (snapshot_or_receipt_error env receipt)) (\<lambda>snap.
     prove_tree_gone env rv plan ''cleanup.terminal_tree_not_gone'' snap receipt))"

definition execute_artifacts ::
    "'w cleanup_env \<Rightarrow> (runtime_artifact_candidate \<times> artifact_freeze) list \<Rightarrow> cleanup_receipt
      \<Rightarrow> ('w, cleanup_result, cleanup_receipt) comp" where
  "execute_artifacts env =
     ffold (\<lambda>(candidate, frozen) receipt.
        fbind (or_err (execute_artifact_action env receipt candidate frozen)) (\<lambda>(disposition, receipt').
          if \<not> completed_cleanup disposition then
            fail_with receipt' (artifact_failure_reason disposition) []
          else fnext receipt'))"

definition execute_post_artifact ::
    "'w cleanup_env \<Rightarrow> revalidator \<Rightarrow> cleanup_plan \<Rightarrow> cleanup_receipt \<Rightarrow> ('w, cleanup_result, cleanup_receipt) comp" where
  "execute_post_artifact env rv plan receipt =
     (if plan_artifacts plan = [] then fnext receipt
      else
        fbind (or_err (snapshot_or_receipt_error env receipt)) (\<lambda>post_artifact.
        prove_tree_gone env rv plan ''cleanup.post_artifact_tree_not_gone'' post_artifact receipt))"

definition execute_finish :: "cleanup_receipt \<Rightarrow> cleanup_receipt" where
  "execute_finish receipt =
     (let receipt = receipt\<lparr>rcpt_state := Cleared\<rparr>
      in if ended_without_intervention receipt then
           receipt\<lparr>rcpt_resources := (rcpt_resources receipt)
                     \<lparr>res_estimated_reclaimed_memory_bytes := None\<rparr>,
                   rcpt_reason_id := Some ''cleanup.tree_gone_without_signal''\<rparr>
         else if rcpt_artifact_actions receipt = [] then
           receipt\<lparr>rcpt_reason_id := Some ''cleanup.tree_gone_no_revival''\<rparr>
         else receipt\<lparr>rcpt_reason_id := Some ''cleanup.tree_gone_artifacts_reconciled''\<rparr>)"

definition execute_flow ::
    "'w cleanup_env \<Rightarrow> revalidator \<Rightarrow> cleanup_plan \<Rightarrow> cleanup_policy \<Rightarrow> ('w, cleanup_result, cleanup_receipt) comp" where
  "execute_flow env rv plan policy =
     fbind (execute_begin env rv plan) (\<lambda>(receipt, survivors, frozen_artifacts).
     fbind (execute_primary env rv plan policy (receipt, [], survivors)) (\<lambda>after_primary.
     fbind (execute_member env rv plan policy after_primary) (\<lambda>after_member.
     fbind (execute_kill env rv plan policy after_member) (\<lambda>receipt.
     fbind (execute_revival env rv plan policy receipt) (\<lambda>after_revival.
     fbind (execute_terminal env rv plan after_revival) (\<lambda>receipt.
     fbind (execute_artifacts env frozen_artifacts receipt) (\<lambda>receipt.
     fbind (execute_post_artifact env rv plan receipt) (\<lambda>receipt.
     fnext (execute_finish receipt)))))))))"

definition execute ::
    "'w cleanup_env \<Rightarrow> revalidator \<Rightarrow> cleanup_plan \<Rightarrow> cleanup_policy \<Rightarrow> 'w \<Rightarrow> cleanup_result \<times> 'w" where
  "execute env rv plan policy w =
     (case execute_flow env rv plan policy w of
        (Next receipt, w') \<Rightarrow> (Inr receipt, w')
      | (Exit result, w') \<Rightarrow> (result, w'))"

end
