(* ===== verification/Core_Executor_Trace.thy ===== *)
theory Core_Executor_Trace
  imports Core_Executor
begin

text \<open>
  What the cleanup executor does to its environment. The environment's operations are wrapped so
  that every call is logged with its result (\<open>traced\<close>); the wrapped run returns what the original
  run returns (\<open>execute_traced\<close>). The properties of the executor are then statements about the log,
  newest event first, and they hold for every environment.
\<close>

section \<open>Weakest preconditions\<close>

definition fwp :: "('w, 'r, 'a) comp \<Rightarrow> ('a \<Rightarrow> 'w \<Rightarrow> bool) \<Rightarrow> ('r \<Rightarrow> 'w \<Rightarrow> bool) \<Rightarrow> 'w \<Rightarrow> bool" where
  "fwp m Q E w = (case m w of (Next a, w') \<Rightarrow> Q a w' | (Exit r, w') \<Rightarrow> E r w')"

named_theorems wp_simps

lemma fspec_wp: "fspec P m Q E \<longleftrightarrow> (\<forall>w. P w \<longrightarrow> fwp m Q E w)"
  by (simp add: fspec_def fwp_def)

lemma fspecI_wp: "(\<And>w. P w \<Longrightarrow> fwp m Q E w) \<Longrightarrow> fspec P m Q E"
  by (simp add: fspec_wp)

lemma fwp_next [wp_simps]: "fwp (fnext a) Q E = Q a"
  by (simp add: fwp_def fnext_def fun_eq_iff)

lemma fwp_exit [wp_simps]: "fwp (fexit r) Q E = E r"
  by (simp add: fwp_def fexit_def fun_eq_iff)

lemma fwp_bind [wp_simps]: "fwp (fbind m f) Q E = fwp m (\<lambda>a. fwp (f a) Q E) E"
  by (auto simp: fwp_def fbind_def fun_eq_iff split: prod.splits flow.splits)

lemma fwp_exits [wp_simps]: "fwp (fexits h m) Q E = fwp m Q (\<lambda>q. E (h q))"
  by (auto simp: fwp_def fexits_def fun_eq_iff split: prod.splits flow.splits)

lemma fwp_catch [wp_simps]: "fwp (fcatch m) Q E = fwp m (\<lambda>a. Q (Inr a)) (\<lambda>q. Q (Inl q))"
  by (auto simp: fwp_def fcatch_def fun_eq_iff split: prod.splits flow.splits)

lemma fwp_mono:
  "fwp m Q' E' w \<Longrightarrow> (\<And>a w. Q' a w \<Longrightarrow> Q a w) \<Longrightarrow> (\<And>r w. E' r w \<Longrightarrow> E r w) \<Longrightarrow> fwp m Q E w"
  by (auto simp: fwp_def split: prod.splits flow.splits)

lemma fwp_spec:
  assumes "fspec P m Q' E'" "P w" "\<And>a w. Q' a w \<Longrightarrow> Q a w" "\<And>r w. E' r w \<Longrightarrow> E r w"
  shows "fwp m Q E w"
  using assms by (auto simp: fspec_wp intro: fwp_mono)

section \<open>Events\<close>

datatype event =
    EvStop bool
  | EvSnapshot "runtime_failure + snapshot"
  | EvLookup u32 "runtime_failure + process_record option"
  | EvClock "runtime_failure + clock_sample"
  | EvSignal process_identity cleanup_signal signal_disposition
  | EvWait duration "runtime_failure + wait_outcome"
  | EvFreeze runtime_artifact_candidate "runtime_failure + artifact_freeze"
  | EvRemove frozen_runtime_artifact artifact_disposition
  | EvPrepare cleanup_action_intent u64 "runtime_failure + string"
  | EvComplete string signal_disposition u64 "runtime_failure + unit"
  | EvPrepareArtifact artifact_action_intent u64 "runtime_failure + string"
  | EvCompleteArtifact string artifact_disposition u64 "runtime_failure + unit"

type_synonym event_trace = "event list"

definition logged :: "('w \<Rightarrow> 'a \<times> 'w) \<Rightarrow> ('a \<Rightarrow> event) \<Rightarrow> 'w \<times> event_trace \<Rightarrow> 'a \<times> ('w \<times> event_trace)" where
  "logged f mk = (\<lambda>(w, tr). case f w of (a, w') \<Rightarrow> (a, (w', mk a # tr)))"

definition traced :: "'w cleanup_env \<Rightarrow> ('w \<times> event_trace) cleanup_env" where
  "traced env =
     \<lparr>env_snapshot = logged (env_snapshot env) EvSnapshot,
      env_lookup_process = (\<lambda>p. logged (env_lookup_process env p) (EvLookup p)),
      env_clock_sample = logged (env_clock_sample env) EvClock,
      env_signal_exact = (\<lambda>i s. logged (env_signal_exact env i s) (EvSignal i s)),
      env_wait_until = (\<lambda>d. logged (env_wait_until env d) (EvWait d)),
      env_freeze_artifact = (\<lambda>c. logged (env_freeze_artifact env c) (EvFreeze c)),
      env_remove_artifact_exact = (\<lambda>f. logged (env_remove_artifact_exact env f) (EvRemove f)),
      env_prepare_action = (\<lambda>i at. logged (env_prepare_action env i at) (EvPrepare i at)),
      env_complete_action = (\<lambda>a d at. logged (env_complete_action env a d at) (EvComplete a d at)),
      env_prepare_artifact_action =
        (\<lambda>i at. logged (env_prepare_artifact_action env i at) (EvPrepareArtifact i at)),
      env_complete_artifact_action =
        (\<lambda>a d at. logged (env_complete_artifact_action env a d at) (EvCompleteArtifact a d at)),
      env_should_stop = logged (env_should_stop env) EvStop\<rparr>"

lemma traced_sel [wp_simps]:
  "env_snapshot (traced env) = logged (env_snapshot env) EvSnapshot"
  "env_lookup_process (traced env) p = logged (env_lookup_process env p) (EvLookup p)"
  "env_clock_sample (traced env) = logged (env_clock_sample env) EvClock"
  "env_signal_exact (traced env) i s = logged (env_signal_exact env i s) (EvSignal i s)"
  "env_wait_until (traced env) d = logged (env_wait_until env d) (EvWait d)"
  "env_freeze_artifact (traced env) c = logged (env_freeze_artifact env c) (EvFreeze c)"
  "env_remove_artifact_exact (traced env) f = logged (env_remove_artifact_exact env f) (EvRemove f)"
  "env_prepare_action (traced env) ai at = logged (env_prepare_action env ai at) (EvPrepare ai at)"
  "env_complete_action (traced env) a d' at = logged (env_complete_action env a d' at) (EvComplete a d' at)"
  "env_prepare_artifact_action (traced env) fi at =
     logged (env_prepare_artifact_action env fi at) (EvPrepareArtifact fi at)"
  "env_complete_artifact_action (traced env) a fd at =
     logged (env_complete_artifact_action env a fd at) (EvCompleteArtifact a fd at)"
  "env_should_stop (traced env) = logged (env_should_stop env) EvStop"
  by (simp_all add: traced_def)

text \<open>Nothing is known about the result of an operation of the environment, only that it is logged.\<close>

lemma fwp_call_logged [intro]:
  "(\<And>a w'. Q a (w', mk a # tr)) \<Longrightarrow> fwp (fcall (logged f mk)) Q E (w, tr)"
  by (simp add: fwp_def fcall_def logged_def split: prod.split)

lemma fwp_try_logged [intro]:
  assumes "\<And>a w'. Q a (w', mk (Inr a) # tr)" "\<And>e w'. E (h e) (w', mk (Inl e) # tr)"
  shows "fwp (ftry (logged f mk) h) Q E (w, tr)"
  unfolding ftry_def fwp_bind
  by (rule fwp_call_logged) (auto simp: wp_simps assms split: sum.split)

section \<open>The log changes nothing\<close>

text \<open>The wrapped computation does what the original does, and only adds to the log.\<close>

definition erases :: "('w, 'r, 'a) comp \<Rightarrow> ('w \<times> event_trace, 'r, 'a) comp \<Rightarrow> bool" where
  "erases m m' \<longleftrightarrow> (\<forall>w tr. \<exists>log. m' (w, tr) = (fst (m w), (snd (m w), log @ tr)))"

named_theorems erases_intros

lemma erasesD: "erases m m' \<Longrightarrow> m w = (x, w1) \<Longrightarrow> \<exists>log. m' (w, tr) = (x, (w1, log @ tr))"
  unfolding erases_def by (metis fst_conv snd_conv)

lemma erasesI:
  "(\<And>w tr x w1. m w = (x, w1) \<Longrightarrow> \<exists>log. m' (w, tr) = (x, (w1, log @ tr))) \<Longrightarrow> erases m m'"
  unfolding erases_def by (metis surjective_pairing)

lemma erases_next [erases_intros]: "erases (fnext a) (fnext a)"
  by (simp add: erases_def fnext_def)

lemma erases_exit [erases_intros]: "erases (fexit r) (fexit r)"
  by (simp add: erases_def fexit_def)

lemma erases_call [erases_intros]: "erases (fcall f) (fcall (logged f mk))"
proof (rule erasesI)
  fix w tr x w1 assume "fcall f w = (x, w1)"
  then obtain a where "f w = (a, w1)" "x = Next a" by (auto simp: fcall_def split: prod.splits)
  then have "fcall (logged f mk) (w, tr) = (x, w1, [mk a] @ tr)"
    by (simp add: fcall_def logged_def)
  then show "\<exists>log. fcall (logged f mk) (w, tr) = (x, w1, log @ tr)" ..
qed

lemma erases_bind [erases_intros]:
  assumes "erases m m'" "\<And>a. erases (f a) (f' a)"
  shows "erases (fbind m f) (fbind m' f')"
proof (rule erasesI)
  fix w tr y w2 assume run: "fbind m f w = (y, w2)"
  obtain x w1 where m: "m w = (x, w1)" by fastforce
  then obtain log where m': "m' (w, tr) = (x, (w1, log @ tr))" using erasesD [OF assms(1)] by blast
  show "\<exists>log. fbind m' f' (w, tr) = (y, w2, log @ tr)"
  proof (cases x)
    case (Exit r)
    then show ?thesis using run by (auto simp: fbind_def m m')
  next
    case (Next a)
    then have "f a w1 = (y, w2)" using run by (simp add: fbind_def m)
    then obtain log2 where "f' a (w1, log @ tr) = (y, w2, (log2 @ log) @ tr)"
      using erasesD [OF assms(2)] by fastforce
    then show ?thesis unfolding fbind_def m' Next by auto
  qed
qed

lemma erases_exits [erases_intros]:
  assumes "erases m m'"
  shows "erases (fexits h m) (fexits h m')" "erases (fcatch m) (fcatch m')"
proof -
  have ex: "\<exists>log. fexits h m' (w, tr) = (fst (fexits h m w), snd (fexits h m w), log @ tr)"
    "\<exists>log. fcatch m' (w, tr) = (fst (fcatch m w), snd (fcatch m w), log @ tr)" for w tr
  proof -
    obtain x w1 where m: "m w = (x, w1)" by fastforce
    then obtain log where m': "m' (w, tr) = (x, (w1, log @ tr))" using erasesD [OF assms] by blast
    show "\<exists>log. fexits h m' (w, tr) = (fst (fexits h m w), snd (fexits h m w), log @ tr)"
      "\<exists>log. fcatch m' (w, tr) = (fst (fcatch m w), snd (fcatch m w), log @ tr)"
      by (cases x; simp add: fexits_def fcatch_def m m')+
  qed
  show "erases (fexits h m) (fexits h m')" "erases (fcatch m) (fcatch m')"
    by (rule erasesI, metis ex fst_conv snd_conv)+
qed

lemma erases_ffold [erases_intros]:
  "(\<And>x s. erases (f x s) (f' x s)) \<Longrightarrow> erases (ffold f xs s) (ffold f' xs s)"
  by (induction xs arbitrary: s) (auto intro!: erases_intros)

lemma erases_try [erases_intros]: "erases (ftry f h) (ftry (logged f mk) h)"
  unfolding ftry_def by (intro erases_intros) (auto intro: erases_intros split: sum.split)

lemma erases_if [erases_intros]:
  "erases m m' \<Longrightarrow> erases n n' \<Longrightarrow> erases (if b then m else n) (if b then m' else n')"
  by simp

lemma erases_option [erases_intros]:
  "erases m m' \<Longrightarrow> (\<And>x. erases (f x) (f' x)) \<Longrightarrow>
   erases (case z of None \<Rightarrow> m | Some x \<Rightarrow> f x) (case z of None \<Rightarrow> m' | Some x \<Rightarrow> f' x)"
  by (cases z) simp_all

lemma erases_sum [erases_intros]:
  "(\<And>e. erases (m e) (m' e)) \<Longrightarrow> (\<And>x. erases (f x) (f' x)) \<Longrightarrow>
   erases (case z of Inl e \<Rightarrow> m e | Inr x \<Rightarrow> f x) (case z of Inl e \<Rightarrow> m' e | Inr x \<Rightarrow> f' x)"
  by (cases z) simp_all

lemma erases_prod [erases_intros]:
  "(\<And>x y. erases (f x y) (f' x y)) \<Longrightarrow>
   erases (case z of (x, y) \<Rightarrow> f x y) (case z of (x, y) \<Rightarrow> f' x y)"
  "(\<And>x y. erases (g x y s) (g' x y s)) \<Longrightarrow>
   erases ((case z of (x, y) \<Rightarrow> g x y) s) ((case z of (x, y) \<Rightarrow> g' x y) s)"
  by (cases z; simp)+

lemma erases_helpers [erases_intros]:
  "erases (fail_with r q l) (fail_with r q l)"
  "erases (revived r q) (revived r q)"
  "erases m m' \<Longrightarrow> erases (or_fail r m) (or_fail r m')"
  unfolding fail_with_def revived_def or_fail_def by (intro erases_intros; assumption)+

lemma erases_liveness [erases_intros]:
  "erases (observe_exact_target_liveness env snap plan)
     (observe_exact_target_liveness (traced env) snap plan)"
  unfolding observe_exact_target_liveness_def observe_target_def wp_simps
  by (intro erases_intros)

lemma erases_validate_stage [erases_intros]:
  "erases (validate_stage env rv snap plan) (validate_stage (traced env) rv snap plan)"
  unfolding validate_stage_def Let_def
  by (intro erases_intros) (auto intro: erases_intros split: revalidation_status.split)

lemma erases_snapshot [erases_intros]:
  "erases (snapshot_or_receipt_error env r) (snapshot_or_receipt_error (traced env) r)"
  "erases (validated_snapshot env rv plan r) (validated_snapshot (traced env) rv plan r)"
  unfolding validated_snapshot_def snapshot_or_receipt_error_def wp_simps
  by (intro erases_intros)+

lemma erases_wait [erases_intros]:
  "erases (wait_or_drain env d r l) (wait_or_drain (traced env) d r l)"
  unfolding wait_or_drain_def wait_interrupted_def wp_simps
  by (intro erases_intros) (auto intro: erases_intros split: wait_outcome.split)

lemma erases_complete [erases_intros]:
  "erases (complete_prepared env r i a d) (complete_prepared (traced env) r i a d)"
  "erases (complete_artifact_prepared env r fi a fd) (complete_artifact_prepared (traced env) r fi a fd)"
  unfolding complete_prepared_def complete_artifact_prepared_def wp_simps
  by (intro erases_intros)+

lemma erases_signal [erases_intros]:
  "erases (signal_or_fail env rv plan t stage sig surv r) (signal_or_fail (traced env) rv plan t stage sig surv r)"
  unfolding signal_or_fail_def signal_def signal_prepared_def Let_def wp_simps
  by (intro erases_intros)

lemma erases_execute_artifact_action [erases_intros]:
  "erases (execute_artifact_action env r c f) (execute_artifact_action (traced env) r c f)"
  unfolding execute_artifact_action_def artifact_prepared_def artifact_delivery_def Let_def wp_simps
  by (intro erases_intros) (cases f; simp; intro erases_intros)+

lemma erases_begin [erases_intros]:
  "erases (execute_begin env rv plan) (execute_begin (traced env) rv plan)"
  unfolding execute_begin_def freeze_artifacts_def Let_def wp_simps
  by (intro erases_intros)

lemma erases_stages [erases_intros]:
  "erases (term_stage env rv plan stage sel d x) (term_stage (traced env) rv plan stage sel d x)"
  "erases (execute_kill env rv plan policy x) (execute_kill (traced env) rv plan policy x)"
  unfolding term_stage_def term_loop_def execute_kill_def kill_loop_def wp_simps
  by (intro erases_intros)+

lemma erases_terminal [erases_intros]:
  "erases (revival_window env rv plan d y) (revival_window (traced env) rv plan d y)"
  "erases (prove_tree_gone env rv plan q snap r) (prove_tree_gone (traced env) rv plan q snap r)"
  unfolding revival_window_def prove_tree_gone_def Let_def
  by (intro erases_intros; auto intro: erases_intros
        split: revalidation_status.split terminal_revalidation_result.split)+

lemma erases_execute_flow:
  "erases (execute_flow env rv plan policy) (execute_flow (traced env) rv plan policy)"
  unfolding execute_flow_def execute_primary_def execute_member_def execute_revival_def
    execute_terminal_def execute_artifacts_def execute_post_artifact_def Let_def
  by (intro erases_intros)

lemma execute_traced_erases:
  "execute env rv plan policy w = (x, w1) \<Longrightarrow>
    \<exists>log. execute (traced env) rv plan policy (w, tr) = (x, (w1, log @ tr))"
proof -
  obtain y w2 where m: "execute_flow env rv plan policy w = (y, w2)" by fastforce
  then obtain log where m': "execute_flow (traced env) rv plan policy (w, tr) = (y, (w2, log @ tr))"
    using erasesD [OF erases_execute_flow m, of tr] by blast
  assume "execute env rv plan policy w = (x, w1)"
  then show "\<exists>log. execute (traced env) rv plan policy (w, tr) = (x, (w1, log @ tr))"
    by (cases y) (simp_all add: execute_def m m')
qed

text \<open>What is in the log stays in it.\<close>

lemma fspec_frame:
  assumes "erases m m'" "fspec P m' Q E" and keep: "\<And>tr log. K tr \<Longrightarrow> K (log @ tr)"
  shows "fspec (\<lambda>w. P w \<and> K (snd w)) m' (\<lambda>a w. Q a w \<and> K (snd w)) (\<lambda>r w. E r w \<and> K (snd w))"
proof (rule fspecI_wp)
  fix w assume pre: "P w \<and> K (snd w)"
  obtain v tr where w: "w = (v, tr)" by fastforce
  obtain x v1 where "m v = (x, v1)" by fastforce
  then obtain log where run: "m' (v, tr) = (x, v1, log @ tr)" using erasesD [OF assms(1)] by blast
  have "fwp m' Q E w" using assms(2) pre by (simp add: fspec_wp w)
  then show "fwp m' (\<lambda>a w. Q a w \<and> K (snd w)) (\<lambda>r w. E r w \<and> K (snd w)) w"
    using pre keep by (auto simp: fwp_def run w split: flow.splits)
qed

end
