(* ===== verification/Core_Executor_Safety.thy ===== *)
theory Core_Executor_Safety
  imports Core_Executor_Trace
begin

text \<open>
  The safety properties of the cleanup executor, stated on the log of its calls: what must have
  happened before a signal or a removal (\<open>permitted\<close>), how the journal and the receipt agree
  (\<open>journal\<close>), and what a terminal receipt proves.
\<close>

section \<open>Reading a log\<close>

fun lookup_event :: "event \<Rightarrow> bool" where
  "lookup_event (EvLookup _ _) = True"
| "lookup_event _ = False"

definition quiet :: "event_trace \<Rightarrow> bool" where
  "quiet tr \<longleftrightarrow> EvStop True \<notin> set tr"

fun removal_event :: "event \<Rightarrow> bool" where
  "removal_event (EvRemove _ _) = True"
| "removal_event _ = False"

text \<open>The journal as the log shows it: the prepared action that is still open, and the completed
  actions in order.\<close>

datatype open_action =
    NoAction | OpenSignal string cleanup_action_intent | OpenArtifact string artifact_action_intent

fun open_id :: "open_action \<Rightarrow> string option" where
  "open_id NoAction = None"
| "open_id (OpenSignal a _) = Some a"
| "open_id (OpenArtifact a _) = Some a"

type_synonym journal_view = "open_action \<times> cleanup_action list \<times> artifact_action list"

definition action_of :: "cleanup_action_intent \<Rightarrow> signal_disposition \<Rightarrow> cleanup_action" where
  "action_of i d = \<lparr>action_stage = intent_stage i, action_pid = intent_pid i,
     action_identity_fingerprint = intent_identity_fingerprint i,
     action_signal = intent_signal i, action_disposition = d\<rparr>"

definition artifact_action_of :: "artifact_action_intent \<Rightarrow> artifact_disposition \<Rightarrow> artifact_action" where
  "artifact_action_of i d = \<lparr>aa_kind = ai_kind i, aa_artifact_fingerprint = ai_artifact_fingerprint i,
     aa_disposition = d\<rparr>"

fun journal_step :: "event \<Rightarrow> journal_view \<Rightarrow> journal_view" where
  "journal_step (EvPrepare i at (Inr a)) (_, xs, ys) = (OpenSignal a i, xs, ys)"
| "journal_step (EvComplete a d at (Inr ())) (OpenSignal b i, xs, ys) =
     (if a = b then (NoAction, xs @ [action_of i d], ys) else (OpenSignal b i, xs, ys))"
| "journal_step (EvPrepareArtifact i at (Inr a)) (_, xs, ys) = (OpenArtifact a i, xs, ys)"
| "journal_step (EvCompleteArtifact a d at (Inr ())) (OpenArtifact b i, xs, ys) =
     (if a = b then (NoAction, xs, ys @ [artifact_action_of i d]) else (OpenArtifact b i, xs, ys))"
| "journal_step _ v = v"

fun journal :: "event_trace \<Rightarrow> journal_view" where
  "journal [] = (NoAction, [], [])"
| "journal (e # tr) = journal_step e (journal tr)"

section \<open>When an effect is permitted\<close>

text \<open>Every target is either present in the snapshot under its exact identity, or absent from it
  and then looked up and not found.\<close>

definition exactly_present :: "snapshot \<Rightarrow> process_target \<Rightarrow> bool" where
  "exactly_present snap t \<longleftrightarrow> (\<exists>p\<in>set (processes snap). exact_match (target_identity t) (identity p))"

definition proved_absent :: "snapshot \<Rightarrow> event_trace \<Rightarrow> process_target \<Rightarrow> bool" where
  "proved_absent snap looks t \<longleftrightarrow>
     target_pid t \<notin> set (map process_pid (processes snap)) \<and> EvLookup (target_pid t) (Inr None) \<in> set looks"

definition observed_exactly :: "cleanup_plan \<Rightarrow> snapshot \<Rightarrow> event_trace \<Rightarrow> bool" where
  "observed_exactly plan snap looks \<longleftrightarrow> list_all lookup_event looks \<and>
     (\<forall>t\<in>set (plan_targets plan). exactly_present snap t \<or> proved_absent snap looks t)"

text \<open>The last thing in the log is a snapshot in which the whole tree is proved gone.\<close>

definition tree_gone :: "revalidator \<Rightarrow> cleanup_plan \<Rightarrow> event_trace \<Rightarrow> bool" where
  "tree_gone rv plan tr \<longleftrightarrow> (\<exists>looks snap before.
     tr = looks @ EvSnapshot (Inr snap) # before \<and> list_all lookup_event looks \<and>
     rv_status (rv snap plan RevivalCheck) = Gone \<and>
     (\<forall>t\<in>set (plan_targets plan). proved_absent snap looks t))"

definition tree_was_gone :: "revalidator \<Rightarrow> cleanup_plan \<Rightarrow> event_trace \<Rightarrow> bool" where
  "tree_was_gone rv plan tr \<longleftrightarrow> (\<exists>later earlier. tr = later @ earlier \<and> tree_gone rv plan earlier)"

definition term_settled :: "u32 \<Rightarrow> cleanup_action list \<Rightarrow> bool" where
  "term_settled p xs \<longleftrightarrow> (\<exists>a\<in>set xs. action_pid a = p \<and> action_signal a = Term \<and>
     action_disposition a \<in> {Delivered, AlreadyExited})"

text \<open>The signal's own action is prepared, the stop request is checked, a fresh snapshot is
  revalidated as eligible with every target exactly observed and this one present, and the stop
  request is checked once more; a KILL needs a settled TERM of the same pid before it.\<close>

definition signal_permitted ::
    "revalidator \<Rightarrow> cleanup_plan \<Rightarrow> process_identity \<Rightarrow> cleanup_signal \<Rightarrow> event_trace \<Rightarrow> bool" where
  "signal_permitted rv plan i sig tr \<longleftrightarrow> (\<exists>t\<in>set (plan_targets plan). \<exists>stage at a looks snap before.
     target_identity t = i \<and>
     tr = EvStop False # looks @ EvSnapshot (Inr snap) # EvStop False
            # EvPrepare (signal_intent t stage sig) at (Inr a) # before \<and>
     observed_exactly plan snap looks \<and> exactly_present snap t \<and>
     rv_status (rv snap plan BeforeSignal) = Eligible \<and>
     (sig = Kill \<longrightarrow> term_settled (pid i) (fst (snd (journal before)))))"

definition removal_permitted ::
    "revalidator \<Rightarrow> cleanup_plan \<Rightarrow> frozen_runtime_artifact \<Rightarrow> event_trace \<Rightarrow> bool" where
  "removal_permitted rv plan f tr \<longleftrightarrow> (\<exists>c\<in>set (plan_artifacts plan). \<exists>at a before clk.
     tr = EvStop False # EvPrepareArtifact (artifact_intent c) at (Inr a) # EvClock clk # EvStop False # before \<and>
     EvFreeze c (Inr (FreezeFrozen f)) \<in> set before \<and> tree_was_gone rv plan before)"

fun permitted :: "revalidator \<Rightarrow> cleanup_plan \<Rightarrow> event \<Rightarrow> event_trace \<Rightarrow> bool" where
  "permitted rv plan (EvSignal i sig d) tr =
     (quiet tr \<and> \<not> list_ex removal_event tr \<and> signal_permitted rv plan i sig tr)"
| "permitted rv plan (EvRemove f d) tr = (quiet tr \<and> removal_permitted rv plan f tr)"
| "permitted rv plan (EvPrepare i at (Inr a)) tr = (fst (journal tr) = NoAction)"
| "permitted rv plan (EvComplete a d at res) tr =
     ((\<exists>i. fst (journal tr) = OpenSignal a i) \<and>
      (d = Delivered \<longrightarrow> (\<exists>clk i sig before. tr = EvClock clk # EvSignal i sig Delivered # before)))"
| "permitted rv plan (EvPrepareArtifact i at (Inr a)) tr = (fst (journal tr) = NoAction)"
| "permitted rv plan (EvCompleteArtifact a d at res) tr = (\<exists>i. fst (journal tr) = OpenArtifact a i)"
| "permitted rv plan _ tr = True"

fun lawful :: "revalidator \<Rightarrow> cleanup_plan \<Rightarrow> event_trace \<Rightarrow> bool" where
  "lawful rv plan [] = True"
| "lawful rv plan (e # tr) = (permitted rv plan e tr \<and> lawful rv plan tr)"

lemma lawful_append: "lawful rv plan (later @ e # earlier) \<Longrightarrow> permitted rv plan e earlier"
  by (induction later) simp_all

section \<open>Lookups are transparent\<close>

lemma lookups_transparent [simp]:
  assumes "list_all lookup_event looks"
  shows "journal (looks @ tr) = journal tr" "lawful rv plan (looks @ tr) = lawful rv plan tr"
    "quiet (looks @ tr) = quiet tr" "list_ex removal_event (looks @ tr) = list_ex removal_event tr"
proof -
  have e: "journal_step e v = v" "permitted rv plan e tr" "e \<noteq> EvStop True" "\<not> removal_event e"
    if "lookup_event e" for e v tr using that by (cases e; simp)+
  show "journal (looks @ tr) = journal tr" "lawful rv plan (looks @ tr) = lawful rv plan tr"
    "quiet (looks @ tr) = quiet tr" "list_ex removal_event (looks @ tr) = list_ex removal_event tr"
    using assms by (induction looks) (auto simp: e quiet_def)
qed

lemma lookups_no_removal [simp]: "list_all lookup_event looks \<Longrightarrow> \<not> list_ex removal_event looks"
  using lookups_transparent(4) [of looks "[]"] by simp

lemma quiet_simps [simp]: "quiet []" "quiet (e # tr) \<longleftrightarrow> e \<noteq> EvStop True \<and> quiet tr"
  by (auto simp: quiet_def)

lemma tree_was_gone_Cons [intro]: "tree_was_gone rv plan tr \<Longrightarrow> tree_was_gone rv plan (e # tr)"
  unfolding tree_was_gone_def by (metis append_Cons)

lemma tree_was_goneI: "tree_gone rv plan tr \<Longrightarrow> tree_was_gone rv plan tr"
  unfolding tree_was_gone_def by (metis append_Nil)

lemma tree_was_gone_append: "tree_was_gone rv plan tr \<Longrightarrow> tree_was_gone rv plan (xs @ tr)"
  by (induction xs) auto

section \<open>Observing the targets\<close>

lemma wp_cases [wp_simps]:
  "fwp (if b then m else n) Q E w = (if b then fwp m Q E w else fwp n Q E w)"
  "fwp (case z of None \<Rightarrow> m | Some x \<Rightarrow> f x) Q E w = (case z of None \<Rightarrow> fwp m Q E w | Some x \<Rightarrow> fwp (f x) Q E w)"
  "fwp (case y of Inl e \<Rightarrow> g e | Inr x \<Rightarrow> h x) Q E w = (case y of Inl e \<Rightarrow> fwp (g e) Q E w | Inr x \<Rightarrow> fwp (h x) Q E w)"
  "fwp (case c of (u, v) \<Rightarrow> k u v) Q E w = (case c of (u, v) \<Rightarrow> fwp (k u v) Q E w)"
  by (cases z; cases y; cases c; simp)+

definition by_pid :: "snapshot \<Rightarrow> (u32, process_record) btree" where
  "by_pid snap = bt_of_list (map (\<lambda>p. (process_pid p, p)) (processes snap))"

lemma by_pid_SomeD: "bt_get (by_pid snap) k = Some p \<Longrightarrow> p \<in> set (processes snap) \<and> process_pid p = k"
  unfolding by_pid_def by (auto simp: bt_of_list_get dest: map_of_SomeD)

lemma by_pid_NoneD: "bt_get (by_pid snap) k = None \<Longrightarrow> k \<notin> set (map process_pid (processes snap))"
  unfolding by_pid_def by (auto simp: bt_of_list_get map_of_eq_None_iff image_image)

definition observed :: "snapshot \<Rightarrow> event_trace \<Rightarrow> exact_target_liveness \<Rightarrow> process_target list \<Rightarrow> bool" where
  "observed snap looks l ts \<longleftrightarrow> list_all lookup_event looks \<and>
     (\<forall>t\<in>set ts. bt_contains_key (etl_survivors l) (target_pid t) \<and>
                   (exactly_present snap t \<or> target_pid t \<in> set (etl_missing_live_targets l))
                 \<or> proved_absent snap looks t) \<and>
     (\<forall>k. bt_contains_key (etl_survivors l) k \<longrightarrow>
        k \<in> set (map process_pid (processes snap)) \<or> k \<in> set (etl_missing_live_targets l))"

lemma log_cons: "P (e # looks) \<Longrightarrow> \<exists>l. e # looks @ tr0 = l @ tr0 \<and> P l"
  by (metis append_Cons)

lemma observe_target_spec:
  "fspec (\<lambda>(w, tr). \<exists>looks. tr = looks @ tr0 \<and> observed snap looks l ts)
     (observe_target (traced env) (by_pid snap) t l)
     (\<lambda>l' (w, tr). \<exists>looks. tr = looks @ tr0 \<and> observed snap looks l' (ts @ [t]))
     (\<lambda>_ (w, tr). \<exists>looks. tr = looks @ tr0 \<and> list_all lookup_event looks)"
proof (rule fspecI_wp, clarify)
  fix w :: 'a and looks
  assume obs: "observed snap looks l ts"
  have found: "observed snap looks \<lparr>etl_survivors = bt_insert (target_pid t) (identity p) (etl_survivors l),
       etl_missing_live_targets = etl_missing_live_targets l\<rparr> (ts @ [t])"
    if "bt_get (by_pid snap) (target_pid t) = Some p" "exact_match (target_identity t) (identity p)" for p
    using obs that by_pid_SomeD [OF that(1)]
    by (auto simp: observed_def bt_contains_key_def bt.lookup_insert exactly_present_def
          split: if_splits intro: rev_image_eqI)
  have missing: "observed snap (EvLookup (target_pid t) r # looks)
      \<lparr>etl_survivors = bt_insert (target_pid t) (identity p) (etl_survivors l),
       etl_missing_live_targets = etl_missing_live_targets l @ [target_pid t]\<rparr> (ts @ [t])" for p r
    using obs by (auto simp: observed_def proved_absent_def bt_contains_key_def bt.lookup_insert)
  have absent: "observed snap (EvLookup (target_pid t) (Inr None) # looks) l (ts @ [t])"
    if "bt_get (by_pid snap) (target_pid t) = None"
    using obs by_pid_NoneD [OF that] by (auto simp: observed_def proved_absent_def)
  have looks: "list_all lookup_event looks" using obs by (simp add: observed_def)
  show "fwp (observe_target (traced env) (by_pid snap) t l)
     (\<lambda>l' (w, tr). \<exists>looks. tr = looks @ tr0 \<and> observed snap looks l' (ts @ [t]))
     (\<lambda>_ (w, tr). \<exists>looks. tr = looks @ tr0 \<and> list_all lookup_event looks) (w, looks @ tr0)"
  proof (cases "bt_get (by_pid snap) (target_pid t)")
    case (Some p)
    then show ?thesis using found [OF Some] looks
      by (simp add: observe_target_def wp_simps)
  next
    case None
    then show ?thesis
      unfolding observe_target_def wp_simps None option.case
      using missing absent [OF None] looks
      by (intro fwp_try_logged) (auto simp: wp_simps intro!: log_cons split: option.split)
  qed
qed

lemma liveness_spec:
  "fspec (\<lambda>(w, tr). tr = tr0) (observe_exact_target_liveness (traced env) snap plan)
     (\<lambda>l (w, tr). \<exists>looks. tr = looks @ tr0 \<and> observed snap looks l (plan_targets plan))
     (\<lambda>_ (w, tr). \<exists>looks. tr = looks @ tr0 \<and> list_all lookup_event looks)"
proof -
  have "fspec ((\<lambda>ts l (w, tr). \<exists>looks. tr = looks @ tr0 \<and> observed snap looks l ts) []
       \<lparr>etl_survivors = [], etl_missing_live_targets = []\<rparr>)
     (observe_exact_target_liveness (traced env) snap plan)
     ((\<lambda>ts l (w, tr). \<exists>looks. tr = looks @ tr0 \<and> observed snap looks l ts) (plan_targets plan))
     (\<lambda>_ (w, tr). \<exists>looks. tr = looks @ tr0 \<and> list_all lookup_event looks)"
    unfolding observe_exact_target_liveness_def by_pid_def [symmetric]
    by (intro fspec_ffold_prefix observe_target_spec)
  then show ?thesis
    by (rule fspec_pre) (auto simp: observed_def bt_contains_key_def bt.lookup_empty)
qed

lemma observed_no_survivors:
  "observed snap looks l ts \<Longrightarrow> etl_survivors l = [] \<Longrightarrow> t \<in> set ts \<Longrightarrow> proved_absent snap looks t"
  by (auto simp: observed_def bt_contains_key_def bt.lookup_empty)

lemma validate_stage_spec:
  "fspec (\<lambda>(w, tr). tr = tr0) (validate_stage (traced env) rv snap plan)
     (\<lambda>surv (w, tr). \<exists>looks. tr = looks @ tr0 \<and> observed_exactly plan snap looks \<and>
        (\<forall>t\<in>set (plan_targets plan). bt_contains_key surv (target_pid t) \<longrightarrow>
           exactly_present snap t \<and> rv_status (rv snap plan BeforeSignal) = Eligible))
     (\<lambda>_ (w, tr). \<exists>looks. tr = looks @ tr0 \<and> list_all lookup_event looks)"
proof -
  have looks: "list_all lookup_event looks" if "observed snap looks l ts" for looks l ts
    using that by (simp add: observed_def)
  have ok: "observed_exactly plan snap looks"
    if "observed snap looks l (plan_targets plan)" "etl_missing_live_targets l = []" for looks l
    using that by (fastforce simp: observed_def observed_exactly_def)
  have present: "exactly_present snap t"
    if "observed snap looks l (plan_targets plan)" "etl_missing_live_targets l = []"
      "t \<in> set (plan_targets plan)" "bt_contains_key (etl_survivors l) (target_pid t)" for looks l t
    using that by (fastforce simp: observed_def proved_absent_def)
  have empty: "\<not> bt_contains_key [] k" for k :: u32
    by (simp add: bt_contains_key_def bt.lookup_empty)
  show ?thesis
    unfolding validate_stage_def
    by (rule fspec_bind [OF liveness_spec], rule fspecI_wp)
       (auto simp: wp_simps Let_def empty intro: looks ok present split: revalidation_status.split)
qed

section \<open>Receipts that agree with the log\<close>

definition settled :: "cleanup_receipt \<Rightarrow> bool" where
  "settled r \<longleftrightarrow> rcpt_reason_id r = None \<and>
     (\<forall>a\<in>set (rcpt_actions r). action_disposition a \<in> {Delivered, AlreadyExited}) \<and>
     (\<forall>a\<in>set (rcpt_artifact_actions r). completed_cleanup (aa_disposition a))"

definition journalled :: "revalidator \<Rightarrow> cleanup_plan \<Rightarrow> cleanup_receipt \<Rightarrow> event_trace \<Rightarrow> bool" where
  "journalled rv plan r tr \<longleftrightarrow> lawful rv plan tr \<and>
     journal tr = (NoAction, rcpt_actions r, rcpt_artifact_actions r) \<and>
     rcpt_incident_id r = plan_incident_id plan"

definition running :: "revalidator \<Rightarrow> cleanup_plan \<Rightarrow> cleanup_receipt \<Rightarrow> event_trace \<Rightarrow> bool" where
  "running rv plan r tr \<longleftrightarrow> journalled rv plan r tr \<and> quiet tr \<and> settled r \<and> rcpt_state r = Reclaiming"

fun error_ok :: "revalidator \<Rightarrow> cleanup_plan \<Rightarrow> cleanup_error \<Rightarrow> event_trace \<Rightarrow> bool" where
  "error_ok rv plan (RuntimeError _ r) tr \<longleftrightarrow> journalled rv plan r tr \<and> rcpt_state r = Failed"
| "error_ok rv plan (AttemptOpen _ r a) tr \<longleftrightarrow> lawful rv plan tr \<and>
     open_id (fst (journal tr)) = Some a \<and> snd (journal tr) = (rcpt_actions r, rcpt_artifact_actions r) \<and>
     rcpt_incident_id r = plan_incident_id plan \<and> rcpt_state r = Reclaiming"

fun exit_ok :: "revalidator \<Rightarrow> cleanup_plan \<Rightarrow> cleanup_result \<Rightarrow> event_trace \<Rightarrow> bool" where
  "exit_ok rv plan (Inl e) tr = error_ok rv plan e tr"
| "exit_ok rv plan (Inr r) tr \<longleftrightarrow> journalled rv plan r tr \<and> rcpt_state r \<in> {Failed, Revived}"

lemma journalled_lookups [simp]:
  assumes "list_all lookup_event looks"
  shows "journalled rv plan r (looks @ tr) = journalled rv plan r tr"
    "running rv plan r (looks @ tr) = running rv plan r tr"
  using assms by (simp_all add: journalled_def running_def)

lemma journalled_update [simp]:
  "journalled rv plan (r\<lparr>rcpt_state := s\<rparr>) tr = journalled rv plan r tr"
  "journalled rv plan (r\<lparr>rcpt_reason_id := q\<rparr>) tr = journalled rv plan r tr"
  "journalled rv plan (r\<lparr>rcpt_survivor_pids := l\<rparr>) tr = journalled rv plan r tr"
  "journalled rv plan (r\<lparr>rcpt_resources := z\<rparr>) tr = journalled rv plan r tr"
  "journalled rv plan (r\<lparr>rcpt_revival_checks_completed := n\<rparr>) tr = journalled rv plan r tr"
  by (simp_all add: journalled_def)

lemma running_update [simp]:
  "running rv plan (r\<lparr>rcpt_resources := z\<rparr>) tr = running rv plan r tr"
  "running rv plan (r\<lparr>rcpt_revival_checks_completed := n\<rparr>) tr = running rv plan r tr"
  "running rv plan (set_resource_after r a) tr = running rv plan r tr"
  by (simp_all add: running_def settled_def set_resource_after_def)

lemma terminal_runtime_error_ok [simp]:
  "error_ok rv plan (terminal_runtime_error e r) tr = journalled rv plan r tr"
  by (simp add: terminal_runtime_error_def)

text \<open>Events that neither act nor touch the journal.\<close>

fun passive_event :: "event \<Rightarrow> bool" where
  "passive_event (EvStop b) = (\<not> b)"
| "passive_event (EvSignal _ _ _) = False"
| "passive_event (EvRemove _ _) = False"
| "passive_event (EvPrepare _ _ (Inr _)) = False"
| "passive_event (EvComplete _ _ _ _) = False"
| "passive_event (EvPrepareArtifact _ _ (Inr _)) = False"
| "passive_event (EvCompleteArtifact _ _ _ _) = False"
| "passive_event _ = True"

lemma passive_eventD:
  assumes "passive_event e"
  shows "journal_step e v = v" "permitted rv plan e tr" "e \<noteq> EvStop True" "\<not> removal_event e"
  using assms by (cases e rule: passive_event.cases; simp)+

lemma running_passive [simp]:
  "passive_event e \<Longrightarrow> running rv plan r (e # tr) = running rv plan r tr"
  "passive_event e \<Longrightarrow> journalled rv plan r (e # tr) = journalled rv plan r tr"
  by (simp_all add: running_def journalled_def passive_eventD)

lemma journalled_stop [simp]: "journalled rv plan r (EvStop b # tr) = journalled rv plan r tr"
  by (simp add: journalled_def)

lemma running_journalled: "running rv plan r tr \<Longrightarrow> journalled rv plan r tr"
  by (simp add: running_def)

section \<open>One signal\<close>

lemma complete_prepared_wp:
  assumes "lawful rv plan tr" "journal tr = (OpenSignal a i, rcpt_actions r, rcpt_artifact_actions r)"
    "rcpt_incident_id r = plan_incident_id plan" "rcpt_state r = Reclaiming"
    and delivered: "d = Delivered \<Longrightarrow> \<exists>j sig before. tr = EvSignal j sig Delivered # before"
    and Q: "\<And>w' tr'. journalled rv plan (r\<lparr>rcpt_actions := rcpt_actions r @ [action_of i d]\<rparr>) tr' \<Longrightarrow>
        quiet tr' = quiet tr \<Longrightarrow> list_ex removal_event tr' = list_ex removal_event tr \<Longrightarrow>
        Q (r\<lparr>rcpt_actions := rcpt_actions r @ [action_of i d]\<rparr>) (w', tr')"
    and E: "\<And>e w' tr'. error_ok rv plan e tr' \<Longrightarrow> E e (w', tr')"
  shows "fwp (complete_prepared (traced env) r i a d) Q E (w, tr)"
  unfolding complete_prepared_def wp_simps action_of_def [symmetric]
  using assms(1-4) delivered
  by (intro fwp_try_logged)
     (auto simp: wp_simps journalled_def intro!: fwp_try_logged Q E dest!: delivered)

text \<open>What a signal leaves behind: an agreeing receipt, and a settled action when no reason to
  stop is returned.\<close>

definition signal_post ::
    "revalidator \<Rightarrow> cleanup_plan \<Rightarrow> cleanup_receipt \<Rightarrow> process_target \<Rightarrow> cleanup_signal
      \<Rightarrow> string option \<times> cleanup_receipt \<Rightarrow> event_trace \<Rightarrow> bool" where
  "signal_post rv plan r t sig = (\<lambda>(reason, r') tr.
     journalled rv plan r' tr \<and> rcpt_state r' = Reclaiming \<and> \<not> list_ex removal_event tr \<and>
     rcpt_artifact_actions r' = rcpt_artifact_actions r \<and>
     rcpt_revival_checks_completed r' = rcpt_revival_checks_completed r \<and>
     set (rcpt_actions r) \<subseteq> set (rcpt_actions r') \<and>
     (reason = None \<longrightarrow> running rv plan r' tr \<and>
        (sig = Term \<longrightarrow> term_settled (target_pid t) (rcpt_actions r'))))"

lemma signal_post_completed:
  assumes "journalled rv plan (r\<lparr>rcpt_actions := rcpt_actions r @ [action_of i d]\<rparr>) tr'"
    "rcpt_state r = Reclaiming" "\<not> list_ex removal_event tr'" "settled r"
    "intent_pid i = target_pid t" "intent_signal i = sig"
    "reason = None \<Longrightarrow> d \<in> {Delivered, AlreadyExited} \<and> quiet tr'"
  shows "signal_post rv plan r t sig (reason, r\<lparr>rcpt_actions := rcpt_actions r @ [action_of i d]\<rparr>) tr'"
  using assms by (auto simp: signal_post_def running_def settled_def term_settled_def action_of_def)

lemma signal_intent_sel [simp]:
  "intent_pid (signal_intent t stage sig) = target_pid t"
  "intent_signal (signal_intent t stage sig) = sig"
  by (simp_all add: signal_intent_def)

lemma signal_reason_None: "signal_reason d = None \<longleftrightarrow> d \<in> {Delivered, AlreadyExited}"
  by (cases d) simp_all

lemma permitted_after_validation:
  assumes "t \<in> set (plan_targets plan)" "running rv plan r before" "\<not> list_ex removal_event before"
    and "sig = Kill \<Longrightarrow> term_settled (target_pid t) (rcpt_actions r)"
    and obs: "observed_exactly plan snap looks" and "exactly_present snap t"
    and "rv_status (rv snap plan BeforeSignal) = Eligible"
  shows "permitted rv plan (EvSignal (target_identity t) sig d)
     (EvStop False # looks @ EvSnapshot (Inr snap) # EvStop False
        # EvPrepare (signal_intent t stage sig) at (Inr a) # before)" (is "permitted _ _ _ ?tr")
proof -
  have "signal_permitted rv plan (target_identity t) sig ?tr"
    unfolding signal_permitted_def using assms
    by (intro bexI [of _ t] exI [of _ stage] exI [of _ at] exI [of _ a] exI [of _ looks]
          exI [of _ snap] exI [of _ before]) (simp_all add: running_def journalled_def)
  moreover have "list_all lookup_event looks" using obs by (simp add: observed_exactly_def)
  ultimately show ?thesis using assms by (simp add: running_def)
qed

lemma signal_prepared_spec:
  fixes env :: "'w cleanup_env"
  assumes t: "t \<in> set (plan_targets plan)" and i: "i = signal_intent t stage sig"
    and run: "running rv plan r before" and norm: "\<not> list_ex removal_event before"
    and kill: "sig = Kill \<Longrightarrow> term_settled (target_pid t) (rcpt_actions r)"
  shows "fwp (signal_prepared (traced env) rv plan t i a r)
     (\<lambda>x (w, tr). signal_post rv plan r t sig x tr) (\<lambda>e (w, tr). error_ok rv plan e tr)
     (w, EvStop False # EvPrepare i at (Inr a) # before)"
proof -
  let ?Q = "\<lambda>x (w :: 'w, tr). signal_post rv plan r t sig x tr"
  let ?E = "\<lambda>e (w :: 'w, tr). error_ok rv plan e tr"
  let ?tr0 = "EvStop False # EvPrepare i at (Inr a) # before"
  have r: "lawful rv plan ?tr0" "journal ?tr0 = (OpenSignal a i, rcpt_actions r, rcpt_artifact_actions r)"
    "rcpt_incident_id r = plan_incident_id plan" "rcpt_state r = Reclaiming" "quiet ?tr0" "settled r"
    "\<not> list_ex removal_event ?tr0"
    using run norm by (auto simp: running_def journalled_def)
  have complete: "fwp (complete_prepared (traced env) r i a d) (\<lambda>r'. ?Q (reason, r')) ?E (w, tr)"
    if "lawful rv plan tr" "journal tr = journal ?tr0" "\<not> list_ex removal_event tr"
      "reason = None \<Longrightarrow> d \<in> {Delivered, AlreadyExited} \<and> quiet tr"
      "d = Delivered \<Longrightarrow> \<exists>j sig before. tr = EvSignal j sig Delivered # before"
    for d reason w tr
    by (rule complete_prepared_wp [where rv = rv and plan = plan])
       (use that r in \<open>auto simp: i intro!: signal_post_completed\<close>)
  have permitted: "permitted rv plan (EvSignal (target_identity t) sig d)
       (EvStop False # looks @ EvSnapshot (Inr snap) # ?tr0)"
    if "observed_exactly plan snap looks" "exactly_present snap t"
      "rv_status (rv snap plan BeforeSignal) = Eligible" for d looks snap
    unfolding i using that run norm t kill by (intro permitted_after_validation) auto
  have looks: "list_all lookup_event looks" if "observed_exactly plan snap looks" for snap looks
    using that by (simp add: observed_exactly_def)
  have sig: "intent_signal i = sig" by (simp add: i)
  show ?thesis
    unfolding signal_prepared_def Let_def wp_simps
  proof (rule fwp_call_logged, goal_cases)
    case (1 x w1)
    show ?case
    proof (cases x)
      case (Inl e)
      show ?thesis unfolding Inl sum.case wp_simps
        by (rule complete_prepared_wp [where rv = rv and plan = plan])
           (use r in \<open>auto simp: terminal_runtime_error_def\<close>)
    next
      case (Inr snap)
      show ?thesis unfolding Inr sum.case wp_simps
      proof (rule fwp_spec [OF validate_stage_spec], simp, goal_cases)
        case (1 exact w2)
        then obtain w looks where w2: "w2 = (w, looks @ EvSnapshot (Inr snap) # ?tr0)"
          and obs: "observed_exactly plan snap looks"
          and surv: "bt_contains_key exact (target_pid t) \<Longrightarrow>
            exactly_present snap t \<and> rv_status (rv snap plan BeforeSignal) = Eligible"
          using t by (cases w2) auto
        show ?case unfolding w2 wp_simps sum.case
          using r looks [OF obs] surv permitted [OF obs]
          by (auto intro!: fwp_call_logged complete simp: wp_simps sig signal_reason_None
                     simp del: permitted.simps(1))
      next
        case (2 reason w2)
        then show ?case using r
          by (auto simp: wp_simps split: prod.splits intro!: complete)
      qed
    qed
  qed
qed

lemma signal_spec:
  assumes t: "t \<in> set (plan_targets plan)"
    and kill: "sig = Kill \<Longrightarrow> term_settled (target_pid t) (rcpt_actions r)"
  shows "fspec (\<lambda>(w, tr). running rv plan r tr \<and> \<not> list_ex removal_event tr)
     (signal (traced env) rv plan t stage sig r)
     (\<lambda>x (w, tr). signal_post rv plan r t sig x tr) (\<lambda>e (w, tr). error_ok rv plan e tr)"
proof (rule fspecI_wp, clarify)
  fix w :: 'a and tr
  let ?i = "signal_intent t stage sig"
  assume run: "running rv plan r tr" and norm: "\<not> list_ex removal_event tr"
  have prep: "fwp (signal_prepared (traced env) rv plan t ?i a r)
      (\<lambda>x (w, tr). signal_post rv plan r t sig x tr) (\<lambda>e (w, tr). error_ok rv plan e tr)
      (w', EvStop False # EvPrepare ?i at (Inr a) # EvClock (Inr c) # EvStop False # tr)" for w' a at c
    by (rule signal_prepared_spec) (use run norm t kill in auto)
  have cancel: "fwp (complete_prepared (traced env) r ?i a CancelledBeforeDelivery)
      (\<lambda>r' (w, tr). signal_post rv plan r t sig (Some q, r') tr) (\<lambda>e (w, tr). error_ok rv plan e tr)
      (w', EvStop True # EvPrepare ?i at (Inr a) # EvClock (Inr c) # EvStop False # tr)" for w' a at c q
    by (rule complete_prepared_wp [where rv = rv and plan = plan])
       (use run norm in \<open>auto simp: running_def journalled_def intro!: signal_post_completed\<close>)
  have stopped: "signal_post rv plan r t sig (Some q, r) (EvStop True # tr)" for q
    using run norm by (simp add: signal_post_def running_def)
  show "fwp (signal (traced env) rv plan t stage sig r) (\<lambda>x (w, tr). signal_post rv plan r t sig x tr)
     (\<lambda>e (w, tr). error_ok rv plan e tr) (w, tr)"
    unfolding signal_def Let_def wp_simps
    using stopped prep cancel running_journalled [OF run]
    by (auto intro!: fwp_call_logged fwp_try_logged simp: wp_simps)
qed

section \<open>The signal stages\<close>

abbreviation exits_ok :: "revalidator \<Rightarrow> cleanup_plan \<Rightarrow> cleanup_result \<Rightarrow> 'w \<times> event_trace \<Rightarrow> bool" where
  "exits_ok rv plan x \<equiv> \<lambda>(w, tr). exit_ok rv plan x tr"

definition stage_inv :: "revalidator \<Rightarrow> cleanup_plan \<Rightarrow> u32 list \<Rightarrow> cleanup_receipt \<Rightarrow> event_trace \<Rightarrow> bool" where
  "stage_inv rv plan attempted r tr \<longleftrightarrow> running rv plan r tr \<and> \<not> list_ex removal_event tr \<and>
     rcpt_artifact_actions r = [] \<and> rcpt_revival_checks_completed r = 0 \<and>
     (\<forall>p\<in>set attempted. term_settled p (rcpt_actions r))"

lemma fail_receipt_simps [simp]:
  "journalled rv plan (fail_receipt r q l) tr = journalled rv plan r tr"
  "rcpt_state (fail_receipt r q l) = Failed"
  by (simp_all add: fail_receipt_def)

lemma fwp_fail [wp_simps]: "fwp (fail_with r q l) Q E = E (Inr (fail_receipt r q l))"
  by (simp add: fail_with_def wp_simps)

lemma fwp_revived [wp_simps]:
  "fwp (revived r q) Q E = E (Inr (r\<lparr>rcpt_state := Revived, rcpt_reason_id := Some q\<rparr>))"
  by (simp add: revived_def wp_simps)

lemma fwp_or_fail [wp_simps]:
  "fwp (or_fail r m) Q E = fwp m Q (\<lambda>q. E (Inr (fail_receipt r q [])))"
  by (simp add: or_fail_def wp_simps)

lemma term_settled_mono: "set xs \<subseteq> set ys \<Longrightarrow> term_settled p xs \<Longrightarrow> term_settled p ys"
  by (auto simp: term_settled_def)

text \<open>Waiting, taking a snapshot and looking targets up keep every invariant of the log that ignores
  passive events.\<close>

locale passive_invariant =
  fixes rv :: revalidator and plan :: cleanup_plan and r :: cleanup_receipt
    and I :: "event_trace \<Rightarrow> bool"
  assumes ignores_passive: "passive_event e \<Longrightarrow> I tr \<Longrightarrow> I (e # tr)"
    and agrees: "I tr \<Longrightarrow> journalled rv plan r tr"
begin

lemma ignores_lookups: "list_all lookup_event looks \<Longrightarrow> I tr \<Longrightarrow> I (looks @ tr)"
  by (induction looks) (auto simp: ignores_passive elim!: lookup_event.elims)

lemma after_lookups:
  "list_all lookup_event looks \<Longrightarrow> I tr \<Longrightarrow> I (looks @ EvSnapshot (Inr snap) # tr)"
  by (simp add: ignores_lookups ignores_passive)

lemma wait_spec:
  "fspec (\<lambda>(w, tr). I tr) (wait_or_drain (traced env) d r l) (\<lambda>_ (w, tr). I tr) (exits_ok rv plan)"
  unfolding wait_or_drain_def wait_interrupted_def
  by (rule fspecI_wp)
     (auto simp: wp_simps ignores_passive agrees intro!: fwp_call_logged fwp_try_logged split: wait_outcome.split)

lemma snapshot_spec:
  "fspec (\<lambda>(w, tr). I tr) (or_err (snapshot_or_receipt_error (traced env) r))
     (\<lambda>snap (w, tr). \<exists>before. tr = EvSnapshot (Inr snap) # before \<and> I before) (exits_ok rv plan)"
  unfolding snapshot_or_receipt_error_def
  by (rule fspecI_wp) (auto simp: wp_simps agrees intro!: fwp_try_logged)

lemma validate_spec:
  "fspec (\<lambda>(w, tr). \<exists>before. tr = EvSnapshot (Inr snap) # before \<and> I before)
     (or_fail r (validate_stage (traced env) rv snap plan)) (\<lambda>_ (w, tr). I tr) (exits_ok rv plan)"
proof -
  have "fwp (validate_stage (traced env) rv snap plan) (\<lambda>_ (w, tr). I tr)
      (\<lambda>q. exits_ok rv plan (Inr (fail_receipt r q []))) (w, EvSnapshot (Inr snap) # tr)"
    if "I tr" for w tr
    by (rule fwp_spec [OF validate_stage_spec])
       (use that after_lookups agrees [OF after_lookups] in \<open>auto simp: observed_exactly_def\<close>)
  then show ?thesis by (intro fspecI_wp) (clarsimp simp only: fwp_or_fail split_beta prod.sel)
qed

lemma validated_spec:
  "fspec (\<lambda>(w, tr). I tr) (validated_snapshot (traced env) rv plan r) (\<lambda>_ (w, tr). I tr) (exits_ok rv plan)"
  unfolding validated_snapshot_def by (rule fspec_bind [OF snapshot_spec validate_spec])

end

interpretation stage: passive_invariant rv plan r "stage_inv rv plan ta r" for rv plan r ta
  by unfold_locales (simp_all add: stage_inv_def passive_eventD running_def)

lemma signal_or_fail_spec:
  assumes t: "t \<in> set (plan_targets plan)"
    and kill: "sig = Kill \<Longrightarrow> target_pid t \<in> set ta"
  shows "fspec (\<lambda>(w, tr). stage_inv rv plan ta r tr)
     (signal_or_fail (traced env) rv plan t stage sig surv r)
     (\<lambda>r' (w, tr). stage_inv rv plan (if sig = Term then bs_insert (target_pid t) ta else ta) r' tr)
     (exits_ok rv plan)"
proof (rule fspecI_wp, clarify)
  fix w :: 'a and tr
  assume inv: "stage_inv rv plan ta r tr"
  have kill': "sig = Kill \<Longrightarrow> term_settled (target_pid t) (rcpt_actions r)"
    using inv kill by (simp add: stage_inv_def)
  have next_ok: "stage_inv rv plan (if sig = Term then bs_insert (target_pid t) ta else ta) r' tr'"
    if "signal_post rv plan r t sig (None, r') tr'" for r' tr'
    using that inv by (auto simp: stage_inv_def signal_post_def intro: term_settled_mono)
  have "journalled rv plan r' tr'" if "signal_post rv plan r t sig (reason, r') tr'" for reason r' tr'
    using that by (simp add: signal_post_def)
  with inv next_ok show "fwp (signal_or_fail (traced env) rv plan t stage sig surv r)
     (\<lambda>r' (w, tr). stage_inv rv plan (if sig = Term then bs_insert (target_pid t) ta else ta) r' tr)
     (exits_ok rv plan) (w, tr)"
    unfolding signal_or_fail_def wp_simps
    by (intro fwp_spec [OF signal_spec [OF t kill']])
       (auto simp: wp_simps stage_inv_def split: option.split)
qed

lemma term_loop_spec:
  "fspec (\<lambda>(w, tr). stage_inv rv plan ta r tr)
     (term_loop (traced env) rv plan stage sel surv (r, ta))
     (\<lambda>(r', ta') (w, tr). stage_inv rv plan ta' r' tr) (exits_ok rv plan)"
proof -
  let ?I = "\<lambda>(r, ta) (w :: 'a, tr). stage_inv rv plan ta r tr"
  have body: "fwp (signal_or_fail (traced env) rv plan t stage Term surv r')
      (\<lambda>r' (w, tr). stage_inv rv plan (bs_insert (target_pid t) ta') r' tr) (exits_ok rv plan) (w, tr)"
    if "t \<in> set (plan_targets plan)" "stage_inv rv plan ta' r' tr" for t r' ta' tr and w :: 'a
    by (rule fwp_spec [OF signal_or_fail_spec [of t plan Term ta' rv r' env stage surv]]) (use that in auto)
  have "fspec (?I (r, ta)) (term_loop (traced env) rv plan stage sel surv (r, ta)) ?I (exits_ok rv plan)"
    unfolding term_loop_def
    by (rule fspec_ffold, rule fspecI_wp) (auto simp: wp_simps intro!: body)
  then show ?thesis by simp
qed

lemma kill_loop_spec:
  "fspec (\<lambda>(w, tr). stage_inv rv plan ta r tr) (kill_loop (traced env) rv plan ta surv r)
     (\<lambda>r' (w, tr). stage_inv rv plan ta r' tr) (exits_ok rv plan)"
proof -
  have body: "fwp (signal_or_fail (traced env) rv plan t ExactKill Kill surv r')
      (\<lambda>r' (w, tr). stage_inv rv plan ta r' tr) (exits_ok rv plan) (w, tr)"
    if "t \<in> set (plan_targets plan)" "target_pid t \<in> set ta" "stage_inv rv plan ta r' tr" for t r' tr and w :: 'a
    by (rule fwp_spec [OF signal_or_fail_spec [of t plan Kill ta rv r' env ExactKill surv]]) (use that in auto)
  show ?thesis
    unfolding kill_loop_def
    by (rule fspec_ffold [where I = "\<lambda>r (w, tr). stage_inv rv plan ta r tr"], rule fspecI_wp)
       (auto simp: wp_simps stage.agrees intro!: body)
qed

lemma term_stage_spec:
  "fspec (\<lambda>(w, tr). stage_inv rv plan ta r tr)
     (term_stage (traced env) rv plan stage sel d (r, ta, surv))
     (\<lambda>(r', ta', surv') (w, tr). stage_inv rv plan ta' r' tr) (exits_ok rv plan)"
proof -
  have rest: "fspec (\<lambda>(w, tr). stage_inv rv plan ta' r' tr)
     (fbind (wait_or_drain (traced env) d r' (bt_keys surv)) (\<lambda>_.
      fbind (validated_snapshot (traced env) rv plan r') (\<lambda>surv'. fnext (r', ta', surv'))))
     (\<lambda>(r', ta', surv') (w, tr). stage_inv rv plan ta' r' tr) (exits_ok rv plan)" for r' ta'
    by (rule fspec_bind [OF stage.wait_spec], rule fspec_bind [OF stage.validated_spec], rule fspecI_wp)
       (simp_all add: fwp_next split: prod.splits)
  show ?thesis
  proof (cases "surv = []")
    case True
    then show ?thesis by (auto simp: term_stage_def wp_simps intro!: fspecI_wp)
  next
    case False
    then show ?thesis
      unfolding term_stage_def
      by (simp, intro fspec_bind [OF term_loop_spec]) (auto simp: split_beta intro: rest)
  qed
qed

lemma observed_looks: "observed snap looks l ts \<Longrightarrow> list_all lookup_event looks"
  by (simp add: observed_def)

lemma liveness_wp:
  assumes "\<And>l looks w'. observed snap looks l (plan_targets plan) \<Longrightarrow> list_all lookup_event looks \<Longrightarrow> Q l (w', looks @ tr)"
    and "\<And>q looks w'. list_all lookup_event looks \<Longrightarrow> E q (w', looks @ tr)"
  shows "fwp (observe_exact_target_liveness (traced env) snap plan) Q E (w, tr)"
  by (rule fwp_spec [OF liveness_spec [of tr]]) (auto intro: assms dest: observed_looks)

lemma execute_kill_spec:
  "fspec (\<lambda>(w, tr). stage_inv rv plan ta r tr) (execute_kill (traced env) rv plan policy (r, ta, surv))
     (\<lambda>r' (w, tr). stage_inv rv plan ta r' tr) (exits_ok rv plan)"
proof (cases "surv = []")
  case True
  then show ?thesis by (auto simp: execute_kill_def wp_simps intro!: fspecI_wp)
next
  case False
  then show ?thesis
    unfolding execute_kill_def
    by (simp, intro fspec_bind [OF kill_loop_spec], intro fspec_bind [OF stage.wait_spec],
        intro fspec_bind [OF stage.snapshot_spec], intro fspecI_wp)
       (auto simp: wp_simps intro!: liveness_wp stage.after_lookups
             intro: stage.agrees)
qed

section \<open>Revival windows and the proof that the tree is gone\<close>

definition base_inv :: "revalidator \<Rightarrow> cleanup_plan \<Rightarrow> nat \<Rightarrow> cleanup_receipt \<Rightarrow> event_trace \<Rightarrow> bool" where
  "base_inv rv plan n r tr \<longleftrightarrow> running rv plan r tr \<and> \<not> list_ex removal_event tr \<and>
     rcpt_artifact_actions r = [] \<and> rcpt_revival_checks_completed r = n"

interpretation base: passive_invariant rv plan r "base_inv rv plan n r" for rv plan r n
  by unfold_locales (simp_all add: base_inv_def passive_eventD running_def)

definition revival_inv ::
    "revalidator \<Rightarrow> cleanup_plan \<Rightarrow> nat \<Rightarrow> cleanup_receipt \<times> snapshot option \<Rightarrow> event_trace \<Rightarrow> bool" where
  "revival_inv rv plan n = (\<lambda>(r, s) tr. base_inv rv plan n r tr \<and>
     (\<forall>snap. s = Some snap \<longrightarrow> (\<exists>before. tr = EvSnapshot (Inr snap) # before)))"

lemma set_resource_after_sel [simp]:
  "journalled rv plan (set_resource_after r a) tr = journalled rv plan r tr"
  "rcpt_artifact_actions (set_resource_after r a) = rcpt_artifact_actions r"
  "rcpt_revival_checks_completed (set_resource_after r a) = rcpt_revival_checks_completed r"
  by (simp_all add: set_resource_after_def)

lemma revival_window_spec:
  "fspec (\<lambda>(w, tr). revival_inv rv plan n x tr) (revival_window (traced env) rv plan d x)
     (\<lambda>y (w, tr). revival_inv rv plan (Suc n) y tr) (exits_ok rv plan)"
proof -
  obtain r s where x: "x = (r, s)" by fastforce
  have "fspec (\<lambda>(w, tr). base_inv rv plan n r tr) (revival_window (traced env) rv plan d (r, s))
     (\<lambda>y (w, tr). revival_inv rv plan (Suc n) y tr) (exits_ok rv plan)"
    unfolding revival_window_def Let_def prod.case
    by (rule fspec_bind [OF base.wait_spec], rule fspec_bind [OF base.snapshot_spec], rule fspecI_wp)
       (auto simp: wp_simps revival_inv_def base_inv_def running_journalled split: revalidation_status.split)
  then show ?thesis unfolding x by (rule fspec_pre) (auto simp: revival_inv_def)
qed

lemma execute_revival_spec:
  "fspec (\<lambda>(w, tr). base_inv rv plan 0 r tr) (execute_revival (traced env) rv plan policy r)
     (\<lambda>y (w, tr). revival_inv rv plan (length (revival_windows policy)) y tr) (exits_ok rv plan)"
proof -
  have "fspec ((\<lambda>(ds :: duration list) x (w :: 'a, tr). revival_inv rv plan (length ds) x tr) [] (r, None))
     (execute_revival (traced env) rv plan policy r)
     ((\<lambda>ds x (w, tr). revival_inv rv plan (length ds) x tr) (revival_windows policy)) (exits_ok rv plan)"
    unfolding execute_revival_def
    by (rule fspec_ffold_prefix [where I = "\<lambda>ds x (w, tr). revival_inv rv plan (length ds) x tr"])
       (simp add: revival_window_spec)
  then show ?thesis by (simp add: revival_inv_def)
qed


lemma tree_goneI:
  "list_all lookup_event looks \<Longrightarrow> rv_status (rv snap plan RevivalCheck) = Gone \<Longrightarrow>
   (\<And>t. t \<in> set (plan_targets plan) \<Longrightarrow> proved_absent snap looks t) \<Longrightarrow>
   tree_gone rv plan (looks @ EvSnapshot (Inr snap) # before)"
  unfolding tree_gone_def by blast

lemma prove_tree_gone_wp:
  assumes "journalled rv plan r tr"
    and "\<And>looks w'. list_all lookup_event looks \<Longrightarrow>
        tree_gone rv plan (looks @ EvSnapshot (Inr snap) # tr) \<Longrightarrow>
        Q (set_resource_after r (resource_snapshot snap plan)) (w', looks @ EvSnapshot (Inr snap) # tr)"
  shows "fwp (prove_tree_gone (traced env) rv plan q snap r) Q (exits_ok rv plan) (w, EvSnapshot (Inr snap) # tr)"
proof -
  have gone: "tree_gone rv plan (looks @ EvSnapshot (Inr snap) # tr)"
    if "observed snap looks l (plan_targets plan)" "etl_survivors l = []"
      "terminal_revalidation rv snap plan = TerminalGone" for looks l
    using that by (intro tree_goneI)
      (auto simp: terminal_revalidation_def Let_def observed_looks observed_no_survivors split: revalidation_status.splits)
  show ?thesis
    unfolding prove_tree_gone_def Let_def wp_simps
    by (rule liveness_wp)
       (auto simp: wp_simps assms gone split: terminal_revalidation_result.split)
qed

lemma execute_terminal_spec:
  "fspec (\<lambda>(w, tr). revival_inv rv plan n x tr) (execute_terminal (traced env) rv plan x)
     (\<lambda>r (w, tr). base_inv rv plan n r tr \<and> tree_gone rv plan tr) (exits_ok rv plan)"
proof -
  obtain r s where x: "x = (r, s)" by fastforce
  have gone: "fwp (prove_tree_gone (traced env) rv plan q snap r)
      (\<lambda>r (w, tr). base_inv rv plan n r tr \<and> tree_gone rv plan tr) (exits_ok rv plan)
      (w, EvSnapshot (Inr snap) # tr)" if "base_inv rv plan n r tr" for q snap tr and w :: 'a
  proof -
    have "base_inv rv plan n (set_resource_after r a) tr" for a
      using that by (simp add: base_inv_def)
    then show ?thesis by (auto intro!: prove_tree_gone_wp base.after_lookups base.agrees [OF that])
  qed
  show ?thesis
  proof (cases s)
    case None
    have "fspec (\<lambda>(w, tr). base_inv rv plan n r tr) (execute_terminal (traced env) rv plan x)
       (\<lambda>r (w, tr). base_inv rv plan n r tr \<and> tree_gone rv plan tr) (exits_ok rv plan)"
      unfolding execute_terminal_def x None prod.case option.case
      by (rule fspec_bind [OF base.snapshot_spec], rule fspecI_wp) (auto intro!: gone)
    then show ?thesis by (rule fspec_pre) (auto simp: x revival_inv_def)
  next
    case (Some snap)
    have "base_inv rv plan n r tr" if "base_inv rv plan n r (EvSnapshot (Inr snap) # tr)" for tr
      using that by (simp add: base_inv_def)
    then show ?thesis
      by (intro fspecI_wp) (auto simp: x Some execute_terminal_def wp_simps revival_inv_def intro!: gone)
  qed
qed

end
