(* ===== verification/Core_Executor_Correct.thy ===== *)
theory Core_Executor_Correct
  imports Core_Executor_Safety
begin

text \<open>
  The artifact phase and the whole run of the cleanup executor, and the properties of the executor:
  the log is lawful, the receipt is the journal, a drain request is final, and \<open>Cleared\<close> is reported
  only on a proof that the tree is gone.
\<close>

section \<open>Artifacts\<close>

definition frozen_ok :: "cleanup_plan \<Rightarrow> (runtime_artifact_candidate \<times> artifact_freeze) list \<Rightarrow> event_trace \<Rightarrow> bool" where
  "frozen_ok plan fs tr \<longleftrightarrow> map fst fs = plan_artifacts plan \<and> (\<forall>(c, f)\<in>set fs. EvFreeze c (Inr f) \<in> set tr)"

text \<open>After the tree is proved gone: the artifacts handled so far are journalled in the plan's order
  and were found absent.\<close>

definition artifact_inv ::
    "revalidator \<Rightarrow> cleanup_plan \<Rightarrow> nat \<Rightarrow> runtime_artifact_candidate list \<Rightarrow> cleanup_receipt \<Rightarrow> event_trace \<Rightarrow> bool" where
  "artifact_inv rv plan n cs r tr \<longleftrightarrow> running rv plan r tr \<and> rcpt_revival_checks_completed r = n \<and>
     tree_was_gone rv plan tr \<and>
     map aa_artifact_fingerprint (rcpt_artifact_actions r) = map art_artifact_fingerprint cs \<and>
     (\<forall>c\<in>set cs. EvFreeze c (Inr FreezeAbsent) \<in> set tr)"

interpretation arts: passive_invariant rv plan r "artifact_inv rv plan n cs r" for rv plan r n cs
  by unfold_locales (auto simp: artifact_inv_def running_def)

lemma complete_artifact_prepared_wp:
  assumes "lawful rv plan tr" "journal tr = (OpenArtifact a i, rcpt_actions r, rcpt_artifact_actions r)"
    "rcpt_incident_id r = plan_incident_id plan" "rcpt_state r = Reclaiming"
    and Q: "\<And>w' e1 e2. journalled rv plan (r\<lparr>rcpt_artifact_actions := rcpt_artifact_actions r @ [artifact_action_of i d]\<rparr>) (e1 # e2 # tr) \<Longrightarrow>
        quiet (e1 # e2 # tr) = quiet tr \<Longrightarrow>
        Q (r\<lparr>rcpt_artifact_actions := rcpt_artifact_actions r @ [artifact_action_of i d]\<rparr>) (w', e1 # e2 # tr)"
    and E: "\<And>e w' tr'. error_ok rv plan e tr' \<Longrightarrow> E e (w', tr')"
  shows "fwp (complete_artifact_prepared (traced env) r i a d) Q E (w, tr)"
  unfolding complete_artifact_prepared_def wp_simps artifact_action_of_def [symmetric]
  using assms(1-4)
  by (intro fwp_try_logged) (auto simp: wp_simps journalled_def intro!: fwp_try_logged Q E)

definition artifact_post ::
    "revalidator \<Rightarrow> cleanup_plan \<Rightarrow> nat \<Rightarrow> runtime_artifact_candidate list \<Rightarrow> runtime_artifact_candidate
      \<Rightarrow> artifact_disposition \<times> cleanup_receipt \<Rightarrow> event_trace \<Rightarrow> bool" where
  "artifact_post rv plan n cs c = (\<lambda>(d, r') tr. journalled rv plan r' tr \<and>
     (completed_cleanup d \<longrightarrow> artifact_inv rv plan n (cs @ [c]) r' tr))"

lemma artifact_delivery_wp:
  assumes "lawful rv plan tr" "quiet tr"
    and remove: "\<And>g d. f = FreezeFrozen g \<Longrightarrow> permitted rv plan (EvRemove g d) (EvStop False # tr)"
    and Q: "\<And>d w' log. lawful rv plan (log @ tr) \<Longrightarrow> journal (log @ tr) = journal tr \<Longrightarrow>
        (completed_cleanup d \<Longrightarrow> quiet (log @ tr)) \<Longrightarrow> Q d (w', log @ tr)"
  shows "fwp (artifact_delivery (traced env) f again) Q E (w, tr)"
  unfolding artifact_delivery_def wp_simps
proof (rule fwp_call_logged, goal_cases)
  case (1 stop w')
  have stopped: "Q d (w', EvStop stop # tr)" if "completed_cleanup d \<longrightarrow> \<not> stop" for d
    using Q [of "[EvStop stop]" d w'] that assms(1,2) by simp
  have removed: "Q d (w'', EvRemove g d # EvStop False # tr)" if "f = FreezeFrozen g" for g d w''
    using Q [of "[EvRemove g d, EvStop False]" d w''] remove [OF that] assms(1,2)
    by (simp del: permitted.simps(2))
  show ?case
    using stopped removed by (cases f) (auto simp: wp_simps completed_cleanup_def intro!: fwp_call_logged)
qed

lemma artifact_post_completed:
  assumes inv: "artifact_inv rv plan n cs r tr" and post: "d' \<noteq> d \<Longrightarrow> \<not> completed_cleanup d'"
    and jour: "journalled rv plan (r\<lparr>rcpt_artifact_actions := rcpt_artifact_actions r @ [artifact_action_of (artifact_intent c) d]\<rparr>) (log @ tr)"
    and quiet: "completed_cleanup d \<Longrightarrow> quiet (log @ tr)"
    and absent: "completed_cleanup d' \<Longrightarrow> EvFreeze c (Inr FreezeAbsent) \<in> set log"
  shows "artifact_post rv plan n cs c
     (d', r\<lparr>rcpt_artifact_actions := rcpt_artifact_actions r @ [artifact_action_of (artifact_intent c) d]\<rparr>) (log @ tr)"
proof (cases "completed_cleanup d'")
  case True
  then have "d' = d" using post by blast
  then show ?thesis
    using True inv jour quiet absent tree_was_gone_append [of rv plan tr log]
    by (auto simp: artifact_post_def artifact_inv_def running_def settled_def artifact_action_of_def artifact_intent_def)
qed (use jour in \<open>simp add: artifact_post_def\<close>)


lemma artifact_final_wp:
  assumes inv: "artifact_inv rv plan n cs r tr"
    and jour: "journalled rv plan (r\<lparr>rcpt_artifact_actions := rcpt_artifact_actions r @ [artifact_action_of (artifact_intent c) d]\<rparr>) (log @ tr)"
      (is "journalled rv plan ?r _")
    and quiet: "completed_cleanup d \<longrightarrow> quiet (log @ tr)"
  shows "fwp (if \<not> completed_cleanup d then fnext (d, ?r)
       else fbind (ftry (logged (env_freeze_artifact env c) (EvFreeze c)) (\<lambda>e. terminal_runtime_error e ?r))
              (\<lambda>final. fnext (final_disposition final d, ?r)))
     (\<lambda>x (w, tr). artifact_post rv plan n cs c x tr) (\<lambda>e (w, tr). error_ok rv plan e tr) (w, log @ tr)"
proof -
  have post: "artifact_post rv plan n cs c (final_disposition final d, ?r) ((EvFreeze c (Inr final) # log) @ tr)"
    if "completed_cleanup d" for final
    by (rule artifact_post_completed [OF inv])
       (use that jour quiet in \<open>cases final; auto simp: completed_cleanup_iff\<close>)+
  have "artifact_post rv plan n cs c (d, ?r) (log @ tr)" if "\<not> completed_cleanup d"
    using that jour by (simp add: artifact_post_def)
  with post jour show ?thesis by (auto simp: wp_simps intro!: fwp_try_logged)
qed

lemma artifact_after_prepare_wp:
  assumes inv: "artifact_inv rv plan n cs r tr" and pre: "pre = log @ tr"
    and pre_ok: "lawful rv plan pre" "quiet pre"
      "journal pre = (OpenArtifact a (artifact_intent c), rcpt_actions r, rcpt_artifact_actions r)"
    and remove: "\<And>g d. f = FreezeFrozen g \<Longrightarrow> permitted rv plan (EvRemove g d) (EvStop False # pre)"
  shows "fwp (artifact_prepared (traced env) r c f again a) (\<lambda>x (w, tr). artifact_post rv plan n cs c x tr)
     (\<lambda>e (w, tr). error_ok rv plan e tr) (w, pre)"
  unfolding artifact_prepared_def wp_simps
proof (rule artifact_delivery_wp [where rv = rv and plan = plan], goal_cases)
  case (4 d w' log1)
  have r: "rcpt_incident_id r = plan_incident_id plan" "rcpt_state r = Reclaiming"
    using inv by (simp_all add: artifact_inv_def running_def journalled_def)
  show ?case
  proof (rule complete_artifact_prepared_wp [where rv = rv and plan = plan], goal_cases)
    case (5 w2 e1 e2)
    have jour: "journalled rv plan (r\<lparr>rcpt_artifact_actions := rcpt_artifact_actions r @ [artifact_action_of (artifact_intent c) d]\<rparr>)
        ((e1 # e2 # log1 @ log) @ tr)" using 5(1) pre by simp
    have quiet: "completed_cleanup d \<longrightarrow> quiet ((e1 # e2 # log1 @ log) @ tr)"
      using 5(2) 4(3) pre by auto
    show ?case using artifact_final_wp [OF inv jour quiet, of env w2]
      by (simp only: pre append_Cons append_assoc wp_simps)
  qed (use 4 r pre_ok in auto)
qed (use pre_ok remove in auto)


lemma execute_artifact_action_spec:
  assumes c: "c \<in> set (plan_artifacts plan)"
  shows "fspec (\<lambda>(w, tr). artifact_inv rv plan n cs r tr \<and> EvFreeze c (Inr f) \<in> set tr)
     (execute_artifact_action (traced env) r c f)
     (\<lambda>x (w, tr). artifact_post rv plan n cs c x tr) (\<lambda>e (w, tr). error_ok rv plan e tr)"
proof (rule fspecI_wp, clarify)
  fix w :: 'a and tr
  assume inv: "artifact_inv rv plan n cs r tr" and f: "EvFreeze c (Inr f) \<in> set tr"
  have run: "running rv plan r tr" "journalled rv plan r tr" "quiet tr" "tree_was_gone rv plan tr"
    using inv by (simp_all add: artifact_inv_def running_def)
  have remove: "permitted rv plan (EvRemove g d)
      (EvStop False # EvPrepareArtifact (artifact_intent c) at (Inr a) # EvClock clk # EvStop False # tr)"
    if "f = FreezeFrozen g" for g d a at clk
    using that run(3,4) c f by (auto simp: removal_permitted_def)
  have stopped: "artifact_post rv plan n cs c (ArtifactCancelledBeforeDelivery, r) (EvStop True # tr)"
    using run by (simp add: artifact_post_def completed_cleanup_iff)
  have pre: "lawful rv plan (EvPrepareArtifact (artifact_intent c) at (Inr a) # EvClock clk # mid @ EvStop False # tr)"
     "quiet (EvPrepareArtifact (artifact_intent c) at (Inr a) # EvClock clk # mid @ EvStop False # tr)"
     "journal (EvPrepareArtifact (artifact_intent c) at (Inr a) # EvClock clk # mid @ EvStop False # tr)
        = (OpenArtifact a (artifact_intent c), rcpt_actions r, rcpt_artifact_actions r)"
    if "mid = [] \<or> (\<exists>x. mid = [EvFreeze c x])" for a at clk mid
    using run that by (auto simp: journalled_def)
  have rest: "fwp (artifact_prepared (traced env) r c f again a) (\<lambda>x (w, tr). artifact_post rv plan n cs c x tr)
     (\<lambda>e (w, tr). error_ok rv plan e tr)
     (w', EvPrepareArtifact (artifact_intent c) at (Inr a) # EvClock (Inr clk) # mid @ EvStop False # tr)"
    if "mid = [] \<or> f = FreezeAbsent \<and> (\<exists>x. mid = [EvFreeze c x])" for w' again a at clk mid
    by (rule artifact_after_prepare_wp [OF inv _ pre, where log = "EvPrepareArtifact (artifact_intent c) at (Inr a)
          # EvClock (Inr clk) # mid @ [EvStop False]"]) (use that remove in auto)
  show "fwp (execute_artifact_action (traced env) r c f) (\<lambda>x (w, tr). artifact_post rv plan n cs c x tr)
     (\<lambda>e (w, tr). error_ok rv plan e tr) (w, tr)"
    unfolding execute_artifact_action_def Let_def wp_simps
    using run(2) stopped rest [of "[]"] rest [of "[EvFreeze c (Inr x)]" for x]
    by (cases f) (auto simp: wp_simps intro!: fwp_call_logged fwp_try_logged)
qed

lemma execute_artifacts_spec:
  assumes "map fst fs = plan_artifacts plan"
  shows "fspec (\<lambda>(w, tr). artifact_inv rv plan n [] r tr \<and> frozen_ok plan fs tr)
     (execute_artifacts (traced env) fs r)
     (\<lambda>r' (w, tr). artifact_inv rv plan n (plan_artifacts plan) r' tr) (exits_ok rv plan)"
proof -
  let ?I = "\<lambda>(pre :: (runtime_artifact_candidate \<times> artifact_freeze) list) r (w :: 'a, tr). artifact_inv rv plan n (map fst pre) r tr \<and> frozen_ok plan fs tr"
  have frame: "erases (execute_artifact_action env r' c f) (execute_artifact_action (traced env) r' c f)" for r' c f
    by (rule erases_execute_artifact_action)
  have body: "fwp (execute_artifact_action (traced env) r' c f)
      (\<lambda>x (w, tr). artifact_post rv plan n (map fst pre) c x tr \<and> frozen_ok plan fs tr)
      (\<lambda>e (w, tr). error_ok rv plan e tr) (w, tr)"
    if "(c, f) \<in> set fs" "?I pre r' (w, tr)" for c f pre r' w tr
  proof -
    have "c \<in> set (plan_artifacts plan)" using that(1) assms by (metis fst_conv image_eqI list.set_map)
    from fspec_frame [OF frame execute_artifact_action_spec [OF this], where K = "frozen_ok plan fs"]
    show ?thesis by (rule fwp_spec) (use that in \<open>auto simp: frozen_ok_def\<close>)
  qed
  have "fspec (?I [] r) (execute_artifacts (traced env) fs r) (?I fs) (exits_ok rv plan)"
    unfolding execute_artifacts_def
  proof (rule fspec_ffold_prefix [where I = ?I], goal_cases)
    case (1 pre x post r')
    obtain c f where x: "x = (c, f)" by fastforce
    have step: "fwp (execute_artifact_action (traced env) r' c f)
        (\<lambda>y. fwp (case y of (disposition, receipt') \<Rightarrow>
          if \<not> completed_cleanup disposition then fail_with receipt' (artifact_failure_reason disposition) []
          else fnext receipt') (?I (pre @ [(c, f)])) (exits_ok rv plan))
        (\<lambda>e. exits_ok rv plan (Inl e)) (w, tr)" if "?I pre r' (w, tr)" for w tr
      using 1 that by (intro fwp_mono [OF body]) (auto simp: x wp_simps artifact_post_def)
    show ?case unfolding x prod.case
      by (rule fspecI_wp) (unfold fwp_bind fwp_exits, use step in blast)
  qed
  then show ?thesis by (rule fspec_conseq) (auto simp: assms)
qed

text \<open>The last snapshot proves the tree gone, whether or not the plan has artifacts.\<close>

lemma execute_post_artifact_spec:
  "fspec (\<lambda>(w, tr). artifact_inv rv plan n cs r tr \<and> (plan_artifacts plan = [] \<longrightarrow> tree_gone rv plan tr))
     (execute_post_artifact (traced env) rv plan r)
     (\<lambda>r' (w, tr). artifact_inv rv plan n cs r' tr \<and> tree_gone rv plan tr) (exits_ok rv plan)"
proof (cases "plan_artifacts plan = []")
  case True
  then show ?thesis by (auto simp: execute_post_artifact_def wp_simps intro!: fspecI_wp)
next
  case False
  have keep: "artifact_inv rv plan n cs (set_resource_after r a) tr = artifact_inv rv plan n cs r tr" for a tr
    by (simp add: artifact_inv_def)
  have "fspec (\<lambda>(w, tr). artifact_inv rv plan n cs r tr) (execute_post_artifact (traced env) rv plan r)
     (\<lambda>r' (w, tr). artifact_inv rv plan n cs r' tr \<and> tree_gone rv plan tr) (exits_ok rv plan)"
    unfolding execute_post_artifact_def
    by (simp add: False, rule fspec_bind [OF arts.snapshot_spec], rule fspecI_wp)
       (auto intro!: prove_tree_gone_wp arts.after_lookups intro: arts.agrees simp: keep)
  then show ?thesis by (rule fspec_pre) auto
qed


section \<open>The whole run\<close>

lemma freeze_artifacts_spec:
  "fspec (\<lambda>(w, tr). stage_inv rv plan [] r tr) (freeze_artifacts (traced env) plan r)
     (\<lambda>fs (w, tr). stage_inv rv plan [] r tr \<and> frozen_ok plan fs tr) (exits_ok rv plan)"
proof -
  let ?I = "\<lambda>pre (fs :: (runtime_artifact_candidate \<times> artifact_freeze) list) (w :: 'a, tr).
    stage_inv rv plan [] r tr \<and> map fst fs = pre \<and> (\<forall>(c, f)\<in>set fs. EvFreeze c (Inr f) \<in> set tr)"
  have "fspec (?I [] []) (freeze_artifacts (traced env) plan r) (?I (plan_artifacts plan)) (exits_ok rv plan)"
    unfolding freeze_artifacts_def
    by (rule fspec_ffold_prefix [where I = ?I], rule fspecI_wp)
       (auto simp: wp_simps stage.ignores_passive intro!: fwp_try_logged intro: stage.agrees)
  then show ?thesis by (simp add: frozen_ok_def)
qed

lemma stage_inv_resources:
  "stage_inv rv plan ta (r\<lparr>rcpt_resources := z\<rparr>) tr = stage_inv rv plan ta r tr"
  by (simp add: stage_inv_def)

lemma validate_initial_spec:
  "fspec (\<lambda>(w, tr). \<exists>before. tr = EvSnapshot (Inr snap) # before \<and> stage_inv rv plan ta r before)
     (or_fail (r\<lparr>rcpt_resources := z\<rparr>) (validate_stage (traced env) rv snap plan))
     (\<lambda>_ (w, tr). stage_inv rv plan ta (r\<lparr>rcpt_resources := z\<rparr>) tr) (exits_ok rv plan)"
  by (rule fspec_pre [OF stage.validate_spec]) (auto simp: stage_inv_resources)

lemma execute_begin_spec:
  "fspec (\<lambda>(w, tr). tr = []) (execute_begin (traced env) rv plan)
     (\<lambda>(r, surv, fs) (w, tr). stage_inv rv plan [] r tr \<and> frozen_ok plan fs tr) (exits_ok rv plan)"
proof -
  let ?Q = "\<lambda>(r, surv, fs) (w :: 'a, tr). stage_inv rv plan [] r tr \<and> frozen_ok plan fs tr"
  have stop: "fspec (\<lambda>(w :: 'a, tr). tr = []) (fcall (env_should_stop (traced env)))
      (\<lambda>stop (w, tr). tr = [EvStop stop]) (exits_ok rv plan)"
    by (rule fspecI_wp) (auto simp: wp_simps intro!: fwp_call_logged)
  have start: "stage_inv rv plan [] (initial_receipt plan) [EvStop False]"
    "journalled rv plan (initial_receipt plan) [EvStop True]"
    by (simp_all add: stage_inv_def running_def journalled_def settled_def initial_receipt_def)
  have go: "fspec (\<lambda>(w, tr). stage_inv rv plan [] (initial_receipt plan) tr)
     (fbind (or_err (snapshot_or_receipt_error (traced env) (initial_receipt plan))) (\<lambda>initial.
        fbind (or_fail (initial_receipt plan\<lparr>rcpt_resources := z initial\<rparr>) (validate_stage (traced env) rv initial plan)) (\<lambda>survivors.
        fbind (freeze_artifacts (traced env) plan (initial_receipt plan\<lparr>rcpt_resources := z initial\<rparr>)) (\<lambda>frozen.
        fnext (initial_receipt plan\<lparr>rcpt_resources := z initial\<rparr>, survivors, frozen)))))
     ?Q (exits_ok rv plan)" for z
    by (rule fspec_bind [OF stage.snapshot_spec], rule fspec_bind [OF validate_initial_spec],
        rule fspec_bind [OF freeze_artifacts_spec], rule fspecI_wp) (simp add: fwp_next split_beta)
  show ?thesis
    unfolding execute_begin_def Let_def
  proof (rule fspec_bind [OF stop], rule fspec_if)
    show "fspec (\<lambda>(w, tr). tr = [EvStop b]) (fail_with (initial_receipt plan) ''cleanup.drain_requested'' []) ?Q (exits_ok rv plan)"
      if b for b using that start(2) by (intro fspecI_wp) (auto simp: wp_simps)
  qed (rule fspec_pre [OF go], use start(1) in auto)
qed

text \<open>What was frozen at the start is still in the log when the artifacts are handled.\<close>

definition flow_inv ::
    "revalidator \<Rightarrow> cleanup_plan \<Rightarrow> (runtime_artifact_candidate \<times> artifact_freeze) list
      \<Rightarrow> cleanup_receipt \<times> u32 list \<times> survivors \<Rightarrow> event_trace \<Rightarrow> bool" where
  "flow_inv rv plan fs = (\<lambda>(r, ta, surv) tr. stage_inv rv plan ta r tr \<and> frozen_ok plan fs tr)"

lemma frozen_ok_append: "frozen_ok plan fs tr \<Longrightarrow> frozen_ok plan fs (log @ tr)"
  by (auto simp: frozen_ok_def)

lemmas frozen_frame = fspec_frame [where K = "frozen_ok plan fs" for plan fs, OF _ _ frozen_ok_append]

lemma framed_term:
  "fspec (\<lambda>(w, tr). flow_inv rv plan fs x tr) (term_stage (traced env) rv plan stage sel d x)
     (\<lambda>y (w, tr). flow_inv rv plan fs y tr) (exits_ok rv plan)"
  by (cases x, clarify, rule fspec_conseq [OF frozen_frame [OF erases_stages(1) term_stage_spec]])
     (auto simp: flow_inv_def)

lemma framed_kill:
  "fspec (\<lambda>(w, tr). flow_inv rv plan fs x tr) (execute_kill (traced env) rv plan policy x)
     (\<lambda>r (w, tr). base_inv rv plan 0 r tr \<and> frozen_ok plan fs tr) (exits_ok rv plan)"
  by (cases x, clarify, rule fspec_conseq [OF frozen_frame [OF erases_stages(2) execute_kill_spec]])
     (auto simp: flow_inv_def stage_inv_def base_inv_def)

lemma framed_revival:
  "fspec (\<lambda>(w, tr). base_inv rv plan 0 r tr \<and> frozen_ok plan fs tr)
     (execute_revival (traced env) rv plan policy r)
     (\<lambda>y (w, tr). revival_inv rv plan (length (revival_windows policy)) y tr \<and> frozen_ok plan fs tr)
     (exits_ok rv plan)"
proof -
  have "erases (execute_revival env rv plan policy r) (execute_revival (traced env) rv plan policy r)"
    unfolding execute_revival_def by (intro erases_intros)
  from frozen_frame [OF this execute_revival_spec] show ?thesis by (rule fspec_conseq) auto
qed

lemma framed_terminal:
  "fspec (\<lambda>(w, tr). revival_inv rv plan n x tr \<and> frozen_ok plan fs tr)
     (execute_terminal (traced env) rv plan x)
     (\<lambda>r (w, tr). artifact_inv rv plan n [] r tr \<and> tree_gone rv plan tr \<and> frozen_ok plan fs tr)
     (exits_ok rv plan)"
proof -
  have "erases (execute_terminal env rv plan x) (execute_terminal (traced env) rv plan x)"
    unfolding execute_terminal_def by (intro erases_intros)
  from frozen_frame [OF this execute_terminal_spec] show ?thesis
    by (rule fspec_conseq) (auto simp: artifact_inv_def base_inv_def intro: tree_was_goneI)
qed

lemma framed_artifacts:
  "fspec (\<lambda>(w, tr). artifact_inv rv plan n [] r tr \<and> tree_gone rv plan tr \<and> frozen_ok plan fs tr)
     (execute_artifacts (traced env) fs r)
     (\<lambda>r' (w, tr). artifact_inv rv plan n (plan_artifacts plan) r' tr \<and>
        (plan_artifacts plan = [] \<longrightarrow> tree_gone rv plan tr)) (exits_ok rv plan)"
proof (cases "plan_artifacts plan = [] \<or> map fst fs \<noteq> plan_artifacts plan")
  case True
  then show ?thesis
    by (intro fspecI_wp) (auto simp: frozen_ok_def execute_artifacts_def wp_simps)
next
  case False
  then have "map fst fs = plan_artifacts plan" by simp
  from execute_artifacts_spec [OF this] show ?thesis by (rule fspec_conseq) (use False in auto)
qed

lemma fspec_case3:
  "(\<And>x y z. fspec (P x y z) (f x y z) Q E) \<Longrightarrow>
   fspec (case a of (x, y, z) \<Rightarrow> P x y z) (case a of (x, y, z) \<Rightarrow> f x y z) Q E"
  by (cases a) simp

lemma execute_flow_spec:
  "fspec (\<lambda>(w, tr). tr = []) (execute_flow (traced env) rv plan policy)
     (\<lambda>r (w, tr). \<exists>r'. r = execute_finish r' \<and> tree_gone rv plan tr \<and>
        artifact_inv rv plan (length (revival_windows policy)) (plan_artifacts plan) r' tr) (exits_ok rv plan)"
proof -
  have start: "fspec (\<lambda>(w, tr). tr = []) (execute_begin (traced env) rv plan)
     (\<lambda>(r, surv, fs) (w, tr). flow_inv rv plan fs (r, [], surv) tr) (exits_ok rv plan)"
    by (rule fspec_post [OF execute_begin_spec]) (auto simp: flow_inv_def)
  show ?thesis
    unfolding execute_flow_def execute_primary_def execute_member_def Let_def
    by (rule fspec_bind [OF start], rule fspec_case3, rule fspec_bind [OF framed_term], rule fspec_bind [OF framed_term],
        rule fspec_bind [OF framed_kill], rule fspec_bind [OF framed_revival],
        rule fspec_bind [OF framed_terminal], rule fspec_bind [OF framed_artifacts],
        rule fspec_bind [OF execute_post_artifact_spec], rule fspecI_wp) (auto simp: fwp_next)
qed

lemma execute_finish_sel [simp]:
  "rcpt_state (execute_finish r) = Cleared"
  "rcpt_actions (execute_finish r) = rcpt_actions r"
  "rcpt_artifact_actions (execute_finish r) = rcpt_artifact_actions r"
  "rcpt_incident_id (execute_finish r) = rcpt_incident_id r"
  "rcpt_revival_checks_completed (execute_finish r) = rcpt_revival_checks_completed r"
  by (simp_all add: execute_finish_def Let_def)

lemma finish_outcome:
  assumes "settled r"
  shows "oc_overall (outcome (execute_finish r)) = OverallCleared"
    "res_estimated_reclaimed_memory_bytes (rcpt_resources (execute_finish r)) \<noteq> None \<longrightarrow>
       proves_process_reclaim (execute_finish r) \<or> rcpt_artifact_actions r \<noteq> []"
proof -
  have cleared: "oc_overall (outcome q) = OverallCleared"
    if "rcpt_state q = Cleared" "rcpt_actions q = rcpt_actions r"
      "rcpt_artifact_actions q = rcpt_artifact_actions r"
      "\<not> artifact_residue_reason q" "rcpt_reason_id q \<noteq> Some ''cleanup.artifact_delivery_unknown''" for q
    using that assms
    by (auto simp: settled_def overall_cleared_iff process_cleared_iff artifact_outcome_of_def
        signal_delivery_unknown_def artifact_delivery_unknown_def list_ex_iff completed_cleanup_iff)
  show "oc_overall (outcome (execute_finish r)) = OverallCleared"
    by (rule cleared) (simp_all add: execute_finish_def Let_def artifact_residue_reason_def)
  show "res_estimated_reclaimed_memory_bytes (rcpt_resources (execute_finish r)) \<noteq> None \<longrightarrow>
       proves_process_reclaim (execute_finish r) \<or> rcpt_artifact_actions r \<noteq> []"
  proof (cases "ended_without_intervention (r\<lparr>rcpt_state := Cleared\<rparr>)")
    case False
    have "oc_overall (outcome (r\<lparr>rcpt_state := Cleared\<rparr>)) = OverallCleared"
      by (rule cleared) (use assms in \<open>simp_all add: settled_def artifact_residue_reason_def\<close>)
    moreover have "process_outcome_of (execute_finish r) = ProcessCleared"
      using \<open>oc_overall (outcome (execute_finish r)) = OverallCleared\<close> by (simp add: overall_cleared_iff)
    ultimately show ?thesis
      using False by (auto simp: ended_without_intervention_def proves_process_reclaim_def overall_cleared_iff)
  qed (simp add: execute_finish_def Let_def)
qed

section \<open>A concrete environment\<close>

text \<open>One process that ignores TERM and dies on KILL, and one artifact file while the flag is set. It
  instantiates the environment and the revalidator in the witnesses.\<close>

type_synonym demo_world = "process_record list \<times> bool"

definition demo_frozen :: "runtime_artifact_candidate \<Rightarrow> frozen_runtime_artifact" where
  "demo_frozen c = \<lparr>frozen_candidate = c, frozen_identity = \<lparr>ra_device = 1, ra_inode = 9, ra_owner_uid = 501, ra_mode = 0, ra_link_count = 1,
     ra_parent_device = 1, ra_parent_inode = 8, ra_parent_owner_uid = 501, ra_parent_mode = 0\<rparr>\<rparr>"

definition demo_env :: "bool \<Rightarrow> demo_world cleanup_env" where
  "demo_env stop =
     \<lparr>env_snapshot = (\<lambda>w. (Inr (covering_snapshot 0 (fst w)), w)),
      env_lookup_process = (\<lambda>p w. (Inr (find (\<lambda>q. process_pid q = p) (fst w)), w)),
      env_clock_sample = (\<lambda>w. (Inr \<lparr>wall_unix_millis = 0, continuous_millis = 0, boot_session_fingerprint = []\<rparr>, w)),
      env_signal_exact = (\<lambda>i s w. (Delivered, if s = Kill then (filter (\<lambda>q. identity q \<noteq> i) (fst w), snd w) else w)),
      env_wait_until = (\<lambda>d w. (Inr DeadlineReached, w)),
      env_freeze_artifact = (\<lambda>c w. (Inr (if snd w then FreezeFrozen (demo_frozen c) else FreezeAbsent), w)),
      env_remove_artifact_exact = (\<lambda>f w. (Removed, (fst w, False))),
      env_prepare_action = (\<lambda>i at w. (Inr ''action'', w)),
      env_complete_action = (\<lambda>a d at w. (Inr (), w)),
      env_prepare_artifact_action = (\<lambda>i at w. (Inr ''artifact'', w)),
      env_complete_artifact_action = (\<lambda>a d at w. (Inr (), w)),
      env_should_stop = (\<lambda>w. (stop, w))\<rparr>"

definition demo_revalidator :: revalidator where
  "demo_revalidator snap plan phase =
     \<lparr>rv_status = (if processes snap = [] then Gone
                   else if phase = BeforeSignal then Eligible else ReappearedSession), rv_reason_id = ''demo''\<rparr>"

definition demo_artifact :: runtime_artifact_candidate where
  "demo_artifact = \<lparr>art_kind = DevToolsActivePort, art_profile_path = ''/tmp/p'',
     art_artifact_path = ''/tmp/p/DevToolsActivePort'', art_owner_uid = 501,
     art_session_fingerprint = ''s'', art_artifact_fingerprint = ''f''\<rparr>"

definition demo_plan :: cleanup_plan where
  "demo_plan = \<lparr>plan_incident_id = ''i'', plan_tracking_key = ''k'', plan_session_fingerprint = ''s'',
     plan_signature_pack = ''p'', plan_signature_version = ''v'', plan_root_identity = plain_identity 7,
     plan_member_fingerprint = ''m'',
     plan_targets = [\<lparr>target_identity = plain_identity 7, target_process_group_id = 7, target_role = Controller\<rparr>],
     plan_artifacts = [demo_artifact]\<rparr>"


lemmas run_simps = execute_def execute_flow_def execute_begin_def execute_primary_def execute_member_def
  execute_kill_def execute_revival_def execute_terminal_def execute_artifacts_def execute_post_artifact_def
  term_stage_def term_loop_def kill_loop_def revival_window_def prove_tree_gone_def freeze_artifacts_def
  signal_or_fail_def signal_def signal_prepared_def complete_prepared_def validated_snapshot_def
  wait_or_drain_def wait_interrupted_def snapshot_or_receipt_error_def validate_stage_def
  observe_exact_target_liveness_def observe_target_def terminal_revalidation_def
  fbind_def fcall_def fexits_def ftry_def fnext_def fexit_def fcatch_def or_fail_def
  execute_artifact_action_def artifact_prepared_def artifact_delivery_def complete_artifact_prepared_def
  completed_cleanup_def fail_with_def Let_def

lemmas demo_simps = run_simps demo_env_def demo_plan_def demo_revalidator_def demo_artifact_def
  covering_snapshot_def plain_process_def plain_identity_def process_pid_def bt_of_list_def bt_get_def
  bt_contains_key_def exact_match_def primary_targets_def bs_of_list_def bs_insert_def bt_keys_def

definition demo_policy :: cleanup_policy where
  "demo_policy = default_cleanup_policy\<lparr>revival_windows := [0]\<rparr>"

lemma demo_run_finishes:
  "case fst (execute (demo_env False) demo_revalidator demo_plan demo_policy ([plain_process 7 1], True)) of
     Inr r \<Rightarrow> rcpt_state r = Cleared | Inl _ \<Rightarrow> False"
  by (simp add: demo_simps demo_policy_def default_cleanup_policy_def)

lemma demo_run_cleared:
  "\<exists>r w1 tr. execute (traced (demo_env False)) demo_revalidator demo_plan demo_policy (([plain_process 7 1], True), [])
     = (Inr r, w1, tr) \<and> rcpt_state r = Cleared"
proof -
  obtain x w1 where ex: "execute (demo_env False) demo_revalidator demo_plan demo_policy ([plain_process 7 1], True) = (x, w1)"
    by (meson surj_pair)
  then obtain r where "x = Inr r" "rcpt_state r = Cleared"
    using demo_run_finishes by (cases x) simp_all
  then show ?thesis using execute_traced_erases [OF ex, of "[]"] by auto
qed

lemma demo_run_drained:
  "execute (traced (demo_env True)) demo_revalidator demo_plan demo_policy (([plain_process 7 1], True), [])
     = (Inr (fail_receipt (initial_receipt demo_plan) ''cleanup.drain_requested'' []),
        ([plain_process 7 1], True), [] @ EvStop True # [])"
  by (simp add: execute_def execute_flow_def execute_begin_def Let_def fbind_def fcall_def traced_sel
      logged_def demo_env_def fail_with_def fexit_def)

section \<open>Properties of the executor\<close>

lemma execute_run_cases:
  assumes "execute (traced env) rv plan policy (w, []) = (result, w', tr)"
  obtains (finished) r where "result = Inr (execute_finish r)" "tree_gone rv plan tr"
      "artifact_inv rv plan (length (revival_windows policy)) (plan_artifacts plan) r tr"
    | (left_early) "exit_ok rv plan result tr"
proof -
  obtain x w1 tr1 where flow: "execute_flow (traced env) rv plan policy (w, []) = (x, w1, tr1)"
    by (metis surj_pair)
  show ?thesis
  proof (cases x)
    case (Exit y)
    then show ?thesis
      using flow assms fspecD_Exit [OF execute_flow_spec, of "(w, [])" env rv plan policy]
      by (intro left_early) (simp add: execute_def)
  next
    case (Next y)
    then show ?thesis
      using flow assms fspecD_Next [OF execute_flow_spec, of "(w, [])" env rv plan policy] finished
      by (auto simp: execute_def)
  qed
qed

lemma execute_run_journalled:
  assumes "execute (traced env) rv plan policy (w, []) = (result, w', tr)"
  shows "exit_ok rv plan result tr \<or> (\<exists>r. result = Inr (execute_finish r) \<and> journalled rv plan r tr)"
  using assms by (cases rule: execute_run_cases) (auto simp: artifact_inv_def running_def)

lemma exit_ok_lawful: "exit_ok rv plan x tr \<Longrightarrow> lawful rv plan tr"
  by (cases x; (rename_tac e, case_tac e)?) (auto simp: journalled_def)

lemma executor_run_lawful:
  assumes "execute (traced env) rv plan policy (w, []) = (result, w', tr)"
  shows "lawful rv plan tr"
  using assms
  by (cases rule: execute_run_cases) (auto simp: artifact_inv_def running_def journalled_def exit_ok_lawful)

lemma run_journal_receipt:
  assumes run: "execute (traced env) rv plan policy (w, []) = (result, w', tr)"
  shows "case result of
        Inr r \<Rightarrow> journal tr = (NoAction, rcpt_actions r, rcpt_artifact_actions r)
      | Inl (RuntimeError e r) \<Rightarrow> journal tr = (NoAction, rcpt_actions r, rcpt_artifact_actions r)
      | Inl (AttemptOpen e r a) \<Rightarrow> open_id (fst (journal tr)) = Some a \<and>
          snd (journal tr) = (rcpt_actions r, rcpt_artifact_actions r)"
  using execute_run_journalled [OF run]
  by (auto simp: journalled_def split: sum.splits cleanup_error.splits)

text \<open>
  C2: every run of the executor is lawful, whatever its environment does. A signal is sent only to a
  target of the plan, only after its own action is journalled, only when the snapshot taken after
  that shows every target under its exact identity or proved absent, the revalidator finds it
  eligible, and the stop request has just been refused; a KILL only after a settled TERM of that pid;
  none after an artifact was touched. A file is removed only if it was frozen at the start and the
  tree was proved gone. A delivery is journalled only right after the runtime reported it; an action is
  prepared only while none is open, and only the open one is completed.
\<close>

theorem executor_lawful:
  "lawful rv plan (snd (snd (execute (traced env) rv plan policy (w, []))))"
  by (rule executor_run_lawful [where result = "fst (execute (traced env) rv plan policy (w, []))"
        and w' = "fst (snd (execute (traced env) rv plan policy (w, [])))"]) simp

text \<open>
  C8: a drain request that the executor has seen is final: no signal is sent and no file is removed
  after it in the run.
\<close>

theorem drain_is_final:
  assumes "execute (traced env) rv plan policy (w, []) = (result, w', later @ EvStop True # earlier)"
  shows "EvSignal i sig d \<notin> set later \<and> EvRemove f fd \<notin> set later"
proof -
  have "lawful rv plan (later @ EvStop True # earlier)"
    using executor_run_lawful [OF assms] .
  then show ?thesis by (induction later) (auto simp: quiet_def)
qed

theorem drain_is_final_witness:
  "\<exists>result w' later earlier.
     execute (traced (demo_env True)) demo_revalidator demo_plan demo_policy (([plain_process 7 1], True), [])
       = (result, w', later @ EvStop True # earlier) \<and>
     EvSignal (plain_identity 7) Term Delivered \<notin> set later"
  using demo_run_drained drain_is_final [OF demo_run_drained] by blast

text \<open>
  C16: the receipt is the journal. Whatever \<open>execute\<close> returns, the actions in its receipt are exactly the
  actions the journal completed, in order; no prepared action is left open except the one that
  \<open>AttemptOpen\<close> reports.
\<close>

theorem receipt_matches_journal:
  "case execute (traced env) rv plan policy (w, []) of (result, w', tr) \<Rightarrow>
     (case result of
        Inr r \<Rightarrow> journal tr = (NoAction, rcpt_actions r, rcpt_artifact_actions r)
      | Inl (RuntimeError e r) \<Rightarrow> journal tr = (NoAction, rcpt_actions r, rcpt_artifact_actions r)
      | Inl (AttemptOpen e r a) \<Rightarrow> open_id (fst (journal tr)) = Some a \<and>
          snd (journal tr) = (rcpt_actions r, rcpt_artifact_actions r))"
proof -
  obtain result w' tr where run: "execute (traced env) rv plan policy (w, []) = (result, w', tr)"
    by (metis surj_pair)
  from run_journal_receipt [OF run] show ?thesis unfolding run prod.case .
qed

text \<open>
  What \<open>execute\<close> returns is a legal end of a reclaim. An \<open>Ok\<close> receipt is in a state that the
  incident state machine accepts from \<open>Reclaiming\<close>; a runtime error carries a failed receipt; only
  an open attempt stays in \<open>Reclaiming\<close>, and it names its prepared action.
\<close>

theorem executor_result_states:
  "case fst (execute env rv plan policy w) of
     Inr r \<Rightarrow> transition Reclaiming (rcpt_state r) = Inr (rcpt_state r) \<and>
              rcpt_state r \<in> {Cleared, Revived, Failed} \<and> rcpt_incident_id r = plan_incident_id plan
   | Inl e \<Rightarrow> rcpt_incident_id (partial_receipt e) = plan_incident_id plan \<and>
       (case terminal_receipt e of
          Some r \<Rightarrow> rcpt_state r = Failed \<and> prepared_action_id e = None
        | None \<Rightarrow> rcpt_state (partial_receipt e) = Reclaiming \<and> prepared_action_id e \<noteq> None)"
proof -
  obtain x w1 where ex: "execute env rv plan policy w = (x, w1)" by (meson surj_pair)
  have err: "rcpt_incident_id (partial_receipt e) = plan_incident_id plan \<and> (case terminal_receipt e of
      Some r \<Rightarrow> rcpt_state r = Failed \<and> prepared_action_id e = None
    | None \<Rightarrow> rcpt_state (partial_receipt e) = Reclaiming \<and> prepared_action_id e \<noteq> None)"
    if "error_ok rv plan e tr" for e tr
    using that by (cases e) (simp_all add: journalled_def)
  then obtain tr where run: "execute (traced env) rv plan policy (w, []) = (x, w1, tr)"
    using execute_traced_erases [OF ex, of "[]"] by auto
  then show ?thesis
    using execute_run_journalled [OF run] unfolding ex fst_conv
    by (auto simp: journalled_def transition_def transition_allowed_def split: sum.split dest: err)
qed

text \<open>
  C17: \<open>Cleared\<close> is a proof. The last thing the executor did before it reported \<open>Cleared\<close> was to take a
  snapshot that the revalidator finds gone and in which no target's pid exists, and to look every
  target up and find nothing; no drain request was seen; every revival window was checked; every
  artifact of the plan was handled in order and found absent; and the receipt projects to a cleared
  outcome that claims reclaimed memory only if something was delivered or removed.
\<close>

theorem cleared_is_proved:
  assumes "execute (traced env) rv plan policy (w, []) = (Inr r, w', tr)" and "rcpt_state r = Cleared"
  shows "tree_gone rv plan tr \<and> quiet tr \<and>
     rcpt_revival_checks_completed r = length (revival_windows policy) \<and>
     map aa_artifact_fingerprint (rcpt_artifact_actions r) = map art_artifact_fingerprint (plan_artifacts plan) \<and>
     (\<forall>c\<in>set (plan_artifacts plan). EvFreeze c (Inr FreezeAbsent) \<in> set tr) \<and>
     oc_overall (outcome r) = OverallCleared \<and>
     (res_estimated_reclaimed_memory_bytes (rcpt_resources r) \<noteq> None \<longrightarrow>
        proves_process_reclaim r \<or> rcpt_artifact_actions r \<noteq> [])"
  using assms(1)
proof (cases rule: execute_run_cases)
  case (finished r')
  then show ?thesis
    by (simp add: artifact_inv_def running_def finish_outcome del: outcome_simps)
next
  case left_early
  then show ?thesis using assms(2) by simp
qed

theorem cleared_is_proved_witness:
  "\<exists>r w' tr. execute (traced (demo_env False)) demo_revalidator demo_plan demo_policy (([plain_process 7 1], True), [])
     = (Inr r, w', tr) \<and> rcpt_state r = Cleared \<and> tree_gone demo_revalidator demo_plan tr"
proof -
  obtain r w' tr where run: "execute (traced (demo_env False)) demo_revalidator demo_plan demo_policy
      (([plain_process 7 1], True), []) = (Inr r, w', tr)" and cleared: "rcpt_state r = Cleared"
    using demo_run_cleared by blast
  with cleared_is_proved [OF run cleared] show ?thesis by blast
qed

text \<open>
  the log is a pure observation: the wrapped run returns the result and the world of the
  original run, and only adds to the log.
\<close>

theorem tracing_is_transparent:
  "\<exists>log. execute (traced env) rv plan policy (w, tr) =
     (fst (execute env rv plan policy w), snd (execute env rv plan policy w), log @ tr)"
  by (rule execute_traced_erases) simp

end
