(* ===== verification/Core_Task.thy ===== *)
theory Core_Task
  imports Core_Fingerprint
begin

text \<open>
  Task and session ownership, \<open>crates/unlinger-core/src/task.rs\<close>: the exec-stable owner identity,
  the durable bindings of controllers, and the grammar of the identifiers that keeps the issued
  \<open>unlinger-<id>\<close> lane apart from ordinary session names.
\<close>

record task_owner_identity =
  owner_pid :: u32
  owner_started_at_unix_micros :: u64
  owner_uid :: u32

definition owner_from_process :: "process_record \<Rightarrow> task_owner_identity option" where
  "owner_from_process p =
     (if process_pid p > 1 \<and> started_at_unix_micros (identity p) > 0 \<and> uid p \<noteq> 0
      then Some \<lparr>owner_pid = process_pid p,
                 owner_started_at_unix_micros = started_at_unix_micros (identity p),
                 owner_uid = uid p\<rparr>
      else None)"

definition owner_matches :: "task_owner_identity \<Rightarrow> process_record \<Rightarrow> bool" where
  "owner_matches self p =
     (owner_pid self = process_pid p
      \<and> owner_started_at_unix_micros self = started_at_unix_micros (identity p)
      \<and> owner_uid self = uid p)"

record task_controller_binding =
  tb_task_id :: string
  tb_controller :: process_identity
  tb_released :: bool

definition ordinary_selector_fingerprint :: "string \<Rightarrow> string \<Rightarrow> string" where
  "ordinary_selector_fingerprint registry_namespace session_name =
     fingerprint_parts [''pw-cli'', registry_namespace, session_name]"

record session_owner_binding =
  sb_lease_id :: string
  sb_selector_fingerprint :: string
  sb_session_name :: string
  sb_controller_version :: string
  sb_controller :: process_identity
  sb_released :: bool

definition session_owner_binds :: "session_owner_binding \<Rightarrow> process_record \<Rightarrow> bool" where
  "session_owner_binds b p = exact_match (sb_controller b) (identity p)"

definition valid_task_id :: "string \<Rightarrow> bool" where
  "valid_task_id value =
     (length value = 32
      \<and> list_all (\<lambda>byte. is_ascii_digit byte \<or> byte_between 97 102 byte) value)"

definition session_name_from_id :: "string \<Rightarrow> string" where
  "session_name_from_id i = ''unlinger-'' @ i"

definition task_id_from_session :: "string \<Rightarrow> string option" where
  "task_id_from_session value =
     (case strip_prefix value ''unlinger-'' of
        Some i \<Rightarrow> if valid_task_id i then Some i else None
      | None \<Rightarrow> None)"

definition valid_ordinary_session_name :: "string \<Rightarrow> bool" where
  "valid_ordinary_session_name value =
     (value \<noteq> [] \<and> length value \<le> 64 \<and> \<not> starts_with value ''unlinger-''
      \<and> list_all (\<lambda>byte. is_ascii_alphanumeric byte \<or> byte \<in> {CHR ''-'', CHR ''_'', CHR ''.''}) value)"

definition valid_registry_namespace :: "string \<Rightarrow> bool" where
  "valid_registry_namespace value =
     (length value = 16
      \<and> list_all (\<lambda>byte. is_ascii_digit byte \<or> byte_between 97 102 byte) value)"

section \<open>The two session lanes\<close>

lemma task_id_from_session_Some:
  "task_id_from_session s = Some i \<longleftrightarrow> s = session_name_from_id i \<and> valid_task_id i"
proof (cases "strip_prefix s ''unlinger-''")
  case None
  then have "s \<noteq> ''unlinger-'' @ i" by (metis option.distinct(1) strip_prefix_Some)
  with None show ?thesis by (simp only: task_id_from_session_def session_name_from_id_def) simp
next
  case (Some r)
  then have "s = ''unlinger-'' @ r" by (simp only: strip_prefix_Some)
  then show ?thesis using Some
    by (simp only: task_id_from_session_def session_name_from_id_def same_append_eq) auto
qed

lemma issued_name_prefix: "starts_with (session_name_from_id i) ''unlinger-''"
  unfolding session_name_from_id_def starts_with_iff by blast

lemma owner_from_process_matches:
  "owner_from_process p = Some o1 \<Longrightarrow> owner_matches o1 p"
  by (auto simp: owner_from_process_def owner_matches_def split: if_splits)

lemma owner_from_process_functional:
  "owner_from_process p = Some o1 \<Longrightarrow> owner_matches o1 q \<Longrightarrow> owner_from_process q = Some o1"
  by (auto simp: owner_from_process_def owner_matches_def split: if_splits)

text \<open>
  C31: an issued session name is read back as exactly the identifier it was issued for, a name is
  read as a task identifier only if it was issued for one, and no such name is also a valid
  ordinary session name, so the task lane and the host-lease lane never overlap.
\<close>

theorem session_lanes_disjoint:
  "(task_id_from_session (session_name_from_id i) = (if valid_task_id i then Some i else None))
   \<and> (task_id_from_session s \<noteq> None \<longleftrightarrow> (\<exists>j. valid_task_id j \<and> s = session_name_from_id j))
   \<and> \<not> (task_id_from_session s \<noteq> None \<and> valid_ordinary_session_name s)"
proof (intro conjI)
  show "task_id_from_session (session_name_from_id i) = (if valid_task_id i then Some i else None)"
    using task_id_from_session_Some [of "session_name_from_id i"]
    by (cases "task_id_from_session (session_name_from_id i)") (auto simp: session_name_from_id_def)
  show "task_id_from_session s \<noteq> None \<longleftrightarrow> (\<exists>j. valid_task_id j \<and> s = session_name_from_id j)"
    using task_id_from_session_Some by auto
  show "\<not> (task_id_from_session s \<noteq> None \<and> valid_ordinary_session_name s)"
    using task_id_from_session_Some issued_name_prefix
    by (fastforce simp only: valid_ordinary_session_name_def)
qed

end
