(* ===== verification/Rules_Packs.thy ===== *)
theory Rules_Packs
  imports Core_Evidence Core_Task
begin

text \<open>
  The signature packs of \<open>crates/unlinger-rules/src/lib.rs\<close>: their data, their validation, dotted
  versions, the browser version gate, the age gate, the compatibility summary and the support
  catalogue. The three embedded packs are transcribed from \<open>rules/*.toml\<close>; the TOML parser is a
  parameter of \<open>embedded\<close>.
\<close>

section \<open>Data\<close>

datatype graceful_strategy = OsTermOnly

datatype version_policy =
    ObservationalPolicy
  | ExactAllowlist string "string list"
  | BoundedRange string string string

record artifact_policy =
  devtools_active_port_enabled :: bool

record signature_pack =
  schema_version :: u32
  pack_id :: string
  pack_version :: string
  supported_versions :: string
  task_controller_version :: "string option"
  session_owner_controller_version :: "string option"
  controller_markers :: "string list"
  framework_markers :: "string list"
  ephemeral_profile_markers :: "string list"
  browser_executable_markers :: "string list"
  recorder_executable_basenames :: "string list"
  graceful_strategy_of :: graceful_strategy
  version_policy_of :: version_policy
  artifact_policy_of :: artifact_policy

datatype rule_error = Parse string | InvalidPack string | InvalidGraph string

definition STANDARD_PROFILE_MARKERS :: "string list" where
  "STANDARD_PROFILE_MARKERS =
     [''/library/application support/google/chrome'',
      ''/library/application support/chromium'',
      ''/library/application support/microsoft edge'']"

definition HEADLESS_MARKERS :: "string list" where
  "HEADLESS_MARKERS = [''--headless'', ''--headless=new'', ''--headless=old'']"

definition TRANSPORT_MARKERS :: "string list" where
  "TRANSPORT_MARKERS = [''--remote-debugging-pipe'', ''--remote-debugging-port'']"

definition MINIMUM_CANDIDATE_AGE_MICROS :: u64 where
  "MINIMUM_CANDIDATE_AGE_MICROS = 60 * 1000000"

section \<open>Dotted versions\<close>

text \<open>\<open>str::parse::<u64>\<close> on a piece of ASCII digits: \<open>None\<close> on overflow.\<close>

definition digits_value :: "string \<Rightarrow> nat" where
  "digits_value s = foldl (\<lambda>n c. 10 * n + (of_char c - 48)) 0 s"

definition parse_u64 :: "string \<Rightarrow> u64 option" where
  "parse_u64 s = (if digits_value s < 2 ^ 64 then Some (of_nat (digits_value s)) else None)"

definition parse_component :: "string \<Rightarrow> u64 option" where
  "parse_component s = (if s \<noteq> [] \<and> list_all is_ascii_digit s then parse_u64 s else None)"

fun collect_options :: "'a option list \<Rightarrow> 'a list option" where
  "collect_options [] = Some []"
| "collect_options (None # xs) = None"
| "collect_options (Some x # xs) = map_option (Cons x) (collect_options xs)"

text \<open>\<open>while parsed.len() > 1 && parsed.last() == Some(&0) { parsed.pop(); }\<close>\<close>

function drop_trailing_zeros :: "u64 list \<Rightarrow> u64 list" where
  "drop_trailing_zeros xs =
     (if 1 < length xs \<and> last xs = 0 then drop_trailing_zeros (butlast xs) else xs)"
  by pat_completeness auto
termination by (relation "measure length") auto

declare drop_trailing_zeros.simps [simp del]

definition parse_dotted_version :: "string \<Rightarrow> u64 list option" where
  "parse_dotted_version value =
     (if value = [] \<or> 64 < length value then None
      else let components = split_on (CHR ''.'') value
           in if components = [] \<or> 8 < length components then None
              else map_option drop_trailing_zeros
                     (collect_options (map parse_component components)))"

section \<open>Validation\<close>

definition validate_bundle_id :: "string \<Rightarrow> string \<Rightarrow> rule_error + unit" where
  "validate_bundle_id the_pack_id bundle =
     (if bundle = [] \<or> 192 < length bundle \<or> str_trim bundle \<noteq> bundle \<or> CHR ''.'' \<notin> set bundle
      then Inl (InvalidPack (the_pack_id @ '' contains an invalid bundle id''))
      else Inr ())"

fun validate_exact_versions :: "string \<Rightarrow> string list \<Rightarrow> string list \<Rightarrow> rule_error + unit" where
  "validate_exact_versions the_pack_id [] unique = Inr ()"
| "validate_exact_versions the_pack_id (v # vs) unique =
     (if parse_dotted_version v = None then
        Inl (InvalidPack (the_pack_id @ '' contains an invalid exact version''))
      else if v \<in> set unique then
        Inl (InvalidPack (the_pack_id @ '' contains a duplicate exact version''))
      else validate_exact_versions the_pack_id vs (bs_insert v unique))"

fun validate_version_policy :: "string \<Rightarrow> version_policy \<Rightarrow> rule_error + unit" where
  "validate_version_policy the_pack_id ObservationalPolicy = Inr ()"
| "validate_version_policy the_pack_id (ExactAllowlist bundle versions) =
     (case validate_bundle_id the_pack_id bundle of
        Inl e \<Rightarrow> Inl e
      | Inr _ \<Rightarrow>
          if versions = [] then Inl (InvalidPack (the_pack_id @ '' exact version allowlist is empty''))
          else validate_exact_versions the_pack_id versions [])"
| "validate_version_policy the_pack_id (BoundedRange bundle minimum maximum) =
     (case validate_bundle_id the_pack_id bundle of
        Inl e \<Rightarrow> Inl e
      | Inr _ \<Rightarrow>
         (case parse_dotted_version minimum of
            None \<Rightarrow> Inl (InvalidPack (the_pack_id @ '' contains an invalid minimum version''))
          | Some lo \<Rightarrow>
             (case parse_dotted_version maximum of
                None \<Rightarrow> Inl (InvalidPack (the_pack_id @ '' contains an invalid maximum version''))
              | Some hi \<Rightarrow>
                  if hi < lo then Inl (InvalidPack (the_pack_id @ '' version range is reversed''))
                  else Inr ())))"

definition all_markers :: "signature_pack \<Rightarrow> string list" where
  "all_markers pack = controller_markers pack @ framework_markers pack
     @ ephemeral_profile_markers pack @ browser_executable_markers pack"

definition controller_versions :: "signature_pack \<Rightarrow> string list" where
  "controller_versions pack =
     List.map_filter id [task_controller_version pack, session_owner_controller_version pack]"

fun validate_recorders :: "string list \<Rightarrow> string list \<Rightarrow> bool" where
  "validate_recorders [] names = True"
| "validate_recorders (b # bs) names =
     (let normalized = to_ascii_lowercase (str_trim b)
      in if normalized = [] \<or> normalized \<noteq> b \<or> CHR ''/'' \<in> set normalized
            \<or> CHR 0x5C \<in> set normalized \<or> normalized \<in> set names
         then False
         else validate_recorders bs (bs_insert normalized names))"

definition validate_pack :: "signature_pack \<Rightarrow> rule_error + unit" where
  "validate_pack pack =
     (let invalid = (\<lambda>message. Inl (InvalidPack (pack_id pack @ message)))
      in if schema_version pack \<noteq> 2 then
           invalid ('' has unsupported schema '' @ dec_string (unat (schema_version pack)))
         else if str_trim (pack_id pack) = [] \<or> str_trim (pack_version pack) = []
             \<or> str_trim (supported_versions pack) = [] \<or> controller_markers pack = []
             \<or> framework_markers pack = [] \<or> ephemeral_profile_markers pack = []
             \<or> browser_executable_markers pack = [] \<or> recorder_executable_basenames pack = [] then
           invalid '' is missing a required field or marker family''
         else if list_ex (\<lambda>v. str_trim v = []) (controller_versions pack) then
           invalid '' contains an empty controller version''
         else if list_ex (\<lambda>m. length (str_trim m) < 4) (all_markers pack) then
           invalid '' contains an unsafe short marker''
         else if \<not> validate_recorders (recorder_executable_basenames pack) [] then
           invalid '' contains an invalid or duplicate recorder basename''
         else validate_version_policy (pack_id pack) (version_policy_of pack))"

section \<open>Browser versions\<close>

datatype browser_version_gate =
    ExactSupported | RangeSupported | ObservationalGate | MissingFacts | MixedFacts
  | UnsupportedProduct | UnsupportedVersion

fun gate_supported :: "browser_version_gate \<Rightarrow> bool" where
  "gate_supported ExactSupported = True"
| "gate_supported RangeSupported = True"
| "gate_supported _ = False"

definition app_bundles :: "process_record list \<Rightarrow> app_bundle_version list" where
  "app_bundles roots = List.map_filter (\<lambda>p. app_bundle (runtime p)) roots"

fun policy_gate :: "version_policy \<Rightarrow> app_bundle_version \<Rightarrow> browser_version_gate" where
  "policy_gate ObservationalPolicy bundle_fact = ObservationalGate"
| "policy_gate (ExactAllowlist bundle versions) bundle_fact =
     (if bundle_id bundle_fact \<noteq> bundle then UnsupportedProduct
      else if short_version bundle_fact \<in> set versions then ExactSupported
      else UnsupportedVersion)"
| "policy_gate (BoundedRange bundle minimum maximum) bundle_fact =
     (if bundle_id bundle_fact \<noteq> bundle then UnsupportedProduct
      else case parse_dotted_version (short_version bundle_fact) of
             None \<Rightarrow> UnsupportedVersion
           | Some version \<Rightarrow>
             (case parse_dotted_version minimum of
                None \<Rightarrow> UnsupportedVersion
              | Some lo \<Rightarrow>
                (case parse_dotted_version maximum of
                   None \<Rightarrow> UnsupportedVersion
                 | Some hi \<Rightarrow>
                     if lo \<le> version \<and> version \<le> hi then RangeSupported else UnsupportedVersion)))"

definition evaluate_browser_versions :: "process_record list \<Rightarrow> version_policy \<Rightarrow> browser_version_gate" where
  "evaluate_browser_versions browser_roots policy =
     (let facts = app_bundles browser_roots
      in if length facts \<noteq> length browser_roots then MissingFacts
         else case bs_of_list (map (\<lambda>f. (bundle_id f, short_version f)) facts) of
                [_] \<Rightarrow> policy_gate policy (hd facts)
              | _ \<Rightarrow> MixedFacts)"

definition browser_product_of :: "string \<Rightarrow> browser_product" where
  "browser_product_of bundle =
     (let b = to_ascii_lowercase bundle
      in if b = ''com.google.chrome.for.testing'' then ChromeForTesting
         else if b = ''org.chromium.chromium'' then Chromium
         else if b = ''com.google.chrome'' then GoogleChrome
         else OtherProduct)"

fun compatibility_decision ::
    "browser_version_gate option \<Rightarrow> string option \<Rightarrow> bool \<Rightarrow> browser_compatibility_decision \<times> string option" where
  "compatibility_decision None unverified incomplete =
     (UnknownDecision, Some ''ambiguity.browser_root_missing'')"
| "compatibility_decision (Some MixedFacts) unverified incomplete =
     (ProtectedDecision, Some ''protection.browser_version_mixed'')"
| "compatibility_decision (Some UnsupportedProduct) unverified incomplete =
     (ProtectedDecision, Some ''protection.browser_product_unsupported'')"
| "compatibility_decision (Some UnsupportedVersion) unverified incomplete =
     (ProtectedDecision, Some ''protection.browser_version_unsupported'')"
| "compatibility_decision (Some MissingFacts) unverified incomplete =
     (UnknownDecision, Some ''protection.browser_version_missing'')"
| "compatibility_decision (Some ObservationalGate) unverified incomplete =
     (ObserveOnlyDecision, Some ''protection.version_observational_only'')"
| "compatibility_decision (Some gate) unverified incomplete =
     (if unverified \<noteq> None then (ProtectedDecision, unverified)
      else if incomplete then
        (ProtectedDecision, Some ''protection.debug_peer_visibility_incomplete'')
      else (AutomaticDecision, None))"

definition browser_compatibility ::
    "process_record list \<Rightarrow> browser_version_gate option \<Rightarrow> string option \<Rightarrow> bool
      \<Rightarrow> browser_compatibility_facts" where
  "browser_compatibility browser_roots version_gate unverified control_path_incomplete =
     (let facts = app_bundles browser_roots;
          complete = (length facts = length browser_roots);
          product = (if complete \<and> length (bs_of_list (map bundle_id facts)) = 1
                     then browser_product_of (bundle_id (hd facts)) else UnknownProduct);
          observed = (if complete \<and> length (bs_of_list (map short_version facts)) = 1
                      then Some (short_version (hd facts)) else None);
          (decision, reason) = compatibility_decision version_gate unverified control_path_incomplete
      in \<lparr>bc_product = product, bc_observed_version = observed, bc_decision = decision,
          bc_reason_id = reason\<rparr>)"

fun policy_bundle_id :: "version_policy \<Rightarrow> string option" where
  "policy_bundle_id ObservationalPolicy = None"
| "policy_bundle_id (ExactAllowlist bundle _) = Some bundle"
| "policy_bundle_id (BoundedRange bundle _ _) = Some bundle"

section \<open>Controllers and age\<close>

definition ordinary_cli_session :: "process_record \<Rightarrow> bool" where
  "ordinary_cli_session controller =
     (case playwright_cli (runtime controller) of
        None \<Rightarrow> False
      | Some cli \<Rightarrow> task_id_from_session (cli_session_name cli) = None)"

definition ordinary_controller_version_supported :: "signature_pack \<Rightarrow> process_record \<Rightarrow> bool" where
  "ordinary_controller_version_supported pack controller =
     (case playwright_cli (runtime controller) of
        None \<Rightarrow> False
      | Some cli \<Rightarrow> session_owner_controller_version pack = Some (cli_version cli))"

definition unverified_controller_reason ::
    "bool \<Rightarrow> bool \<Rightarrow> bool \<Rightarrow> process_record \<Rightarrow> signature_pack \<Rightarrow> string option" where
  "unverified_controller_reason has_controller has_task_binding has_session_owner controller pack =
     (if \<not> has_controller \<or> has_task_binding \<or> has_session_owner then None
      else Some (if ordinary_cli_session controller \<and> ordinary_controller_version_supported pack controller
                 then ''protection.ordinary_session_owner_unverified''
                 else ''protection.controller_version_unverified''))"

datatype candidate_age = AgeEligible | AgeTooYoung | AgeUnknown

definition candidate_age_gate :: "u64 \<Rightarrow> u64 \<Rightarrow> candidate_age" where
  "candidate_age_gate observed_at_millis started_at_micros =
     (if started_at_micros = 0 then AgeUnknown
      else case checked_mul observed_at_millis 1000 of
             None \<Rightarrow> AgeUnknown
           | Some observed_at_micros \<Rightarrow>
             (case checked_sub observed_at_micros started_at_micros of
                None \<Rightarrow> AgeUnknown
              | Some age \<Rightarrow> if age < MINIMUM_CANDIDATE_AGE_MICROS then AgeTooYoung else AgeEligible))"

section \<open>Rule sets\<close>

record rule_set =
  packs :: "signature_pack list"

text \<open>\<open>RuleSet::embedded\<close> over its TOML sources; \<open>from_str\<close> is the \<open>toml\<close> crate.\<close>

fun load_packs ::
    "(string \<Rightarrow> string + signature_pack) \<Rightarrow> string list \<Rightarrow> string list \<Rightarrow> signature_pack list
      \<Rightarrow> rule_error + signature_pack list" where
  "load_packs from_str [] ids loaded = Inr loaded"
| "load_packs from_str (source # sources) ids loaded =
     (case from_str source of
        Inl e \<Rightarrow> Inl (Parse e)
      | Inr pack \<Rightarrow>
         (case validate_pack pack of
            Inl e \<Rightarrow> Inl e
          | Inr _ \<Rightarrow>
              if pack_id pack \<in> set ids then
                Inl (InvalidPack (''duplicate pack id '' @ pack_id pack))
              else load_packs from_str sources (bs_insert (pack_id pack) ids) (loaded @ [pack])))"

definition embedded :: "(string \<Rightarrow> string + signature_pack) \<Rightarrow> string list \<Rightarrow> rule_error + rule_set" where
  "embedded from_str sources =
     (case load_packs from_str sources [] [] of
        Inl e \<Rightarrow> Inl e
      | Inr loaded \<Rightarrow> Inr \<lparr>packs = sort_key pack_id loaded\<rparr>)"

datatype browser_automatic_action_level = AutomaticLevel | ObserveOnlyLevel | UnsupportedLevel

record browser_family_support =
  support_family :: string
  support_product :: browser_product
  admitted_versions :: "string list"
  automatic_action_level :: browser_automatic_action_level

record browser_support_catalog_facts =
  support_revision :: string
  support_families :: "browser_family_support list"

fun policy_support :: "version_policy \<Rightarrow> browser_product \<times> string list \<times> browser_automatic_action_level" where
  "policy_support ObservationalPolicy = (UnknownProduct, [], ObserveOnlyLevel)"
| "policy_support (ExactAllowlist bundle versions) = (browser_product_of bundle, versions, AutomaticLevel)"
| "policy_support (BoundedRange bundle minimum maximum) =
     (browser_product_of bundle, [minimum @ ''..='' @ maximum], AutomaticLevel)"

definition browser_support_catalog :: "rule_set \<Rightarrow> browser_support_catalog_facts" where
  "browser_support_catalog rules =
     \<lparr>support_revision =
        ''rules:'' @ str_join ''|'' (map (\<lambda>pack. pack_id pack @ ''@'' @ pack_version pack) (packs rules)),
      support_families =
        map (\<lambda>pack. case policy_support (version_policy_of pack) of (product, versions, level) \<Rightarrow>
               \<lparr>support_family = pack_id pack, support_product = product,
                admitted_versions = versions, automatic_action_level = level\<rparr>) (packs rules)\<rparr>"

section \<open>The embedded packs\<close>

definition agent_browser_pack :: signature_pack where
  "agent_browser_pack =
     \<lparr>schema_version = 2, pack_id = ''agent-browser'', pack_version = ''0.4.0'',
      supported_versions =
        ''Chrome for Testing 151.0.7922.34 and 152.0.7977.42 only; controller version remains observational'',
      task_controller_version = None,
      session_owner_controller_version = None,
      controller_markers = [''agent-browser'', ''@vercel/agent-browser''],
      framework_markers = [''agent-browser'', ''.agent-browser''],
      ephemeral_profile_markers =
        [''agent-browser'', ''.agent-browser''],
      browser_executable_markers =
        [''chrome for testing'', ''chromium'', ''google chrome''],
      recorder_executable_basenames = [''ffmpeg''],
      graceful_strategy_of = OsTermOnly,
      version_policy_of =
        ExactAllowlist ''com.google.chrome.for.testing'' [''151.0.7922.34'', ''152.0.7977.42''],
      artifact_policy_of = \<lparr>devtools_active_port_enabled = False\<rparr>\<rparr>"

definition playwright_pack :: signature_pack where
  "playwright_pack =
     \<lparr>schema_version = 2, pack_id = ''playwright'', pack_version = ''0.6.0'',
      supported_versions =
        ''Chrome for Testing 151.0.7922.34 and 152.0.7977.42 only; task-owned Playwright CLI 1.63.0-alpha-2026-08-31; host-owned ordinary Playwright CLI 1.62.1; other controllers remain observational'',
      task_controller_version = Some ''1.63.0-alpha-2026-08-31'',
      session_owner_controller_version = Some ''1.62.1'',
      controller_markers = [''playwright'', ''@playwright/mcp'', ''playwright-mcp''],
      framework_markers = [''playwright'', ''@playwright/mcp'', ''ms-playwright''],
      ephemeral_profile_markers =
        [''playwright_chromiumdev_profile'', ''playwright-artifacts'', ''ms-playwright''],
      browser_executable_markers =
        [''chrome for testing'', ''chromium'', ''google chrome''],
      recorder_executable_basenames = [''ffmpeg''],
      graceful_strategy_of = OsTermOnly,
      version_policy_of =
        ExactAllowlist ''com.google.chrome.for.testing'' [''151.0.7922.34'', ''152.0.7977.42''],
      artifact_policy_of = \<lparr>devtools_active_port_enabled = False\<rparr>\<rparr>"

definition puppeteer_pack :: signature_pack where
  "puppeteer_pack =
     \<lparr>schema_version = 2, pack_id = ''puppeteer'', pack_version = ''0.4.0'',
      supported_versions =
        ''Chrome for Testing 151.0.7922.34 and 152.0.7977.42 only; Puppeteer controller version remains observational'',
      task_controller_version = None,
      session_owner_controller_version = None,
      controller_markers = [''puppeteer'', ''@puppeteer/browsers''],
      framework_markers = [''puppeteer'', ''@puppeteer/browsers'', ''chrome-headless-shell''],
      ephemeral_profile_markers =
        [''puppeteer_dev_chrome_profile'', ''puppeteer''],
      browser_executable_markers =
        [''chrome-headless-shell'', ''chrome for testing'', ''chromium'', ''google chrome''],
      recorder_executable_basenames = [''ffmpeg''],
      graceful_strategy_of = OsTermOnly,
      version_policy_of =
        ExactAllowlist ''com.google.chrome.for.testing'' [''151.0.7922.34'', ''152.0.7977.42''],
      artifact_policy_of = \<lparr>devtools_active_port_enabled = False\<rparr>\<rparr>"

section \<open>Versions and age\<close>

lemma candidate_age_eligible:
  "candidate_age_gate observed started = AgeEligible \<longleftrightarrow>
     started \<noteq> 0 \<and> unat observed * 1000 < 2 ^ 64 \<and> unat started + 60000000 \<le> unat observed * 1000"
proof -
  have min: "unat MINIMUM_CANDIDATE_AGE_MICROS = 60000000"
    by (simp add: MINIMUM_CANDIDATE_AGE_MICROS_def)
  have thousand: "unat (1000 :: u64) = 1000" by simp
  show ?thesis
  proof (cases "checked_mul observed 1000")
    case None
    then show ?thesis by (auto simp: candidate_age_gate_def checked_mul_def split: if_splits)
  next
    case (Some m)
    then have m: "unat m = unat observed * 1000" "unat observed * 1000 < 2 ^ 64"
      using checked_mul_Some [of observed 1000 m] by (auto simp: checked_mul_def split: if_splits)
    show ?thesis
    proof (cases "checked_sub m started")
      case None
      then have "\<not> started \<le> m" by (simp add: checked_sub_def split: if_splits)
      then have "unat m < unat started" by (simp add: word_less_nat_alt not_le)
      then show ?thesis using None Some m by (auto simp: candidate_age_gate_def)
    next
      case (Some age)
      then have "unat age + unat started = unat m" by (simp add: checked_sub_Some)
      then show ?thesis using Some \<open>checked_mul observed 1000 = Some m\<close> m min
        by (auto simp: candidate_age_gate_def word_less_nat_alt)
    qed
  qed
qed

lemma drop_trailing_zeros_canonical:
  "xs \<noteq> [] \<Longrightarrow> drop_trailing_zeros xs \<noteq> [] \<and>
     (1 < length (drop_trailing_zeros xs) \<longrightarrow> last (drop_trailing_zeros xs) \<noteq> 0)"
proof (induction xs rule: drop_trailing_zeros.induct)
  case (1 xs)
  show ?case
  proof (cases "1 < length xs \<and> last xs = 0")
    case True
    then have "butlast xs \<noteq> []" by (cases xs) (auto split: if_splits)
    with True 1 show ?thesis by (subst (1 2 3) drop_trailing_zeros.simps) simp
  next
    case False
    with 1 show ?thesis by (subst (1 2 3) drop_trailing_zeros.simps) auto
  qed
qed

lemma drop_trailing_zeros_snoc: "xs \<noteq> [] \<Longrightarrow> drop_trailing_zeros (xs @ [0]) = drop_trailing_zeros xs"
  by (subst drop_trailing_zeros.simps) simp

lemma split_on_append_sep: "split_on c (s @ c # t) = split_on c s @ split_on c t"
  by (induction s) (auto split: list.split)

lemma collect_options_snoc: "collect_options (xs @ [Some y]) = map_option (\<lambda>ys. ys @ [y]) (collect_options xs)"
  by (induction xs rule: collect_options.induct) (auto simp: option.map_comp comp_def)

lemma collect_options_neq_Nil: "collect_options xs = Some ys \<Longrightarrow> xs \<noteq> [] \<Longrightarrow> ys \<noteq> []"
  by (induction xs rule: collect_options.induct) auto

text \<open>
  versions that differ only in trailing zero components are one version. A parsed version is
  never empty and has no trailing zero component unless it is the only one, and a further \<open>.0\<close>
  within the length limits changes nothing.
\<close>

theorem dotted_version_canonical:
  assumes "parse_dotted_version v = Some xs"
  shows "xs \<noteq> [] \<and> (1 < length xs \<longrightarrow> last xs \<noteq> 0) \<and>
    (length v \<le> 62 \<and> length (split_on (CHR ''.'') v) < 8 \<longrightarrow> parse_dotted_version (v @ ''.0'') = Some xs)"
proof -
  obtain ys where ys: "collect_options (map parse_component (split_on (CHR ''.'') v)) = Some ys"
    "xs = drop_trailing_zeros ys" "v \<noteq> []"
    using assms by (auto simp: parse_dotted_version_def Let_def split: if_splits)
  then have "ys \<noteq> []" using collect_options_neq_Nil by fastforce
  moreover have "parse_component ''0'' = Some 0"
    by (simp add: parse_component_def parse_u64_def digits_value_def is_ascii_digit_def)
  moreover have "split_on (CHR ''.'') (v @ ''.0'') = split_on (CHR ''.'') v @ [''0'']"
    using split_on_append_sep [of "CHR ''.''" v "''0''"] by simp
  ultimately show ?thesis
    using ys drop_trailing_zeros_canonical
    by (simp add: parse_dotted_version_def collect_options_snoc drop_trailing_zeros_snoc)
qed

theorem dotted_version_canonical_witness:
  "parse_dotted_version ''1.62'' = Some [1, 62] \<and> parse_dotted_version (''1.62'' @ ''.0'') = Some [1, 62]"
proof -
  have "parse_dotted_version ''1.62'' = Some [1, 62]"
    by (simp add: parse_dotted_version_def parse_component_def parse_u64_def digits_value_def
        is_ascii_digit_def drop_trailing_zeros.simps)
  with dotted_version_canonical [OF this] show ?thesis by simp
qed

section \<open>The version gate\<close>

lemma app_bundles_complete:
  "length (app_bundles roots) = length roots \<longleftrightarrow> list_all (\<lambda>p. app_bundle (runtime p) \<noteq> None) roots"
proof (induction roots)
  case (Cons p ps)
  have "length (app_bundles ps) \<le> length ps"
    by (simp add: app_bundles_def map_filter_def)
  with Cons show ?case by (auto simp: app_bundles_def map_filter_simps split: option.splits)
qed (simp add: app_bundles_def map_filter_simps)

lemma bs_of_list_single: "bs_of_list xs = [y] \<longleftrightarrow> set xs = {y}"
proof
  assume "set xs = {y}"
  then have "set (bs_of_list xs) = {y}" by simp
  moreover have "distinct (bs_of_list xs)" by simp
  ultimately show "bs_of_list xs = [y]"
    by (cases "bs_of_list xs" rule: remdups_adj.cases) auto
next
  assume "bs_of_list xs = [y]"
  then show "set xs = {y}" using bs_of_list_set [of xs] by simp
qed

lemma bs_of_list_case:
  "(case bs_of_list xs of [_] \<Rightarrow> a | _ \<Rightarrow> b) = (if \<exists>y. set xs = {y} then a else b)"
  by (auto simp: bs_of_list_single [symmetric] split: list.split)

lemma app_bundles_map:
  "list_all (\<lambda>p. app_bundle (runtime p) \<noteq> None) roots \<Longrightarrow>
   app_bundles roots = map (\<lambda>p. the (app_bundle (runtime p))) roots"
  by (induction roots) (auto simp: app_bundles_def map_filter_simps)

text \<open>
  The exact allowlist admits a set of browser roots exactly when there is one, every one reports
  its bundle, all report the same version, the bundle is the policy's and the version is listed.
\<close>

theorem exact_allowlist_gate:
  "gate_supported (evaluate_browser_versions roots (ExactAllowlist b vs)) \<longleftrightarrow>
     roots \<noteq> [] \<and> (\<exists>v. v \<in> set vs \<and> list_all (\<lambda>p. map_option (\<lambda>f. (bundle_id f, short_version f))
        (app_bundle (runtime p)) = Some (b, v)) roots)"
proof (cases "list_all (\<lambda>p. app_bundle (runtime p) \<noteq> None) roots")
  case True
  let ?key = "\<lambda>f. (bundle_id f, short_version f)"
  let ?f = "\<lambda>p. the (app_bundle (runtime p))"
  have facts: "map_option ?key (app_bundle (runtime p)) = Some (b, v) \<longleftrightarrow> ?key (?f p) = (b, v)"
    if "p \<in> set roots" for p v using True that by (auto simp: list_all_iff)
  have same: "(\<exists>y. set (map ?key (map ?f (p # ps))) = {y}) \<longleftrightarrow> (\<forall>q\<in>set ps. ?key (?f q) = ?key (?f p))" for p ps
    by (simp only: list.map list.set set_map image_image) blast
  show ?thesis
  proof (cases roots)
    case Nil
    then show ?thesis by (simp add: evaluate_browser_versions_def app_bundles_def map_filter_simps bs_of_list_def)
  next
    case (Cons p ps)
    have "gate_supported (evaluate_browser_versions roots (ExactAllowlist b vs)) \<longleftrightarrow>
      (\<forall>q\<in>set ps. ?key (?f q) = ?key (?f p)) \<and> bundle_id (?f p) = b \<and> short_version (?f p) \<in> set vs"
      unfolding evaluate_browser_versions_def Let_def bs_of_list_case
      using app_bundles_map [OF True] app_bundles_complete [of roots] True same [of p ps]
      by (simp only: Cons) simp
    also have "\<dots> \<longleftrightarrow> (\<exists>v. v \<in> set vs \<and> (\<forall>q\<in>set roots. ?key (?f q) = (b, v)))"
      by (auto simp: Cons)
    also have "\<dots> \<longleftrightarrow> roots \<noteq> [] \<and> (\<exists>v. v \<in> set vs \<and> list_all (\<lambda>p. map_option ?key (app_bundle (runtime p)) = Some (b, v)) roots)"
      unfolding list_all_iff using facts by (simp add: Cons)
    finally show ?thesis .
  qed
next
  case False
  then show ?thesis
    by (fastforce simp: evaluate_browser_versions_def app_bundles_complete list_all_iff)
qed

section \<open>Well-formed packs\<close>

text \<open>What a pack must be to be loaded, without the loops and early returns of the code.\<close>

definition bundle_id_wf :: "string \<Rightarrow> bool" where
  "bundle_id_wf bundle \<longleftrightarrow> bundle \<noteq> [] \<and> length bundle \<le> 192 \<and> str_trim bundle = bundle \<and> CHR ''.'' \<in> set bundle"

fun version_policy_wf :: "version_policy \<Rightarrow> bool" where
  "version_policy_wf ObservationalPolicy = True"
| "version_policy_wf (ExactAllowlist bundle versions) \<longleftrightarrow> bundle_id_wf bundle \<and> versions \<noteq> [] \<and> distinct versions
     \<and> list_all (\<lambda>v. parse_dotted_version v \<noteq> None) versions"
| "version_policy_wf (BoundedRange bundle minimum maximum) \<longleftrightarrow> bundle_id_wf bundle
     \<and> (\<exists>lo hi. parse_dotted_version minimum = Some lo \<and> parse_dotted_version maximum = Some hi \<and> lo \<le> hi)"

definition recorder_wf :: "string \<Rightarrow> bool" where
  "recorder_wf b \<longleftrightarrow> b \<noteq> [] \<and> to_ascii_lowercase (str_trim b) = b \<and> CHR ''/'' \<notin> set b \<and> CHR 0x5C \<notin> set b"

definition pack_wf :: "signature_pack \<Rightarrow> bool" where
  "pack_wf pack \<longleftrightarrow> schema_version pack = 2
     \<and> list_all (\<lambda>v. str_trim v \<noteq> []) ([pack_id pack, pack_version pack, supported_versions pack] @ controller_versions pack)
     \<and> list_all (\<lambda>family. family \<noteq> []) [controller_markers pack, framework_markers pack, ephemeral_profile_markers pack,
         browser_executable_markers pack, recorder_executable_basenames pack]
     \<and> list_all (\<lambda>m. 4 \<le> length (str_trim m)) (all_markers pack)
     \<and> list_all recorder_wf (recorder_executable_basenames pack) \<and> distinct (recorder_executable_basenames pack)
     \<and> version_policy_wf (version_policy_of pack)"

lemma validate_recorders_iff:
  "validate_recorders bs names \<longleftrightarrow> list_all recorder_wf bs \<and> distinct bs \<and> set bs \<inter> set names = {}"
  by (induction bs arbitrary: names) (auto simp: recorder_wf_def Let_def)

lemma validate_exact_versions_iff:
  "validate_exact_versions i vs unique = Inr () \<longleftrightarrow> list_all (\<lambda>v. parse_dotted_version v \<noteq> None) vs \<and> distinct vs \<and> set vs \<inter> set unique = {}"
  by (induction vs arbitrary: unique) auto

lemma validate_version_policy_iff: "validate_version_policy i policy = Inr () \<longleftrightarrow> version_policy_wf policy"
  by (cases policy) (auto simp: validate_bundle_id_def bundle_id_wf_def validate_exact_versions_iff split: option.splits)

lemma validate_pack_iff: "validate_pack pack = Inr () \<longleftrightarrow> pack_wf pack"
  by (auto simp: validate_pack_def pack_wf_def Let_def validate_recorders_iff validate_version_policy_iff list_ex_iff list_all_iff not_less) (meson leD)

lemma load_packs_iff:
  "load_packs from_str sources ids loaded = Inr out \<longleftrightarrow> (\<exists>ps. map from_str sources = map Inr ps \<and> list_all pack_wf ps
     \<and> distinct (map pack_id ps) \<and> set (map pack_id ps) \<inter> set ids = {} \<and> out = loaded @ ps)"
proof (induction sources arbitrary: ids loaded)
  case Nil
  then show ?case by auto
next
  case (Cons source sources)
  show ?case
  proof (cases "from_str source")
    case (Inr pack)
    show ?thesis
    proof (cases "validate_pack pack")
      case Inl
      with Inr show ?thesis by (auto simp: Cons_eq_map_conv simp flip: validate_pack_iff)
    next
      case (Inr u)
      then have "pack_wf pack" by (simp flip: validate_pack_iff)
      with \<open>from_str source = Inr pack\<close> Inr show ?thesis by (auto simp: Cons.IH Cons_eq_map_conv)
    qed
  qed (auto simp: Cons_eq_map_conv)
qed

text \<open>
  C29: a rule set is loaded exactly from sources that all parse to well-formed packs with different identifiers, and it holds exactly these packs,
  ordered by identifier. Well-formed means: the supported schema, no blank identifier or version, no empty marker family, no
  marker shorter than four bytes, recorder names that are distinct, lower-case and without a path, and a version policy
  whose allowlist is distinct and readable or whose range has two readable bounds in order.
\<close>

theorem embedded_loads_exactly:
  "embedded from_str sources = Inr rules \<longleftrightarrow> (\<exists>ps. map from_str sources = map Inr ps \<and> list_all pack_wf ps \<and> distinct (map pack_id ps)
     \<and> rules = \<lparr>packs = sort_key pack_id ps\<rparr>)"
  by (auto simp: embedded_def load_packs_iff split: sum.splits) (metis load_packs_iff append_Nil empty_iff inf_bot_right list.set(1) sum.distinct(1))

text \<open>The three packs that ship with the program are well-formed, so they load.\<close>

lemma embedded_packs_valid:
  "pack_wf agent_browser_pack" "pack_wf playwright_pack" "pack_wf puppeteer_pack"
proof -
  have "validate_pack agent_browser_pack = Inr () \<and> validate_pack playwright_pack = Inr ()
     \<and> validate_pack puppeteer_pack = Inr ()"
    by (simp add: validate_pack_def agent_browser_pack_def playwright_pack_def puppeteer_pack_def
        controller_versions_def map_filter_def all_markers_def printable_def validate_bundle_id_def
        to_ascii_lowercase_def ascii_lower_def Let_def bs_insert_def parse_dotted_version_def
        parse_component_def parse_u64_def is_ascii_digit_def digits_value_def)
  then show "pack_wf agent_browser_pack" "pack_wf playwright_pack" "pack_wf puppeteer_pack"
    by (simp_all flip: validate_pack_iff)
qed

end
