(* ===== verification/Core_Graph.thy ===== *)
theory Core_Graph
  imports Core_Fingerprint
begin

text \<open>
  The process graph of \<open>crates/unlinger-core/src/graph.rs\<close>: processes by pid and children by
  parent pid, with the walks over it. Each \<open>while\<close> loop of the code is a recursive function whose
  termination rests on the finite set of pids that the \<open>seen\<close> set has not yet met. The walks
  are then characterised by reachability in the parent relation.
\<close>

datatype graph_error = DuplicatePid u32

record process_graph =
  graph_current_uid :: u32
  graph_processes :: "(u32, process_record) btree"
  graph_children :: "(u32, u32 list) btree"

section \<open>Construction\<close>

fun collect_processes ::
    "process_record list \<Rightarrow> (u32, process_record) btree \<Rightarrow> graph_error + (u32, process_record) btree" where
  "collect_processes [] m = Inr m"
| "collect_processes (p # ps) m =
     (if bt_get m (process_pid p) \<noteq> None then Inl (DuplicatePid (process_pid p))
      else collect_processes ps (bt_insert (process_pid p) p m))"

definition collect_children :: "process_record list \<Rightarrow> (u32, u32 list) btree" where
  "collect_children ps =
     map (\<lambda>(k, cs). (k, sort cs))
       (fold (\<lambda>p. bt_update_default (parent_pid p) [] (\<lambda>cs. cs @ [process_pid p])) ps [])"

definition from_snapshot :: "snapshot \<Rightarrow> graph_error + process_graph" where
  "from_snapshot s =
     (case collect_processes (processes s) [] of
        Inl e \<Rightarrow> Inl e
      | Inr m \<Rightarrow> Inr \<lparr>graph_current_uid = current_uid s, graph_processes = m,
                      graph_children = collect_children (bt_values m)\<rparr>)"

definition graph_iter :: "process_graph \<Rightarrow> process_record list" where
  "graph_iter g = bt_values (graph_processes g)"

definition graph_get :: "process_graph \<Rightarrow> u32 \<Rightarrow> process_record option" where
  "graph_get g p = bt_get (graph_processes g) p"

definition children_of :: "process_graph \<Rightarrow> u32 \<Rightarrow> u32 list" where
  "children_of g p = (case bt_get (graph_children g) p of None \<Rightarrow> [] | Some cs \<Rightarrow> cs)"

section \<open>Walks\<close>

function descendants_loop :: "process_graph \<Rightarrow> u32 list \<Rightarrow> u32 list \<Rightarrow> u32 list \<Rightarrow> u32 list" where
  "descendants_loop g [] seen result = result"
| "descendants_loop g (p # queue) seen result =
     (if p \<in> set seen then descendants_loop g queue seen result
      else descendants_loop g (queue @ children_of g p) (bs_insert p seen)
             (if bt_contains_key (graph_processes g) p then result @ [p] else result))"
  by pat_completeness auto

lemma card_compl_bs_insert:
  "x \<notin> set xs \<Longrightarrow> card (- set (bs_insert x xs)) < card (- set xs)" for x :: u32
  by (auto intro!: psubset_card_mono)

termination descendants_loop
  by (relation "measures [\<lambda>(g, queue, seen, result). card (- set seen),
                          \<lambda>(g, queue, seen, result). length queue]")
    (use card_compl_bs_insert in auto)

definition descendant_pids :: "process_graph \<Rightarrow> u32 \<Rightarrow> u32 list" where
  "descendant_pids g root_pid = sort (descendants_loop g [root_pid] [] [])"

function ancestors_loop :: "process_graph \<Rightarrow> u32 option \<Rightarrow> u32 list \<Rightarrow> u32 list \<Rightarrow> u32 list" where
  "ancestors_loop g None seen result = result"
| "ancestors_loop g (Some p) seen result =
     (if p = 0 \<or> p \<in> set seen then result
      else ancestors_loop g (map_option parent_pid (graph_get g p)) (bs_insert p seen) (result @ [p]))"
  by pat_completeness auto
termination
  by (relation "measure (\<lambda>(g, cursor, seen, result). card (- set seen))")
    (use card_compl_bs_insert in auto)

definition ancestor_pids :: "process_graph \<Rightarrow> u32 \<Rightarrow> u32 list" where
  "ancestor_pids g p = ancestors_loop g (map_option parent_pid (graph_get g p)) [] []"

definition has_ancestor :: "process_graph \<Rightarrow> u32 \<Rightarrow> u32 \<Rightarrow> bool" where
  "has_ancestor g p ancestor_pid = (ancestor_pid \<in> set (ancestor_pids g p))"

text \<open>The step of the lineage walk: the parent, unless it is the kernel or \<open>launchd\<close>.\<close>

definition lineage_next :: "process_graph \<Rightarrow> u32 \<Rightarrow> u32 option" where
  "lineage_next g p =
     Option.bind (graph_get g p)
       (\<lambda>q. if parent_pid q \<noteq> 0 \<and> parent_pid q \<noteq> 1 then Some (parent_pid q) else None)"

function lineage_loop :: "process_graph \<Rightarrow> u32 option \<Rightarrow> u32 list \<Rightarrow> bool" where
  "lineage_loop g None seen = False"
| "lineage_loop g (Some p) seen =
     (if p \<in> set seen then True else lineage_loop g (lineage_next g p) (bs_insert p seen))"
  by pat_completeness auto
termination
  by (relation "measure (\<lambda>(g, cursor, seen). card (- set seen))")
    (use card_compl_bs_insert in auto)

definition lineage_has_cycle :: "process_graph \<Rightarrow> u32 \<Rightarrow> bool" where
  "lineage_has_cycle g p = lineage_loop g (Some p) []"

definition has_unresolved_parent :: "process_graph \<Rightarrow> u32 \<Rightarrow> bool" where
  "has_unresolved_parent g p =
     (case graph_get g p of
        None \<Rightarrow> False
      | Some q \<Rightarrow> parent_pid q > 1 \<and> \<not> bt_contains_key (graph_processes g) (parent_pid q))"

definition process_set_fingerprint :: "process_graph \<Rightarrow> u32 list \<Rightarrow> string" where
  "process_set_fingerprint g ps =
     fingerprint_process_set (map identity (List.map_filter (graph_get g) ps))"

section \<open>What construction establishes\<close>

text \<open>The contract of the graph towards the walks and the rules: looking a pid up finds exactly
  the row of the snapshot with that pid, the children of a pid are exactly the rows that name it
  as parent, and construction fails exactly on a repeated pid.\<close>

locale process_table =
  fixes build :: "'s \<Rightarrow> 'e + 'g"
    and rows :: "'s \<Rightarrow> process_record list"
    and lookup :: "'g \<Rightarrow> u32 \<Rightarrow> process_record option"
    and children :: "'g \<Rightarrow> u32 \<Rightarrow> u32 list"
    and all_rows :: "'g \<Rightarrow> process_record list"
  assumes build_fails: "(\<exists>e. build s = Inl e) \<longleftrightarrow> \<not> distinct (map process_pid (rows s))"
    and build_lookup: "build s = Inr g \<Longrightarrow> lookup g k = Some r \<longleftrightarrow> r \<in> set (rows s) \<and> process_pid r = k"
    and build_children: "build s = Inr g \<Longrightarrow>
      c \<in> set (children g k) \<longleftrightarrow> (\<exists>r. lookup g c = Some r \<and> parent_pid r = k)"
    and build_rows: "build s = Inr g \<Longrightarrow> set (all_rows g) = set (rows s)"
begin

lemma lookup_pid: "build s = Inr g \<Longrightarrow> lookup g k = Some r \<Longrightarrow> process_pid r = k"
  by (simp add: build_lookup)

lemma lookup_row: "build s = Inr g \<Longrightarrow> r \<in> set (rows s) \<Longrightarrow> lookup g (process_pid r) = Some r"
  by (simp add: build_lookup)

lemma lookup_all_rows: "build s = Inr g \<Longrightarrow> r \<in> set (all_rows g) \<longleftrightarrow> lookup g (process_pid r) = Some r"
  by (simp add: build_lookup build_rows)

lemma lookup_absent: "build s = Inr g \<Longrightarrow> lookup g k = None \<longleftrightarrow> k \<notin> process_pid ` set (rows s)"
  by (metis (no_types, lifting) build_lookup image_iff not_None_eq)

lemma pid_determines_row:
  "build s = Inr g \<Longrightarrow> p \<in> set (rows s) \<Longrightarrow> q \<in> set (rows s) \<Longrightarrow> process_pid p = process_pid q \<Longrightarrow> p = q"
  by (metis build_lookup option.inject)

end

lemma collect_processes_distinct:
  "(\<exists>m'. collect_processes ps m = Inr m') \<longleftrightarrow>
     distinct (map process_pid ps) \<and> (\<forall>p \<in> set ps. bt_get m (process_pid p) = None)"
proof (induction ps arbitrary: m)
  case Nil
  then show ?case by simp
next
  case (Cons p ps)
  show ?case
  proof (cases "bt_get m (process_pid p)")
    case None
    have "(\<forall>q \<in> set ps. bt_get (bt_insert (process_pid p) p m) (process_pid q) = None)
        \<longleftrightarrow> process_pid p \<notin> process_pid ` set ps \<and> (\<forall>q \<in> set ps. bt_get m (process_pid q) = None)"
      by (auto simp: btree_simps image_iff split: if_splits)
    with None Cons.IH show ?thesis by auto
  next
    case (Some r)
    then show ?thesis by simp
  qed
qed

lemma collect_processes_get:
  "collect_processes ps m = Inr m' \<Longrightarrow>
     bt_get m' k = Some r \<longleftrightarrow> (r \<in> set ps \<and> process_pid r = k) \<or> bt_get m k = Some r"
proof (induction ps arbitrary: m)
  case Nil
  then show ?case by simp
next
  case (Cons p ps)
  then have new: "bt_get m (process_pid p) = None"
    and rest: "collect_processes ps (bt_insert (process_pid p) p m) = Inr m'"
    by (auto split: if_splits)
  from Cons.IH [OF rest] new show ?case by (auto simp: btree_simps split: if_splits)
qed

lemma collect_processes_wf: "collect_processes ps m = Inr m' \<Longrightarrow> bt_wf m \<Longrightarrow> bt_wf m'"
  by (induction ps arbitrary: m) (auto simp: bt_wf_insert split: if_splits)

lemma children_fold_get:
  "(case bt_get (fold (\<lambda>p. bt_update_default (parent_pid p) [] (\<lambda>cs. cs @ [process_pid p])) ps m) k of
      None \<Rightarrow> [] | Some cs \<Rightarrow> cs)
   = (case bt_get m k of None \<Rightarrow> [] | Some cs \<Rightarrow> cs) @ map process_pid (filter (\<lambda>p. parent_pid p = k) ps)"
  by (induction ps arbitrary: m)
    (auto simp: bt_update_default_def btree_simps split: option.splits)

lemma bt_get_map_values: "bt_get (map (\<lambda>(k, v). (k, f v)) m) k = map_option f (bt_get m k)"
  by (induction m) (auto simp: bt_get_def)

lemma collect_children_get:
  "(case bt_get (collect_children ps) k of None \<Rightarrow> [] | Some cs \<Rightarrow> cs)
   = sort (map process_pid (filter (\<lambda>p. parent_pid p = k) ps))"
  using children_fold_get [of ps "[]" k]
  by (auto simp: collect_children_def bt_get_map_values bt.lookup_empty split: option.splits)

lemma from_snapshot_Inr:
  assumes "from_snapshot s = Inr g"
  shows "collect_processes (processes s) [] = Inr (graph_processes g)"
    and "graph_children g = collect_children (bt_values (graph_processes g))"
    and "graph_current_uid g = current_uid s"
    and "bt_wf (graph_processes g)"
  using assms collect_processes_wf [of "processes s" "[]"]
  by (auto simp: from_snapshot_def bt.wf_empty split: sum.splits)

lemma from_snapshot_get:
  "from_snapshot s = Inr g \<Longrightarrow> graph_get g k = Some r \<longleftrightarrow> r \<in> set (processes s) \<and> process_pid r = k"
  using collect_processes_get [OF from_snapshot_Inr(1), of s g k r]
  by (simp add: graph_get_def bt.lookup_empty)

lemma from_snapshot_iter: "from_snapshot s = Inr g \<Longrightarrow> set (graph_iter g) = set (processes s)"
  using from_snapshot_get [of s g] bt_values_set [OF from_snapshot_Inr(4), of s g]
  by (auto simp: graph_iter_def graph_get_def)

interpretation graph: process_table from_snapshot processes graph_get children_of graph_iter
proof unfold_locales
  fix s :: snapshot and g k r c
  show "(\<exists>e. from_snapshot s = Inl e) \<longleftrightarrow> \<not> distinct (map process_pid (processes s))"
    using collect_processes_distinct [of "processes s" "[]"]
    by (auto simp: from_snapshot_def bt.lookup_empty split: sum.splits)
  assume g: "from_snapshot s = Inr g"
  then show "graph_get g k = Some r \<longleftrightarrow> r \<in> set (processes s) \<and> process_pid r = k"
    by (rule from_snapshot_get)
  show "set (graph_iter g) = set (processes s)" using g by (rule from_snapshot_iter)
  have "children_of g k = sort (map process_pid (filter (\<lambda>p. parent_pid p = k) (graph_iter g)))"
    using collect_children_get [of "graph_iter g" k] from_snapshot_Inr(2) [OF g]
    by (simp add: children_of_def graph_iter_def)
  then show "c \<in> set (children_of g k) \<longleftrightarrow> (\<exists>r. graph_get g c = Some r \<and> parent_pid r = k)"
    using from_snapshot_iter [OF g] by (auto simp: from_snapshot_get [OF g])
qed

section \<open>Descendants\<close>

definition child_edge :: "process_graph \<Rightarrow> u32 \<Rightarrow> u32 \<Rightarrow> bool" where
  "child_edge g a b = (b \<in> set (children_of g a))"

lemma reach_leaves:
  assumes "(child_edge g)\<^sup>*\<^sup>* a b" "a \<in> S" "b \<notin> S" "\<And>x. x \<in> S \<Longrightarrow> set (children_of g x) \<subseteq> S \<union> Q"
  shows "\<exists>q \<in> Q. (child_edge g)\<^sup>*\<^sup>* q b"
  using assms(1,2,3)
proof (induction rule: converse_rtranclp_induct)
  case base
  then show ?case by simp
next
  case (step y z)
  then have "z \<in> S \<union> Q" using assms(4) [of y] by (auto simp: child_edge_def)
  with step show ?case by auto
qed

lemma descendants_loop_set:
  assumes "\<And>x. x \<in> set seen \<Longrightarrow> set (children_of g x) \<subseteq> set seen \<union> set queue"
  shows "set (descendants_loop g queue seen result) =
    set result \<union> {p. bt_contains_key (graph_processes g) p \<and> p \<notin> set seen
                     \<and> (\<exists>q \<in> set queue. (child_edge g)\<^sup>*\<^sup>* q p)}"
  using assms
proof (induction g queue seen result rule: descendants_loop.induct)
  case (1 g seen result)
  then show ?case by simp
next
  case (2 g p queue seen result)
  show ?case
  proof (cases "p \<in> set seen")
    case True
    have inv: "set (children_of g x) \<subseteq> set seen \<union> set queue" if "x \<in> set seen" for x
      using "2.prems" [OF that] True by auto
    have "(\<exists>q \<in> set (p # queue). (child_edge g)\<^sup>*\<^sup>* q x) \<longleftrightarrow> (\<exists>q \<in> set queue. (child_edge g)\<^sup>*\<^sup>* q x)"
      if "x \<notin> set seen" for x
      using reach_leaves [of g p x "set seen" "set queue"] inv True that by auto
    with True "2.IH"(1) [OF True inv] show ?thesis by auto
  next
    case False
    let ?Q = "set (queue @ children_of g p)"
    have inv: "set (children_of g x) \<subseteq> set (bs_insert p seen) \<union> ?Q"
      if "x \<in> set (bs_insert p seen)" for x
      using that "2.prems" [of x] by auto
    have split: "(child_edge g)\<^sup>*\<^sup>* p x \<longleftrightarrow> x = p \<or> (\<exists>c \<in> set (children_of g p). (child_edge g)\<^sup>*\<^sup>* c x)" for x
      by (subst rtranclp_unfold_left) (auto simp: child_edge_def)
    have "set (descendants_loop g (p # queue) seen result) =
        set (if bt_contains_key (graph_processes g) p then result @ [p] else result) \<union>
        {x. bt_contains_key (graph_processes g) x \<and> x \<notin> set (bs_insert p seen)
            \<and> (\<exists>q \<in> ?Q. (child_edge g)\<^sup>*\<^sup>* q x)}"
      using False "2.IH"(2) [OF False inv] by simp
    also have "\<dots> = set result \<union> {x. bt_contains_key (graph_processes g) x \<and> x \<notin> set seen
            \<and> (\<exists>q \<in> set (p # queue). (child_edge g)\<^sup>*\<^sup>* q x)}"
      using False by (auto simp: split)
    finally show ?thesis .
  qed
qed

lemma descendants_loop_distinct:
  "distinct result \<Longrightarrow> set result \<subseteq> set seen \<Longrightarrow> distinct (descendants_loop g queue seen result)"
proof (induction g queue seen result rule: descendants_loop.induct)
  case (1 g seen result)
  then show ?case by simp
next
  case (2 g p queue seen result)
  show ?case
  proof (cases "p \<in> set seen")
    case True
    with "2.IH"(1) "2.prems" show ?thesis by simp
  next
    case False
    let ?r = "if bt_contains_key (graph_processes g) p then result @ [p] else result"
    have "distinct ?r" "set ?r \<subseteq> set (bs_insert p seen)" using "2.prems" False by auto
    then have "distinct (descendants_loop g (queue @ children_of g p) (bs_insert p seen) ?r)"
      by (rule "2.IH"(2) [OF False])
    with False show ?thesis by simp
  qed
qed

lemma descendant_pids_set:
  "set (descendant_pids g r) = {p. graph_get g p \<noteq> None \<and> (child_edge g)\<^sup>*\<^sup>* r p}"
  using descendants_loop_set [of "[]" g "[r]" "[]"]
  by (simp add: descendant_pids_def bt_contains_key_def graph_get_def)

lemma descendant_pids_distinct: "distinct (descendant_pids g r)"
  by (simp add: descendant_pids_def descendants_loop_distinct)

section \<open>Ancestors\<close>

definition parent_edge :: "process_graph \<Rightarrow> u32 \<Rightarrow> u32 \<Rightarrow> bool" where
  "parent_edge g a b = (\<exists>r. graph_get g a = Some r \<and> parent_pid r = b \<and> b \<noteq> 0)"

lemma ancestors_loop_set:
  assumes "\<And>x y. x \<in> set seen \<Longrightarrow> parent_edge g x y \<Longrightarrow> y \<in> set seen \<or> cursor = Some y"
  shows "set (ancestors_loop g cursor seen result) =
    set result \<union> {a. a \<notin> set seen \<and> (\<exists>p. cursor = Some p \<and> p \<noteq> 0 \<and> (parent_edge g)\<^sup>*\<^sup>* p a)}"
  using assms
proof (induction g cursor seen result rule: ancestors_loop.induct)
  case (1 g seen result)
  then show ?case by simp
next
  case (2 g p seen result)
  have det: "parent_edge g p y \<longleftrightarrow> map_option parent_pid (graph_get g p) = Some y \<and> y \<noteq> 0" for y
    by (auto simp: parent_edge_def)
  show ?case
  proof (cases "p = 0 \<or> p \<in> set seen")
    case True
    have stay: "(parent_edge g)\<^sup>*\<^sup>* p a \<Longrightarrow> p \<in> set seen \<Longrightarrow> a \<in> set seen" for a
      by (induction rule: rtranclp_induct) (use "2.prems" in auto)
    with True show ?thesis by auto
  next
    case False
    have inv: "y \<in> set (bs_insert p seen) \<or> map_option parent_pid (graph_get g p) = Some y"
      if "x \<in> set (bs_insert p seen)" "parent_edge g x y" for x y
      using that "2.prems" [of x y] det [of y] by auto
    have split: "(parent_edge g)\<^sup>*\<^sup>* p a \<longleftrightarrow>
        a = p \<or> (\<exists>y. map_option parent_pid (graph_get g p) = Some y \<and> y \<noteq> 0 \<and> (parent_edge g)\<^sup>*\<^sup>* y a)" for a
      by (subst rtranclp_unfold_left) (auto simp: det)
    have "set (ancestors_loop g (Some p) seen result) = set (result @ [p]) \<union>
        {a. a \<notin> set (bs_insert p seen) \<and>
            (\<exists>y. map_option parent_pid (graph_get g p) = Some y \<and> y \<noteq> 0 \<and> (parent_edge g)\<^sup>*\<^sup>* y a)}"
      using False "2.IH" [OF False inv] by simp
    also have "\<dots> = set result \<union>
        {a. a \<notin> set seen \<and> (\<exists>q. Some p = Some q \<and> q \<noteq> 0 \<and> (parent_edge g)\<^sup>*\<^sup>* q a)}"
      using False by (auto simp: split)
    finally show ?thesis .
  qed
qed

lemma ancestor_pids_set: "set (ancestor_pids g p) = {a. (parent_edge g)\<^sup>+\<^sup>+ p a}"
proof -
  have "(parent_edge g)\<^sup>+\<^sup>+ p a \<longleftrightarrow>
      (\<exists>y. map_option parent_pid (graph_get g p) = Some y \<and> y \<noteq> 0 \<and> (parent_edge g)\<^sup>*\<^sup>* y a)" for a
    by (auto simp: tranclp_unfold_left parent_edge_def)
  then show ?thesis
    using ancestors_loop_set [of "[]" g "map_option parent_pid (graph_get g p)" "[]"]
    by (simp add: ancestor_pids_def)
qed

section \<open>Cycles of the lineage\<close>

definition lineage_edge :: "process_graph \<Rightarrow> u32 \<Rightarrow> u32 \<Rightarrow> bool" where
  "lineage_edge g a b = (lineage_next g a = Some b)"

lemma lineage_loop_correct:
  assumes "\<And>x p. x \<in> set seen \<Longrightarrow> cursor = Some p \<Longrightarrow> (lineage_edge g)\<^sup>+\<^sup>+ x p"
  shows "lineage_loop g cursor seen \<longleftrightarrow>
    (\<exists>p x. cursor = Some p \<and> (lineage_edge g)\<^sup>*\<^sup>* p x \<and> (lineage_edge g)\<^sup>+\<^sup>+ x x)"
  using assms
proof (induction g cursor seen rule: lineage_loop.induct)
  case (1 g seen)
  then show ?case by simp
next
  case (2 g p seen)
  show ?case
  proof (cases "p \<in> set seen")
    case True
    with "2.prems" [of p p] show ?thesis by auto
  next
    case False
    let ?E = "lineage_edge g"
    have inv: "?E\<^sup>+\<^sup>+ x q" if "x \<in> set (bs_insert p seen)" "lineage_next g p = Some q" for x q
    proof -
      from that(2) have "?E p q" by (simp add: lineage_edge_def)
      with that(1) "2.prems" [of x p] show ?thesis by (auto intro: tranclp.trancl_into_trancl)
    qed
    have "(\<exists>x. ?E\<^sup>*\<^sup>* p x \<and> ?E\<^sup>+\<^sup>+ x x) \<longleftrightarrow> (\<exists>q x. lineage_next g p = Some q \<and> ?E\<^sup>*\<^sup>* q x \<and> ?E\<^sup>+\<^sup>+ x x)"
    proof (intro iffI; elim exE conjE)
      fix x assume "?E\<^sup>*\<^sup>* p x" "?E\<^sup>+\<^sup>+ x x"
      then have "?E\<^sup>+\<^sup>+ p x" by (rule rtranclp_tranclp_tranclp)
      then obtain q where "?E p q" "?E\<^sup>*\<^sup>* q x" by (metis tranclpD)
      with \<open>?E\<^sup>+\<^sup>+ x x\<close> show "\<exists>q x. lineage_next g p = Some q \<and> ?E\<^sup>*\<^sup>* q x \<and> ?E\<^sup>+\<^sup>+ x x"
        by (auto simp: lineage_edge_def)
    next
      fix q x assume "lineage_next g p = Some q" "?E\<^sup>*\<^sup>* q x" "?E\<^sup>+\<^sup>+ x x"
      then show "\<exists>x. ?E\<^sup>*\<^sup>* p x \<and> ?E\<^sup>+\<^sup>+ x x"
        by (metis converse_rtranclp_into_rtranclp lineage_edge_def)
    qed
    with False "2.IH" [OF False inv] show ?thesis by simp
  qed
qed

section \<open>Properties\<close>

text \<open>
  C28: the breadth-first \<open>descendant_pids\<close> of a built graph is total and exact: it lists, in
  increasing order and once each, the observed processes reachable from the root through
  parent links, the root included when it is observed, and nothing else.
\<close>

theorem descendant_pids_exact:
  assumes "from_snapshot s = Inr g"
  shows "sorted_wrt (<) (descendant_pids g r) \<and>
    set (descendant_pids g r) =
      {p \<in> process_pid ` set (processes s).
         (\<lambda>a b. \<exists>q \<in> set (processes s). process_pid q = b \<and> parent_pid q = a)\<^sup>*\<^sup>* r p}"
proof -
  have "child_edge g = (\<lambda>a b. \<exists>q \<in> set (processes s). process_pid q = b \<and> parent_pid q = a)"
    using graph.build_children [OF assms] graph.build_lookup [OF assms]
    by (auto simp: child_edge_def fun_eq_iff)
  moreover have "graph_get g p \<noteq> None \<longleftrightarrow> p \<in> process_pid ` set (processes s)" for p
    using graph.lookup_absent [OF assms, of p] by simp
  moreover have "sorted_wrt (<) (descendant_pids g r)"
    unfolding strict_sorted_iff using descendant_pids_distinct by (simp add: descendant_pids_def)
  ultimately show ?thesis using descendant_pids_set [of g r] by auto
qed

theorem descendant_pids_exact_witness:
  "case from_snapshot (covering_snapshot 1 [plain_process 10 1, plain_process 11 10,
       plain_process 12 11, plain_process 20 1]) of
     Inl _ \<Rightarrow> False
   | Inr g \<Rightarrow> descendant_pids g 10 = [10, 11, 12] \<and> sorted_wrt (<) (descendant_pids g 10) \<and>
       set (descendant_pids g 10) =
         {p \<in> process_pid ` set (processes (covering_snapshot 1 [plain_process 10 1,
                plain_process 11 10, plain_process 12 11, plain_process 20 1])).
            (\<lambda>a b. \<exists>q \<in> set (processes (covering_snapshot 1 [plain_process 10 1,
                plain_process 11 10, plain_process 12 11, plain_process 20 1])).
              process_pid q = b \<and> parent_pid q = a)\<^sup>*\<^sup>* 10 p}"
proof -
  let ?s = "covering_snapshot 1 [plain_process 10 1, plain_process 11 10, plain_process 12 11,
    plain_process 20 1]"
  have "case from_snapshot ?s of Inl _ \<Rightarrow> False | Inr g \<Rightarrow> descendant_pids g 10 = [10, 11, 12]"
    by code_simp
  then show ?thesis
    using descendant_pids_exact [of ?s _ 10] by (cases "from_snapshot ?s") simp_all
qed

text \<open>
  The two upward walks are exact. The ancestors of a pid are the nonzero pids reached by one
  or more parent links, and the cycle test answers yes exactly when following parents (stopping
  at the kernel and at \<open>launchd\<close>) runs into a cycle.
\<close>

theorem upward_walks_exact:
  "(has_ancestor g p a \<longleftrightarrow> (parent_edge g)\<^sup>+\<^sup>+ p a) \<and>
   (lineage_has_cycle g p \<longleftrightarrow> (\<exists>x. (lineage_edge g)\<^sup>*\<^sup>* p x \<and> (lineage_edge g)\<^sup>+\<^sup>+ x x))"
  using ancestor_pids_set [of g p] lineage_loop_correct [of "[]" "Some p" g]
  by (simp add: has_ancestor_def lineage_has_cycle_def)

end
