(* ===== verification/Rules_Match.thy ===== *)
theory Rules_Match
  imports Rules_Packs Core_Graph
begin

text \<open>
  The matching functions of \<open>crates/unlinger-rules/src/lib.rs\<close>: markers in executables and
  arguments, command-line flags, profile paths, recorders, controllers and browser roots, and the
  order of evidence.
\<close>

section \<open>Strings and arguments\<close>

definition normalize :: "string \<Rightarrow> string" where
  "normalize value = str_replace (CHR 0x5C) (CHR ''/'') (to_ascii_lowercase value)"

definition contains_any :: "string \<Rightarrow> string list \<Rightarrow> bool" where
  "contains_any value markers =
     (let value = normalize value
      in list_ex (\<lambda>marker. str_contains value (normalize marker)) markers)"

definition process_contains_any :: "process_record \<Rightarrow> string list \<Rightarrow> bool" where
  "process_contains_any p markers =
     (let parts = [proc_name p]
            @ (case executable_path p of None \<Rightarrow> [] | Some path \<Rightarrow> [path])
            @ (case arguments p of None \<Rightarrow> [] | Some args \<Rightarrow> args)
      in list_ex (\<lambda>part. contains_any part markers) parts)"

definition any_argument :: "process_record \<Rightarrow> (string \<Rightarrow> bool) \<Rightarrow> bool" where
  "any_argument p P = (case arguments p of None \<Rightarrow> False | Some args \<Rightarrow> list_ex P args)"

definition args_contain :: "process_record \<Rightarrow> string \<Rightarrow> bool" where
  "args_contain p marker =
     any_argument p (\<lambda>argument.
       let argument = to_ascii_lowercase argument;
           marker = to_ascii_lowercase marker
       in argument = marker \<or> starts_with argument (marker @ ''=''))"

definition args_contain_any :: "process_record \<Rightarrow> string list \<Rightarrow> bool" where
  "args_contain_any p markers = list_ex (args_contain p) markers"

fun flag_value_in :: "string \<Rightarrow> string list \<Rightarrow> string option" where
  "flag_value_in flag [] = None"
| "flag_value_in flag (argument # rest) =
     (let normalized = to_ascii_lowercase argument
      in if normalized = flag then (case rest of [] \<Rightarrow> None | value # _ \<Rightarrow> Some value)
         else case strip_prefix normalized (flag @ ''='') of
                Some value \<Rightarrow> Some (drop (length argument - length value) argument)
              | None \<Rightarrow> flag_value_in flag rest)"

definition flag_value :: "process_record \<Rightarrow> string \<Rightarrow> string option" where
  "flag_value p flag =
     (case arguments p of
        None \<Rightarrow> None
      | Some args \<Rightarrow> flag_value_in (to_ascii_lowercase flag) args)"

definition is_ephemeral_path :: "string \<Rightarrow> bool" where
  "is_ephemeral_path path =
     (let path = normalize path
      in starts_with path ''/tmp/'' \<or> starts_with path ''/private/tmp/''
         \<or> starts_with path ''/var/folders/''
         \<or> str_contains path ''playwright_chromiumdev_profile''
         \<or> str_contains path ''puppeteer_dev_chrome_profile'')"

section \<open>Processes\<close>

definition lower_basename :: "process_record \<Rightarrow> string" where
  "lower_basename p = to_ascii_lowercase (executable_basename p)"

definition matches_recorder :: "process_record \<Rightarrow> signature_pack \<Rightarrow> bool" where
  "matches_recorder p pack = (lower_basename p \<in> set (recorder_executable_basenames pack))"

definition has_type_argument :: "process_record \<Rightarrow> bool" where
  "has_type_argument p = any_argument p (\<lambda>a. starts_with (to_ascii_lowercase a) ''--type='')"

definition matches_controller :: "process_record \<Rightarrow> signature_pack \<Rightarrow> bool" where
  "matches_controller p pack =
     (if matches_recorder p pack \<or> str_contains (lower_basename p) ''crashpad'' \<or> has_type_argument p
      then False
      else let path = to_ascii_lowercase (case executable_path p of None \<Rightarrow> proc_name p | Some e \<Rightarrow> e)
           in if contains_any path (controller_markers pack) then True
              else any_argument p (\<lambda>a. \<not> starts_with a ''-'' \<and> contains_any a (controller_markers pack)))"

definition is_browser_root :: "process_record \<Rightarrow> signature_pack \<Rightarrow> bool" where
  "is_browser_root p pack =
     (contains_any (lower_basename p) (browser_executable_markers pack) \<and> \<not> has_type_argument p)"

definition pack_anchor_count :: "process_record \<Rightarrow> signature_pack \<Rightarrow> usize" where
  "pack_anchor_count p pack =
     of_bool (process_contains_any p (framework_markers pack))
     + of_bool (case flag_value p ''--user-data-dir'' of
                  None \<Rightarrow> False
                | Some path \<Rightarrow> contains_any path (ephemeral_profile_markers pack))"

section \<open>Evidence\<close>

definition item :: "string \<Rightarrow> evidence_family \<Rightarrow> u32 option \<Rightarrow> evidence_item" where
  "item i family source = \<lparr>ev_id = i, ev_family = family, ev_source_pid = source\<rparr>"

definition evidence_key :: "evidence_item \<Rightarrow> evidence_family \<times> string \<times> u32 option" where
  "evidence_key e = (ev_family e, ev_id e, ev_source_pid e)"

definition sort_evidence :: "evidence_item list \<Rightarrow> evidence_item list" where
  "sort_evidence es = remdups_adj (sort_key evidence_key es)"

lemma set_sort_evidence [simp]: "set (sort_evidence es) = set es"
  by (simp add: sort_evidence_def)

end
