(* ===== verification/Rules_Candidates.thy ===== *)
theory Rules_Candidates
  imports Rules_Match
begin

text \<open>
  The candidates of \<open>crates/unlinger-rules/src/lib.rs\<close>: which processes of a snapshot form one
  automation session under a signature pack, and which pack wins when several claim a root.
\<close>

section \<open>Data\<close>

record candidate =
  cand_pack :: signature_pack
  cand_root_pid :: u32
  cand_controller_pid :: "u32 option"
  cand_browser_root_pids :: "u32 list"
  cand_member_pids :: "u32 list"
  cand_pack_anchor_count :: usize

type_synonym selection = "(u32, candidate) btree"

section \<open>Selection\<close>

definition candidate_replaces :: "candidate \<Rightarrow> candidate \<Rightarrow> bool" where
  "candidate_replaces c existing =
     (cand_pack_anchor_count existing < cand_pack_anchor_count c
      \<or> (cand_pack_anchor_count c = cand_pack_anchor_count existing
          \<and> pack_id (cand_pack c) < pack_id (cand_pack existing)))"

definition select_candidate :: "candidate \<Rightarrow> selection \<Rightarrow> selection" where
  "select_candidate c selected =
     (if (case bt_get selected (cand_root_pid c) of
            None \<Rightarrow> True
          | Some existing \<Rightarrow> candidate_replaces c existing)
      then bt_insert (cand_root_pid c) c selected
      else selected)"

section \<open>Recorders\<close>

definition joined_recorder_pids :: "process_graph \<Rightarrow> u32 \<Rightarrow> u32 list \<Rightarrow> signature_pack \<Rightarrow> u32 list" where
  "joined_recorder_pids g controller_pid browser_root_pids pack =
     (case graph_get g controller_pid of
        None \<Rightarrow> []
      | Some controller \<Rightarrow>
          if process_group_id controller = 0
             \<or> \<not> list_ex (\<lambda>p. case graph_get g p of
                  None \<Rightarrow> False
                | Some browser \<Rightarrow> process_group_id browser \<noteq> 0
                    \<and> process_group_id browser = process_group_id controller) browser_root_pids
          then []
          else map process_pid (filter (\<lambda>p.
                 parent_pid p = controller_pid \<and> uid p = uid controller \<and> tty_device p = None
                 \<and> started_at_unix_micros (identity controller) \<le> started_at_unix_micros (identity p)
                 \<and> process_group_id p = process_group_id controller \<and> matches_recorder p pack)
               (graph_iter g)))"

definition has_plausible_unjoined_recorder ::
    "process_graph \<Rightarrow> candidate \<Rightarrow> process_record list \<Rightarrow> bool" where
  "has_plausible_unjoined_recorder g c browser_roots =
     list_ex (\<lambda>p. process_pid p \<notin> set (cand_member_pids c) \<and> matches_recorder p (cand_pack c)
       \<and> uid p = graph_current_uid g \<and> tty_device p = None
       \<and> list_ex (\<lambda>browser.
           started_at_unix_micros (identity browser) \<le> started_at_unix_micros (identity p)
           \<and> process_group_id p \<noteq> 0 \<and> process_group_id p = process_group_id browser) browser_roots)
     (graph_iter g)"

section \<open>The candidates of one pack\<close>

definition pack_browser_roots :: "process_graph \<Rightarrow> signature_pack \<Rightarrow> u32 list" where
  "pack_browser_roots g pack = map process_pid (filter (\<lambda>p. is_browser_root p pack) (graph_iter g))"

definition pack_controllers :: "process_graph \<Rightarrow> signature_pack \<Rightarrow> u32 list" where
  "pack_controllers g pack =
     bs_of_list (map process_pid (filter (\<lambda>p.
       process_pid p \<notin> set (pack_browser_roots g pack) \<and> matches_controller p pack) (graph_iter g)))"

text \<open>Browsers by their nearest controller ancestor, and the anchored ones without a controller.\<close>

definition assign_browser ::
    "process_graph \<Rightarrow> signature_pack \<Rightarrow> u32 list \<Rightarrow> u32 \<Rightarrow> (u32, u32 list) btree \<times> u32 list
      \<Rightarrow> (u32, u32 list) btree \<times> u32 list" where
  "assign_browser g pack controllers browser_pid = (\<lambda>(by_controller, unowned).
     case find (\<lambda>p. p \<in> set controllers) (ancestor_pids g browser_pid) of
       Some controller_pid \<Rightarrow>
         (bt_update_default controller_pid [] (\<lambda>bs. bs @ [browser_pid]) by_controller, unowned)
     | None \<Rightarrow>
         (by_controller,
          if (case graph_get g browser_pid of None \<Rightarrow> False | Some p \<Rightarrow> 0 < pack_anchor_count p pack)
          then unowned @ [browser_pid] else unowned))"

definition assign_browsers :: "process_graph \<Rightarrow> signature_pack \<Rightarrow> (u32, u32 list) btree \<times> u32 list" where
  "assign_browsers g pack =
     fold (assign_browser g pack (pack_controllers g pack)) (pack_browser_roots g pack) ([], [])"

definition controller_candidate ::
    "process_graph \<Rightarrow> signature_pack \<Rightarrow> u32 \<times> u32 list \<Rightarrow> candidate" where
  "controller_candidate g pack = (\<lambda>(controller_pid, assigned).
     let browsers = sort assigned;
         members = [controller_pid] @ concat (map (descendant_pids g) browsers)
           @ joined_recorder_pids g controller_pid browsers pack
     in \<lparr>cand_pack = pack, cand_root_pid = controller_pid,
         cand_controller_pid = Some controller_pid, cand_browser_root_pids = browsers,
         cand_member_pids = remdups_adj (sort members),
         cand_pack_anchor_count =
           (case graph_get g controller_pid of None \<Rightarrow> 0 | Some p \<Rightarrow> pack_anchor_count p pack)\<rparr>)"

definition lone_controller_candidate :: "process_graph \<Rightarrow> signature_pack \<Rightarrow> u32 \<Rightarrow> candidate option" where
  "lone_controller_candidate g pack controller_pid =
     map_option (\<lambda>p.
       \<lparr>cand_pack = pack, cand_root_pid = controller_pid,
        cand_controller_pid = Some controller_pid, cand_browser_root_pids = [],
        cand_member_pids = [controller_pid], cand_pack_anchor_count = pack_anchor_count p pack\<rparr>)
     (graph_get g controller_pid)"

definition unowned_candidate :: "process_graph \<Rightarrow> signature_pack \<Rightarrow> u32 \<Rightarrow> candidate option" where
  "unowned_candidate g pack browser_pid =
     map_option (\<lambda>p.
       \<lparr>cand_pack = pack, cand_root_pid = browser_pid,
        cand_controller_pid = None, cand_browser_root_pids = [browser_pid],
        cand_member_pids = descendant_pids g browser_pid,
        cand_pack_anchor_count = pack_anchor_count p pack\<rparr>)
     (graph_get g browser_pid)"

definition pack_candidates :: "process_graph \<Rightarrow> signature_pack \<Rightarrow> candidate list" where
  "pack_candidates g pack =
     (case assign_browsers g pack of (by_controller, unowned) \<Rightarrow>
        map (controller_candidate g pack) by_controller
        @ List.map_filter (lone_controller_candidate g pack)
            (filter (\<lambda>p. p \<notin> set (bt_keys by_controller)) (pack_controllers g pack))
        @ List.map_filter (unowned_candidate g pack) unowned)"

definition candidates :: "rule_set \<Rightarrow> process_graph \<Rightarrow> candidate list" where
  "candidates rules g =
     bt_values (fold (\<lambda>pack. fold select_candidate (pack_candidates g pack)) (packs rules) [])"

section \<open>Well-formed candidates\<close>

text \<open>What a candidate of a graph satisfies: its members are known, sorted and distinct, its root is a
  member, and the root is its controller or, without one, its only browser root.\<close>

definition candidate_wf :: "process_graph \<Rightarrow> candidate \<Rightarrow> bool" where
  "candidate_wf g c \<longleftrightarrow> distinct (cand_member_pids c) \<and> cand_root_pid c \<in> set (cand_member_pids c) \<and>
     list_all (\<lambda>p. graph_get g p \<noteq> None) (cand_member_pids c) \<and>
     (cand_controller_pid c = Some (cand_root_pid c) \<or>
      cand_controller_pid c = None \<and> cand_root_pid c \<in> set (cand_browser_root_pids c)) \<and>
     set (cand_browser_root_pids c) \<subseteq> set (cand_member_pids c)"

lemma graph_iter_known:
  "from_snapshot s = Inr g \<Longrightarrow> p \<in> set (graph_iter g) \<Longrightarrow> graph_get g (process_pid p) = Some p"
  by (simp add: graph.lookup_all_rows)

lemma descendant_pids_known: "p \<in> set (descendant_pids g r) \<Longrightarrow> graph_get g p \<noteq> None"
  by (simp add: descendant_pids_set)

lemma descendant_pids_self: "graph_get g r \<noteq> None \<Longrightarrow> r \<in> set (descendant_pids g r)"
  by (simp add: descendant_pids_set)

lemma joined_recorders_known:
  "from_snapshot s = Inr g \<Longrightarrow> p \<in> set (joined_recorder_pids g k bs pack) \<Longrightarrow> graph_get g p \<noteq> None"
  by (auto simp: joined_recorder_pids_def graph_iter_known split: option.splits if_splits)

lemma controller_candidate_wf:
  assumes g: "from_snapshot s = Inr g" and k: "graph_get g k \<noteq> None" and bs: "\<forall>b\<in>set bs. graph_get g b \<noteq> None"
  shows "candidate_wf g (controller_candidate g pack (k, bs))"
proof -
  let ?c = "controller_candidate g pack (k, bs)"
  have members: "set (cand_member_pids ?c) = {k} \<union> (\<Union>b\<in>set bs. set (descendant_pids g b))
      \<union> set (joined_recorder_pids g k (sort bs) pack)"
    by (simp add: controller_candidate_def Let_def Un_assoc set_insort_key)
  have "list_all (\<lambda>p. graph_get g p \<noteq> None) (cand_member_pids ?c)"
    unfolding list_all_iff members using k joined_recorders_known [OF g] descendant_pids_known by blast
  moreover have "set bs \<subseteq> set (cand_member_pids ?c)"
    unfolding members using bs descendant_pids_self by blast
  moreover have "distinct (cand_member_pids ?c)" "cand_root_pid ?c = k" "cand_controller_pid ?c = Some k"
    "set (cand_browser_root_pids ?c) = set bs"
    by (simp_all add: controller_candidate_def Let_def distinct_remdups_adj_sorted sorted_insort)
  ultimately show ?thesis unfolding candidate_wf_def by (simp add: members)
qed

lemma lone_controller_candidate_wf:
  "lone_controller_candidate g pack k = Some c \<Longrightarrow> candidate_wf g c"
  by (auto simp: lone_controller_candidate_def candidate_wf_def)

lemma unowned_candidate_wf: "unowned_candidate g pack b = Some c \<Longrightarrow> candidate_wf g c"
  using descendant_pids_self [of g b] descendant_pids_known [of _ g b]
  by (auto simp: unowned_candidate_def candidate_wf_def descendant_pids_distinct list_all_iff)

text \<open>Controllers and assigned browsers are rows of the graph.\<close>

lemma set_bt_insert: "set (bt_insert k v m) \<subseteq> insert (k, v) (set m)"
  by (induction m) auto

definition assignment_ok :: "u32 list \<Rightarrow> u32 list \<Rightarrow> (u32, u32 list) btree \<times> u32 list \<Rightarrow> bool" where
  "assignment_ok controllers browsers = (\<lambda>(by_controller, unowned).
     (\<forall>(k, bs)\<in>set by_controller. k \<in> set controllers \<and> set bs \<subseteq> set browsers) \<and> set unowned \<subseteq> set browsers)"

lemma assign_browser_ok:
  assumes "assignment_ok controllers browsers x" "b \<in> set browsers"
  shows "assignment_ok controllers browsers (assign_browser g pack controllers b x)"
proof -
  obtain m u where x: "x = (m, u)" by fastforce
  have pairs: "k \<in> set controllers \<and> set bs \<subseteq> set browsers" if "(k, bs) \<in> set m" for k bs
    using assms(1) that by (auto simp: assignment_ok_def x)
  have u: "set u \<subseteq> set browsers" using assms(1) by (simp add: assignment_ok_def x)
  have owned: "assignment_ok controllers browsers (bt_update_default k [] (\<lambda>bs. bs @ [b]) m, u)"
    if k: "k \<in> set controllers" for k
  proof -
    let ?v = "(case bt_get m k of None \<Rightarrow> [] | Some bs \<Rightarrow> bs) @ [b]"
    have v: "set ?v \<subseteq> set browsers"
      using assms(2) bt_get_in_set [of m k] pairs by (cases "bt_get m k") auto
    have "k' \<in> set controllers \<and> set bs \<subseteq> set browsers" if "(k', bs) \<in> set (bt_insert k ?v m)" for k' bs
    proof -
      from that set_bt_insert [of k ?v m] have "(k', bs) = (k, ?v) \<or> (k', bs) \<in> set m" by blast
      then show ?thesis using v k pairs by blast
    qed
    then show ?thesis using u by (auto simp: assignment_ok_def bt_update_default_def)
  qed
  show ?thesis
  proof (cases "find (\<lambda>p. p \<in> set controllers) (ancestor_pids g b)")
    case None
    then show ?thesis using u assms by (auto simp: assign_browser_def x assignment_ok_def)
  next
    case (Some k)
    then have "k \<in> set controllers" by (auto simp: find_Some_iff)
    then show ?thesis using owned Some by (simp add: assign_browser_def x)
  qed
qed

lemma assign_browsers_ok:
  "assignment_ok (pack_controllers g pack) (pack_browser_roots g pack) (assign_browsers g pack)"
proof -
  have "assignment_ok cs all (fold (assign_browser g pack cs) bs x)"
    if "set bs \<subseteq> set all" "assignment_ok cs all x" for cs all bs x
    using that by (induction bs arbitrary: x) (simp_all add: assign_browser_ok)
  then show ?thesis unfolding assign_browsers_def by (simp add: assignment_ok_def)
qed

lemma pack_candidates_wf:
  assumes g: "from_snapshot s = Inr g" and c: "c \<in> set (pack_candidates g pack)"
  shows "candidate_wf g c \<and> cand_pack c = pack"
proof -
  obtain m u where a: "assign_browsers g pack = (m, u)" by fastforce
  have known: "graph_get g p \<noteq> None" if "p \<in> set (pack_controllers g pack) \<or> p \<in> set (pack_browser_roots g pack)" for p
    using that graph_iter_known [OF g] by (auto simp: pack_controllers_def pack_browser_roots_def)
  have ok: "assignment_ok (pack_controllers g pack) (pack_browser_roots g pack) (m, u)"
    using assign_browsers_ok [of g pack] by (simp add: a)
  from c consider (owned) k bs where "(k, bs) \<in> set m" "c = controller_candidate g pack (k, bs)"
    | (lone) k where "lone_controller_candidate g pack k = Some c"
    | (unowned) b where "unowned_candidate g pack b = Some c"
    by (auto simp: pack_candidates_def a map_filter_def)
  then show ?thesis
  proof cases
    case owned
    then have "k \<in> set (pack_controllers g pack)" "set bs \<subseteq> set (pack_browser_roots g pack)"
      using ok by (auto simp: assignment_ok_def)
    then have "candidate_wf g c" using owned known controller_candidate_wf [OF g] by blast
    then show ?thesis using owned by (simp add: controller_candidate_def Let_def)
  next
    case lone
    then show ?thesis using lone_controller_candidate_wf by (auto simp: lone_controller_candidate_def)
  next
    case unowned
    then show ?thesis using unowned_candidate_wf by (auto simp: unowned_candidate_def)
  qed
qed


section \<open>Selection keeps the best candidate of each root\<close>

definition selection_ok :: "candidate list \<Rightarrow> selection \<Rightarrow> bool" where
  "selection_ok seen m \<longleftrightarrow> bt_wf m \<and>
     (\<forall>k c. bt_get m k = Some c \<longrightarrow> cand_root_pid c = k \<and> c \<in> set seen) \<and>
     (\<forall>c\<in>set seen. \<exists>d. bt_get m (cand_root_pid c) = Some d \<and> \<not> candidate_replaces c d)"

lemma candidate_replaces_trans:
  "candidate_replaces c d \<Longrightarrow> \<not> candidate_replaces e d \<Longrightarrow> \<not> candidate_replaces e c"
  by (auto simp: candidate_replaces_def)

lemma candidate_replaces_irrefl: "\<not> candidate_replaces c c"
  by (simp add: candidate_replaces_def)

lemma select_candidate_ok:
  assumes "selection_ok seen m"
  shows "selection_ok (seen @ [c]) (select_candidate c m)"
proof (cases "case bt_get m (cand_root_pid c) of None \<Rightarrow> True | Some d \<Rightarrow> candidate_replaces c d")
  case True
  have sel: "select_candidate c m = bt_insert (cand_root_pid c) c m"
    using True by (simp add: select_candidate_def)
  have "\<exists>d'. bt_get (bt_insert (cand_root_pid c) c m) (cand_root_pid e) = Some d' \<and> \<not> candidate_replaces e d'"
    if e: "e \<in> set seen" for e
  proof (cases "cand_root_pid e = cand_root_pid c")
    case same: True
    obtain d where "bt_get m (cand_root_pid e) = Some d" "\<not> candidate_replaces e d"
      using assms e unfolding selection_ok_def by blast
    then show ?thesis using True same candidate_replaces_trans [of c d e] by (simp add: bt.lookup_insert)
  next
    case False
    then show ?thesis using assms e unfolding selection_ok_def by (simp add: bt.lookup_insert)
  qed
  then show ?thesis
    using assms candidate_replaces_irrefl unfolding sel
    by (auto simp: selection_ok_def bt.wf_insert bt.lookup_insert split: if_splits)
next
  case False
  then have sel: "select_candidate c m = m" by (simp add: select_candidate_def)
  from False obtain d where "bt_get m (cand_root_pid c) = Some d" "\<not> candidate_replaces c d"
    by (auto split: option.splits)
  then show ?thesis using assms unfolding sel by (auto simp: selection_ok_def)
qed

lemma select_candidates_ok:
  "selection_ok seen m \<Longrightarrow> selection_ok (seen @ cs) (fold select_candidate cs m)"
proof (induction cs arbitrary: seen m)
  case (Cons c cs)
  from Cons.IH [OF select_candidate_ok [OF Cons.prems, of c]] show ?case by simp
qed simp

lemma select_packs_ok:
  "selection_ok seen m \<Longrightarrow>
   selection_ok (seen @ concat (map (pack_candidates g) ps))
     (fold (\<lambda>pack. fold select_candidate (pack_candidates g pack)) ps m)"
proof (induction ps arbitrary: seen m)
  case (Cons p ps)
  from Cons.IH [OF select_candidates_ok [OF Cons.prems, of "pack_candidates g p"]] show ?case by simp
qed simp

lemma candidates_selection:
  obtains m where "candidates rs g = bt_values m" "selection_ok (concat (map (pack_candidates g) (packs rs))) m"
proof -
  have "selection_ok [] []" by (simp add: selection_ok_def bt.wf_empty bt.lookup_empty)
  from select_packs_ok [OF this, of g "packs rs"] that show ?thesis by (simp add: candidates_def)
qed

lemma candidates_wf:
  assumes g: "from_snapshot s = Inr g" and c: "c \<in> set (candidates rs g)"
  shows "candidate_wf g c" "cand_pack c \<in> set (packs rs)"
proof -
  obtain m where m: "candidates rs g = bt_values m" "selection_ok (concat (map (pack_candidates g) (packs rs))) m"
    by (rule candidates_selection)
  then obtain k where "bt_get m k = Some c"
    using c bt_values_set [of m c] by (auto simp: selection_ok_def)
  then have "c \<in> set (concat (map (pack_candidates g) (packs rs)))"
    using m(2) unfolding selection_ok_def by blast
  then obtain pack where "pack \<in> set (packs rs)" "c \<in> set (pack_candidates g pack)" by auto
  then show "candidate_wf g c" "cand_pack c \<in> set (packs rs)" using pack_candidates_wf [OF g] by auto
qed

text \<open>
  The candidates of a graph have distinct roots and are the best claims to them: whenever any
  pack has a candidate for a root, exactly one candidate with that root is selected, and no
  candidate of any pack for that root has more anchors, or as many under a smaller pack id.
\<close>

theorem candidates_are_best:
  "distinct (map cand_root_pid (candidates rs g)) \<and>
   list_all (\<lambda>c. list_ex (\<lambda>d. cand_root_pid d = cand_root_pid c \<and> \<not> candidate_replaces c d) (candidates rs g))
     (concat (map (pack_candidates g) (packs rs)))"
proof -
  obtain m where m: "candidates rs g = bt_values m" "selection_ok (concat (map (pack_candidates g) (packs rs))) m"
    by (rule candidates_selection)
  have wf: "bt_wf m" using m(2) by (simp add: selection_ok_def)
  have "cand_root_pid d = k" if "(k, d) \<in> set m" for k d
    using m(2) bt_in_set_get [OF wf that] by (auto simp: selection_ok_def)
  then have "map cand_root_pid (candidates rs g) = bt_keys m"
    unfolding m(1) bt_values_def bt_keys_def by auto
  then have "distinct (map cand_root_pid (candidates rs g))" using bt.keys_distinct [OF wf] by simp
  moreover have "\<exists>d\<in>set (candidates rs g). cand_root_pid d = cand_root_pid c \<and> \<not> candidate_replaces c d"
    if c: "c \<in> set (concat (map (pack_candidates g) (packs rs)))" for c
    using m c bt_values_set [OF wf] unfolding selection_ok_def by metis
  ultimately show ?thesis unfolding list_all_iff list_ex_iff by blast
qed

end
