(* ===== verification/Rules_Classify.thy ===== *)
theory Rules_Classify
  imports Rules_Candidates Core_Cleanup
begin

text \<open>
  \<open>Analyzer::classify\<close> of \<open>crates/unlinger-rules/src/lib.rs\<close>, cut at its own paragraphs: the
  protections, the facts about profile and transport, ownership, versions and age, the provenance
  evidence, abandonment, the gates and the state, the targets and artifacts, and the report. The
  set \<open>protection\<close> is threaded through the paragraphs as the code threads it.
\<close>

section \<open>The analyzer\<close>

record analyzer_context =
  self_pid :: "u32 option"
  context_ancestor_pids :: "u32 list"
  task_controllers :: "task_controller_binding list"
  session_owners :: "session_owner_binding list"

record analyzer =
  rules :: rule_set
  analyzer_ctx :: analyzer_context

definition protect :: "bool \<Rightarrow> string \<Rightarrow> string list \<Rightarrow> string list" where
  "protect b i protection = (if b then bs_insert i protection else protection)"

section \<open>Ownership\<close>

definition owned_task_controller ::
    "analyzer \<Rightarrow> process_record \<Rightarrow> signature_pack \<Rightarrow> task_controller_binding option" where
  "owned_task_controller a p pack =
     (case playwright_cli (runtime p) of
        None \<Rightarrow> None
      | Some cli \<Rightarrow>
          if task_controller_version pack \<noteq> Some (cli_version cli) then None
          else (case task_id_from_session (cli_session_name cli) of
                  None \<Rightarrow> None
                | Some task_id \<Rightarrow>
                    find (\<lambda>b. tb_task_id b = task_id \<and> exact_match (tb_controller b) (identity p))
                      (task_controllers (analyzer_ctx a))))"

definition bound_session_owner ::
    "analyzer \<Rightarrow> process_record \<Rightarrow> signature_pack \<Rightarrow> session_owner_binding option" where
  "bound_session_owner a p pack =
     (if pack_id pack \<noteq> ''playwright'' \<or> session_owners (analyzer_ctx a) = [] then None
      else case playwright_cli (runtime p) of
             None \<Rightarrow> None
           | Some cli \<Rightarrow>
               if task_id_from_session (cli_session_name cli) \<noteq> None then None
               else if session_owner_controller_version pack \<noteq> Some (cli_version cli) then None
               else (case cli_selector_fingerprint cli of
                       None \<Rightarrow> None
                     | Some selector \<Rightarrow>
                         find (\<lambda>b. sb_selector_fingerprint b = selector
                                \<and> sb_session_name b = cli_session_name cli
                                \<and> sb_controller_version b = cli_version cli
                                \<and> exact_match (sb_controller b) (identity p))
                           (session_owners (analyzer_ctx a))))"

text \<open>A crash handler that detached from a browser of the session is not work of its own.\<close>

definition detached_crash_handler :: "process_graph \<Rightarrow> u32 list \<Rightarrow> process_record \<Rightarrow> bool" where
  "detached_crash_handler g session_members p =
     (executable_basename p = ''chrome_crashpad_handler''
      \<and> args_contain p ''--monitor-self-annotation=ptype=crashpad-handler''
      \<and> (case crashpad_bundle (runtime p) of
           None \<Rightarrow> False
         | Some bundle \<Rightarrow>
             bundle_id bundle = ''com.google.chrome.for.testing''
             \<and> list_ex (\<lambda>browser. process_pid browser \<in> set session_members
                          \<and> app_bundle (runtime browser) = Some bundle) (graph_iter g)))"

definition any_external_session_work ::
    "process_graph \<Rightarrow> u32 list \<Rightarrow> (process_record \<Rightarrow> bool) \<Rightarrow> bool" where
  "any_external_session_work g session_members carries_selector =
     list_ex (\<lambda>p.
       if process_pid p \<in> set session_members then False
       else if detached_crash_handler g session_members p then False
       else carries_selector p) (graph_iter g)"

definition controller_session_members :: "process_graph \<Rightarrow> process_identity \<Rightarrow> u32 list" where
  "controller_session_members g controller =
     (if (case graph_get g (pid controller) of
            None \<Rightarrow> False | Some p \<Rightarrow> exact_match controller (identity p))
      then pid controller # descendant_pids g (pid controller)
      else [])"

definition session_flags :: "string list" where
  "session_flags = [''--session'', ''-s'']"

definition session_has_live_work :: "analyzer \<Rightarrow> process_graph \<Rightarrow> string \<Rightarrow> bool" where
  "session_has_live_work a g session_id =
     (let browser_members = bs_of_list (concat (map (\<lambda>b.
            if tb_task_id b = session_id then controller_session_members g (tb_controller b) else [])
            (task_controllers (analyzer_ctx a))))
      in any_external_session_work g browser_members (\<lambda>p.
           Option.bind (task_session_name (runtime p)) task_id_from_session = Some session_id
           \<or> list_ex (\<lambda>flag. Option.bind (flag_value p flag) task_id_from_session = Some session_id)
               session_flags))"

definition ordinary_session_has_live_work :: "process_graph \<Rightarrow> session_owner_binding \<Rightarrow> bool" where
  "ordinary_session_has_live_work g b =
     (let browser_members = bs_of_list (controller_session_members g (sb_controller b))
      in any_external_session_work g browser_members (\<lambda>p.
           list_ex (\<lambda>flag. flag_value p flag = Some (sb_session_name b)) session_flags))"

section \<open>Protections of the process set\<close>

definition members_same_user :: "process_graph \<Rightarrow> process_record list \<Rightarrow> bool" where
  "members_same_user g members = list_all (\<lambda>p. uid p = graph_current_uid g \<and> uid p \<noteq> 0) members"

definition names_self_or_ancestor :: "analyzer_context \<Rightarrow> u32 list \<Rightarrow> bool" where
  "names_self_or_ancestor ctx member_pids =
     ((case self_pid ctx of None \<Rightarrow> False | Some p \<Rightarrow> p \<in> set member_pids)
      \<or> list_ex (\<lambda>p. p \<in> set (context_ancestor_pids ctx)) member_pids)"

definition process_set_protection ::
    "analyzer_context \<Rightarrow> process_graph \<Rightarrow> candidate \<Rightarrow> process_record list \<Rightarrow> string list" where
  "process_set_protection ctx g c members =
     protect (list_ex (\<lambda>p. \<not> has_complete_classification_facts p) members)
       ''protection.incomplete_process_facts''
     (protect (list_ex (\<lambda>p. lineage_has_cycle g p \<or> has_unresolved_parent g p) (cand_member_pids c))
       ''protection.incomplete_or_cyclic_graph''
     (protect (names_self_or_ancestor ctx (cand_member_pids c)) ''protection.unlinger_or_ancestor''
     (protect (0 \<in> set (cand_member_pids c) \<or> 1 \<in> set (cand_member_pids c)) ''protection.system_pid''
     (protect (\<not> members_same_user g members) ''protection.uid_or_root'' []))))"

section \<open>Session facts\<close>

record session_facts =
  has_controller :: bool
  has_browser_roots :: bool
  framework_argument :: bool
  headless :: bool
  transport :: bool
  debug_pipe :: bool
  version_gate :: "browser_version_gate option"
  recognized_browser_product :: bool
  profile_paths :: "string list"
  standard_profile :: bool
  ephemeral_profile :: bool
  shared_profile :: bool

definition marker_profile :: "signature_pack \<Rightarrow> string \<Rightarrow> bool" where
  "marker_profile pack path =
     (contains_any path (ephemeral_profile_markers pack) \<and> is_ephemeral_path path)"

definition profile_shared_outside :: "process_graph \<Rightarrow> candidate \<Rightarrow> string list \<Rightarrow> bool" where
  "profile_shared_outside g c paths =
     list_ex (\<lambda>profile.
       list_ex (\<lambda>p. process_pid p \<notin> set (cand_member_pids c)
         \<and> (case flag_value p ''--user-data-dir'' of
              None \<Rightarrow> False | Some other \<Rightarrow> normalize other = normalize profile)) (graph_iter g)) paths"

definition session_facts_of :: "process_graph \<Rightarrow> candidate \<Rightarrow> process_record list \<Rightarrow> session_facts" where
  "session_facts_of g c browser_roots =
     (let pack = cand_pack c;
          controller = (case Option.bind (cand_controller_pid c) (graph_get g) of
                          None \<Rightarrow> [] | Some p \<Rightarrow> [p]);
          paths = List.map_filter (\<lambda>p. flag_value p ''--user-data-dir'') browser_roots
      in \<lparr>has_controller = (cand_controller_pid c \<noteq> None),
          has_browser_roots = (browser_roots \<noteq> []),
          framework_argument =
            list_ex (\<lambda>p. process_contains_any p (framework_markers pack)) (controller @ browser_roots),
          headless = (browser_roots \<noteq> [] \<and> list_all (\<lambda>p. args_contain_any p HEADLESS_MARKERS) browser_roots),
          transport = list_ex (\<lambda>p. args_contain_any p TRANSPORT_MARKERS) browser_roots,
          debug_pipe = list_ex (\<lambda>p. args_contain p ''--remote-debugging-pipe'') browser_roots,
          version_gate =
            (if browser_roots \<noteq> [] then Some (evaluate_browser_versions browser_roots (version_policy_of pack))
             else None),
          recognized_browser_product = (browser_roots \<noteq> []
            \<and> (case policy_bundle_id (version_policy_of pack) of
                 None \<Rightarrow> False
               | Some bundle \<Rightarrow> list_all (\<lambda>p. case app_bundle (runtime p) of
                     None \<Rightarrow> False | Some f \<Rightarrow> bundle_id f = bundle) browser_roots)),
          profile_paths = paths,
          standard_profile = list_ex (\<lambda>path. contains_any path STANDARD_PROFILE_MARKERS) paths,
          ephemeral_profile = (paths \<noteq> [] \<and> list_all (marker_profile pack) paths),
          shared_profile = profile_shared_outside g c paths\<rparr>)"

section \<open>Protections of the session\<close>

definition control_path_incomplete :: "process_record list \<Rightarrow> bool" where
  "control_path_incomplete browser_roots =
     (list_ex (\<lambda>p. args_contain p ''--remote-debugging-port'') browser_roots
      \<and> list_ex (\<lambda>p. \<not> debug_transport_facts_complete (runtime p)) browser_roots)"

definition profile_protection :: "session_facts \<Rightarrow> process_record list \<Rightarrow> string list \<Rightarrow> string list" where
  "profile_protection f browser_roots protection =
     (let persistent_profile = (profile_paths f \<noteq> [] \<and> \<not> ephemeral_profile f);
          manual_cdp = (\<not> has_controller f \<and> \<not> ephemeral_profile f
            \<and> list_ex (\<lambda>p. args_contain p ''--remote-debugging-port'') browser_roots)
      in protect (control_path_incomplete browser_roots) ''protection.debug_peer_visibility_incomplete''
        (protect (list_ex (\<lambda>p. attached_debug_transport (runtime p)) browser_roots)
           ''protection.attached_debug_peer''
        (protect (shared_profile f) ''protection.profile_shared_outside_incident''
        (protect manual_cdp ''protection.manual_cdp''
        (protect persistent_profile ''protection.persistent_or_unknown_profile''
        (protect (has_browser_roots f \<and> \<not> headless f) ''protection.headed_or_human_control''
        (protect (standard_profile f) ''protection.standard_browser_profile'' protection)))))))"

text \<open>The two ownership lanes share their checks and differ in the identifiers.\<close>

definition session_facts_incomplete :: "process_graph \<Rightarrow> process_record \<Rightarrow> bool" where
  "session_facts_incomplete g root_process =
     (\<not> descriptor_facts_complete (runtime root_process)
      \<or> list_ex (\<lambda>p. \<not> task_session_facts_complete (runtime p)) (graph_iter g))"

definition cli_protection :: "process_record \<Rightarrow> string list \<Rightarrow> string list" where
  "cli_protection root_process protection =
     (case playwright_cli (runtime root_process) of
        None \<Rightarrow> protection
      | Some cli \<Rightarrow>
          protect (cli_attached cli) ''protection.attached_debug_peer''
         (protect (cli_persistent cli) ''protection.persistent_or_unknown_profile'' protection))"

definition task_protection ::
    "analyzer \<Rightarrow> process_graph \<Rightarrow> process_record \<Rightarrow> task_controller_binding \<Rightarrow> string list \<Rightarrow> string list" where
  "task_protection a g root_process binding protection =
     protect (connected_named_unix_socket_fingerprints (runtime root_process) \<noteq> []
              \<or> session_has_live_work a g (tb_task_id binding)) ''protection.task_client_active''
    (protect (session_facts_incomplete g root_process) ''protection.task_client_visibility_incomplete''
    (cli_protection root_process
    (protect (\<not> tb_released binding) ''protection.task_owner_active'' protection)))"

definition session_owner_protection ::
    "process_graph \<Rightarrow> process_record \<Rightarrow> session_owner_binding \<Rightarrow> string list \<Rightarrow> string list" where
  "session_owner_protection g root_process binding protection =
     protect (connected_named_unix_socket_fingerprints (runtime root_process) \<noteq> []
              \<or> ordinary_session_has_live_work g binding) ''protection.session_owner_client_active''
    (protect (session_facts_incomplete g root_process) ''protection.session_owner_visibility_incomplete''
    (cli_protection root_process
    (protect (\<not> sb_released binding) ''protection.session_owner_active'' protection)))"

definition owner_lane ::
    "analyzer \<Rightarrow> candidate \<Rightarrow> process_record \<Rightarrow> task_controller_binding option \<times> session_owner_binding option" where
  "owner_lane a c root_process =
     (let owned_task = (if pack_id (cand_pack c) = ''playwright''
                        then owned_task_controller a root_process (cand_pack c) else None);
          session_owner = (if pack_id (cand_pack c) = ''playwright'' \<and> owned_task = None
                           then bound_session_owner a root_process (cand_pack c) else None)
      in (owned_task, session_owner))"

definition owner_findings ::
    "analyzer \<Rightarrow> process_graph \<Rightarrow> candidate \<Rightarrow> process_record \<Rightarrow> string list
      \<Rightarrow> evidence_item list \<times> string list" where
  "owner_findings a g c root_process protection =
     (case owner_lane a c root_process of (owned_task, session_owner) \<Rightarrow>
        (case owned_task of
           Some binding \<Rightarrow>
             ([item ''provenance.task_registered'' AutomationProvenance (Some (process_pid root_process))],
              task_protection a g root_process binding protection)
         | None \<Rightarrow>
             if cand_controller_pid c \<noteq> None then
               (case session_owner of
                  Some binding \<Rightarrow>
                    ([item ''provenance.session_owner_registered'' AutomationProvenance
                        (Some (process_pid root_process))],
                     session_owner_protection g root_process binding protection)
                | None \<Rightarrow>
                    if ordinary_cli_session root_process \<and> ordinary_controller_version_supported (cand_pack c) root_process
                    then ([], protect True ''protection.ordinary_session_owner_unverified'' protection)
                    else ([], protect True ''protection.controller_version_unverified'' protection))
             else ([], protection)))"

fun version_protection :: "browser_version_gate option \<Rightarrow> string list \<Rightarrow> string list" where
  "version_protection (Some ExactSupported) protection = protection"
| "version_protection (Some RangeSupported) protection = protection"
| "version_protection (Some ObservationalGate) protection =
     protect True ''protection.version_observational_only'' protection"
| "version_protection (Some MissingFacts) protection =
     protect True ''protection.browser_version_missing'' protection"
| "version_protection (Some MixedFacts) protection =
     protect True ''protection.browser_version_mixed'' protection"
| "version_protection (Some UnsupportedProduct) protection =
     protect True ''protection.browser_product_unsupported'' protection"
| "version_protection (Some UnsupportedVersion) protection =
     protect True ''protection.browser_version_unsupported'' protection"
| "version_protection None protection = protection"

fun age_protection :: "candidate_age \<Rightarrow> string list \<Rightarrow> string list" where
  "age_protection AgeEligible protection = protection"
| "age_protection AgeTooYoung protection =
     protect True ''protection.minimum_candidate_age_not_met'' protection"
| "age_protection AgeUnknown protection =
     protect True ''protection.candidate_age_unknown'' protection"

definition version_age_recorder_protection ::
    "process_graph \<Rightarrow> candidate \<Rightarrow> process_record \<Rightarrow> process_record list \<Rightarrow> session_facts \<Rightarrow> u64
      \<Rightarrow> string list \<Rightarrow> string list" where
  "version_age_recorder_protection g c root_process browser_roots f observed_at protection =
     protect (has_browser_roots f \<and> has_plausible_unjoined_recorder g c browser_roots)
       ''protection.unjoined_recorder_residue''
    (age_protection (candidate_age_gate observed_at (started_at_unix_micros (identity root_process)))
    (version_protection (version_gate f) protection))"

section \<open>Provenance\<close>

definition provenance_categories :: "session_facts \<Rightarrow> nat" where
  "provenance_categories f =
     of_bool (has_controller f) + of_bool (framework_argument f) + of_bool (ephemeral_profile f)
     + of_bool (transport f) + of_bool (headless f) + of_bool (recognized_browser_product f)"

definition strong_provenance :: "session_facts \<Rightarrow> bool" where
  "strong_provenance f =
     ((has_controller f \<or> framework_argument f \<or> ephemeral_profile f) \<and> 3 \<le> provenance_categories f)"

definition provenance_evidence :: "candidate \<Rightarrow> process_record \<Rightarrow> session_facts \<Rightarrow> evidence_item list" where
  "provenance_evidence c root_process f =
     (let first_browser = (case cand_browser_root_pids c of [] \<Rightarrow> None | b # _ \<Rightarrow> Some b);
          when = (\<lambda>b es. if b then es else [])
      in when (version_gate f = None)
           [item ''ambiguity.browser_root_missing'' Abandonment (cand_controller_pid c)]
         @ when (has_controller f)
             [item ''provenance.controller_lineage'' AutomationProvenance (cand_controller_pid c)]
         @ when (framework_argument f)
             [item ''provenance.framework_marker'' AutomationProvenance (Some (process_pid root_process))]
         @ when (ephemeral_profile f)
             [item ''provenance.ephemeral_profile'' AutomationProvenance first_browser,
              item ''isolation.dedicated_ephemeral_profile'' Isolation first_browser]
         @ when (transport f)
             [item (if debug_pipe f then ''provenance.private_debug_pipe'' else ''provenance.debug_port'')
                AutomationProvenance first_browser]
         @ when (headless f) [item ''provenance.headless_mode'' AutomationProvenance first_browser]
         @ when (recognized_browser_product f)
             [item ''provenance.automation_browser_binary'' AutomationProvenance first_browser]
         @ when (version_gate f = Some ExactSupported)
             [item ''version.browser_exact_allowlist'' AutomationProvenance first_browser]
         @ when (version_gate f = Some RangeSupported)
             [item ''version.browser_bounded_range'' AutomationProvenance first_browser])"

section \<open>Abandonment\<close>

record abandonment_facts =
  owner_release :: "bool option"
  controller_parent_live :: bool
  controller_reparented :: bool
  owner_missing :: bool

definition abandonment_facts_of ::
    "analyzer \<Rightarrow> process_graph \<Rightarrow> candidate \<Rightarrow> process_record \<Rightarrow> process_record list \<Rightarrow> abandonment_facts" where
  "abandonment_facts_of a g c root_process browser_roots =
     (let (owned_task, session_owner) = owner_lane a c root_process;
          verified = (case owned_task of
                        Some b \<Rightarrow> Some (tb_released b)
                      | None \<Rightarrow> map_option sb_released session_owner);
          controller = Option.bind (cand_controller_pid c) (graph_get g);
          reparented = (case controller of None \<Rightarrow> False | Some p \<Rightarrow> parent_pid p = 1)
      in \<lparr>owner_release = verified,
          controller_parent_live = (verified \<noteq> Some True
            \<and> (case controller of
                 None \<Rightarrow> False
               | Some p \<Rightarrow> 1 < parent_pid p \<and> graph_get g (parent_pid p) \<noteq> None)),
          controller_reparented = reparented,
          owner_missing = (case verified of
             Some released \<Rightarrow> released
           | None \<Rightarrow> reparented
               \<or> (cand_controller_pid c = None \<and> browser_roots \<noteq> []
                   \<and> list_all (\<lambda>b. parent_pid b = 1 \<or> graph_get g (parent_pid b) = None) browser_roots))\<rparr>)"

definition abandonment_evidence ::
    "analyzer \<Rightarrow> candidate \<Rightarrow> process_record \<Rightarrow> abandonment_facts \<Rightarrow> evidence_item list" where
  "abandonment_evidence a c root_process f =
     (let (owned_task, session_owner) = owner_lane a c root_process
      in if (case owned_task of None \<Rightarrow> False | Some b \<Rightarrow> tb_released b) then
           [item ''abandonment.task_released'' Abandonment (Some (process_pid root_process))]
         else if (case session_owner of None \<Rightarrow> False | Some b \<Rightarrow> sb_released b) then
           [item ''abandonment.session_owner_released'' Abandonment (Some (process_pid root_process))]
         else if controller_parent_live f then
           [item ''abandonment.live_controller_owner'' Abandonment (cand_controller_pid c)]
         else if controller_reparented f then
           [item ''abandonment.controller_reparented'' Abandonment (cand_controller_pid c)]
         else if owner_missing f then
           [item ''abandonment.controller_missing'' Abandonment (Some (process_pid root_process))]
         else [])"

section \<open>Gates and state\<close>

definition isolated :: "session_facts \<Rightarrow> bool" where
  "isolated f = (ephemeral_profile f \<and> \<not> shared_profile f \<and> \<not> standard_profile f)"

definition classified_gates :: "bool \<Rightarrow> session_facts \<Rightarrow> string list \<Rightarrow> gate_ledger" where
  "classified_gates same f protection =
     \<lparr>same_user = same, strong_automation_provenance = strong_provenance f,
      confirmed_abandonment = False, isolated_session = isolated f,
      stable_across_two_observations = False, process_identity_unchanged = False,
      no_protection_rule = (protection = [])\<rparr>"

definition classified_state :: "session_facts \<Rightarrow> abandonment_facts \<Rightarrow> string list \<Rightarrow> incident_state" where
  "classified_state f ab protection =
     (if protection \<noteq> [] then Protected
      else if controller_parent_live ab then Active
      else if strong_provenance f \<and> owner_missing ab \<and> isolated f then Cooling
      else Ambiguous)"

section \<open>Roles, targets and artifacts\<close>

fun type_argument_role :: "string list \<Rightarrow> process_role" where
  "type_argument_role [] = IncidentMember"
| "type_argument_role (argument # rest) =
     (case strip_prefix (to_ascii_lowercase argument) ''--type='' of
        Some kind \<Rightarrow>
          if kind = ''renderer'' then Renderer
          else if kind = ''gpu-process'' then Gpu
          else if kind = ''utility'' then Utility
          else BrowserHelper
      | None \<Rightarrow> type_argument_role rest)"

definition process_role_of :: "process_record \<Rightarrow> candidate \<Rightarrow> process_role" where
  "process_role_of p c =
     (if cand_controller_pid c = Some (process_pid p) then Controller
      else if process_pid p \<in> set (cand_browser_root_pids c) then BrowserRoot
      else if str_contains (lower_basename p) ''crashpad'' \<or> str_contains (lower_basename p) ''crash handler''
      then CrashHandler
      else if matches_recorder p (cand_pack c) then Recorder
      else case arguments p of None \<Rightarrow> IncidentMember | Some args \<Rightarrow> type_argument_role args)"

definition candidate_targets :: "candidate \<Rightarrow> process_record list \<Rightarrow> process_target list" where
  "candidate_targets c members =
     map (\<lambda>p. \<lparr>target_identity = identity p, target_process_group_id = process_group_id p,
               target_role = process_role_of p c\<rparr>) members"

definition role_counts :: "process_target list \<Rightarrow> process_role_count list" where
  "role_counts ts =
     map (\<lambda>(role, count). \<lparr>rc_role = role, rc_count = count\<rparr>)
       (fold (\<lambda>t. bt_update_default (target_role t) 0 (\<lambda>n. n + 1)) ts [])"

definition session_fingerprint_of :: "signature_pack \<Rightarrow> string \<Rightarrow> string list \<Rightarrow> string" where
  "session_fingerprint_of pack identity_fp paths =
     (let session_rows = sort (map normalize paths)
      in ''ses-'' @ (if session_rows = [] then fingerprint_parts [pack_id pack @ '':'' @ identity_fp]
                     else fingerprint_parts session_rows))"

text \<open>\<open>entry(..).or_insert_with(..)\<close>: the first spelling of a normalised profile is kept.\<close>

definition unique_profiles :: "string list \<Rightarrow> (string, string) btree" where
  "unique_profiles paths =
     fold (\<lambda>profile m. if bt_contains_key m (normalize profile) then m
                       else bt_insert (normalize profile) profile m) paths []"

definition session_artifacts ::
    "process_graph \<Rightarrow> candidate \<Rightarrow> session_facts \<Rightarrow> abandonment_facts \<Rightarrow> string list \<Rightarrow> string
      \<Rightarrow> runtime_artifact_candidate list" where
  "session_artifacts g c f ab protection session_fp =
     (let profiles = bt_values (unique_profiles (profile_paths f))
      in if devtools_active_port_enabled (artifact_policy_of (cand_pack c))
            \<and> (case version_gate f of None \<Rightarrow> False | Some gate \<Rightarrow> gate_supported gate)
            \<and> protection = [] \<and> strong_provenance f \<and> owner_missing ab \<and> ephemeral_profile f
            \<and> \<not> shared_profile f \<and> \<not> standard_profile f \<and> length profiles = 1
         then (case devtools_active_port (hd profiles) (graph_current_uid g) session_fp of
                 Inl _ \<Rightarrow> [] | Inr artifact \<Rightarrow> [artifact])
         else [])"

section \<open>Classification\<close>

definition candidate_protection ::
    "analyzer \<Rightarrow> process_graph \<Rightarrow> candidate \<Rightarrow> process_record \<Rightarrow> u64 \<Rightarrow> string list" where
  "candidate_protection a g c root_process observed_at =
     (let members = List.map_filter (graph_get g) (cand_member_pids c);
          browser_roots = List.map_filter (graph_get g) (cand_browser_root_pids c);
          f = session_facts_of g c browser_roots
      in version_age_recorder_protection g c root_process browser_roots f observed_at
          (snd (owner_findings a g c root_process
            (profile_protection f browser_roots
              (process_set_protection (analyzer_ctx a) g c members)))))"

definition candidate_evidence ::
    "analyzer \<Rightarrow> process_graph \<Rightarrow> candidate \<Rightarrow> process_record \<Rightarrow> session_facts \<Rightarrow> abandonment_facts
      \<Rightarrow> string list \<Rightarrow> evidence_item list" where
  "candidate_evidence a g c root_process f ab protection =
     sort_evidence
       (fst (owner_findings a g c root_process [])
        @ provenance_evidence c root_process f
        @ abandonment_evidence a c root_process ab
        @ map (\<lambda>i. item i Protection (Some (process_pid root_process))) protection)"

definition classify_root :: "analyzer \<Rightarrow> process_graph \<Rightarrow> candidate \<Rightarrow> process_record \<Rightarrow> u64 \<Rightarrow> incident_report" where
  "classify_root a g c root_process observed_at =
     (let members = List.map_filter (graph_get g) (cand_member_pids c);
          browser_roots = List.map_filter (graph_get g) (cand_browser_root_pids c);
          f = session_facts_of g c browser_roots;
          ab = abandonment_facts_of a g c root_process browser_roots;
          protection = candidate_protection a g c root_process observed_at;
          identity_fp = fingerprint_process_identity (identity root_process);
          incident_key = pack_id (cand_pack c) @ '':'' @ dec_string (unat (process_pid root_process))
            @ '':'' @ identity_fp;
          tracking_row = pack_id (cand_pack c) @ '':'' @ dec_string (unat (process_pid root_process));
          session_fp = session_fingerprint_of (cand_pack c) identity_fp (profile_paths f);
          (owned_task, session_owner) = owner_lane a c root_process
      in \<lparr>incident_id = ''inc-'' @ fingerprint_parts [incident_key],
          tracking_key = ''trk-'' @ fingerprint_parts [tracking_row],
          session_fingerprint = session_fp,
          signature_pack = pack_id (cand_pack c),
          signature_version = pack_version (cand_pack c),
          state = classified_state f ab protection,
          root = \<lparr>root_pid = process_pid root_process,
                  root_started_at_unix_micros = started_at_unix_micros (identity root_process),
                  root_executable_basename = executable_basename root_process,
                  root_identity_fingerprint = identity_fp\<rparr>,
          member_count = length members,
          report_resident_memory_bytes = sum_list (map resident_memory_bytes members),
          member_fingerprint = process_set_fingerprint g (cand_member_pids c),
          roles = role_counts (candidate_targets c members),
          evidence = candidate_evidence a g c root_process f ab protection,
          gates = classified_gates (members_same_user g members) f protection,
          report_browser_compatibility = browser_compatibility browser_roots (version_gate f)
            (unverified_controller_reason (has_controller f) (owned_task \<noteq> None) (session_owner \<noteq> None)
               root_process (cand_pack c))
            (control_path_incomplete browser_roots),
          targets = candidate_targets c members,
          runtime_artifacts = session_artifacts g c f ab protection session_fp\<rparr>)"

definition classify :: "analyzer \<Rightarrow> process_graph \<Rightarrow> candidate \<Rightarrow> u64 \<Rightarrow> incident_report option" where
  "classify a g c observed_at =
     map_option (\<lambda>root_process. classify_root a g c root_process observed_at)
       (graph_get g (cand_root_pid c))"

section \<open>When nothing protects a session\<close>

lemma protect_Nil [simp]: "protect b i ps = [] \<longleftrightarrow> \<not> b \<and> ps = []"
  by (simp add: protect_def)

definition process_set_clear :: "analyzer_context \<Rightarrow> process_graph \<Rightarrow> candidate \<Rightarrow> bool" where
  "process_set_clear ctx g c =
     (let members = List.map_filter (graph_get g) (cand_member_pids c)
      in list_all (\<lambda>p. uid p = graph_current_uid g \<and> uid p \<noteq> 0 \<and> has_complete_classification_facts p) members
       \<and> list_all (\<lambda>p. p \<noteq> 0 \<and> p \<noteq> 1 \<and> self_pid ctx \<noteq> Some p \<and> p \<notin> set (context_ancestor_pids ctx)
            \<and> \<not> lineage_has_cycle g p \<and> \<not> has_unresolved_parent g p) (cand_member_pids c))"

lemma process_set_protection_Nil:
  "process_set_protection ctx g c (List.map_filter (graph_get g) (cand_member_pids c)) = []
     \<longleftrightarrow> process_set_clear ctx g c"
proof -
  have self: "(case self_pid ctx of None \<Rightarrow> False | Some p \<Rightarrow> p \<in> set ps) \<longleftrightarrow> (\<exists>p\<in>set ps. self_pid ctx = Some p)"
    for ps by (auto split: option.splits)
  show ?thesis
    unfolding process_set_protection_def process_set_clear_def Let_def members_same_user_def protect_Nil
      names_self_or_ancestor_def list_all_iff list_ex_iff self by blast
qed

lemma profile_protection_Nil:
  assumes "ephemeral_profile f"
  shows "profile_protection f bs ps = [] \<longleftrightarrow> ps = [] \<and> \<not> control_path_incomplete bs
     \<and> list_all (\<lambda>p. \<not> attached_debug_transport (runtime p)) bs
     \<and> \<not> shared_profile f \<and> (has_browser_roots f \<longrightarrow> headless f) \<and> \<not> standard_profile f"
  using assms by (auto simp: profile_protection_def Let_def list_all_iff list_ex_iff)

lemma version_protection_Nil:
  "version_protection gate ps = [] \<longleftrightarrow> ps = [] \<and> (gate \<noteq> None \<longrightarrow> gate_supported (the gate))"
  by (cases "(gate, ps)" rule: version_protection.cases) auto

lemma age_protection_Nil: "age_protection age ps = [] \<longleftrightarrow> ps = [] \<and> age = AgeEligible"
  by (cases age) auto

text \<open>The session of a registered controller is quiet: nothing is attached, nothing persists, the
  socket and session facts are complete, no client is connected and no other process works in it.\<close>

definition cli_clear :: "process_record \<Rightarrow> bool" where
  "cli_clear root_process =
     (case playwright_cli (runtime root_process) of
        None \<Rightarrow> True | Some cli \<Rightarrow> \<not> cli_attached cli \<and> \<not> cli_persistent cli)"

definition quiet_session :: "process_graph \<Rightarrow> process_record \<Rightarrow> bool \<Rightarrow> bool" where
  "quiet_session g root_process live_work =
     (cli_clear root_process \<and> \<not> session_facts_incomplete g root_process
      \<and> connected_named_unix_socket_fingerprints (runtime root_process) = [] \<and> \<not> live_work)"

lemma cli_protection_Nil: "cli_protection p ps = [] \<longleftrightarrow> ps = [] \<and> cli_clear p"
  by (auto simp: cli_protection_def cli_clear_def split: option.splits)

lemma task_protection_Nil:
  "task_protection a g p b ps = [] \<longleftrightarrow>
     ps = [] \<and> tb_released b \<and> quiet_session g p (session_has_live_work a g (tb_task_id b))"
  by (auto simp: task_protection_def quiet_session_def cli_protection_Nil)

lemma session_owner_protection_Nil:
  "session_owner_protection g p b ps = [] \<longleftrightarrow>
     ps = [] \<and> sb_released b \<and> quiet_session g p (ordinary_session_has_live_work g b)"
  by (auto simp: session_owner_protection_def quiet_session_def cli_protection_Nil)

text \<open>Nobody owns the session any more: its registered owner has released it and it is quiet, or it
  has no controller and every browser of it lost its parent.\<close>

definition owner_gone :: "analyzer \<Rightarrow> process_graph \<Rightarrow> candidate \<Rightarrow> process_record \<Rightarrow> bool" where
  "owner_gone a g c root_process =
     (case owner_lane a c root_process of
        (Some b, _) \<Rightarrow> tb_released b \<and> quiet_session g root_process (session_has_live_work a g (tb_task_id b))
      | (None, Some b) \<Rightarrow> sb_released b \<and> (cand_controller_pid c \<noteq> None \<longrightarrow>
           quiet_session g root_process (ordinary_session_has_live_work g b))
      | (None, None) \<Rightarrow> cand_controller_pid c = None
          \<and> list_all (\<lambda>b. parent_pid b = 1 \<or> graph_get g (parent_pid b) = None)
              (List.map_filter (graph_get g) (cand_browser_root_pids c)))"

lemma owner_gone_iff:
  assumes "bs = List.map_filter (graph_get g) (cand_browser_root_pids c)" "bs \<noteq> []"
  shows "snd (owner_findings a g c p ps) = [] \<and> \<not> controller_parent_live (abandonment_facts_of a g c p bs)
      \<and> owner_missing (abandonment_facts_of a g c p bs) \<longleftrightarrow> ps = [] \<and> owner_gone a g c p"
proof -
  obtain ot so where lane: "owner_lane a c p = (ot, so)" by fastforce
  show ?thesis
    using assms(2) unfolding assms(1) [symmetric]
    by (cases ot; cases so)
      (auto simp: lane owner_findings_def owner_gone_def abandonment_facts_of_def assms(1) [symmetric]
        task_protection_Nil session_owner_protection_Nil)
qed

text \<open>The reference definition of a reclaimable session, rule by rule.\<close>

definition reclaimable_session ::
    "analyzer \<Rightarrow> process_graph \<Rightarrow> candidate \<Rightarrow> process_record \<Rightarrow> u64 \<Rightarrow> bool" where
  "reclaimable_session a g c root_process observed_at =
     (let browser_roots = List.map_filter (graph_get g) (cand_browser_root_pids c);
          f = session_facts_of g c browser_roots;
          started = started_at_unix_micros (identity root_process)
      in process_set_clear (analyzer_ctx a) g c
       \<and> browser_roots \<noteq> []
       \<and> list_all (\<lambda>p. args_contain_any p HEADLESS_MARKERS \<and> \<not> attached_debug_transport (runtime p)) browser_roots
       \<and> \<not> control_path_incomplete browser_roots
       \<and> isolated f
       \<and> gate_supported (evaluate_browser_versions browser_roots (version_policy_of (cand_pack c)))
       \<and> started \<noteq> 0 \<and> unat observed_at * 1000 < 2 ^ 64 \<and> unat started + 60000000 \<le> unat observed_at * 1000
       \<and> \<not> has_plausible_unjoined_recorder g c browser_roots
       \<and> owner_gone a g c root_process
       \<and> strong_provenance f)"

lemma session_facts_simps [simp]:
  "has_browser_roots (session_facts_of g c bs) \<longleftrightarrow> bs \<noteq> []"
  "headless (session_facts_of g c bs) \<longleftrightarrow> bs \<noteq> [] \<and> list_all (\<lambda>p. args_contain_any p HEADLESS_MARKERS) bs"
  "version_gate (session_facts_of g c bs) =
     (if bs \<noteq> [] then Some (evaluate_browser_versions bs (version_policy_of (cand_pack c))) else None)"
  "profile_paths (session_facts_of g c bs) = List.map_filter (\<lambda>p. flag_value p ''--user-data-dir'') bs"
  "has_controller (session_facts_of g c bs) \<longleftrightarrow> cand_controller_pid c \<noteq> None"
  by (simp_all add: session_facts_of_def Let_def)

lemma ephemeral_profile_browsers: "ephemeral_profile (session_facts_of g c bs) \<Longrightarrow> bs \<noteq> []"
  by (auto simp: session_facts_of_def Let_def map_filter_def)

lemma classified_cooling:
  "classified_state f ab ps = Cooling \<longleftrightarrow>
     ps = [] \<and> \<not> controller_parent_live ab \<and> strong_provenance f \<and> owner_missing ab \<and> isolated f"
  by (simp add: classified_state_def)

lemma cooling_iff_reclaimable:
  "state (classify_root a g c root_process observed_at) = Cooling \<longleftrightarrow>
     reclaimable_session a g c root_process observed_at"
proof -
  define bs where "bs = List.map_filter (graph_get g) (cand_browser_root_pids c)"
  define f where "f = session_facts_of g c bs"
  define ab where "ab = abandonment_facts_of a g c root_process bs"
  define ps where "ps = profile_protection f bs (process_set_protection (analyzer_ctx a) g c
    (List.map_filter (graph_get g) (cand_member_pids c)))"
  have state: "state (classify_root a g c root_process observed_at) =
      classified_state f ab (candidate_protection a g c root_process observed_at)"
    by (simp add: classify_root_def Let_def bs_def f_def ab_def split: prod.splits)
  have f_simps: "has_browser_roots f \<longleftrightarrow> bs \<noteq> []"
      "version_gate f = (if bs \<noteq> [] then Some (evaluate_browser_versions bs (version_policy_of (cand_pack c))) else None)"
    by (simp_all add: f_def)
  have protection: "candidate_protection a g c root_process observed_at = [] \<longleftrightarrow>
      snd (owner_findings a g c root_process ps) = [] \<and> (bs \<noteq> [] \<longrightarrow> \<not> has_plausible_unjoined_recorder g c bs)
      \<and> candidate_age_gate observed_at (started_at_unix_micros (identity root_process)) = AgeEligible
      \<and> (bs \<noteq> [] \<longrightarrow> gate_supported (evaluate_browser_versions bs (version_policy_of (cand_pack c))))"
    by (auto simp: candidate_protection_def Let_def version_age_recorder_protection_def age_protection_Nil
        version_protection_Nil bs_def [symmetric] f_def [symmetric] ps_def [symmetric] f_simps)
  show ?thesis
  proof (cases "isolated f")
    case True
    then have eph: "ephemeral_profile f" "\<not> shared_profile f" "\<not> standard_profile f" by (simp_all add: isolated_def)
    then have "bs \<noteq> []" unfolding f_def by (rule_tac ephemeral_profile_browsers)
    moreover have "ps = [] \<longleftrightarrow> process_set_clear (analyzer_ctx a) g c \<and> \<not> control_path_incomplete bs
        \<and> list_all (\<lambda>p. args_contain_any p HEADLESS_MARKERS \<and> \<not> attached_debug_transport (runtime p)) bs"
      unfolding ps_def profile_protection_Nil [OF eph(1)] process_set_protection_Nil
      using eph \<open>bs \<noteq> []\<close> by (auto simp: f_def list_all_iff)
    ultimately show ?thesis
      using owner_gone_iff [OF bs_def \<open>bs \<noteq> []\<close>, of a root_process ps] True
      unfolding state classified_cooling protection candidate_age_eligible reclaimable_session_def Let_def
        bs_def [symmetric] f_def [symmetric] ab_def [symmetric] by blast
  next
    case False
    then show ?thesis
      unfolding state classified_cooling reclaimable_session_def Let_def bs_def [symmetric] f_def [symmetric]
      by blast
  qed
qed

section \<open>Reports of well-formed candidates\<close>

text \<open>No classification confirms anything: confirmation needs a second observation.\<close>

lemma classify_root_not_confirmed:
  "state (classify_root a g c p t) \<noteq> Confirmed" "\<not> cleanup_eligible (gates (classify_root a g c p t))"
  by (simp_all add: classify_root_def Let_def classified_state_def classified_gates_def cleanup_eligible_def
      split: prod.splits)

lemma classify_root_fields:
  "targets (classify_root a g c p t) = candidate_targets c (List.map_filter (graph_get g) (cand_member_pids c))"
  "root_pid (root (classify_root a g c p t)) = process_pid p"
  "root_identity_fingerprint (root (classify_root a g c p t)) = fingerprint_process_identity (identity p)"
  "member_fingerprint (classify_root a g c p t) = process_set_fingerprint g (cand_member_pids c)"
  "session_fingerprint (classify_root a g c p t) = session_fingerprint_of (cand_pack c)
     (fingerprint_process_identity (identity p)) (List.map_filter (\<lambda>p. flag_value p ''--user-data-dir'')
       (List.map_filter (graph_get g) (cand_browser_root_pids c)))"
  "signature_pack (classify_root a g c p t) = pack_id (cand_pack c)"
  "signature_version (classify_root a g c p t) = pack_version (cand_pack c)"
  by (simp_all add: classify_root_def Let_def split: prod.splits)

lemma lower_hex_printable: "is_lower_hex c \<Longrightarrow> printable c"
  by (auto simp: is_lower_hex_def is_ascii_digit_def printable_def)

lemma session_fingerprint_of_trim: "str_trim (session_fingerprint_of pack i paths) \<noteq> []"
proof -
  have "\<exists>ps. session_fingerprint_of pack i paths = ''ses-'' @ fingerprint_parts ps"
    unfolding session_fingerprint_of_def Let_def by (auto split: if_splits)
  then obtain ps where s: "session_fingerprint_of pack i paths = ''ses-'' @ fingerprint_parts ps" by blast
  have "printable (last (fingerprint_parts ps))"
    using fingerprint_parts_shape [of ps] by (auto simp: list_all_iff intro!: lower_hex_printable)
  then have "str_trim (''ses-'' @ fingerprint_parts ps) = ''ses-'' @ fingerprint_parts ps"
    by (intro str_trim_printable) (simp_all add: printable_def)
  then show ?thesis by (simp add: s)
qed

lemma session_artifacts_shape:
  "length (session_artifacts g c f ab ps s) \<le> 1 \<and>
   list_all (\<lambda>x. art_session_fingerprint x = s) (session_artifacts g c f ab ps s)"
  by (auto simp: session_artifacts_def Let_def devtools_active_port_def split: sum.splits if_splits)

lemma classify_root_artifacts:
  "length (runtime_artifacts (classify_root a g c p t)) \<le> 1 \<and>
   list_all (\<lambda>x. art_session_fingerprint x = session_fingerprint (classify_root a g c p t))
     (runtime_artifacts (classify_root a g c p t))"
  using session_artifacts_shape by (simp add: classify_root_def Let_def split: prod.splits)

lemma map_filter_known:
  assumes "list_all (\<lambda>k. h k \<noteq> None) ks"
  shows "List.map_filter h ks = map (\<lambda>k. the (h k)) ks"
  using assms by (induction ks) (auto simp: map_filter_simps)

lemma graph_get_pid: "from_snapshot s = Inr g \<Longrightarrow> graph_get g k = Some p \<Longrightarrow> process_pid p = k"
  by (rule graph.lookup_pid)

lemma candidate_target_pids:
  assumes "from_snapshot s = Inr g" "list_all (\<lambda>k. graph_get g k \<noteq> None) (cand_member_pids c)"
  shows "map target_pid (candidate_targets c (List.map_filter (graph_get g) (cand_member_pids c)))
    = cand_member_pids c"
proof -
  have "process_pid (the (graph_get g k)) = k" if "k \<in> set (cand_member_pids c)" for k
    using assms that graph_get_pid [OF assms(1), of k] by (auto simp: list_all_iff)
  then show ?thesis
    unfolding candidate_targets_def map_filter_known [OF assms(2)] by (auto simp: comp_def process_pid_def intro: map_idI)
qed

lemma root_role:
  assumes "candidate_wf g c" "process_pid p = cand_root_pid c"
  shows "process_role_of p c = Controller \<or> process_role_of p c = BrowserRoot"
  using assms by (auto simp: candidate_wf_def process_role_of_def)

text \<open>A cooling report of a well-formed candidate is structurally sound for planning.\<close>

lemma cooling_plannable:
  assumes g: "from_snapshot s = Inr g" and wf: "candidate_wf g c"
    and p: "graph_get g (cand_root_pid c) = Some p"
    and cooling: "state (classify_root a g c p t) = Cooling"
  shows "plannable (classify_root a g c p t)"
proof -
  let ?r = "classify_root a g c p t"
  let ?members = "List.map_filter (graph_get g) (cand_member_pids c)"
  have known: "list_all (\<lambda>k. graph_get g k \<noteq> None) (cand_member_pids c)" using wf by (simp add: candidate_wf_def)
  have pids: "map target_pid (targets ?r) = cand_member_pids c"
    unfolding classify_root_fields by (rule candidate_target_pids [OF g known])
  have root_in: "cand_root_pid c \<in> set (cand_member_pids c)" using wf by (simp add: candidate_wf_def)
  have root_pid: "process_pid p = cand_root_pid c" using graph_get_pid [OF g p] .
  have "p \<in> set ?members" using p root_in by (force simp: map_filter_def)
  then have "list_ex (\<lambda>t. target_role t = Controller \<or> target_role t = BrowserRoot) (targets ?r)"
    using root_role [OF wf root_pid] by (auto simp: classify_root_fields candidate_targets_def list_ex_iff)
  moreover have "list_all (\<lambda>t. exact_match (target_identity t) (target_identity t)) (targets ?r)"
    using cooling unfolding cooling_iff_reclaimable
    by (auto simp: reclaimable_session_def process_set_clear_def Let_def classify_root_fields
        candidate_targets_def list_all_iff complete_facts_exact_match)
  moreover have "root_pid (root ?r) \<in> target_pid ` set (targets ?r)"
    using root_in root_pid pids by (metis classify_root_fields(2) list.set_map)
  moreover have "distinct (map target_pid (targets ?r))" using wf by (simp add: pids candidate_wf_def)
  moreover have "str_trim (session_fingerprint ?r) \<noteq> []"
    unfolding classify_root_fields by (rule session_fingerprint_of_trim)
  ultimately show ?thesis using classify_root_artifacts by (simp add: plannable_def)
qed

text \<open>
  C3: A session is classified as cooling exactly when the declarative definition of a reclaimable
  session holds: every member belongs to the current non-root user with complete facts, none is pid
  0 or 1, the program itself or an ancestor of it, the process tree is complete and acyclic, all
  browsers are headless with no attached debugger, their profiles are ephemeral, unshared and not
  standard, the browser version passes the pack's policy, the root is at least sixty seconds old, no
  recorder is left unjoined, the owner is provably gone, and the automation provenance is strong.
\<close>

theorem cooling_exactly_when_reclaimable:
  "state (classify_root a g c root_process observed_at) = Cooling \<longleftrightarrow>
     reclaimable_session a g c root_process observed_at"
  by (rule cooling_iff_reclaimable)

end
