(* ===== verification/Rules_Analyzer.thy ===== *)
theory Rules_Analyzer
  imports Rules_Classify Core_Executor
begin

text \<open>
  The \<open>Analyzer\<close> of \<open>crates/unlinger-rules/src/lib.rs\<close>: one observation of a snapshot, the
  reconciliation of two observations, and the revalidation that the cleanup executor asks for
  before every signal and in every revival check.
\<close>

section \<open>Observation\<close>

definition graph_error_message :: "graph_error \<Rightarrow> string" where
  "graph_error_message e =
     (case e of DuplicatePid p \<Rightarrow> ''snapshot contains duplicate PID '' @ dec_string (unat p))"

definition observe :: "analyzer \<Rightarrow> snapshot \<Rightarrow> rule_error + incident_report list" where
  "observe a snap =
     (case from_snapshot snap of
        Inl e \<Rightarrow> Inl (InvalidGraph (graph_error_message e))
      | Inr g \<Rightarrow>
          Inr (sort_key incident_id
            (List.map_filter (\<lambda>c. classify a g c (observed_at_unix_millis snap))
              (candidates (rules a) g))))"

section \<open>Reconciliation\<close>

definition stable_pair :: "incident_report \<Rightarrow> incident_report \<Rightarrow> bool" where
  "stable_pair previous report =
     (root_identity_fingerprint (root previous) = root_identity_fingerprint (root report)
      \<and> member_fingerprint previous = member_fingerprint report)"

definition root_item :: "string \<Rightarrow> evidence_family \<Rightarrow> incident_report \<Rightarrow> evidence_item" where
  "root_item i family report = item i family (Some (root_pid (root report)))"

text \<open>The body of the loop for a \<open>Cooling\<close> report whose earlier observation was \<open>Cooling\<close> too.\<close>

definition reconcile_pair :: "string list \<Rightarrow> incident_report \<Rightarrow> incident_report \<Rightarrow> incident_report" where
  "reconcile_pair confirmed_keys previous report =
     (let unchanged = stable_pair previous report;
          report = report\<lparr>gates := (gates report)
            \<lparr>stable_across_two_observations := unchanged,
             process_identity_unchanged := unchanged,
             confirmed_abandonment := (tracking_key report \<in> set confirmed_keys)\<rparr>\<rparr>;
          report =
            (if unchanged \<and> cleanup_eligible (gates report) then
               report\<lparr>state := Confirmed,
                      evidence := evidence report
                        @ [root_item ''abandonment.grace_elapsed'' Abandonment report,
                           root_item ''observation.stable_twice'' Abandonment report]\<rparr>
             else if \<not> unchanged then
               report\<lparr>state := Ambiguous,
                      gates := (gates report)\<lparr>no_protection_rule := False\<rparr>,
                      evidence := evidence report
                        @ [root_item ''protection.identity_or_membership_changed'' Protection report]\<rparr>
             else report)
      in report\<lparr>evidence := sort_evidence (evidence report)\<rparr>)"

definition reconcile_one ::
    "(string, incident_report) btree \<Rightarrow> string list \<Rightarrow> incident_report \<Rightarrow> incident_report" where
  "reconcile_one first_by_key confirmed_keys report =
     (if state report \<noteq> Cooling then report
      else case bt_get first_by_key (tracking_key report) of
             None \<Rightarrow> report
           | Some previous \<Rightarrow>
               if state previous \<noteq> Cooling then report
               else reconcile_pair confirmed_keys previous report)"

definition reconcile_with_abandonment ::
    "incident_report list \<Rightarrow> incident_report list \<Rightarrow> string list \<Rightarrow> incident_report list" where
  "reconcile_with_abandonment first second confirmed_keys =
     map (reconcile_one (bt_of_list (map (\<lambda>r. (tracking_key r, r)) first)) confirmed_keys) second"

definition reconcile :: "incident_report list \<Rightarrow> incident_report list \<Rightarrow> incident_report list" where
  "reconcile first second = reconcile_with_abandonment first second []"

section \<open>Revalidation\<close>

definition relevant_process ::
    "signature_pack \<Rightarrow> cleanup_plan \<Rightarrow> process_record \<Rightarrow> bool" where
  "relevant_process pack plan p =
     (let target_pids = map target_pid (plan_targets plan);
          target_groups = filter (\<lambda>i. i \<noteq> 0) (map target_process_group_id (plan_targets plan));
          target_executables = List.map_filter (\<lambda>t.
            Option.bind (executable_device (target_identity t)) (\<lambda>d.
              map_option (Pair d) (executable_inode (target_identity t)))) (plan_targets plan);
          executable_matches =
            (case (executable_device (identity p), executable_inode (identity p)) of
               (Some d, Some i) \<Rightarrow> (d, i) \<in> set target_executables
             | _ \<Rightarrow> False)
      in process_pid p \<in> set target_pids
         \<or> (process_group_id p \<noteq> 0 \<and> process_group_id p \<in> set target_groups)
         \<or> executable_matches \<or> matches_controller p pack \<or> is_browser_root p pack)"

definition revalidation_facts_incomplete :: "analyzer \<Rightarrow> snapshot \<Rightarrow> cleanup_plan \<Rightarrow> bool" where
  "revalidation_facts_incomplete a snap plan =
     (let cov = coverage snap
      in if unreadable_processes cov \<noteq> 0
            \<or> listed_processes cov
                \<noteq> usize_saturating_add (inspected_processes cov) (unreadable_processes cov)
            \<or> length (processes snap) \<noteq> inspected_processes cov
         then True
         else case find (\<lambda>pack. pack_id pack = plan_signature_pack plan
                            \<and> pack_version pack = plan_signature_version plan) (packs (rules a)) of
                None \<Rightarrow> True
              | Some pack \<Rightarrow>
                  list_ex (\<lambda>p. \<not> has_complete_classification_facts p \<and> relevant_process pack plan p)
                    (processes snap))"

definition plan_identities :: "cleanup_plan \<Rightarrow> (u32, process_identity) btree" where
  "plan_identities plan = bt_of_list (map (\<lambda>t. (target_pid t, target_identity t)) (plan_targets plan))"

definition identity_frozen :: "cleanup_plan \<Rightarrow> process_identity \<Rightarrow> bool" where
  "identity_frozen plan i =
     (case bt_get (plan_identities plan) (pid i) of None \<Rightarrow> False | Some frozen \<Rightarrow> exact_match frozen i)"

definition current_targets :: "snapshot \<Rightarrow> cleanup_plan \<Rightarrow> process_record list" where
  "current_targets snap plan =
     filter (\<lambda>p. bt_contains_key (plan_identities plan) (process_pid p)) (processes snap)"

definition target_protected :: "analyzer \<Rightarrow> snapshot \<Rightarrow> process_record \<Rightarrow> bool" where
  "target_protected a snap p =
     (uid p = 0 \<or> uid p \<noteq> current_uid snap \<or> \<not> has_complete_classification_facts p
      \<or> self_pid (analyzer_ctx a) = Some (process_pid p)
      \<or> process_pid p \<in> set (context_ancestor_pids (analyzer_ctx a)))"

definition confidence_downgraded :: "incident_report \<Rightarrow> bool" where
  "confidence_downgraded report =
     (state report \<noteq> Cooling \<or> \<not> same_user (gates report)
      \<or> \<not> strong_automation_provenance (gates report) \<or> \<not> isolated_session (gates report)
      \<or> \<not> no_protection_rule (gates report))"

definition verdict :: "revalidation_status \<Rightarrow> string \<Rightarrow> revalidation" where
  "verdict status reason = \<lparr>rv_status = status, rv_reason_id = reason\<rparr>"

definition revalidate_before_signal ::
    "analyzer \<Rightarrow> snapshot \<Rightarrow> cleanup_plan \<Rightarrow> incident_report list \<Rightarrow> revalidation" where
  "revalidate_before_signal a snap plan reports =
     (let matching = filter (\<lambda>r. session_fingerprint r = plan_session_fingerprint plan) reports;
          current = current_targets snap plan
      in if current = [] then verdict Gone ''revalidation.frozen_targets_absent''
         else if list_ex (\<lambda>p. \<not> identity_frozen plan (identity p)) current then
           verdict Blocked ''revalidation.identity_changed''
         else if list_ex (target_protected a snap) current then
           verdict Blocked ''revalidation.current_target_protected''
         else if list_ex (\<lambda>r. session_fingerprint r \<noteq> plan_session_fingerprint plan
                  \<and> list_ex (\<lambda>t. identity_frozen plan (target_identity t)) (targets r)) reports then
           verdict Blocked ''revalidation.overlapping_session_changed''
         else if list_ex confidence_downgraded matching then
           verdict Blocked ''revalidation.confidence_downgraded''
         else if list_ex (\<lambda>r. list_ex (\<lambda>t. \<not> identity_frozen plan (target_identity t)) (targets r)) matching then
           verdict Blocked ''revalidation.new_or_changed_member''
         else verdict Eligible
           (if matching = [] then ''revalidation.exact_frozen_subset''
            else ''revalidation.incident_still_eligible''))"

definition revalidate :: "analyzer \<Rightarrow> revalidator" where
  "revalidate a snap plan phase =
     (if revalidation_facts_incomplete a snap plan then
        verdict Blocked ''revalidation.relevant_facts_incomplete''
      else case observe a snap of
             Inl _ \<Rightarrow> verdict Blocked ''revalidation.classifier_failed''
           | Inr reports \<Rightarrow>
               if phase = RevivalCheck then
                 (if list_ex (\<lambda>r. session_fingerprint r = plan_session_fingerprint plan) reports then
                    verdict ReappearedSession ''revalidation.session_reappeared''
                  else verdict Gone ''revalidation.session_absent'')
               else revalidate_before_signal a snap plan reports)"

section \<open>What an observation reports\<close>

lemma observe_reports:
  assumes "observe a snap = Inr reports" "r \<in> set reports"
  obtains g c p where "from_snapshot snap = Inr g" "candidate_wf g c" "cand_pack c \<in> set (packs (rules a))"
    "graph_get g (cand_root_pid c) = Some p" "r = classify_root a g c p (observed_at_unix_millis snap)"
proof -
  obtain g where g: "from_snapshot snap = Inr g" using assms(1) by (auto simp: observe_def split: sum.splits)
  then have "r \<in> set (List.map_filter (\<lambda>c. classify a g c (observed_at_unix_millis snap)) (candidates (rules a) g))"
    using assms by (auto simp: observe_def)
  then obtain c where "c \<in> set (candidates (rules a) g)" "classify a g c (observed_at_unix_millis snap) = Some r"
    by (auto simp: map_filter_def)
  with g that [of g c] candidates_wf [OF g, of c "rules a"] show ?thesis by (auto simp: classify_def)
qed

lemma observe_not_confirmed: "observe a snap = Inr reports \<Longrightarrow> r \<in> set reports \<Longrightarrow> state r \<noteq> Confirmed"
  using observe_reports classify_root_not_confirmed(1) by metis

text \<open>A target of a report is a process that may be reclaimed, as the snapshot shows it.\<close>

definition reclaimable_process :: "analyzer_context \<Rightarrow> snapshot \<Rightarrow> process_record \<Rightarrow> bool" where
  "reclaimable_process ctx snap p =
     (uid p = current_uid snap \<and> uid p \<noteq> 0 \<and> has_complete_classification_facts p
      \<and> self_pid ctx \<noteq> Some (process_pid p) \<and> process_pid p \<notin> set (context_ancestor_pids ctx))"

lemma cooling_targets_reclaimable:
  assumes "observe a snap = Inr reports" "r \<in> set reports" "state r = Cooling" "t \<in> set (targets r)"
  shows "\<exists>p\<in>set (processes snap). target_identity t = identity p \<and> reclaimable_process (analyzer_ctx a) snap p
    \<and> process_pid p \<noteq> 0 \<and> process_pid p \<noteq> 1"
proof -
  obtain g c q where g: "from_snapshot snap = Inr g" and wf: "candidate_wf g c"
    and r: "r = classify_root a g c q (observed_at_unix_millis snap)"
    using observe_reports [OF assms(1,2)] by metis
  obtain p k where p: "graph_get g k = Some p" "k \<in> set (cand_member_pids c)" "target_identity t = identity p"
    using assms(4) unfolding r classify_root_fields candidate_targets_def by (auto simp: map_filter_def)
  have k: "process_pid p = k" using graph_get_pid [OF g p(1)] .
  have "process_set_clear (analyzer_ctx a) g c"
    using assms(3) unfolding r cooling_iff_reclaimable by (simp add: reclaimable_session_def Let_def)
  moreover have "p \<in> set (List.map_filter (graph_get g) (cand_member_pids c))"
    using p by (force simp: map_filter_def)
  moreover have "graph_current_uid g = current_uid snap" using from_snapshot_Inr [of snap g] g by auto
  ultimately have "reclaimable_process (analyzer_ctx a) snap p" "process_pid p \<noteq> 0" "process_pid p \<noteq> 1"
    using p(2) k by (auto simp: process_set_clear_def Let_def reclaimable_process_def list_all_iff)
  moreover have "p \<in> set (processes snap)"
    using g p(1) from_snapshot_iter [OF g] graph.lookup_all_rows [OF g, of p] k by simp
  ultimately show ?thesis using p(3) by blast
qed

section \<open>What reconciliation confirms\<close>

definition earlier_report :: "incident_report list \<Rightarrow> incident_report \<Rightarrow> incident_report option" where
  "earlier_report first r = map_of (rev (map (\<lambda>r. (tracking_key r, r)) first)) (tracking_key r)"

text \<open>The two observations agree on a session that both found cooling.\<close>

definition confirmed_by_pair :: "incident_report list \<Rightarrow> string list \<Rightarrow> incident_report \<Rightarrow> bool" where
  "confirmed_by_pair first confirmed_keys r =
     (state r = Cooling \<and> tracking_key r \<in> set confirmed_keys
      \<and> same_user (gates r) \<and> strong_automation_provenance (gates r) \<and> isolated_session (gates r)
      \<and> no_protection_rule (gates r)
      \<and> (case earlier_report first r of
           None \<Rightarrow> False | Some previous \<Rightarrow> state previous = Cooling \<and> stable_pair previous r))"

definition same_finding :: "incident_report \<Rightarrow> incident_report \<Rightarrow> bool" where
  "same_finding r r' = (r' = r\<lparr>state := state r', gates := gates r', evidence := evidence r'\<rparr>)"

definition pair_gates :: "string list \<Rightarrow> incident_report \<Rightarrow> incident_report \<Rightarrow> gate_ledger" where
  "pair_gates keys previous r = (gates r)
     \<lparr>stable_across_two_observations := stable_pair previous r,
      process_identity_unchanged := stable_pair previous r,
      confirmed_abandonment := (tracking_key r \<in> set keys)\<rparr>"

lemma pair_gates_eligible:
  "cleanup_eligible (pair_gates keys previous r) \<longleftrightarrow> stable_pair previous r \<and> tracking_key r \<in> set keys
     \<and> same_user (gates r) \<and> strong_automation_provenance (gates r)
     \<and> isolated_session (gates r) \<and> no_protection_rule (gates r)"
  by (auto simp: pair_gates_def cleanup_eligible_def)

lemma reconcile_pair_fields:
  "state (reconcile_pair keys previous r) =
     (if cleanup_eligible (pair_gates keys previous r) then Confirmed
      else if stable_pair previous r then state r else Ambiguous)"
  "cleanup_eligible (pair_gates keys previous r) \<Longrightarrow>
     gates (reconcile_pair keys previous r) = pair_gates keys previous r"
proof -
  let ?E = "cleanup_eligible (pair_gates keys previous r)"
  have e: "?E \<Longrightarrow> stable_pair previous r" by (simp add: pair_gates_eligible)
  show "state (reconcile_pair keys previous r) =
      (if ?E then Confirmed else if stable_pair previous r then state r else Ambiguous)"
    unfolding reconcile_pair_def Let_def pair_gates_def [symmetric]
    using e by (cases ?E; cases "stable_pair previous r") simp_all
  show "?E \<Longrightarrow> gates (reconcile_pair keys previous r) = pair_gates keys previous r"
    unfolding reconcile_pair_def Let_def pair_gates_def [symmetric] using e by simp
qed

lemma reconcile_pair_same: "same_finding r (reconcile_pair keys previous r)"
proof -
  have "\<exists>s g e. reconcile_pair keys previous r = r\<lparr>state := s, gates := g, evidence := e\<rparr>"
    unfolding reconcile_pair_def Let_def
    by (cases r; cases "stable_pair previous r") (simp split: if_splits; blast)+
  then show ?thesis unfolding same_finding_def by (elim exE) simp
qed

lemma reconcile_one_earlier:
  "reconcile_one (bt_of_list (map (\<lambda>r. (tracking_key r, r)) first)) keys r =
     (if state r \<noteq> Cooling then r else case earlier_report first r of None \<Rightarrow> r
      | Some previous \<Rightarrow> if state previous \<noteq> Cooling then r else reconcile_pair keys previous r)"
  by (simp add: reconcile_one_def earlier_report_def bt_of_list_get)

lemma reconcile_one_facts:
  fixes first keys r
  defines "r' \<equiv> reconcile_one (bt_of_list (map (\<lambda>r. (tracking_key r, r)) first)) keys r"
  shows "state r' = Confirmed \<longleftrightarrow> state r = Confirmed \<or> confirmed_by_pair first keys r"
    "transition (state r) (state r') = Inr (state r')"
    "same_finding r r'" "confirmed_by_pair first keys r \<Longrightarrow> cleanup_eligible (gates r')"
proof -
  have "(state r' = Confirmed \<longleftrightarrow> state r = Confirmed \<or> confirmed_by_pair first keys r)
    \<and> transition (state r) (state r') = Inr (state r') \<and> same_finding r r'
    \<and> (confirmed_by_pair first keys r \<longrightarrow> cleanup_eligible (gates r'))"
  proof (cases "state r = Cooling \<and> (\<exists>previous. earlier_report first r = Some previous \<and> state previous = Cooling)")
    case True
    then obtain previous where p: "earlier_report first r = Some previous" "state previous = Cooling" by blast
    have r': "r' = reconcile_pair keys previous r"
      using True p by (simp add: r'_def reconcile_one_earlier)
    show ?thesis
      using reconcile_pair_fields [of keys previous r] reconcile_pair_same [of r keys previous] True p unfolding r'
      by (auto simp: confirmed_by_pair_def transition_Inr transition_allowed_def pair_gates_eligible)
  next
    case False
    then have "r' = r" "\<not> confirmed_by_pair first keys r"
      by (auto simp: r'_def reconcile_one_earlier confirmed_by_pair_def split: option.splits)
    then show ?thesis by (simp add: transition_Inr transition_allowed_def same_finding_def)
  qed
  then show "state r' = Confirmed \<longleftrightarrow> state r = Confirmed \<or> confirmed_by_pair first keys r"
    "transition (state r) (state r') = Inr (state r')"
    "same_finding r r'" "confirmed_by_pair first keys r \<Longrightarrow> cleanup_eligible (gates r')" by blast+
qed

text \<open>
  C5: reconciliation confirms exactly the sessions that both observations found cooling under the
  same root identity and the same members, whose grace period is over and whose other gates hold. It
  moves every report along an accepted transition of the state machine and changes nothing of it but
  its state, gates and evidence.
\<close>

theorem reconcile_confirms_exactly:
  "list_all2 (\<lambda>r r'. (state r' = Confirmed \<longleftrightarrow> state r = Confirmed \<or> confirmed_by_pair first confirmed_keys r)
     \<and> transition (state r) (state r') = Inr (state r') \<and> same_finding r r')
   second (reconcile_with_abandonment first second confirmed_keys)"
  unfolding reconcile_with_abandonment_def list_all2_map2
  by (simp add: reconcile_one_facts list_all2_same)

lemma confirmed_reconciled:
  assumes "observe b s2 = Inr second" "r' \<in> set (reconcile_with_abandonment first second keys)" "state r' = Confirmed"
  obtains r where "r \<in> set second" "confirmed_by_pair first keys r" "same_finding r r'" "cleanup_eligible (gates r')"
proof -
  obtain r where r: "r \<in> set second"
      "r' = reconcile_one (bt_of_list (map (\<lambda>r. (tracking_key r, r)) first)) keys r"
    using assms(2) by (auto simp: reconcile_with_abandonment_def)
  have "confirmed_by_pair first keys r"
    using assms(3) observe_not_confirmed [OF assms(1) r(1)] reconcile_one_facts(1) [of first keys r] by (simp add: r(2))
  with that [OF r(1)] reconcile_one_facts(3) [of r first keys] reconcile_one_facts(4) [of first keys r]
  show ?thesis unfolding r(2) by blast
qed

lemma same_finding_fields:
  "same_finding r r' \<Longrightarrow> targets r' = targets r \<and> plannable r' = plannable r"
  unfolding same_finding_def plannable_def
  by (elim ssubst) simp

text \<open>
  C4: whatever the grace period, every report that two observations confirm is accepted as a cleanup
  plan: the plan is well-formed and each of its targets is a process of the second snapshot that
  belongs to the current non-root user, has complete facts and is neither pid 0 or 1, nor the
  observing program, nor one of its ancestors.
\<close>

theorem confirmed_reports_become_plans:
  "case observe b s2 of
     Inl _ \<Rightarrow> True
   | Inr second \<Rightarrow>
       list_all (\<lambda>r. case from_confirmed r of
           Inl _ \<Rightarrow> False
         | Inr plan \<Rightarrow> plan_wf plan \<and> list_all (\<lambda>t. list_ex (\<lambda>p. target_identity t = identity p
             \<and> reclaimable_process (analyzer_ctx b) s2 p \<and> process_pid p \<noteq> 0 \<and> process_pid p \<noteq> 1) (processes s2))
             (plan_targets plan))
         (filter (\<lambda>r. state r = Confirmed) (reconcile_with_abandonment first second confirmed_keys))"
proof (cases "observe b s2")
  case (Inr second)
  have "\<exists>plan. from_confirmed r' = Inr plan \<and> plan_wf plan \<and> (\<forall>t\<in>set (plan_targets plan). \<exists>p\<in>set (processes s2).
      target_identity t = identity p \<and> reclaimable_process (analyzer_ctx b) s2 p \<and> process_pid p \<noteq> 0 \<and> process_pid p \<noteq> 1)"
    if r': "r' \<in> set (reconcile_with_abandonment first second confirmed_keys)" "state r' = Confirmed" for r'
  proof -
    obtain r where r: "r \<in> set second" "confirmed_by_pair first confirmed_keys r" "same_finding r r'"
        "cleanup_eligible (gates r')"
      using confirmed_reconciled [OF Inr r'] by blast
    have cooling: "state r = Cooling" using r(2) by (simp add: confirmed_by_pair_def)
    have "plannable r"
      using observe_reports [OF Inr r(1)] cooling cooling_plannable by metis
    then obtain plan where plan: "from_confirmed r' = Inr plan"
      using from_confirmed_accepts r'(2) r(4) same_finding_fields [OF r(3)] by metis
    moreover have "plan_targets plan = targets r"
      using from_confirmed_InrD(3) [OF plan] same_finding_fields [OF r(3)] by simp
    ultimately show ?thesis
      using from_confirmed_wf [OF plan] cooling_targets_reclaimable [OF Inr r(1) cooling] by auto
  qed
  then show ?thesis by (fastforce simp: Inr list_all_iff list_ex_iff)
qed simp

section \<open>What a revalidation proves\<close>

abbreviation target_pids :: "cleanup_plan \<Rightarrow> u32 set" where
  "target_pids plan \<equiv> target_pid ` set (plan_targets plan)"

lemma plan_identities_get:
  "bt_get (plan_identities plan) k = Some i \<Longrightarrow> \<exists>t\<in>set (plan_targets plan). target_pid t = k \<and> target_identity t = i"
  by (auto simp: plan_identities_def bt_of_list_get dest!: map_of_SomeD)

lemma plan_identities_key: "bt_contains_key (plan_identities plan) k \<longleftrightarrow> k \<in> target_pids plan"
  unfolding bt_contains_key_def plan_identities_def bt_of_list_get by (force simp: map_of_eq_None_iff rev_map [symmetric] image_iff)

lemma identity_frozen_target:
  "identity_frozen plan i \<Longrightarrow> list_ex (\<lambda>t. exact_match (target_identity t) i) (plan_targets plan)"
  by (auto simp: identity_frozen_def list_ex_iff split: option.splits dest!: plan_identities_get)

lemma current_targets_set: "set (current_targets snap plan) = {p \<in> set (processes snap). process_pid p \<in> target_pids plan}"
  by (auto simp: current_targets_def plan_identities_key)

lemma target_protected_iff: "\<not> target_protected a snap p \<longleftrightarrow> reclaimable_process (analyzer_ctx a) snap p"
  by (auto simp: target_protected_def reclaimable_process_def)

definition session_reports :: "cleanup_plan \<Rightarrow> incident_report list \<Rightarrow> incident_report list" where
  "session_reports plan reports = filter (\<lambda>r. session_fingerprint r = plan_session_fingerprint plan) reports"

definition other_reports :: "cleanup_plan \<Rightarrow> incident_report list \<Rightarrow> incident_report list" where
  "other_reports plan reports = filter (\<lambda>r. session_fingerprint r \<noteq> plan_session_fingerprint plan) reports"

text \<open>What the snapshot shows when a signal is allowed: at least one target is left, every process under
  a target pid is that very target and may be reclaimed, the session is at most found cooling with
  frozen members only, and no other session claims a frozen target.\<close>

definition signal_grounds :: "analyzer \<Rightarrow> snapshot \<Rightarrow> cleanup_plan \<Rightarrow> bool" where
  "signal_grounds a snap plan =
     (case observe a snap of
        Inl _ \<Rightarrow> False
      | Inr reports \<Rightarrow>
          current_targets snap plan \<noteq> []
          \<and> list_all (\<lambda>p. list_ex (\<lambda>t. exact_match (target_identity t) (identity p)) (plan_targets plan)
               \<and> reclaimable_process (analyzer_ctx a) snap p) (current_targets snap plan)
          \<and> list_all (\<lambda>r. state r = Cooling
               \<and> list_all (\<lambda>t. identity_frozen plan (target_identity t)) (targets r)) (session_reports plan reports)
          \<and> list_all (\<lambda>r. \<not> list_ex (\<lambda>t. identity_frozen plan (target_identity t)) (targets r))
               (other_reports plan reports))"

lemma revalidate_before_signal_status:
  "rv_status (revalidate_before_signal a snap plan reports) \<noteq> ReappearedSession"
  "rv_status (revalidate_before_signal a snap plan reports) = Gone \<longleftrightarrow> current_targets snap plan = []"
  by (simp_all add: revalidate_before_signal_def Let_def verdict_def)

lemma revalidate_eligible:
  assumes "rv_status (revalidate_before_signal a snap plan reports) = Eligible" "observe a snap = Inr reports"
  shows "signal_grounds a snap plan"
proof -
  let ?current = "current_targets snap plan"
  from assms(1) have c: "?current \<noteq> []" "\<not> list_ex (\<lambda>p. \<not> identity_frozen plan (identity p)) ?current"
      "\<not> list_ex (target_protected a snap) ?current"
      "\<not> list_ex (\<lambda>r. session_fingerprint r \<noteq> plan_session_fingerprint plan
                  \<and> list_ex (\<lambda>t. identity_frozen plan (target_identity t)) (targets r)) reports"
      "\<not> list_ex confidence_downgraded (session_reports plan reports)"
      "\<not> list_ex (\<lambda>r. list_ex (\<lambda>t. \<not> identity_frozen plan (target_identity t)) (targets r)) (session_reports plan reports)"
    by (simp_all add: revalidate_before_signal_def Let_def verdict_def session_reports_def split: if_splits)
  have "list_all (\<lambda>p. list_ex (\<lambda>t. exact_match (target_identity t) (identity p)) (plan_targets plan)
      \<and> reclaimable_process (analyzer_ctx a) snap p) ?current"
    using c(2,3) identity_frozen_target target_protected_iff unfolding list_ex_iff list_all_iff by meson
  moreover have "list_all (\<lambda>r. state r = Cooling
      \<and> list_all (\<lambda>t. identity_frozen plan (target_identity t)) (targets r)) (session_reports plan reports)"
    using c(5,6) by (auto simp: list_ex_iff list_all_iff confidence_downgraded_def)
  moreover have "list_all (\<lambda>r. \<not> list_ex (\<lambda>t. identity_frozen plan (target_identity t)) (targets r))
      (other_reports plan reports)"
    using c(4) by (auto simp: other_reports_def list_ex_iff list_all_iff)
  ultimately show ?thesis using c(1) by (simp add: signal_grounds_def assms(2))
qed

lemma revalidate_cases:
  obtains (blocked) "rv_status (revalidate a snap plan phase) = Blocked"
  | (observed) reports where "\<not> revalidation_facts_incomplete a snap plan" "observe a snap = Inr reports"
      "revalidate a snap plan phase = (if phase = RevivalCheck then
         (if list_ex (\<lambda>r. session_fingerprint r = plan_session_fingerprint plan) reports then
            verdict ReappearedSession ''revalidation.session_reappeared''
          else verdict Gone ''revalidation.session_absent'')
       else revalidate_before_signal a snap plan reports)"
  by (cases "revalidation_facts_incomplete a snap plan"; cases "observe a snap")
    (simp_all add: revalidate_def verdict_def)

text \<open>Complete coverage, as the revalidation demands it: no listed process is
  missing from the snapshot.\<close>

definition snapshot_complete :: "snapshot \<Rightarrow> bool" where
  "snapshot_complete snap =
     (unreadable_processes (coverage snap) = 0 \<and> listed_processes (coverage snap) \<le> length (processes snap))"

lemma facts_complete_snapshot: "\<not> revalidation_facts_incomplete a snap plan \<Longrightarrow> snapshot_complete snap"
  by (auto simp: revalidation_facts_incomplete_def snapshot_complete_def Let_def usize_saturating_add_def
      split: if_splits)

lemma eligible_grounds:
  assumes "rv_status (revalidate a snap plan BeforeSignal) = Eligible"
  shows "snapshot_complete snap \<and> signal_grounds a snap plan"
proof (cases rule: revalidate_cases [of a snap plan BeforeSignal])
  case (observed reports)
  then have "rv_status (revalidate_before_signal a snap plan reports) = Eligible" using assms by simp
  then show ?thesis
    using revalidate_eligible [of a snap plan reports] facts_complete_snapshot [OF observed(1)] observed(2) by blast
qed (simp add: assms)

lemma gone_grounds:
  assumes "rv_status (revalidate a snap plan RevivalCheck) = Gone"
  shows "snapshot_complete snap
    \<and> (case observe a snap of Inl _ \<Rightarrow> False | Inr reports \<Rightarrow> session_reports plan reports = [])"
proof (cases rule: revalidate_cases [of a snap plan RevivalCheck])
  case (observed reports)
  then show ?thesis using assms facts_complete_snapshot [OF observed(1)]
    by (simp add: verdict_def session_reports_def filter_empty_conv list_ex_iff split: if_splits)
qed (simp add: assms)

text \<open>
  C6: every verdict before a signal is grounded in the snapshot it was given. Eligible needs the
  grounds above and a complete snapshot, gone needs a complete snapshot without any process under a
  target pid, and the session is never called reappeared in this phase.
\<close>

theorem verdict_before_signal_grounded:
  "case rv_status (revalidate a snap plan BeforeSignal) of
     Eligible \<Rightarrow> snapshot_complete snap \<and> signal_grounds a snap plan
   | Gone \<Rightarrow> snapshot_complete snap \<and> list_all (\<lambda>p. process_pid p \<notin> target_pids plan) (processes snap)
   | Blocked \<Rightarrow> True
   | ReappearedSession \<Rightarrow> False"
proof (cases rule: revalidate_cases [of a snap plan BeforeSignal])
  case (observed reports)
  have "snapshot_complete snap" using observed(1) by (rule facts_complete_snapshot)
  moreover have "list_all (\<lambda>p. process_pid p \<notin> target_pids plan) (processes snap)" if "current_targets snap plan = []"
    using that current_targets_set [of snap plan] by (auto simp: list_all_iff)
  ultimately show ?thesis
    using observed revalidate_before_signal_status [of a snap plan reports] eligible_grounds [of a snap plan]
    by (auto split: revalidation_status.splits)
qed simp

text \<open>
  C7: a revival check says gone only for a complete snapshot whose classification has no report of the
  session, and reappeared only when there is one; it never allows a signal.
\<close>

theorem verdict_on_revival_grounded:
  "case rv_status (revalidate a snap plan RevivalCheck) of
     Eligible \<Rightarrow> False
   | Gone \<Rightarrow> snapshot_complete snap
       \<and> (case observe a snap of Inl _ \<Rightarrow> False | Inr reports \<Rightarrow> session_reports plan reports = [])
   | Blocked \<Rightarrow> True
   | ReappearedSession \<Rightarrow>
       (case observe a snap of Inl _ \<Rightarrow> False | Inr reports \<Rightarrow> session_reports plan reports \<noteq> [])"
proof (cases rule: revalidate_cases [of a snap plan RevivalCheck])
  case (observed reports)
  then show ?thesis using facts_complete_snapshot [OF observed(1)]
    by (auto simp: verdict_def session_reports_def filter_empty_conv list_ex_iff)
qed simp

end
