(* ===== verification/Guarded_Cleanup.thy ===== *)
theory Guarded_Cleanup
  imports Core_Executor_Correct Rules_Analyzer
begin

text \<open>
  The cleanup executor together with the analyzer as its revalidator. The interface between the two is
  a locale: a guard promises that a process it declares eligible is safe to signal and that a session it
  declares gone is not observed any more. What the executor then guarantees is proved once in the
  locale, and the analyzer of \<open>crates/unlinger-rules/src/lib.rs\<close> is an interpretation of it.
\<close>

section \<open>The last snapshot of a log\<close>

fun last_snapshot :: "event_trace \<Rightarrow> snapshot option" where
  "last_snapshot [] = None"
| "last_snapshot (EvSnapshot (Inr snap) # tr) = Some snap"
| "last_snapshot (e # tr) = last_snapshot tr"

lemma last_snapshot_lookups [simp]:
  "list_all lookup_event looks \<Longrightarrow> last_snapshot (looks @ tr) = last_snapshot tr"
proof (induction looks)
  case (Cons e looks)
  then show ?case by (cases e) simp_all
qed simp

text \<open>Every signal of a log went to a process of the last snapshot before it that satisfies the
  predicate under its exact identity.\<close>

fun signals_within :: "(snapshot \<Rightarrow> process_record \<Rightarrow> bool) \<Rightarrow> event_trace \<Rightarrow> bool" where
  "signals_within safe [] = True"
| "signals_within safe (EvSignal i sig d # tr) =
     ((case last_snapshot tr of
         None \<Rightarrow> False
       | Some snap \<Rightarrow> list_ex (\<lambda>p. exact_match i (identity p) \<and> safe snap p) (processes snap))
      \<and> signals_within safe tr)"
| "signals_within safe (e # tr) = signals_within safe tr"

text \<open>Every file removal of a log comes after a snapshot that satisfies the predicate.\<close>

fun snapshot_event :: "(snapshot \<Rightarrow> bool) \<Rightarrow> event \<Rightarrow> bool" where
  "snapshot_event clear (EvSnapshot (Inr snap)) = clear snap"
| "snapshot_event clear _ = False"

fun removals_after :: "(snapshot \<Rightarrow> bool) \<Rightarrow> event_trace \<Rightarrow> bool" where
  "removals_after clear [] = True"
| "removals_after clear (EvRemove f d # tr) =
     (list_ex (snapshot_event clear) tr \<and> removals_after clear tr)"
| "removals_after clear (e # tr) = removals_after clear tr"

section \<open>The interface\<close>

locale session_guard =
  fixes rv :: revalidator
    and safe :: "snapshot \<Rightarrow> process_record \<Rightarrow> bool"
    and clear :: "cleanup_plan \<Rightarrow> snapshot \<Rightarrow> bool"
  assumes eligible_safe: "rv_status (rv snap plan BeforeSignal) = Eligible \<Longrightarrow> p \<in> set (processes snap)
      \<Longrightarrow> t \<in> set (plan_targets plan) \<Longrightarrow> exact_match (target_identity t) (identity p) \<Longrightarrow> safe snap p"
    and gone_clear: "rv_status (rv snap plan RevivalCheck) = Gone \<Longrightarrow> clear plan snap"
begin

lemma permitted_signal_within:
  assumes "permitted rv plan (EvSignal i sig d) tr"
  shows "case last_snapshot tr of None \<Rightarrow> False
    | Some snap \<Rightarrow> list_ex (\<lambda>p. exact_match i (identity p) \<and> safe snap p) (processes snap)"
proof -
  obtain t looks snap before where t: "t \<in> set (plan_targets plan)" "target_identity t = i"
    and tr: "tr = EvStop False # looks @ EvSnapshot (Inr snap) # before" "list_all lookup_event looks"
    and ok: "exactly_present snap t" "rv_status (rv snap plan BeforeSignal) = Eligible"
    using assms by (auto simp: signal_permitted_def observed_exactly_def)
  obtain p where p: "p \<in> set (processes snap)" "exact_match i (identity p)"
    using ok(1) t(2) by (auto simp: exactly_present_def)
  with eligible_safe [OF ok(2) p(1) t(1)] t(2) have "safe snap p" by simp
  with p show ?thesis by (auto simp: tr list_ex_iff)
qed

lemma permitted_removal_after:
  assumes "permitted rv plan (EvRemove f d) tr"
  shows "list_ex (snapshot_event (clear plan)) tr"
proof -
  obtain front before where tr: "tr = front @ before" and gone: "tree_was_gone rv plan before"
    using assms unfolding permitted.simps removal_permitted_def by (metis append_Cons append_Nil)
  obtain later looks snap earlier where "before = later @ looks @ EvSnapshot (Inr snap) # earlier"
      "rv_status (rv snap plan RevivalCheck) = Gone"
    using gone unfolding tree_was_gone_def tree_gone_def by blast
  then show ?thesis using gone_clear [of snap plan] by (simp add: tr)
qed

lemma lawful_guarded: "lawful rv plan tr \<Longrightarrow> signals_within safe tr \<and> removals_after (clear plan) tr"
proof (induction tr)
  case (Cons e tr)
  then have IH: "signals_within safe tr" "removals_after (clear plan) tr" and e: "permitted rv plan e tr"
    by (simp_all del: permitted.simps)
  consider (sig) i sig d where "e = EvSignal i sig d" | (rem) f d where "e = EvRemove f d"
    | (other) "\<And>i sig d. e \<noteq> EvSignal i sig d" "\<And>f d. e \<noteq> EvRemove f d" by blast
  then show ?case
  proof cases
    case sig
    with IH permitted_signal_within [OF e [unfolded sig]] show ?thesis by simp
  next
    case rem
    with IH permitted_removal_after [OF e [unfolded rem]] show ?thesis by simp
  next
    case other
    with IH show ?thesis by (cases e) auto
  qed
qed simp

lemma execute_guarded:
  "signals_within safe (snd (snd (execute (traced env) rv plan policy (w, []))))
   \<and> removals_after (clear plan) (snd (snd (execute (traced env) rv plan policy (w, []))))"
  by (rule lawful_guarded, rule executor_run_lawful
      [where result = "fst (execute (traced env) rv plan policy (w, []))"
        and w' = "fst (snd (execute (traced env) rv plan policy (w, [])))"]) simp

end

section \<open>The analyzer as guard\<close>

text \<open>The session of the plan is not among the reports of a complete snapshot.\<close>

definition session_unobserved :: "analyzer \<Rightarrow> cleanup_plan \<Rightarrow> snapshot \<Rightarrow> bool" where
  "session_unobserved a plan snap =
     (snapshot_complete snap
      \<and> (case observe a snap of Inl _ \<Rightarrow> False | Inr reports \<Rightarrow> session_reports plan reports = []))"

interpretation analyzer_guard: session_guard "revalidate a" "reclaimable_process (analyzer_ctx a)" "session_unobserved a"
  for a
proof
  fix snap plan p t
  assume "rv_status (revalidate a snap plan BeforeSignal) = Eligible" "p \<in> set (processes snap)"
    "t \<in> set (plan_targets plan)" "exact_match (target_identity t) (identity p)"
  moreover from this have "p \<in> set (current_targets snap plan)"
    using exact_match_pid [of "target_identity t" "identity p"]
    by (auto simp: current_targets_set process_pid_def intro!: image_eqI [of _ _ t])
  ultimately show "reclaimable_process (analyzer_ctx a) snap p"
    using eligible_grounds [of a snap plan] by (auto simp: signal_grounds_def list_all_iff split: sum.splits)
next
  fix snap plan
  assume "rv_status (revalidate a snap plan RevivalCheck) = Gone"
  then show "session_unobserved a plan snap"
    using gone_grounds [of a snap plan] by (simp add: session_unobserved_def)
qed

text \<open>
  C1: under the analyzer, and whatever the operating system, the journal and the plan do, every signal of
  a cleanup goes to a process that the last snapshot before it shows under that exact identity, owned by
  the current non-root user, with complete facts, and neither the program nor one of its ancestors; and
  a file is removed only after a complete snapshot in which the session is not observed any more.
\<close>

theorem cleanup_stays_within_session:
  "signals_within (reclaimable_process (analyzer_ctx a))
     (snd (snd (execute (traced env) (revalidate a) plan policy (w, []))))
   \<and> removals_after (session_unobserved a plan)
     (snd (snd (execute (traced env) (revalidate a) plan policy (w, []))))"
  by (rule analyzer_guard.execute_guarded)

end
