(* ===== verification/Core_Storage.thy ===== *)
theory Core_Storage
  imports Unlinger_Prelude
begin

text \<open>
  Storage residue facts, \<open>crates/unlinger-core/src/storage_residue.rs\<close>: the observation of one
  residue family and the path-free facts of one bounded cleanup attempt, with the textual form
  of the terminal disposition that the store persists.
\<close>

datatype storage_residue_kind = ChromeCodeSignClone

datatype storage_residue_status = ResidueClear | ResidueDetected | ResidueUnavailable

datatype storage_residue_reference_check =
    ReferenceIncomplete | CompleteNoReferences | ResidueReferenced

record storage_residue_observation =
  sro_kind :: storage_residue_kind
  sro_status :: storage_residue_status
  sro_observed_at_unix_millis :: u64
  sro_candidate_count :: usize
  sro_logical_bytes :: u64
  sro_shape_complete :: bool
  sro_reference_check :: storage_residue_reference_check
  sro_automatic_cleanup_eligible :: bool
  sro_reason_ids :: "string list"

record storage_cleanup_attempt_facts =
  sca_planned_candidate_count :: usize
  sca_before_candidate_count :: usize
  sca_before_logical_bytes :: u64

datatype storage_cleanup_disposition =
    StorageComplete | StoragePartial | StorageFailed | StorageDeliveryUnknown

definition storage_disposition_as_str :: "storage_cleanup_disposition \<Rightarrow> string" where
  "storage_disposition_as_str d =
     (case d of
        StorageComplete \<Rightarrow> ''complete''
      | StoragePartial \<Rightarrow> ''partial''
      | StorageFailed \<Rightarrow> ''failed''
      | StorageDeliveryUnknown \<Rightarrow> ''delivery_unknown'')"

definition storage_disposition_parse :: "string \<Rightarrow> storage_cleanup_disposition option" where
  "storage_disposition_parse value =
     (if value = ''complete'' then Some StorageComplete
      else if value = ''partial'' then Some StoragePartial
      else if value = ''failed'' then Some StorageFailed
      else if value = ''delivery_unknown'' then Some StorageDeliveryUnknown
      else None)"

record storage_cleanup_result_facts =
  scr_disposition :: storage_cleanup_disposition
  scr_planned_candidate_count :: usize
  scr_before_candidate_count :: usize
  scr_before_logical_bytes :: u64
  scr_removed_candidate_count :: "usize option"
  scr_after_candidate_count :: "usize option"
  scr_after_logical_bytes :: "u64 option"
  scr_retained_not_planned_count :: "usize option"

text \<open>
  The persisted spelling of a storage disposition is read back as the disposition it was
  written for, and a string is accepted only if it is the spelling of the result.
\<close>

theorem storage_disposition_roundtrip:
  "storage_disposition_parse (storage_disposition_as_str d) = Some d
   \<and> (storage_disposition_parse s = Some e \<longleftrightarrow> s = storage_disposition_as_str e)"
  by (cases d; cases e)
    (auto simp: storage_disposition_parse_def storage_disposition_as_str_def)

end
