(* ===== verification/Rules_Example.thy ===== *)
theory Rules_Example
  imports Rules_Analyzer
begin

text \<open>
  A concrete abandoned session, from its process table to its confirmation. It shows that the
  conditions of the classification and of the reconciliation can be met together, with the
  Playwright pack that the program embeds.
\<close>

section \<open>A session that is reclaimed\<close>

text \<open>A headless browser whose parent is gone, on a temporary Playwright profile: a concrete input at
  which the reference definition holds and the classification is cooling.\<close>

definition abandoned_browser :: process_record where
  "abandoned_browser = (plain_process 700 1)
     \<lparr>executable_path := Some ''/Applications/Google Chrome for Testing'',
      arguments := Some [''chrome'', ''--headless'', ''--remote-debugging-pipe'',
        ''--user-data-dir=/tmp/playwright_chromiumdev_profile-a''],
      runtime := (runtime (plain_process 700 1))
        \<lparr>app_bundle := Some \<lparr>bundle_id = ''com.google.chrome.for.testing'', short_version = ''152.0.7977.42''\<rparr>,
         descriptor_facts_complete := True, debug_transport_facts_complete := True, task_session_facts_complete := True\<rparr>\<rparr>"

definition demo_analyzer :: analyzer where
  "demo_analyzer = \<lparr>rules = \<lparr>packs = [playwright_pack]\<rparr>,
     analyzer_ctx = \<lparr>self_pid = Some 900, context_ancestor_pids = [], task_controllers = [], session_owners = []\<rparr>\<rparr>"

definition demo_snapshot :: "u64 \<Rightarrow> snapshot" where
  "demo_snapshot t = covering_snapshot t [abandoned_browser]"

definition demo_graph :: process_graph where
  "demo_graph = \<lparr>graph_current_uid = 501, graph_processes = [(700, abandoned_browser)], graph_children = [(1, [700])]\<rparr>"

definition demo_candidate :: candidate where
  "demo_candidate = \<lparr>cand_pack = playwright_pack, cand_root_pid = 700, cand_controller_pid = None,
     cand_browser_root_pids = [700], cand_member_pids = [700], cand_pack_anchor_count = 2\<rparr>"

lemma demo_browser_fields [simp]:
  "process_pid abandoned_browser = 700" "parent_pid abandoned_browser = 1"
  by (simp_all add: abandoned_browser_def plain_process_def plain_identity_def process_pid_def)

lemma demo_observed: "from_snapshot (demo_snapshot t) = Inr demo_graph"
  by (simp add: from_snapshot_def demo_snapshot_def covering_snapshot_def demo_graph_def collect_children_def
      bt_get_def bt_values_def bt_update_default_def)

lemma demo_clear: "process_set_clear (analyzer_ctx demo_analyzer) demo_graph demo_candidate"
  by code_simp

lemma demo_browsers: "List.map_filter (graph_get demo_graph) (cand_browser_root_pids demo_candidate) = [abandoned_browser]"
  by code_simp

lemma demo_headless:
  "list_all (\<lambda>p. args_contain_any p HEADLESS_MARKERS \<and> \<not> attached_debug_transport (runtime p)) [abandoned_browser]"
  "\<not> control_path_incomplete [abandoned_browser]"
  by code_simp+

lemma demo_profile:
  "List.map_filter (\<lambda>p. flag_value p ''--user-data-dir'') [abandoned_browser]
     = [''/tmp/playwright_chromiumdev_profile-a'']"
  "marker_profile playwright_pack ''/tmp/playwright_chromiumdev_profile-a''"
  "\<not> contains_any ''/tmp/playwright_chromiumdev_profile-a'' STANDARD_PROFILE_MARKERS"
  "args_contain_any abandoned_browser TRANSPORT_MARKERS"
  by code_simp+

lemma demo_unshared: "\<not> profile_shared_outside demo_graph demo_candidate paths"
  by (simp add: profile_shared_outside_def graph_iter_def demo_graph_def demo_candidate_def bt_values_def list_ex_iff)

lemma demo_isolated:
  "isolated (session_facts_of demo_graph demo_candidate [abandoned_browser])"
  "strong_provenance (session_facts_of demo_graph demo_candidate [abandoned_browser])"
proof -
  have pack: "cand_pack demo_candidate = playwright_pack" by (simp add: demo_candidate_def)
  show "isolated (session_facts_of demo_graph demo_candidate [abandoned_browser])"
    unfolding isolated_def session_facts_of_def Let_def pack demo_profile(1)
    using demo_profile demo_unshared by simp
  show "strong_provenance (session_facts_of demo_graph demo_candidate [abandoned_browser])"
    unfolding strong_provenance_def provenance_categories_def session_facts_of_def Let_def pack demo_profile(1)
    using demo_profile demo_headless by simp
qed

lemma demo_versions:
  "gate_supported (evaluate_browser_versions [abandoned_browser] (version_policy_of (cand_pack demo_candidate)))"
  by code_simp

lemma demo_owner:
  "\<not> has_plausible_unjoined_recorder demo_graph demo_candidate [abandoned_browser]"
  "owner_gone demo_analyzer demo_graph demo_candidate abandoned_browser"
  by code_simp+

lemma demo_cooling: "state (classify_root demo_analyzer demo_graph demo_candidate abandoned_browser 100000) = Cooling"
proof -
  have "started_at_unix_micros (identity abandoned_browser) = 1000"
    by (simp add: abandoned_browser_def plain_process_def plain_identity_def)
  then show ?thesis
    unfolding cooling_iff_reclaimable reclaimable_session_def Let_def demo_browsers
    using demo_clear demo_headless demo_isolated demo_versions demo_owner by simp
qed

definition demo_report :: incident_report where
  "demo_report = classify_root demo_analyzer demo_graph demo_candidate abandoned_browser 100000"

lemma demo_root: "is_browser_root abandoned_browser playwright_pack"
  by code_simp

lemma demo_anchors: "pack_anchor_count abandoned_browser playwright_pack = 2"
  by code_simp

lemma find_nothing: "find (\<lambda>_. False) xs = None"
  by (simp add: find_None_iff)

lemma demo_descendants: "descendant_pids demo_graph 700 = [700]"
  by code_simp

lemma demo_candidates: "candidates (rules demo_analyzer) demo_graph = [demo_candidate]"
proof -
  have graph: "graph_iter demo_graph = [abandoned_browser]" "graph_get demo_graph 700 = Some abandoned_browser"
    by (simp_all add: graph_iter_def graph_get_def demo_graph_def bt_values_def bt_get_def)
  have roots: "pack_browser_roots demo_graph playwright_pack = [700]"
    by (simp add: pack_browser_roots_def graph demo_root)
  then have "pack_controllers demo_graph playwright_pack = []"
    by (simp add: pack_controllers_def graph bs_of_list_def)
  with roots have "pack_candidates demo_graph playwright_pack = [demo_candidate]"
    by (simp add: pack_candidates_def assign_browsers_def assign_browser_def find_nothing demo_descendants demo_anchors graph
        unowned_candidate_def List.map_filter_def demo_candidate_def)
  then show ?thesis
    by (simp add: candidates_def demo_analyzer_def select_candidate_def bt_get_def bt_values_def)
qed

lemma demo_observe: "observe demo_analyzer (demo_snapshot 100000) = Inr [demo_report]"
proof -
  have "graph_get demo_graph (cand_root_pid demo_candidate) = Some abandoned_browser"
    by (simp add: graph_get_def demo_graph_def demo_candidate_def bt_get_def)
  then show ?thesis
    by (simp add: observe_def demo_observed demo_candidates classify_def demo_report_def List.map_filter_def)
      (simp add: demo_snapshot_def covering_snapshot_def)
qed

text \<open>Two observations of the same session after its grace period confirm it.\<close>

lemma cooling_gates:
  assumes "state (classify_root a g c p t) = Cooling"
  shows "same_user (gates (classify_root a g c p t))" "strong_automation_provenance (gates (classify_root a g c p t))"
    "isolated_session (gates (classify_root a g c p t))" "no_protection_rule (gates (classify_root a g c p t))"
proof -
  have "members_same_user g (List.map_filter (graph_get g) (cand_member_pids c))"
    using assms unfolding cooling_iff_reclaimable
      reclaimable_session_def process_set_clear_def members_same_user_def Let_def list_all_iff by blast
  with assms show "same_user (gates (classify_root a g c p t))"
    "strong_automation_provenance (gates (classify_root a g c p t))"
    "isolated_session (gates (classify_root a g c p t))" "no_protection_rule (gates (classify_root a g c p t))"
    by (auto simp: classify_root_def Let_def classified_cooling classified_gates_def split: prod.splits)
qed

lemma demo_confirmed: "map state (reconcile_with_abandonment [demo_report] [demo_report] [tracking_key demo_report]) = [Confirmed]"
proof -
  have "confirmed_by_pair [demo_report] [tracking_key demo_report] demo_report"
    using demo_cooling cooling_gates [OF demo_cooling]
    by (simp add: confirmed_by_pair_def earlier_report_def stable_pair_def demo_report_def)
  then show ?thesis using reconcile_one_facts(1) [of "[demo_report]" "[tracking_key demo_report]" demo_report]
    by (simp add: reconcile_with_abandonment_def)
qed

end
