(* ===== verification/Protocol_Types.thy ===== *)
theory Protocol_Types
  imports Unlinger_Prelude
begin

text \<open>
  The part of the wire protocol, \<open>crates/unlinger-protocol/src/lib.rs\<close>, that the store keeps: owner
  mutations with their receipts, and the summaries of cache maintenance attempts.
\<close>

section \<open>Owner mutations\<close>

record mutation_context =
  mc_namespace_token :: string
  mc_mutation_id :: string

datatype mutation_kind =
    PauseKind | ResumeKind | RetryFailedCleanupKind | ProtectIncidentKind | UnprotectIncidentKind

record protection_summary =
  ps_incident_id :: string
  ps_protected_at_unix_millis :: u64
  ps_last_exact_observed_at_unix_millis :: "u64 option"
  ps_exact_absence_since_unix_millis :: "u64 option"

datatype mutation_result =
    Paused u64 | Resumed | RetryScheduled string | IncidentProtected protection_summary
  | IncidentUnprotected string

datatype mutation_outcome = Applied mutation_result | NoChange string | RejectedMutation string

record mutation_receipt =
  mu_namespace_token :: string
  mu_mutation_id :: string
  mu_kind :: mutation_kind
  mu_committed_at_unix_millis :: u64
  mu_retain_until_unix_millis :: u64
  mu_policy_revision_after :: u64
  mu_outcome :: mutation_outcome

definition is_ascii_hexdigit :: "char \<Rightarrow> bool" where
  "is_ascii_hexdigit c \<longleftrightarrow> is_ascii_digit c \<or> byte_between 97 102 c \<or> byte_between 65 70 c"

text \<open>Both validators ask for ASCII first; every byte they then accept is one.\<close>

definition is_ascii_str :: "string \<Rightarrow> bool" where
  "is_ascii_str value \<longleftrightarrow> list_all (byte_between 0 127) value"

definition is_valid_mutation_id :: "string \<Rightarrow> bool" where
  "is_valid_mutation_id value =
     (length value = 36 \<and> is_ascii_str value
      \<and> list_all (\<lambda>(index, byte).
          if index \<in> {8, 13, 18, 23} then byte = CHR ''-'' else is_ascii_hexdigit byte)
        (List.enumerate 0 value))"

definition is_valid_namespace_token :: "string \<Rightarrow> bool" where
  "is_valid_namespace_token value =
     (length value = 32 \<and> is_ascii_str value
      \<and> list_all (\<lambda>byte. is_ascii_digit byte \<or> byte_between 97 102 byte) value)"

section \<open>Cache maintenance\<close>

datatype tool_cache_availability = CacheAvailable | CacheAbsent | CacheUnsupported | CacheUnavailable

datatype tool_cache_kind = NpmDownloadCache | UvCache | NodeCompileCache

datatype tool_cache_outcome =
    CacheRunning | CacheNoOp | CacheCompleted | CacheBusy | CacheFailed | CacheDeliveryUnknown

record tool_cache_attempt_summary =
  tca_outcome :: tool_cache_outcome
  tca_prepared_at_unix_millis :: u64
  tca_completed_at_unix_millis :: "u64 option"
  tca_native_removed_entry_count :: "u64 option"
  tca_native_removed_logical_bytes :: "u64 option"

record tool_cache_maintenance_summary =
  tcm_kind :: tool_cache_kind
  tcm_observed_at_unix_millis :: u64
  tcm_availability :: tool_cache_availability
  tcm_automatic_maintenance_eligible :: bool
  tcm_last_attempt :: "tool_cache_attempt_summary option"

record node_compile_cache_attempt_summary =
  nca_outcome :: tool_cache_outcome
  nca_prepared_at_unix_millis :: u64
  nca_completed_at_unix_millis :: "u64 option"
  nca_removed_entry_count :: "u64 option"
  nca_removed_logical_bytes :: "u64 option"

record node_compile_cache_maintenance_summary =
  ncm_kind :: tool_cache_kind
  ncm_observed_at_unix_millis :: u64
  ncm_availability :: tool_cache_availability
  ncm_automatic_maintenance_eligible :: bool
  ncm_last_attempt :: "node_compile_cache_attempt_summary option"

end
