(* ===== verification/Store_Base.thy ===== *)
theory Store_Base
  imports Core_Cleanup Core_Task Core_Storage Protocol_Types
begin

text \<open>
  The history store of \<open>crates/unlinger-daemon/src/store.rs\<close>: its error type, its conversions between
  Rust and SQLite integers, its tables and the transactions over them. A table is the list of its rows
  in insertion order; a JSON column holds the value it serialises. An operation maps the tables to an
  error or to a result and new tables, so a failing operation leaves them as they were, which is what
  the rollback of its transaction does. Where a message of the code prints a value with \<open>{:?}\<close>, the model
  keeps its literal text only. The statements of the database are those the source names;
  faults of the database engine itself (I/O, locking) are outside the model.
\<close>

named_theorems db_simps \<open>when an operation of the store succeeds, and with what\<close>

section \<open>Errors and integers\<close>

datatype store_error =
    Io string | Sqlite string | Json string | Corrupt string | RangeError string | Invalid string
  | Conflict string | AuthorityLost string | NotFound string | Capacity string
  | UnsupportedSchema string | UnsafePath string

text \<open>An \<open>i64\<close> column is an \<open>int\<close>; the conversions check its range.\<close>

definition i64_try_from :: "u64 \<Rightarrow> int option" where
  "i64_try_from v = (if uint v < 2 ^ 63 then Some (uint v) else None)"

definition sqlite_millis :: "u64 \<Rightarrow> string \<Rightarrow> store_error + int" where
  "sqlite_millis v label =
     (case i64_try_from v of None \<Rightarrow> Inl (RangeError (label @ '' overflowed i64'')) | Some i \<Rightarrow> Inr i)"

definition sqlite_u64 :: "u64 \<Rightarrow> string \<Rightarrow> store_error + int" where
  "sqlite_u64 v label =
     (case i64_try_from v of None \<Rightarrow> Inl (RangeError (label @ '' overflowed i64'')) | Some i \<Rightarrow> Inr i)"

definition sqlite_usize :: "usize \<Rightarrow> string \<Rightarrow> store_error + int" where
  "sqlite_usize v label =
     (if v < 2 ^ 63 then Inr (int v) else Inl (RangeError (label @ '' overflowed i64'')))"

definition parse_nonnegative_millis :: "int \<Rightarrow> string \<Rightarrow> store_error + u64" where
  "parse_nonnegative_millis v label =
     (if v < 0 then Inl (Corrupt (label @ '' is negative'')) else Inr (word_of_int v))"

section \<open>Rows\<close>

record lifecycle_row =
  lr_activation_generation :: int
  lr_instance_id :: string
  lr_requested_enforce :: int
  lr_effective_enforce :: int
  lr_armed_generation :: "int option"
  lr_enforcement_epoch :: "string option"
  lr_ready :: int
  lr_draining :: int
  lr_startup_phase :: string
  lr_updated_at :: int

record cooling_row =
  cr_tracking_key :: string
  cr_first_continuous :: int
  cr_last_continuous :: int
  cr_first_wall :: int
  cr_last_wall :: int
  cr_root_identity_fingerprint :: string
  cr_member_fingerprint :: string
  cr_boot_session_fingerprint :: string
  cr_enforcement_epoch :: string
  cr_signature_pack :: string
  cr_signature_version :: string

record attempt_row =
  at_id :: int
  at_incident_id :: string
  at_tracking_key :: string
  at_root_identity_fingerprint :: string
  at_member_fingerprint :: string
  at_enforcement_epoch :: string
  at_started_at :: int
  at_completed_at :: "int option"
  at_terminal_state :: "string option"
  at_reason_id :: "string option"
  at_survivor_pids :: "u32 list option"
  at_revival_checks :: int
  at_resources :: "cleanup_resources option"
  at_signature_pack :: "string option"
  at_signature_version :: "string option"
  at_process_count :: "int option"
  at_resident_memory :: "int option"

record action_row =
  ac_id :: int
  ac_attempt_id :: int
  ac_sequence :: int
  ac_prepared_at :: int
  ac_completed_at :: "int option"
  ac_stage :: string
  ac_pid :: int
  ac_identity_fingerprint :: string
  ac_signal :: string
  ac_disposition :: "string option"

record artifact_row =
  ar_id :: int
  ar_attempt_id :: int
  ar_sequence :: int
  ar_prepared_at :: int
  ar_completed_at :: "int option"
  ar_kind :: string
  ar_artifact_fingerprint :: string
  ar_disposition :: "string option"

record retry_block_row =
  rb_incident_id :: string
  rb_tracking_key :: string
  rb_blocked_at :: int
  rb_reason_id :: "string option"
  rb_source_attempt_id :: int
  rb_last_exact_observed_at :: "int option"
  rb_absence_since :: "int option"

record protection_row =
  pr_incident_id :: string
  pr_root_identity_fingerprint :: string
  pr_member_fingerprint :: string
  pr_protected_at :: int
  pr_last_exact_observed_at :: "int option"
  pr_absence_since :: "int option"

record observation_record =
  ob_incident_id :: string
  ob_signature_pack :: string
  ob_signature_version :: string
  ob_state :: incident_state
  ob_root :: root_summary
  ob_member_count :: usize
  ob_resident_memory_bytes :: u64
  ob_member_fingerprint :: string
  ob_roles :: "process_role_count list"
  ob_evidence :: "evidence_item list"
  ob_gates :: gate_ledger

datatype event_payload = ObservationPayload observation_record | CleanupPayload cleanup_receipt

record event_row =
  evt_id :: int
  evt_incident_id :: string
  evt_first_occurred_at :: int
  evt_occurred_at :: int
  evt_observation_count :: int
  evt_kind :: string
  evt_state :: string
  evt_payload :: event_payload
  evt_attempt_id :: "int option"

record impact_row =
  im_id :: int
  im_attempt_id :: int
  im_event_id :: int
  im_incident_id :: string
  im_family :: string
  im_family_version :: string
  im_occurred_at :: int
  im_state :: string
  im_process_outcome :: string
  im_artifact_outcome :: string
  im_overall_outcome :: string
  im_process_count :: "int option"
  im_estimated_memory :: "int option"
  im_revival_checks :: int

record impact_authority_row =
  ia_terminal_cleanup_count :: int
  ia_proved_reclaim_count :: int
  ia_reclaimed_process_count :: int
  ia_reclaimed_process_measurement_count :: int
  ia_estimated_reclaimed_memory_bytes :: int
  ia_reclaimed_memory_measurement_count :: int

datatype ordinary_mutation =
    Pause u64 | Resume | RetryFailedCleanup string | ProtectIncident string | UnprotectIncident string

record mutation_row =
  mr_namespace_token :: string
  mr_mutation_id :: string
  mr_canonical_version :: int
  mr_command :: ordinary_mutation
  mr_receipt :: mutation_receipt
  mr_committed_at :: int
  mr_retain_until :: int

record task_scope_row =
  ts_task_id :: string
  ts_capability :: string
  ts_registrar :: task_owner_identity
  ts_owner :: "task_owner_identity option"
  ts_created_at :: int
  ts_activated_at :: "int option"
  ts_released_at :: "int option"
  ts_release_reason :: "string option"

record task_controller_row =
  tc_identity_key :: string
  tc_task_id :: string
  tc_identity :: process_identity
  tc_incident_id :: string

record lease_row =
  le_lease_id :: string
  le_capability :: string
  le_selector_fingerprint :: string
  le_session_name :: string
  le_controller_version :: string
  le_generation :: int
  le_registrar :: task_owner_identity
  le_owner :: "task_owner_identity option"
  le_created_at :: int
  le_activated_at :: "int option"
  le_released_at :: "int option"
  le_release_reason :: "string option"

record lease_controller_row =
  lc_identity_key :: string
  lc_lease_id :: string
  lc_identity :: process_identity
  lc_incident_id :: string

record storage_attempt_row =
  sa_id :: int
  sa_token :: string
  sa_prepared_at :: int
  sa_completed_at :: "int option"
  sa_disposition :: "string option"
  sa_planned :: int
  sa_before_count :: int
  sa_before_bytes :: int
  sa_removed :: "int option"
  sa_after_count :: "int option"
  sa_after_bytes :: "int option"
  sa_retained_not_planned :: "int option"

record storage_residue_row =
  sl_observed_at :: int
  sl_payload :: storage_residue_observation

text \<open>The three cache tables have the same columns; \<open>'r\<close> is the attempt summary of the JSON column.\<close>

record 'r cache_row =
  ca_observed_at :: int
  ca_availability :: tool_cache_availability
  ca_token :: "string option"
  ca_attempt :: "'r option"

section \<open>The tables\<close>

text \<open>An \<open>AUTOINCREMENT\<close> key never reuses a value: the tables keep the next one. \<open>randomblob\<close> is a
  stream of tokens and a position in it.\<close>

record store =
  t_lifecycle :: "lifecycle_row option"
  t_cooling :: "cooling_row list"
  t_attempts :: "attempt_row list"
  t_next_attempt_id :: int
  t_actions :: "action_row list"
  t_next_action_id :: int
  t_artifact_actions :: "artifact_row list"
  t_next_artifact_action_id :: int
  t_retry_blocks :: "retry_block_row list"
  t_protections :: "protection_row list"
  t_events :: "event_row list"
  t_next_event_id :: int
  t_event_tokens :: "(int \<times> string) list"
  t_impacts :: "impact_row list"
  t_next_impact_id :: int
  t_impact_authority :: impact_authority_row
  t_settings :: "(string, int option) btree"
  t_mutations :: "mutation_row list"
  t_namespace :: string
  t_policy_revision :: int
  t_tasks :: "task_scope_row list"
  t_task_controllers :: "task_controller_row list"
  t_leases :: "lease_row list"
  t_lease_controllers :: "lease_controller_row list"
  t_storage_attempts :: "storage_attempt_row list"
  t_next_storage_attempt_id :: int
  t_storage_residue :: "storage_residue_row option"
  t_tool_cache :: "tool_cache_attempt_summary cache_row option"
  t_retired_npm_cache :: "tool_cache_attempt_summary cache_row option"
  t_node_compile_cache :: "node_compile_cache_attempt_summary cache_row option"
  t_random :: "nat \<Rightarrow> string"
  t_draws :: nat

section \<open>Operations\<close>

type_synonym 'a db = "store \<Rightarrow> store_error + 'a \<times> store"

definition db_return :: "'a \<Rightarrow> 'a db" where
  "db_return x s = Inr (x, s)"

definition db_fail :: "store_error \<Rightarrow> 'a db" where
  "db_fail e s = Inl e"

definition db_bind :: "'a db \<Rightarrow> ('a \<Rightarrow> 'b db) \<Rightarrow> 'b db" where
  "db_bind m f s = (case m s of Inl e \<Rightarrow> Inl e | Inr (x, s') \<Rightarrow> f x s')"

text \<open>The \<open>?\<close> on a result that does not touch the tables, a read, a write, and a failing condition.\<close>

definition db_lift :: "store_error + 'a \<Rightarrow> 'a db" where
  "db_lift r s = (case r of Inl e \<Rightarrow> Inl e | Inr x \<Rightarrow> Inr (x, s))"

definition db_read :: "(store \<Rightarrow> 'a) \<Rightarrow> 'a db" where
  "db_read f s = Inr (f s, s)"

definition db_write :: "(store \<Rightarrow> store) \<Rightarrow> unit db" where
  "db_write f s = Inr ((), f s)"

definition db_require :: "bool \<Rightarrow> store_error \<Rightarrow> unit db" where
  "db_require b e s = (if b then Inr ((), s) else Inl e)"

text \<open>A statement whose new rows must pass the \<open>CHECK\<close> and uniqueness constraints of the schema.\<close>

definition db_constrained :: "(store \<Rightarrow> bool) \<Rightarrow> (store \<Rightarrow> store) \<Rightarrow> unit db" where
  "db_constrained ok f s = (if ok (f s) then Inr ((), f s) else Inl (Sqlite ''constraint failed''))"

fun db_each :: "('x \<Rightarrow> unit db) \<Rightarrow> 'x list \<Rightarrow> unit db" where
  "db_each f [] = db_return ()"
| "db_each f (x # xs) = db_bind (f x) (\<lambda>_. db_each f xs)"

fun db_map :: "('x \<Rightarrow> 'y db) \<Rightarrow> 'x list \<Rightarrow> 'y list db" where
  "db_map f [] = db_return []"
| "db_map f (x # xs) = db_bind (f x) (\<lambda>y. db_bind (db_map f xs) (\<lambda>ys. db_return (y # ys)))"

text \<open>\<open>UPDATE .. WHERE\<close> and \<open>DELETE .. WHERE\<close> on the rows of a table.\<close>

definition update_where :: "('r \<Rightarrow> bool) \<Rightarrow> ('r \<Rightarrow> 'r) \<Rightarrow> 'r list \<Rightarrow> 'r list" where
  "update_where P f rows = map (\<lambda>r. if P r then f r else r) rows"

definition delete_where :: "('r \<Rightarrow> bool) \<Rightarrow> 'r list \<Rightarrow> 'r list" where
  "delete_where P rows = filter (\<lambda>r. \<not> P r) rows"

text \<open>\<open>INSERT .. ON CONFLICT DO UPDATE\<close>: the row with the same key is replaced by a function of it and
  the new row, or the new row is appended.\<close>

definition upsert :: "('r \<Rightarrow> bool) \<Rightarrow> ('r \<Rightarrow> 'r) \<Rightarrow> 'r \<Rightarrow> 'r list \<Rightarrow> 'r list" where
  "upsert same merge row rows = (if list_ex same rows then update_where same merge rows else rows @ [row])"

section \<open>Laws of the operations\<close>

lemma db_return_Inr [db_simps]: "db_return x s = Inr (y, s') \<longleftrightarrow> y = x \<and> s' = s"
  by (auto simp: db_return_def)

lemma db_fail_Inr [db_simps]: "db_fail e s = Inr r \<longleftrightarrow> False"
  by (simp add: db_fail_def)

lemma db_bind_Inr [db_simps]:
  "db_bind m f s = Inr (y, s') \<longleftrightarrow> (\<exists>x s1. m s = Inr (x, s1) \<and> f x s1 = Inr (y, s'))"
  by (auto simp: db_bind_def split: sum.splits)

lemma db_lift_Inr [db_simps]: "db_lift r s = Inr (x, s') \<longleftrightarrow> r = Inr x \<and> s' = s"
  by (auto simp: db_lift_def split: sum.splits)

lemma db_read_Inr [db_simps]: "db_read f s = Inr (x, s') \<longleftrightarrow> x = f s \<and> s' = s"
  by (auto simp: db_read_def)

lemma db_write_Inr [db_simps]: "db_write f s = Inr (x, s') \<longleftrightarrow> s' = f s"
  by (auto simp: db_write_def)

lemma db_require_Inr [db_simps]: "db_require b e s = Inr (x, s') \<longleftrightarrow> b \<and> s' = s"
  by (auto simp: db_require_def)

lemma db_constrained_Inr [db_simps]: "db_constrained ok f s = Inr (x, s') \<longleftrightarrow> ok (f s) \<and> s' = f s"
  by (auto simp: db_constrained_def)

lemma db_if_Inr [db_simps]: "(if b then m else m') s = Inr r \<longleftrightarrow> (if b then m s = Inr r else m' s = Inr r)"
  by simp

lemmas db_ops = db_return_def db_fail_def db_bind_def db_lift_def db_read_def db_write_def db_require_def
  db_constrained_def

text \<open>What a successful operation keeps: triples over the tables.\<close>

definition keeps :: "(store \<Rightarrow> bool) \<Rightarrow> 'a db \<Rightarrow> bool" where
  "keeps I m \<longleftrightarrow> (\<forall>s x s'. I s \<longrightarrow> m s = Inr (x, s') \<longrightarrow> I s')"

lemma keepsD: "keeps I m \<Longrightarrow> I s \<Longrightarrow> m s = Inr (x, s') \<Longrightarrow> I s'"
  by (auto simp: keeps_def)

lemma keeps_intros [intro]:
  "keeps I (db_return x)" "keeps I (db_fail e)" "keeps I (db_lift r)" "keeps I (db_read f)" "keeps I (db_require b e)"
  by (auto simp: keeps_def db_simps)

lemma keeps_bind [intro]: "keeps I m \<Longrightarrow> (\<And>x. keeps I (f x)) \<Longrightarrow> keeps I (db_bind m f)"
  unfolding keeps_def db_bind_Inr by blast

lemma keeps_if [intro]: "keeps I m \<Longrightarrow> keeps I m' \<Longrightarrow> keeps I (if b then m else m')"
  by simp

lemma keeps_option [intro]:
  "keeps I m \<Longrightarrow> (\<And>x. keeps I (f x)) \<Longrightarrow> keeps I (case r of None \<Rightarrow> m | Some x \<Rightarrow> f x)"
  by (cases r) auto

lemma keeps_each:
  assumes "\<And>x. keeps I (f x)"
  shows "keeps I (db_each f xs)"
  by (induction xs) (simp_all add: keeps_intros keeps_bind assms)

lemma keeps_db_map: "(\<And>x. keeps I (f x)) \<Longrightarrow> keeps I (db_map f xs)"
  by (induction xs) (simp_all add: keeps_intros keeps_bind)

lemma keeps_write: "(\<And>s. I s \<Longrightarrow> I (f s)) \<Longrightarrow> keeps I (db_write f)"
  by (auto simp: keeps_def db_simps)

lemma keeps_constrained: "(\<And>s. I s \<Longrightarrow> ok (f s) \<Longrightarrow> I (f s)) \<Longrightarrow> keeps I (db_constrained ok f)"
  by (auto simp: keeps_def db_simps)

text \<open>Weakest preconditions of the operations, for what a successful run establishes.\<close>

definition dwp :: "'a db \<Rightarrow> ('a \<Rightarrow> store \<Rightarrow> bool) \<Rightarrow> store \<Rightarrow> bool" where
  "dwp m Q s \<longleftrightarrow> (\<forall>x s'. m s = Inr (x, s') \<longrightarrow> Q x s')"

named_theorems dwp_simps

lemma dwp_return [dwp_simps]: "dwp (db_return x) Q s \<longleftrightarrow> Q x s"
  by (simp add: dwp_def db_simps)

lemma dwp_fail [dwp_simps]: "dwp (db_fail e) Q s"
  by (simp add: dwp_def db_simps)

lemma dwp_bind [dwp_simps]: "dwp (db_bind m f) Q s \<longleftrightarrow> dwp m (\<lambda>x. dwp (f x) Q) s"
  unfolding dwp_def db_bind_Inr by blast

lemma dwp_lift [dwp_simps]: "dwp (db_lift r) Q s \<longleftrightarrow> (\<forall>x. r = Inr x \<longrightarrow> Q x s)"
  by (simp add: dwp_def db_simps)

lemma dwp_read [dwp_simps]: "dwp (db_read f) Q s \<longleftrightarrow> Q (f s) s"
  by (simp add: dwp_def db_simps)

lemma dwp_write [dwp_simps]: "dwp (db_write f) Q s \<longleftrightarrow> Q () (f s)"
  by (simp add: dwp_def db_simps)

lemma dwp_require [dwp_simps]: "dwp (db_require b e) Q s \<longleftrightarrow> (b \<longrightarrow> Q () s)"
  by (simp add: dwp_def db_simps)

lemma dwp_constrained [dwp_simps]: "dwp (db_constrained ok f) Q s \<longleftrightarrow> (ok (f s) \<longrightarrow> Q () (f s))"
  by (simp add: dwp_def db_simps)

lemma dwp_cases [dwp_simps]:
  "dwp (if b then m else m') Q s \<longleftrightarrow> (if b then dwp m Q s else dwp m' Q s)"
  "dwp (case z of None \<Rightarrow> n | Some v \<Rightarrow> g v) Q s \<longleftrightarrow> (case z of None \<Rightarrow> dwp n Q s | Some v \<Rightarrow> dwp (g v) Q s)"
  "dwp (let y = w in h y) Q s \<longleftrightarrow> (let y = w in dwp (h y) Q s)"
  by (simp_all split: option.split)

lemma dwp_mono: "dwp m Q s \<Longrightarrow> (\<And>x s'. Q x s' \<Longrightarrow> R x s') \<Longrightarrow> dwp m R s"
  by (simp add: dwp_def)

lemma dwpD: "dwp m Q s \<Longrightarrow> m s = Inr (x, s') \<Longrightarrow> Q x s'"
  by (simp add: dwp_def)

lemma keeps_dwp: "keeps I m \<longleftrightarrow> (\<forall>s. I s \<longrightarrow> dwp m (\<lambda>_. I) s)"
  by (simp add: keeps_def dwp_def)

lemma dwp_keeps: "keeps I m \<Longrightarrow> I s \<Longrightarrow> (\<And>x s'. I s' \<Longrightarrow> Q x s') \<Longrightarrow> dwp m Q s"
  by (auto simp: keeps_def dwp_def)

section \<open>Laws of the tables and integers\<close>

lemma sqlite_millis_Inr [db_simps]: "sqlite_millis v l = Inr i \<longleftrightarrow> i = uint v \<and> uint v < 2 ^ 63"
  by (auto simp: sqlite_millis_def i64_try_from_def)

lemma sqlite_u64_Inr [db_simps]: "sqlite_u64 v l = Inr i \<longleftrightarrow> i = uint v \<and> uint v < 2 ^ 63"
  by (auto simp: sqlite_u64_def i64_try_from_def)

lemma sqlite_usize_Inr [db_simps]: "sqlite_usize v l = Inr i \<longleftrightarrow> i = int v \<and> v < 2 ^ 63"
  by (auto simp: sqlite_usize_def)

lemma set_delete_where [simp]: "r \<in> set (delete_where P rows) \<longleftrightarrow> r \<in> set rows \<and> \<not> P r"
  by (auto simp: delete_where_def)

lemma set_update_where: "r \<in> set (update_where P f rows) \<longleftrightarrow> (\<exists>q\<in>set rows. r = (if P q then f q else q))"
  by (auto simp: update_where_def)

lemma map_update_where: "(\<And>r. P r \<Longrightarrow> k (f r) = k r) \<Longrightarrow> map k (update_where P f rows) = map k rows"
  by (simp add: update_where_def)

lemma distinct_delete_where: "distinct (map k rows) \<Longrightarrow> distinct (map k (delete_where P rows))"
  by (simp add: delete_where_def distinct_map_filter)

end
