(* ===== verification/Store_Lifecycle.thy ===== *)
theory Store_Lifecycle
  imports Store_Base
begin

text \<open>
  The managed lifecycle of \<open>crates/unlinger-daemon/src/store.rs\<close>: the singleton row that decides whether
  a daemon of a given activation generation may clean up, its transitions, and what blocks arming it.
\<close>

section \<open>Phases and rows\<close>

datatype managed_startup_phase =
    Recovering | FirstScanReportOnly | ReadyReportOnly | ReadyEnforce | Draining | PhaseFailed

record managed_lifecycle =
  ml_activation_generation :: u64
  ml_instance_id :: string
  ml_requested_enforce :: bool
  ml_effective_enforce :: bool
  ml_armed_generation :: "u64 option"
  ml_enforcement_epoch :: "string option"
  ml_ready :: bool
  ml_draining :: bool
  ml_startup_phase :: managed_startup_phase
  ml_updated_at_unix_millis :: u64

fun managed_startup_phase_name :: "managed_startup_phase \<Rightarrow> string" where
  "managed_startup_phase_name Recovering = ''recovering''"
| "managed_startup_phase_name FirstScanReportOnly = ''first_scan_report_only''"
| "managed_startup_phase_name ReadyReportOnly = ''ready_report_only''"
| "managed_startup_phase_name ReadyEnforce = ''ready_enforce''"
| "managed_startup_phase_name Draining = ''draining''"
| "managed_startup_phase_name PhaseFailed = ''failed''"

definition parse_managed_startup_phase :: "string \<Rightarrow> store_error + managed_startup_phase" where
  "parse_managed_startup_phase value =
     (if value = ''recovering'' then Inr Recovering
      else if value = ''first_scan_report_only'' then Inr FirstScanReportOnly
      else if value = ''ready_report_only'' then Inr ReadyReportOnly
      else if value = ''ready_enforce'' then Inr ReadyEnforce
      else if value = ''draining'' then Inr Draining
      else if value = ''failed'' then Inr PhaseFailed
      else Inl (Corrupt ''unknown managed startup phase''))"

definition parse_sqlite_bool :: "int \<Rightarrow> string \<Rightarrow> store_error + bool" where
  "parse_sqlite_bool value field =
     (if value = 0 then Inr False else if value = 1 then Inr True
      else Inl (Corrupt ''managed lifecycle field is not boolean''))"

definition sqlite_generation :: "u64 \<Rightarrow> store_error + int" where
  "sqlite_generation v =
     (case i64_try_from v of None \<Rightarrow> Inl (RangeError ''activation generation overflowed i64'') | Some i \<Rightarrow> Inr i)"

text \<open>The \<open>CHECK\<close> constraints of the table.\<close>

definition lifecycle_check :: "lifecycle_row \<Rightarrow> bool" where
  "lifecycle_check r =
     (0 < lr_activation_generation r
      \<and> lr_requested_enforce r \<in> {0, 1} \<and> lr_effective_enforce r \<in> {0, 1}
      \<and> (case lr_armed_generation r of None \<Rightarrow> True | Some g \<Rightarrow> 0 < g)
      \<and> lr_ready r \<in> {0, 1} \<and> lr_draining r \<in> {0, 1}
      \<and> lr_startup_phase r \<in> {''recovering'', ''first_scan_report_only'', ''ready_report_only'',
           ''ready_enforce'', ''draining'', ''failed''}
      \<and> 0 \<le> lr_updated_at r
      \<and> (lr_effective_enforce r = 0 \<and> lr_armed_generation r = None \<and> lr_enforcement_epoch r = None
         \<or> lr_effective_enforce r = 1 \<and> lr_requested_enforce r = 1
           \<and> lr_armed_generation r = Some (lr_activation_generation r)
           \<and> lr_enforcement_epoch r \<noteq> None \<and> lr_ready r = 1 \<and> lr_draining r = 0))"

definition lifecycle_ok :: "store \<Rightarrow> bool" where
  "lifecycle_ok s = (case t_lifecycle s of None \<Rightarrow> True | Some r \<Rightarrow> lifecycle_check r)"

text \<open>\<open>UPDATE managed_lifecycle SET .. WHERE singleton = 1\<close>.\<close>

definition update_lifecycle :: "(lifecycle_row \<Rightarrow> lifecycle_row) \<Rightarrow> unit db" where
  "update_lifecycle f = db_constrained lifecycle_ok (\<lambda>s. s\<lparr>t_lifecycle := map_option f (t_lifecycle s)\<rparr>)"

section \<open>Reading\<close>

definition parse_generation :: "int \<Rightarrow> string \<Rightarrow> store_error + u64" where
  "parse_generation v message = (if v < 0 then Inl (Corrupt message) else Inr (word_of_int v))"

definition managed_lifecycle_connection :: "managed_lifecycle option db" where
  "managed_lifecycle_connection =
     db_bind (db_read t_lifecycle) (\<lambda>stored.
     case stored of
       None \<Rightarrow> db_return None
     | Some r \<Rightarrow>
         db_bind (db_lift (parse_generation (lr_activation_generation r)
           ''managed activation generation is invalid'')) (\<lambda>generation.
         db_bind (case lr_armed_generation r of
                    None \<Rightarrow> db_return None
                  | Some g \<Rightarrow> db_bind (db_lift (parse_generation g ''managed armed generation is invalid''))
                      (\<lambda>g. db_return (Some g))) (\<lambda>armed.
         db_bind (db_lift (parse_generation (lr_updated_at r) ''managed lifecycle timestamp is invalid'')) (\<lambda>updated.
         db_bind (db_lift (parse_sqlite_bool (lr_requested_enforce r) ''requested_enforce'')) (\<lambda>requested.
         db_bind (db_lift (parse_sqlite_bool (lr_effective_enforce r) ''effective_enforce'')) (\<lambda>effective.
         db_bind (db_lift (parse_sqlite_bool (lr_ready r) ''ready'')) (\<lambda>ready.
         db_bind (db_lift (parse_sqlite_bool (lr_draining r) ''draining'')) (\<lambda>draining.
         db_bind (db_lift (parse_managed_startup_phase (lr_startup_phase r))) (\<lambda>phase.
         db_return (Some \<lparr>ml_activation_generation = generation, ml_instance_id = lr_instance_id r,
           ml_requested_enforce = requested, ml_effective_enforce = effective,
           ml_armed_generation = armed, ml_enforcement_epoch = lr_enforcement_epoch r,
           ml_ready = ready, ml_draining = draining, ml_startup_phase = phase,
           ml_updated_at_unix_millis = updated\<rparr>))))))))))"

section \<open>Validation\<close>

fun has_control :: "string \<Rightarrow> bool" where
  "has_control [] = False"
| "has_control (c # cs) =
     ((of_char c :: nat) < 32 \<or> (of_char c :: nat) = 127
      \<or> ((of_char c :: nat) = 0xC2 \<and> (case cs of [] \<Rightarrow> False
            | d # _ \<Rightarrow> 0x80 \<le> (of_char d :: nat) \<and> (of_char d :: nat) \<le> 0x9F))
      \<or> has_control cs)"

definition validate_managed_identity :: "u64 \<Rightarrow> string \<Rightarrow> store_error + unit" where
  "validate_managed_identity generation instance_id =
     (if generation = 0 then Inl (Invalid ''managed activation generation must be greater than zero'')
      else if str_trim instance_id = [] \<or> 192 < length instance_id \<or> has_control instance_id then
        Inl (Invalid ''managed instance ID must contain 1 to 192 printable bytes'')
      else Inr ())"

definition require_exact_managed_identity :: "managed_lifecycle \<Rightarrow> u64 \<Rightarrow> string \<Rightarrow> store_error + unit" where
  "require_exact_managed_identity lifecycle generation instance_id =
     (if ml_activation_generation lifecycle \<noteq> generation then
        Inl (Invalid (''managed activation generation mismatch: active ''
          @ dec_string (unat (ml_activation_generation lifecycle)) @ '', requested ''
          @ dec_string (unat generation)))
      else if ml_instance_id lifecycle \<noteq> instance_id then
        Inl (Invalid ''managed instance ID does not match the active daemon'')
      else Inr ())"

definition validate_enforcement_epoch :: "string \<Rightarrow> store_error + unit" where
  "validate_enforcement_epoch epoch =
     (if str_trim epoch = [] \<or> 192 < length epoch then
        Inl (Invalid ''managed arm requires a bounded non-empty enforcement epoch'')
      else Inr ())"

section \<open>What blocks arming\<close>

definition action_disposed :: "store \<Rightarrow> string \<Rightarrow> string \<Rightarrow> retry_block_row \<Rightarrow> bool" where
  "action_disposed s signal_word artifact_word b =
     (list_ex (\<lambda>a. ac_attempt_id a = rb_source_attempt_id b \<and> ac_disposition a = Some signal_word) (t_actions s)
      \<or> list_ex (\<lambda>a. ar_attempt_id a = rb_source_attempt_id b \<and> ar_disposition a = Some artifact_word)
          (t_artifact_actions s))"

definition persistent_enforcement_blocker :: "store \<Rightarrow> string option" where
  "persistent_enforcement_blocker s =
     (if list_ex (action_disposed s ''delivery_unknown'' ''delivery_unknown'') (t_retry_blocks s) then
        Some ''managed arm is blocked by unresolved delivery-unknown cleanup''
      else if list_ex (action_disposed s ''delivered'' ''removed'') (t_retry_blocks s) then
        Some ''managed arm is blocked by cleanup interrupted after a delivered side effect''
      else None)"

definition managed_arm_blocker :: "store \<Rightarrow> string option" where
  "managed_arm_blocker s =
     (if list_ex (\<lambda>a. at_completed_at a = None) (t_attempts s) then
        Some ''managed arm is blocked by an incomplete cleanup attempt''
      else persistent_enforcement_blocker s)"

definition automatic_enforcement_blocked :: "store \<Rightarrow> bool" where
  "automatic_enforcement_blocked s = (persistent_enforcement_blocker s \<noteq> None)"

section \<open>Transitions\<close>

definition apply_managed_arm :: "string \<Rightarrow> int \<Rightarrow> unit db" where
  "apply_managed_arm epoch occurred_at =
     db_bind (db_write (\<lambda>s. s\<lparr>t_cooling := []\<rparr>)) (\<lambda>_.
     update_lifecycle (\<lambda>r. r\<lparr>lr_requested_enforce := 1, lr_effective_enforce := 1,
       lr_armed_generation := Some (lr_activation_generation r), lr_enforcement_epoch := Some epoch,
       lr_ready := 1, lr_draining := 0, lr_startup_phase := ''ready_enforce'', lr_updated_at := occurred_at\<rparr>))"

definition disarmed :: "lifecycle_row \<Rightarrow> lifecycle_row" where
  "disarmed r = r\<lparr>lr_effective_enforce := 0, lr_armed_generation := None, lr_enforcement_epoch := None\<rparr>"

definition apply_managed_report_only_ready :: "int \<Rightarrow> bool \<Rightarrow> unit db" where
  "apply_managed_report_only_ready occurred_at clear_requested =
     update_lifecycle (\<lambda>r. (disarmed r)\<lparr>lr_requested_enforce := (if clear_requested then 0 else lr_requested_enforce r),
       lr_ready := 1, lr_draining := 0, lr_startup_phase := ''ready_report_only'', lr_updated_at := occurred_at\<rparr>)"

definition expect_lifecycle :: "store_error \<Rightarrow> managed_lifecycle db" where
  "expect_lifecycle e =
     db_bind managed_lifecycle_connection (\<lambda>l. case l of None \<Rightarrow> db_fail e | Some lifecycle \<Rightarrow> db_return lifecycle)"

definition transition_managed ::
    "u64 \<Rightarrow> string \<Rightarrow> u64 \<Rightarrow> (managed_lifecycle \<Rightarrow> int \<Rightarrow> unit db) \<Rightarrow> managed_lifecycle db" where
  "transition_managed generation instance_id now change =
     db_bind (db_lift (validate_managed_identity generation instance_id)) (\<lambda>_.
     db_bind (db_lift (sqlite_millis now ''managed lifecycle timestamp'')) (\<lambda>occurred_at.
     db_bind (expect_lifecycle (Invalid ''managed lifecycle has not begun'')) (\<lambda>current.
     db_bind (db_lift (require_exact_managed_identity current generation instance_id)) (\<lambda>_.
     db_bind (change current occurred_at) (\<lambda>_.
     expect_lifecycle (Corrupt ''managed lifecycle disappeared during transition''))))))"

definition carries_enforce :: "u64 \<Rightarrow> managed_lifecycle \<Rightarrow> bool" where
  "carries_enforce generation lifecycle =
     (let ready_enforce_restart = (ml_startup_phase lifecycle = ReadyEnforce \<and> ml_effective_enforce lifecycle);
          graceful_pre_ready_restart = (ml_startup_phase lifecycle = ReadyReportOnly \<and> \<not> ml_ready lifecycle
            \<and> \<not> ml_effective_enforce lifecycle \<and> ml_armed_generation lifecycle = None
            \<and> ml_enforcement_epoch lifecycle = None)
      in ml_activation_generation lifecycle = generation \<and> ml_requested_enforce lifecycle
         \<and> (ready_enforce_restart \<or> graceful_pre_ready_restart))"

definition begin_managed_boot :: "u64 \<Rightarrow> string \<Rightarrow> u64 \<Rightarrow> managed_lifecycle db" where
  "begin_managed_boot generation instance_id now =
     db_bind (db_lift (validate_managed_identity generation instance_id)) (\<lambda>_.
     db_bind (db_lift (sqlite_generation generation)) (\<lambda>gen.
     db_bind (db_lift (sqlite_millis now ''managed boot timestamp'')) (\<lambda>occurred_at.
     db_bind managed_lifecycle_connection (\<lambda>current.
     let carry = (case current of None \<Rightarrow> False | Some lifecycle \<Rightarrow> carries_enforce generation lifecycle)
     in db_bind (db_constrained lifecycle_ok (\<lambda>s. s\<lparr>t_lifecycle := Some \<lparr>lr_activation_generation = gen,
           lr_instance_id = instance_id, lr_requested_enforce = of_bool carry, lr_effective_enforce = 0,
           lr_armed_generation = None, lr_enforcement_epoch = None, lr_ready = 0, lr_draining = 0,
           lr_startup_phase = ''recovering'', lr_updated_at = occurred_at\<rparr>\<rparr>)) (\<lambda>_.
        expect_lifecycle (Corrupt ''managed boot did not create lifecycle state''))))))"

definition finish_managed_recovery :: "u64 \<Rightarrow> string \<Rightarrow> u64 \<Rightarrow> managed_lifecycle db" where
  "finish_managed_recovery generation instance_id now =
     transition_managed generation instance_id now (\<lambda>lifecycle occurred_at.
       if ml_draining lifecycle then db_fail (Invalid ''managed daemon is already draining'')
       else update_lifecycle (\<lambda>r. (disarmed r)\<lparr>lr_ready := 0,
              lr_startup_phase := ''first_scan_report_only'', lr_updated_at := occurred_at\<rparr>))"

definition preserve_managed_pre_ready_restart_intent :: "u64 \<Rightarrow> string \<Rightarrow> u64 \<Rightarrow> managed_lifecycle db" where
  "preserve_managed_pre_ready_restart_intent generation instance_id now =
     transition_managed generation instance_id now (\<lambda>lifecycle occurred_at.
       if ml_draining lifecycle then
         db_fail (Invalid ''draining managed daemon cannot preserve restart intent'')
       else if ml_ready lifecycle \<or> ml_startup_phase lifecycle \<notin> {Recovering, FirstScanReportOnly} then
         db_fail (Invalid ''managed daemon is not in pre-ready startup'')
       else update_lifecycle (\<lambda>r. (disarmed r)\<lparr>lr_ready := 0, lr_draining := 0,
              lr_startup_phase := ''ready_report_only'', lr_updated_at := occurred_at\<rparr>))"

definition first_scan_change :: "string \<Rightarrow> managed_lifecycle \<Rightarrow> int \<Rightarrow> unit db" where
  "first_scan_change epoch lifecycle occurred_at =
     (if ml_draining lifecycle then db_fail (Invalid ''managed daemon is already draining'')
      else if ml_startup_phase lifecycle \<noteq> FirstScanReportOnly then
        db_fail (Invalid ''managed daemon is not awaiting its first report-only scan'')
      else if ml_requested_enforce lifecycle then
        db_bind (db_read managed_arm_blocker) (\<lambda>blocker.
          if blocker \<noteq> None then apply_managed_report_only_ready occurred_at True
          else apply_managed_arm epoch occurred_at)
      else apply_managed_report_only_ready occurred_at False)"

definition complete_managed_first_scan :: "u64 \<Rightarrow> string \<Rightarrow> string \<Rightarrow> u64 \<Rightarrow> managed_lifecycle db" where
  "complete_managed_first_scan generation instance_id epoch now =
     db_bind (db_lift (validate_enforcement_epoch epoch)) (\<lambda>_.
     transition_managed generation instance_id now (first_scan_change epoch))"

definition arm_change :: "u64 \<Rightarrow> string \<Rightarrow> managed_lifecycle \<Rightarrow> int \<Rightarrow> unit db" where
  "arm_change generation epoch lifecycle occurred_at =
     (if ml_effective_enforce lifecycle \<and> ml_armed_generation lifecycle = Some generation
         \<and> ml_enforcement_epoch lifecycle \<noteq> None then db_return ()
      else if ml_draining lifecycle then db_fail (Invalid ''managed daemon is draining and cannot arm'')
      else if \<not> ml_ready lifecycle then db_fail (Invalid ''managed daemon is not ready for enforcement'')
      else db_bind (db_read managed_arm_blocker) (\<lambda>blocker.
             case blocker of
               Some reason \<Rightarrow> db_fail (Invalid reason)
             | None \<Rightarrow> apply_managed_arm epoch occurred_at))"

definition arm_managed :: "u64 \<Rightarrow> string \<Rightarrow> string \<Rightarrow> u64 \<Rightarrow> managed_lifecycle db" where
  "arm_managed generation instance_id epoch now =
     db_bind (db_lift (validate_enforcement_epoch epoch)) (\<lambda>_.
     transition_managed generation instance_id now (arm_change generation epoch))"

definition clear_managed_enforce_request_offline :: "u64 \<Rightarrow> u64 \<Rightarrow> managed_lifecycle db" where
  "clear_managed_enforce_request_offline generation now =
     db_bind (db_require (generation \<noteq> 0)
       (Invalid ''managed activation generation must be greater than zero'')) (\<lambda>_.
     db_bind (db_lift (sqlite_generation generation)) (\<lambda>gen.
     db_bind (db_lift (sqlite_millis now ''offline managed report-only recovery timestamp'')) (\<lambda>occurred_at.
     db_bind (expect_lifecycle (Invalid ''managed lifecycle has not begun'')) (\<lambda>current.
     db_bind (db_require (ml_activation_generation current = generation)
       (Invalid (''managed activation generation mismatch: expected ''
          @ dec_string (unat (ml_activation_generation current)) @ '', got '' @ dec_string (unat generation)))) (\<lambda>_.
     db_bind (update_lifecycle (\<lambda>r. if lr_activation_generation r = gen
         then (disarmed r)\<lparr>lr_requested_enforce := 0, lr_ready := 0, lr_draining := 0,
                lr_startup_phase := ''recovering'', lr_updated_at := occurred_at\<rparr>
         else r)) (\<lambda>_.
     expect_lifecycle
       (Corrupt ''managed lifecycle disappeared during offline report-only recovery'')))))))"

definition disarm_managed :: "u64 \<Rightarrow> string \<Rightarrow> u64 \<Rightarrow> managed_lifecycle db" where
  "disarm_managed generation instance_id now =
     transition_managed generation instance_id now (\<lambda>lifecycle occurred_at.
       let phase = (if ml_draining lifecycle then ''draining''
                    else if ml_ready lifecycle then ''ready_report_only''
                    else managed_startup_phase_name (ml_startup_phase lifecycle))
       in update_lifecycle (\<lambda>r. (disarmed r)\<lparr>lr_requested_enforce := 0,
            lr_startup_phase := phase, lr_updated_at := occurred_at\<rparr>))"

definition begin_managed_drain :: "u64 \<Rightarrow> string \<Rightarrow> u64 \<Rightarrow> managed_lifecycle db" where
  "begin_managed_drain generation instance_id now =
     transition_managed generation instance_id now (\<lambda>lifecycle occurred_at.
       update_lifecycle (\<lambda>r. (disarmed r)\<lparr>lr_requested_enforce := 0, lr_ready := 0, lr_draining := 1,
         lr_startup_phase := ''draining'', lr_updated_at := occurred_at\<rparr>))"

definition fail_managed :: "u64 \<Rightarrow> string \<Rightarrow> u64 \<Rightarrow> managed_lifecycle db" where
  "fail_managed generation instance_id now =
     transition_managed generation instance_id now (\<lambda>lifecycle occurred_at.
       update_lifecycle (\<lambda>r. (disarmed r)\<lparr>lr_requested_enforce := 0, lr_ready := 0,
         lr_draining := (if ml_draining lifecycle then 1 else 0),
         lr_startup_phase := (if ml_draining lifecycle then ''draining'' else ''failed''),
         lr_updated_at := occurred_at\<rparr>))"

section \<open>Reading back\<close>

definition lifecycle_view :: "lifecycle_row \<Rightarrow> managed_lifecycle" where
  "lifecycle_view r =
     \<lparr>ml_activation_generation = word_of_int (lr_activation_generation r), ml_instance_id = lr_instance_id r,
      ml_requested_enforce = (lr_requested_enforce r = 1), ml_effective_enforce = (lr_effective_enforce r = 1),
      ml_armed_generation = map_option word_of_int (lr_armed_generation r),
      ml_enforcement_epoch = lr_enforcement_epoch r, ml_ready = (lr_ready r = 1),
      ml_draining = (lr_draining r = 1),
      ml_startup_phase = (case parse_managed_startup_phase (lr_startup_phase r) of Inr p \<Rightarrow> p | Inl _ \<Rightarrow> Recovering),
      ml_updated_at_unix_millis = word_of_int (lr_updated_at r)\<rparr>"

lemma phase_roundtrip [simp]: "parse_managed_startup_phase (managed_startup_phase_name p) = Inr p"
  by (cases p) (simp_all add: parse_managed_startup_phase_def)

lemma phase_parses:
  "lifecycle_check r \<Longrightarrow> \<exists>p. parse_managed_startup_phase (lr_startup_phase r) = Inr p"
  by (auto simp: lifecycle_check_def parse_managed_startup_phase_def)

lemma read_lifecycle:
  assumes "lifecycle_ok s"
  shows "managed_lifecycle_connection s = Inr (map_option lifecycle_view (t_lifecycle s), s)"
proof (cases "t_lifecycle s")
  case None
  then show ?thesis by (simp add: managed_lifecycle_connection_def db_ops)
next
  case (Some r)
  then have check: "lifecycle_check r" using assms by (simp add: lifecycle_ok_def)
  then obtain p where p: "parse_managed_startup_phase (lr_startup_phase r) = Inr p" using phase_parses by blast
  have nums: "0 < lr_activation_generation r" "0 \<le> lr_updated_at r"
      "lr_requested_enforce r = 0 \<or> lr_requested_enforce r = 1" "lr_effective_enforce r = 0 \<or> lr_effective_enforce r = 1"
      "lr_ready r = 0 \<or> lr_ready r = 1" "lr_draining r = 0 \<or> lr_draining r = 1"
      "lr_armed_generation r = None \<or> (\<exists>g. lr_armed_generation r = Some g \<and> 0 < g)"
    using check by (auto simp: lifecycle_check_def split: option.splits)
  then show ?thesis
    by (auto simp: managed_lifecycle_connection_def db_ops Some p parse_generation_def parse_sqlite_bool_def
        lifecycle_view_def split: option.splits)
qed

lemma expect_lifecycle_Inr:
  assumes "lifecycle_ok s"
  shows "expect_lifecycle e s = Inr (l, s') \<longleftrightarrow> s' = s \<and> (\<exists>r. t_lifecycle s = Some r \<and> l = lifecycle_view r)"
  by (auto simp: expect_lifecycle_def db_bind_def read_lifecycle [OF assms] db_simps split: option.splits)

section \<open>The invariant\<close>

text \<open>Beyond the constraints of the schema: enforcement, draining and readiness agree with the phase.\<close>

definition lifecycle_wf :: "lifecycle_row \<Rightarrow> bool" where
  "lifecycle_wf r \<longleftrightarrow> lifecycle_check r \<and> lr_activation_generation r < 2 ^ 63 \<and>
     (lr_effective_enforce r = 1 \<longleftrightarrow> lr_startup_phase r = ''ready_enforce'') \<and>
     (lr_draining r = 1 \<longleftrightarrow> lr_startup_phase r = ''draining'') \<and>
     (lr_ready r = 1 \<longrightarrow> lr_startup_phase r \<in> {''ready_report_only'', ''ready_enforce''})"

definition lifecycle_inv :: "store \<Rightarrow> bool" where
  "lifecycle_inv s = (case t_lifecycle s of None \<Rightarrow> True | Some r \<Rightarrow> lifecycle_wf r)"

lemma lifecycle_inv_ok: "lifecycle_inv s \<Longrightarrow> lifecycle_ok s"
  by (auto simp: lifecycle_inv_def lifecycle_ok_def lifecycle_wf_def split: option.splits)

lemma update_lifecycle_Inr [db_simps]:
  "update_lifecycle f s = Inr (x, s') \<longleftrightarrow>
     s' = s\<lparr>t_lifecycle := map_option f (t_lifecycle s)\<rparr> \<and>
     (\<forall>r. t_lifecycle s = Some r \<longrightarrow> lifecycle_check (f r))"
  by (auto simp: update_lifecycle_def db_simps lifecycle_ok_def split: option.splits)

text \<open>A successful transition found its row, was asked by the active instance and wrote the row that
  the change computes.\<close>

lemma transition_managed_Inr:
  assumes "lifecycle_ok s" "transition_managed generation instance_id now change s = Inr (l, s')"
  obtains r where "t_lifecycle s = Some r" "uint now < 2 ^ 63"
    "ml_activation_generation (lifecycle_view r) = generation" "lr_instance_id r = instance_id"
    "change (lifecycle_view r) (uint now) s = Inr ((), s')"
proof -
  from assms(2) obtain r where r: "t_lifecycle s = Some r" "uint now < 2 ^ 63"
      "require_exact_managed_identity (lifecycle_view r) generation instance_id = Inr ()"
    and rest: "db_bind (change (lifecycle_view r) (uint now)) (\<lambda>_. expect_lifecycle
       (Corrupt ''managed lifecycle disappeared during transition'')) s = Inr (l, s')"
    by (auto simp: transition_managed_def db_bind_Inr db_lift_Inr expect_lifecycle_Inr [OF assms(1)] db_simps)
  from rest obtain s1 where s1: "change (lifecycle_view r) (uint now) s = Inr ((), s1)"
      "expect_lifecycle (Corrupt ''managed lifecycle disappeared during transition'') s1 = Inr (l, s')"
    by (auto simp: db_bind_Inr)
  have "s' = s1"
    using s1(2) by (auto simp: expect_lifecycle_def managed_lifecycle_connection_def db_simps split: option.splits)
  with that r s1 show ?thesis
    by (auto simp: require_exact_managed_identity_def lifecycle_view_def split: if_splits)
qed

section \<open>Commands\<close>

datatype lifecycle_command =
    Boot u64 string u64 | FinishRecovery u64 string u64 | PreserveIntent u64 string u64
  | FirstScan u64 string string u64 | Arm u64 string string u64 | ClearOffline u64 u64
  | Disarm u64 string u64 | Drain u64 string u64 | FailClosed u64 string u64

fun run_lifecycle :: "lifecycle_command \<Rightarrow> managed_lifecycle db" where
  "run_lifecycle (Boot g i t) = begin_managed_boot g i t"
| "run_lifecycle (FinishRecovery g i t) = finish_managed_recovery g i t"
| "run_lifecycle (PreserveIntent g i t) = preserve_managed_pre_ready_restart_intent g i t"
| "run_lifecycle (FirstScan g i e t) = complete_managed_first_scan g i e t"
| "run_lifecycle (Arm g i e t) = arm_managed g i e t"
| "run_lifecycle (ClearOffline g t) = clear_managed_enforce_request_offline g t"
| "run_lifecycle (Disarm g i t) = disarm_managed g i t"
| "run_lifecycle (Drain g i t) = begin_managed_drain g i t"
| "run_lifecycle (FailClosed g i t) = fail_managed g i t"

text \<open>A command that fails leaves the tables as they are.\<close>

definition lifecycle_apply :: "lifecycle_command \<Rightarrow> store \<Rightarrow> store" where
  "lifecycle_apply c s = (case run_lifecycle c s of Inl _ \<Rightarrow> s | Inr (_, s') \<Rightarrow> s')"

lemma update_keeps:
  assumes "update_lifecycle f s = Inr (x, s')" "t_lifecycle s = Some r" "lifecycle_wf (f r)"
  shows "lifecycle_inv s'"
  using assms by (auto simp: db_simps lifecycle_inv_def)

lemma wf_cases:
  assumes "lifecycle_wf r"
  shows "lr_activation_generation r > 0" "lr_activation_generation r < 2 ^ 63"
    "lr_requested_enforce r = 0 \<or> lr_requested_enforce r = 1"
    "lr_ready r = 0 \<or> lr_ready r = 1" "lr_draining r = 0 \<or> lr_draining r = 1" "0 \<le> lr_updated_at r"
  using assms by (auto simp: lifecycle_wf_def lifecycle_check_def)

lemma disarmed_sel [simp]:
  "lr_effective_enforce (disarmed r) = 0" "lr_armed_generation (disarmed r) = None"
  "lr_enforcement_epoch (disarmed r) = None" "lr_activation_generation (disarmed r) = lr_activation_generation r"
  "lr_requested_enforce (disarmed r) = lr_requested_enforce r" "lr_ready (disarmed r) = lr_ready r"
  "lr_draining (disarmed r) = lr_draining r" "lr_startup_phase (disarmed r) = lr_startup_phase r"
  "lr_updated_at (disarmed r) = lr_updated_at r" "lr_instance_id (disarmed r) = lr_instance_id r"
  by (simp_all add: disarmed_def)

text \<open>A disarmed row is well-formed when its phase agrees with readiness and draining.\<close>

lemma disarmed_wf:
  assumes "lifecycle_wf r" "lr_requested_enforce q \<in> {0, 1}" "lr_activation_generation q = lr_activation_generation r"
    "lr_effective_enforce q = 0" "lr_armed_generation q = None" "lr_enforcement_epoch q = None" "0 \<le> lr_updated_at q"
    "lr_startup_phase q \<in> {''recovering'', ''first_scan_report_only'', ''ready_report_only'', ''draining'', ''failed''}"
    "lr_ready q = 0 \<or> lr_ready q = 1 \<and> lr_startup_phase q = ''ready_report_only''"
    "lr_draining q = (if lr_startup_phase q = ''draining'' then 1 else 0)"
  shows "lifecycle_wf q"
proof -
  have "lr_ready q \<in> {0, 1}" using assms(9) by blast
  moreover have "lr_draining q \<in> {0, 1}" using assms(10) by simp
  moreover have "lr_startup_phase q \<in> {''recovering'', ''first_scan_report_only'', ''ready_report_only'',
      ''ready_enforce'', ''draining'', ''failed''}" using assms(8) by blast
  ultimately have "lifecycle_check q"
    unfolding lifecycle_check_def using assms(2-7) wf_cases(1) [OF assms(1)] by simp
  then show ?thesis
    using assms(8) unfolding lifecycle_wf_def
    by (elim insertE emptyE) (use assms(3,4,9,10) wf_cases(2) [OF assms(1)] in simp_all)
qed

lemma armed_wf:
  assumes "lifecycle_wf r" "0 \<le> t"
  shows "lifecycle_wf (r\<lparr>lr_requested_enforce := 1, lr_effective_enforce := 1,
       lr_armed_generation := Some (lr_activation_generation r), lr_enforcement_epoch := Some epoch,
       lr_ready := 1, lr_draining := 0, lr_startup_phase := ''ready_enforce'', lr_updated_at := t\<rparr>)"
  using assms by (auto simp: lifecycle_wf_def lifecycle_check_def)

lemma apply_managed_arm_Inr [db_simps]:
  "apply_managed_arm epoch t s = Inr (x, s') \<longleftrightarrow>
     s' = s\<lparr>t_cooling := [], t_lifecycle := map_option (\<lambda>r. r\<lparr>lr_requested_enforce := 1, lr_effective_enforce := 1,
       lr_armed_generation := Some (lr_activation_generation r), lr_enforcement_epoch := Some epoch,
       lr_ready := 1, lr_draining := 0, lr_startup_phase := ''ready_enforce'', lr_updated_at := t\<rparr>) (t_lifecycle s)\<rparr>
     \<and> (\<forall>r. t_lifecycle s = Some r \<longrightarrow> 0 < lr_activation_generation r \<and> 0 \<le> t)"
  by (auto simp: apply_managed_arm_def db_simps lifecycle_check_def)

lemma report_only_ready_Inr [db_simps]:
  "apply_managed_report_only_ready t b s = Inr (x, s') \<longleftrightarrow>
     update_lifecycle (\<lambda>r. (disarmed r)\<lparr>lr_requested_enforce := (if b then 0 else lr_requested_enforce r),
       lr_ready := 1, lr_draining := 0, lr_startup_phase := ''ready_report_only'', lr_updated_at := t\<rparr>) s = Inr (x, s')"
  by (simp add: apply_managed_report_only_ready_def)

text \<open>What every transition of the active instance computes on its row.\<close>

lemma transition_keeps:
  assumes change: "\<And>r t s x s'. t_lifecycle s = Some r \<Longrightarrow> lifecycle_wf r \<Longrightarrow> 0 \<le> t \<Longrightarrow>
      change (lifecycle_view r) t s = Inr (x, s') \<Longrightarrow> lifecycle_inv s'"
  shows "keeps lifecycle_inv (transition_managed g i now change)"
  unfolding keeps_def
proof (intro allI impI)
  fix s l s' assume inv: "lifecycle_inv s" and run: "transition_managed g i now change s = Inr (l, s')"
  from transition_managed_Inr [OF lifecycle_inv_ok [OF inv] run] obtain r where
    "t_lifecycle s = Some r" "change (lifecycle_view r) (uint now) s = Inr ((), s')" by blast
  with change [of s r "uint now"] inv show "lifecycle_inv s'" by (simp add: lifecycle_inv_def)
qed

lemma view_draining: "ml_draining (lifecycle_view r) \<longleftrightarrow> lr_draining r = 1"
  and view_ready: "ml_ready (lifecycle_view r) \<longleftrightarrow> lr_ready r = 1"
  and view_requested: "ml_requested_enforce (lifecycle_view r) \<longleftrightarrow> lr_requested_enforce r = 1"
  and view_effective: "ml_effective_enforce (lifecycle_view r) \<longleftrightarrow> lr_effective_enforce r = 1"
  by (simp_all add: lifecycle_view_def)

lemmas view_simps = view_draining view_ready view_requested view_effective

lemma view_phase_name: "lifecycle_check r \<Longrightarrow> managed_startup_phase_name (ml_startup_phase (lifecycle_view r)) = lr_startup_phase r"
  by (auto simp: lifecycle_check_def lifecycle_view_def parse_managed_startup_phase_def)

lemma keeps_finish: "keeps lifecycle_inv (finish_managed_recovery g i t)"
  unfolding finish_managed_recovery_def
proof (rule transition_keeps)
  fix r t s x s'
  assume r: "t_lifecycle s = Some r" "lifecycle_wf r" "(0::int) \<le> t"
    and run: "(if ml_draining (lifecycle_view r) then db_fail (Invalid ''managed daemon is already draining'')
       else update_lifecycle (\<lambda>r. (disarmed r)\<lparr>lr_ready := 0,
              lr_startup_phase := ''first_scan_report_only'', lr_updated_at := t\<rparr>)) s = Inr (x, s')"
  then have upd: "update_lifecycle (\<lambda>r. (disarmed r)\<lparr>lr_ready := 0,
              lr_startup_phase := ''first_scan_report_only'', lr_updated_at := t\<rparr>) s = Inr (x, s')" "lr_draining r = 0"
    using wf_cases(5) [OF r(2)] by (auto simp: db_fail_Inr view_simps split: if_splits)
  show "lifecycle_inv s'"
    by (rule update_keeps [OF upd(1) r(1) disarmed_wf [OF r(2)]]) (use upd(2) r(3) wf_cases [OF r(2)] in auto)
qed

lemma keeps_preserve: "keeps lifecycle_inv (preserve_managed_pre_ready_restart_intent g i t)"
  unfolding preserve_managed_pre_ready_restart_intent_def
proof (rule transition_keeps)
  fix r t s x s'
  let ?f = "\<lambda>r. (disarmed r)\<lparr>lr_ready := 0, lr_draining := 0,
              lr_startup_phase := ''ready_report_only'', lr_updated_at := t\<rparr>"
  assume r: "t_lifecycle s = Some r" "lifecycle_wf r" "(0::int) \<le> t"
    and run: "(if ml_draining (lifecycle_view r) then
         db_fail (Invalid ''draining managed daemon cannot preserve restart intent'')
       else if ml_ready (lifecycle_view r) \<or> ml_startup_phase (lifecycle_view r) \<notin> {Recovering, FirstScanReportOnly} then
         db_fail (Invalid ''managed daemon is not in pre-ready startup'')
       else update_lifecycle ?f) s = Inr (x, s')"
  then have upd: "update_lifecycle ?f s = Inr (x, s')" by (auto simp: db_fail_Inr split: if_splits)
  show "lifecycle_inv s'"
    by (rule update_keeps [OF upd r(1) disarmed_wf [OF r(2)]]) (use r(3) wf_cases [OF r(2)] in auto)
qed

lemma keeps_arm_write:
  assumes "apply_managed_arm epoch t s = Inr (x, s')" "t_lifecycle s = Some r" "lifecycle_wf r" "0 \<le> t"
  shows "lifecycle_inv s'"
  using assms armed_wf [of r t epoch] by (simp add: db_simps lifecycle_inv_def)

lemma keeps_ready_write:
  assumes "apply_managed_report_only_ready t b s = Inr (x, s')" "t_lifecycle s = Some r" "lifecycle_wf r" "0 \<le> t"
  shows "lifecycle_inv s'"
  by (rule update_keeps [OF assms(1) [unfolded report_only_ready_Inr] assms(2) disarmed_wf [OF assms(3)]])
    (use assms(4) wf_cases [OF assms(3)] in auto)

lemma keeps_first_scan: "keeps lifecycle_inv (complete_managed_first_scan g i e t)"
  unfolding complete_managed_first_scan_def
  by (intro keeps_bind keeps_intros transition_keeps)
    (auto simp: first_scan_change_def db_fail_Inr db_bind_Inr db_read_Inr split: if_splits intro: keeps_arm_write keeps_ready_write)

lemma lifecycle_inv_row: "t_lifecycle s = Some r \<Longrightarrow> lifecycle_wf r \<Longrightarrow> lifecycle_inv s"
  by (simp add: lifecycle_inv_def)

lemma keeps_arm: "keeps lifecycle_inv (arm_managed g i e t)"
  unfolding arm_managed_def
  by (intro keeps_bind keeps_intros transition_keeps)
    (auto simp: arm_change_def db_fail_Inr db_bind_Inr db_read_Inr db_return_Inr split: if_splits option.splits
      intro: keeps_arm_write lifecycle_inv_row)

lemma keeps_disarm: "keeps lifecycle_inv (disarm_managed g i t)"
  unfolding disarm_managed_def Let_def
proof (rule transition_keeps)
  fix r t s x s'
  let ?phase = "if ml_draining (lifecycle_view r) then ''draining''
     else if ml_ready (lifecycle_view r) then ''ready_report_only''
     else managed_startup_phase_name (ml_startup_phase (lifecycle_view r))"
  assume r: "t_lifecycle s = Some r" "lifecycle_wf r" "(0::int) \<le> t"
    and run: "update_lifecycle (\<lambda>q. (disarmed q)\<lparr>lr_requested_enforce := 0, lr_startup_phase := ?phase,
       lr_updated_at := t\<rparr>) s = Inr (x, s')"
  have wf: "lifecycle_check r" "lr_effective_enforce r = 1 \<longleftrightarrow> lr_startup_phase r = ''ready_enforce''"
     "lr_draining r = 1 \<longleftrightarrow> lr_startup_phase r = ''draining''"
     "lr_ready r = 1 \<longrightarrow> lr_startup_phase r \<in> {''ready_report_only'', ''ready_enforce''}"
    using r(2) by (simp_all add: lifecycle_wf_def)
  have ready: "lr_startup_phase r = ''ready_enforce'' \<Longrightarrow> lr_ready r = 1" "lr_draining r = 1 \<Longrightarrow> lr_ready r = 0"
    using wf wf_cases(4) [OF r(2)] by (auto simp: lifecycle_check_def)
  have phase: "lr_startup_phase r \<in> {''recovering'', ''first_scan_report_only'', ''ready_report_only'',
      ''ready_enforce'', ''draining'', ''failed''}" using wf(1) unfolding lifecycle_check_def by blast
  show "lifecycle_inv s'"
    by (rule update_keeps [OF run r(1) disarmed_wf [OF r(2)]])
      (use phase ready wf r(3) wf_cases(4,5) [OF r(2)] in \<open>auto simp: view_simps view_phase_name [OF wf(1)]\<close>)
qed

lemma keeps_drain: "keeps lifecycle_inv (begin_managed_drain g i t)"
  unfolding begin_managed_drain_def
proof (rule transition_keeps)
  fix r t s x s'
  assume r: "t_lifecycle s = Some r" "lifecycle_wf r" "(0::int) \<le> t"
    and run: "update_lifecycle (\<lambda>q. (disarmed q)\<lparr>lr_requested_enforce := 0, lr_ready := 0, lr_draining := 1,
       lr_startup_phase := ''draining'', lr_updated_at := t\<rparr>) s = Inr (x, s')"
  show "lifecycle_inv s'"
    by (rule update_keeps [OF run r(1) disarmed_wf [OF r(2)]]) (use r(3) in auto)
qed

lemma keeps_fail: "keeps lifecycle_inv (fail_managed g i t)"
  unfolding fail_managed_def
proof (rule transition_keeps)
  fix r t s x s'
  assume r: "t_lifecycle s = Some r" "lifecycle_wf r" "(0::int) \<le> t"
    and run: "update_lifecycle (\<lambda>q. (disarmed q)\<lparr>lr_requested_enforce := 0, lr_ready := 0,
         lr_draining := (if ml_draining (lifecycle_view r) then 1 else 0),
         lr_startup_phase := (if ml_draining (lifecycle_view r) then ''draining'' else ''failed''),
         lr_updated_at := t\<rparr>) s = Inr (x, s')"
  show "lifecycle_inv s'"
    by (rule update_keeps [OF run r(1) disarmed_wf [OF r(2)]]) (use r(3) in auto)
qed

lemma expect_same: "expect_lifecycle e s = Inr (l, s') \<Longrightarrow> s' = s"
  by (auto simp: expect_lifecycle_def managed_lifecycle_connection_def db_simps split: option.splits)

lemma keeps_offline: "keeps lifecycle_inv (clear_managed_enforce_request_offline g t)"
  unfolding keeps_def
proof (intro allI impI)
  fix s l s'
  assume inv: "lifecycle_inv s" and run: "clear_managed_enforce_request_offline g t s = Inr (l, s')"
  let ?f = "\<lambda>r. if lr_activation_generation r = uint g
         then (disarmed r)\<lparr>lr_requested_enforce := 0, lr_ready := 0, lr_draining := 0,
                lr_startup_phase := ''recovering'', lr_updated_at := uint t\<rparr> else r"
  obtain r where r: "t_lifecycle s = Some r" "update_lifecycle ?f s = Inr ((), s')"
    using run by (auto simp: clear_managed_enforce_request_offline_def db_bind_Inr db_lift_Inr db_require_Inr
        sqlite_millis_Inr sqlite_generation_def i64_try_from_def expect_lifecycle_Inr [OF lifecycle_inv_ok [OF inv]]
        split: if_splits dest!: expect_same)
  have wf: "lifecycle_wf r" using inv r(1) by (simp add: lifecycle_inv_def)
  have "lifecycle_wf (?f r)"
  proof (cases "lr_activation_generation r = uint g")
    case True
    then show ?thesis by (simp only: if_True refl) (rule disarmed_wf [OF wf]; simp)
  qed (simp add: wf)
  then show "lifecycle_inv s'" by (rule update_keeps [OF r(2,1)])
qed

lemma keeps_boot: "keeps lifecycle_inv (begin_managed_boot g i t)"
  unfolding keeps_def
proof (intro allI impI)
  fix s l s'
  assume inv: "lifecycle_inv s" and run: "begin_managed_boot g i t s = Inr (l, s')"
  obtain b where s': "t_lifecycle s' = Some \<lparr>lr_activation_generation = uint g,
           lr_instance_id = i, lr_requested_enforce = of_bool b, lr_effective_enforce = 0,
           lr_armed_generation = None, lr_enforcement_epoch = None, lr_ready = 0, lr_draining = 0,
           lr_startup_phase = ''recovering'', lr_updated_at = uint t\<rparr>" and g: "g \<noteq> 0" "uint g < 2 ^ 63"
    using run by (auto simp: begin_managed_boot_def db_bind_Inr db_lift_Inr sqlite_millis_Inr sqlite_generation_def
        i64_try_from_def db_constrained_Inr Let_def validate_managed_identity_def split: if_splits dest!: expect_same)
  have "0 < uint g" using g(1) by (metis word_neq_0_conv word_less_def uint_0_iff uint_0_eq)
  with s' g show "lifecycle_inv s'" by (auto simp: lifecycle_inv_def lifecycle_wf_def lifecycle_check_def)
qed

lemmas lifecycle_keeps = keeps_boot keeps_finish keeps_preserve keeps_first_scan keeps_arm keeps_offline
  keeps_disarm keeps_drain keeps_fail

lemma run_lifecycle_keeps: "keeps lifecycle_inv (run_lifecycle c)"
  by (cases c) (simp_all add: lifecycle_keeps)

lemma lifecycle_apply_keeps: "lifecycle_inv s \<Longrightarrow> lifecycle_inv (lifecycle_apply c s)"
  using keepsD [OF run_lifecycle_keeps, of s c] by (auto simp: lifecycle_apply_def split: sum.splits)

definition lifecycle_history :: "lifecycle_command list \<Rightarrow> store \<Rightarrow> store" where
  "lifecycle_history cs s = fold lifecycle_apply cs s"

lemma lifecycle_history_keeps: "lifecycle_inv s \<Longrightarrow> lifecycle_inv (lifecycle_history cs s)"
  unfolding lifecycle_history_def by (induction cs arbitrary: s) (simp_all add: lifecycle_apply_keeps)

text \<open>
  C25: whatever commands a fresh store executes, in any order and from any instance, the lifecycle row
  stays well-formed: enforcement is effective exactly in the phase ready-enforce, with a request, the
  armed generation and an epoch; draining agrees with its phase; and the row always reads back without
  a corruption error.
\<close>

theorem lifecycle_always_wf:
  "lifecycle_inv (lifecycle_history cs (s\<lparr>t_lifecycle := None\<rparr>)) \<and>
   managed_lifecycle_connection (lifecycle_history cs (s\<lparr>t_lifecycle := None\<rparr>)) =
     Inr (map_option lifecycle_view (t_lifecycle (lifecycle_history cs (s\<lparr>t_lifecycle := None\<rparr>))),
          lifecycle_history cs (s\<lparr>t_lifecycle := None\<rparr>))"
proof -
  have "lifecycle_inv (lifecycle_history cs (s\<lparr>t_lifecycle := None\<rparr>))"
    by (rule lifecycle_history_keeps) (simp add: lifecycle_inv_def)
  then show ?thesis using read_lifecycle [OF lifecycle_inv_ok] by blast
qed

section \<open>Arming and draining\<close>

definition enforcing :: "store \<Rightarrow> bool" where
  "enforcing s = (case t_lifecycle s of None \<Rightarrow> False | Some r \<Rightarrow> lr_effective_enforce r = 1)"

definition draining :: "store \<Rightarrow> bool" where
  "draining s = (case t_lifecycle s of None \<Rightarrow> False | Some r \<Rightarrow> lr_draining r = 1)"

text \<open>How a command can start enforcement.\<close>

lemma enforcing_after:
  assumes inv: "lifecycle_inv s" and off: "\<not> enforcing s" and run: "run_lifecycle c s = Inr (l, s')"
    and on: "enforcing s'"
  obtains e t where "apply_managed_arm e t s = Inr ((), s')" "managed_arm_blocker s = None" "\<not> draining s"
proof -
  note tr = transition_managed_Inr [OF lifecycle_inv_ok [OF inv]]
  have quiet: False if "update_lifecycle f s = Inr (x, s')" "\<And>r. lr_effective_enforce (f r) = 0" for f and x :: unit
    using that on by (auto simp: update_lifecycle_Inr enforcing_def split: option.splits)
  show ?thesis
  proof (cases c)
    case (Boot g i t)
    have "t_lifecycle s' \<noteq> None \<and> (\<forall>r. t_lifecycle s' = Some r \<longrightarrow> lr_effective_enforce r = 0)"
      using run unfolding Boot run_lifecycle.simps begin_managed_boot_def
      by (auto simp: db_bind_Inr db_lift_Inr db_constrained_Inr Let_def dest!: expect_same)
    with on show ?thesis by (auto simp: enforcing_def split: option.splits)
  next
    case (FinishRecovery g i t)
    from run show ?thesis unfolding FinishRecovery run_lifecycle.simps finish_managed_recovery_def
      by (elim tr) (auto simp: db_fail_Inr split: if_splits dest!: quiet)
  next
    case (PreserveIntent g i t)
    from run show ?thesis unfolding PreserveIntent run_lifecycle.simps preserve_managed_pre_ready_restart_intent_def
      by (elim tr) (auto simp: db_fail_Inr split: if_splits dest!: quiet)
  next
    case (FirstScan g i e t)
    have "transition_managed g i t (first_scan_change e) s = Inr (l, s')"
      using run by (auto simp: FirstScan complete_managed_first_scan_def db_bind_Inr db_lift_Inr)
    from tr [OF this] obtain r where r: "t_lifecycle s = Some r"
      and ch: "first_scan_change e (lifecycle_view r) (uint t) s = Inr ((), s')" by blast
    have "\<not> apply_managed_report_only_ready (uint t) b s = Inr ((), s')" for b
      unfolding report_only_ready_Inr using quiet by fastforce
    with ch have "apply_managed_arm e (uint t) s = Inr ((), s')" "managed_arm_blocker s = None"
        "\<not> ml_draining (lifecycle_view r)"
      by (auto simp: first_scan_change_def db_fail_Inr db_bind_Inr db_read_Inr split: if_splits)
    with that r show ?thesis by (simp add: draining_def view_simps)
  next
    case (Arm g i e t)
    have "transition_managed g i t (arm_change g e) s = Inr (l, s')"
      using run by (auto simp: Arm arm_managed_def db_bind_Inr db_lift_Inr)
    from tr [OF this] obtain r where r: "t_lifecycle s = Some r"
      and ch: "arm_change g e (lifecycle_view r) (uint t) s = Inr ((), s')" by blast
    have "\<not> ml_effective_enforce (lifecycle_view r)" using off r by (simp add: enforcing_def view_simps)
    with ch have "apply_managed_arm e (uint t) s = Inr ((), s')" "managed_arm_blocker s = None"
        "\<not> ml_draining (lifecycle_view r)"
      by (auto simp: arm_change_def db_fail_Inr db_bind_Inr db_read_Inr split: if_splits option.splits)
    with that r show ?thesis by (simp add: draining_def view_simps)
  next
    case (ClearOffline g t)
    from run show ?thesis unfolding ClearOffline run_lifecycle.simps clear_managed_enforce_request_offline_def
      using off on by (auto simp: db_bind_Inr db_lift_Inr db_require_Inr update_lifecycle_Inr enforcing_def
          expect_lifecycle_Inr [OF lifecycle_inv_ok [OF inv]] split: option.splits if_splits dest!: expect_same)
  next
    case (Disarm g i t)
    from run show ?thesis unfolding Disarm run_lifecycle.simps disarm_managed_def Let_def
      by (elim tr) (auto dest!: quiet)
  next
    case (Drain g i t)
    from run show ?thesis unfolding Drain run_lifecycle.simps begin_managed_drain_def
      by (elim tr) (auto dest!: quiet)
  next
    case (FailClosed g i t)
    from run show ?thesis unfolding FailClosed run_lifecycle.simps fail_managed_def
      by (elim tr) (auto dest!: quiet)
  qed
qed

lemma managed_arm_clear:
  assumes "managed_arm_blocker s = None"
  shows "\<forall>a\<in>set (t_attempts s). at_completed_at a \<noteq> None"
    "\<forall>b\<in>set (t_retry_blocks s). \<forall>a\<in>set (t_actions s). ac_attempt_id a = rb_source_attempt_id b \<longrightarrow>
       ac_disposition a \<notin> {Some ''delivered'', Some ''delivery_unknown''}"
    "\<forall>b\<in>set (t_retry_blocks s). \<forall>a\<in>set (t_artifact_actions s). ar_attempt_id a = rb_source_attempt_id b \<longrightarrow>
       ar_disposition a \<notin> {Some ''removed'', Some ''delivery_unknown''}"
  using assms
  by (auto simp: managed_arm_blocker_def persistent_enforcement_blocker_def action_disposed_def list_ex_iff split: if_splits)

text \<open>
  C23: enforcement starts only when nothing blocks it: if a command turns it on, every cleanup attempt in the tables was
  completed, no retry block named an attempt with a signal that was delivered or may have been, or with a file that
  was removed or may have been, the daemon was not draining, and every cooling observation made before is forgotten.
\<close>

theorem arming_needs_clearance:
  assumes "lifecycle_inv s" "\<not> enforcing s" "enforcing (lifecycle_apply c s)"
  shows "(\<forall>a\<in>set (t_attempts s). at_completed_at a \<noteq> None)
    \<and> (\<forall>b\<in>set (t_retry_blocks s).
        (\<forall>a\<in>set (t_actions s). ac_attempt_id a = rb_source_attempt_id b \<longrightarrow>
           ac_disposition a \<notin> {Some ''delivered'', Some ''delivery_unknown''})
        \<and> (\<forall>a\<in>set (t_artifact_actions s). ar_attempt_id a = rb_source_attempt_id b \<longrightarrow>
           ar_disposition a \<notin> {Some ''removed'', Some ''delivery_unknown''}))
    \<and> \<not> draining s \<and> t_cooling (lifecycle_apply c s) = []"
proof -
  from assms(2,3) obtain l s' where run: "run_lifecycle c s = Inr (l, s')" "lifecycle_apply c s = s'"
    by (auto simp: lifecycle_apply_def split: sum.splits)
  from enforcing_after [OF assms(1,2) run(1)] assms(3) run(2) obtain e t where
    "apply_managed_arm e t s = Inr ((), s')" "managed_arm_blocker s = None" "\<not> draining s" by auto
  moreover from this(1) have "t_cooling (lifecycle_apply c s) = []" by (auto simp: run(2) apply_managed_arm_Inr)
  ultimately show ?thesis using managed_arm_clear [of s] by blast
qed

section \<open>A concrete lifecycle\<close>

definition empty_store :: store where
  "empty_store = \<lparr>t_lifecycle = None, t_cooling = [], t_attempts = [], t_next_attempt_id = 1, t_actions = [],
     t_next_action_id = 1, t_artifact_actions = [], t_next_artifact_action_id = 1, t_retry_blocks = [],
     t_protections = [], t_events = [], t_next_event_id = 1, t_event_tokens = [], t_impacts = [],
     t_next_impact_id = 1, t_impact_authority = \<lparr>ia_terminal_cleanup_count = 0, ia_proved_reclaim_count = 0,
       ia_reclaimed_process_count = 0, ia_reclaimed_process_measurement_count = 0,
       ia_estimated_reclaimed_memory_bytes = 0, ia_reclaimed_memory_measurement_count = 0\<rparr>,
     t_settings = [], t_mutations = [], t_namespace = replicate 32 (CHR ''0''), t_policy_revision = 1,
     t_tasks = [], t_task_controllers = [], t_leases = [], t_lease_controllers = [], t_storage_attempts = [],
     t_next_storage_attempt_id = 1, t_storage_residue = None, t_tool_cache = None, t_retired_npm_cache = None,
     t_node_compile_cache = None, t_random = (\<lambda>n. replicate 31 (CHR ''0'') @ dec_string n), t_draws = 0\<rparr>"

definition ready_row :: lifecycle_row where
  "ready_row = \<lparr>lr_activation_generation = 1, lr_instance_id = ''i'', lr_requested_enforce = 0,
     lr_effective_enforce = 0, lr_armed_generation = None, lr_enforcement_epoch = None, lr_ready = 1,
     lr_draining = 0, lr_startup_phase = ''ready_report_only'', lr_updated_at = 5\<rparr>"

definition ready_store :: store where
  "ready_store = empty_store\<lparr>t_lifecycle := Some ready_row\<rparr>"

lemma ready_store_wf: "lifecycle_inv ready_store" "\<not> enforcing ready_store"
  by (simp_all add: ready_store_def ready_row_def lifecycle_inv_def lifecycle_wf_def lifecycle_check_def enforcing_def)

text \<open>The same with a failed attempt whose only signal was cancelled, and its retry block.\<close>

definition settled_store :: store where
  "settled_store = ready_store\<lparr>t_attempts := [\<lparr>at_id = 1, at_incident_id = ''i'', at_tracking_key = ''k'', at_root_identity_fingerprint = ''r'',
       at_member_fingerprint = ''m'', at_enforcement_epoch = ''e'', at_started_at = 3, at_completed_at = Some 5,
       at_terminal_state = Some ''FAILED'', at_reason_id = None, at_survivor_pids = Some [], at_revival_checks = 0, at_resources = None,
       at_signature_pack = None, at_signature_version = None, at_process_count = None, at_resident_memory = None\<rparr>],
     t_actions := [\<lparr>ac_id = 1, ac_attempt_id = 1, ac_sequence = 0, ac_prepared_at = 4, ac_completed_at = Some 4, ac_stage = ''primary_term'', ac_pid = 7,
       ac_identity_fingerprint = ''f'', ac_signal = ''term'', ac_disposition = Some ''cancelled_before_delivery''\<rparr>],
     t_retry_blocks := [\<lparr>rb_incident_id = ''i'', rb_tracking_key = ''k'', rb_blocked_at = 5, rb_reason_id = None, rb_source_attempt_id = 1,
       rb_last_exact_observed_at = None, rb_absence_since = None\<rparr>]\<rparr>"

lemma settled_store_wf: "lifecycle_inv settled_store" "\<not> enforcing settled_store"
  using ready_store_wf by (simp_all add: settled_store_def lifecycle_inv_def enforcing_def)

lemma settled_store_arms: "enforcing (lifecycle_apply (Arm 1 ''i'' ''e'' 7) settled_store)"
  by code_simp

theorem arming_needs_clearance_witness:
  "enforcing (lifecycle_apply (Arm 1 ''i'' ''e'' 7) settled_store) \<and> t_attempts settled_store \<noteq> [] \<and> t_retry_blocks settled_store \<noteq> []
   \<and> list_all (\<lambda>a. at_completed_at a \<noteq> None) (t_attempts settled_store) \<and> t_cooling (lifecycle_apply (Arm 1 ''i'' ''e'' 7) settled_store) = []"
  using settled_store_arms arming_needs_clearance [OF settled_store_wf settled_store_arms] by (simp add: settled_store_def list_all_iff)

section \<open>Draining\<close>

fun of_instance :: "lifecycle_command \<Rightarrow> bool" where
  "of_instance (Boot _ _ _) = False"
| "of_instance (ClearOffline _ _) = False"
| "of_instance _ = True"

lemma draining_not_enforcing: "lifecycle_inv s \<Longrightarrow> draining s \<Longrightarrow> \<not> enforcing s"
  by (auto simp: lifecycle_inv_def lifecycle_wf_def draining_def enforcing_def split: option.splits)

lemma update_draining:
  assumes "update_lifecycle f s = Inr (x, s')" "t_lifecycle s = Some r" "lr_draining (f r) = 1"
  shows "draining s'"
  using assms by (simp add: update_lifecycle_Inr draining_def)

lemma draining_kept:
  assumes inv: "lifecycle_inv s" and d: "draining s" and c: "of_instance c"
  shows "draining (lifecycle_apply c s)"
proof (cases "run_lifecycle c s")
  case (Inl e)
  then show ?thesis using d by (simp add: lifecycle_apply_def)
next
  case (Inr p)
  then obtain l s' where run: "run_lifecycle c s = Inr (l, s')" by (cases p) auto
  note tr = transition_managed_Inr [OF lifecycle_inv_ok [OF inv]]
  obtain r where r: "t_lifecycle s = Some r" "lr_draining r = 1"
    using d by (auto simp: draining_def split: option.splits)
  have view: "ml_draining (lifecycle_view r)" using r by (simp add: view_simps)
  have eff: "\<not> ml_effective_enforce (lifecycle_view r)"
    using draining_not_enforcing [OF inv d] r by (simp add: enforcing_def view_simps)
  have run': "transition_managed g i t f s = Inr (l, s') \<Longrightarrow> f (lifecycle_view r) (uint t) s = Inr ((), s')" for g i t f
    using tr r(1) by (metis option.inject)
  have "draining s'"
  proof (cases c)
    case (FinishRecovery g i t)
    with run have "finish_managed_recovery g i t s = Inr (l, s')" by simp
    then show ?thesis unfolding finish_managed_recovery_def using view by (auto dest!: run' simp: db_fail_Inr)
  next
    case (PreserveIntent g i t)
    with run have "preserve_managed_pre_ready_restart_intent g i t s = Inr (l, s')" by simp
    then show ?thesis unfolding preserve_managed_pre_ready_restart_intent_def using view
      by (auto dest!: run' simp: db_fail_Inr)
  next
    case (FirstScan g i e t)
    with run have "transition_managed g i t (first_scan_change e) s = Inr (l, s')"
      by (auto simp: complete_managed_first_scan_def db_bind_Inr db_lift_Inr)
    then show ?thesis using view by (auto dest!: run' simp: first_scan_change_def db_fail_Inr)
  next
    case (Arm g i e t)
    with run have "transition_managed g i t (arm_change g e) s = Inr (l, s')"
      by (auto simp: arm_managed_def db_bind_Inr db_lift_Inr)
    then show ?thesis using view eff by (auto dest!: run' simp: arm_change_def db_fail_Inr)
  next
    case (Disarm g i t)
    with run have "disarm_managed g i t s = Inr (l, s')" by simp
    then show ?thesis unfolding disarm_managed_def Let_def using r(2)
      by (auto dest!: run' intro: update_draining [OF _ r(1)])
  next
    case (Drain g i t)
    with run have "begin_managed_drain g i t s = Inr (l, s')" by simp
    then show ?thesis unfolding begin_managed_drain_def by (auto dest!: run' intro: update_draining [OF _ r(1)])
  next
    case (FailClosed g i t)
    with run have "fail_managed g i t s = Inr (l, s')" by simp
    then show ?thesis unfolding fail_managed_def using view
      by (auto dest!: run' intro: update_draining [OF _ r(1)])
  qed (use c in simp_all)
  then show ?thesis by (simp add: lifecycle_apply_def run)
qed

text \<open>
  C24: once a daemon drains, nothing that it does itself ends the drain or starts enforcement again;
  only a new boot or the offline reset does.
\<close>

theorem draining_is_final:
  assumes "lifecycle_inv s" "draining s" "list_all of_instance cs"
  shows "draining (lifecycle_history cs s) \<and> \<not> enforcing (lifecycle_history cs s)"
proof -
  have "draining (lifecycle_history cs s) \<and> lifecycle_inv (lifecycle_history cs s)"
    using assms unfolding lifecycle_history_def
    by (induction cs arbitrary: s) (simp_all add: draining_kept lifecycle_apply_keeps)
  then show ?thesis using draining_not_enforcing by blast
qed

lemma drained_store:
  "lifecycle_inv (lifecycle_apply (Drain 1 ''i'' 7) ready_store)" "draining (lifecycle_apply (Drain 1 ''i'' 7) ready_store)"
  using lifecycle_apply_keeps [OF ready_store_wf(1)] by (blast, code_simp)

theorem draining_is_final_witness:
  "draining (lifecycle_history [Arm 1 ''i'' ''e'' 8, Disarm 1 ''i'' 9] (lifecycle_apply (Drain 1 ''i'' 7) ready_store))"
  using draining_is_final [OF drained_store, of "[Arm 1 ''i'' ''e'' 8, Disarm 1 ''i'' 9]"] by simp

end
