(* ===== verification/Store_Cooling.thy ===== *)
theory Store_Cooling
  imports Store_Lifecycle
begin

text \<open>
  The abandonment clock of \<open>crates/unlinger-daemon/src/store.rs\<close>: \<open>track_cooling\<close> keeps, for each tracking
  key, the first and the last observation of an uninterrupted series and answers whether the series
  spans the grace period. The specification is declarative: it looks for such a series in the log of
  what happened to the key.
\<close>

section \<open>Operations\<close>

record cooling_clock =
  cc_wall_unix_millis :: u64
  cc_continuous_millis :: u64
  cc_boot_session_fingerprint :: string
  cc_enforcement_epoch :: string

definition u64_try_from :: "int \<Rightarrow> int option" where
  "u64_try_from v = (if 0 \<le> v then Some v else None)"

definition wall_continuity_is_plausible :: "int \<Rightarrow> int \<Rightarrow> int \<Rightarrow> int \<Rightarrow> u64 \<Rightarrow> bool" where
  "wall_continuity_is_plausible wall previous_wall continuous previous_continuous tolerance_millis =
     (case u64_try_from (wall - previous_wall) of
        None \<Rightarrow> False
      | Some wall_gap \<Rightarrow>
          (case u64_try_from (continuous - previous_continuous) of
             None \<Rightarrow> False
           | Some continuous_gap \<Rightarrow> \<bar>wall_gap - continuous_gap\<bar> \<le> uint tolerance_millis))"

definition cooling_check :: "cooling_row \<Rightarrow> bool" where
  "cooling_check r =
     (0 \<le> cr_first_continuous r \<and> cr_first_continuous r \<le> cr_last_continuous r
      \<and> 0 \<le> cr_first_wall r \<and> 0 \<le> cr_last_wall r)"

definition continues_row :: "incident_report \<Rightarrow> cooling_clock \<Rightarrow> int \<Rightarrow> int \<Rightarrow> u64 \<Rightarrow> cooling_row \<Rightarrow> bool" where
  "continues_row report clock wall continuous gap r =
     (cr_root_identity_fingerprint r = root_identity_fingerprint (root report)
      \<and> cr_member_fingerprint r = member_fingerprint report
      \<and> cr_boot_session_fingerprint r = cc_boot_session_fingerprint clock
      \<and> cr_enforcement_epoch r = cc_enforcement_epoch clock
      \<and> cr_signature_pack r = signature_pack report
      \<and> cr_signature_version r = signature_version report
      \<and> cr_last_continuous r \<le> continuous \<and> cr_last_wall r \<le> wall
      \<and> (case u64_try_from (continuous - cr_last_continuous r) of None \<Rightarrow> False | Some g \<Rightarrow> g \<le> uint gap)
      \<and> wall_continuity_is_plausible wall (cr_last_wall r) continuous (cr_last_continuous r) gap)"

definition track_cooling :: "incident_report \<Rightarrow> cooling_clock \<Rightarrow> u64 \<Rightarrow> u64 \<Rightarrow> bool db" where
  "track_cooling report clock abandonment_grace_millis continuity_gap_millis =
     db_bind (db_require (state report = Cooling)
       (Invalid ''only COOLING incidents can advance abandonment grace'')) (\<lambda>_.
     db_bind (db_require (str_trim (cc_boot_session_fingerprint clock) \<noteq> [] \<and> str_trim (cc_enforcement_epoch clock) \<noteq> [])
       (Invalid ''cooling clock requires boot and enforcement epoch fingerprints'')) (\<lambda>_.
     db_bind (db_lift (sqlite_millis (cc_wall_unix_millis clock) ''cooling wall timestamp'')) (\<lambda>wall.
     db_bind (db_lift (sqlite_millis (cc_continuous_millis clock) ''cooling continuous timestamp'')) (\<lambda>continuous.
     db_bind (db_read (\<lambda>s. find (\<lambda>r. cr_tracking_key r = tracking_key report) (t_cooling s))) (\<lambda>existing.
     let firsts = (case existing of
           Some r \<Rightarrow> if continues_row report clock wall continuous continuity_gap_millis r
                    then (cr_first_continuous r, cr_first_wall r) else (continuous, wall)
         | None \<Rightarrow> (continuous, wall));
       row = \<lparr>cr_tracking_key = tracking_key report, cr_first_continuous = fst firsts,
         cr_last_continuous = continuous, cr_first_wall = snd firsts, cr_last_wall = wall,
         cr_root_identity_fingerprint = root_identity_fingerprint (root report),
         cr_member_fingerprint = member_fingerprint report,
         cr_boot_session_fingerprint = cc_boot_session_fingerprint clock,
         cr_enforcement_epoch = cc_enforcement_epoch clock,
         cr_signature_pack = signature_pack report, cr_signature_version = signature_version report\<rparr>
     in db_bind (db_constrained (\<lambda>s. cooling_check row)
          (\<lambda>s. s\<lparr>t_cooling := upsert (\<lambda>r. cr_tracking_key r = tracking_key report) (\<lambda>_. row) row (t_cooling s)\<rparr>)) (\<lambda>_.
        let elapsed = (case u64_try_from (continuous - fst firsts) of None \<Rightarrow> 0 | Some e \<Rightarrow> e)
        in db_return (uint abandonment_grace_millis \<le> elapsed)))))))"

definition retain_cooling :: "string list \<Rightarrow> unit db" where
  "retain_cooling active_tracking_keys =
     db_bind (db_read (\<lambda>s. map cr_tracking_key (t_cooling s))) (\<lambda>existing.
     db_each (\<lambda>key. if key \<in> set active_tracking_keys then db_return ()
       else db_write (\<lambda>s. s\<lparr>t_cooling := delete_where (\<lambda>r. cr_tracking_key r = key) (t_cooling s)\<rparr>)) existing)"

text \<open>The other deletions of cooling rows: of one key when a retry is authorised, of rows last seen before
  a cutoff by the pruning, of all rows by arming.\<close>

definition forget_cooling_key :: "string \<Rightarrow> unit db" where
  "forget_cooling_key key =
     db_write (\<lambda>s. s\<lparr>t_cooling := delete_where (\<lambda>r. cr_tracking_key r = key) (t_cooling s)\<rparr>)"

definition forget_cooling_before :: "int \<Rightarrow> unit db" where
  "forget_cooling_before cutoff =
     db_write (\<lambda>s. s\<lparr>t_cooling := delete_where (\<lambda>r. cr_last_wall r < cutoff) (t_cooling s)\<rparr>)"

definition forget_all_cooling :: "unit db" where
  "forget_all_cooling = db_write (\<lambda>s. s\<lparr>t_cooling := []\<rparr>)"

datatype cooling_command =
    Track incident_report cooling_clock u64 u64 | Retain "string list" | ForgetKey string
  | ForgetBefore int | ForgetAll

fun run_cooling :: "cooling_command \<Rightarrow> unit db" where
  "run_cooling (Track r c grace gap) = db_bind (track_cooling r c grace gap) (\<lambda>_. db_return ())"
| "run_cooling (Retain keys) = retain_cooling keys"
| "run_cooling (ForgetKey k) = forget_cooling_key k"
| "run_cooling (ForgetBefore t) = forget_cooling_before t"
| "run_cooling ForgetAll = forget_all_cooling"

definition cooling_apply :: "cooling_command \<Rightarrow> store \<Rightarrow> store" where
  "cooling_apply c s = (case run_cooling c s of Inl _ \<Rightarrow> s | Inr (_, s') \<Rightarrow> s')"

definition cooling_history :: "cooling_command list \<Rightarrow> store \<Rightarrow> store" where
  "cooling_history cs s = fold cooling_apply cs s"

section \<open>The specification\<close>

record sighting =
  sg_continuous :: int
  sg_wall :: int
  sg_subject :: "string \<times> string \<times> string \<times> string \<times> string \<times> string"

definition sighting_of :: "incident_report \<Rightarrow> cooling_clock \<Rightarrow> sighting" where
  "sighting_of r c = \<lparr>sg_continuous = uint (cc_continuous_millis c), sg_wall = uint (cc_wall_unix_millis c),
     sg_subject = (root_identity_fingerprint (root r), member_fingerprint r, cc_boot_session_fingerprint c,
       cc_enforcement_epoch c, signature_pack r, signature_version r)\<rparr>"

text \<open>Two sightings belong together: same root, members, boot session, epoch and signature; both clocks
  move forward, the continuous one by at most the gap, and they agree up to the gap.\<close>

definition joins :: "u64 \<Rightarrow> sighting \<Rightarrow> sighting \<Rightarrow> bool" where
  "joins gap a b \<longleftrightarrow> sg_subject a = sg_subject b \<and> sg_continuous a \<le> sg_continuous b \<and> sg_wall a \<le> sg_wall b
     \<and> sg_continuous b - sg_continuous a \<le> uint gap
     \<and> \<bar>(sg_wall b - sg_wall a) - (sg_continuous b - sg_continuous a)\<bar> \<le> uint gap"

datatype cooling_event = Seen sighting u64 | Lost | Aged int

definition trackable :: "incident_report \<Rightarrow> cooling_clock \<Rightarrow> bool" where
  "trackable r c \<longleftrightarrow> state r = Cooling \<and> str_trim (cc_boot_session_fingerprint c) \<noteq> []
     \<and> str_trim (cc_enforcement_epoch c) \<noteq> []
     \<and> uint (cc_wall_unix_millis c) < 2 ^ 63 \<and> uint (cc_continuous_millis c) < 2 ^ 63"

fun cooling_events :: "string \<Rightarrow> cooling_command \<Rightarrow> cooling_event list" where
  "cooling_events k (Track r c grace gap) =
     (if tracking_key r = k \<and> trackable r c then [Seen (sighting_of r c) gap] else [])"
| "cooling_events k (Retain keys) = (if k \<in> set keys then [] else [Lost])"
| "cooling_events k (ForgetKey k') = (if k = k' then [Lost] else [])"
| "cooling_events k (ForgetBefore t) = [Aged t]"
| "cooling_events k ForgetAll = [Lost]"

definition cooling_log :: "string \<Rightarrow> cooling_command list \<Rightarrow> cooling_event list" where
  "cooling_log k cs = concat (map (cooling_events k) cs)"

text \<open>The events after a sighting continue it without a break.\<close>

fun unbroken_from :: "sighting \<Rightarrow> cooling_event list \<Rightarrow> bool" where
  "unbroken_from a [] = True"
| "unbroken_from a (Seen b gap # es) = (joins gap a b \<and> unbroken_from b es)"
| "unbroken_from a (Lost # es) = False"
| "unbroken_from a (Aged t # es) = (t \<le> sg_wall a \<and> unbroken_from a es)"

definition series_start :: "cooling_event list \<Rightarrow> sighting \<Rightarrow> bool" where
  "series_start log a \<longleftrightarrow> (\<exists>pre gap es. log = pre @ Seen a gap # es \<and> unbroken_from a es)"

section \<open>The longest series\<close>

fun streak_step :: "cooling_event \<Rightarrow> (sighting \<times> sighting) option \<Rightarrow> (sighting \<times> sighting) option" where
  "streak_step (Seen b gap) None = Some (b, b)"
| "streak_step (Seen b gap) (Some (f, l)) = (if joins gap l b then Some (f, b) else Some (b, b))"
| "streak_step Lost _ = None"
| "streak_step (Aged t) None = None"
| "streak_step (Aged t) (Some (f, l)) = (if sg_wall l < t then None else Some (f, l))"

definition streak :: "cooling_event list \<Rightarrow> (sighting \<times> sighting) option" where
  "streak log = fold streak_step log None"

fun last_seen :: "sighting \<Rightarrow> cooling_event list \<Rightarrow> sighting" where
  "last_seen a [] = a"
| "last_seen a (Seen b _ # es) = last_seen b es"
| "last_seen a (_ # es) = last_seen a es"

lemma streak_snoc: "streak (log @ [e]) = streak_step e (streak log)"
  by (simp add: streak_def)

lemma streak_ordered: "streak log = Some (f, l) \<Longrightarrow> sg_continuous f \<le> sg_continuous l"
proof (induction log arbitrary: f l rule: rev_induct)
  case (snoc e log)
  show ?case
  proof (cases "streak log")
    case None
    with snoc.prems show ?thesis by (cases e) (auto simp: streak_snoc)
  next
    case (Some p)
    then obtain f' l' where p: "streak log = Some (f', l')" by (cases p) auto
    show ?thesis
    proof (cases e)
      case (Seen b gap)
      with snoc.prems snoc.IH [OF p] p show ?thesis by (auto simp: streak_snoc joins_def split: if_splits)
    qed (use snoc.prems snoc.IH [OF p] p in \<open>auto simp: streak_snoc split: if_splits\<close>)
  qed
qed (simp add: streak_def)

lemma unbroken_snoc:
  "unbroken_from a (es @ [e]) \<longleftrightarrow> unbroken_from a es \<and>
     (case e of Seen b gap \<Rightarrow> joins gap (last_seen a es) b | Lost \<Rightarrow> False | Aged t \<Rightarrow> t \<le> sg_wall (last_seen a es))"
  by (induction a es rule: unbroken_from.induct) (auto split: cooling_event.splits)

lemma last_seen_snoc:
  "last_seen a (es @ [e]) = (case e of Seen b gap \<Rightarrow> b | _ \<Rightarrow> last_seen a es)"
  by (induction a es rule: last_seen.induct) (auto split: cooling_event.splits)

lemma streak_series:
  "streak log = Some (f, l) \<Longrightarrow> \<exists>pre gap es. log = pre @ Seen f gap # es \<and> unbroken_from f es \<and> l = last_seen f es"
proof (induction log arbitrary: f l rule: rev_induct)
  case (snoc e log)
  have alone: "\<exists>pre g es. log @ [Seen b gap] = pre @ Seen b g # es \<and> unbroken_from b es \<and> b = last_seen b es" for b gap
    by (rule exI [of _ log]) auto
  show ?case
  proof (cases "\<exists>b gap. e = Seen b gap \<and> f = b \<and> l = b")
    case True
    then show ?thesis using alone by auto
  next
    case False
    with snoc.prems obtain l' where p: "streak log = Some (f, l')" and
      e: "(\<exists>b gap. e = Seen b gap \<and> joins gap l' b \<and> l = b) \<or> (\<exists>t. e = Aged t \<and> t \<le> sg_wall l' \<and> l = l')"
      by (cases e; cases "streak log") (auto simp: streak_snoc split: if_splits)
    from snoc.IH [OF p] obtain pre gap es where ser: "log = pre @ Seen f gap # es" "unbroken_from f es" "l' = last_seen f es"
      by blast
    have "log @ [e] = pre @ Seen f gap # (es @ [e]) \<and> unbroken_from f (es @ [e]) \<and> l = last_seen f (es @ [e])"
      using e ser by (auto simp: unbroken_snoc last_seen_snoc)
    then show ?thesis by blast
  qed
qed (simp add: streak_def)

lemma streak_from:
  "unbroken_from l es \<Longrightarrow> fold streak_step es (Some (f, l)) = Some (f, last_seen l es)"
  by (induction l es rule: unbroken_from.induct) auto

lemma series_in_streak:
  assumes "series_start log a"
  shows "\<exists>f l. streak log = Some (f, l) \<and> sg_continuous f \<le> sg_continuous a"
proof -
  from assms obtain pre gap es where log: "log = pre @ Seen a gap # es" and es: "unbroken_from a es"
    by (auto simp: series_start_def)
  have "\<exists>f. streak (pre @ [Seen a gap]) = Some (f, a)"
    by (cases "streak pre") (auto simp: streak_snoc)
  then obtain f where f: "streak (pre @ [Seen a gap]) = Some (f, a)" by blast
  have "streak log = fold streak_step es (streak (pre @ [Seen a gap]))" by (simp add: log streak_def)
  with f es show ?thesis using streak_ordered [OF f] by (auto simp: streak_from)
qed

lemma grace_exact:
  assumes "streak log = Some (f, l)"
  shows "d \<le> sg_continuous l - sg_continuous f \<longleftrightarrow> (\<exists>a. series_start log a \<and> d \<le> sg_continuous l - sg_continuous a)"
proof
  assume "d \<le> sg_continuous l - sg_continuous f"
  moreover have "series_start log f" using streak_series [OF assms] by (auto simp: series_start_def)
  ultimately show "\<exists>a. series_start log a \<and> d \<le> sg_continuous l - sg_continuous a" by blast
next
  assume "\<exists>a. series_start log a \<and> d \<le> sg_continuous l - sg_continuous a"
  then obtain a where "series_start log a" "d \<le> sg_continuous l - sg_continuous a" by blast
  with series_in_streak [of log a] assms show "d \<le> sg_continuous l - sg_continuous f" by auto
qed

section \<open>The table implements the specification\<close>

definition cooling_lookup :: "string \<Rightarrow> store \<Rightarrow> cooling_row option" where
  "cooling_lookup k s = find (\<lambda>r. cr_tracking_key r = k) (t_cooling s)"

definition streak_row :: "string \<Rightarrow> sighting \<times> sighting \<Rightarrow> cooling_row" where
  "streak_row k p = (case p of (f, l) \<Rightarrow> (case sg_subject l of (rid, mem, boot, ep, pk, ver) \<Rightarrow>
     \<lparr>cr_tracking_key = k, cr_first_continuous = sg_continuous f, cr_last_continuous = sg_continuous l,
      cr_first_wall = sg_wall f, cr_last_wall = sg_wall l,
      cr_root_identity_fingerprint = rid, cr_member_fingerprint = mem,
      cr_boot_session_fingerprint = boot, cr_enforcement_epoch = ep,
      cr_signature_pack = pk, cr_signature_version = ver\<rparr>))"


lemma find_update_where:
  "find (\<lambda>r. k r = x) (update_where (\<lambda>r. k r = y) (\<lambda>_. row) rows) =
     (if x = k row \<and> k row = y \<and> find (\<lambda>r. k r = y) rows \<noteq> None then Some row else find (\<lambda>r. k r = x) rows)"
  if "k row = y"
  using that by (induction rows) (auto simp: update_where_def)

lemma lookup_upsert:
  assumes "k row = y"
  shows "find (\<lambda>r. k r = x) (upsert (\<lambda>r. k r = y) (\<lambda>_. row) row rows) =
     (if x = y then Some row else find (\<lambda>r. k r = x) rows)"
proof (cases "list_ex (\<lambda>r. k r = y) rows")
  case True
  then have "find (\<lambda>r. k r = y) rows \<noteq> None" by (auto simp: find_None_iff list_ex_iff)
  then show ?thesis using True assms by (simp add: upsert_def find_update_where)
next
  case False
  then have "find (\<lambda>r. k r = y) rows = None" by (auto simp: find_None_iff list_ex_iff)
  then show ?thesis using False assms by (induction rows) (auto simp: upsert_def)
qed

lemma lookup_delete:
  "find (\<lambda>r. k r = x) (delete_where (\<lambda>r. k r = y) rows) = (if x = y then None else find (\<lambda>r. k r = x) rows)"
  by (induction rows) (auto simp: delete_where_def)

lemma lookup_retain:
  "db_each (\<lambda>key. if key \<in> A then db_return ()
       else db_write (\<lambda>s. s\<lparr>t_cooling := delete_where (\<lambda>r. cr_tracking_key r = key) (t_cooling s)\<rparr>)) keys s =
     Inr ((), s\<lparr>t_cooling := filter (\<lambda>r. cr_tracking_key r \<notin> set keys - A) (t_cooling s)\<rparr>)"
proof (induction keys arbitrary: s)
  case (Cons k keys)
  show ?case
    by (auto simp: db_ops Cons delete_where_def intro!: arg_cong [where f = "\<lambda>c. t_cooling_update (\<lambda>_. c) s"] filter_cong)
qed (simp add: db_ops)


lemma lookup_prune:
  assumes "distinct (map k rows)"
  shows "find (\<lambda>r. k r = x) (delete_where P rows) =
     (case find (\<lambda>r. k r = x) rows of None \<Rightarrow> None | Some r \<Rightarrow> if P r then None else Some r)"
  using assms
proof (induction rows)
  case (Cons r rows)
  have "\<not> (\<exists>q. q \<in> set rows \<and> k q = k r)" using Cons.prems by (metis distinct.simps(2) image_eqI list.simps(9) set_map)
  then have "find (\<lambda>q. k q = x) rows = None" if "k r = x" using that by (simp add: find_None_iff)
  with Cons show ?case by (auto simp: delete_where_def)
qed (simp add: delete_where_def)

lemma upsert_distinct:
  assumes "distinct (map k rows)" "k row = y"
  shows "distinct (map k (upsert (\<lambda>r. k r = y) (\<lambda>_. row) row rows))"
proof -
  have "map k (update_where (\<lambda>r. k r = y) (\<lambda>_. row) rows) = map k rows"
    by (rule map_update_where) (simp add: assms)
  then show ?thesis using assms by (auto simp: upsert_def list_ex_iff)
qed

lemma upsert_all:
  assumes "list_all Q rows" "Q row"
  shows "list_all Q (upsert P (\<lambda>_. row) row rows)"
  using assms by (auto simp: upsert_def update_where_def list_all_iff)

definition cooling_inv :: "store \<Rightarrow> bool" where
  "cooling_inv s \<longleftrightarrow> distinct (map cr_tracking_key (t_cooling s)) \<and> list_all cooling_check (t_cooling s)"

lemma streak_row_simps [simp]:
  "cr_tracking_key (streak_row k p) = k" "cr_first_continuous (streak_row k (f, l)) = sg_continuous f"
  "cr_last_continuous (streak_row k (f, l)) = sg_continuous l" "cr_first_wall (streak_row k (f, l)) = sg_wall f"
  "cr_last_wall (streak_row k (f, l)) = sg_wall l"
  by (simp_all add: streak_row_def split: prod.splits)

lemma continues_row_streak:
  "continues_row r c (sg_wall (sighting_of r c)) (sg_continuous (sighting_of r c)) gap (streak_row k (f, l)) \<longleftrightarrow>
     joins gap l (sighting_of r c)"
  by (cases "sg_subject l")
     (auto simp: continues_row_def joins_def streak_row_def sighting_of_def wall_continuity_is_plausible_def u64_try_from_def)

lemma tracked_row:
  "streak_row (tracking_key r) (f, sighting_of r c) =
     \<lparr>cr_tracking_key = tracking_key r, cr_first_continuous = sg_continuous f,
      cr_last_continuous = uint (cc_continuous_millis c), cr_first_wall = sg_wall f,
      cr_last_wall = uint (cc_wall_unix_millis c),
      cr_root_identity_fingerprint = root_identity_fingerprint (root r),
      cr_member_fingerprint = member_fingerprint r,
      cr_boot_session_fingerprint = cc_boot_session_fingerprint c,
      cr_enforcement_epoch = cc_enforcement_epoch c,
      cr_signature_pack = signature_pack r, cr_signature_version = signature_version r\<rparr>"
  by (simp add: streak_row_def sighting_of_def)

lemma track_cooling_rejects:
  assumes "\<not> trackable r c"
  shows "\<exists>e. track_cooling r c grace gap s = Inl e"
  using assms by (auto simp: track_cooling_def trackable_def db_ops sqlite_millis_def i64_try_from_def Let_def)

lemma track_cooling_effect:
  assumes inv: "cooling_inv s" and ok: "trackable r c"
    and look: "cooling_lookup (tracking_key r) s = map_option (streak_row (tracking_key r)) st"
  obtains f where "streak_step (Seen (sighting_of r c) gap) st = Some (f, sighting_of r c)"
    "cooling_check (streak_row (tracking_key r) (f, sighting_of r c))"
    "track_cooling r c grace gap s =
       Inr (uint grace \<le> sg_continuous (sighting_of r c) - sg_continuous f,
         s\<lparr>t_cooling := upsert (\<lambda>q. cr_tracking_key q = tracking_key r) (\<lambda>_. streak_row (tracking_key r) (f, sighting_of r c))
              (streak_row (tracking_key r) (f, sighting_of r c)) (t_cooling s)\<rparr>)"
proof -
  let ?g = "sighting_of r c"
  let ?x = "find (\<lambda>q. cr_tracking_key q = tracking_key r) (t_cooling s)"
  define f where "f = (case st of None \<Rightarrow> ?g | Some (f, l) \<Rightarrow> if joins gap l ?g then f else ?g)"
  have step: "streak_step (Seen ?g gap) st = Some (f, ?g)" by (auto simp: f_def split: option.splits)
  have row: "cooling_check q" if "?x = Some q" for q
    using inv that by (auto simp: cooling_inv_def list_all_iff dest: find_SomeD)
  have first: "0 \<le> sg_continuous f \<and> sg_continuous f \<le> sg_continuous ?g \<and> 0 \<le> sg_wall f"
  proof (cases st)
    case None
    then show ?thesis by (simp add: f_def sighting_of_def)
  next
    case (Some p)
    then obtain a l where p: "st = Some (a, l)" by (cases p) auto
    then have "cooling_check (streak_row (tracking_key r) (a, l))" using look row by (simp add: cooling_lookup_def)
    then show ?thesis by (auto simp: p f_def cooling_check_def joins_def sighting_of_def)
  qed
  then have check: "cooling_check (streak_row (tracking_key r) (f, ?g))"
    by (simp add: cooling_check_def) (simp add: sighting_of_def)
  have clock: "sg_continuous ?g = uint (cc_continuous_millis c)" "sg_wall ?g = uint (cc_wall_unix_millis c)"
    by (simp_all add: sighting_of_def)
  have firsts: "(case ?x of
           Some q \<Rightarrow> if continues_row r c (uint (cc_wall_unix_millis c)) (uint (cc_continuous_millis c)) gap q
                    then (cr_first_continuous q, cr_first_wall q)
                    else (uint (cc_continuous_millis c), uint (cc_wall_unix_millis c))
         | None \<Rightarrow> (uint (cc_continuous_millis c), uint (cc_wall_unix_millis c))) = (sg_continuous f, sg_wall f)"
    using look continues_row_streak [of r c gap "tracking_key r"]
    by (auto simp: cooling_lookup_def f_def clock split: option.splits)
  have millis: "sqlite_millis (cc_wall_unix_millis c) l = Inr (uint (cc_wall_unix_millis c))"
      "sqlite_millis (cc_continuous_millis c) l = Inr (uint (cc_continuous_millis c))" for l
    using ok by (simp_all add: sqlite_millis_Inr trackable_def)
  have "track_cooling r c grace gap s =
       Inr (uint grace \<le> sg_continuous ?g - sg_continuous f,
         s\<lparr>t_cooling := upsert (\<lambda>q. cr_tracking_key q = tracking_key r) (\<lambda>_. streak_row (tracking_key r) (f, ?g))
              (streak_row (tracking_key r) (f, ?g)) (t_cooling s)\<rparr>)"
    using ok first check
    by (simp add: track_cooling_def db_ops trackable_def millis firsts tracked_row u64_try_from_def clock Let_def)
  with that step check show ?thesis by blast
qed


text \<open>Every command keeps the invariant and acts on the looked-up row as its events act on the series.\<close>

definition cooling_refines :: "string \<Rightarrow> store \<Rightarrow> (sighting \<times> sighting) option \<Rightarrow> bool" where
  "cooling_refines k s st \<longleftrightarrow> cooling_lookup k s = map_option (streak_row k) st"

lemma cooling_apply_track:
  assumes inv: "cooling_inv s" and ref: "cooling_refines k s st"
  shows "cooling_inv (cooling_apply (Track r c grace gap) s) \<and>
    cooling_refines k (cooling_apply (Track r c grace gap) s) (fold streak_step (cooling_events k (Track r c grace gap)) st)"
proof (cases "trackable r c")
  case False
  with track_cooling_rejects [OF this, of grace gap s] inv ref show ?thesis
    by (auto simp: cooling_apply_def db_bind_def)
next
  case True
  let ?k = "tracking_key r"
  define st' where "st' = (if k = ?k then st else
    map_option (\<lambda>q. (\<lparr>sg_continuous = cr_first_continuous q, sg_wall = cr_first_wall q, sg_subject = undefined\<rparr>,
        \<lparr>sg_continuous = cr_last_continuous q, sg_wall = cr_last_wall q,
         sg_subject = (cr_root_identity_fingerprint q, cr_member_fingerprint q, cr_boot_session_fingerprint q,
            cr_enforcement_epoch q, cr_signature_pack q, cr_signature_version q)\<rparr>)) (cooling_lookup ?k s))"
  have "cooling_lookup ?k s = map_option (streak_row ?k) st'"
  proof (cases "k = ?k")
    case True
    then show ?thesis using ref by (simp add: st'_def cooling_refines_def)
  next
    case False
    show ?thesis
    proof (cases "cooling_lookup ?k s")
      case (Some q)
      then have "cr_tracking_key q = ?k" by (auto simp: cooling_lookup_def dest: find_SomeD)
      then show ?thesis using False Some by (simp add: st'_def streak_row_def)
    qed (use False in \<open>simp add: st'_def\<close>)
  qed
  from track_cooling_effect [OF inv True this, of gap grace] obtain f where
    step: "streak_step (Seen (sighting_of r c) gap) st' = Some (f, sighting_of r c)"
    and check: "cooling_check (streak_row ?k (f, sighting_of r c))"
    and run: "track_cooling r c grace gap s =
       Inr (uint grace \<le> sg_continuous (sighting_of r c) - sg_continuous f,
         s\<lparr>t_cooling := upsert (\<lambda>q. cr_tracking_key q = ?k) (\<lambda>_. streak_row ?k (f, sighting_of r c))
              (streak_row ?k (f, sighting_of r c)) (t_cooling s)\<rparr>)" by blast
  have eff: "cooling_apply (Track r c grace gap) s =
      s\<lparr>t_cooling := upsert (\<lambda>q. cr_tracking_key q = ?k) (\<lambda>_. streak_row ?k (f, sighting_of r c))
              (streak_row ?k (f, sighting_of r c)) (t_cooling s)\<rparr>"
    by (simp add: cooling_apply_def run db_ops)
  have "cooling_inv (cooling_apply (Track r c grace gap) s)"
    using inv check by (simp add: eff cooling_inv_def upsert_distinct upsert_all)
  moreover have "cooling_refines k (cooling_apply (Track r c grace gap) s) (fold streak_step (cooling_events k (Track r c grace gap)) st)"
    using ref step True
    by (auto simp: eff cooling_refines_def cooling_lookup_def lookup_upsert st'_def split: if_splits)
  ultimately show ?thesis by blast
qed

lemma cooling_inv_filter: "cooling_inv s \<Longrightarrow> cooling_inv (s\<lparr>t_cooling := filter P (t_cooling s)\<rparr>)"
  by (auto simp: cooling_inv_def distinct_map_filter list_all_iff)

lemma find_filter_key:
  "find (\<lambda>r. k r = x) (filter (\<lambda>r. Q (k r)) rows) = (if Q x then find (\<lambda>r. k r = x) rows else None)"
  by (induction rows) auto

lemma cooling_apply_refines:
  assumes inv: "cooling_inv s" and ref: "cooling_refines k s st"
  shows "cooling_inv (cooling_apply cmd s) \<and>
    cooling_refines k (cooling_apply cmd s) (fold streak_step (cooling_events k cmd) st)"
proof (cases cmd)
  case (Track r c grace gap)
  then show ?thesis using cooling_apply_track [OF inv ref] by blast
next
  case (Retain keys)
  have eff: "cooling_apply cmd s =
      s\<lparr>t_cooling := filter (\<lambda>r. cr_tracking_key r \<in> set keys) (t_cooling s)\<rparr>"
  proof -
    have "filter (\<lambda>r. cr_tracking_key r \<notin> set (map cr_tracking_key (t_cooling s)) - set keys) (t_cooling s) =
        filter (\<lambda>r. cr_tracking_key r \<in> set keys) (t_cooling s)" by (rule filter_cong) auto
    then show ?thesis
      unfolding Retain cooling_apply_def run_cooling.simps retain_cooling_def db_bind_def db_read_def
      by (simp only: sum.case prod.case lookup_retain)
  qed
  show ?thesis
    unfolding eff using cooling_inv_filter [OF inv] ref
    by (auto simp: Retain cooling_refines_def cooling_lookup_def find_filter_key [where Q = "\<lambda>y. y \<in> set keys"])
next
  case (ForgetKey k')
  have eff: "cooling_apply cmd s = s\<lparr>t_cooling := filter (\<lambda>r. cr_tracking_key r \<noteq> k') (t_cooling s)\<rparr>"
    by (simp add: ForgetKey cooling_apply_def forget_cooling_key_def db_write_def delete_where_def)
  show ?thesis
    unfolding eff using cooling_inv_filter [OF inv] ref
    by (auto simp: ForgetKey cooling_refines_def cooling_lookup_def find_filter_key [where Q = "\<lambda>y. y \<noteq> k'"])
next
  case (ForgetBefore t)
  have eff: "cooling_apply cmd s = s\<lparr>t_cooling := delete_where (\<lambda>r. cr_last_wall r < t) (t_cooling s)\<rparr>"
    by (simp add: ForgetBefore cooling_apply_def forget_cooling_before_def db_write_def)
  have "cooling_inv (s\<lparr>t_cooling := delete_where (\<lambda>r. cr_last_wall r < t) (t_cooling s)\<rparr>)"
    unfolding delete_where_def by (rule cooling_inv_filter [OF inv])
  moreover have "distinct (map cr_tracking_key (t_cooling s))" using inv by (simp add: cooling_inv_def)
  ultimately show ?thesis
    unfolding eff using ref
    by (cases st) (auto simp: ForgetBefore cooling_refines_def cooling_lookup_def lookup_prune)
next
  case ForgetAll
  then show ?thesis
    by (simp add: cooling_apply_def forget_all_cooling_def db_write_def cooling_inv_def cooling_refines_def cooling_lookup_def)
qed

lemma cooling_history_refines:
  assumes "cooling_inv s" "cooling_refines k s (streak pre)"
  shows "cooling_inv (cooling_history cs s) \<and> cooling_refines k (cooling_history cs s) (streak (pre @ cooling_log k cs))"
  using assms
proof (induction cs arbitrary: s pre)
  case Nil
  then show ?case by (simp add: cooling_history_def cooling_log_def)
next
  case (Cons c cs)
  have "cooling_refines k (cooling_apply c s) (streak (pre @ cooling_events k c))" "cooling_inv (cooling_apply c s)"
    using cooling_apply_refines [OF Cons.prems] by (simp_all add: streak_def)
  from Cons.IH [OF this(2,1)] show ?case by (simp add: cooling_history_def cooling_log_def)
qed

text \<open>
  C22: the answer of the abandonment clock. After any history of observations, retentions, prunings and
  resets, tracking an incident answers that it is abandoned exactly when the log of its tracking key
  holds a series of sightings of the same root, members, boot session, enforcement epoch and signature,
  none of whose gaps exceeds the continuity gap in force and whose clocks agree, that runs up to this
  sighting and spans the grace period; it is refused exactly when the report is not cooling or the clock
  is blank or out of range.
\<close>

theorem abandonment_exact:
  "case track_cooling r c grace gap (cooling_history cs (s\<lparr>t_cooling := []\<rparr>)) of
     Inl _ \<Rightarrow> \<not> trackable r c
   | Inr (abandoned, _) \<Rightarrow> trackable r c \<and>
       (abandoned \<longleftrightarrow> (\<exists>a. series_start (cooling_log (tracking_key r) (cs @ [Track r c grace gap])) a
          \<and> uint grace \<le> uint (cc_continuous_millis c) - sg_continuous a))"
proof -
  let ?s = "cooling_history cs (s\<lparr>t_cooling := []\<rparr>)"
  let ?k = "tracking_key r"
  have "cooling_inv ?s \<and> cooling_refines ?k ?s (streak ([] @ cooling_log ?k cs))"
    by (rule cooling_history_refines) (simp_all add: cooling_inv_def cooling_refines_def cooling_lookup_def streak_def)
  then have inv: "cooling_inv ?s" and look: "cooling_lookup ?k ?s = map_option (streak_row ?k) (streak (cooling_log ?k cs))"
    by (simp_all add: cooling_refines_def)
  show ?thesis
  proof (cases "trackable r c")
    case False
    with track_cooling_rejects [OF this, of grace gap ?s] show ?thesis by auto
  next
    case True
    from track_cooling_effect [OF inv True look, of gap grace] obtain f s' where
      step: "streak_step (Seen (sighting_of r c) gap) (streak (cooling_log ?k cs)) = Some (f, sighting_of r c)"
      and run: "track_cooling r c grace gap ?s = Inr (uint grace \<le> sg_continuous (sighting_of r c) - sg_continuous f, s')"
      by blast
    have "streak (cooling_log ?k (cs @ [Track r c grace gap])) = Some (f, sighting_of r c)"
      using step True by (simp add: cooling_log_def streak_def)
    from grace_exact [OF this, of "uint grace"] run True show ?thesis by (simp add: sighting_of_def)
  qed
qed

end
