(* ===== verification/Store_Names.thy ===== *)
theory Store_Names
  imports Store_Base
begin

text \<open>
  The words in which \<open>crates/unlinger-daemon/src/store.rs\<close> writes its enumerations into text columns, and
  their parsers. A parser that meets any other word reports corruption.
\<close>

datatype event_kind = ObservationEvent | CleanupEvent

fun event_kind_as_str :: "event_kind \<Rightarrow> string" where
  "event_kind_as_str ObservationEvent = ''observation''"
| "event_kind_as_str CleanupEvent = ''cleanup''"

definition event_kind_parse :: "string \<Rightarrow> store_error + event_kind" where
  "event_kind_parse value =
     (if value = ''observation'' then Inr ObservationEvent
      else if value = ''cleanup'' then Inr CleanupEvent
      else Inl (Corrupt ''unknown history event kind''))"

fun cleanup_stage_name :: "cleanup_stage \<Rightarrow> string" where
  "cleanup_stage_name PrimaryTerm = ''primary_term''"
| "cleanup_stage_name MemberTerm = ''member_term''"
| "cleanup_stage_name ExactKill = ''exact_kill''"

definition parse_cleanup_stage :: "string \<Rightarrow> store_error + cleanup_stage" where
  "parse_cleanup_stage value =
     (if value = ''primary_term'' then Inr PrimaryTerm
      else if value = ''member_term'' then Inr MemberTerm
      else if value = ''exact_kill'' then Inr ExactKill
      else Inl (Corrupt ''unknown cleanup stage''))"

fun cleanup_signal_name :: "cleanup_signal \<Rightarrow> string" where
  "cleanup_signal_name Term = ''term''"
| "cleanup_signal_name Kill = ''kill''"

definition parse_cleanup_signal :: "string \<Rightarrow> store_error + cleanup_signal" where
  "parse_cleanup_signal value =
     (if value = ''term'' then Inr Term
      else if value = ''kill'' then Inr Kill
      else Inl (Corrupt ''unknown cleanup signal''))"

fun signal_disposition_name :: "signal_disposition \<Rightarrow> string" where
  "signal_disposition_name Delivered = ''delivered''"
| "signal_disposition_name AlreadyExited = ''already_exited''"
| "signal_disposition_name IdentityMismatch = ''identity_mismatch''"
| "signal_disposition_name Rejected = ''rejected''"
| "signal_disposition_name CancelledBeforeDelivery = ''cancelled_before_delivery''"
| "signal_disposition_name DeliveryUnknown = ''delivery_unknown''"

definition parse_signal_disposition :: "string \<Rightarrow> store_error + signal_disposition" where
  "parse_signal_disposition value =
     (if value = ''delivered'' then Inr Delivered
      else if value = ''already_exited'' then Inr AlreadyExited
      else if value = ''identity_mismatch'' then Inr IdentityMismatch
      else if value = ''rejected'' then Inr Rejected
      else if value = ''cancelled_before_delivery'' then Inr CancelledBeforeDelivery
      else if value = ''delivery_unknown'' then Inr DeliveryUnknown
      else Inl (Corrupt ''unknown signal disposition''))"

fun runtime_artifact_kind_name :: "runtime_artifact_kind \<Rightarrow> string" where
  "runtime_artifact_kind_name DevToolsActivePort = ''dev_tools_active_port''"

definition parse_runtime_artifact_kind :: "string \<Rightarrow> store_error + runtime_artifact_kind" where
  "parse_runtime_artifact_kind value =
     (if value = ''dev_tools_active_port'' then Inr DevToolsActivePort
      else Inl (Corrupt ''unknown runtime artifact kind''))"

fun artifact_disposition_name :: "artifact_disposition \<Rightarrow> string" where
  "artifact_disposition_name Removed = ''removed''"
| "artifact_disposition_name AlreadyAbsent = ''already_absent''"
| "artifact_disposition_name ArtifactIdentityMismatch = ''identity_mismatch''"
| "artifact_disposition_name Referenced = ''referenced''"
| "artifact_disposition_name Unsafe = ''unsafe''"
| "artifact_disposition_name ArtifactRejected = ''rejected''"
| "artifact_disposition_name ArtifactCancelledBeforeDelivery = ''cancelled_before_delivery''"
| "artifact_disposition_name ArtifactDeliveryUnknown = ''delivery_unknown''"

definition parse_artifact_disposition :: "string \<Rightarrow> store_error + artifact_disposition" where
  "parse_artifact_disposition value =
     (if value = ''removed'' then Inr Removed
      else if value = ''already_absent'' then Inr AlreadyAbsent
      else if value = ''identity_mismatch'' then Inr ArtifactIdentityMismatch
      else if value = ''referenced'' then Inr Referenced
      else if value = ''unsafe'' then Inr Unsafe
      else if value = ''rejected'' then Inr ArtifactRejected
      else if value = ''cancelled_before_delivery'' then Inr ArtifactCancelledBeforeDelivery
      else if value = ''delivery_unknown'' then Inr ArtifactDeliveryUnknown
      else Inl (Corrupt ''unknown artifact disposition''))"

fun process_outcome_name :: "process_outcome \<Rightarrow> string" where
  "process_outcome_name ProcessCleared = ''cleared''"
| "process_outcome_name ProcessRevived = ''revived''"
| "process_outcome_name ProcessFailed = ''failed''"
| "process_outcome_name ProcessDeliveryUnknown = ''delivery_unknown''"

definition parse_process_outcome :: "string \<Rightarrow> store_error + process_outcome" where
  "parse_process_outcome value =
     (if value = ''cleared'' then Inr ProcessCleared
      else if value = ''revived'' then Inr ProcessRevived
      else if value = ''failed'' then Inr ProcessFailed
      else if value = ''delivery_unknown'' then Inr ProcessDeliveryUnknown
      else Inl (Corrupt ''unknown process outcome''))"

fun artifact_outcome_name :: "artifact_outcome \<Rightarrow> string" where
  "artifact_outcome_name NotApplicable = ''not_applicable''"
| "artifact_outcome_name Reconciled = ''reconciled''"
| "artifact_outcome_name Residue = ''residue''"
| "artifact_outcome_name ArtifactUnknown = ''delivery_unknown''"

definition parse_artifact_outcome :: "string \<Rightarrow> store_error + artifact_outcome" where
  "parse_artifact_outcome value =
     (if value = ''not_applicable'' then Inr NotApplicable
      else if value = ''reconciled'' then Inr Reconciled
      else if value = ''residue'' then Inr Residue
      else if value = ''delivery_unknown'' then Inr ArtifactUnknown
      else Inl (Corrupt ''unknown artifact outcome''))"

fun overall_outcome_name :: "overall_outcome \<Rightarrow> string" where
  "overall_outcome_name OverallCleared = ''cleared''"
| "overall_outcome_name ClearedWithResidue = ''cleared_with_residue''"
| "overall_outcome_name OverallRevived = ''revived''"
| "overall_outcome_name OverallFailed = ''failed''"

definition parse_overall_outcome :: "string \<Rightarrow> store_error + overall_outcome" where
  "parse_overall_outcome value =
     (if value = ''cleared'' then Inr OverallCleared
      else if value = ''cleared_with_residue'' then Inr ClearedWithResidue
      else if value = ''revived'' then Inr OverallRevived
      else if value = ''failed'' then Inr OverallFailed
      else Inl (Corrupt ''unknown overall outcome''))"

fun state_name :: "incident_state \<Rightarrow> string" where
  "state_name Protected = ''PROTECTED''"
| "state_name Active = ''ACTIVE''"
| "state_name Cooling = ''COOLING''"
| "state_name Confirmed = ''CONFIRMED''"
| "state_name Ambiguous = ''AMBIGUOUS''"
| "state_name Reclaiming = ''RECLAIMING''"
| "state_name Cleared = ''CLEARED''"
| "state_name Revived = ''REVIVED''"
| "state_name Failed = ''FAILED''"

definition parse_state :: "string \<Rightarrow> store_error + incident_state" where
  "parse_state value =
     (if value = ''PROTECTED'' then Inr Protected
      else if value = ''ACTIVE'' then Inr Active
      else if value = ''COOLING'' then Inr Cooling
      else if value = ''CONFIRMED'' then Inr Confirmed
      else if value = ''AMBIGUOUS'' then Inr Ambiguous
      else if value = ''RECLAIMING'' then Inr Reclaiming
      else if value = ''CLEARED'' then Inr Cleared
      else if value = ''REVIVED'' then Inr Revived
      else if value = ''FAILED'' then Inr Failed
      else Inl (Corrupt ''unknown incident state''))"

fun payload_kind :: "event_payload \<Rightarrow> event_kind" where
  "payload_kind (ObservationPayload _) = ObservationEvent"
| "payload_kind (CleanupPayload _) = CleanupEvent"

fun payload_state :: "event_payload \<Rightarrow> incident_state" where
  "payload_state (ObservationPayload report) = ob_state report"
| "payload_state (CleanupPayload receipt) = rcpt_state receipt"

section \<open>Round trips\<close>

lemma event_kind_roundtrip [simp]: "event_kind_parse value = Inr x \<longleftrightarrow> value = event_kind_as_str x"
  by (cases x) (auto simp: event_kind_parse_def)

lemma cleanup_stage_roundtrip [simp]: "parse_cleanup_stage value = Inr x \<longleftrightarrow> value = cleanup_stage_name x"
  by (cases x) (auto simp: parse_cleanup_stage_def)

lemma cleanup_signal_roundtrip [simp]: "parse_cleanup_signal value = Inr x \<longleftrightarrow> value = cleanup_signal_name x"
  by (cases x) (auto simp: parse_cleanup_signal_def)

lemma signal_disposition_roundtrip [simp]: "parse_signal_disposition value = Inr x \<longleftrightarrow> value = signal_disposition_name x"
  by (cases x) (auto simp: parse_signal_disposition_def)

lemma runtime_artifact_kind_roundtrip [simp]: "parse_runtime_artifact_kind value = Inr x \<longleftrightarrow> value = runtime_artifact_kind_name x"
  by (cases x) (auto simp: parse_runtime_artifact_kind_def)

lemma artifact_disposition_roundtrip [simp]: "parse_artifact_disposition value = Inr x \<longleftrightarrow> value = artifact_disposition_name x"
  by (cases x) (auto simp: parse_artifact_disposition_def)

lemma process_outcome_roundtrip [simp]: "parse_process_outcome value = Inr x \<longleftrightarrow> value = process_outcome_name x"
  by (cases x) (auto simp: parse_process_outcome_def)

lemma artifact_outcome_roundtrip [simp]: "parse_artifact_outcome value = Inr x \<longleftrightarrow> value = artifact_outcome_name x"
  by (cases x) (auto simp: parse_artifact_outcome_def)

lemma overall_outcome_roundtrip [simp]: "parse_overall_outcome value = Inr x \<longleftrightarrow> value = overall_outcome_name x"
  by (cases x) (auto simp: parse_overall_outcome_def)

lemma state_roundtrip [simp]: "parse_state value = Inr x \<longleftrightarrow> value = state_name x"
  by (cases x) (auto simp: parse_state_def)

lemma stored_words_parse [simp]:
  "event_kind_parse (event_kind_as_str k) = Inr k"
  "parse_cleanup_stage (cleanup_stage_name x0) = Inr x0"
  "parse_cleanup_signal (cleanup_signal_name x1) = Inr x1"
  "parse_signal_disposition (signal_disposition_name x2) = Inr x2"
  "parse_runtime_artifact_kind (runtime_artifact_kind_name x3) = Inr x3"
  "parse_artifact_disposition (artifact_disposition_name x4) = Inr x4"
  "parse_process_outcome (process_outcome_name x5) = Inr x5"
  "parse_artifact_outcome (artifact_outcome_name x6) = Inr x6"
  "parse_overall_outcome (overall_outcome_name x7) = Inr x7"
  "parse_state (state_name x8) = Inr x8"
  by simp_all

text \<open>
  The text columns lose nothing. Every parser accepts exactly the word its value is written as, so
  what is stored is read back as itself, two values never share a word, and any other text is an error.
\<close>

theorem stored_words_roundtrip:
  "(event_kind_parse value = Inr k \<longleftrightarrow> value = event_kind_as_str k) \<and>
   (parse_cleanup_stage value = Inr st \<longleftrightarrow> value = cleanup_stage_name st) \<and>
   (parse_cleanup_signal value = Inr sg \<longleftrightarrow> value = cleanup_signal_name sg) \<and>
   (parse_signal_disposition value = Inr sd \<longleftrightarrow> value = signal_disposition_name sd) \<and>
   (parse_runtime_artifact_kind value = Inr ak \<longleftrightarrow> value = runtime_artifact_kind_name ak) \<and>
   (parse_artifact_disposition value = Inr ad \<longleftrightarrow> value = artifact_disposition_name ad) \<and>
   (parse_process_outcome value = Inr po \<longleftrightarrow> value = process_outcome_name po) \<and>
   (parse_artifact_outcome value = Inr ao \<longleftrightarrow> value = artifact_outcome_name ao) \<and>
   (parse_overall_outcome value = Inr oo \<longleftrightarrow> value = overall_outcome_name oo) \<and>
   (parse_state value = Inr is \<longleftrightarrow> value = state_name is)"
  by simp

end
