(* ===== verification/Store_Attempts.thy ===== *)
theory Store_Attempts
  imports Store_Names Store_Lifecycle
begin

text \<open>
  The cleanup journal of \<open>crates/unlinger-daemon/src/store.rs\<close>: cleanup attempts, their prepared and completed
  actions, terminal receipts, retry blocks, history events, impact accounting, and the recovery of
  attempts that a crash left open. \<open>json_len\<close> is the length of the text into which \<open>serde_json\<close>, a library,
  writes a resource receipt.
\<close>

section \<open>Handles and constraints\<close>

record cleanup_attempt_handle =
  cah_id :: int
  cah_incident_id :: string

record prepared_action_handle =
  pah_id :: int
  pah_attempt_id :: int
  pah_sequence :: usize

record prepared_artifact_action_handle =
  paah_id :: int
  paah_attempt_id :: int
  paah_sequence :: usize

definition check_opt :: "('a \<Rightarrow> bool) \<Rightarrow> 'a option \<Rightarrow> bool" where
  "check_opt P x = (case x of None \<Rightarrow> True | Some v \<Rightarrow> P v)"

definition attempt_check :: "attempt_row \<Rightarrow> bool" where
  "attempt_check a =
     (0 \<le> at_started_at a \<and> check_opt (\<lambda>c. at_started_at a \<le> c) (at_completed_at a)
      \<and> check_opt (\<lambda>t. t \<in> {''CLEARED'', ''FAILED'', ''REVIVED''}) (at_terminal_state a)
      \<and> 0 \<le> at_revival_checks a \<and> check_opt (\<lambda>n. 0 \<le> n) (at_process_count a)
      \<and> check_opt (\<lambda>n. 0 \<le> n) (at_resident_memory a)
      \<and> (at_completed_at a = None \<longleftrightarrow> at_terminal_state a = None))"

definition action_check :: "action_row \<Rightarrow> bool" where
  "action_check a =
     (0 \<le> ac_sequence a \<and> 0 \<le> ac_prepared_at a \<and> check_opt (\<lambda>c. ac_prepared_at a \<le> c) (ac_completed_at a)
      \<and> ac_stage a \<in> {''primary_term'', ''member_term'', ''exact_kill''} \<and> 0 < ac_pid a
      \<and> ac_signal a \<in> {''term'', ''kill''}
      \<and> check_opt (\<lambda>d. d \<in> {''delivered'', ''already_exited'', ''identity_mismatch'', ''rejected'',
           ''cancelled_before_delivery'', ''delivery_unknown''}) (ac_disposition a)
      \<and> (ac_completed_at a = None \<longleftrightarrow> ac_disposition a = None))"

definition artifact_check :: "artifact_row \<Rightarrow> bool" where
  "artifact_check a =
     (0 \<le> ar_sequence a \<and> 0 \<le> ar_prepared_at a \<and> check_opt (\<lambda>c. ar_prepared_at a \<le> c) (ar_completed_at a)
      \<and> ar_kind a = ''dev_tools_active_port''
      \<and> check_opt (\<lambda>d. d \<in> {''removed'', ''already_absent'', ''identity_mismatch'', ''referenced'',
           ''unsafe'', ''rejected'', ''cancelled_before_delivery'', ''delivery_unknown''}) (ar_disposition a)
      \<and> (ar_completed_at a = None \<longleftrightarrow> ar_disposition a = None))"

definition retry_block_check :: "retry_block_row \<Rightarrow> bool" where
  "retry_block_check b =
     (0 \<le> rb_blocked_at b \<and> check_opt (\<lambda>t. rb_blocked_at b \<le> t) (rb_last_exact_observed_at b)
      \<and> check_opt (\<lambda>t. rb_blocked_at b \<le> t) (rb_absence_since b))"

definition event_check :: "event_row \<Rightarrow> bool" where
  "event_check e =
     (0 \<le> evt_first_occurred_at e \<and> 0 \<le> evt_occurred_at e \<and> 1 \<le> evt_observation_count e
      \<and> evt_kind e \<in> {''observation'', ''cleanup''} \<and> evt_first_occurred_at e \<le> evt_occurred_at e
      \<and> (evt_kind e = ''observation''
         \<or> evt_first_occurred_at e = evt_occurred_at e \<and> evt_observation_count e = 1))"

definition impact_check :: "impact_row \<Rightarrow> bool" where
  "impact_check i =
     (0 \<le> im_occurred_at i \<and> im_state i \<in> {''CLEARED'', ''FAILED'', ''REVIVED''}
      \<and> im_process_outcome i \<in> {''cleared'', ''revived'', ''failed'', ''delivery_unknown''}
      \<and> im_artifact_outcome i \<in> {''not_applicable'', ''reconciled'', ''residue'', ''delivery_unknown''}
      \<and> im_overall_outcome i \<in> {''cleared'', ''cleared_with_residue'', ''revived'', ''failed''}
      \<and> check_opt (\<lambda>n. 0 \<le> n) (im_process_count i) \<and> check_opt (\<lambda>n. 0 \<le> n) (im_estimated_memory i)
      \<and> 0 \<le> im_revival_checks i)"

definition attempt_open :: "attempt_row \<Rightarrow> bool" where
  "attempt_open a \<longleftrightarrow> at_completed_at a = None"

text \<open>The constraints of each table, with the unique index that admits one open attempt.\<close>

definition attempts_ok :: "store \<Rightarrow> bool" where
  "attempts_ok s = (list_all attempt_check (t_attempts s) \<and> length (filter attempt_open (t_attempts s)) \<le> 1)"

definition actions_ok :: "store \<Rightarrow> bool" where
  "actions_ok s = (list_all action_check (t_actions s)
     \<and> distinct (map (\<lambda>a. (ac_attempt_id a, ac_sequence a)) (t_actions s)))"

definition artifact_actions_ok :: "store \<Rightarrow> bool" where
  "artifact_actions_ok s = (list_all artifact_check (t_artifact_actions s)
     \<and> distinct (map (\<lambda>a. (ar_attempt_id a, ar_sequence a)) (t_artifact_actions s)))"

definition retry_blocks_ok :: "store \<Rightarrow> bool" where
  "retry_blocks_ok s = (list_all retry_block_check (t_retry_blocks s) \<and> distinct (map rb_incident_id (t_retry_blocks s)))"

definition events_ok :: "store \<Rightarrow> bool" where
  "events_ok s = list_all event_check (t_events s)"

definition tokens_ok :: "store \<Rightarrow> bool" where
  "tokens_ok s = (distinct (map snd (t_event_tokens s)) \<and> list_all (\<lambda>t. length (snd t) = 32) (t_event_tokens s))"

definition impacts_ok :: "store \<Rightarrow> bool" where
  "impacts_ok s = (list_all impact_check (t_impacts s) \<and> distinct (map im_attempt_id (t_impacts s))
     \<and> distinct (map im_event_id (t_impacts s)))"

section \<open>Events\<close>

definition insert_public_event_token :: "int \<Rightarrow> unit db" where
  "insert_public_event_token event_id =
     db_constrained tokens_ok (\<lambda>s. s\<lparr>t_event_tokens := t_event_tokens s @ [(event_id, t_random s (t_draws s))],
       t_draws := Suc (t_draws s)\<rparr>)"

definition insert_event_transaction ::
    "int option \<Rightarrow> u64 \<Rightarrow> string \<Rightarrow> event_kind \<Rightarrow> incident_state \<Rightarrow> event_payload \<Rightarrow> int db" where
  "insert_event_transaction attempt_id occurred_at_unix_millis incident kind st payload =
     db_bind (db_lift (sqlite_millis occurred_at_unix_millis ''event timestamp'')) (\<lambda>occurred_at.
     db_bind (db_read t_next_event_id) (\<lambda>event_id.
     db_bind (db_constrained events_ok (\<lambda>s. s\<lparr>t_events := t_events s @ [\<lparr>evt_id = event_id,
         evt_incident_id = incident, evt_first_occurred_at = occurred_at, evt_occurred_at = occurred_at,
         evt_observation_count = 1, evt_kind = event_kind_as_str kind, evt_state = state_name st,
         evt_payload = payload, evt_attempt_id = attempt_id\<rparr>], t_next_event_id := event_id + 1\<rparr>)) (\<lambda>_.
     db_bind (insert_public_event_token event_id) (\<lambda>_.
     db_return event_id))))"

definition observations_semantically_equal :: "observation_record \<Rightarrow> observation_record \<Rightarrow> bool" where
  "observations_semantically_equal previous current =
     (ob_incident_id previous = ob_incident_id current
      \<and> ob_signature_pack previous = ob_signature_pack current
      \<and> ob_signature_version previous = ob_signature_version current
      \<and> ob_state previous = ob_state current
      \<and> ob_root previous = ob_root current
      \<and> ob_member_count previous = ob_member_count current
      \<and> ob_member_fingerprint previous = ob_member_fingerprint current
      \<and> ob_roles previous = ob_roles current
      \<and> ob_evidence previous = ob_evidence current
      \<and> ob_gates previous = ob_gates current)"

definition observation_of :: "incident_report \<Rightarrow> observation_record" where
  "observation_of report =
     \<lparr>ob_incident_id = incident_id report, ob_signature_pack = signature_pack report,
      ob_signature_version = signature_version report, ob_state = state report, ob_root = root report,
      ob_member_count = member_count report, ob_resident_memory_bytes = report_resident_memory_bytes report,
      ob_member_fingerprint = member_fingerprint report, ob_roles = roles report,
      ob_evidence = evidence report, ob_gates = gates report\<rparr>"

text \<open>\<open>ORDER BY occurred_at_ms DESC, id DESC LIMIT 1\<close>.\<close>

definition latest_event :: "string \<Rightarrow> event_row list \<Rightarrow> event_row option" where
  "latest_event incident rows =
     fold (\<lambda>e best. if evt_incident_id e \<noteq> incident then best
         else (case best of None \<Rightarrow> Some e
               | Some b \<Rightarrow> if evt_occurred_at b < evt_occurred_at e
                          \<or> evt_occurred_at b = evt_occurred_at e \<and> evt_id b < evt_id e then Some e else Some b)) rows None"

definition insert_observation :: "u64 \<Rightarrow> observation_record \<Rightarrow> int db" where
  "insert_observation occurred_at_unix_millis report =
     insert_event_transaction None occurred_at_unix_millis (ob_incident_id report) ObservationEvent
       (ob_state report) (ObservationPayload report)"

definition extends_span :: "int \<Rightarrow> observation_record \<Rightarrow> event_row \<Rightarrow> bool" where
  "extends_span occurred_at report e =
     (evt_kind e = event_kind_as_str ObservationEvent \<and> evt_occurred_at e \<le> occurred_at
      \<and> (case evt_payload e of
           ObservationPayload previous \<Rightarrow> observations_semantically_equal previous report
         | CleanupPayload _ \<Rightarrow> False))"

definition upsert_observation_span_transaction :: "u64 \<Rightarrow> observation_record \<Rightarrow> int db" where
  "upsert_observation_span_transaction occurred_at_unix_millis report =
     db_bind (db_lift (sqlite_millis occurred_at_unix_millis ''observation timestamp'')) (\<lambda>occurred_at.
     db_bind (db_read (\<lambda>s. latest_event (ob_incident_id report) (t_events s))) (\<lambda>latest.
     case latest of
       None \<Rightarrow> insert_observation occurred_at_unix_millis report
     | Some e \<Rightarrow>
         if extends_span occurred_at report e then
           db_bind (db_read (\<lambda>s. length (filter (\<lambda>q. evt_id q = evt_id e \<and> evt_kind q = ''observation'') (t_events s))))
             (\<lambda>changed.
           db_bind (db_constrained events_ok (\<lambda>s. s\<lparr>t_events :=
             update_where (\<lambda>q. evt_id q = evt_id e \<and> evt_kind q = ''observation'')
               (\<lambda>q. q\<lparr>evt_occurred_at := occurred_at, evt_observation_count := evt_observation_count q + 1,
                      evt_payload := ObservationPayload report\<rparr>) (t_events s)\<rparr>)) (\<lambda>_.
           db_bind (db_require (changed = 1) (Corrupt ''observation span disappeared during extension'')) (\<lambda>_.
           db_return (evt_id e))))
         else insert_observation occurred_at_unix_millis report))"

definition record_observation :: "u64 \<Rightarrow> incident_report \<Rightarrow> int db" where
  "record_observation occurred_at_unix_millis report =
     upsert_observation_span_transaction occurred_at_unix_millis (observation_of report)"

definition record_observation_batch :: "u64 \<Rightarrow> incident_report list \<Rightarrow> int list db" where
  "record_observation_batch occurred_at_unix_millis reports =
     db_map (\<lambda>report. upsert_observation_span_transaction occurred_at_unix_millis (observation_of report)) reports"

section \<open>Attempts and actions\<close>

definition cleanup_resources_default :: cleanup_resources where
  "cleanup_resources_default = \<lparr>res_before = None, res_after = None, res_estimated_reclaimed_memory_bytes = None\<rparr>"

definition started_receipt :: "string \<Rightarrow> cleanup_receipt" where
  "started_receipt incident =
     \<lparr>rcpt_incident_id = incident, rcpt_state = Reclaiming, rcpt_reason_id = None, rcpt_actions = [],
      rcpt_artifact_actions = [], rcpt_survivor_pids = [], rcpt_revival_checks_completed = 0,
      rcpt_resources = cleanup_resources_default\<rparr>"

definition cleanup_blocked :: "string \<Rightarrow> store \<Rightarrow> bool" where
  "cleanup_blocked incident s = list_ex (\<lambda>b. rb_incident_id b = incident) (t_retry_blocks s)"

definition begin_cleanup_attempt :: "u64 \<Rightarrow> incident_report \<Rightarrow> string \<Rightarrow> cleanup_attempt_handle db" where
  "begin_cleanup_attempt occurred_at_unix_millis report epoch =
     db_bind (db_require (state report = Confirmed \<and> cleanup_eligible (gates report))
       (Invalid ''cleanup attempts require an eligible CONFIRMED incident'')) (\<lambda>_.
     db_bind (db_require (str_trim epoch \<noteq> [])
       (Invalid ''cleanup attempts require a non-empty enforcement epoch'')) (\<lambda>_.
     db_bind (db_lift (sqlite_millis occurred_at_unix_millis ''cleanup attempt timestamp'')) (\<lambda>occurred_at.
     db_bind (db_read (cleanup_blocked (incident_id report))) (\<lambda>blocked.
     db_bind (db_require (\<not> blocked) (Invalid ''cleanup retry is blocked for incident'')) (\<lambda>_.
     db_bind (db_read (\<lambda>s. list_ex attempt_open (t_attempts s))) (\<lambda>open_incident.
     db_bind (db_require (\<not> open_incident) (Invalid ''cleanup attempt for incident is already open'')) (\<lambda>_.
     db_bind (db_lift (sqlite_usize (member_count report) ''cleanup process count'')) (\<lambda>count.
     db_bind (db_lift (sqlite_u64 (report_resident_memory_bytes report) ''cleanup observed resident memory'')) (\<lambda>memory.
     db_bind (db_read t_next_attempt_id) (\<lambda>attempt_id.
     db_bind (db_constrained attempts_ok (\<lambda>s. s\<lparr>t_attempts := t_attempts s @ [\<lparr>at_id = attempt_id,
         at_incident_id = incident_id report, at_tracking_key = tracking_key report,
         at_root_identity_fingerprint = root_identity_fingerprint (root report),
         at_member_fingerprint = member_fingerprint report, at_enforcement_epoch = epoch,
         at_started_at = occurred_at, at_completed_at = None, at_terminal_state = None, at_reason_id = None,
         at_survivor_pids = None, at_revival_checks = 0, at_resources = None,
         at_signature_pack = Some (signature_pack report), at_signature_version = Some (signature_version report),
         at_process_count = Some count, at_resident_memory = Some memory\<rparr>],
         t_next_attempt_id := attempt_id + 1\<rparr>)) (\<lambda>_.
     db_bind (insert_event_transaction (Some attempt_id) occurred_at_unix_millis (incident_id report) CleanupEvent
       Reclaiming (CleanupPayload (started_receipt (incident_id report)))) (\<lambda>_.
     db_return \<lparr>cah_id = attempt_id, cah_incident_id = incident_id report\<rparr>))))))))))))"

definition find_attempt :: "int \<Rightarrow> store \<Rightarrow> attempt_row option" where
  "find_attempt i s = find (\<lambda>a. at_id a = i) (t_attempts s)"

definition open_attempt_row :: "cleanup_attempt_handle \<Rightarrow> unit db" where
  "open_attempt_row attempt =
     db_bind (db_read (find_attempt (cah_id attempt))) (\<lambda>stored.
     case stored of
       None \<Rightarrow> db_fail (Invalid ''cleanup attempt does not exist'')
     | Some a \<Rightarrow>
         if at_incident_id a \<noteq> cah_incident_id attempt then
           db_fail (Invalid ''cleanup attempt handle incident does not match storage'')
         else db_require (attempt_open a) (Invalid ''cleanup attempt is already terminal''))"

definition prepare_cleanup_action ::
    "cleanup_attempt_handle \<Rightarrow> usize \<Rightarrow> u64 \<Rightarrow> cleanup_action_intent \<Rightarrow> prepared_action_handle db" where
  "prepare_cleanup_action attempt sequence occurred_at_unix_millis intent =
     db_bind (db_require (str_trim (intent_identity_fingerprint intent) \<noteq> [])
       (Invalid ''cleanup action requires a redacted identity fingerprint'')) (\<lambda>_.
     db_bind (db_lift (sqlite_usize sequence ''cleanup action sequence'')) (\<lambda>sequence_i64.
     db_bind (db_lift (sqlite_millis occurred_at_unix_millis ''action preparation timestamp'')) (\<lambda>occurred_at.
     db_bind (open_attempt_row attempt) (\<lambda>_.
     db_bind (db_read t_next_action_id) (\<lambda>action_id.
     db_bind (db_constrained actions_ok (\<lambda>s. s\<lparr>t_actions := t_actions s @ [\<lparr>ac_id = action_id,
         ac_attempt_id = cah_id attempt, ac_sequence = sequence_i64, ac_prepared_at = occurred_at,
         ac_completed_at = None, ac_stage = cleanup_stage_name (intent_stage intent),
         ac_pid = uint (intent_pid intent), ac_identity_fingerprint = intent_identity_fingerprint intent,
         ac_signal = cleanup_signal_name (intent_signal intent), ac_disposition = None\<rparr>],
         t_next_action_id := action_id + 1\<rparr>)) (\<lambda>_.
     db_return \<lparr>pah_id = action_id, pah_attempt_id = cah_id attempt, pah_sequence = sequence\<rparr>))))))"

definition complete_cleanup_action :: "prepared_action_handle \<Rightarrow> u64 \<Rightarrow> signal_disposition \<Rightarrow> unit db" where
  "complete_cleanup_action prepared occurred_at_unix_millis disposition =
     db_bind (db_lift (sqlite_millis occurred_at_unix_millis ''action disposition timestamp'')) (\<lambda>occurred_at.
     db_bind (db_lift (sqlite_usize (pah_sequence prepared) ''cleanup action sequence'')) (\<lambda>sequence.
     db_bind (db_read (\<lambda>s. find (\<lambda>a. ac_id a = pah_id prepared) (t_actions s))) (\<lambda>stored.
     case stored of
       None \<Rightarrow> db_fail (Invalid ''prepared cleanup action does not exist'')
     | Some a \<Rightarrow>
         if ac_attempt_id a \<noteq> pah_attempt_id prepared \<or> ac_sequence a \<noteq> sequence then
           db_fail (Invalid ''prepared cleanup action handle does not match storage'')
         else (case ac_disposition a of
             Some existing \<Rightarrow>
               db_bind (db_lift (parse_signal_disposition existing)) (\<lambda>existing.
               db_require (existing = disposition)
                 (Invalid (''cleanup action has conflicting disposition: stored '' @ signal_disposition_name existing
                    @ '', requested '' @ signal_disposition_name disposition)))
           | None \<Rightarrow>
               db_constrained actions_ok (\<lambda>s. s\<lparr>t_actions :=
                 update_where (\<lambda>a. ac_id a = pah_id prepared \<and> ac_disposition a = None)
                   (\<lambda>a. a\<lparr>ac_disposition := Some (signal_disposition_name disposition),
                          ac_completed_at := Some occurred_at\<rparr>) (t_actions s)\<rparr>)))))"

definition max_redacted_identifier_chars :: nat where
  "max_redacted_identifier_chars = 192"

definition redacted_byte :: "char \<Rightarrow> bool" where
  "redacted_byte c = (is_ascii_alphanumeric c \<or> c \<in> {CHR ''.'', CHR ''_'', CHR ''-''})"

definition valid_artifact_fingerprint :: "string \<Rightarrow> bool" where
  "valid_artifact_fingerprint value =
     (starts_with value ''art-'' \<and> length value \<le> max_redacted_identifier_chars \<and> list_all redacted_byte value)"

definition prepare_cleanup_artifact_action ::
    "cleanup_attempt_handle \<Rightarrow> usize \<Rightarrow> u64 \<Rightarrow> artifact_action_intent \<Rightarrow> prepared_artifact_action_handle db" where
  "prepare_cleanup_artifact_action attempt sequence occurred_at_unix_millis intent =
     db_bind (db_require (valid_artifact_fingerprint (ai_artifact_fingerprint intent))
       (Invalid ''artifact action requires a bounded redacted artifact fingerprint'')) (\<lambda>_.
     db_bind (db_lift (sqlite_usize sequence ''cleanup artifact action sequence'')) (\<lambda>sequence_i64.
     db_bind (db_lift (sqlite_millis occurred_at_unix_millis ''artifact action preparation timestamp'')) (\<lambda>occurred_at.
     db_bind (open_attempt_row attempt) (\<lambda>_.
     db_bind (db_read t_next_artifact_action_id) (\<lambda>action_id.
     db_bind (db_constrained artifact_actions_ok (\<lambda>s. s\<lparr>t_artifact_actions := t_artifact_actions s @ [\<lparr>ar_id = action_id,
         ar_attempt_id = cah_id attempt, ar_sequence = sequence_i64, ar_prepared_at = occurred_at,
         ar_completed_at = None, ar_kind = runtime_artifact_kind_name (ai_kind intent),
         ar_artifact_fingerprint = ai_artifact_fingerprint intent, ar_disposition = None\<rparr>],
         t_next_artifact_action_id := action_id + 1\<rparr>)) (\<lambda>_.
     db_return \<lparr>paah_id = action_id, paah_attempt_id = cah_id attempt, paah_sequence = sequence\<rparr>))))))"

definition complete_cleanup_artifact_action ::
    "prepared_artifact_action_handle \<Rightarrow> u64 \<Rightarrow> artifact_disposition \<Rightarrow> unit db" where
  "complete_cleanup_artifact_action prepared occurred_at_unix_millis disposition =
     db_bind (db_lift (sqlite_millis occurred_at_unix_millis ''artifact action disposition timestamp'')) (\<lambda>occurred_at.
     db_bind (db_lift (sqlite_usize (paah_sequence prepared) ''cleanup artifact action sequence'')) (\<lambda>sequence.
     db_bind (db_read (\<lambda>s. find (\<lambda>a. ar_id a = paah_id prepared) (t_artifact_actions s))) (\<lambda>stored.
     case stored of
       None \<Rightarrow> db_fail (Invalid ''prepared cleanup artifact action does not exist'')
     | Some a \<Rightarrow>
         if ar_attempt_id a \<noteq> paah_attempt_id prepared \<or> ar_sequence a \<noteq> sequence then
           db_fail (Invalid ''prepared cleanup artifact action handle does not match storage'')
         else (case ar_disposition a of
             Some existing \<Rightarrow>
               db_bind (db_lift (parse_artifact_disposition existing)) (\<lambda>existing.
               db_require (existing = disposition)
                 (Invalid (''cleanup artifact action has conflicting disposition: stored ''
                    @ artifact_disposition_name existing @ '', requested '' @ artifact_disposition_name disposition)))
           | None \<Rightarrow>
               db_constrained artifact_actions_ok (\<lambda>s. s\<lparr>t_artifact_actions :=
                 update_where (\<lambda>a. ar_id a = paah_id prepared \<and> ar_disposition a = None)
                   (\<lambda>a. a\<lparr>ar_disposition := Some (artifact_disposition_name disposition),
                          ar_completed_at := Some occurred_at\<rparr>) (t_artifact_actions s)\<rparr>)))))"

section \<open>Receipts\<close>

definition parse_pid :: "int \<Rightarrow> store_error + u32" where
  "parse_pid v = (if 0 \<le> v \<and> v < 2 ^ 32 then Inr (word_of_int v) else Inl (Corrupt ''cleanup action PID is invalid''))"

definition action_of_row :: "action_row \<Rightarrow> cleanup_action db" where
  "action_of_row a =
     (case ac_disposition a of
        None \<Rightarrow> db_fail (Corrupt ''cleanup attempt still contains a PREPARED action'')
      | Some disposition \<Rightarrow>
          db_bind (db_lift (parse_cleanup_stage (ac_stage a))) (\<lambda>stage.
          db_bind (db_lift (parse_pid (ac_pid a))) (\<lambda>p.
          db_bind (db_lift (parse_cleanup_signal (ac_signal a))) (\<lambda>sig.
          db_bind (db_lift (parse_signal_disposition disposition)) (\<lambda>d.
          db_return \<lparr>action_stage = stage, action_pid = p,
            action_identity_fingerprint = ac_identity_fingerprint a, action_signal = sig,
            action_disposition = d\<rparr>)))))"

definition attempt_actions :: "int \<Rightarrow> store \<Rightarrow> action_row list" where
  "attempt_actions attempt_id s = sort_key ac_sequence (filter (\<lambda>a. ac_attempt_id a = attempt_id) (t_actions s))"

definition actions_for_attempt :: "int \<Rightarrow> cleanup_action list db" where
  "actions_for_attempt attempt_id =
     db_bind (db_read (attempt_actions attempt_id)) (\<lambda>rows. db_map action_of_row rows)"

definition artifact_action_of_row :: "artifact_row \<Rightarrow> artifact_action db" where
  "artifact_action_of_row a =
     (case ar_disposition a of
        None \<Rightarrow> db_fail (Corrupt ''cleanup attempt still contains a PREPARED artifact action'')
      | Some disposition \<Rightarrow>
          db_bind (db_require (valid_artifact_fingerprint (ar_artifact_fingerprint a))
            (Corrupt ''cleanup attempt contains an invalid artifact fingerprint'')) (\<lambda>_.
          db_bind (db_lift (parse_runtime_artifact_kind (ar_kind a))) (\<lambda>kind.
          db_bind (db_lift (parse_artifact_disposition disposition)) (\<lambda>d.
          db_return \<lparr>aa_kind = kind, aa_artifact_fingerprint = ar_artifact_fingerprint a, aa_disposition = d\<rparr>))))"

definition attempt_artifact_actions :: "int \<Rightarrow> store \<Rightarrow> artifact_row list" where
  "attempt_artifact_actions attempt_id s =
     sort_key ar_sequence (filter (\<lambda>a. ar_attempt_id a = attempt_id) (t_artifact_actions s))"

definition artifact_actions_for_attempt :: "int \<Rightarrow> artifact_action list db" where
  "artifact_actions_for_attempt attempt_id =
     db_bind (db_read (attempt_artifact_actions attempt_id)) (\<lambda>rows. db_map artifact_action_of_row rows)"

definition max_resource_receipt_bytes :: nat where
  "max_resource_receipt_bytes = 4 * 1024"

definition terminal_event :: "int \<Rightarrow> store \<Rightarrow> event_row option" where
  "terminal_event attempt_id s =
     find (\<lambda>e. evt_attempt_id e = Some attempt_id \<and> evt_state e \<in> {''CLEARED'', ''FAILED'', ''REVIVED''})
       (rev (sort_key evt_id (t_events s)))"

definition terminal_receipt_for_attempt :: "(cleanup_resources \<Rightarrow> nat) \<Rightarrow> int \<Rightarrow> cleanup_receipt db" where
  "terminal_receipt_for_attempt json_len attempt_id =
     db_bind (db_read (\<lambda>s. case (terminal_event attempt_id s, find_attempt attempt_id s) of
         (Some e, Some a) \<Rightarrow> Some (evt_payload e, at_resources a) | _ \<Rightarrow> None)) (\<lambda>found.
     case found of
       None \<Rightarrow> db_fail (Corrupt ''terminal cleanup attempt has no terminal event'')
     | Some (ObservationPayload _, _) \<Rightarrow> db_fail (Corrupt ''terminal cleanup attempt points to an observation'')
     | Some (CleanupPayload receipt, resources) \<Rightarrow>
         db_bind (actions_for_attempt attempt_id) (\<lambda>actions.
         db_bind (artifact_actions_for_attempt attempt_id) (\<lambda>artifact_actions.
         let receipt = receipt\<lparr>rcpt_actions := actions, rcpt_artifact_actions := artifact_actions\<rparr>
         in (case resources of
               None \<Rightarrow> db_return receipt
             | Some r \<Rightarrow>
                 if json_len r > max_resource_receipt_bytes then
                   db_fail (Corrupt ''persisted cleanup resource receipt exceeds its bound'')
                 else db_return (receipt\<lparr>rcpt_resources := r\<rparr>)))))"

section \<open>Blocks and impact\<close>

definition insert_retry_block :: "string \<Rightarrow> string \<Rightarrow> int \<Rightarrow> string option \<Rightarrow> int \<Rightarrow> unit db" where
  "insert_retry_block incident key blocked_at reason source_attempt_id =
     (let row = \<lparr>rb_incident_id = incident, rb_tracking_key = key, rb_blocked_at = blocked_at, rb_reason_id = reason,
            rb_source_attempt_id = source_attempt_id, rb_last_exact_observed_at = None, rb_absence_since = None\<rparr>
      in db_constrained retry_blocks_ok (\<lambda>s. s\<lparr>t_retry_blocks :=
           upsert (\<lambda>b. rb_incident_id b = incident) (\<lambda>_. row) row (t_retry_blocks s)\<rparr>))"

text \<open>\<open>COALESCE(NULLIF(column, ''), 'unknown')\<close>.\<close>

definition or_unknown :: "string option \<Rightarrow> string" where
  "or_unknown x = (case x of None \<Rightarrow> ''unknown'' | Some v \<Rightarrow> if v = [] then ''unknown'' else v)"

definition impact_process_count :: "bool \<Rightarrow> cleanup_receipt \<Rightarrow> int option \<Rightarrow> int option db" where
  "impact_process_count attributed receipt observed_process_count =
     (if attributed then
        (case res_before (rcpt_resources receipt) of
           None \<Rightarrow> db_return observed_process_count
         | Some resources \<Rightarrow>
             db_bind (db_lift (sqlite_usize (rs_process_count resources) ''cleanup impact process count''))
               (\<lambda>n. db_return (Some n)))
      else db_return None)"

definition impact_memory :: "bool \<Rightarrow> cleanup_receipt \<Rightarrow> int option db" where
  "impact_memory attributed receipt =
     (if attributed then
        (case res_estimated_reclaimed_memory_bytes (rcpt_resources receipt) of
           None \<Rightarrow> db_return None
         | Some value \<Rightarrow>
             db_bind (db_lift (sqlite_u64 value ''cleanup impact reclaimed memory'')) (\<lambda>n. db_return (Some n)))
      else db_return None)"

definition or_zero :: "int option \<Rightarrow> int" where
  "or_zero x = (case x of None \<Rightarrow> 0 | Some v \<Rightarrow> v)"

definition add_impact :: "bool \<Rightarrow> int option \<Rightarrow> int option \<Rightarrow> impact_authority_row \<Rightarrow> impact_authority_row" where
  "add_impact attributed process_count memory a =
     \<lparr>ia_terminal_cleanup_count = ia_terminal_cleanup_count a + 1,
      ia_proved_reclaim_count = ia_proved_reclaim_count a + of_bool attributed,
      ia_reclaimed_process_count = ia_reclaimed_process_count a + or_zero process_count,
      ia_reclaimed_process_measurement_count =
        ia_reclaimed_process_measurement_count a + of_bool (process_count \<noteq> None),
      ia_estimated_reclaimed_memory_bytes = ia_estimated_reclaimed_memory_bytes a + or_zero memory,
      ia_reclaimed_memory_measurement_count =
        ia_reclaimed_memory_measurement_count a + of_bool (memory \<noteq> None)\<rparr>"

definition insert_cleanup_impact_transaction :: "int \<Rightarrow> int \<Rightarrow> u64 \<Rightarrow> cleanup_receipt \<Rightarrow> unit db" where
  "insert_cleanup_impact_transaction attempt_id event_id occurred_at_unix_millis receipt =
     db_bind (db_read (find_attempt attempt_id)) (\<lambda>attempt.
     case attempt of
       None \<Rightarrow> db_fail (Sqlite ''Query returned no rows'')
     | Some row \<Rightarrow>
         db_bind (db_read (\<lambda>s. oc_process (outcome receipt) = ProcessCleared
           \<and> list_ex (\<lambda>a. ac_attempt_id a = attempt_id \<and> ac_disposition a = Some ''delivered'') (t_actions s)))
           (\<lambda>attributed.
         db_bind (impact_process_count attributed receipt (at_process_count row)) (\<lambda>process_count.
         db_bind (impact_memory attributed receipt) (\<lambda>memory.
         db_bind (db_lift (sqlite_millis occurred_at_unix_millis ''cleanup impact timestamp'')) (\<lambda>occurred_at.
         db_bind (db_lift (sqlite_usize (rcpt_revival_checks_completed receipt) ''cleanup impact revival count''))
           (\<lambda>revivals.
         db_bind (db_read t_next_impact_id) (\<lambda>impact_id.
         db_bind (db_constrained impacts_ok (\<lambda>s. s\<lparr>t_impacts := t_impacts s @ [\<lparr>im_id = impact_id,
             im_attempt_id = attempt_id, im_event_id = event_id, im_incident_id = rcpt_incident_id receipt,
             im_family = or_unknown (at_signature_pack row), im_family_version = or_unknown (at_signature_version row),
             im_occurred_at = occurred_at, im_state = state_name (rcpt_state receipt),
             im_process_outcome = process_outcome_name (oc_process (outcome receipt)),
             im_artifact_outcome = artifact_outcome_name (oc_artifact (outcome receipt)),
             im_overall_outcome = overall_outcome_name (oc_overall (outcome receipt)),
             im_process_count = process_count, im_estimated_memory = memory, im_revival_checks = revivals\<rparr>],
             t_next_impact_id := impact_id + 1\<rparr>)) (\<lambda>_.
         db_write (\<lambda>s. s\<lparr>t_impact_authority := add_impact attributed process_count memory (t_impact_authority s)\<rparr>)))))))))"

section \<open>Completion\<close>

definition prepared_actions :: "int \<Rightarrow> store \<Rightarrow> nat" where
  "prepared_actions attempt_id s =
     length (filter (\<lambda>a. ac_attempt_id a = attempt_id \<and> ac_disposition a = None) (t_actions s))"

definition prepared_artifact_actions :: "int \<Rightarrow> store \<Rightarrow> nat" where
  "prepared_artifact_actions attempt_id s =
     length (filter (\<lambda>a. ar_attempt_id a = attempt_id \<and> ar_disposition a = None) (t_artifact_actions s))"

text \<open>The receipt that is stored: the actions are those of the journal, and a tree that ended without
  intervention is recorded as such.\<close>

definition projected_receipt ::
    "string \<Rightarrow> cleanup_receipt \<Rightarrow> cleanup_action list \<Rightarrow> artifact_action list \<Rightarrow> cleanup_receipt" where
  "projected_receipt incident terminal actions artifact_actions =
     (let projected = \<lparr>rcpt_incident_id = incident, rcpt_state = rcpt_state terminal,
            rcpt_reason_id = rcpt_reason_id terminal, rcpt_actions = actions,
            rcpt_artifact_actions = artifact_actions, rcpt_survivor_pids = rcpt_survivor_pids terminal,
            rcpt_revival_checks_completed = rcpt_revival_checks_completed terminal,
            rcpt_resources = rcpt_resources terminal\<rparr>
      in if ended_without_intervention projected
         then projected\<lparr>rcpt_reason_id := Some ''cleanup.tree_gone_without_signal'',
                rcpt_resources := (rcpt_resources projected)\<lparr>res_estimated_reclaimed_memory_bytes := None\<rparr>\<rparr>
         else projected)"

definition closed_row :: "int \<Rightarrow> cleanup_receipt \<Rightarrow> int \<Rightarrow> attempt_row \<Rightarrow> attempt_row" where
  "closed_row occurred_at receipt revivals a =
     a\<lparr>at_completed_at := Some occurred_at, at_terminal_state := Some (state_name (rcpt_state receipt)),
       at_reason_id := rcpt_reason_id receipt, at_survivor_pids := Some (rcpt_survivor_pids receipt),
       at_revival_checks := revivals, at_resources := Some (rcpt_resources receipt)\<rparr>"

definition close_attempt :: "int \<Rightarrow> int \<Rightarrow> cleanup_receipt \<Rightarrow> int \<Rightarrow> unit db" where
  "close_attempt attempt_id occurred_at receipt revivals =
     db_constrained attempts_ok (\<lambda>s. s\<lparr>t_attempts :=
       update_where (\<lambda>a. at_id a = attempt_id \<and> attempt_open a) (closed_row occurred_at receipt revivals) (t_attempts s)\<rparr>)"

lemma closed_row_simps [simp]:
  "at_id (closed_row t rc n a) = at_id a" "at_incident_id (closed_row t rc n a) = at_incident_id a"
  "at_started_at (closed_row t rc n a) = at_started_at a" "at_completed_at (closed_row t rc n a) = Some t"
  "\<not> attempt_open (closed_row t rc n a)"
  by (simp_all add: closed_row_def attempt_open_def)

text \<open>The terminal event of an attempt and its impact row.\<close>

definition record_terminal :: "int \<Rightarrow> u64 \<Rightarrow> cleanup_receipt \<Rightarrow> unit db" where
  "record_terminal attempt_id occurred_at_unix_millis receipt =
     db_bind (insert_event_transaction (Some attempt_id) occurred_at_unix_millis (rcpt_incident_id receipt)
       CleanupEvent (rcpt_state receipt) (CleanupPayload receipt)) (\<lambda>terminal_event_id.
     insert_cleanup_impact_transaction attempt_id terminal_event_id occurred_at_unix_millis receipt)"

definition finish_open_attempt ::
    "(cleanup_resources \<Rightarrow> nat) \<Rightarrow> cleanup_attempt_handle \<Rightarrow> u64 \<Rightarrow> int \<Rightarrow> string \<Rightarrow> cleanup_receipt \<Rightarrow> cleanup_receipt db" where
  "finish_open_attempt json_len attempt occurred_at_unix_millis occurred_at key terminal =
     db_bind (db_read (\<lambda>s. prepared_actions (cah_id attempt) s + prepared_artifact_actions (cah_id attempt) s)) (\<lambda>prepared.
     db_bind (db_require (prepared = 0)
       (Invalid ''cleanup attempt still has PREPARED actions; startup recovery must resolve delivery uncertainty'')) (\<lambda>_.
     db_bind (actions_for_attempt (cah_id attempt)) (\<lambda>actions.
     db_bind (artifact_actions_for_attempt (cah_id attempt)) (\<lambda>artifact_actions.
     db_bind (db_require (json_len (rcpt_resources terminal) \<le> max_resource_receipt_bytes)
       (Invalid ''cleanup resource receipt exceeds its storage bound'')) (\<lambda>_.
     let projected = projected_receipt (cah_incident_id attempt) terminal actions artifact_actions
     in db_bind (db_lift (sqlite_usize (rcpt_revival_checks_completed projected) ''revival check count'')) (\<lambda>revivals.
        db_bind (close_attempt (cah_id attempt) occurred_at projected revivals) (\<lambda>_.
        db_bind (if rcpt_state projected \<in> {Failed, Revived}
          then insert_retry_block (rcpt_incident_id projected) key occurred_at (rcpt_reason_id projected) (cah_id attempt)
          else db_return ()) (\<lambda>_.
        db_bind (record_terminal (cah_id attempt) occurred_at_unix_millis projected) (\<lambda>_.
        db_return projected)))))))))"

definition complete_cleanup_attempt ::
    "(cleanup_resources \<Rightarrow> nat) \<Rightarrow> cleanup_attempt_handle \<Rightarrow> u64 \<Rightarrow> cleanup_receipt \<Rightarrow> cleanup_receipt db" where
  "complete_cleanup_attempt json_len attempt occurred_at_unix_millis terminal =
     db_bind (db_require (rcpt_state terminal \<in> {Cleared, Failed, Revived})
       (Invalid ''cleanup attempt terminal state must be CLEARED, FAILED, or REVIVED'')) (\<lambda>_.
     db_bind (db_require (rcpt_incident_id terminal = cah_incident_id attempt)
       (Invalid ''cleanup receipt incident does not match attempt handle'')) (\<lambda>_.
     db_bind (db_lift (sqlite_millis occurred_at_unix_millis ''attempt completion timestamp'')) (\<lambda>occurred_at.
     db_bind (db_read (find_attempt (cah_id attempt))) (\<lambda>stored.
     case stored of
       None \<Rightarrow> db_fail (Invalid ''cleanup attempt does not exist'')
     | Some row \<Rightarrow>
         if at_incident_id row \<noteq> cah_incident_id attempt then
           db_fail (Invalid ''cleanup attempt handle incident does not match storage'')
         else (case at_terminal_state row of
             Some stored_state \<Rightarrow>
               db_bind (db_lift (parse_state stored_state)) (\<lambda>stored_state.
               db_bind (db_require (stored_state = rcpt_state terminal)
                 (Invalid (''cleanup attempt is already terminal as '' @ state_name stored_state))) (\<lambda>_.
               terminal_receipt_for_attempt json_len (cah_id attempt)))
           | None \<Rightarrow>
               finish_open_attempt json_len attempt occurred_at_unix_millis occurred_at (at_tracking_key row) terminal)))))"

section \<open>Recovery\<close>

definition count_disposed :: "int \<Rightarrow> string \<Rightarrow> string \<Rightarrow> store \<Rightarrow> nat" where
  "count_disposed attempt_id signal_word artifact_word s =
     length (filter (\<lambda>a. ac_attempt_id a = attempt_id \<and> ac_disposition a = Some signal_word) (t_actions s))
     + length (filter (\<lambda>a. ar_attempt_id a = attempt_id \<and> ar_disposition a = Some artifact_word) (t_artifact_actions s))"

definition recovery_reason :: "nat \<Rightarrow> nat \<Rightarrow> nat \<Rightarrow> nat \<Rightarrow> string" where
  "recovery_reason prepared prepared_artifacts unknown side_effects =
     (if 0 < prepared \<or> 0 < prepared_artifacts \<or> 0 < unknown then ''cleanup.interrupted_delivery_unknown''
      else if 0 < side_effects then ''cleanup.interrupted_after_delivery''
      else ''cleanup.interrupted_before_signal'')"

definition resolve_prepared :: "int \<Rightarrow> int \<Rightarrow> unit db" where
  "resolve_prepared occurred_at attempt_id =
     db_bind (db_constrained actions_ok (\<lambda>s. s\<lparr>t_actions :=
       update_where (\<lambda>a. ac_attempt_id a = attempt_id \<and> ac_disposition a = None)
         (\<lambda>a. a\<lparr>ac_disposition := Some ''delivery_unknown'', ac_completed_at := Some occurred_at\<rparr>) (t_actions s)\<rparr>)) (\<lambda>_.
     db_constrained artifact_actions_ok (\<lambda>s. s\<lparr>t_artifact_actions :=
       update_where (\<lambda>a. ar_attempt_id a = attempt_id \<and> ar_disposition a = None)
         (\<lambda>a. a\<lparr>ar_disposition := Some ''delivery_unknown'', ar_completed_at := Some occurred_at\<rparr>) (t_artifact_actions s)\<rparr>))"

definition recover_attempt :: "u64 \<Rightarrow> int \<Rightarrow> attempt_row \<Rightarrow> cleanup_receipt db" where
  "recover_attempt occurred_at_unix_millis occurred_at row =
     db_bind (db_read (\<lambda>s. recovery_reason (prepared_actions (at_id row) s) (prepared_artifact_actions (at_id row) s)
         (count_disposed (at_id row) ''delivery_unknown'' ''delivery_unknown'' s)
         (count_disposed (at_id row) ''delivered'' ''removed'' s))) (\<lambda>reason.
     db_bind (resolve_prepared occurred_at (at_id row)) (\<lambda>_.
     db_bind (actions_for_attempt (at_id row)) (\<lambda>actions.
     db_bind (artifact_actions_for_attempt (at_id row)) (\<lambda>artifact_actions.
     let receipt = \<lparr>rcpt_incident_id = at_incident_id row, rcpt_state = Failed, rcpt_reason_id = Some reason,
           rcpt_actions = actions, rcpt_artifact_actions = artifact_actions, rcpt_survivor_pids = [],
           rcpt_revival_checks_completed = 0, rcpt_resources = cleanup_resources_default\<rparr>
     in db_bind (close_attempt (at_id row) occurred_at receipt 0) (\<lambda>_.
        db_bind (insert_retry_block (at_incident_id row) (at_tracking_key row) occurred_at (rcpt_reason_id receipt)
          (at_id row)) (\<lambda>_.
        db_bind (record_terminal (at_id row) occurred_at_unix_millis receipt) (\<lambda>_.
        db_return receipt)))))))"

definition recover_incomplete_attempts :: "u64 \<Rightarrow> cleanup_receipt list db" where
  "recover_incomplete_attempts occurred_at_unix_millis =
     db_bind (db_lift (sqlite_millis occurred_at_unix_millis ''attempt recovery timestamp'')) (\<lambda>occurred_at.
     db_bind (db_read (\<lambda>s. sort_key at_id (filter attempt_open (t_attempts s)))) (\<lambda>open_attempts.
     db_map (recover_attempt occurred_at_unix_millis occurred_at) open_attempts))"

end
