(* ===== verification/Store_Journal.thy ===== *)
theory Store_Journal
  imports Store_Attempts
begin

text \<open>
  What the cleanup journal of the store promises: recorded outcomes are never rewritten, one attempt is
  open at a time, prepared actions belong to it, and recovery closes it and blocks what it left in doubt.
\<close>

section \<open>Commands\<close>

datatype journal_command =
    ObserveOne u64 incident_report | ObserveBatch u64 "incident_report list"
  | BeginAttempt u64 incident_report string
  | PrepareAction cleanup_attempt_handle usize u64 cleanup_action_intent
  | CompleteAction prepared_action_handle u64 signal_disposition
  | PrepareArtifact cleanup_attempt_handle usize u64 artifact_action_intent
  | CompleteArtifact prepared_artifact_action_handle u64 artifact_disposition
  | CompleteAttempt "cleanup_resources \<Rightarrow> nat" cleanup_attempt_handle u64 cleanup_receipt
  | RecoverAttempts u64

definition discard :: "'a db \<Rightarrow> unit db" where
  "discard m = db_bind m (\<lambda>_. db_return ())"

fun run_journal :: "journal_command \<Rightarrow> unit db" where
  "run_journal (ObserveOne t r) = discard (record_observation t r)"
| "run_journal (ObserveBatch t rs) = discard (record_observation_batch t rs)"
| "run_journal (BeginAttempt t r e) = discard (begin_cleanup_attempt t r e)"
| "run_journal (PrepareAction h n t i) = discard (prepare_cleanup_action h n t i)"
| "run_journal (CompleteAction h t d) = complete_cleanup_action h t d"
| "run_journal (PrepareArtifact h n t i) = discard (prepare_cleanup_artifact_action h n t i)"
| "run_journal (CompleteArtifact h t d) = complete_cleanup_artifact_action h t d"
| "run_journal (CompleteAttempt l h t r) = discard (complete_cleanup_attempt l h t r)"
| "run_journal (RecoverAttempts t) = discard (recover_incomplete_attempts t)"

text \<open>A command that fails leaves the tables as they are.\<close>

definition journal_apply :: "journal_command \<Rightarrow> store \<Rightarrow> store" where
  "journal_apply c s = (case run_journal c s of Inl _ \<Rightarrow> s | Inr (_, s') \<Rightarrow> s')"

definition journal_history :: "journal_command list \<Rightarrow> store \<Rightarrow> store" where
  "journal_history cs s = fold journal_apply cs s"

section \<open>Reads keep everything\<close>

lemma keeps_map: "(\<And>x. keeps I (f x)) \<Longrightarrow> keeps I (db_map f xs)"
  by (induction xs) (simp_all add: keeps_intros keeps_bind)

lemma keeps_discard: "keeps I m \<Longrightarrow> keeps I (discard m)"
  unfolding discard_def by (intro keeps_bind keeps_intros)

lemma keeps_action_of_row: "keeps I (action_of_row a)" "keeps I (artifact_action_of_row r)"
  unfolding action_of_row_def artifact_action_of_row_def by (intro keeps_option keeps_bind keeps_intros)+

lemma keeps_actions: "keeps I (actions_for_attempt i)" "keeps I (artifact_actions_for_attempt i)"
  unfolding actions_for_attempt_def artifact_actions_for_attempt_def
  by (intro keeps_bind keeps_intros keeps_map keeps_action_of_row)+

lemma keeps_payload:
  "(\<And>q. keeps I (f q)) \<Longrightarrow> (\<And>r. keeps I (g r)) \<Longrightarrow>
   keeps I (case p of ObservationPayload q \<Rightarrow> f q | CleanupPayload r \<Rightarrow> g r)"
  by (cases p) simp_all

lemma keeps_case_prod: "(\<And>x y. keeps I (f x y)) \<Longrightarrow> keeps I (case p of (x, y) \<Rightarrow> f x y)"
  by (cases p) simp

lemma keeps_terminal_receipt: "keeps I (terminal_receipt_for_attempt l i)"
  unfolding terminal_receipt_for_attempt_def Let_def
  by (intro keeps_bind keeps_intros keeps_option keeps_case_prod keeps_payload keeps_actions keeps_if)

lemma keeps_open_attempt_row: "keeps I (open_attempt_row h)"
  unfolding open_attempt_row_def by (intro keeps_bind keeps_intros keeps_option keeps_if)

lemma keeps_impact_reads: "keeps I (impact_process_count b r n)" "keeps I (impact_memory b r)"
  unfolding impact_process_count_def impact_memory_def by (intro keeps_if keeps_option keeps_bind keeps_intros)+

lemmas keeps_reads = keeps_intros keeps_actions keeps_terminal_receipt keeps_open_attempt_row keeps_impact_reads

definition resolved :: "int \<Rightarrow> store \<Rightarrow> bool" where
  "resolved i s \<longleftrightarrow> prepared_actions i s = 0 \<and> prepared_artifact_actions i s = 0"

lemma filter_update_none:
  assumes "\<And>a. P a \<Longrightarrow> D a \<Longrightarrow> \<not> D (f a)"
  shows "filter (\<lambda>a. P a \<and> D a) (update_where (\<lambda>a. P a \<and> D a) f rows) = []"
  using assms by (auto simp: filter_empty_conv update_where_def)

lemma resolve_prepared_resolves: "dwp (resolve_prepared t i) (\<lambda>_. resolved i) s"
  unfolding resolve_prepared_def dwp_simps
  by (simp add: resolved_def prepared_actions_def prepared_artifact_actions_def filter_update_none)

definition closed :: "int \<Rightarrow> store \<Rightarrow> bool" where
  "closed i s \<longleftrightarrow> list_all (\<lambda>a. at_id a = i \<longrightarrow> \<not> attempt_open a) (t_attempts s)"

lemma list_all_update_where:
  "list_all Q (update_where P f rows) \<longleftrightarrow> list_all (\<lambda>r. Q (if P r then f r else r)) rows"
  by (simp add: update_where_def list.pred_map o_def)

lemma close_attempt_closes: "dwp (close_attempt i t rc n) (\<lambda>_. closed i) s"
  unfolding close_attempt_def dwp_simps
  by (intro impI) (simp add: closed_def list_all_update_where, simp add: list_all_iff)

lemma u32_bound: "uint (p :: u32) < 2 ^ 32"
  using uint_lt2p [of p] by simp

text \<open>A property of the tables that survives every statement of the journal survives every operation.
  The statements are listed once; each property below only looks at them.\<close>

locale journal_statements =
  fixes I :: "store \<Rightarrow> bool"
  assumes event_row: "I s \<Longrightarrow> events_ok (s\<lparr>t_events := t_events s @ [e], t_next_event_id := n\<rparr>) \<Longrightarrow>
      evt_id e = t_next_event_id s \<Longrightarrow> n = t_next_event_id s + 1 \<Longrightarrow>
      I (s\<lparr>t_events := t_events s @ [e], t_next_event_id := n\<rparr>)"
    and token_row: "I s \<Longrightarrow> s' = s\<lparr>t_event_tokens := t_event_tokens s @ [k], t_draws := Suc (t_draws s)\<rparr> \<Longrightarrow>
        tokens_ok s' \<Longrightarrow> I s'"
    and span_update: "I s \<Longrightarrow> s' = s\<lparr>t_events := update_where (\<lambda>q. evt_id q = i \<and> evt_kind q = ''observation'')
        (\<lambda>q. q\<lparr>evt_occurred_at := t, evt_observation_count := evt_observation_count q + 1,
               evt_payload := p\<rparr>) (t_events s)\<rparr> \<Longrightarrow> events_ok s' \<Longrightarrow> I s'"
    and attempt_row: "I s \<Longrightarrow> \<not> list_ex attempt_open (t_attempts s) \<Longrightarrow>
      attempts_ok (s\<lparr>t_attempts := t_attempts s @ [at], t_next_attempt_id := n\<rparr>) \<Longrightarrow>
      at_id at = t_next_attempt_id s \<Longrightarrow> n = t_next_attempt_id s + 1 \<Longrightarrow>
      I (s\<lparr>t_attempts := t_attempts s @ [at], t_next_attempt_id := n\<rparr>)"
    and action_row: "I s \<Longrightarrow> find_attempt (ac_attempt_id a) s = Some row \<Longrightarrow> attempt_open row \<Longrightarrow>
      actions_ok (s\<lparr>t_actions := t_actions s @ [a], t_next_action_id := n\<rparr>) \<Longrightarrow>
      ac_id a = t_next_action_id s \<Longrightarrow> n = t_next_action_id s + 1 \<Longrightarrow> ac_pid a < 2 ^ 32 \<Longrightarrow>
      I (s\<lparr>t_actions := t_actions s @ [a], t_next_action_id := n\<rparr>)"
    and artifact_row: "I s \<Longrightarrow> find_attempt (ar_attempt_id r) s = Some row \<Longrightarrow> attempt_open row \<Longrightarrow>
      artifact_actions_ok (s\<lparr>t_artifact_actions := t_artifact_actions s @ [r], t_next_artifact_action_id := n\<rparr>) \<Longrightarrow>
      ar_id r = t_next_artifact_action_id s \<Longrightarrow> n = t_next_artifact_action_id s + 1 \<Longrightarrow>
      valid_artifact_fingerprint (ar_artifact_fingerprint r) \<Longrightarrow>
      I (s\<lparr>t_artifact_actions := t_artifact_actions s @ [r], t_next_artifact_action_id := n\<rparr>)"
    and action_update: "I s \<Longrightarrow> s' = s\<lparr>t_actions := update_where (\<lambda>a. P a \<and> ac_disposition a = None)
        (\<lambda>a. a\<lparr>ac_disposition := Some w, ac_completed_at := Some t\<rparr>) (t_actions s)\<rparr> \<Longrightarrow> actions_ok s' \<Longrightarrow> I s'"
    and artifact_update: "I s \<Longrightarrow> s' = s\<lparr>t_artifact_actions := update_where (\<lambda>a. Q a \<and> ar_disposition a = None)
        (\<lambda>a. a\<lparr>ar_disposition := Some w, ar_completed_at := Some t\<rparr>) (t_artifact_actions s)\<rparr> \<Longrightarrow>
        artifact_actions_ok s' \<Longrightarrow> I s'"
    and close_update: "I s \<Longrightarrow> resolved i s \<Longrightarrow> close_attempt i t rc n s = Inr (x, s') \<Longrightarrow> I s'"
    and block_update: "I s \<Longrightarrow> retry_blocks_ok (s\<lparr>t_retry_blocks := bs\<rparr>) \<Longrightarrow> I (s\<lparr>t_retry_blocks := bs\<rparr>)"
    and terminal_rows: "I s \<Longrightarrow> closed i s \<Longrightarrow> record_terminal i u rc s = Inr (x, s') \<Longrightarrow> I s'"
begin

lemma keeps_token: "keeps I (insert_public_event_token i)"
  unfolding insert_public_event_token_def by (rule keeps_constrained) (rule token_row [OF _ refl])

lemma keeps_insert_event: "keeps I (insert_event_transaction a t i k st p)"
  unfolding insert_event_transaction_def keeps_dwp dwp_simps
  by (intro allI impI dwp_keeps [OF keeps_token] event_row) simp_all

lemma keeps_upsert_observation: "keeps I (upsert_observation_span_transaction t r)"
  unfolding upsert_observation_span_transaction_def insert_observation_def
  by (intro keeps_bind keeps_intros keeps_option keeps_if keeps_insert_event keeps_constrained)
     (rule span_update [OF _ refl])

lemma keeps_begin: "keeps I (begin_cleanup_attempt t r e)"
  unfolding begin_cleanup_attempt_def keeps_dwp dwp_simps
  by (intro allI impI dwp_keeps [OF keeps_insert_event] attempt_row) simp_all

lemma open_attempt_row_wp:
  "dwp (open_attempt_row h) Q s"
  if "\<And>row. find_attempt (cah_id h) s = Some row \<Longrightarrow> attempt_open row \<Longrightarrow> Q () s"
  unfolding open_attempt_row_def dwp_simps using that by (auto simp: dwp_fail split: option.split)

lemma keeps_prepare: "keeps I (prepare_cleanup_action h n t i)"
  unfolding prepare_cleanup_action_def keeps_dwp dwp_simps
  by (intro allI impI open_attempt_row_wp action_row) (simp_all add: u32_bound [simplified])

lemma keeps_prepare_artifact: "keeps I (prepare_cleanup_artifact_action h n t j)"
  unfolding prepare_cleanup_artifact_action_def keeps_dwp dwp_simps
  by (intro allI impI open_attempt_row_wp artifact_row) simp_all

lemma keeps_complete: "keeps I (complete_cleanup_action h t d)"
  unfolding complete_cleanup_action_def
  by (intro keeps_bind keeps_intros keeps_option keeps_if keeps_constrained) (rule action_update [OF _ refl])

lemma keeps_complete_artifact: "keeps I (complete_cleanup_artifact_action g t d)"
  unfolding complete_cleanup_artifact_action_def
  by (intro keeps_bind keeps_intros keeps_option keeps_if keeps_constrained) (rule artifact_update [OF _ refl])

lemma keeps_retry_block: "keeps I (insert_retry_block i k t q n)"
  unfolding insert_retry_block_def Let_def by (rule keeps_constrained) (rule block_update)

lemma block_then: "I s \<and> closed i s \<Longrightarrow> (\<And>s'. I s' \<and> closed i s' \<Longrightarrow> Q () s') \<Longrightarrow> dwp (insert_retry_block j k t q n) Q s"
  using keepsD [OF keeps_retry_block]
  by (auto simp: dwp_def) (auto simp: insert_retry_block_def Let_def db_constrained_Inr closed_def)

lemma terminal_then: "I s \<and> closed i s \<Longrightarrow> (\<And>s'. I s' \<Longrightarrow> Q () s') \<Longrightarrow> dwp (record_terminal i t r) Q s"
  by (auto simp: dwp_def intro: terminal_rows)

lemma keeps_resolve: "keeps I (resolve_prepared t i)"
  unfolding resolve_prepared_def
  by (intro keeps_bind keeps_constrained) (rule action_update [OF _ refl] artifact_update [OF _ refl]; assumption)+

lemma resolve_then:
  assumes "I s" "\<And>x s'. I s' \<and> resolved i s' \<Longrightarrow> Q x s'"
  shows "dwp (resolve_prepared t i) Q s"
  using assms keepsD [OF keeps_resolve] dwpD [OF resolve_prepared_resolves] by (auto simp: dwp_def)

lemma close_then:
  "I s \<and> resolved i s \<Longrightarrow> (\<And>s'. I s' \<and> closed i s' \<Longrightarrow> Q () s') \<Longrightarrow> dwp (close_attempt i t rc n) Q s"
  using close_attempt_closes unfolding dwp_def by (metis close_update old.unit.exhaust)

lemma keeps_finish_open_attempt: "keeps I (finish_open_attempt l h t o' k rc)"
  unfolding finish_open_attempt_def keeps_dwp dwp_simps Let_def
  by (intro allI impI dwp_keeps [OF keeps_actions(1), where I = "\<lambda>s. I s \<and> resolved (cah_id h) s"]
        dwp_keeps [OF keeps_actions(2), where I = "\<lambda>s. I s \<and> resolved (cah_id h) s"] close_then)
     (auto simp: resolved_def intro!: terminal_then block_then)

lemma keeps_complete_attempt: "keeps I (complete_cleanup_attempt l h t rc)"
  unfolding complete_cleanup_attempt_def
  by (intro keeps_bind keeps_reads keeps_option keeps_if keeps_finish_open_attempt)

lemma keeps_recover_attempt: "keeps I (recover_attempt t o' row)"
  unfolding recover_attempt_def keeps_dwp dwp_simps Let_def
  by (intro allI impI resolve_then dwp_keeps [OF keeps_actions(1), where I = "\<lambda>s. I s \<and> resolved (at_id row) s"]
        dwp_keeps [OF keeps_actions(2), where I = "\<lambda>s. I s \<and> resolved (at_id row) s"] close_then
        block_then terminal_then)

lemma keeps_recover: "keeps I (recover_incomplete_attempts t)"
  unfolding recover_incomplete_attempts_def by (intro keeps_bind keeps_intros keeps_map keeps_recover_attempt)

lemma keeps_run_journal: "keeps I (run_journal c)"
  by (cases c) (simp_all add: keeps_discard record_observation_def record_observation_batch_def keeps_map
      keeps_upsert_observation keeps_begin keeps_prepare keeps_prepare_artifact keeps_complete keeps_complete_artifact
      keeps_complete_attempt keeps_recover)

lemma journal_apply_keeps: "I s \<Longrightarrow> I (journal_apply c s)"
  using keepsD [OF keeps_run_journal, of s c] by (auto simp: journal_apply_def split: sum.splits)

lemma journal_history_keeps: "I s \<Longrightarrow> I (journal_history cs s)"
  unfolding journal_history_def by (induction cs arbitrary: s) (simp_all add: journal_apply_keeps)

end

section \<open>Recorded outcomes are final\<close>

definition recorded :: "store \<Rightarrow> store \<Rightarrow> bool" where
  "recorded s0 s \<longleftrightarrow>
     set (filter (\<lambda>a. ac_disposition a \<noteq> None) (t_actions s0)) \<subseteq> set (t_actions s) \<and>
     set (filter (\<lambda>a. ar_disposition a \<noteq> None) (t_artifact_actions s0)) \<subseteq> set (t_artifact_actions s) \<and>
     set (filter (\<lambda>a. \<not> attempt_open a) (t_attempts s0)) \<subseteq> set (t_attempts s) \<and>
     set (filter (\<lambda>e. evt_kind e \<noteq> ''observation'') (t_events s0)) \<subseteq> set (t_events s) \<and>
     set (t_impacts s0) \<subseteq> set (t_impacts s) \<and> set (t_event_tokens s0) \<subseteq> set (t_event_tokens s)"

lemma mem_update_where: "r \<in> set rows \<Longrightarrow> \<not> P r \<Longrightarrow> r \<in> set (update_where P f rows)"
  by (force simp: update_where_def)

lemma recorded_terminal: "keeps (recorded s0) (record_terminal i u rc)"
  unfolding record_terminal_def insert_event_transaction_def insert_public_event_token_def
    insert_cleanup_impact_transaction_def
  by (intro keeps_bind keeps_intros keeps_option keeps_impact_reads keeps_constrained keeps_write)
     (simp add: recorded_def; blast)+

interpretation append_only: journal_statements "recorded s0" for s0
proof
  show "recorded s0 s'" if "recorded s0 s" "close_attempt i t rc n s = Inr (x, s')" for s s' i t rc n x
    using that unfolding close_attempt_def db_constrained_Inr
    by (auto simp: recorded_def subset_iff intro!: mem_update_where)
  show "recorded s0 s'" if "recorded s0 s" "record_terminal i u rc s = Inr (x, s')" for s s' i u rc x
    using that keepsD [OF recorded_terminal] by blast
qed (auto simp: recorded_def subset_iff intro!: mem_update_where)

text \<open>
  C20: the cleanup journal is append-only. Whatever the daemon does, in any order, from any handle: a
  disposition once recorded, an attempt once closed, a cleanup event, its public token and an impact row
  are never changed or removed, not even by a recovery.
\<close>

theorem journal_append_only: "recorded s (journal_history cs s)"
  by (rule append_only.journal_history_keeps) (auto simp: recorded_def)

end
