(* ===== verification/Store_Recovery.thy ===== *)
theory Store_Recovery
  imports Store_Journal
begin

text \<open>
  The invariant of the cleanup journal and what the recovery of \<open>recover_incomplete_attempts\<close> does after a
  crash: exactly when it succeeds, and what it leaves behind.
\<close>

section \<open>The invariant\<close>

definition keyed :: "('r \<Rightarrow> int) \<Rightarrow> 'r list \<Rightarrow> int \<Rightarrow> bool" where
  "keyed k rows n \<longleftrightarrow> distinct (map k rows) \<and> list_all (\<lambda>r. k r < n) rows"

definition is_open :: "int \<Rightarrow> store \<Rightarrow> bool" where
  "is_open i s = list_ex (\<lambda>a. at_id a = i \<and> attempt_open a) (t_attempts s)"

definition tables_ok :: "store \<Rightarrow> bool" where
  "tables_ok s \<longleftrightarrow> attempts_ok s \<and> actions_ok s \<and> artifact_actions_ok s \<and> retry_blocks_ok s \<and> events_ok s
     \<and> tokens_ok s \<and> impacts_ok s"

definition keys_ok :: "store \<Rightarrow> bool" where
  "keys_ok s \<longleftrightarrow> keyed at_id (t_attempts s) (t_next_attempt_id s) \<and> keyed ac_id (t_actions s) (t_next_action_id s)
     \<and> keyed ar_id (t_artifact_actions s) (t_next_artifact_action_id s) \<and> keyed evt_id (t_events s) (t_next_event_id s)"

definition readable_rows :: "store \<Rightarrow> bool" where
  "readable_rows s \<longleftrightarrow> list_all (\<lambda>a. ac_pid a < 2 ^ 32) (t_actions s)
     \<and> list_all (\<lambda>r. valid_artifact_fingerprint (ar_artifact_fingerprint r)) (t_artifact_actions s)"

definition prepared_ok :: "store \<Rightarrow> bool" where
  "prepared_ok s \<longleftrightarrow> list_all (\<lambda>a. ac_disposition a = None \<longrightarrow> is_open (ac_attempt_id a) s) (t_actions s)
     \<and> list_all (\<lambda>a. ar_disposition a = None \<longrightarrow> is_open (ar_attempt_id a) s) (t_artifact_actions s)"

definition impacts_closed :: "store \<Rightarrow> bool" where
  "impacts_closed s \<longleftrightarrow>
     list_all (\<lambda>j. list_ex (\<lambda>a. at_id a = im_attempt_id j \<and> \<not> attempt_open a) (t_attempts s)) (t_impacts s)
     \<and> list_all (\<lambda>j. im_event_id j < t_next_event_id s) (t_impacts s)"

definition references_ok :: "store \<Rightarrow> bool" where
  "references_ok s \<longleftrightarrow> list_all (\<lambda>a. ac_attempt_id a < t_next_attempt_id s) (t_actions s)
     \<and> list_all (\<lambda>a. ar_attempt_id a < t_next_attempt_id s) (t_artifact_actions s)"

definition journal_inv :: "store \<Rightarrow> bool" where
  "journal_inv s \<longleftrightarrow> tables_ok s \<and> keys_ok s \<and> readable_rows s \<and> prepared_ok s \<and> impacts_closed s \<and> references_ok s"

lemmas journal_inv_defs = journal_inv_def tables_ok_def keys_ok_def readable_rows_def prepared_ok_def impacts_closed_def
  references_ok_def

lemma keyed_keys: "keyed k rows n \<longleftrightarrow> distinct (map k rows) \<and> (\<forall>x\<in>set (map k rows). x < n)"
  by (simp add: keyed_def list_all_iff)

lemma keyed_snoc: "keyed k rows n \<Longrightarrow> k r = n \<Longrightarrow> keyed k (rows @ [r]) (n + 1)"
  by (force simp: keyed_def list_all_iff)

lemma keyed_update:
  "(\<And>r. P r \<Longrightarrow> k (f r) = k r) \<Longrightarrow> keyed k (update_where P f rows) n = keyed k rows n"
  unfolding keyed_keys by (simp only: map_update_where)

lemma find_attempt_open: "find_attempt i s = Some row \<Longrightarrow> attempt_open row \<Longrightarrow> is_open i s"
  by (auto simp: find_attempt_def is_open_def list_ex_iff dest: find_SomeD)

lemmas table_checks = attempts_ok_def actions_ok_def artifact_actions_ok_def retry_blocks_ok_def events_ok_def
  tokens_ok_def impacts_ok_def

lemma find_attempt_bound: "keys_ok s \<Longrightarrow> find_attempt i s = Some row \<Longrightarrow> i < t_next_attempt_id s"
  by (auto simp: find_attempt_def keys_ok_def keyed_def list_all_iff dest: find_SomeD)

lemma less_next: "list_all (\<lambda>j. f j < n) js \<Longrightarrow> list_all (\<lambda>j. f j \<le> (n :: int)) js"
  by (auto simp: list_all_iff)

lemma inv_event:
  assumes "journal_inv s" "events_ok (s\<lparr>t_events := t_events s @ [e], t_next_event_id := n\<rparr>)"
    "evt_id e = t_next_event_id s" "n = t_next_event_id s + 1"
  shows "journal_inv (s\<lparr>t_events := t_events s @ [e], t_next_event_id := n\<rparr>)"
  using assms unfolding journal_inv_defs table_checks is_open_def by (simp add: keyed_snoc less_next)

lemma inv_token:
  assumes "journal_inv s" "s' = s\<lparr>t_event_tokens := t_event_tokens s @ [k], t_draws := Suc (t_draws s)\<rparr>" "tokens_ok s'"
  shows "journal_inv s'"
  using assms unfolding journal_inv_defs table_checks is_open_def by simp

lemma inv_span:
  assumes "journal_inv s" "s' = s\<lparr>t_events := update_where P
      (\<lambda>q. q\<lparr>evt_occurred_at := t, evt_observation_count := evt_observation_count q + 1,
             evt_payload := p\<rparr>) (t_events s)\<rparr>" "events_ok s'"
  shows "journal_inv s'"
  using assms unfolding journal_inv_defs table_checks is_open_def by (simp add: keyed_update)

lemma inv_attempt:
  assumes "journal_inv s" "attempts_ok (s\<lparr>t_attempts := t_attempts s @ [a], t_next_attempt_id := n\<rparr>)"
    "at_id a = t_next_attempt_id s" "n = t_next_attempt_id s + 1"
  shows "journal_inv (s\<lparr>t_attempts := t_attempts s @ [a], t_next_attempt_id := n\<rparr>)"
proof -
  have "keyed at_id (t_attempts s @ [a]) n"
    using assms by (simp add: journal_inv_def keys_ok_def keyed_snoc)
  then show ?thesis
    using assms(1,2) unfolding journal_inv_defs table_checks is_open_def by (auto simp: list_all_iff assms(4))
qed

lemma inv_action:
  assumes "journal_inv s" "find_attempt (ac_attempt_id a) s = Some row" "attempt_open row"
    "actions_ok (s\<lparr>t_actions := t_actions s @ [a], t_next_action_id := n\<rparr>)"
    "ac_id a = t_next_action_id s" "n = t_next_action_id s + 1" "ac_pid a < 2 ^ 32"
  shows "journal_inv (s\<lparr>t_actions := t_actions s @ [a], t_next_action_id := n\<rparr>)"
proof -
  have "keyed ac_id (t_actions s @ [a]) n" using assms by (simp add: journal_inv_def keys_ok_def keyed_snoc)
  then show ?thesis
    using assms(1,4,7) find_attempt_open [OF assms(2,3)] find_attempt_bound [OF _ assms(2)] unfolding journal_inv_defs table_checks is_open_def by simp
qed

lemma inv_artifact:
  assumes "journal_inv s" "find_attempt (ar_attempt_id a) s = Some row" "attempt_open row"
    "artifact_actions_ok (s\<lparr>t_artifact_actions := t_artifact_actions s @ [a], t_next_artifact_action_id := n\<rparr>)"
    "ar_id a = t_next_artifact_action_id s" "n = t_next_artifact_action_id s + 1"
    "valid_artifact_fingerprint (ar_artifact_fingerprint a)"
  shows "journal_inv (s\<lparr>t_artifact_actions := t_artifact_actions s @ [a], t_next_artifact_action_id := n\<rparr>)"
proof -
  have "keyed ar_id (t_artifact_actions s @ [a]) n" using assms by (simp add: journal_inv_def keys_ok_def keyed_snoc)
  then show ?thesis
    using assms(1,4,7) find_attempt_open [OF assms(2,3)] find_attempt_bound [OF _ assms(2)] unfolding journal_inv_defs table_checks is_open_def by simp
qed

lemma inv_action_update:
  assumes "journal_inv s" "s' = s\<lparr>t_actions := update_where P
        (\<lambda>a. a\<lparr>ac_disposition := Some w, ac_completed_at := Some t\<rparr>) (t_actions s)\<rparr>" "actions_ok s'"
  shows "journal_inv s'"
  using assms unfolding journal_inv_defs table_checks is_open_def
  by (simp add: keyed_update list_all_update_where) (auto simp: list_all_iff)

lemma inv_artifact_update:
  assumes "journal_inv s" "s' = s\<lparr>t_artifact_actions := update_where P
        (\<lambda>a. a\<lparr>ar_disposition := Some w, ar_completed_at := Some t\<rparr>) (t_artifact_actions s)\<rparr>" "artifact_actions_ok s'"
  shows "journal_inv s'"
  using assms unfolding journal_inv_defs table_checks is_open_def
  by (simp add: keyed_update list_all_update_where) (auto simp: list_all_iff)

lemma inv_block: "journal_inv s \<Longrightarrow> retry_blocks_ok (s\<lparr>t_retry_blocks := bs\<rparr>) \<Longrightarrow> journal_inv (s\<lparr>t_retry_blocks := bs\<rparr>)"
  unfolding journal_inv_defs table_checks is_open_def by simp

lemma list_ex_close:
  assumes "list_ex (\<lambda>a. Q a) rows" "\<And>a. Q a \<Longrightarrow> \<not> P a"
  shows "list_ex (\<lambda>a. Q a) (update_where P f rows)"
  using assms by (auto simp: list_ex_iff intro: mem_update_where)

lemma inv_close:
  assumes inv: "journal_inv s" and res: "resolved i s" and run: "close_attempt i t rc n s = Inr (x, s')"
  shows "journal_inv s'"
proof -
  let ?P = "\<lambda>a. at_id a = i \<and> attempt_open a"
  let ?f = "closed_row t rc n"
  from run have s': "s' = s\<lparr>t_attempts := update_where ?P ?f (t_attempts s)\<rparr>" and ok: "attempts_ok s'"
    unfolding close_attempt_def db_constrained_Inr by simp_all
  have other: "is_open j s'" if "is_open j s" "j \<noteq> i" for j
    using that unfolding is_open_def s' by (auto intro!: list_ex_close)
  have prep: "ac_attempt_id a \<noteq> i" if "a \<in> set (t_actions s)" "ac_disposition a = None" for a
    using res that by (auto simp: resolved_def prepared_actions_def filter_empty_conv)
  have prepa: "ar_attempt_id a \<noteq> i" if "a \<in> set (t_artifact_actions s)" "ar_disposition a = None" for a
    using res that by (auto simp: resolved_def prepared_artifact_actions_def filter_empty_conv)
  have "tables_ok s'" using inv ok by (simp add: s' journal_inv_def tables_ok_def table_checks)
  moreover have "keys_ok s'" using inv by (simp add: s' journal_inv_def keys_ok_def keyed_update)
  moreover have "readable_rows s'" using inv by (simp add: s' journal_inv_def readable_rows_def)
  moreover have "references_ok s'" using inv by (simp add: s' journal_inv_def references_ok_def)
  moreover have "prepared_ok s'"
    using inv other prep prepa unfolding journal_inv_def prepared_ok_def list_all_iff by (simp add: s')
  moreover have "impacts_closed s'"
    using inv unfolding journal_inv_def impacts_closed_def list_all_iff by (auto simp: s' intro!: list_ex_close)
  ultimately show ?thesis by (simp add: journal_inv_def)
qed

lemma inv_impact:
  assumes "journal_inv s" "impacts_ok (s\<lparr>t_impacts := t_impacts s @ [j], t_next_impact_id := n\<rparr>)"
    "list_ex (\<lambda>a. at_id a = im_attempt_id j \<and> \<not> attempt_open a) (t_attempts s)" "im_event_id j < t_next_event_id s"
  shows "journal_inv (s\<lparr>t_impacts := t_impacts s @ [j], t_next_impact_id := n, t_impact_authority := u\<rparr>)"
  using assms unfolding journal_inv_defs table_checks is_open_def by simp

lemma read_then: "(\<And>I. keeps I m) \<Longrightarrow> (\<And>x. Q x s) \<Longrightarrow> dwp m Q s"
  by (rule dwp_keeps [where I = "\<lambda>t. t = s"]) auto

lemma insert_event_then:
  assumes "journal_inv s" "\<And>s'. journal_inv s' \<Longrightarrow> t_attempts s' = t_attempts s \<Longrightarrow>
      t_next_event_id s' = t_next_event_id s + 1 \<Longrightarrow> t_impacts s' = t_impacts s \<Longrightarrow> Q (t_next_event_id s) s'"
  shows "dwp (insert_event_transaction a t i k st p) Q s"
  unfolding insert_event_transaction_def insert_public_event_token_def dwp_simps
  by (intro allI impI assms(2) inv_token [OF inv_event [OF assms(1)] refl]) simp_all

lemma closed_attempt:
  "closed i s \<Longrightarrow> find_attempt i s = Some row \<Longrightarrow> list_ex (\<lambda>a. at_id a = i \<and> \<not> attempt_open a) (t_attempts s)"
  by (auto simp: closed_def find_attempt_def list_ex_iff list_all_iff dest: find_SomeD)

lemma inv_impact_transaction:
  assumes "journal_inv s" "closed i s" "e < t_next_event_id s"
  shows "dwp (insert_cleanup_impact_transaction i e t rc) (\<lambda>_. journal_inv) s"
proof (cases "find_attempt i s")
  case None
  then show ?thesis by (simp add: insert_cleanup_impact_transaction_def dwp_simps)
next
  case (Some row)
  show ?thesis
    unfolding insert_cleanup_impact_transaction_def dwp_simps Some option.case
    by (intro read_then [OF keeps_impact_reads(1)] read_then [OF keeps_impact_reads(2)] allI impI inv_impact assms)
       (simp_all add: assms closed_attempt [OF assms(2) Some])
qed

lemma inv_terminal:
  assumes "journal_inv s" "closed i s" "record_terminal i u rc s = Inr (x, s')"
  shows "journal_inv s'"
proof -
  have "dwp (record_terminal i u rc) (\<lambda>_. journal_inv) s"
    unfolding record_terminal_def dwp_simps
    by (intro insert_event_then inv_impact_transaction assms(1)) (use assms(2) in \<open>simp_all add: closed_def\<close>)
  then show ?thesis using assms(3) by (rule dwpD)
qed

interpretation journal: journal_statements journal_inv
  by unfold_locales (blast intro: inv_event inv_token inv_span inv_attempt inv_action inv_artifact inv_action_update
      inv_artifact_update inv_close inv_block inv_terminal)+

lemma empty_store_inv: "journal_inv empty_store"
  by (simp add: journal_inv_defs table_checks empty_store_def keyed_def)

text \<open>
  C21: one cleanup at a time. After any sequence of operations from an empty store, in any order and with
  any handles, every constraint of the journal tables holds, at most one attempt is open, a prepared
  action without a disposition belongs to an open attempt, and a cleanup is counted in the impact ledger
  only for a closed attempt, once.
\<close>

theorem one_open_attempt:
  "journal_inv (journal_history cs empty_store) \<and>
   length (filter attempt_open (t_attempts (journal_history cs empty_store))) \<le> 1 \<and>
   distinct (map im_attempt_id (t_impacts (journal_history cs empty_store)))"
proof -
  have inv: "journal_inv (journal_history cs empty_store)"
    by (rule journal.journal_history_keeps) (rule empty_store_inv)
  then show ?thesis by (simp add: journal_inv_def tables_ok_def attempts_ok_def impacts_ok_def)
qed

section \<open>When recovery succeeds\<close>

definition clock_reaches :: "int \<Rightarrow> store \<Rightarrow> bool" where
  "clock_reaches t s \<longleftrightarrow> list_all (\<lambda>a. attempt_open a \<longrightarrow> at_started_at a \<le> t) (t_attempts s)
     \<and> list_all (\<lambda>a. ac_disposition a = None \<longrightarrow> ac_prepared_at a \<le> t) (t_actions s)
     \<and> list_all (\<lambda>a. ar_disposition a = None \<longrightarrow> ar_prepared_at a \<le> t) (t_artifact_actions s)"

definition fresh_token :: "store \<Rightarrow> bool" where
  "fresh_token s \<longleftrightarrow> length (t_random s (t_draws s)) = 32 \<and> t_random s (t_draws s) \<notin> set (map snd (t_event_tokens s))"

definition unknown_action :: "int \<Rightarrow> action_row \<Rightarrow> action_row" where
  "unknown_action t a = a\<lparr>ac_disposition := Some ''delivery_unknown'', ac_completed_at := Some t\<rparr>"

definition unknown_artifact :: "int \<Rightarrow> artifact_row \<Rightarrow> artifact_row" where
  "unknown_artifact t a = a\<lparr>ar_disposition := Some ''delivery_unknown'', ar_completed_at := Some t\<rparr>"

definition resolve_state :: "int \<Rightarrow> int \<Rightarrow> store \<Rightarrow> store" where
  "resolve_state t i s = s\<lparr>t_actions := update_where (\<lambda>a. ac_attempt_id a = i \<and> ac_disposition a = None) (unknown_action t) (t_actions s),
     t_artifact_actions := update_where (\<lambda>a. ar_attempt_id a = i \<and> ar_disposition a = None) (unknown_artifact t) (t_artifact_actions s)\<rparr>"

lemma action_check_unknown: "action_check a \<Longrightarrow> action_check (unknown_action t a) \<longleftrightarrow> ac_prepared_at a \<le> t"
  by (simp add: action_check_def check_opt_def unknown_action_def)

lemma artifact_check_unknown: "artifact_check a \<Longrightarrow> artifact_check (unknown_artifact t a) \<longleftrightarrow> ar_prepared_at a \<le> t"
  by (simp add: artifact_check_def check_opt_def unknown_artifact_def)

lemma list_all_resolved:
  assumes "list_all C rows" "\<And>a. C a \<Longrightarrow> C (f a) \<longleftrightarrow> p a \<le> t"
  shows "list_all C (update_where P f rows) \<longleftrightarrow> list_all (\<lambda>a. P a \<longrightarrow> p a \<le> t) rows"
  unfolding list_all_update_where using assms by (auto simp: list_all_iff)

lemma resolve_exact:
  assumes inv: "journal_inv s"
  shows "resolve_prepared t i s =
    (if list_all (\<lambda>a. ac_attempt_id a = i \<and> ac_disposition a = None \<longrightarrow> ac_prepared_at a \<le> t) (t_actions s)
        \<and> list_all (\<lambda>a. ar_attempt_id a = i \<and> ar_disposition a = None \<longrightarrow> ar_prepared_at a \<le> t) (t_artifact_actions s)
     then Inr ((), resolve_state t i s) else Inl (Sqlite ''constraint failed''))"
proof -
  have ok: "list_all action_check (t_actions s)" "distinct (map (\<lambda>a. (ac_attempt_id a, ac_sequence a)) (t_actions s))"
      "list_all artifact_check (t_artifact_actions s)"
      "distinct (map (\<lambda>a. (ar_attempt_id a, ar_sequence a)) (t_artifact_actions s))"
    using inv by (simp_all add: journal_inv_def tables_ok_def table_checks)
  have "map (\<lambda>a. (ac_attempt_id a, ac_sequence a)) (update_where P (unknown_action t) (t_actions s)) =
      map (\<lambda>a. (ac_attempt_id a, ac_sequence a)) (t_actions s)" for P
    by (rule map_update_where) (simp add: unknown_action_def)
  moreover have "map (\<lambda>a. (ar_attempt_id a, ar_sequence a)) (update_where P (unknown_artifact t) (t_artifact_actions s)) =
      map (\<lambda>a. (ar_attempt_id a, ar_sequence a)) (t_artifact_actions s)" for P
    by (rule map_update_where) (simp add: unknown_artifact_def)
  ultimately show ?thesis
    unfolding resolve_prepared_def db_bind_def db_constrained_def actions_ok_def artifact_actions_ok_def
      unknown_action_def [symmetric] unknown_artifact_def [symmetric]
    by (simp add: list_all_resolved [OF ok(1) action_check_unknown] list_all_resolved [OF ok(3) artifact_check_unknown]
        ok resolve_state_def)
qed

lemma db_map_Inr: "(\<And>x. x \<in> set xs \<Longrightarrow> \<exists>y. f x s = Inr (y, s)) \<Longrightarrow> \<exists>ys. db_map f xs s = Inr (ys, s)"
proof (induction xs)
  case (Cons x xs)
  then obtain y ys where "f x s = Inr (y, s)" "db_map f xs s = Inr (ys, s)" by (metis list.set_intros)
  then show ?case by (simp add: db_ops)
qed (simp add: db_ops)

lemma action_of_row_readable:
  assumes "action_check a" "ac_pid a < 2 ^ 32" "ac_disposition a \<noteq> None"
  shows "\<exists>x. action_of_row a s = Inr (x, s)"
proof -
  have "\<exists>x. parse_cleanup_stage (ac_stage a) = Inr x" "\<exists>x. parse_cleanup_signal (ac_signal a) = Inr x"
      "\<exists>x. parse_signal_disposition (the (ac_disposition a)) = Inr x" "\<exists>x. parse_pid (ac_pid a) = Inr x"
    using assms by (auto simp: action_check_def check_opt_def parse_cleanup_stage_def parse_cleanup_signal_def
        parse_signal_disposition_def parse_pid_def)
  then show ?thesis using assms(3) by (auto simp: action_of_row_def db_ops)
qed

lemma artifact_action_of_row_readable:
  assumes "artifact_check a" "valid_artifact_fingerprint (ar_artifact_fingerprint a)" "ar_disposition a \<noteq> None"
  shows "\<exists>x. artifact_action_of_row a s = Inr (x, s)"
proof -
  have "\<exists>x. parse_runtime_artifact_kind (ar_kind a) = Inr x" "\<exists>x. parse_artifact_disposition (the (ar_disposition a)) = Inr x"
    using assms by (auto simp: artifact_check_def check_opt_def parse_runtime_artifact_kind_def parse_artifact_disposition_def)
  then show ?thesis using assms(2,3) by (auto simp: artifact_action_of_row_def db_ops)
qed

lemma receipts_readable:
  assumes "journal_inv s" "resolved i s"
  shows "\<exists>xs. actions_for_attempt i s = Inr (xs, s)" "\<exists>ys. artifact_actions_for_attempt i s = Inr (ys, s)"
proof -
  have "\<exists>y. action_of_row a s = Inr (y, s)" if "a \<in> set (attempt_actions i s)" for a
    using assms that
    by (intro action_of_row_readable)
       (auto simp: attempt_actions_def journal_inv_def tables_ok_def table_checks readable_rows_def list_all_iff
         resolved_def prepared_actions_def filter_empty_conv)
  then have "\<exists>xs. db_map action_of_row (attempt_actions i s) s = Inr (xs, s)" by (rule db_map_Inr)
  then show "\<exists>xs. actions_for_attempt i s = Inr (xs, s)"
    by (simp add: actions_for_attempt_def db_ops)
  have "\<exists>y. artifact_action_of_row a s = Inr (y, s)" if "a \<in> set (attempt_artifact_actions i s)" for a
    using assms that
    by (intro artifact_action_of_row_readable)
       (auto simp: attempt_artifact_actions_def journal_inv_def tables_ok_def table_checks readable_rows_def list_all_iff
         resolved_def prepared_artifact_actions_def filter_empty_conv)
  then have "\<exists>ys. db_map artifact_action_of_row (attempt_artifact_actions i s) s = Inr (ys, s)" by (rule db_map_Inr)
  then show "\<exists>ys. artifact_actions_for_attempt i s = Inr (ys, s)"
    by (simp add: artifact_actions_for_attempt_def db_ops)
qed

lemma terminal_state_name: "st \<in> {Cleared, Failed, Revived} \<Longrightarrow> state_name st \<in> {''CLEARED'', ''FAILED'', ''REVIVED''}"
  by auto

lemma attempt_check_closed:
  assumes "attempt_check a" "rcpt_state rc \<in> {Cleared, Failed, Revived}" "0 \<le> n"
  shows "attempt_check (closed_row t rc n a) \<longleftrightarrow> at_started_at a \<le> t"
  using assms terminal_state_name [OF assms(2)] by (simp add: attempt_check_def check_opt_def closed_row_def)

lemma filter_open_close:
  assumes "\<And>a. \<not> attempt_open (f a)"
  shows "length (filter attempt_open (update_where P f rows)) \<le> length (filter attempt_open rows)"
  using assms by (induction rows) (auto simp: update_where_def)

lemma open_row_unique:
  assumes "journal_inv s" "row \<in> set (t_attempts s)" "a \<in> set (t_attempts s)" "at_id a = at_id row"
  shows "a = row"
proof -
  have "distinct (map at_id (t_attempts s))" using assms(1) by (simp add: journal_inv_def keys_ok_def keyed_def)
  then show ?thesis using assms(2-4) by (meson distinct_map inj_onD)
qed

lemma close_exact:
  assumes inv: "journal_inv s" and row: "row \<in> set (t_attempts s)" "attempt_open row"
    and rc: "rcpt_state rc \<in> {Cleared, Failed, Revived}" "0 \<le> n"
  shows "close_attempt (at_id row) t rc n s =
    (if at_started_at row \<le> t
     then Inr ((), s\<lparr>t_attempts := update_where (\<lambda>a. at_id a = at_id row \<and> attempt_open a) (closed_row t rc n) (t_attempts s)\<rparr>)
     else Inl (Sqlite ''constraint failed''))"
proof -
  let ?P = "\<lambda>a. at_id a = at_id row \<and> attempt_open a"
  have ok: "list_all attempt_check (t_attempts s)" "length (filter attempt_open (t_attempts s)) \<le> 1"
    using inv by (simp_all add: journal_inv_def tables_ok_def table_checks)
  have "list_all attempt_check (update_where ?P (closed_row t rc n) (t_attempts s)) \<longleftrightarrow>
      list_all (\<lambda>a. ?P a \<longrightarrow> at_started_at a \<le> t) (t_attempts s)"
    by (rule list_all_resolved [OF ok(1)]) (rule attempt_check_closed [OF _ rc])
  also have "\<dots> \<longleftrightarrow> at_started_at row \<le> t"
    using row open_row_unique [OF inv row(1)] by (auto simp: list_all_iff)
  finally show ?thesis
    using ok(2) filter_open_close [of "closed_row t rc n" ?P "t_attempts s"]
    by (simp add: close_attempt_def db_constrained_def attempts_ok_def)
qed

lemma upsert_mem: "row \<in> set (upsert P (\<lambda>_. row) row rows)"
proof (cases "list_ex P rows")
  case True
  then obtain r where "r \<in> set rows" "P r" by (auto simp: list_ex_iff)
  then have "\<exists>q\<in>set rows. row = (if P q then row else q)" by auto
  then show ?thesis using True by (simp add: upsert_def set_update_where)
qed (simp add: upsert_def)

lemma retry_upsert_distinct:
  assumes "distinct (map k rows)" "\<And>r. P r \<longleftrightarrow> k r = k row"
  shows "distinct (map k (upsert P (\<lambda>_. row) row rows))"
proof (cases "list_ex P rows")
  case True
  have "map k (update_where P (\<lambda>_. row) rows) = map k rows" using assms(2) by (intro map_update_where) simp
  then show ?thesis using True assms(1) by (simp add: upsert_def)
next
  case False
  then have "k row \<notin> set (map k rows)" using assms(2) by (auto simp: list_ex_iff image_iff)
  then show ?thesis using False assms(1) by (simp add: upsert_def)
qed

lemma retry_block_succeeds:
  assumes "journal_inv s" "0 \<le> t"
  shows "\<exists>bs. insert_retry_block i k t q n s = Inr ((), s\<lparr>t_retry_blocks := bs\<rparr>) \<and> list_ex (\<lambda>b. rb_incident_id b = i \<and> rb_source_attempt_id b = n) bs"
proof -
  let ?row = "\<lparr>rb_incident_id = i, rb_tracking_key = k, rb_blocked_at = t, rb_reason_id = q,
            rb_source_attempt_id = n, rb_last_exact_observed_at = None, rb_absence_since = None\<rparr>"
  let ?bs = "upsert (\<lambda>b. rb_incident_id b = i) (\<lambda>_. ?row) ?row (t_retry_blocks s)"
  have "list_all retry_block_check (t_retry_blocks s)" using assms(1) by (simp add: journal_inv_def tables_ok_def table_checks)
  moreover have "retry_block_check ?row" using assms(2) by (simp add: retry_block_check_def check_opt_def)
  ultimately have "list_all retry_block_check ?bs" by (auto simp: upsert_def update_where_def list_all_iff)
  moreover have "distinct (map rb_incident_id ?bs)"
    using assms(1) by (intro retry_upsert_distinct) (simp_all add: journal_inv_def tables_ok_def table_checks)
  moreover have "list_ex (\<lambda>b. rb_incident_id b = i \<and> rb_source_attempt_id b = n) ?bs"
    unfolding list_ex_iff by (rule bexI [OF _ upsert_mem]) simp
  ultimately show ?thesis
    by (intro exI [of _ ?bs]) (simp add: insert_retry_block_def Let_def db_constrained_def retry_blocks_ok_def)
qed

lemma insert_event_succeeds:
  assumes "journal_inv s" "fresh_token s" "uint u < 2 ^ 63"
  shows "\<exists>s'. insert_event_transaction a u i CleanupEvent st p s = Inr (t_next_event_id s, s')
     \<and> t_attempts s' = t_attempts s \<and> t_actions s' = t_actions s \<and> t_impacts s' = t_impacts s"
proof -
  have "sqlite_millis u l = Inr (uint u)" for l using assms(3) by (simp add: sqlite_millis_Inr)
  moreover have "events_ok s" "tokens_ok s" using assms(1) by (simp_all add: journal_inv_def tables_ok_def)
  ultimately show ?thesis
    using assms(2)
    by (simp add: insert_event_transaction_def insert_public_event_token_def db_ops events_ok_def event_check_def
        tokens_ok_def fresh_token_def)
qed

lemma process_outcome_words: "process_outcome_name p \<in> {''cleared'', ''revived'', ''failed'', ''delivery_unknown''}"
  by (cases p) simp_all

lemma artifact_outcome_words:
  "artifact_outcome_name ao \<in> {''not_applicable'', ''reconciled'', ''residue'', ''delivery_unknown''}"
  by (cases ao) simp_all

lemma overall_outcome_words:
  "overall_outcome_name oo \<in> {''cleared'', ''cleared_with_residue'', ''revived'', ''failed''}"
  by (cases oo) simp_all

lemma impact_succeeds:
  assumes inv: "journal_inv s" and row: "find_attempt i s = Some row" and no: "i \<notin> set (map im_attempt_id (t_impacts s))"
    and e: "e \<notin> set (map im_event_id (t_impacts s))" and u: "uint u < 2 ^ 63"
    and rc: "rcpt_state rc \<in> {Cleared, Failed, Revived}" "rcpt_revival_checks_completed rc = 0"
      "rcpt_resources rc = cleanup_resources_default"
  shows "\<exists>s'. insert_cleanup_impact_transaction i e u rc s = Inr ((), s')"
proof -
  have millis: "sqlite_millis u l = Inr (uint u)" for l using u by (simp add: sqlite_millis_Inr)
  have ok: "list_all impact_check (t_impacts s)" "distinct (map im_attempt_id (t_impacts s))"
      "distinct (map im_event_id (t_impacts s))"
    using inv by (simp_all add: journal_inv_def tables_ok_def table_checks)
  have "attempt_check row"
    using inv row by (auto simp: journal_inv_def tables_ok_def table_checks list_all_iff find_attempt_def dest: find_SomeD)
  then have count: "check_opt (\<lambda>n. 0 \<le> n) (at_process_count row)" by (simp add: attempt_check_def)
  have reads: "\<exists>n. impact_process_count b rc (at_process_count row) s = Inr (n, s) \<and> check_opt (\<lambda>n. 0 \<le> n) n"
      "impact_memory b rc s = Inr (None, s)" for b
    using count by (simp_all add: impact_process_count_def impact_memory_def rc(3) cleanup_resources_default_def db_ops check_opt_def)
  define b where "b \<longleftrightarrow> process_outcome_of rc = ProcessCleared
           \<and> list_ex (\<lambda>a. ac_attempt_id a = i \<and> ac_disposition a = Some ''delivered'') (t_actions s)"
  obtain n where n: "impact_process_count b rc (at_process_count row) s = Inr (n, s)" "check_opt (\<lambda>n. 0 \<le> n) n"
    using reads(1) by blast
  show ?thesis
    using ok no e n(2) reads(2) [of b] process_outcome_words [of "oc_process (outcome rc)"]
      artifact_outcome_words [of "oc_artifact (outcome rc)"] overall_outcome_words [of "oc_overall (outcome rc)"] terminal_state_name [OF rc(1)]
    by (simp add: insert_cleanup_impact_transaction_def db_bind_def db_read_def row b_def [symmetric] n(1) db_lift_def
        millis rc(2) sqlite_usize_def db_constrained_def impacts_ok_def impact_check_def db_write_def check_opt_def)
qed

section \<open>What recovery leaves\<close>

lemma record_terminal_frame:
  "keeps (\<lambda>s. t_attempts s = A \<and> t_retry_blocks s = B \<and> t_actions s = C \<and> t_artifact_actions s = D) (record_terminal i u rc)"
  unfolding record_terminal_def insert_event_transaction_def insert_public_event_token_def
    insert_cleanup_impact_transaction_def
  by (intro keeps_bind keeps_intros keeps_option keeps_impact_reads keeps_constrained keeps_write) simp_all

lemma record_terminal_succeeds:
  assumes inv: "journal_inv s" and tok: "fresh_token s" and row: "find_attempt i s = Some row"
    and no: "i \<notin> set (map im_attempt_id (t_impacts s))" and u: "uint u < 2 ^ 63"
    and rc: "rcpt_state rc \<in> {Cleared, Failed, Revived}" "rcpt_revival_checks_completed rc = 0"
      "rcpt_resources rc = cleanup_resources_default"
  shows "\<exists>s'. record_terminal i u rc s = Inr ((), s')"
proof -
  from insert_event_succeeds [OF inv tok u] obtain s1 where
    s1: "insert_event_transaction (Some i) u (rcpt_incident_id rc) CleanupEvent (rcpt_state rc) (CleanupPayload rc) s =
        Inr (t_next_event_id s, s1)" "t_attempts s1 = t_attempts s" "t_impacts s1 = t_impacts s" by blast
  have "journal_inv s1" using keepsD [OF journal.keeps_insert_event inv s1(1)] .
  moreover have "t_next_event_id s \<notin> set (map im_event_id (t_impacts s1))"
    using inv by (auto simp: s1(3) journal_inv_def impacts_closed_def list_all_iff)
  moreover have "find_attempt i s1 = Some row" using row s1(2) by (simp add: find_attempt_def)
  ultimately obtain s2 where "insert_cleanup_impact_transaction i (t_next_event_id s) u rc s1 = Inr ((), s2)"
    using impact_succeeds [of s1 i row "t_next_event_id s" u rc] no u rc s1(3) by auto
  then show ?thesis by (simp add: record_terminal_def db_bind_def s1(1))
qed

lemma open_attempt_no_impact:
  assumes "journal_inv s" "row \<in> set (t_attempts s)" "attempt_open row"
  shows "at_id row \<notin> set (map im_attempt_id (t_impacts s))"
proof
  assume "at_id row \<in> set (map im_attempt_id (t_impacts s))"
  then obtain j where "j \<in> set (t_impacts s)" "im_attempt_id j = at_id row" by auto
  then obtain a where "a \<in> set (t_attempts s)" "at_id a = at_id row" "\<not> attempt_open a"
    using assms(1) by (auto simp: journal_inv_def impacts_closed_def list_all_iff list_ex_iff)
  then show False using open_row_unique [OF assms(1,2)] assms(3) by blast
qed

lemma find_attempt_mem:
  assumes "journal_inv s" "row \<in> set (t_attempts s)"
  shows "find_attempt (at_id row) s = Some row"
proof -
  have "find_attempt (at_id row) s \<noteq> None" using assms(2) by (auto simp: find_attempt_def find_None_iff)
  then obtain q where "find_attempt (at_id row) s = Some q" by blast
  then show ?thesis using open_row_unique [OF assms] by (auto simp: find_attempt_def dest: find_SomeD)
qed

text \<open>The receipt of a recovered attempt.\<close>

definition recovered_receipt :: "attempt_row \<Rightarrow> string \<Rightarrow> cleanup_action list \<Rightarrow> artifact_action list \<Rightarrow> cleanup_receipt" where
  "recovered_receipt row reason xs ys = \<lparr>rcpt_incident_id = at_incident_id row, rcpt_state = Failed,
     rcpt_reason_id = Some reason, rcpt_actions = xs, rcpt_artifact_actions = ys, rcpt_survivor_pids = [],
     rcpt_revival_checks_completed = 0, rcpt_resources = cleanup_resources_default\<rparr>"

lemma recover_attempt_exact:
  assumes inv: "journal_inv s" and tok: "fresh_token s" and row: "row \<in> set (t_attempts s)" "attempt_open row"
    and u: "uint u < 2 ^ 63"
  shows "(\<exists>x. recover_attempt u (uint u) row s = Inr x) \<longleftrightarrow> at_started_at row \<le> uint u
    \<and> list_all (\<lambda>a. ac_attempt_id a = at_id row \<and> ac_disposition a = None \<longrightarrow> ac_prepared_at a \<le> uint u) (t_actions s)
    \<and> list_all (\<lambda>a. ar_attempt_id a = at_id row \<and> ar_disposition a = None \<longrightarrow> ar_prepared_at a \<le> uint u) (t_artifact_actions s)"
proof (cases "\<exists>s1. resolve_prepared (uint u) (at_id row) s = Inr ((), s1)")
  case False
  then have "\<exists>e. resolve_prepared (uint u) (at_id row) s = Inl e" unfolding resolve_exact [OF inv] by (simp split: if_splits)
  moreover from False have "\<not> (list_all (\<lambda>a. ac_attempt_id a = at_id row \<and> ac_disposition a = None \<longrightarrow> ac_prepared_at a \<le> uint u) (t_actions s)
    \<and> list_all (\<lambda>a. ar_attempt_id a = at_id row \<and> ar_disposition a = None \<longrightarrow> ar_prepared_at a \<le> uint u) (t_artifact_actions s))"
    unfolding resolve_exact [OF inv] by auto
  ultimately show ?thesis by (auto simp: recover_attempt_def db_bind_def db_read_def)
next
  case True
  define s1 where "s1 = resolve_state (uint u) (at_id row) s"
  from True have res: "resolve_prepared (uint u) (at_id row) s = Inr ((), s1)"
    unfolding resolve_exact [OF inv] s1_def by (simp split: if_splits)
  have prep: "list_all (\<lambda>a. ac_attempt_id a = at_id row \<and> ac_disposition a = None \<longrightarrow> ac_prepared_at a \<le> uint u) (t_actions s)
    \<and> list_all (\<lambda>a. ar_attempt_id a = at_id row \<and> ar_disposition a = None \<longrightarrow> ar_prepared_at a \<le> uint u) (t_artifact_actions s)"
    using True unfolding resolve_exact [OF inv] by (simp split: if_splits)
  have inv1: "journal_inv s1" using keepsD [OF journal.keeps_resolve inv res] .
  have rs1: "resolved (at_id row) s1" using dwpD [OF resolve_prepared_resolves res] .
  obtain xs ys where reads: "actions_for_attempt (at_id row) s1 = Inr (xs, s1)"
      "artifact_actions_for_attempt (at_id row) s1 = Inr (ys, s1)" using receipts_readable [OF inv1 rs1] by blast
  have row1: "row \<in> set (t_attempts s1)" using row(1) by (simp add: s1_def resolve_state_def)
  show ?thesis
  proof (cases "at_started_at row \<le> uint u")
    case False
    then have "close_attempt (at_id row) (uint u) (recovered_receipt row q xs ys) 0 s1 = Inl (Sqlite ''constraint failed'')" for q
      by (subst close_exact [OF inv1 row1 row(2)]) (simp_all add: recovered_receipt_def)
    then show ?thesis using False res reads
      by (simp add: recover_attempt_def db_bind_def db_read_def Let_def recovered_receipt_def)
  next
    case started: True
    define q where "q = recovery_reason (prepared_actions (at_id row) s) (prepared_artifact_actions (at_id row) s)
         (count_disposed (at_id row) ''delivery_unknown'' ''delivery_unknown'' s)
         (count_disposed (at_id row) ''delivered'' ''removed'' s)"
    define rc where "rc = recovered_receipt row q xs ys"
    define s2 where "s2 = s1\<lparr>t_attempts := update_where (\<lambda>a. at_id a = at_id row \<and> attempt_open a) (closed_row (uint u) rc 0) (t_attempts s1)\<rparr>"
    have close: "close_attempt (at_id row) (uint u) rc 0 s1 = Inr ((), s2)"
      using started by (subst close_exact [OF inv1 row1 row(2)]) (simp_all add: rc_def recovered_receipt_def s2_def)
    have inv2: "journal_inv s2" using inv_close [OF inv1 rs1 close] .
    obtain bs where block: "insert_retry_block (at_incident_id row) (at_tracking_key row) (uint u) (Some q) (at_id row) s2 =
        Inr ((), s2\<lparr>t_retry_blocks := bs\<rparr>)" using retry_block_succeeds [OF inv2, of "uint u"] uint_ge_0 by blast
    let ?s3 = "s2\<lparr>t_retry_blocks := bs\<rparr>"
    have inv3: "journal_inv ?s3" using keepsD [OF journal.keeps_retry_block inv2 block] .
    have "closed_row (uint u) rc 0 row \<in> set (t_attempts ?s3)" using row1 row(2) by (auto simp: s2_def update_where_def)
    from find_attempt_mem [OF inv3 this] have "find_attempt (at_id row) ?s3 = Some (closed_row (uint u) rc 0 row)" by simp
    moreover have "at_id row \<notin> set (map im_attempt_id (t_impacts ?s3))"
      using open_attempt_no_impact [OF inv row] by (simp add: s2_def s1_def resolve_state_def)
    moreover have "fresh_token ?s3" using tok by (simp add: fresh_token_def s2_def s1_def resolve_state_def)
    ultimately obtain s4 where "record_terminal (at_id row) u rc ?s3 = Inr ((), s4)"
      using record_terminal_succeeds [OF inv3, of "at_id row" _ u rc] u by (auto simp: rc_def recovered_receipt_def)
    then have "recover_attempt u (uint u) row s = Inr (rc, s4)"
      using res reads close block
      by (simp add: recover_attempt_def db_bind_def db_read_def Let_def q_def [symmetric] db_return_def
          rc_def recovered_receipt_def)
    then show ?thesis using started prep by blast
  qed
qed

lemma recover_attempt_leaves:
  assumes inv: "journal_inv s" and run: "recover_attempt u t row s = Inr (rc, s')"
  shows "rcpt_incident_id rc = at_incident_id row" "rcpt_state rc = Failed"
    "t_attempts s' = update_where (\<lambda>a. at_id a = at_id row \<and> attempt_open a) (closed_row t rc 0) (t_attempts s)"
    "\<exists>b\<in>set (t_retry_blocks s'). rb_incident_id b = at_incident_id row \<and> rb_source_attempt_id b = at_id row"
    "t_actions s' = t_actions (resolve_state t (at_id row) s)"
    "t_artifact_actions s' = t_artifact_actions (resolve_state t (at_id row) s)"
proof -
  have same: "s2 = s1" if "(\<And>I. keeps I m)" "m s1 = Inr (x, s2)" for m :: "'z db" and s1 s2 x
    using keepsD [OF that(1), of "\<lambda>t. t = s1"] that(2) by blast
  define q where "q = recovery_reason (prepared_actions (at_id row) s) (prepared_artifact_actions (at_id row) s)
         (count_disposed (at_id row) ''delivery_unknown'' ''delivery_unknown'' s)
         (count_disposed (at_id row) ''delivered'' ''removed'' s)"
  from run obtain s1 xs s1a ys s1b s2 s3 where
    res: "resolve_prepared t (at_id row) s = Inr ((), s1)"
    and xs: "actions_for_attempt (at_id row) s1 = Inr (xs, s1a)" and ys: "artifact_actions_for_attempt (at_id row) s1a = Inr (ys, s1b)"
    and rc: "rc = recovered_receipt row q xs ys"
    and close: "close_attempt (at_id row) t rc 0 s1b = Inr ((), s2)"
    and block: "insert_retry_block (at_incident_id row) (at_tracking_key row) t (Some q) (at_id row) s2 = Inr ((), s3)"
    and rec: "record_terminal (at_id row) u rc s3 = Inr ((), s')"
    by (auto simp: recover_attempt_def Let_def db_bind_Inr db_read_Inr db_return_Inr q_def recovered_receipt_def)
  have s1: "s1a = s1" "s1b = s1" using same [OF keeps_actions(1) xs] same [OF keeps_actions(2) ys] by simp_all
  have s1': "s1 = resolve_state t (at_id row) s" using res unfolding resolve_exact [OF inv] by (simp split: if_splits)
  have s2: "s2 = s1\<lparr>t_attempts := update_where (\<lambda>a. at_id a = at_id row \<and> attempt_open a) (closed_row t rc 0) (t_attempts s1)\<rparr>"
    using close by (simp add: close_attempt_def db_constrained_Inr s1)
  obtain b bs where s3: "s3 = s2\<lparr>t_retry_blocks := bs\<rparr>" and b: "b \<in> set bs" "rb_incident_id b = at_incident_id row"
      "rb_source_attempt_id b = at_id row"
    using block upsert_mem unfolding insert_retry_block_def Let_def db_constrained_Inr
    by (metis retry_block_row.select_convs(1,5))
  have frame: "t_attempts s' = t_attempts s3 \<and> t_retry_blocks s' = t_retry_blocks s3 \<and> t_actions s' = t_actions s3
      \<and> t_artifact_actions s' = t_artifact_actions s3"
    using keepsD [OF record_terminal_frame, of s3 "t_attempts s3" "t_retry_blocks s3" "t_actions s3" "t_artifact_actions s3"] rec by blast
  show "rcpt_incident_id rc = at_incident_id row" "rcpt_state rc = Failed" by (simp_all add: rc recovered_receipt_def)
  show "t_attempts s' = update_where (\<lambda>a. at_id a = at_id row \<and> attempt_open a) (closed_row t rc 0) (t_attempts s)"
    "t_actions s' = t_actions (resolve_state t (at_id row) s)"
    "t_artifact_actions s' = t_artifact_actions (resolve_state t (at_id row) s)"
    using frame by (simp_all add: s3 s2 s1' resolve_state_def)
  show "\<exists>b\<in>set (t_retry_blocks s'). rb_incident_id b = at_incident_id row \<and> rb_source_attempt_id b = at_id row"
    using frame b by (auto simp: s3)
qed

lemma open_rows_cases:
  assumes "journal_inv s"
  obtains "filter attempt_open (t_attempts s) = []"
  | row where "filter attempt_open (t_attempts s) = [row]" "row \<in> set (t_attempts s)" "attempt_open row"
proof -
  have "length (filter attempt_open (t_attempts s)) \<le> 1" using assms by (simp add: journal_inv_def tables_ok_def table_checks)
  then consider "filter attempt_open (t_attempts s) = []" | row where "filter attempt_open (t_attempts s) = [row]"
    by (cases "filter attempt_open (t_attempts s)") auto
  then show thesis
  proof cases
    case 2
    then have "row \<in> set (filter attempt_open (t_attempts s))" by simp
    then show ?thesis using that(2) [OF 2] by simp
  qed (rule that(1))
qed

text \<open>An attempt that may have had an effect: an action of it is prepared, delivered or of unknown fate.\<close>

definition touched :: "attempt_row \<Rightarrow> store \<Rightarrow> bool" where
  "touched row s \<longleftrightarrow>
     list_ex (\<lambda>a. ac_attempt_id a = at_id row \<and> ac_disposition a \<in> {None, Some ''delivered'', Some ''delivery_unknown''}) (t_actions s)
     \<or> list_ex (\<lambda>a. ar_attempt_id a = at_id row \<and> ar_disposition a \<in> {None, Some ''removed'', Some ''delivery_unknown''}) (t_artifact_actions s)"

lemma blockerI:
  assumes "b \<in> set (t_retry_blocks s)" "rb_source_attempt_id b = i"
    "(\<exists>a\<in>set (t_actions s). ac_attempt_id a = i \<and> ac_disposition a \<in> {Some ''delivered'', Some ''delivery_unknown''})
     \<or> (\<exists>a\<in>set (t_artifact_actions s). ar_attempt_id a = i \<and> ar_disposition a \<in> {Some ''removed'', Some ''delivery_unknown''})"
  shows "persistent_enforcement_blocker s \<noteq> None"
proof -
  have "action_disposed s ''delivery_unknown'' ''delivery_unknown'' b \<or> action_disposed s ''delivered'' ''removed'' b"
    using assms(2,3) by (auto simp: action_disposed_def list_ex_iff)
  then have "list_ex (action_disposed s ''delivery_unknown'' ''delivery_unknown'') (t_retry_blocks s)
      \<or> list_ex (action_disposed s ''delivered'' ''removed'') (t_retry_blocks s)"
    using assms(1) by (auto simp: list_ex_iff)
  then show ?thesis by (auto simp: persistent_enforcement_blocker_def)
qed

lemma update_where_mem: "r \<in> set rows \<Longrightarrow> (if P r then f r else r) \<in> set (update_where P f rows)"
  by (auto simp: set_update_where)

lemma recovered_blocks_arming:
  assumes inv: "journal_inv s" and run: "recover_attempt u t row s = Inr (rc, s')" and touch: "touched row s"
  shows "persistent_enforcement_blocker s' \<noteq> None"
proof -
  note left = recover_attempt_leaves [OF inv run]
  obtain b where b: "b \<in> set (t_retry_blocks s')" "rb_source_attempt_id b = at_id row" using left(4) by blast
  from touch show ?thesis unfolding touched_def list_ex_iff
  proof
    assume "\<exists>a\<in>set (t_actions s). ac_attempt_id a = at_id row \<and> ac_disposition a \<in> {None, Some ''delivered'', Some ''delivery_unknown''}"
    then obtain a where a: "a \<in> set (t_actions s)" "ac_attempt_id a = at_id row"
        "ac_disposition a \<in> {None, Some ''delivered'', Some ''delivery_unknown''}" by blast
    let ?a = "if ac_attempt_id a = at_id row \<and> ac_disposition a = None then unknown_action t a else a"
    have "?a \<in> set (t_actions s')"
      using update_where_mem [OF a(1), of "\<lambda>a. ac_attempt_id a = at_id row \<and> ac_disposition a = None" "unknown_action t"]
      unfolding left(5) resolve_state_def by simp
    moreover have "ac_attempt_id ?a = at_id row" "ac_disposition ?a \<in> {Some ''delivered'', Some ''delivery_unknown''}"
      using a by (auto simp: unknown_action_def)
    ultimately show ?thesis using blockerI [OF b] by blast
  next
    assume "\<exists>a\<in>set (t_artifact_actions s). ar_attempt_id a = at_id row \<and> ar_disposition a \<in> {None, Some ''removed'', Some ''delivery_unknown''}"
    then obtain a where a: "a \<in> set (t_artifact_actions s)" "ar_attempt_id a = at_id row"
        "ar_disposition a \<in> {None, Some ''removed'', Some ''delivery_unknown''}" by blast
    let ?a = "if ar_attempt_id a = at_id row \<and> ar_disposition a = None then unknown_artifact t a else a"
    have "?a \<in> set (t_artifact_actions s')"
      using update_where_mem [OF a(1), of "\<lambda>a. ar_attempt_id a = at_id row \<and> ar_disposition a = None" "unknown_artifact t"]
      unfolding left(6) resolve_state_def by simp
    moreover have "ar_attempt_id ?a = at_id row" "ar_disposition ?a \<in> {Some ''removed'', Some ''delivery_unknown''}"
      using a by (auto simp: unknown_artifact_def)
    ultimately show ?thesis using blockerI [OF b] by blast
  qed
qed

lemma no_open_after_close:
  assumes inv: "journal_inv s" and one: "filter attempt_open (t_attempts s) = [row]"
  shows "filter attempt_open (update_where (\<lambda>a. at_id a = at_id row \<and> attempt_open a) (closed_row t rc n) (t_attempts s)) = []"
proof -
  have "a = row" if "a \<in> set (t_attempts s)" "attempt_open a" for a
    using arg_cong [OF one, of set] that by auto
  then have "\<not> attempt_open (if at_id a = at_id row \<and> attempt_open a then closed_row t rc n a else a)"
    if "a \<in> set (t_attempts s)" for a using that by auto
  then have "list_all (\<lambda>a. \<not> attempt_open a) (update_where (\<lambda>a. at_id a = at_id row \<and> attempt_open a) (closed_row t rc n) (t_attempts s))"
    unfolding list_all_update_where by (simp add: list_all_iff)
  then show ?thesis by (simp add: filter_empty_conv list_all_iff)
qed

lemma clock_reaches_open:
  assumes inv: "journal_inv s" and one: "filter attempt_open (t_attempts s) = [row]"
  shows "clock_reaches t s \<longleftrightarrow> at_started_at row \<le> t
    \<and> list_all (\<lambda>a. ac_attempt_id a = at_id row \<and> ac_disposition a = None \<longrightarrow> ac_prepared_at a \<le> t) (t_actions s)
    \<and> list_all (\<lambda>a. ar_attempt_id a = at_id row \<and> ar_disposition a = None \<longrightarrow> ar_prepared_at a \<le> t) (t_artifact_actions s)"
proof -
  have row: "a \<in> set (t_attempts s) \<and> attempt_open a \<longleftrightarrow> a = row" for a
    using arg_cong [OF one, of set] by auto
  have "is_open i s \<longleftrightarrow> i = at_id row" for i using row unfolding is_open_def list_ex_iff by metis
  then have "\<forall>a\<in>set (t_actions s). ac_disposition a = None \<longrightarrow> ac_attempt_id a = at_id row"
      "\<forall>a\<in>set (t_artifact_actions s). ar_disposition a = None \<longrightarrow> ar_attempt_id a = at_id row"
    using inv by (simp_all add: journal_inv_def prepared_ok_def list_all_iff)
  moreover have "(\<forall>a\<in>set (t_attempts s). attempt_open a \<longrightarrow> at_started_at a \<le> t) \<longleftrightarrow> at_started_at row \<le> t"
    using row by metis
  ultimately show ?thesis unfolding clock_reaches_def list_all_iff by blast
qed

lemma clock_reaches_closed:
  assumes inv: "journal_inv s" and none: "filter attempt_open (t_attempts s) = []"
  shows "clock_reaches t s"
proof -
  have "\<not> attempt_open a" if "a \<in> set (t_attempts s)" for a using none that by (auto simp: filter_empty_conv)
  then show ?thesis using inv unfolding clock_reaches_def journal_inv_def prepared_ok_def is_open_def list_all_iff list_ex_iff by blast
qed

text \<open>
  C19: recovery after a crash. With the journal's invariant and a fresh random token, recovery succeeds
  exactly when the wall clock is in range and has reached the start of the open attempt and the
  preparation of its unfinished actions; a clock that was set back makes it fail. When it succeeds no
  attempt stays open, exactly the open ones are reported, their incidents are blocked from retry, and if
  any of their actions had or may have had an effect, arming is blocked too.
\<close>

theorem recovery_exact:
  assumes inv: "journal_inv s" and tok: "fresh_token s"
  shows "case recover_incomplete_attempts u s of
     Inl _ \<Rightarrow> \<not> (uint u < 2 ^ 63 \<and> clock_reaches (uint u) s)
   | Inr (receipts, s') \<Rightarrow> uint u < 2 ^ 63 \<and> clock_reaches (uint u) s \<and> journal_inv s'
       \<and> filter attempt_open (t_attempts s') = []
       \<and> map rcpt_incident_id receipts = map at_incident_id (filter attempt_open (t_attempts s))
       \<and> (\<forall>row\<in>set (filter attempt_open (t_attempts s)). cleanup_blocked (at_incident_id row) s'
            \<and> (touched row s \<longrightarrow> persistent_enforcement_blocker s' \<noteq> None))"
proof (cases "uint u < 2 ^ 63")
  case False
  then show ?thesis by (simp add: recover_incomplete_attempts_def db_ops sqlite_millis_def i64_try_from_def)
next
  case True
  then have millis: "sqlite_millis u l = Inr (uint u)" for l by (simp add: sqlite_millis_Inr)
  show ?thesis
  proof (rule open_rows_cases [OF inv])
    assume none: "filter attempt_open (t_attempts s) = []"
    then show ?thesis using True inv clock_reaches_closed [OF inv none]
      by (simp add: recover_incomplete_attempts_def db_ops millis)
  next
    fix row assume one: "filter attempt_open (t_attempts s) = [row]" and row: "row \<in> set (t_attempts s)" "attempt_open row"
    have run: "recover_incomplete_attempts u s = (case recover_attempt u (uint u) row s of Inl e \<Rightarrow> Inl e | Inr (rc, s') \<Rightarrow> Inr ([rc], s'))"
      by (simp add: recover_incomplete_attempts_def db_ops millis one split: sum.split)
    show ?thesis
    proof (cases "recover_attempt u (uint u) row s")
      case (Inl e)
      then show ?thesis using recover_attempt_exact [OF inv tok row True] clock_reaches_open [OF inv one] run by simp
    next
      case (Inr p)
      then obtain rc s' where r: "recover_attempt u (uint u) row s = Inr (rc, s')" by (cases p) auto
      then have "clock_reaches (uint u) s"
        using recover_attempt_exact [OF inv tok row True] clock_reaches_open [OF inv one] by blast
      moreover have "cleanup_blocked (at_incident_id row) s'"
        using recover_attempt_leaves(4) [OF inv r] by (auto simp: cleanup_blocked_def list_ex_iff)
      moreover have "journal_inv s'" using keepsD [OF journal.keeps_recover_attempt inv r] .
      moreover have "filter attempt_open (t_attempts s') = []"
        unfolding recover_attempt_leaves(3) [OF inv r] by (rule no_open_after_close [OF inv one])
      ultimately show ?thesis
        using True run r one recover_attempt_leaves(1) [OF inv r] recovered_blocks_arming [OF inv r] by simp
    qed
  qed
qed

text \<open>A journal that a crash left with an open attempt and a prepared signal.\<close>

definition crash_store :: store where
  "crash_store = empty_store\<lparr>t_attempts := [\<lparr>at_id = 1, at_incident_id = ''i'', at_tracking_key = ''k'',
       at_root_identity_fingerprint = ''r'', at_member_fingerprint = ''m'', at_enforcement_epoch = ''e'',
       at_started_at = 5, at_completed_at = None, at_terminal_state = None, at_reason_id = None,
       at_survivor_pids = None, at_revival_checks = 0, at_resources = None, at_signature_pack = None,
       at_signature_version = None, at_process_count = None, at_resident_memory = None\<rparr>],
     t_next_attempt_id := 2,
     t_actions := [\<lparr>ac_id = 1, ac_attempt_id = 1, ac_sequence = 0, ac_prepared_at = 6, ac_completed_at = None,
       ac_stage = ''primary_term'', ac_pid = 7, ac_identity_fingerprint = ''f'', ac_signal = ''term'',
       ac_disposition = None\<rparr>],
     t_next_action_id := 2\<rparr>"

lemma crash_store_inv: "journal_inv crash_store"
  by (simp add: crash_store_def empty_store_def journal_inv_defs table_checks keyed_def is_open_def attempt_open_def
      attempt_check_def action_check_def check_opt_def)

lemma crash_store_fresh: "fresh_token crash_store"
  by (simp add: crash_store_def empty_store_def fresh_token_def dec_string.simps)

lemma crash_store_clock: "clock_reaches t crash_store \<longleftrightarrow> 6 \<le> t"
  by (auto simp: crash_store_def empty_store_def clock_reaches_def attempt_open_def)

theorem recovery_exact_witness:
  "(\<exists>e. recover_incomplete_attempts 5 crash_store = Inl e) \<and>
   (\<exists>r s'. recover_incomplete_attempts 7 crash_store = Inr (r, s') \<and> filter attempt_open (t_attempts s') = [])"
proof
  show "\<exists>e. recover_incomplete_attempts 5 crash_store = Inl e"
    using recovery_exact [OF crash_store_inv crash_store_fresh, of 5]
    by (cases "recover_incomplete_attempts 5 crash_store") (auto simp: crash_store_clock)
  show "\<exists>r s'. recover_incomplete_attempts 7 crash_store = Inr (r, s') \<and> filter attempt_open (t_attempts s') = []"
    using recovery_exact [OF crash_store_inv crash_store_fresh, of 7]
    by (cases "recover_incomplete_attempts 7 crash_store") (auto simp: crash_store_clock)
qed

end
