(* ===== verification/Core_Executor_Invariant.thy ===== *)
theory Core_Executor_Invariant
  imports Core_Executor
begin

text \<open>
  An invariant of the environment is an invariant of the executor: if every operation of a cleanup
  environment keeps a property of its world, so does every run of \<open>CleanupExecutor::execute\<close>. The locale
  states what the implementation of the traits has to promise.
\<close>

definition kept :: "('w \<Rightarrow> bool) \<Rightarrow> ('w, 'r, 'a) comp \<Rightarrow> bool" where
  "kept I m \<longleftrightarrow> (\<forall>w. I w \<longrightarrow> I (snd (m w)))"

named_theorems kept_intros

lemma kept_next [kept_intros]: "kept I (fnext a)"
  by (simp add: kept_def fnext_def)

lemma kept_exit [kept_intros]: "kept I (fexit r)"
  by (simp add: kept_def fexit_def)

lemma kept_call: "(\<And>w. I w \<Longrightarrow> I (snd (f w))) \<Longrightarrow> kept I (fcall f)"
  by (simp add: kept_def fcall_def split: prod.split) force

lemma kept_bind [kept_intros]: "kept I m \<Longrightarrow> (\<And>a. kept I (f a)) \<Longrightarrow> kept I (fbind m f)"
  by (simp add: kept_def fbind_def split: prod.split flow.split) (metis snd_conv)

lemma kept_exits [kept_intros]: "kept I m \<Longrightarrow> kept I (fexits h m)"
  by (simp add: kept_def fexits_def split: prod.split flow.split) (metis snd_conv)

lemma kept_catch [kept_intros]: "kept I m \<Longrightarrow> kept I (fcatch m)"
  by (simp add: kept_def fcatch_def split: prod.split flow.split) (metis snd_conv)

lemma kept_ffold [kept_intros]: "(\<And>x s. kept I (f x s)) \<Longrightarrow> kept I (ffold f xs s)"
  by (induction xs arbitrary: s) (auto intro!: kept_intros)

lemma kept_try: "(\<And>w. I w \<Longrightarrow> I (snd (f w))) \<Longrightarrow> kept I (ftry f h)"
  unfolding ftry_def by (intro kept_bind kept_call) (auto intro: kept_intros split: sum.split)

lemma kept_if [kept_intros]: "kept I m \<Longrightarrow> kept I n \<Longrightarrow> kept I (if b then m else n)"
  by simp

lemma kept_option [kept_intros]:
  "kept I m \<Longrightarrow> (\<And>x. kept I (f x)) \<Longrightarrow> kept I (case z of None \<Rightarrow> m | Some x \<Rightarrow> f x)"
  by (cases z) simp_all

lemma kept_sum [kept_intros]:
  "(\<And>e. kept I (m e)) \<Longrightarrow> (\<And>x. kept I (f x)) \<Longrightarrow> kept I (case z of Inl e \<Rightarrow> m e | Inr x \<Rightarrow> f x)"
  by (cases z) simp_all

lemma kept_prod [kept_intros]:
  "(\<And>x y. kept I (f x y)) \<Longrightarrow> kept I (case z of (x, y) \<Rightarrow> f x y)"
  "(\<And>x y. kept I (g x y s)) \<Longrightarrow> kept I ((case z of (x, y) \<Rightarrow> g x y) s)"
  by (cases z; simp)+

lemma kept_helpers [kept_intros]:
  "kept I (fail_with r q l)" "kept I (revived r q)" "kept I m \<Longrightarrow> kept I (or_fail r m)"
  unfolding fail_with_def revived_def or_fail_def by (intro kept_intros; assumption)+

locale environment_invariant =
  fixes env :: "'w cleanup_env" and I :: "'w \<Rightarrow> bool"
  assumes keeps_snapshot: "I w \<Longrightarrow> I (snd (env_snapshot env w))"
    and keeps_lookup: "I w \<Longrightarrow> I (snd (env_lookup_process env p w))"
    and keeps_clock: "I w \<Longrightarrow> I (snd (env_clock_sample env w))"
    and keeps_signal: "I w \<Longrightarrow> I (snd (env_signal_exact env i sig w))"
    and keeps_wait: "I w \<Longrightarrow> I (snd (env_wait_until env d w))"
    and keeps_freeze: "I w \<Longrightarrow> I (snd (env_freeze_artifact env c w))"
    and keeps_remove: "I w \<Longrightarrow> I (snd (env_remove_artifact_exact env f w))"
    and keeps_prepare: "I w \<Longrightarrow> I (snd (env_prepare_action env ai at w))"
    and keeps_complete: "I w \<Longrightarrow> I (snd (env_complete_action env a dsp at w))"
    and keeps_prepare_artifact: "I w \<Longrightarrow> I (snd (env_prepare_artifact_action env fi at w))"
    and keeps_complete_artifact: "I w \<Longrightarrow> I (snd (env_complete_artifact_action env a fd at w))"
    and keeps_stop: "I w \<Longrightarrow> I (snd (env_should_stop env w))"
begin

lemma kept_tries:
  "kept I (ftry (env_snapshot env) h)" "kept I (ftry (env_lookup_process env p) h2)"
  "kept I (ftry (env_clock_sample env) h3)" "kept I (ftry (env_wait_until env d) h4)"
  "kept I (ftry (env_freeze_artifact env c) h5)" "kept I (ftry (env_prepare_action env ai at) h6)"
  "kept I (ftry (env_complete_action env a dsp at) h7)" "kept I (ftry (env_prepare_artifact_action env fi at) h8)"
  "kept I (ftry (env_complete_artifact_action env a fd at) h9)"
  by (rule kept_try, erule keeps_snapshot keeps_lookup keeps_clock keeps_wait keeps_freeze keeps_prepare
        keeps_complete keeps_prepare_artifact keeps_complete_artifact)+

lemma kept_calls:
  "kept I (fcall (env_snapshot env))" "kept I (fcall (env_signal_exact env i sig))"
  "kept I (fcall (env_freeze_artifact env c))" "kept I (fcall (env_remove_artifact_exact env f))"
  "kept I (fcall (env_should_stop env))"
  by (rule kept_call, erule keeps_snapshot keeps_signal keeps_freeze keeps_remove keeps_stop)+

lemmas kept_ops = kept_intros kept_tries kept_calls

lemma kept_liveness: "kept I (observe_exact_target_liveness env snap plan)"
  unfolding observe_exact_target_liveness_def observe_target_def by (intro kept_ops)

lemma kept_validate_stage: "kept I (validate_stage env rv snap plan)"
  unfolding validate_stage_def Let_def
  by (intro kept_ops kept_liveness) (auto intro: kept_ops split: revalidation_status.split)

lemma kept_snapshot: "kept I (snapshot_or_receipt_error env r)" "kept I (validated_snapshot env rv plan r)"
  unfolding validated_snapshot_def snapshot_or_receipt_error_def by (intro kept_ops kept_validate_stage)+

lemma kept_wait: "kept I (wait_or_drain env d r l)"
  unfolding wait_or_drain_def wait_interrupted_def
  by (intro kept_ops) (auto intro: kept_ops split: wait_outcome.split)

lemma kept_complete: "kept I (complete_prepared env r i a d)" "kept I (complete_artifact_prepared env r fi a fd)"
  unfolding complete_prepared_def complete_artifact_prepared_def by (intro kept_ops)+

lemma kept_signal: "kept I (signal_or_fail env rv plan t stage sig surv r)"
  unfolding signal_or_fail_def signal_def signal_prepared_def Let_def
  by (intro kept_ops kept_complete kept_validate_stage)

lemma kept_artifact: "kept I (execute_artifact_action env r c f)"
  unfolding execute_artifact_action_def artifact_prepared_def artifact_delivery_def Let_def
  by (intro kept_ops kept_complete) (cases f; simp; intro kept_ops kept_complete)+

lemma kept_begin: "kept I (execute_begin env rv plan)"
  unfolding execute_begin_def freeze_artifacts_def Let_def
  by (intro kept_ops kept_snapshot kept_validate_stage)

lemma kept_stages:
  "kept I (term_stage env rv plan stage sel d x)" "kept I (execute_kill env rv plan policy x)"
  unfolding term_stage_def term_loop_def execute_kill_def kill_loop_def
  by (intro kept_ops kept_snapshot kept_signal kept_wait kept_liveness)+

lemma kept_terminal:
  "kept I (revival_window env rv plan d y)" "kept I (prove_tree_gone env rv plan q snap r)"
  unfolding revival_window_def prove_tree_gone_def Let_def
  by (intro kept_ops kept_wait kept_snapshot kept_liveness;
      auto intro: kept_ops split: revalidation_status.split terminal_revalidation_result.split)+

lemma kept_execute_flow: "kept I (execute_flow env rv plan policy)"
  unfolding execute_flow_def execute_primary_def execute_member_def execute_revival_def
    execute_terminal_def execute_artifacts_def execute_post_artifact_def Let_def
  by (intro kept_ops kept_begin kept_stages kept_terminal kept_snapshot kept_artifact)

lemma execute_keeps: "I w \<Longrightarrow> I (snd (execute env rv plan policy w))"
  using kept_execute_flow [of rv plan policy] unfolding execute_def kept_def
  by (auto split: prod.split flow.split)

end

end
