(* ===== verification/Store_Executor.thy ===== *)
theory Store_Executor
  imports Store_Recovery Core_Executor_Correct Core_Executor_Invariant
begin

text \<open>
  The cleanup executor over the store: \<open>CleanupAttemptJournal\<close> of \<open>crates/unlinger-daemon/src/store.rs\<close>
  implements the journal of \<open>CleanupExecutor::execute\<close> with the tables of one attempt. What the executor
  reports is what the tables then hold.
\<close>

section \<open>The journal of an attempt\<close>

record attempt_journal =
  aj_attempt :: cleanup_attempt_handle
  aj_next_sequence :: usize
  aj_prepared :: "(string, prepared_action_handle) btree"
  aj_next_artifact_sequence :: usize
  aj_prepared_artifacts :: "(string, prepared_artifact_action_handle) btree"

definition journal_for :: "cleanup_attempt_handle \<Rightarrow> attempt_journal" where
  "journal_for attempt = \<lparr>aj_attempt = attempt, aj_next_sequence = 0, aj_prepared = [],
     aj_next_artifact_sequence = 0, aj_prepared_artifacts = []\<rparr>"

text \<open>\<open>Display\<close> of an error. What the database library prints is its own text.\<close>

fun store_error_message :: "store_error \<Rightarrow> string" where
  "store_error_message (Io e) = ''history I/O failed: '' @ e"
| "store_error_message (Sqlite e) = ''history SQLite failed'' @ e"
| "store_error_message (Json e) = ''history JSON failed: '' @ e"
| "store_error_message (Corrupt m) = ''history data is corrupt: '' @ m"
| "store_error_message (RangeError m) = ''history value is out of range: '' @ m"
| "store_error_message (Invalid m) = ''invalid history operation: '' @ m"
| "store_error_message (Conflict m) = ''history operation conflicts: '' @ m"
| "store_error_message (AuthorityLost m) = ''mutation receipt authority was lost: '' @ m"
| "store_error_message (NotFound m) = ''history target was not found: '' @ m"
| "store_error_message (Capacity m) = ''history capacity is unavailable: '' @ m"
| "store_error_message (UnsupportedSchema m) = ''unsupported history schema: '' @ m"
| "store_error_message (UnsafePath m) = ''unsafe history path: '' @ m"

definition failure :: "string \<Rightarrow> runtime_failure" where
  "failure m = \<lparr>failure_message = m\<rparr>"

definition usize_max :: nat where
  "usize_max = 2 ^ 64 - 1"

type_synonym 'w journal_world = "'w \<times> attempt_journal \<times> store"

definition journal_prepare_action ::
    "cleanup_action_intent \<Rightarrow> u64 \<Rightarrow> attempt_journal \<times> store \<Rightarrow> (runtime_failure + string) \<times> attempt_journal \<times> store" where
  "journal_prepare_action intent at js = (case js of (j, s) \<Rightarrow>
     if usize_max \<le> aj_next_sequence j then (Inl (failure ''cleanup journal action sequence overflowed usize''), j, s)
     else (case prepare_cleanup_action (aj_attempt j) (aj_next_sequence j) at intent s of
        Inl e \<Rightarrow> (Inl (failure (store_error_message e)), j, s)
      | Inr (prepared, s') \<Rightarrow>
          let action_id = ''sqlite-action:'' @ dec_string (nat (pah_id prepared))
          in (Inr action_id, j\<lparr>aj_next_sequence := aj_next_sequence j + 1,
                 aj_prepared := bt_insert action_id prepared (aj_prepared j)\<rparr>, s')))"

definition journal_complete_action ::
    "string \<Rightarrow> signal_disposition \<Rightarrow> u64 \<Rightarrow> attempt_journal \<times> store \<Rightarrow> (runtime_failure + unit) \<times> attempt_journal \<times> store" where
  "journal_complete_action action_id disposition at js = (case js of (j, s) \<Rightarrow>
     (case bt_get (aj_prepared j) action_id of
        None \<Rightarrow> (Inl (failure ''cleanup journal action is not prepared''), j, s)
      | Some prepared \<Rightarrow>
          (case complete_cleanup_action prepared at disposition s of
             Inl e \<Rightarrow> (Inl (failure (store_error_message e)), j, s)
           | Inr (_, s') \<Rightarrow> (Inr (), j, s'))))"

definition journal_prepare_artifact_action ::
    "artifact_action_intent \<Rightarrow> u64 \<Rightarrow> attempt_journal \<times> store \<Rightarrow> (runtime_failure + string) \<times> attempt_journal \<times> store" where
  "journal_prepare_artifact_action intent at js = (case js of (j, s) \<Rightarrow>
     if usize_max \<le> aj_next_artifact_sequence j then (Inl (failure ''cleanup journal artifact sequence overflowed usize''), j, s)
     else (case prepare_cleanup_artifact_action (aj_attempt j) (aj_next_artifact_sequence j) at intent s of
        Inl e \<Rightarrow> (Inl (failure (store_error_message e)), j, s)
      | Inr (prepared, s') \<Rightarrow>
          let action_id = ''sqlite-artifact-action:'' @ dec_string (nat (paah_id prepared))
          in (Inr action_id, j\<lparr>aj_next_artifact_sequence := aj_next_artifact_sequence j + 1,
                 aj_prepared_artifacts := bt_insert action_id prepared (aj_prepared_artifacts j)\<rparr>, s')))"

definition journal_complete_artifact_action ::
    "string \<Rightarrow> artifact_disposition \<Rightarrow> u64 \<Rightarrow> attempt_journal \<times> store \<Rightarrow> (runtime_failure + unit) \<times> attempt_journal \<times> store" where
  "journal_complete_artifact_action action_id disposition at js = (case js of (j, s) \<Rightarrow>
     (case bt_get (aj_prepared_artifacts j) action_id of
        None \<Rightarrow> (Inl (failure ''cleanup journal artifact action is not prepared''), j, s)
      | Some prepared \<Rightarrow>
          (case complete_cleanup_artifact_action prepared at disposition s of
             Inl e \<Rightarrow> (Inl (failure (store_error_message e)), j, s)
           | Inr (_, s') \<Rightarrow> (Inr (), j, s'))))"

text \<open>The environment of a run: the runtime acts on its own world, the journal on the attempt and the
  tables.\<close>

definition on_runtime :: "('w \<Rightarrow> 'a \<times> 'w) \<Rightarrow> 'w journal_world \<Rightarrow> 'a \<times> 'w journal_world" where
  "on_runtime f x = (case x of (w, js) \<Rightarrow> case f w of (a, w') \<Rightarrow> (a, (w', js)))"

definition on_journal ::
    "(attempt_journal \<times> store \<Rightarrow> 'a \<times> attempt_journal \<times> store) \<Rightarrow> 'w journal_world \<Rightarrow> 'a \<times> 'w journal_world" where
  "on_journal f x = (case x of (w, js) \<Rightarrow> case f js of (a, js') \<Rightarrow> (a, (w, js')))"

definition store_env :: "'w cleanup_env \<Rightarrow> 'w journal_world cleanup_env" where
  "store_env base =
     \<lparr>env_snapshot = on_runtime (env_snapshot base), env_lookup_process = (\<lambda>p. on_runtime (env_lookup_process base p)),
      env_clock_sample = on_runtime (env_clock_sample base),
      env_signal_exact = (\<lambda>i sig. on_runtime (env_signal_exact base i sig)),
      env_wait_until = (\<lambda>d. on_runtime (env_wait_until base d)),
      env_freeze_artifact = (\<lambda>c. on_runtime (env_freeze_artifact base c)),
      env_remove_artifact_exact = (\<lambda>f. on_runtime (env_remove_artifact_exact base f)),
      env_prepare_action = (\<lambda>i at. on_journal (journal_prepare_action i at)),
      env_complete_action = (\<lambda>a d at. on_journal (journal_complete_action a d at)),
      env_prepare_artifact_action = (\<lambda>i at. on_journal (journal_prepare_artifact_action i at)),
      env_complete_artifact_action = (\<lambda>a d at. on_journal (journal_complete_artifact_action a d at)),
      env_should_stop = on_runtime (env_should_stop base)\<rparr>"

section \<open>The tables hold what the log shows\<close>

definition shows_action :: "action_row \<Rightarrow> cleanup_action \<Rightarrow> bool" where
  "shows_action r x \<longleftrightarrow> ac_disposition r \<noteq> None \<and> (\<forall>s. action_of_row r s = Inr (x, s))"

definition prepares :: "action_row \<Rightarrow> cleanup_action_intent \<Rightarrow> bool" where
  "prepares r i \<longleftrightarrow> ac_stage r = cleanup_stage_name (intent_stage i) \<and> ac_pid r = uint (intent_pid i)
     \<and> ac_identity_fingerprint r = intent_identity_fingerprint i \<and> ac_signal r = cleanup_signal_name (intent_signal i)
     \<and> ac_disposition r = None"

definition open_signal :: "attempt_journal \<Rightarrow> open_action \<Rightarrow> action_row list \<Rightarrow> bool" where
  "open_signal j op os \<longleftrightarrow> (case op of
       OpenSignal a i \<Rightarrow> (\<exists>r h. os = [r] \<and> prepares r i \<and> bt_get (aj_prepared j) a = Some h \<and> pah_id h = ac_id r
         \<and> pah_attempt_id h = ac_attempt_id r \<and> int (pah_sequence h) = ac_sequence r)
     | _ \<Rightarrow> os = [])"

definition signals_match :: "int \<Rightarrow> attempt_journal \<Rightarrow> store \<Rightarrow> open_action \<Rightarrow> cleanup_action list \<Rightarrow> bool" where
  "signals_match i j s op xs \<longleftrightarrow> (\<exists>ds os. filter (\<lambda>a. ac_attempt_id a = i) (t_actions s) = ds @ os
     \<and> map ac_sequence (ds @ os) = map int [0..<aj_next_sequence j] \<and> list_all2 shows_action ds xs \<and> open_signal j op os)"

definition shows_artifact :: "artifact_row \<Rightarrow> artifact_action \<Rightarrow> bool" where
  "shows_artifact r x \<longleftrightarrow> ar_disposition r \<noteq> None \<and> (\<forall>s. artifact_action_of_row r s = Inr (x, s))"

definition prepares_artifact :: "artifact_row \<Rightarrow> artifact_action_intent \<Rightarrow> bool" where
  "prepares_artifact r i \<longleftrightarrow> ar_kind r = runtime_artifact_kind_name (ai_kind i)
     \<and> ar_artifact_fingerprint r = ai_artifact_fingerprint i \<and> valid_artifact_fingerprint (ai_artifact_fingerprint i)
     \<and> ar_disposition r = None"

definition open_artifact :: "attempt_journal \<Rightarrow> open_action \<Rightarrow> artifact_row list \<Rightarrow> bool" where
  "open_artifact j op os \<longleftrightarrow> (case op of
       OpenArtifact a i \<Rightarrow> (\<exists>r h. os = [r] \<and> prepares_artifact r i \<and> bt_get (aj_prepared_artifacts j) a = Some h
         \<and> paah_id h = ar_id r \<and> paah_attempt_id h = ar_attempt_id r \<and> int (paah_sequence h) = ar_sequence r)
     | _ \<Rightarrow> os = [])"

definition artifacts_match :: "int \<Rightarrow> attempt_journal \<Rightarrow> store \<Rightarrow> open_action \<Rightarrow> artifact_action list \<Rightarrow> bool" where
  "artifacts_match i j s op ys \<longleftrightarrow> (\<exists>ds os. filter (\<lambda>a. ar_attempt_id a = i) (t_artifact_actions s) = ds @ os
     \<and> map ar_sequence (ds @ os) = map int [0..<aj_next_artifact_sequence j] \<and> list_all2 shows_artifact ds ys
     \<and> open_artifact j op os)"

definition attempt_live :: "cleanup_attempt_handle \<Rightarrow> store \<Rightarrow> bool" where
  "attempt_live h s \<longleftrightarrow> (\<exists>row. find_attempt (cah_id h) s = Some row \<and> at_incident_id row = cah_incident_id h
     \<and> at_terminal_state row = None)"

definition linked :: "cleanup_attempt_handle \<Rightarrow> attempt_journal \<Rightarrow> store \<Rightarrow> journal_view \<Rightarrow> bool" where
  "linked h j s v \<longleftrightarrow> journal_inv s \<and> attempt_live h s \<and> aj_attempt j = h \<and> (case v of (op, xs, ys) \<Rightarrow>
     signals_match (cah_id h) j s op xs \<and> artifacts_match (cah_id h) j s op ys)"

lemma shows_completed:
  "prepares r i \<Longrightarrow> shows_action (r\<lparr>ac_disposition := Some (signal_disposition_name d), ac_completed_at := Some t\<rparr>) (action_of i d)"
  using u32_bound [of "intent_pid i"]
  by (simp add: prepares_def shows_action_def action_of_row_def db_ops parse_pid_def action_of_def)

lemma shows_completed_artifact:
  "prepares_artifact r i \<Longrightarrow>
   shows_artifact (r\<lparr>ar_disposition := Some (artifact_disposition_name d), ar_completed_at := Some t\<rparr>) (artifact_action_of i d)"
  by (simp add: prepares_artifact_def shows_artifact_def artifact_action_of_row_def db_ops artifact_action_of_def)

lemma prepare_effect:
  assumes "prepare_cleanup_action h n t i s = Inr (p, s')"
  obtains r where "s' = s\<lparr>t_actions := t_actions s @ [r], t_next_action_id := t_next_action_id s + 1\<rparr>" "prepares r i"
    "ac_attempt_id r = cah_id h" "ac_sequence r = int n" "pah_id p = ac_id r" "pah_attempt_id p = cah_id h" "pah_sequence p = n"
proof -
  from assms obtain t' s1 where "open_attempt_row h s = Inr ((), s1)" and
    s': "s' = s1\<lparr>t_actions := t_actions s1 @ [\<lparr>ac_id = t_next_action_id s1,
         ac_attempt_id = cah_id h, ac_sequence = int n, ac_prepared_at = t',
         ac_completed_at = None, ac_stage = cleanup_stage_name (intent_stage i),
         ac_pid = uint (intent_pid i), ac_identity_fingerprint = intent_identity_fingerprint i,
         ac_signal = cleanup_signal_name (intent_signal i), ac_disposition = None\<rparr>],
         t_next_action_id := t_next_action_id s1 + 1\<rparr>"
    and p: "p = \<lparr>pah_id = t_next_action_id s1, pah_attempt_id = cah_id h, pah_sequence = n\<rparr>"
    by (auto simp: prepare_cleanup_action_def db_bind_Inr db_lift_Inr db_read_Inr db_require_Inr db_constrained_Inr
        db_return_Inr sqlite_usize_Inr)
  moreover from this have "s1 = s" using keepsD [OF keeps_open_attempt_row, of "\<lambda>t. t = s" s] by blast
  ultimately show ?thesis by (intro that) (auto simp: prepares_def)
qed

lemma prepare_artifact_effect:
  assumes "prepare_cleanup_artifact_action h n t i s = Inr (p, s')"
  obtains r where "s' = s\<lparr>t_artifact_actions := t_artifact_actions s @ [r],
      t_next_artifact_action_id := t_next_artifact_action_id s + 1\<rparr>" "prepares_artifact r i"
    "ar_attempt_id r = cah_id h" "ar_sequence r = int n" "paah_id p = ar_id r" "paah_attempt_id p = cah_id h" "paah_sequence p = n"
proof -
  from assms obtain t' s1 where "open_attempt_row h s = Inr ((), s1)" and
    s': "s' = s1\<lparr>t_artifact_actions := t_artifact_actions s1 @ [\<lparr>ar_id = t_next_artifact_action_id s1,
         ar_attempt_id = cah_id h, ar_sequence = int n, ar_prepared_at = t',
         ar_completed_at = None, ar_kind = runtime_artifact_kind_name (ai_kind i),
         ar_artifact_fingerprint = ai_artifact_fingerprint i, ar_disposition = None\<rparr>],
         t_next_artifact_action_id := t_next_artifact_action_id s1 + 1\<rparr>"
    and p: "p = \<lparr>paah_id = t_next_artifact_action_id s1, paah_attempt_id = cah_id h, paah_sequence = n\<rparr>"
    and valid: "valid_artifact_fingerprint (ai_artifact_fingerprint i)"
    by (auto simp: prepare_cleanup_artifact_action_def db_bind_Inr db_lift_Inr db_read_Inr db_require_Inr db_constrained_Inr
        db_return_Inr sqlite_usize_Inr)
  moreover from this have "s1 = s" using keepsD [OF keeps_open_attempt_row, of "\<lambda>t. t = s" s] by blast
  ultimately show ?thesis by (intro that) (auto simp: prepares_artifact_def)
qed

lemma filter_update_where:
  "(\<And>r. P r \<Longrightarrow> Q (f r) = Q r) \<Longrightarrow> filter Q (update_where P f rows) = update_where P f (filter Q rows)"
  by (induction rows) (auto simp: update_where_def)

lemma update_where_none: "(\<And>r. r \<in> set rows \<Longrightarrow> \<not> P r) \<Longrightarrow> update_where P f rows = rows"
  by (simp add: update_where_def map_idI)

lemma find_keyed:
  assumes "keyed k rows n" "r \<in> set rows"
  shows "find (\<lambda>q. k q = k r) rows = Some r"
proof -
  have "find (\<lambda>q. k q = k r) rows \<noteq> None" using assms(2) by (auto simp: find_None_iff)
  then obtain q where q: "find (\<lambda>q. k q = k r) rows = Some q" by blast
  then have "q \<in> set rows" "k q = k r" using find_SomeD by fastforce+
  then have "q = r" using assms by (meson distinct_map inj_onD keyed_def)
  with q show ?thesis by simp
qed

lemma journal_failures:
  "journal_prepare_action i at js = (Inl e, js') \<Longrightarrow> js' = js"
  "journal_complete_action a d at js = (Inl e, js') \<Longrightarrow> js' = js"
  "journal_prepare_artifact_action fi at js = (Inl e, js') \<Longrightarrow> js' = js"
  "journal_complete_artifact_action a fd at js = (Inl e, js') \<Longrightarrow> js' = js"
  by (auto simp: journal_prepare_action_def journal_complete_action_def journal_prepare_artifact_action_def
      journal_complete_artifact_action_def Let_def split: if_splits sum.splits option.splits prod.splits)

lemma linked_prepare:
  assumes link: "linked h j s (NoAction, xs, ys)" and run: "journal_prepare_action i at (j, s) = (Inr a, j', s')"
  shows "linked h j' s' (OpenSignal a i, xs, ys)"
proof -
  from link have inv: "journal_inv s" and live: "attempt_live h s" and h: "aj_attempt j = h" and sig: "signals_match (cah_id h) j s NoAction xs"
    and art: "artifacts_match (cah_id h) j s NoAction ys" by (simp_all add: linked_def)
  from run obtain p where p: "prepare_cleanup_action h (aj_next_sequence j) at i s = Inr (p, s')"
    and j': "j' = j\<lparr>aj_next_sequence := aj_next_sequence j + 1, aj_prepared := bt_insert a p (aj_prepared j)\<rparr>"
    by (auto simp: journal_prepare_action_def h Let_def split: if_splits sum.splits)
  from prepare_effect [OF p] obtain r where
    s': "s' = s\<lparr>t_actions := t_actions s @ [r], t_next_action_id := t_next_action_id s + 1\<rparr>" and r: "prepares r i"
    "ac_attempt_id r = cah_id h" "ac_sequence r = int (aj_next_sequence j)" "pah_id p = ac_id r"
    "pah_attempt_id p = cah_id h" "pah_sequence p = aj_next_sequence j" by blast
  from sig obtain ds where ds: "filter (\<lambda>a. ac_attempt_id a = cah_id h) (t_actions s) = ds"
    "map ac_sequence ds = map int [0..<aj_next_sequence j]" "list_all2 shows_action ds xs"
    by (auto simp: signals_match_def open_signal_def)
  have "signals_match (cah_id h) j' s' (OpenSignal a i) xs"
    unfolding signals_match_def
    by (rule exI [of _ ds], rule exI [of _ "[r]"]) (simp add: s' j' ds r open_signal_def bt_get_insert)
  moreover have "artifacts_match (cah_id h) j' s' (OpenSignal a i) ys"
    using art by (simp add: artifacts_match_def open_artifact_def s' j')
  moreover have "journal_inv s'" using keepsD [OF journal.keeps_prepare inv p] .
  moreover have "attempt_live h s'" using live unfolding attempt_live_def find_attempt_def s' by simp
  ultimately show ?thesis by (simp add: linked_def j' h)
qed

lemma linked_complete:
  assumes link: "linked h j s (OpenSignal a i, xs, ys)" and run: "journal_complete_action a d at (j, s) = (Inr (), j', s')"
  shows "linked h j' s' (NoAction, xs @ [action_of i d], ys)"
proof -
  from link have inv: "journal_inv s" and live: "attempt_live h s" and h: "aj_attempt j = h" and sig: "signals_match (cah_id h) j s (OpenSignal a i) xs"
    and art: "artifacts_match (cah_id h) j s (OpenSignal a i) ys" by (simp_all add: linked_def)
  from sig obtain ds r p where
    ds: "filter (\<lambda>a. ac_attempt_id a = cah_id h) (t_actions s) = ds @ [r]"
      "map ac_sequence (ds @ [r]) = map int [0..<aj_next_sequence j]" "list_all2 shows_action ds xs"
    and r: "prepares r i" and p: "bt_get (aj_prepared j) a = Some p" "pah_id p = ac_id r"
      "pah_attempt_id p = ac_attempt_id r" "int (pah_sequence p) = ac_sequence r"
    by (auto simp: signals_match_def open_signal_def)
  from run p(1) have c: "complete_cleanup_action p at d s = Inr ((), s')" and j': "j' = j"
    by (auto simp: journal_complete_action_def split: sum.splits prod.splits)
  have "r \<in> set (filter (\<lambda>a. ac_attempt_id a = cah_id h) (t_actions s))" unfolding ds(1) by simp
  then have mem: "r \<in> set (t_actions s)" by simp
  have keys: "keyed ac_id (t_actions s) (t_next_action_id s)" using inv by (simp add: journal_inv_def keys_ok_def)
  let ?P = "\<lambda>q. ac_id q = ac_id r \<and> ac_disposition q = None"
  from c obtain t where s': "s' = s\<lparr>t_actions := update_where ?P
      (\<lambda>q. q\<lparr>ac_disposition := Some (signal_disposition_name d), ac_completed_at := Some t\<rparr>) (t_actions s)\<rparr>"
    using find_keyed [OF keys mem] p r
    by (auto simp: complete_cleanup_action_def db_bind_Inr db_lift_Inr db_read_Inr db_constrained_Inr prepares_def
        sqlite_usize_Inr)
  let ?f = "\<lambda>q. q\<lparr>ac_disposition := Some (signal_disposition_name d), ac_completed_at := Some t\<rparr>"
  have settled: "ac_disposition q \<noteq> None" if "q \<in> set ds" for q
    using ds(3) that by (auto simp: list_all2_conv_all_nth in_set_conv_nth shows_action_def)
  have "filter (\<lambda>a. ac_attempt_id a = cah_id h) (t_actions s') = update_where ?P ?f (ds @ [r])"
    using filter_update_where [of ?P "\<lambda>a. ac_attempt_id a = cah_id h" ?f "t_actions s"] by (simp add: s' ds(1))
  also have "\<dots> = update_where ?P ?f ds @ [?f r]" using r by (simp add: update_where_def prepares_def)
  also have "update_where ?P ?f ds = ds" by (rule update_where_none) (use settled in auto)
  finally have rows: "filter (\<lambda>a. ac_attempt_id a = cah_id h) (t_actions s') = ds @ [?f r]" .
  have "signals_match (cah_id h) j' s' NoAction (xs @ [action_of i d])"
    unfolding signals_match_def
    by (rule exI [of _ "ds @ [?f r]"], rule exI [of _ "[]"])
       (use ds(2,3) shows_completed [OF r, of t d] in \<open>simp add: rows j' open_signal_def list_all2_appendI\<close>)
  moreover have "artifacts_match (cah_id h) j' s' NoAction ys"
    using art by (simp add: artifacts_match_def open_artifact_def s' j')
  moreover have "journal_inv s'" using keepsD [OF journal.keeps_complete inv c] .
  moreover have "attempt_live h s'" using live unfolding attempt_live_def find_attempt_def s' by simp
  ultimately show ?thesis by (simp add: linked_def j' h)
qed

lemma linked_prepare_artifact:
  assumes link: "linked h j s (NoAction, xs, ys)" and run: "journal_prepare_artifact_action i at (j, s) = (Inr a, j', s')"
  shows "linked h j' s' (OpenArtifact a i, xs, ys)"
proof -
  from link have inv: "journal_inv s" and live: "attempt_live h s" and h: "aj_attempt j = h" and sig: "signals_match (cah_id h) j s NoAction xs"
    and art: "artifacts_match (cah_id h) j s NoAction ys" by (simp_all add: linked_def)
  from run obtain p where p: "prepare_cleanup_artifact_action h (aj_next_artifact_sequence j) at i s = Inr (p, s')"
    and j': "j' = j\<lparr>aj_next_artifact_sequence := aj_next_artifact_sequence j + 1,
       aj_prepared_artifacts := bt_insert a p (aj_prepared_artifacts j)\<rparr>"
    by (auto simp: journal_prepare_artifact_action_def h Let_def split: if_splits sum.splits)
  from prepare_artifact_effect [OF p] obtain r where
    s': "s' = s\<lparr>t_artifact_actions := t_artifact_actions s @ [r], t_next_artifact_action_id := t_next_artifact_action_id s + 1\<rparr>"
    and r: "prepares_artifact r i" "ar_attempt_id r = cah_id h" "ar_sequence r = int (aj_next_artifact_sequence j)"
    "paah_id p = ar_id r" "paah_attempt_id p = cah_id h" "paah_sequence p = aj_next_artifact_sequence j" by blast
  from art obtain ds where ds: "filter (\<lambda>a. ar_attempt_id a = cah_id h) (t_artifact_actions s) = ds"
    "map ar_sequence ds = map int [0..<aj_next_artifact_sequence j]" "list_all2 shows_artifact ds ys"
    by (auto simp: artifacts_match_def open_artifact_def)
  have "artifacts_match (cah_id h) j' s' (OpenArtifact a i) ys"
    unfolding artifacts_match_def
    by (rule exI [of _ ds], rule exI [of _ "[r]"]) (simp add: s' j' ds r open_artifact_def bt_get_insert)
  moreover have "signals_match (cah_id h) j' s' (OpenArtifact a i) xs"
    using sig by (simp add: signals_match_def open_signal_def s' j')
  moreover have "journal_inv s'" using keepsD [OF journal.keeps_prepare_artifact inv p] .
  moreover have "attempt_live h s'" using live unfolding attempt_live_def find_attempt_def s' by simp
  ultimately show ?thesis by (simp add: linked_def j' h)
qed

lemma linked_complete_artifact:
  assumes link: "linked h j s (OpenArtifact a i, xs, ys)"
    and run: "journal_complete_artifact_action a d at (j, s) = (Inr (), j', s')"
  shows "linked h j' s' (NoAction, xs, ys @ [artifact_action_of i d])"
proof -
  from link have inv: "journal_inv s" and live: "attempt_live h s" and h: "aj_attempt j = h" and sig: "signals_match (cah_id h) j s (OpenArtifact a i) xs"
    and art: "artifacts_match (cah_id h) j s (OpenArtifact a i) ys" by (simp_all add: linked_def)
  from art obtain ds r p where
    ds: "filter (\<lambda>a. ar_attempt_id a = cah_id h) (t_artifact_actions s) = ds @ [r]"
      "map ar_sequence (ds @ [r]) = map int [0..<aj_next_artifact_sequence j]" "list_all2 shows_artifact ds ys"
    and r: "prepares_artifact r i" and p: "bt_get (aj_prepared_artifacts j) a = Some p" "paah_id p = ar_id r"
      "paah_attempt_id p = ar_attempt_id r" "int (paah_sequence p) = ar_sequence r"
    by (auto simp: artifacts_match_def open_artifact_def)
  from run p(1) have c: "complete_cleanup_artifact_action p at d s = Inr ((), s')" and j': "j' = j"
    by (auto simp: journal_complete_artifact_action_def split: sum.splits prod.splits)
  have "r \<in> set (filter (\<lambda>a. ar_attempt_id a = cah_id h) (t_artifact_actions s))" unfolding ds(1) by simp
  then have mem: "r \<in> set (t_artifact_actions s)" by simp
  have keys: "keyed ar_id (t_artifact_actions s) (t_next_artifact_action_id s)" using inv by (simp add: journal_inv_def keys_ok_def)
  let ?P = "\<lambda>q. ar_id q = ar_id r \<and> ar_disposition q = None"
  from c obtain t where s': "s' = s\<lparr>t_artifact_actions := update_where ?P
      (\<lambda>q. q\<lparr>ar_disposition := Some (artifact_disposition_name d), ar_completed_at := Some t\<rparr>) (t_artifact_actions s)\<rparr>"
    using find_keyed [OF keys mem] p r
    by (auto simp: complete_cleanup_artifact_action_def db_bind_Inr db_lift_Inr db_read_Inr db_constrained_Inr
        prepares_artifact_def sqlite_usize_Inr)
  let ?f = "\<lambda>q. q\<lparr>ar_disposition := Some (artifact_disposition_name d), ar_completed_at := Some t\<rparr>"
  have settled: "ar_disposition q \<noteq> None" if "q \<in> set ds" for q
    using ds(3) that by (auto simp: list_all2_conv_all_nth in_set_conv_nth shows_artifact_def)
  have "filter (\<lambda>a. ar_attempt_id a = cah_id h) (t_artifact_actions s') = update_where ?P ?f (ds @ [r])"
    using filter_update_where [of ?P "\<lambda>a. ar_attempt_id a = cah_id h" ?f "t_artifact_actions s"] by (simp add: s' ds(1))
  also have "\<dots> = update_where ?P ?f ds @ [?f r]" using r by (simp add: update_where_def prepares_artifact_def)
  also have "update_where ?P ?f ds = ds" by (rule update_where_none) (use settled in auto)
  finally have rows: "filter (\<lambda>a. ar_attempt_id a = cah_id h) (t_artifact_actions s') = ds @ [?f r]" .
  have "artifacts_match (cah_id h) j' s' NoAction (ys @ [artifact_action_of i d])"
    unfolding artifacts_match_def
    by (rule exI [of _ "ds @ [?f r]"], rule exI [of _ "[]"])
       (use ds(2,3) shows_completed_artifact [OF r, of t d] in \<open>simp add: rows j' open_artifact_def list_all2_appendI\<close>)
  moreover have "signals_match (cah_id h) j' s' NoAction xs"
    using sig by (simp add: signals_match_def open_signal_def s' j')
  moreover have "journal_inv s'" using keepsD [OF journal.keeps_complete_artifact inv c] .
  moreover have "attempt_live h s'" using live unfolding attempt_live_def find_attempt_def s' by simp
  ultimately show ?thesis by (simp add: linked_def j' h)
qed

section \<open>The whole run\<close>

text \<open>As long as the log is lawful, the tables agree with it.\<close>

definition run_linked :: "cleanup_attempt_handle \<Rightarrow> revalidator \<Rightarrow> cleanup_plan \<Rightarrow> 'w journal_world \<times> event_trace \<Rightarrow> bool" where
  "run_linked h rv plan x = (case x of ((w, j, s), tr) \<Rightarrow> lawful rv plan tr \<longrightarrow> linked h j s (journal tr))"

lemma run_linked_runtime:
  assumes "run_linked h rv plan x" "\<And>a v. journal_step (mk a) v = v"
  shows "run_linked h rv plan (snd (logged (on_runtime f) mk x))"
  using assms by (auto simp: run_linked_def logged_def on_runtime_def split: prod.splits)

lemma run_linked_journal:
  assumes x: "run_linked h rv plan x"
    and step: "\<And>j s tr a j' s'. lawful rv plan (mk a # tr) \<Longrightarrow> linked h j s (journal tr) \<Longrightarrow> f (j, s) = (a, j', s') \<Longrightarrow>
      linked h j' s' (journal (mk a # tr))"
  shows "run_linked h rv plan (snd (logged (on_journal f) mk x))"
proof -
  obtain w j s tr where x': "x = ((w, j, s), tr)" by (metis surj_pair)
  obtain a j' s' where f: "f (j, s) = (a, j', s')" by (metis surj_pair)
  have "snd (logged (on_journal f) mk x) = ((w, j', s'), mk a # tr)"
    by (simp add: x' logged_def on_journal_def f)
  then show ?thesis using x step [OF _ _ f] by (simp add: x' run_linked_def del: journal.simps)
qed

lemma store_env_sel [simp]:
  "env_snapshot (store_env base) = on_runtime (env_snapshot base)"
  "env_lookup_process (store_env base) p = on_runtime (env_lookup_process base p)"
  "env_clock_sample (store_env base) = on_runtime (env_clock_sample base)"
  "env_signal_exact (store_env base) i sig = on_runtime (env_signal_exact base i sig)"
  "env_wait_until (store_env base) d = on_runtime (env_wait_until base d)"
  "env_freeze_artifact (store_env base) c = on_runtime (env_freeze_artifact base c)"
  "env_remove_artifact_exact (store_env base) f = on_runtime (env_remove_artifact_exact base f)"
  "env_prepare_action (store_env base) ai at = on_journal (journal_prepare_action ai at)"
  "env_complete_action (store_env base) a sd at = on_journal (journal_complete_action a sd at)"
  "env_prepare_artifact_action (store_env base) fi at = on_journal (journal_prepare_artifact_action fi at)"
  "env_complete_artifact_action (store_env base) a fd at = on_journal (journal_complete_artifact_action a fd at)"
  "env_should_stop (store_env base) = on_runtime (env_should_stop base)"
  by (simp_all add: store_env_def)

interpretation stored_run: environment_invariant "traced (store_env base)" "run_linked h rv plan" for base h rv plan
proof (unfold_locales, goal_cases)
  case (8 x ai at)
  show ?case unfolding traced_sel store_env_sel
  proof (rule run_linked_journal [OF 8], goal_cases)
    case (1 j s tr a j' s')
    show ?case
    proof (cases a)
      case (Inl e)
      then show ?thesis using 1 journal_failures(1) by fastforce
    next
      case (Inr b)
      then have "fst (journal tr) = NoAction" using 1(1) by simp
      then obtain xs ys where v: "journal tr = (NoAction, xs, ys)" by (metis prod.exhaust fst_conv)
      then show ?thesis using 1 Inr linked_prepare by simp
    qed
  qed
next
  case (9 x a d at)
  show ?case unfolding traced_sel store_env_sel
  proof (rule run_linked_journal [OF 9], goal_cases)
    case (1 j s tr r j' s')
    from 1(1) obtain i where "fst (journal tr) = OpenSignal a i" by auto
    then obtain xs ys where v: "journal tr = (OpenSignal a i, xs, ys)" by (metis prod.exhaust fst_conv)
    show ?case
    proof (cases r)
      case (Inl e)
      then show ?thesis using 1 journal_failures(2) by fastforce
    next
      case (Inr u)
      then show ?thesis using 1 v linked_complete by simp
    qed
  qed
next
  case (10 x fi at)
  show ?case unfolding traced_sel store_env_sel
  proof (rule run_linked_journal [OF 10], goal_cases)
    case (1 j s tr a j' s')
    show ?case
    proof (cases a)
      case (Inl e)
      then show ?thesis using 1 journal_failures(3) by fastforce
    next
      case (Inr b)
      then have "fst (journal tr) = NoAction" using 1(1) by simp
      then obtain xs ys where v: "journal tr = (NoAction, xs, ys)" by (metis prod.exhaust fst_conv)
      then show ?thesis using 1 Inr linked_prepare_artifact by simp
    qed
  qed
next
  case (11 x a fd at)
  show ?case unfolding traced_sel store_env_sel
  proof (rule run_linked_journal [OF 11], goal_cases)
    case (1 j s tr r j' s')
    from 1(1) obtain i where "fst (journal tr) = OpenArtifact a i" by auto
    then obtain xs ys where v: "journal tr = (OpenArtifact a i, xs, ys)" by (metis prod.exhaust fst_conv)
    show ?case
    proof (cases r)
      case (Inl e)
      then show ?thesis using 1 journal_failures(4) by fastforce
    next
      case (Inr u)
      then show ?thesis using 1 v linked_complete_artifact by simp
    qed
  qed
qed (unfold traced_sel store_env_sel; rule run_linked_runtime; simp)+

lemma begin_effect:
  assumes inv: "journal_inv s0" and run: "begin_cleanup_attempt t r e s0 = Inr (h, s)"
  shows "linked h (journal_for h) s (NoAction, [], [])"
proof -
  have "dwp (begin_cleanup_attempt t r e) (\<lambda>h s. t_actions s = t_actions s0 \<and> t_artifact_actions s = t_artifact_actions s0
      \<and> cah_id h = t_next_attempt_id s0 \<and> (\<exists>row. t_attempts s = t_attempts s0 @ [row] \<and> at_id row = cah_id h
        \<and> at_incident_id row = cah_incident_id h \<and> at_terminal_state row = None)) s0"
    unfolding begin_cleanup_attempt_def insert_event_transaction_def insert_public_event_token_def dwp_simps by simp
  from dwpD [OF this run] obtain row where same: "t_actions s = t_actions s0" "t_artifact_actions s = t_artifact_actions s0"
      "cah_id h = t_next_attempt_id s0"
    and row: "t_attempts s = t_attempts s0 @ [row]" "at_id row = cah_id h" "at_incident_id row = cah_incident_id h"
      "at_terminal_state row = None" by blast
  have inv': "journal_inv s" using keepsD [OF journal.keeps_begin inv run] .
  have "row \<in> set (t_attempts s)" by (simp add: row(1))
  from find_attempt_mem [OF inv' this] have "find_attempt (cah_id h) s = Some row" by (simp add: row(2))
  then have "attempt_live h s" using row(3,4) by (simp add: attempt_live_def)
  moreover have "filter (\<lambda>a. ac_attempt_id a = cah_id h) (t_actions s) = []"
    "filter (\<lambda>a. ar_attempt_id a = cah_id h) (t_artifact_actions s) = []"
    using inv by (auto simp: same filter_empty_conv journal_inv_def references_ok_def list_all_iff)
  ultimately show ?thesis
    using inv' by (simp add: linked_def signals_match_def artifacts_match_def open_signal_def open_artifact_def journal_for_def)
qed

lemma sort_key_sorted: "sorted (map f xs) \<Longrightarrow> sort_key f xs = xs"
  by (induction xs) (auto simp: insort_is_Cons)

lemma sorted_sequence: "sorted (map int [0..<n])"
  by (induction n) (auto simp: sorted_append)

lemma db_map_all2: "list_all2 (\<lambda>r x. f r s = Inr (x, s)) rows xs \<Longrightarrow> db_map f rows s = Inr (xs, s)"
  by (induction rule: list_all2_induct) (simp_all add: db_ops)

lemma list_all2_left: "list_all2 R xs ys \<Longrightarrow> x \<in> set xs \<Longrightarrow> \<exists>y. R x y"
  by (induction rule: list_all2_induct) auto

lemma filter_and_empty: "filter P rows = ds \<Longrightarrow> (\<And>q. q \<in> set ds \<Longrightarrow> \<not> D q) \<Longrightarrow> filter (\<lambda>a. P a \<and> D a) rows = []"
  by (auto simp: filter_empty_conv)

definition holds_receipt :: "cleanup_attempt_handle \<Rightarrow> store \<Rightarrow> cleanup_receipt \<Rightarrow> bool" where
  "holds_receipt h s r \<longleftrightarrow> actions_for_attempt (cah_id h) s = Inr (rcpt_actions r, s)
     \<and> artifact_actions_for_attempt (cah_id h) s = Inr (rcpt_artifact_actions r, s)
     \<and> resolved (cah_id h) s \<and> attempt_live h s"

lemma linked_holds:
  assumes "linked h j s (NoAction, rcpt_actions r, rcpt_artifact_actions r)"
  shows "holds_receipt h s r"
proof -
  from assms obtain ds es where
    ds: "filter (\<lambda>a. ac_attempt_id a = cah_id h) (t_actions s) = ds" "map ac_sequence ds = map int [0..<aj_next_sequence j]"
      "list_all2 shows_action ds (rcpt_actions r)"
    and es: "filter (\<lambda>a. ar_attempt_id a = cah_id h) (t_artifact_actions s) = es"
      "map ar_sequence es = map int [0..<aj_next_artifact_sequence j]" "list_all2 shows_artifact es (rcpt_artifact_actions r)"
    and live: "attempt_live h s"
    by (auto simp: linked_def signals_match_def artifacts_match_def open_signal_def open_artifact_def)
  have "attempt_actions (cah_id h) s = ds" "attempt_artifact_actions (cah_id h) s = es"
    using ds(2) es(2) sorted_sequence by (simp_all add: attempt_actions_def attempt_artifact_actions_def ds(1) es(1) sort_key_sorted)
  moreover have "db_map action_of_row ds s = Inr (rcpt_actions r, s)"
    by (rule db_map_all2, rule list_all2_mono [OF ds(3)]) (simp add: shows_action_def)
  moreover have "db_map artifact_action_of_row es s = Inr (rcpt_artifact_actions r, s)"
    by (rule db_map_all2, rule list_all2_mono [OF es(3)]) (simp add: shows_artifact_def)
  moreover have "filter (\<lambda>a. ac_attempt_id a = cah_id h \<and> ac_disposition a = None) (t_actions s) = []"
    by (rule filter_and_empty [OF ds(1)]) (use list_all2_left [OF ds(3)] in \<open>auto simp: shows_action_def\<close>)
  moreover have "filter (\<lambda>a. ar_attempt_id a = cah_id h \<and> ar_disposition a = None) (t_artifact_actions s) = []"
    by (rule filter_and_empty [OF es(1)]) (use list_all2_left [OF es(3)] in \<open>auto simp: shows_artifact_def\<close>)
  ultimately show ?thesis
    using live by (simp add: holds_receipt_def actions_for_attempt_def artifact_actions_for_attempt_def db_ops resolved_def
        prepared_actions_def prepared_artifact_actions_def)
qed

lemma linked_open:
  assumes link: "linked h j s (op, xs, ys)" and op: "open_id op = Some a"
  shows "prepared_actions (cah_id h) s + prepared_artifact_actions (cah_id h) s = 1"
proof -
  from link obtain ds os es ps where
    ds: "filter (\<lambda>a. ac_attempt_id a = cah_id h) (t_actions s) = ds @ os" "list_all2 shows_action ds xs" "open_signal j op os"
    and es: "filter (\<lambda>a. ar_attempt_id a = cah_id h) (t_artifact_actions s) = es @ ps" "list_all2 shows_artifact es ys"
      "open_artifact j op ps"
    by (auto simp: linked_def signals_match_def artifacts_match_def)
  have "filter (\<lambda>a. ac_disposition a = None) ds = []" "filter (\<lambda>a. ar_disposition a = None) es = []"
    using list_all2_left [OF ds(2)] list_all2_left [OF es(2)] by (auto simp: filter_empty_conv shows_action_def shows_artifact_def)
  moreover have "prepared_actions (cah_id h) s = length (filter (\<lambda>a. ac_disposition a = None) (ds @ os))"
    "prepared_artifact_actions (cah_id h) s = length (filter (\<lambda>a. ar_disposition a = None) (es @ ps))"
    by (simp_all add: prepared_actions_def prepared_artifact_actions_def flip: ds(1) es(1) filter_filter)
  moreover have "length (filter (\<lambda>a. ac_disposition a = None) os) + length (filter (\<lambda>a. ar_disposition a = None) ps) = 1"
    using op ds(3) es(3)
    by (cases op) (auto simp: open_signal_def open_artifact_def prepares_def prepares_artifact_def)
  ultimately show ?thesis by simp
qed

text \<open>What the tables show of a completed attempt: the attempt row carries the verdict, one cleanup event with the whole receipt and one
  impact row are appended, the action rows still read as the actions of the receipt, and a failed or revived incident is blocked.\<close>

definition stores_receipt :: "int \<Rightarrow> int \<Rightarrow> cleanup_receipt \<Rightarrow> store \<Rightarrow> store \<Rightarrow> bool" where
  "stores_receipt i t rc s s' \<longleftrightarrow>
     (\<exists>row. find_attempt i s' = Some row \<and> at_completed_at row = Some t \<and> at_terminal_state row = Some (state_name (rcpt_state rc))
        \<and> at_reason_id row = rcpt_reason_id rc \<and> at_survivor_pids row = Some (rcpt_survivor_pids rc)
        \<and> at_revival_checks row = int (rcpt_revival_checks_completed rc) \<and> at_resources row = Some (rcpt_resources rc))
     \<and> (\<exists>e m. t_events s' = t_events s @ [e] \<and> evt_attempt_id e = Some i \<and> evt_incident_id e = rcpt_incident_id rc
        \<and> evt_kind e = ''cleanup'' \<and> evt_state e = state_name (rcpt_state rc) \<and> evt_occurred_at e = t \<and> evt_payload e = CleanupPayload rc
        \<and> t_impacts s' = t_impacts s @ [m] \<and> im_attempt_id m = i \<and> im_event_id m = evt_id e \<and> im_state m = state_name (rcpt_state rc))
     \<and> actions_for_attempt i s' = Inr (rcpt_actions rc, s') \<and> artifact_actions_for_attempt i s' = Inr (rcpt_artifact_actions rc, s')
     \<and> (rcpt_state rc \<in> {Failed, Revived} \<longrightarrow>
          list_ex (\<lambda>b. rb_incident_id b = rcpt_incident_id rc \<and> rb_source_attempt_id b = i) (t_retry_blocks s'))"

definition same_attempts :: "store \<Rightarrow> store \<Rightarrow> bool" where
  "same_attempts s s' \<longleftrightarrow> t_attempts s' = t_attempts s \<and> t_actions s' = t_actions s \<and> t_artifact_actions s' = t_artifact_actions s
     \<and> t_retry_blocks s' = t_retry_blocks s"

lemma insert_event_effect:
  assumes "insert_event_transaction a t i k st p s = Inr (n, s')"
  shows "\<exists>e. t_events s' = t_events s @ [e] \<and> evt_id e = n \<and> evt_attempt_id e = a \<and> evt_incident_id e = i \<and> evt_kind e = event_kind_as_str k
    \<and> evt_state e = state_name st \<and> evt_occurred_at e = uint t \<and> evt_payload e = p \<and> t_impacts s' = t_impacts s \<and> same_attempts s s'"
  using assms
  by (auto simp: insert_event_transaction_def insert_public_event_token_def db_simps same_attempts_def)

lemma impact_parts: "impact_process_count b rc n s = Inr (x, s') \<Longrightarrow> s' = s" "impact_memory b rc s = Inr (y, s') \<Longrightarrow> s' = s"
  by (auto simp: impact_process_count_def impact_memory_def db_simps split: if_splits option.splits)

lemma insert_impact_effect:
  assumes "insert_cleanup_impact_transaction i n t rc s = Inr (x, s')"
  shows "\<exists>m. t_impacts s' = t_impacts s @ [m] \<and> im_attempt_id m = i \<and> im_event_id m = n \<and> im_state m = state_name (rcpt_state rc)
    \<and> t_events s' = t_events s \<and> same_attempts s s'"
  using assms
  by (auto simp: insert_cleanup_impact_transaction_def db_simps same_attempts_def split: option.splits dest!: impact_parts)

lemma find_attempt_closed:
  assumes "find_attempt i s = Some row" "attempt_open row"
  shows "find_attempt i (s\<lparr>t_attempts := update_where (\<lambda>a. at_id a = i \<and> attempt_open a) (closed_row t rc n) (t_attempts s)\<rparr>) = Some (closed_row t rc n row)"
proof -
  have "find (\<lambda>a. at_id a = i) (update_where (\<lambda>a. at_id a = i \<and> attempt_open a) (closed_row t rc n) as)
      = map_option (\<lambda>a. if attempt_open a then closed_row t rc n a else a) (find (\<lambda>a. at_id a = i) as)" for as
    by (induction as) (auto simp: update_where_def)
  with assms show ?thesis by (simp add: find_attempt_def)
qed

lemma record_terminal_effect:
  assumes "record_terminal i t rc s = Inr (x, s')"
  shows "(\<exists>e m. t_events s' = t_events s @ [e] \<and> evt_attempt_id e = Some i \<and> evt_incident_id e = rcpt_incident_id rc
      \<and> evt_kind e = ''cleanup'' \<and> evt_state e = state_name (rcpt_state rc) \<and> evt_occurred_at e = uint t \<and> evt_payload e = CleanupPayload rc
      \<and> t_impacts s' = t_impacts s @ [m] \<and> im_attempt_id m = i \<and> im_event_id m = evt_id e \<and> im_state m = state_name (rcpt_state rc))
    \<and> same_attempts s s'"
proof -
  obtain n s1 where event: "insert_event_transaction (Some i) t (rcpt_incident_id rc) CleanupEvent (rcpt_state rc) (CleanupPayload rc) s = Inr (n, s1)"
    and impact: "insert_cleanup_impact_transaction i n t rc s1 = Inr (x, s')"
    using assms by (auto simp: record_terminal_def db_bind_Inr)
  from insert_event_effect [OF event] insert_impact_effect [OF impact] show ?thesis
    by (fastforce simp: same_attempts_def)
qed

lemma insert_retry_block_effect:
  assumes "insert_retry_block i k t reason a s = Inr (x, s')"
  shows "list_ex (\<lambda>b. rb_incident_id b = i \<and> rb_source_attempt_id b = a) (t_retry_blocks s')" "\<exists>bs. s' = s\<lparr>t_retry_blocks := bs\<rparr>"
proof -
  define row where "row = \<lparr>rb_incident_id = i, rb_tracking_key = k, rb_blocked_at = t, rb_reason_id = reason,
    rb_source_attempt_id = a, rb_last_exact_observed_at = None, rb_absence_since = None\<rparr>"
  have s': "s' = s\<lparr>t_retry_blocks := upsert (\<lambda>b. rb_incident_id b = i) (\<lambda>_. row) row (t_retry_blocks s)\<rparr>"
    using assms by (simp add: insert_retry_block_def Let_def db_constrained_Inr row_def)
  have "row \<in> set (upsert P (\<lambda>_. row) row rows)" for P rows
    by (force simp: upsert_def update_where_def list_ex_iff)
  then show "list_ex (\<lambda>b. rb_incident_id b = i \<and> rb_source_attempt_id b = a) (t_retry_blocks s')"
    unfolding s' list_ex_iff by (intro bexI [of _ row]) (simp_all add: row_def)
  show "\<exists>bs. s' = s\<lparr>t_retry_blocks := bs\<rparr>" using s' by blast
qed

lemma action_rows_read:
  "action_of_row r s = Inr (x, u) \<Longrightarrow> u = s \<and> (\<forall>s'. action_of_row r s' = Inr (x, s'))"
  "artifact_action_of_row q s = Inr (y, v) \<Longrightarrow> v = s \<and> (\<forall>s'. artifact_action_of_row q s' = Inr (y, s'))"
  by (auto simp: action_of_row_def artifact_action_of_row_def db_simps split: option.splits)

lemma actions_elsewhere:
  assumes "t_actions s' = t_actions s" "t_artifact_actions s' = t_artifact_actions s"
  shows "actions_for_attempt i s = Inr (as, s) \<Longrightarrow> actions_for_attempt i s' = Inr (as, s')"
    "artifact_actions_for_attempt i s = Inr (bs, s) \<Longrightarrow> artifact_actions_for_attempt i s' = Inr (bs, s')"
proof -
  have "db_map action_of_row rs s = Inr (as, s) \<Longrightarrow> db_map action_of_row rs s' = Inr (as, s')" for rs as
    by (induction rs arbitrary: as) (auto simp: db_simps dest!: action_rows_read)
  moreover have "db_map artifact_action_of_row qs s = Inr (bs, s) \<Longrightarrow> db_map artifact_action_of_row qs s' = Inr (bs, s')" for qs bs
    by (induction qs arbitrary: bs) (auto simp: db_simps dest!: action_rows_read)
  ultimately show "actions_for_attempt i s = Inr (as, s) \<Longrightarrow> actions_for_attempt i s' = Inr (as, s')"
    "artifact_actions_for_attempt i s = Inr (bs, s) \<Longrightarrow> artifact_actions_for_attempt i s' = Inr (bs, s')"
    using assms by (simp_all add: actions_for_attempt_def artifact_actions_for_attempt_def db_simps attempt_actions_def attempt_artifact_actions_def)
qed

lemma completes_with:
  assumes inv: "journal_inv s" and hold: "holds_receipt h s r" and run: "complete_cleanup_attempt json_len h t r s = Inr (stored, s')"
  shows "stored = projected_receipt (cah_incident_id h) r (rcpt_actions r) (rcpt_artifact_actions r)
    \<and> stores_receipt (cah_id h) (uint t) stored s s'"
proof -
  from hold obtain row where row: "find_attempt (cah_id h) s = Some row" "at_incident_id row = cah_incident_id h"
      "at_terminal_state row = None" by (auto simp: holds_receipt_def attempt_live_def)
  then have "attempt_check row" using inv by (auto simp: journal_inv_defs attempts_ok_def list_all_iff find_attempt_def find_Some_iff)
  with row(3) have live: "attempt_open row" by (simp add: attempt_check_def attempt_open_def)
  from run row have fin: "finish_open_attempt json_len h t (uint t) (at_tracking_key row) r s = Inr (stored, s')"
    by (auto simp: complete_cleanup_attempt_def db_bind_Inr db_lift_Inr db_read_Inr db_require_Inr sqlite_millis_Inr)
  let ?rc = "projected_receipt (cah_incident_id h) r (rcpt_actions r) (rcpt_artifact_actions r)"
  let ?n = "int (rcpt_revival_checks_completed ?rc)"
  define s1 where "s1 = s\<lparr>t_attempts := update_where (\<lambda>a. at_id a = cah_id h \<and> attempt_open a) (closed_row (uint t) ?rc ?n) (t_attempts s)\<rparr>"
  from fin hold obtain s2 where stored: "stored = ?rc" and terminal: "record_terminal (cah_id h) t ?rc s2 = Inr ((), s')"
    and block: "(if rcpt_state ?rc \<in> {Failed, Revived}
          then insert_retry_block (rcpt_incident_id ?rc) (at_tracking_key row) (uint t) (rcpt_reason_id ?rc) (cah_id h)
          else db_return ()) s1 = Inr ((), s2)"
    by (auto simp: finish_open_attempt_def db_bind_Inr db_read_Inr db_require_Inr db_return_Inr db_lift_Inr db_constrained_Inr sqlite_usize_Inr
        holds_receipt_def Let_def close_attempt_def s1_def)
  obtain bs where s2: "s2 = s1\<lparr>t_retry_blocks := bs\<rparr>" "rcpt_state ?rc \<in> {Failed, Revived} \<Longrightarrow>
      list_ex (\<lambda>b. rb_incident_id b = rcpt_incident_id ?rc \<and> rb_source_attempt_id b = cah_id h) bs"
  proof (cases "rcpt_state ?rc \<in> {Failed, Revived}")
    case True
    with block have b: "insert_retry_block (rcpt_incident_id ?rc) (at_tracking_key row) (uint t) (rcpt_reason_id ?rc) (cah_id h) s1 = Inr ((), s2)"
      by (simp only: if_True)
    then obtain bs where "s2 = s1\<lparr>t_retry_blocks := bs\<rparr>" using insert_retry_block_effect(2) by blast
    with insert_retry_block_effect(1) [OF b] show thesis by (intro that [of bs]) simp_all
  next
    case False
    with block show thesis using that [of "t_retry_blocks s1"] by (simp add: db_return_Inr)
  qed
  note rows = record_terminal_effect [OF terminal]
  then have tables: "t_attempts s' = t_attempts s1" "t_actions s' = t_actions s" "t_artifact_actions s' = t_artifact_actions s" "t_retry_blocks s' = bs"
    by (simp_all add: same_attempts_def s2(1) s1_def)
  have "find_attempt (cah_id h) s' = Some (closed_row (uint t) ?rc ?n row)"
    using find_attempt_closed [OF row(1) live, of "uint t" ?rc ?n] by (simp add: find_attempt_def tables(1) s1_def)
  moreover have "actions_for_attempt (cah_id h) s' = Inr (rcpt_actions ?rc, s')" "artifact_actions_for_attempt (cah_id h) s' = Inr (rcpt_artifact_actions ?rc, s')"
    using actions_elsewhere [OF tables(2,3)] hold by (simp_all add: holds_receipt_def projected_receipt_def Let_def)
  moreover have "t_events s2 = t_events s" "t_impacts s2 = t_impacts s" by (simp_all add: s2(1) s1_def)
  ultimately show ?thesis
    unfolding stores_receipt_def stored using rows s2(2) tables(4) by (simp add: closed_row_def)
qed

text \<open>
  C18: what the executor reports is what is stored. A cleanup attempt is begun on any reachable store and
  executed with the attempt's journal, whatever the runtime and the revalidator do. If the run ends with
  a receipt, on success or after a failure of the runtime, the tables list exactly the actions of that receipt, in order, with
  nothing left prepared; and when the attempt is then completed with it, that receipt, at most marked as a tree that ended without
  intervention, is what the tables hold: in the attempt row, in the payload of one new cleanup event, in the action rows and in one new
  impact row, with a retry block when the cleanup failed or the session revived. If the run leaves the attempt open, exactly one action is
  left prepared.
\<close>

theorem stored_receipt_is_executed:
  "case begin_cleanup_attempt t report epoch (journal_history cs empty_store) of
     Inl _ \<Rightarrow> True
   | Inr (h, s) \<Rightarrow>
       (case execute (store_env base) rv plan policy (w, journal_for h, s) of (result, w', j, s') \<Rightarrow>
          journal_inv s' \<and>
          (case (case result of Inr r \<Rightarrow> Some r | Inl e \<Rightarrow> terminal_receipt e) of
             None \<Rightarrow> prepared_actions (cah_id h) s' + prepared_artifact_actions (cah_id h) s' = 1
           | Some r \<Rightarrow> holds_receipt h s' r \<and>
               (case complete_cleanup_attempt json_len h t' r s' of
                  Inl _ \<Rightarrow> True
                | Inr (stored, s'') \<Rightarrow>
                    stored = projected_receipt (cah_incident_id h) r (rcpt_actions r) (rcpt_artifact_actions r)
                    \<and> stores_receipt (cah_id h) (uint t') stored s' s'')))"
proof (cases "begin_cleanup_attempt t report epoch (journal_history cs empty_store)")
  case (Inr p)
  then obtain h s where run: "begin_cleanup_attempt t report epoch (journal_history cs empty_store) = Inr (h, s)"
    by (cases p) auto
  have "journal_inv (journal_history cs empty_store)" by (rule journal.journal_history_keeps) (rule empty_store_inv)
  from begin_effect [OF this run] have start: "linked h (journal_for h) s (NoAction, [], [])" .
  obtain result w' j s' where ex: "execute (store_env base) rv plan policy (w, journal_for h, s) = (result, w', j, s')"
    by (metis surj_pair)
  from execute_traced_erases [OF ex, of "[]"] obtain tr where
    tr: "execute (traced (store_env base)) rv plan policy ((w, journal_for h, s), []) = (result, (w', j, s'), tr)" by auto
  have "run_linked h rv plan (snd (execute (traced (store_env base)) rv plan policy ((w, journal_for h, s), [])))"
    by (rule stored_run.execute_keeps) (simp add: run_linked_def start)
  then have link: "linked h j s' (journal tr)" using executor_run_lawful [OF tr] by (simp add: tr run_linked_def)
  then have "journal_inv s'" by (simp add: linked_def)
  moreover have "case result of
             Inr r \<Rightarrow> holds_receipt h s' r
           | Inl (RuntimeError _ r) \<Rightarrow> holds_receipt h s' r
           | Inl (AttemptOpen _ r a) \<Rightarrow> prepared_actions (cah_id h) s' + prepared_artifact_actions (cah_id h) s' = 1"
    using run_journal_receipt [OF tr] link linked_holds linked_open [of h j s' "fst (journal tr)"]
    by (auto split: sum.splits cleanup_error.splits) (metis prod.collapse)
  ultimately show ?thesis using run ex completes_with by (auto split: sum.splits cleanup_error.splits option.splits)
qed simp

end
