(* ===== verification/Store_Protections.thy ===== *)
theory Store_Protections
  imports Store_Journal
begin

text \<open>
  Owner protections and retry blocks of \<open>crates/unlinger-daemon/src/store.rs\<close>: protecting an incident, the
  reconciliation of both tables with what a scan saw, authorising a retry, and the pause setting.
\<close>

section \<open>Rows and summaries\<close>

definition protection_check :: "protection_row \<Rightarrow> bool" where
  "protection_check p =
     (0 \<le> pr_protected_at p \<and> check_opt (\<lambda>t. pr_protected_at p \<le> t) (pr_last_exact_observed_at p)
      \<and> check_opt (\<lambda>t. pr_protected_at p \<le> t) (pr_absence_since p))"

definition protections_ok :: "store \<Rightarrow> bool" where
  "protections_ok s = (list_all protection_check (t_protections s) \<and> distinct (map pr_incident_id (t_protections s)))"

record observed_incident_identity =
  oi_incident_id :: string
  oi_tracking_key :: string
  oi_root_identity_fingerprint :: string
  oi_member_fingerprint :: string

definition observed_identity_of :: "incident_report \<Rightarrow> observed_incident_identity" where
  "observed_identity_of report =
     \<lparr>oi_incident_id = incident_id report, oi_tracking_key = tracking_key report,
      oi_root_identity_fingerprint = root_identity_fingerprint (root report),
      oi_member_fingerprint = member_fingerprint report\<rparr>"

text \<open>Both reconciliations count the same four things.\<close>

record absence_counts =
  ab_observed :: usize
  ab_unproven :: usize
  ab_absent :: usize
  ab_retired :: usize

definition no_counts :: absence_counts where
  "no_counts = \<lparr>ab_observed = 0, ab_unproven = 0, ab_absent = 0, ab_retired = 0\<rparr>"

definition project_identifier :: "string \<Rightarrow> string \<Rightarrow> string" where
  "project_identifier value fallback =
     (if value \<noteq> [] \<and> length value \<le> max_redacted_identifier_chars \<and> list_all redacted_byte value
      then value else fallback)"

definition parse_optional_millis :: "int option \<Rightarrow> string \<Rightarrow> store_error + u64 option" where
  "parse_optional_millis v label =
     (case v of
        None \<Rightarrow> Inr None
      | Some t \<Rightarrow> (case parse_nonnegative_millis t label of Inl e \<Rightarrow> Inl e | Inr u \<Rightarrow> Inr (Some u)))"

definition projected_protection_summary :: "protection_row \<Rightarrow> protection_summary db" where
  "projected_protection_summary p =
     db_bind (db_lift (parse_nonnegative_millis (pr_protected_at p) ''incident protection timestamp'')) (\<lambda>protected_at.
     db_bind (db_lift (parse_optional_millis (pr_last_exact_observed_at p) ''last protected root observation'')) (\<lambda>last_observed.
     db_bind (db_lift (parse_optional_millis (pr_absence_since p) ''protected root absence timestamp'')) (\<lambda>absence_since.
     db_return \<lparr>ps_incident_id = project_identifier (pr_incident_id p) ''redacted-incident'',
       ps_protected_at_unix_millis = protected_at, ps_last_exact_observed_at_unix_millis = last_observed,
       ps_exact_absence_since_unix_millis = absence_since\<rparr>)))"

definition find_protection :: "string \<Rightarrow> store \<Rightarrow> protection_row option" where
  "find_protection incident s = find (\<lambda>p. pr_incident_id p = incident) (t_protections s)"

definition protection_summary_transaction :: "string \<Rightarrow> protection_summary option db" where
  "protection_summary_transaction incident =
     db_bind (db_read (find_protection incident)) (\<lambda>found.
     case found of
       None \<Rightarrow> db_return None
     | Some p \<Rightarrow> db_bind (projected_protection_summary p) (\<lambda>summary. db_return (Some summary)))"

definition protection_for_incident :: "string \<Rightarrow> protection_summary option db" where
  "protection_for_incident incident = protection_summary_transaction incident"

section \<open>Protecting an incident\<close>

text \<open>The latest observation of an incident: \<open>kind = 'observation' ORDER BY occurred_at_ms DESC, id DESC LIMIT 1\<close>.\<close>

definition latest_observation :: "string \<Rightarrow> store \<Rightarrow> event_row option" where
  "latest_observation incident s =
     latest_event incident (filter (\<lambda>e. evt_kind e = ''observation'') (t_events s))"

definition observed_report :: "string \<Rightarrow> event_row \<Rightarrow> store_error + observation_record" where
  "observed_report incident e =
     (case evt_payload e of
        CleanupPayload _ \<Rightarrow> Inl (Corrupt ''observation index selected a non-observation payload'')
      | ObservationPayload report \<Rightarrow>
          if ob_incident_id report \<noteq> incident then
            Inl (Corrupt ''observation incident ID disagrees with its index'')
          else Inr report)"

definition new_protection :: "observation_record \<Rightarrow> int \<Rightarrow> protection_row" where
  "new_protection report now =
     \<lparr>pr_incident_id = ob_incident_id report,
      pr_root_identity_fingerprint = root_identity_fingerprint (ob_root report),
      pr_member_fingerprint = ob_member_fingerprint report, pr_protected_at = now,
      pr_last_exact_observed_at = None, pr_absence_since = None\<rparr>"

definition same_session :: "protection_row \<Rightarrow> protection_row \<Rightarrow> bool" where
  "same_session p q = (pr_root_identity_fingerprint p = pr_root_identity_fingerprint q
     \<and> pr_member_fingerprint p = pr_member_fingerprint q)"

definition protect_incident :: "string \<Rightarrow> u64 \<Rightarrow> protection_summary option db" where
  "protect_incident incident now_unix_millis =
     db_bind (db_lift (sqlite_millis now_unix_millis ''incident protection timestamp'')) (\<lambda>now.
     db_bind (db_read (latest_observation incident)) (\<lambda>found.
     case found of
       None \<Rightarrow> protection_summary_transaction incident
     | Some e \<Rightarrow>
         db_bind (db_lift (observed_report incident e)) (\<lambda>report.
         let row = new_protection report now
         in db_bind (db_constrained protections_ok (\<lambda>s. s\<lparr>t_protections :=
              upsert (\<lambda>p. pr_incident_id p = ob_incident_id report) (\<lambda>p. if same_session p row then p else row)
                row (t_protections s)\<rparr>)) (\<lambda>_.
            db_bind (protection_summary_transaction incident) (\<lambda>summary.
            case summary of
              None \<Rightarrow> db_fail (Corrupt ''incident protection disappeared during creation'')
            | Some x \<Rightarrow> db_return (Some x))))))"

definition delete_protection :: "string \<Rightarrow> unit db" where
  "delete_protection incident = db_write (\<lambda>s. s\<lparr>t_protections :=
     delete_where (\<lambda>p. pr_incident_id p = incident) (t_protections s)\<rparr>)"

definition unprotect_incident :: "string \<Rightarrow> bool db" where
  "unprotect_incident incident =
     db_bind (db_read (\<lambda>s. list_ex (\<lambda>p. pr_incident_id p = incident) (t_protections s))) (\<lambda>removed.
     db_bind (delete_protection incident) (\<lambda>_.
     db_return removed))"

definition is_incident_protected :: "incident_report \<Rightarrow> store \<Rightarrow> bool" where
  "is_incident_protected report s =
     list_ex (\<lambda>p. pr_incident_id p = incident_id report
       \<and> pr_root_identity_fingerprint p = root_identity_fingerprint (root report)
       \<and> pr_member_fingerprint p = member_fingerprint report) (t_protections s)"

section \<open>Reconciliation with a scan\<close>

fun db_fold :: "('x \<Rightarrow> 'a \<Rightarrow> 'a db) \<Rightarrow> 'x list \<Rightarrow> 'a \<Rightarrow> 'a db" where
  "db_fold f [] acc = db_return acc"
| "db_fold f (x # xs) acc = db_bind (f x acc) (db_fold f xs)"

definition i64_saturating_sub :: "int \<Rightarrow> int \<Rightarrow> int" where
  "i64_saturating_sub a b = max (- (2 ^ 63)) (min (2 ^ 63 - 1) (a - b))"

definition update_protection :: "string \<Rightarrow> (protection_row \<Rightarrow> protection_row) \<Rightarrow> unit db" where
  "update_protection incident f = db_constrained protections_ok (\<lambda>s. s\<lparr>t_protections :=
     update_where (\<lambda>p. pr_incident_id p = incident) f (t_protections s)\<rparr>)"

text \<open>The body of both loops is the same up to the table: what one row is told by one scan.\<close>

definition reconcile_absence ::
    "bool \<Rightarrow> bool \<Rightarrow> int \<Rightarrow> int \<Rightarrow> int option \<Rightarrow> unit db \<Rightarrow> (int option \<Rightarrow> unit db) \<Rightarrow> unit db
      \<Rightarrow> absence_counts \<Rightarrow> absence_counts db" where
  "reconcile_absence observed absence_proven now retention absence_since mark_seen mark_absence retire counts =
     (if observed then
        db_bind mark_seen (\<lambda>_. db_return (counts\<lparr>ab_observed := ab_observed counts + 1\<rparr>))
      else if \<not> absence_proven then
        db_bind (mark_absence None) (\<lambda>_. db_return (counts\<lparr>ab_unproven := ab_unproven counts + 1\<rparr>))
      else
        let counts = counts\<lparr>ab_absent := ab_absent counts + 1\<rparr>
        in (case absence_since of
              None \<Rightarrow> db_bind (mark_absence (Some now)) (\<lambda>_. db_return counts)
            | Some since \<Rightarrow>
                if retention \<le> i64_saturating_sub now since then
                  db_bind retire (\<lambda>_. db_return (counts\<lparr>ab_retired := ab_retired counts + 1\<rparr>))
                else db_return counts))"

definition reconcile_protection ::
    "string list \<Rightarrow> bool \<Rightarrow> int \<Rightarrow> int \<Rightarrow> protection_row \<Rightarrow> absence_counts \<Rightarrow> absence_counts db" where
  "reconcile_protection live absence_proven now retention r =
     reconcile_absence (pr_root_identity_fingerprint r \<in> set live) absence_proven now retention (pr_absence_since r)
       (update_protection (pr_incident_id r) (\<lambda>p. p\<lparr>pr_last_exact_observed_at := Some now, pr_absence_since := None\<rparr>))
       (\<lambda>t. update_protection (pr_incident_id r) (\<lambda>p. p\<lparr>pr_absence_since := t\<rparr>))
       (delete_protection (pr_incident_id r))"

definition reconcile_incident_protections :: "string list \<Rightarrow> bool \<Rightarrow> u64 \<Rightarrow> u64 \<Rightarrow> absence_counts db" where
  "reconcile_incident_protections live absence_proven now_unix_millis exact_absence_retention_millis =
     db_bind (db_require (exact_absence_retention_millis \<noteq> 0)
       (Invalid ''protection exact-absence retention must be non-zero'')) (\<lambda>_.
     db_bind (db_lift (sqlite_millis now_unix_millis ''protection reconciliation timestamp'')) (\<lambda>now.
     db_bind (db_lift (sqlite_millis exact_absence_retention_millis ''protection exact-absence retention'')) (\<lambda>retention.
     db_bind (db_read t_protections) (\<lambda>protections.
     db_fold (reconcile_protection live absence_proven now retention) protections no_counts))))"

definition update_block :: "string \<Rightarrow> (retry_block_row \<Rightarrow> retry_block_row) \<Rightarrow> unit db" where
  "update_block incident f = db_constrained retry_blocks_ok (\<lambda>s. s\<lparr>t_retry_blocks :=
     update_where (\<lambda>b. rb_incident_id b = incident) f (t_retry_blocks s)\<rparr>)"

text \<open>\<open>cleanup_retry_blocks JOIN cleanup_attempts ON attempts.id = blocks.source_attempt_id\<close>.\<close>

definition joined_blocks :: "store \<Rightarrow> (retry_block_row \<times> attempt_row) list" where
  "joined_blocks s =
     concat (map (\<lambda>b. map (Pair b) (filter (\<lambda>a. at_id a = rb_source_attempt_id b) (t_attempts s))) (t_retry_blocks s))"

definition block_observed ::
    "observed_incident_identity list \<Rightarrow> string list \<Rightarrow> retry_block_row \<Rightarrow> attempt_row \<Rightarrow> bool" where
  "block_observed observed live b a =
     (\<lparr>oi_incident_id = rb_incident_id b, oi_tracking_key = rb_tracking_key b,
       oi_root_identity_fingerprint = at_root_identity_fingerprint a,
       oi_member_fingerprint = at_member_fingerprint a\<rparr> \<in> set observed
      \<or> at_root_identity_fingerprint a \<in> set live)"

definition delete_retry_block :: "string \<Rightarrow> unit db" where
  "delete_retry_block incident = db_write (\<lambda>s. s\<lparr>t_retry_blocks :=
     delete_where (\<lambda>b. rb_incident_id b = incident) (t_retry_blocks s)\<rparr>)"

definition reconcile_block ::
    "observed_incident_identity list \<Rightarrow> string list \<Rightarrow> bool \<Rightarrow> int \<Rightarrow> int \<Rightarrow> retry_block_row \<times> attempt_row
      \<Rightarrow> absence_counts \<Rightarrow> absence_counts db" where
  "reconcile_block observed live absence_proven now retention = (\<lambda>(b, a).
     reconcile_absence (block_observed observed live b a) absence_proven now retention (rb_absence_since b)
       (update_block (rb_incident_id b) (\<lambda>b. b\<lparr>rb_last_exact_observed_at := Some now, rb_absence_since := None\<rparr>))
       (\<lambda>t. update_block (rb_incident_id b) (\<lambda>b. b\<lparr>rb_absence_since := t\<rparr>))
       (delete_retry_block (rb_incident_id b)))"

definition reconcile_retry_blocks ::
    "observed_incident_identity list \<Rightarrow> string list \<Rightarrow> bool \<Rightarrow> u64 \<Rightarrow> u64 \<Rightarrow> absence_counts db" where
  "reconcile_retry_blocks observed live absence_proven now_unix_millis exact_absence_retention_millis =
     db_bind (db_require (exact_absence_retention_millis \<noteq> 0)
       (Invalid ''retry block exact-absence retention must be non-zero'')) (\<lambda>_.
     db_bind (db_lift (sqlite_millis now_unix_millis ''retry block reconciliation timestamp'')) (\<lambda>now.
     db_bind (db_lift (sqlite_millis exact_absence_retention_millis ''retry block exact-absence retention'')) (\<lambda>retention.
     db_bind (db_read joined_blocks) (\<lambda>blocks.
     db_fold (reconcile_block observed live absence_proven now retention) blocks no_counts))))"

section \<open>Retries and the pause\<close>

definition find_block :: "string \<Rightarrow> store \<Rightarrow> retry_block_row option" where
  "find_block incident s = find (\<lambda>b. rb_incident_id b = incident) (t_retry_blocks s)"

text \<open>The two deletions of a retry: its block, and what the abandonment clock knows of its session.\<close>

definition delete_block :: "string \<Rightarrow> string \<Rightarrow> unit db" where
  "delete_block incident key =
     db_bind (delete_retry_block incident) (\<lambda>_.
     db_write (\<lambda>s. s\<lparr>t_cooling := delete_where (\<lambda>c. cr_tracking_key c = key) (t_cooling s)\<rparr>))"

definition authorize_retry :: "string \<Rightarrow> u64 \<Rightarrow> bool db" where
  "authorize_retry incident occurred_at_unix_millis =
     db_bind (db_lift (sqlite_millis occurred_at_unix_millis ''retry authorization timestamp'')) (\<lambda>_.
     db_bind (db_read (find_block incident)) (\<lambda>found.
     case found of
       None \<Rightarrow> db_return False
     | Some b \<Rightarrow> db_bind (delete_block incident (rb_tracking_key b)) (\<lambda>_. db_return True)))"

definition pause_key :: string where
  "pause_key = ''pause_until_ms''"

definition bt_remove :: "'k \<Rightarrow> ('k, 'v) btree \<Rightarrow> ('k, 'v) btree" where
  "bt_remove k m = filter (\<lambda>e. fst e \<noteq> k) m"

definition set_pause_until :: "u64 option \<Rightarrow> unit db" where
  "set_pause_until pause_until_unix_millis =
     (case pause_until_unix_millis of
        Some deadline \<Rightarrow>
          (case i64_try_from deadline of
             None \<Rightarrow> db_fail (RangeError ''pause deadline overflowed SQLite integer'')
           | Some d \<Rightarrow> db_write (\<lambda>s. s\<lparr>t_settings := bt_insert pause_key (Some d) (t_settings s)\<rparr>))
      | None \<Rightarrow> db_write (\<lambda>s. s\<lparr>t_settings := bt_remove pause_key (t_settings s)\<rparr>))"

definition pause_until :: "u64 option db" where
  "pause_until =
     db_bind (db_read (\<lambda>s. bt_get (t_settings s) pause_key)) (\<lambda>value.
     case value of
       None \<Rightarrow> db_return None
     | Some None \<Rightarrow> db_fail (Sqlite ''Invalid column type Null at index: 0, name: integer_value'')
     | Some (Some v) \<Rightarrow>
         if v < 0 then db_fail (Corrupt ''negative persisted pause deadline'')
         else db_return (Some (word_of_int v)))"

end
