(* ===== verification/Store_Absence.thy ===== *)
theory Store_Absence
  imports Store_Protections Store_Recovery
begin

text \<open>
  What the reconciliation of protections and retry blocks promises. Both tables follow one contract: a row
  is retired only after a series of scans that each proved the absence of its session and that spans the
  retention period. The contract is stated and used once, for any table of this shape.
\<close>

section \<open>One row and one scan\<close>

definition row_after ::
    "(int \<Rightarrow> 'r \<Rightarrow> 'r) \<Rightarrow> (int option \<Rightarrow> 'r \<Rightarrow> 'r) \<Rightarrow> ('r \<Rightarrow> int option) \<Rightarrow> bool \<Rightarrow> bool \<Rightarrow> int \<Rightarrow> int \<Rightarrow> 'r \<Rightarrow> 'r option" where
  "row_after mark_seen mark_absence since seen proven now retention r =
     (if seen then Some (mark_seen now r)
      else if \<not> proven then Some (mark_absence None r)
      else (case since r of
              None \<Rightarrow> Some (mark_absence (Some now) r)
            | Some t \<Rightarrow> if retention \<le> now - t then None else Some r))"

definition count_row :: "bool \<Rightarrow> bool \<Rightarrow> bool \<Rightarrow> absence_counts \<Rightarrow> absence_counts" where
  "count_row seen proven gone c =
     (if seen then c\<lparr>ab_observed := ab_observed c + 1\<rparr>
      else if \<not> proven then c\<lparr>ab_unproven := ab_unproven c + 1\<rparr>
      else c\<lparr>ab_absent := ab_absent c + 1, ab_retired := ab_retired c + of_bool gone\<rparr>)"

text \<open>The times a scan writes must not lie before the row was made; a clock that was set back breaks this.\<close>

definition row_reached :: "('r \<Rightarrow> int) \<Rightarrow> ('r \<Rightarrow> int option) \<Rightarrow> bool \<Rightarrow> bool \<Rightarrow> int \<Rightarrow> 'r \<Rightarrow> bool" where
  "row_reached start since seen proven now r \<longleftrightarrow> (seen \<or> proven \<and> since r = None \<longrightarrow> start r \<le> now)"

lemma update_where_at:
  "distinct (map k (ds @ r # rs)) \<Longrightarrow> update_where (\<lambda>q. k q = k r) f (ds @ r # rs) = ds @ f r # rs"
  unfolding update_where_def by (auto intro!: map_idI) (metis imageI)+

lemma delete_where_at:
  "distinct (map k (ds @ r # rs)) \<Longrightarrow> delete_where (\<lambda>q. k q = k r) (ds @ r # rs) = ds @ rs"
  unfolding delete_where_def by (simp, intro arg_cong2 [where f = append] filter_True) (metis imageI)+

lemma saturating_reaches:
  "0 < retention \<Longrightarrow> now < 2 ^ 63 \<Longrightarrow> 0 \<le> t \<Longrightarrow> retention \<le> i64_saturating_sub now t \<longleftrightarrow> retention \<le> now - t"
  by (auto simp: i64_saturating_sub_def)

definition option_list :: "'a option \<Rightarrow> 'a list" where
  "option_list x = (case x of None \<Rightarrow> [] | Some v \<Rightarrow> [v])"

section \<open>One row and many scans\<close>

text \<open>A scan of a table: what it saw, whether it proved absence, its time and the retention period.\<close>

record 'x absence_scan =
  as_seen :: 'x
  as_proven :: bool
  as_now :: u64
  as_retention :: u64

definition scan_absent :: "('x \<Rightarrow> 'r \<Rightarrow> bool) \<Rightarrow> 'r \<Rightarrow> 'x absence_scan \<Rightarrow> bool" where
  "scan_absent seen r a \<longleftrightarrow> as_proven a \<and> \<not> seen (as_seen a) r"

text \<open>The series of proven absences that a history of scans ends with: the time of its first scan.\<close>

definition series_step :: "('x absence_scan \<Rightarrow> bool) \<Rightarrow> 'x absence_scan \<Rightarrow> int option \<Rightarrow> int option" where
  "series_step absent a t = (if absent a then (case t of None \<Rightarrow> Some (uint (as_now a)) | Some u \<Rightarrow> Some u) else None)"

definition absence_series :: "('x absence_scan \<Rightarrow> bool) \<Rightarrow> 'x absence_scan list \<Rightarrow> int option" where
  "absence_series absent scans = fold (series_step absent) scans None"

text \<open>A maximal series of proven absences in a history that spans the retention period of its last scan.\<close>

definition absence_served :: "('x absence_scan \<Rightarrow> bool) \<Rightarrow> 'x absence_scan list \<Rightarrow> bool" where
  "absence_served absent scans \<longleftrightarrow>
     (\<exists>before first between last after. scans = before @ first # between @ last # after
        \<and> (before = [] \<or> \<not> absent (List.last before)) \<and> list_all absent (first # between @ [last])
        \<and> uint (as_retention last) \<le> uint (as_now last) - uint (as_now first))"

lemma absence_series_snoc [simp]:
  "absence_series absent (scans @ [a]) = series_step absent a (absence_series absent scans)"
  "absence_series absent [] = None"
  by (simp_all add: absence_series_def)

lemma absence_series_start:
  assumes "absence_series absent scans = Some t"
  obtains before first between where "scans = before @ first # between"
    "before = [] \<or> \<not> absent (last before)" "list_all absent (first # between)" "t = uint (as_now first)"
  using assms
proof (induction scans arbitrary: thesis rule: rev_induct)
  case (snoc a scans)
  then have a: "absent a" by (auto simp: series_step_def split: if_splits)
  show ?case
  proof (cases "absence_series absent scans")
    case None
    then have "scans = [] \<or> \<not> absent (last scans)"
      by (cases scans rule: rev_cases) (auto simp: series_step_def split: if_splits option.splits)
    then show ?thesis using None a snoc.prems by (intro snoc.prems(1) [of scans a "[]"]) (auto simp: series_step_def)
  next
    case (Some u)
    with snoc.prems a have "u = t" by (simp add: series_step_def)
    with Some obtain before first between where *: "scans = before @ first # between"
      "before = [] \<or> \<not> absent (last before)" "list_all absent (first # between)" "t = uint (as_now first)"
      using snoc.IH by blast
    with a show ?thesis by (intro snoc.prems(1) [of before first "between @ [a]"]) auto
  qed
qed simp

lemma absence_series_extend:
  assumes "before = [] \<or> \<not> absent (last before)" "list_all absent (first # between)"
  shows "absence_series absent (before @ first # between) = Some (uint (as_now first))"
  using assms(2)
proof (induction between rule: rev_induct)
  case Nil
  have "absence_series absent before = None"
    using assms(1) by (cases before rule: rev_cases) (auto simp: series_step_def)
  then show ?case using Nil absence_series_snoc(1) [of absent before first] by (simp add: series_step_def)
next
  case (snoc a between)
  then show ?case using absence_series_snoc(1) [of absent "before @ first # between" a] by (simp add: series_step_def)
qed

lemma absence_served_snoc:
  "absence_served absent (scans @ [a]) \<longleftrightarrow> absence_served absent scans \<or>
     (\<exists>t. absence_series absent scans = Some t \<and> absent a \<and> uint (as_retention a) \<le> uint (as_now a) - t)"
    (is "?L \<longleftrightarrow> ?S \<or> ?A")
proof
  assume ?L
  then obtain before first between l after where *: "scans @ [a] = before @ first # between @ l # after"
    "before = [] \<or> \<not> absent (last before)" "list_all absent (first # between @ [l])"
    "uint (as_retention l) \<le> uint (as_now l) - uint (as_now first)"
    unfolding absence_served_def by blast
  show "?S \<or> ?A"
  proof (cases after rule: rev_cases)
    case Nil
    with * have "scans = before @ first # between" "a = l" by simp_all
    then show ?thesis using * absence_series_extend [of before absent first between] by auto
  next
    case (snoc after' z)
    with * have "scans = before @ first # between @ l # after'" by simp
    then show ?thesis using * unfolding absence_served_def by blast
  qed
next
  assume "?S \<or> ?A"
  then show ?L
  proof
    assume ?S
    then obtain before first between l after where "scans = before @ first # between @ l # after"
      "before = [] \<or> \<not> absent (last before)" "list_all absent (first # between @ [l])"
      "uint (as_retention l) \<le> uint (as_now l) - uint (as_now first)"
      unfolding absence_served_def by blast
    then show ?L unfolding absence_served_def
      by (intro exI [of _ before] exI [of _ first] exI [of _ between] exI [of _ l] exI [of _ "after @ [a]"]) simp
  next
    assume ?A
    then obtain t where t: "absence_series absent scans = Some t" "absent a" "uint (as_retention a) \<le> uint (as_now a) - t"
      by blast
    from t(1) obtain before first between where "scans = before @ first # between"
      "before = [] \<or> \<not> absent (last before)" "list_all absent (first # between)" "t = uint (as_now first)"
      by (rule absence_series_start)
    with t show ?L unfolding absence_served_def
      by (intro exI [of _ before] exI [of _ first] exI [of _ between] exI [of _ a] exI [of _ "[]"]) simp
  qed
qed

section \<open>Tables with an absence clock\<close>

locale absence_table =
  fixes rows :: "store \<Rightarrow> 'r list" and put :: "'r list \<Rightarrow> store \<Rightarrow> store"
    and key :: "'r \<Rightarrow> string" and start :: "'r \<Rightarrow> int" and since :: "'r \<Rightarrow> int option"
    and mark_seen :: "int \<Rightarrow> 'r \<Rightarrow> 'r" and mark_absence :: "int option \<Rightarrow> 'r \<Rightarrow> 'r"
    and ok :: "store \<Rightarrow> bool" and check :: "'r \<Rightarrow> bool"
  assumes rows_put: "rows (put rs s) = rs"
    and put_put: "put rs (put qs s) = put rs s"
    and put_rows: "put (rows s) s = s"
    and ok_rows: "ok s \<longleftrightarrow> list_all check (rows s) \<and> distinct (map key (rows s))"
    and key_seen: "key (mark_seen t r) = key r"
    and key_absence: "key (mark_absence v r) = key r"
    and since_seen: "since (mark_seen t r) = None"
    and since_absence: "since (mark_absence v r) = v"
    and check_since: "check r \<Longrightarrow> since r = Some t \<Longrightarrow> 0 \<le> t"
    and check_seen: "check r \<Longrightarrow> check (mark_seen t r) \<longleftrightarrow> start r \<le> t"
    and check_cleared: "check r \<Longrightarrow> check (mark_absence None r)"
    and check_absent: "check r \<Longrightarrow> check (mark_absence (Some t) r) \<longleftrightarrow> start r \<le> t"
begin

abbreviation upd :: "string \<Rightarrow> ('r \<Rightarrow> 'r) \<Rightarrow> unit db" where
  "upd k f \<equiv> db_constrained ok (\<lambda>s. put (update_where (\<lambda>r. key r = k) f (rows s)) s)"

abbreviation del :: "string \<Rightarrow> unit db" where
  "del k \<equiv> db_write (\<lambda>s. put (delete_where (\<lambda>r. key r = k) (rows s)) s)"

abbreviation after :: "('r \<Rightarrow> bool) \<Rightarrow> bool \<Rightarrow> int \<Rightarrow> int \<Rightarrow> 'r \<Rightarrow> 'r option" where
  "after seen proven now retention r \<equiv> row_after mark_seen mark_absence since (seen r) proven now retention r"

abbreviation reached :: "('r \<Rightarrow> bool) \<Rightarrow> bool \<Rightarrow> int \<Rightarrow> 'r \<Rightarrow> bool" where
  "reached seen proven now r \<equiv> row_reached start since (seen r) proven now r"

abbreviation body :: "('r \<Rightarrow> bool) \<Rightarrow> bool \<Rightarrow> int \<Rightarrow> int \<Rightarrow> 'r \<Rightarrow> absence_counts \<Rightarrow> absence_counts db" where
  "body seen proven now retention r \<equiv>
     reconcile_absence (seen r) proven now retention (since r) (upd (key r) (mark_seen now))
       (\<lambda>t. upd (key r) (mark_absence t)) (del (key r))"

abbreviation tally :: "('r \<Rightarrow> bool) \<Rightarrow> bool \<Rightarrow> int \<Rightarrow> int \<Rightarrow> 'r \<Rightarrow> absence_counts \<Rightarrow> absence_counts" where
  "tally seen proven now retention r \<equiv> count_row (seen r) proven (after seen proven now retention r = None)"

lemma upd_at:
  assumes "rows s = ds @ r # rs" "ok s" "key (f r) = key r"
  shows "upd (key r) f s =
    (if check (f r) then Inr ((), put (ds @ f r # rs) s) else Inl (Sqlite ''constraint failed''))"
proof -
  have "distinct (map key (ds @ r # rs))" "list_all check (ds @ r # rs)" using assms(1,2) by (simp_all add: ok_rows)
  with assms(1,3) show ?thesis
    by (simp add: db_constrained_def update_where_at ok_rows rows_put)
qed

lemma body_exact:
  assumes rows: "rows s = ds @ r # rs" and ok: "ok s" and ret: "0 < retention" "now < 2 ^ 63"
  shows "body seen proven now retention r c s =
    (if reached seen proven now r
     then Inr (tally seen proven now retention r c, put (ds @ option_list (after seen proven now retention r) @ rs) s)
     else Inl (Sqlite ''constraint failed''))"
proof -
  have r: "check r" and d: "distinct (map key (ds @ r # rs))" using rows ok by (simp_all add: ok_rows)
  have same: "put (ds @ r # rs) s = s" using rows put_rows by metis
  note marks = upd_at [of s ds r rs "mark_seen now", OF rows ok key_seen]
    upd_at [of s ds r rs "mark_absence v" for v, OF rows ok key_absence]
  show ?thesis
  proof (cases "since r")
    case None
    then show ?thesis using r
      by (simp add: reconcile_absence_def db_bind_def marks check_seen check_cleared check_absent row_reached_def
          row_after_def count_row_def option_list_def db_return_def Let_def)
  next
    case (Some t)
    have "retention \<le> i64_saturating_sub now t \<longleftrightarrow> retention \<le> now - t"
      using saturating_reaches ret check_since [OF r Some] by blast
    then show ?thesis using r Some d same
      by (simp add: reconcile_absence_def db_bind_def marks check_seen check_cleared row_reached_def
          row_after_def count_row_def option_list_def db_return_def db_write_def rows delete_where_at Let_def)
  qed
qed

lemma after_key: "after seen proven now retention r = Some q \<Longrightarrow> key q = key r"
  by (auto simp: row_after_def key_seen key_absence split: if_splits option.splits)

lemma after_check:
  "check r \<Longrightarrow> reached seen proven now r \<Longrightarrow> after seen proven now retention r = Some q \<Longrightarrow> check q"
  by (auto simp: row_after_def row_reached_def check_seen check_cleared check_absent split: if_splits option.splits)

lemma ok_after:
  assumes "rows s = ds @ r # rs" "ok s" "reached seen proven now r"
  shows "ok (put (ds @ option_list (after seen proven now retention r) @ rs) s)"
  using assms by (auto simp: ok_rows rows_put option_list_def after_key dest: after_check split: option.split)

lemma ok_map_filter:
  assumes "ok s" "list_all (reached seen proven now) (rows s)"
  shows "ok (put (List.map_filter (after seen proven now retention) (rows s)) s)"
proof -
  have "list_all check (List.map_filter (after seen proven now retention) rs) \<and>
      distinct (map key (List.map_filter (after seen proven now retention) rs)) \<and>
      set (map key (List.map_filter (after seen proven now retention) rs)) \<subseteq> set (map key rs)"
    if "list_all check rs" "distinct (map key rs)" "list_all (reached seen proven now) rs" for rs
    using that
  proof (induction rs)
    case (Cons r rs)
    show ?case
    proof (cases "after seen proven now retention r")
      case None
      with Cons show ?thesis by auto
    next
      case (Some q)
      with Cons.prems have "check q" "key q = key r" using after_check after_key by auto
      with Some Cons show ?thesis by auto
    qed
  qed simp
  with assms show ?thesis by (simp add: ok_rows rows_put)
qed

lemma fold_exact:
  assumes "rows s = ds @ rs" "ok s" "0 < retention" "now < 2 ^ 63"
  shows "db_fold (body seen proven now retention) rs c s =
    (if list_all (reached seen proven now) rs
     then Inr (fold (tally seen proven now retention) rs c,
            put (ds @ List.map_filter (after seen proven now retention) rs) s)
     else Inl (Sqlite ''constraint failed''))"
  using assms(1,2)
proof (induction rs arbitrary: ds s c)
  case Nil
  then have "put ds s = s" using put_rows by (metis append_Nil2)
  then show ?case by (simp add: db_return_def List.map_filter_simps)
next
  case (Cons r rs)
  note step = body_exact [OF Cons.prems assms(3,4), where seen = seen and proven = proven and c = c]
  show ?case
  proof (cases "reached seen proven now r")
    case True
    let ?s = "put (ds @ option_list (after seen proven now retention r) @ rs) s"
    have "rows ?s = (ds @ option_list (after seen proven now retention r)) @ rs" by (simp add: rows_put)
    moreover have "ok ?s" using Cons.prems True by (rule ok_after)
    ultimately show ?thesis using Cons.IH [of ?s "ds @ option_list (after seen proven now retention r)"]
      by (simp add: db_bind_def step True put_put option_list_def split: option.splits)
  next
    case False
    then show ?thesis by (simp add: db_bind_def step)
  qed
qed

end

section \<open>Histories of scans\<close>

fun survive :: "('a \<Rightarrow> 'r \<Rightarrow> 'r option) \<Rightarrow> 'a list \<Rightarrow> 'r \<Rightarrow> 'r option" where
  "survive f [] r = Some r"
| "survive f (a # as) r = Option.bind (f a r) (survive f as)"

lemma survive_snoc: "survive f (as @ [a]) r = Option.bind (survive f as r) (f a)"
  by (induction as arbitrary: r) (auto split: bind_split)

lemma survive_Some:
  "survive f (as @ [a]) r = Some q \<longleftrightarrow> (\<exists>p. survive f as r = Some p \<and> f a p = Some q)"
  "survive f (a # as) r = Some q \<longleftrightarrow> (\<exists>p. f a r = Some p \<and> survive f as p = Some q)"
  by (simp_all add: survive_snoc bind_eq_Some_conv)

lemma map_filter_survive:
  "List.map_filter (survive f as) (List.map_filter (f a) rs) = List.map_filter (survive f (a # as)) rs"
  by (induction rs) (auto split: option.split)

lemma set_map_filter: "q \<in> set (List.map_filter f rs) \<longleftrightarrow> (\<exists>r\<in>set rs. f r = Some q)"
  by (induction rs) (auto split: option.splits)

locale scanned_table = absence_table rows put key start since mark_seen mark_absence ok check
  for rows :: "store \<Rightarrow> 'r list" and put key start since mark_seen mark_absence ok check +
  fixes seen :: "'x \<Rightarrow> 'r \<Rightarrow> bool" and reconcile :: "'x absence_scan \<Rightarrow> absence_counts db"
    and inv :: "store \<Rightarrow> bool"
  assumes seen_seen: "seen x (mark_seen t r) = seen x r"
    and seen_absence: "seen x (mark_absence v r) = seen x r"
    and inv_ok: "inv s \<Longrightarrow> ok s"
    and inv_reconcile: "inv s \<Longrightarrow> reconcile a s = Inr (c, s') \<Longrightarrow> inv s' \<and> rows s' =
      List.map_filter (\<lambda>r. row_after mark_seen mark_absence since (seen (as_seen a) r) (as_proven a)
        (uint (as_now a)) (uint (as_retention a)) r) (rows s)"
begin

abbreviation scan_row :: "'x absence_scan \<Rightarrow> 'r \<Rightarrow> 'r option" where
  "scan_row a r \<equiv> row_after mark_seen mark_absence since (seen (as_seen a) r) (as_proven a)
     (uint (as_now a)) (uint (as_retention a)) r"

lemma scan_row_Some:
  assumes "scan_row a q = Some q'"
  shows "since q' = series_step (scan_absent seen q) a (since q)" "seen x q' = seen x q"
  using assms by (auto simp: row_after_def series_step_def scan_absent_def since_seen since_absence seen_seen seen_absence
      split: if_splits option.splits)

lemma scan_row_None:
  "scan_row a q = None \<longleftrightarrow> scan_absent seen q a \<and> (\<exists>t. since q = Some t \<and> uint (as_retention a) \<le> uint (as_now a) - t)"
  by (auto simp: row_after_def scan_absent_def split: option.splits)

lemma survive_since:
  assumes "since r = None" "survive scan_row scans r = Some q"
  shows "since q = absence_series (scan_absent seen r) scans \<and> (\<forall>x. seen x q = seen x r)"
  using assms(2)
proof (induction scans arbitrary: q rule: rev_induct)
  case Nil
  with assms(1) show ?case by simp
next
  case (snoc a scans)
  then obtain p where p: "survive scan_row scans r = Some p" "scan_row a p = Some q"
    unfolding survive_Some by blast
  with snoc.IH have "since p = absence_series (scan_absent seen r) scans" "\<forall>x. seen x p = seen x r" by blast+
  moreover from this have "scan_absent seen p = scan_absent seen r" by (simp add: scan_absent_def fun_eq_iff)
  ultimately show ?case using scan_row_Some [OF p(2)] by simp
qed

lemma survive_None:
  assumes "since r = None"
  shows "survive scan_row scans r = None \<longleftrightarrow> absence_served (scan_absent seen r) scans"
proof (induction scans rule: rev_induct)
  case Nil
  then show ?case by (simp add: absence_served_def)
next
  case (snoc a scans)
  show ?case
  proof (cases "survive scan_row scans r")
    case None
    with snoc show ?thesis by (simp add: survive_snoc absence_served_snoc)
  next
    case (Some p)
    note p = survive_since [OF assms Some]
    then have "scan_absent seen p = scan_absent seen r" by (simp add: scan_absent_def fun_eq_iff)
    then have "scan_row a p = None \<longleftrightarrow> (\<exists>t. absence_series (scan_absent seen r) scans = Some t \<and> scan_absent seen r a \<and>
        uint (as_retention a) \<le> uint (as_now a) - t)"
      unfolding scan_row_None using p by auto
    then show ?thesis using Some snoc unfolding survive_snoc absence_served_snoc Some bind.simps by simp
  qed
qed

lemma survive_key: "survive scan_row scans r = Some q \<Longrightarrow> key q = key r"
proof (induction scans arbitrary: r)
  case (Cons a scans)
  then obtain p where "scan_row a r = Some p" "survive scan_row scans p = Some q" unfolding survive_Some by blast
  then show ?case using Cons.IH [of p] after_key [where seen = "seen (as_seen a)"] by simp
qed simp

lemma history_rows:
  "inv s \<Longrightarrow> db_each (\<lambda>a. discard (reconcile a)) scans s = Inr (u, s') \<Longrightarrow>
   inv s' \<and> rows s' = List.map_filter (survive scan_row scans) (rows s)"
proof (induction scans arbitrary: s)
  case Nil
  then show ?case by (simp add: db_simps map_filter_def o_def)
next
  case (Cons a scans)
  then obtain c s1 where s1: "reconcile a s = Inr (c, s1)"
      and rest: "db_each (\<lambda>a. discard (reconcile a)) scans s1 = Inr (u, s')"
    by (auto simp: db_simps discard_def)
  have step: "inv s1" "rows s1 = List.map_filter (scan_row a) (rows s)" using inv_reconcile [OF Cons.prems(1) s1] by blast+
  have "inv s'" "rows s' = List.map_filter (survive scan_row scans) (rows s1)" using Cons.IH [OF step(1) rest] by blast+
  then show ?case unfolding step(2) map_filter_survive [of scan_row] by blast
qed

theorem retired_iff_served:
  assumes inv: "inv s" and r: "r \<in> set (rows s)" "since r = None"
    and run: "db_each (\<lambda>a. discard (reconcile a)) scans s = Inr (u, s')"
  shows "(\<exists>q\<in>set (rows s'). key q = key r) \<longleftrightarrow> \<not> absence_served (scan_absent seen r) scans"
proof -
  have distinct: "distinct (map key (rows s))" using inv inv_ok by (simp add: ok_rows)
  have rows': "q \<in> set (rows s') \<longleftrightarrow> (\<exists>p\<in>set (rows s). survive scan_row scans p = Some q)" for q
    using history_rows [OF inv run] by (simp add: set_map_filter)
  have "(\<exists>q\<in>set (rows s'). key q = key r) \<longleftrightarrow> (\<exists>q. survive scan_row scans r = Some q)"
  proof
    assume "\<exists>q\<in>set (rows s'). key q = key r"
    then obtain q p where q: "key q = key r" "p \<in> set (rows s)" "survive scan_row scans p = Some q" using rows' by blast
    then have "key p = key r" using survive_key [OF q(3)] by simp
    then have "p = r" using distinct q(2) r(1) by (simp add: distinct_map inj_on_def)
    with q(3) show "\<exists>q. survive scan_row scans r = Some q" by blast
  next
    assume "\<exists>q. survive scan_row scans r = Some q"
    then show "\<exists>q\<in>set (rows s'). key q = key r" using rows' r(1) survive_key by blast
  qed
  then show ?thesis using survive_None [OF r(2), of scans] by auto
qed

end

section \<open>Protections\<close>

definition reconcile_protections_scan :: "string list absence_scan \<Rightarrow> absence_counts db" where
  "reconcile_protections_scan a = reconcile_incident_protections (as_seen a) (as_proven a) (as_now a) (as_retention a)"

definition root_seen :: "string list \<Rightarrow> protection_row \<Rightarrow> bool" where
  "root_seen live p \<longleftrightarrow> pr_root_identity_fingerprint p \<in> set live"

lemma check_opt_simps [simp]: "check_opt P None" "check_opt P (Some x) \<longleftrightarrow> P x"
  by (simp_all add: check_opt_def)

interpretation protections: absence_table t_protections "\<lambda>rs s. s\<lparr>t_protections := rs\<rparr>" pr_incident_id
  pr_protected_at pr_absence_since "\<lambda>t p. p\<lparr>pr_last_exact_observed_at := Some t, pr_absence_since := None\<rparr>"
  "\<lambda>v p. p\<lparr>pr_absence_since := v\<rparr>" protections_ok protection_check
  by unfold_locales (auto simp: protections_ok_def protection_check_def)

text \<open>When a reconciliation succeeds, and with what: exactly when its times are in range and no row lies in
  the future of the clock.\<close>

lemma reconcile_protections_exact:
  assumes "protections_ok s"
  shows "reconcile_incident_protections live proven now retention s = Inr (c, s') \<longleftrightarrow>
    retention \<noteq> 0 \<and> uint now < 2 ^ 63 \<and> uint retention < 2 ^ 63 \<and>
    list_all (protections.reached (root_seen live) proven (uint now)) (t_protections s) \<and>
    c = fold (protections.tally (root_seen live) proven (uint now) (uint retention)) (t_protections s) no_counts \<and>
    s' = s\<lparr>t_protections := List.map_filter (protections.after (root_seen live) proven (uint now) (uint retention))
      (t_protections s)\<rparr>"
proof -
  have body: "reconcile_protection live proven n k = protections.body (root_seen live) proven n k" for n k
    by (simp add: fun_eq_iff reconcile_protection_def update_protection_def delete_protection_def root_seen_def)
  have pos: "0 < uint retention" if "retention \<noteq> 0" using that by (simp add: word_neq_0_conv word_less_def)
  show ?thesis
    using protections.fold_exact [of s "[]" "t_protections s" "uint retention" "uint now"] assms pos
    unfolding reconcile_incident_protections_def body by (auto simp: db_simps split: if_splits)
qed

interpretation protection_scans: scanned_table t_protections "\<lambda>rs s. s\<lparr>t_protections := rs\<rparr>" pr_incident_id
  pr_protected_at pr_absence_since "\<lambda>t p. p\<lparr>pr_last_exact_observed_at := Some t, pr_absence_since := None\<rparr>"
  "\<lambda>v p. p\<lparr>pr_absence_since := v\<rparr>" protections_ok protection_check root_seen reconcile_protections_scan protections_ok
proof (unfold_locales, goal_cases)
  case (4 s a c s')
  then have "s' = s\<lparr>t_protections := List.map_filter (protections.after (root_seen (as_seen a)) (as_proven a)
      (uint (as_now a)) (uint (as_retention a))) (t_protections s)\<rparr>"
    and reached: "list_all (protections.reached (root_seen (as_seen a)) (as_proven a) (uint (as_now a))) (t_protections s)"
    using reconcile_protections_exact unfolding reconcile_protections_scan_def by blast+
  with protections.ok_map_filter [OF 4(1) reached] show ?case by simp
qed (simp_all add: root_seen_def)

section \<open>Retry blocks\<close>

definition reconcile_blocks_scan :: "(observed_incident_identity list \<times> string list) absence_scan \<Rightarrow> absence_counts db" where
  "reconcile_blocks_scan a =
     reconcile_retry_blocks (fst (as_seen a)) (snd (as_seen a)) (as_proven a) (as_now a) (as_retention a)"

text \<open>A block names the attempt that caused it; the foreign key makes sure that the attempt is there.\<close>

definition source_attempt :: "attempt_row list \<Rightarrow> retry_block_row \<Rightarrow> attempt_row" where
  "source_attempt attempts b = the (find (\<lambda>a. at_id a = rb_source_attempt_id b) attempts)"

definition blocks_linked :: "attempt_row list \<Rightarrow> store \<Rightarrow> bool" where
  "blocks_linked attempts s \<longleftrightarrow> t_attempts s = attempts \<and> distinct (map at_id attempts)
     \<and> list_all (\<lambda>b. list_ex (\<lambda>a. at_id a = rb_source_attempt_id b) attempts) (t_retry_blocks s)"

definition session_seen :: "attempt_row list \<Rightarrow> observed_incident_identity list \<times> string list \<Rightarrow> retry_block_row \<Rightarrow> bool" where
  "session_seen attempts seen b \<longleftrightarrow> block_observed (fst seen) (snd seen) b (source_attempt attempts b)"

interpretation blocks: absence_table t_retry_blocks "\<lambda>rs s. s\<lparr>t_retry_blocks := rs\<rparr>" rb_incident_id
  rb_blocked_at rb_absence_since "\<lambda>t b. b\<lparr>rb_last_exact_observed_at := Some t, rb_absence_since := None\<rparr>"
  "\<lambda>v b. b\<lparr>rb_absence_since := v\<rparr>" retry_blocks_ok retry_block_check
  by unfold_locales (auto simp: retry_blocks_ok_def retry_block_check_def)

lemma filter_unique_key:
  assumes "distinct (map k xs)" "list_ex (\<lambda>x. k x = i) xs"
  shows "filter (\<lambda>x. k x = i) xs = [the (find (\<lambda>x. k x = i) xs)]"
  using assms
proof (induction xs)
  case (Cons x xs)
  then have "k x = i \<Longrightarrow> filter (\<lambda>x. k x = i) xs = []" by (simp add: filter_empty_conv) (metis imageI)
  with Cons show ?case by auto
qed simp

lemma joined_blocks_linked:
  assumes "blocks_linked attempts s"
  shows "joined_blocks s = map (\<lambda>b. (b, source_attempt attempts b)) (t_retry_blocks s)"
proof -
  have "filter (\<lambda>a. at_id a = rb_source_attempt_id b) (t_attempts s) = [source_attempt attempts b]"
    if "b \<in> set (t_retry_blocks s)" for b
    using assms that filter_unique_key [of at_id attempts "rb_source_attempt_id b"]
    by (auto simp: blocks_linked_def source_attempt_def list_all_iff)
  then have "joined_blocks s = concat (map (\<lambda>b. [(b, source_attempt attempts b)]) (t_retry_blocks s))"
    unfolding joined_blocks_def by (intro arg_cong [where f = concat] map_cong) simp_all
  then show ?thesis by simp
qed

lemma db_fold_map: "db_fold f (map g xs) = db_fold (\<lambda>x. f (g x)) xs"
proof (induction xs)
  case (Cons x xs)
  show ?case by (rule ext) (simp add: Cons)
qed (simp add: fun_eq_iff)

lemma reconcile_blocks_exact:
  assumes "retry_blocks_ok s" "blocks_linked attempts s"
  shows "reconcile_retry_blocks observed live proven now retention s = Inr (c, s') \<longleftrightarrow>
    retention \<noteq> 0 \<and> uint now < 2 ^ 63 \<and> uint retention < 2 ^ 63 \<and>
    list_all (blocks.reached (session_seen attempts (observed, live)) proven (uint now)) (t_retry_blocks s) \<and>
    c = fold (blocks.tally (session_seen attempts (observed, live)) proven (uint now) (uint retention)) (t_retry_blocks s)
      no_counts \<and>
    s' = s\<lparr>t_retry_blocks := List.map_filter
      (blocks.after (session_seen attempts (observed, live)) proven (uint now) (uint retention)) (t_retry_blocks s)\<rparr>"
proof -
  have body: "(\<lambda>b. reconcile_block observed live proven n k (b, source_attempt attempts b)) =
      blocks.body (session_seen attempts (observed, live)) proven n k" for n k
    by (simp add: fun_eq_iff reconcile_block_def update_block_def delete_retry_block_def session_seen_def)
  have pos: "0 < uint retention" if "retention \<noteq> 0" using that by (simp add: word_neq_0_conv word_less_def)
  show ?thesis
    using blocks.fold_exact [of s "[]" "t_retry_blocks s" "uint retention" "uint now"] assms(1) pos
    unfolding reconcile_retry_blocks_def
    by (auto simp: db_simps joined_blocks_linked [OF assms(2)] db_fold_map body split: if_splits)
qed

lemma blocks_linked_filter:
  assumes "blocks_linked attempts s"
    "\<And>b q. b \<in> set (t_retry_blocks s) \<Longrightarrow> f b = Some q \<Longrightarrow> rb_source_attempt_id q = rb_source_attempt_id b"
  shows "blocks_linked attempts (s\<lparr>t_retry_blocks := List.map_filter f (t_retry_blocks s)\<rparr>)"
  using assms by (auto simp: blocks_linked_def list_all_iff set_map_filter)

interpretation block_scans: scanned_table t_retry_blocks "\<lambda>rs s. s\<lparr>t_retry_blocks := rs\<rparr>" rb_incident_id
  rb_blocked_at rb_absence_since "\<lambda>t b. b\<lparr>rb_last_exact_observed_at := Some t, rb_absence_since := None\<rparr>"
  "\<lambda>v b. b\<lparr>rb_absence_since := v\<rparr>" retry_blocks_ok retry_block_check "session_seen attempts" reconcile_blocks_scan
  "\<lambda>s. retry_blocks_ok s \<and> blocks_linked attempts s" for attempts
proof (unfold_locales, goal_cases)
  case (4 s a c s')
  let ?after = "blocks.after (session_seen attempts (as_seen a)) (as_proven a) (uint (as_now a)) (uint (as_retention a))"
  from 4 have s': "s' = s\<lparr>t_retry_blocks := List.map_filter ?after (t_retry_blocks s)\<rparr>"
    and reached: "list_all (blocks.reached (session_seen attempts (as_seen a)) (as_proven a) (uint (as_now a))) (t_retry_blocks s)"
    using reconcile_blocks_exact unfolding reconcile_blocks_scan_def by (auto simp: prod.collapse)
  have "blocks_linked attempts s'" unfolding s'
    by (rule blocks_linked_filter) (use 4 in \<open>auto simp: row_after_def split: if_splits option.splits\<close>)
  with blocks.ok_map_filter [of s, OF _ reached] 4 s' show ?case by simp
qed (simp_all add: session_seen_def block_observed_def source_attempt_def)

section \<open>Retirement\<close>

lemma find_protection_None: "find_protection i s = None \<longleftrightarrow> \<not> (\<exists>p\<in>set (t_protections s). pr_incident_id p = i)"
  by (auto simp: find_protection_def find_None_iff)

text \<open>
  C32: a protection outlives every scan that does not prove the absence of its session for long enough. Over
  any successful series of reconciliations, the protection is gone at the end exactly when an unbroken
  series of scans that each proved absence, and none of which saw the root process of the protected session, reached the
  retention period; one scan that sees the root, or that could not prove absence, starts the count anew.
\<close>

theorem protection_retired_exactly:
  assumes "protections_ok s" "p \<in> set (t_protections s)" "pr_absence_since p = None"
    and "db_each (\<lambda>a. discard (reconcile_protections_scan a)) scans s = Inr (u, s')"
  shows "find_protection (pr_incident_id p) s' = None \<longleftrightarrow> absence_served (scan_absent root_seen p) scans"
  using protection_scans.retired_iff_served [OF assms] unfolding find_protection_None by blast

definition guarded_row :: protection_row where
  "guarded_row = \<lparr>pr_incident_id = ''inc-1'', pr_root_identity_fingerprint = ''root'', pr_member_fingerprint = ''members'',
     pr_protected_at = 5, pr_last_exact_observed_at = None, pr_absence_since = None\<rparr>"

definition guarded_store :: store where
  "guarded_store = empty_store\<lparr>t_protections := [guarded_row]\<rparr>"

definition quiet_scan :: "u64 \<Rightarrow> string list absence_scan" where
  "quiet_scan now = \<lparr>as_seen = [''other''], as_proven = True, as_now = now, as_retention = 20\<rparr>"

lemmas run_simps = discard_def db_ops reconcile_absence_def no_counts_def sqlite_millis_def i64_try_from_def
  i64_saturating_sub_def update_where_def delete_where_def Let_def

lemma guarded_store_ok: "protections_ok guarded_store" "guarded_row \<in> set (t_protections guarded_store)"
    "pr_absence_since guarded_row = None"
  by (simp_all add: guarded_store_def guarded_row_def protections_ok_def protection_check_def)

lemma guarded_store_runs:
  "db_each (\<lambda>a. discard (reconcile_protections_scan a)) [quiet_scan 10, quiet_scan 30] guarded_store = Inr ((), empty_store)"
  by (simp add: run_simps reconcile_protections_scan_def reconcile_incident_protections_def reconcile_protection_def
      update_protection_def delete_protection_def protections_ok_def protection_check_def quiet_scan_def
      guarded_store_def guarded_row_def) (simp add: empty_store_def)

lemma guarded_absence_served: "absence_served (scan_absent root_seen guarded_row) [quiet_scan 10, quiet_scan 30]"
  unfolding absence_served_def
  by (rule exI [of _ "[]"], rule exI [of _ "quiet_scan 10"], rule exI [of _ "[]"], rule exI [of _ "quiet_scan 30"],
      rule exI [of _ "[]"]) (simp add: quiet_scan_def scan_absent_def root_seen_def guarded_row_def)

theorem protection_retired_exactly_witness:
  "find_protection (pr_incident_id guarded_row) empty_store = None \<longleftrightarrow>
     absence_served (scan_absent root_seen guarded_row) [quiet_scan 10, quiet_scan 30]"
  by (rule protection_retired_exactly [OF guarded_store_ok guarded_store_runs])

lemma cleanup_blocked_iff: "cleanup_blocked i s \<longleftrightarrow> (\<exists>b\<in>set (t_retry_blocks s). rb_incident_id b = i)"
  by (simp add: cleanup_blocked_def list_ex_iff)

text \<open>
  C33: a retry block is lifted by scans under the same contract. Over any successful series of reconciliations
  a block whose attempt is on record stops blocking its incident exactly when an unbroken series of scans
  that each proved absence, and that saw neither the blocked incident nor its root process, reached the retention period.
\<close>

theorem retry_block_retired_exactly:
  assumes "retry_blocks_ok s" "blocks_linked attempts s" "b \<in> set (t_retry_blocks s)" "rb_absence_since b = None"
    and "db_each (\<lambda>a. discard (reconcile_blocks_scan a)) scans s = Inr (u, s')"
  shows "cleanup_blocked (rb_incident_id b) s' \<longleftrightarrow> \<not> absence_served (scan_absent (session_seen attempts) b) scans"
  using block_scans.retired_iff_served [OF conjI [OF assms(1,2)] assms(3-5)] unfolding cleanup_blocked_iff by blast

definition blocked_row :: retry_block_row where
  "blocked_row = \<lparr>rb_incident_id = ''inc-1'', rb_tracking_key = ''k'', rb_blocked_at = 5, rb_reason_id = None,
     rb_source_attempt_id = 1, rb_last_exact_observed_at = None, rb_absence_since = None\<rparr>"

definition failed_attempt :: attempt_row where
  "failed_attempt = \<lparr>at_id = 1, at_incident_id = ''inc-1'', at_tracking_key = ''k'',
     at_root_identity_fingerprint = ''root'', at_member_fingerprint = ''members'', at_enforcement_epoch = ''e'',
     at_started_at = 3, at_completed_at = Some 5, at_terminal_state = Some ''FAILED'', at_reason_id = None,
     at_survivor_pids = Some [], at_revival_checks = 0, at_resources = None, at_signature_pack = None,
     at_signature_version = None, at_process_count = None, at_resident_memory = None\<rparr>"

definition blocked_store :: store where
  "blocked_store = empty_store\<lparr>t_attempts := [failed_attempt], t_retry_blocks := [blocked_row]\<rparr>"

definition block_scan :: "string list \<Rightarrow> u64 \<Rightarrow> (observed_incident_identity list \<times> string list) absence_scan" where
  "block_scan live now = \<lparr>as_seen = ([], live), as_proven = True, as_now = now, as_retention = 20\<rparr>"

lemma blocked_store_ok: "retry_blocks_ok blocked_store" "blocks_linked [failed_attempt] blocked_store"
    "blocked_row \<in> set (t_retry_blocks blocked_store)" "rb_absence_since blocked_row = None"
  by (simp_all add: blocked_store_def blocked_row_def failed_attempt_def retry_blocks_ok_def retry_block_check_def
      blocks_linked_def)

text \<open>The root process is seen between two absences, so the count starts anew and the block stands.\<close>

lemma blocked_store_runs:
  "db_each (\<lambda>a. discard (reconcile_blocks_scan a)) [block_scan [] 10, block_scan [''root''] 20, block_scan [] 31] blocked_store =
     Inr ((), blocked_store\<lparr>t_retry_blocks :=
       [blocked_row\<lparr>rb_last_exact_observed_at := Some 20, rb_absence_since := Some 31\<rparr>]\<rparr>)"
  by (simp add: run_simps reconcile_blocks_scan_def reconcile_retry_blocks_def reconcile_block_def joined_blocks_def
      block_observed_def update_block_def retry_blocks_ok_def retry_block_check_def block_scan_def
      blocked_store_def blocked_row_def failed_attempt_def)

theorem retry_block_retired_exactly_witness:
  "cleanup_blocked (rb_incident_id blocked_row)
     (blocked_store\<lparr>t_retry_blocks := [blocked_row\<lparr>rb_last_exact_observed_at := Some 20, rb_absence_since := Some 31\<rparr>]\<rparr>) \<longleftrightarrow>
   \<not> absence_served (scan_absent (session_seen [failed_attempt]) blocked_row)
     [block_scan [] 10, block_scan [''root''] 20, block_scan [] 31]"
  by (rule retry_block_retired_exactly [OF blocked_store_ok blocked_store_runs])

end
