(* ===== verification/Store_Mutations.thy ===== *)
theory Store_Mutations
  imports Store_Protections
begin

text \<open>
  Owner mutations of \<open>crates/unlinger-daemon/src/store.rs\<close> and the policy of \<open>public_action_policy.rs\<close> that
  decides them: a request names a namespace and an identifier, is decided from the facts of its
  transaction, and leaves a receipt that answers every repetition.
\<close>

section \<open>Policy\<close>

definition mutation_kind_of :: "ordinary_mutation \<Rightarrow> mutation_kind" where
  "mutation_kind_of m =
     (case m of
        Pause _ \<Rightarrow> PauseKind
      | Resume \<Rightarrow> ResumeKind
      | RetryFailedCleanup _ \<Rightarrow> RetryFailedCleanupKind
      | ProtectIncident _ \<Rightarrow> ProtectIncidentKind
      | UnprotectIncident _ \<Rightarrow> UnprotectIncidentKind)"

record runtime_policy_facts =
  rp_draining :: bool
  rp_failed :: bool

record store_policy_facts =
  sp_paused :: bool
  sp_cleanup_blocked :: bool
  sp_incident_observed :: bool
  sp_incident_protected :: bool

datatype policy_decision = Allow | DecideNoChange string | DecideReject string

definition unavailable_reason :: "policy_decision \<Rightarrow> string option" where
  "unavailable_reason d = (case d of Allow \<Rightarrow> None | DecideNoChange reason \<Rightarrow> Some reason | DecideReject reason \<Rightarrow> Some reason)"

definition evaluate_action :: "runtime_policy_facts \<Rightarrow> store_policy_facts \<Rightarrow> ordinary_mutation \<Rightarrow> policy_decision" where
  "evaluate_action runtime_facts facts m =
     (if rp_draining runtime_facts then DecideReject ''action.daemon_draining''
      else if rp_failed runtime_facts then DecideReject ''action.daemon_failed''
      else (case m of
         Pause _ \<Rightarrow> Allow
       | Resume \<Rightarrow> if sp_paused facts then Allow else DecideNoChange ''action.not_paused''
       | RetryFailedCleanup _ \<Rightarrow>
           if sp_cleanup_blocked facts then Allow else DecideReject ''action.no_blocked_cleanup''
       | ProtectIncident _ \<Rightarrow>
           if \<not> sp_incident_observed facts then DecideReject ''action.incident_not_observed''
           else if sp_incident_protected facts then DecideNoChange ''action.already_protected''
           else Allow
       | UnprotectIncident _ \<Rightarrow>
           if sp_incident_protected facts then Allow else DecideNoChange ''action.not_protected''))"

text \<open>\<open>get::<_, Option<i64>>(0)\<close> with \<open>flatten\<close>: no row and a NULL read the same.\<close>

definition pause_deadline :: "store \<Rightarrow> int option" where
  "pause_deadline s = (case bt_get (t_settings s) pause_key of None \<Rightarrow> None | Some v \<Rightarrow> v)"

definition incident_has_observation :: "string \<Rightarrow> store \<Rightarrow> bool" where
  "incident_has_observation incident s =
     list_ex (\<lambda>e. evt_incident_id e = incident \<and> evt_kind e = ''observation'') (t_events s)"

definition incident_facts :: "string \<Rightarrow> bool \<Rightarrow> store \<Rightarrow> store_policy_facts" where
  "incident_facts incident is_paused s =
     \<lparr>sp_paused = is_paused, sp_cleanup_blocked = cleanup_blocked incident s,
      sp_incident_observed = incident_has_observation incident s,
      sp_incident_protected = list_ex (\<lambda>p. pr_incident_id p = incident) (t_protections s)\<rparr>"

definition store_policy_facts_connection :: "ordinary_mutation \<Rightarrow> u64 \<Rightarrow> store_policy_facts db" where
  "store_policy_facts_connection m now_unix_millis =
     db_bind (db_lift (sqlite_millis now_unix_millis ''policy evaluation timestamp'')) (\<lambda>now.
     db_bind (db_read (\<lambda>s. case pause_deadline s of None \<Rightarrow> False | Some deadline \<Rightarrow> now < deadline)) (\<lambda>is_paused.
     let facts = \<lparr>sp_paused = is_paused, sp_cleanup_blocked = False, sp_incident_observed = False,
           sp_incident_protected = False\<rparr>
     in (case m of
           Pause _ \<Rightarrow> db_return facts
         | Resume \<Rightarrow> db_return facts
         | RetryFailedCleanup incident \<Rightarrow> db_read (incident_facts incident is_paused)
         | ProtectIncident incident \<Rightarrow> db_read (incident_facts incident is_paused)
         | UnprotectIncident incident \<Rightarrow> db_read (incident_facts incident is_paused))))"

section \<open>Receipts\<close>

definition max_mutation_receipts :: nat where
  "max_mutation_receipts = 10000"

definition mutation_reconciliation_window_millis :: u64 where
  "mutation_reconciliation_window_millis = 14 * 24 * 60 * 60 * 1000"

definition u64_checked_add :: "u64 \<Rightarrow> u64 \<Rightarrow> u64 option" where
  "u64_checked_add a b = (if uint a + uint b < 2 ^ 64 then Some (a + b) else None)"

definition mutation_check :: "mutation_row \<Rightarrow> bool" where
  "mutation_check r = (length (mr_namespace_token r) = 32 \<and> length (mr_mutation_id r) = 36 \<and> mr_canonical_version r = 1
     \<and> 0 \<le> mr_committed_at r \<and> mr_committed_at r \<le> mr_retain_until r)"

definition mutation_key :: "mutation_row \<Rightarrow> string \<times> string" where
  "mutation_key r = (mr_namespace_token r, mr_mutation_id r)"

definition context_key :: "mutation_context \<Rightarrow> string \<times> string" where
  "context_key c = (mc_namespace_token c, mc_mutation_id c)"

definition mutations_ok :: "store \<Rightarrow> bool" where
  "mutations_ok s = (list_all mutation_check (t_mutations s) \<and> distinct (map mutation_key (t_mutations s)))"

definition find_mutation :: "mutation_context \<Rightarrow> store \<Rightarrow> mutation_row option" where
  "find_mutation context s = find (\<lambda>r. mutation_key r = context_key context) (t_mutations s)"

definition reserve_mutation_receipt_slot :: "unit db" where
  "reserve_mutation_receipt_slot =
     db_bind (db_read (\<lambda>s. length (t_mutations s))) (\<lambda>count.
     db_require (count < max_mutation_receipts)
       (Capacity ''the mutation receipt authority has reached its 10000-receipt admission limit''))"

definition current_mutation_namespace :: "string db" where
  "current_mutation_namespace =
     db_bind (db_read t_namespace) (\<lambda>token.
     if is_valid_namespace_token token then db_return token
     else db_fail (Corrupt ''mutation authority namespace has an invalid shape''))"

definition cleanup_policy_revision_connection :: "u64 db" where
  "cleanup_policy_revision_connection =
     db_bind (db_read t_policy_revision) (\<lambda>revision.
     if revision < 0 then db_fail (Corrupt ''cleanup policy revision is negative'')
     else db_return (word_of_int revision))"

definition validate_stored_mutation_receipt ::
    "mutation_receipt \<Rightarrow> mutation_context \<Rightarrow> mutation_kind \<Rightarrow> store_error + unit" where
  "validate_stored_mutation_receipt receipt context expected_kind =
     (if mu_namespace_token receipt \<noteq> mc_namespace_token context
         \<or> mu_mutation_id receipt \<noteq> mc_mutation_id context
         \<or> mu_kind receipt \<noteq> expected_kind
         \<or> mu_retain_until_unix_millis receipt < mu_committed_at_unix_millis receipt
      then Inl (Corrupt ''stored mutation receipt disagrees with its durable index or canonical request'')
      else Inr ())"

definition mutation_receipt_connection :: "mutation_context \<Rightarrow> mutation_receipt option db" where
  "mutation_receipt_connection context =
     db_bind (db_read (find_mutation context)) (\<lambda>found.
     case found of
       None \<Rightarrow> db_return None
     | Some row \<Rightarrow>
         db_bind (db_lift (validate_stored_mutation_receipt (mr_receipt row) context (mu_kind (mr_receipt row)))) (\<lambda>_.
         db_return (Some (mr_receipt row))))"

datatype mutation_lookup_result = LookupCommitted mutation_receipt | LookupNotFound | LookupAuthorityLost

definition mutation_lookup :: "mutation_context \<Rightarrow> mutation_lookup_result db" where
  "mutation_lookup context =
     db_bind (mutation_receipt_connection context) (\<lambda>found.
     case found of
       Some receipt \<Rightarrow> db_return (LookupCommitted receipt)
     | None \<Rightarrow>
         db_bind current_mutation_namespace (\<lambda>token.
         db_return (if token = mc_namespace_token context then LookupNotFound else LookupAuthorityLost)))"

section \<open>Applying a mutation\<close>

definition apply_pause :: "u64 \<Rightarrow> u64 \<Rightarrow> mutation_result db" where
  "apply_pause committed_at_unix_millis duration_millis =
     (case u64_checked_add committed_at_unix_millis duration_millis of
        None \<Rightarrow> db_fail (RangeError ''pause deadline overflowed u64'')
      | Some deadline \<Rightarrow>
          db_bind (db_lift (sqlite_millis deadline ''pause deadline'')) (\<lambda>deadline_sqlite.
          db_bind (db_write (\<lambda>s. s\<lparr>t_settings := bt_insert pause_key (Some deadline_sqlite) (t_settings s)\<rparr>)) (\<lambda>_.
          db_return (Paused deadline))))"

definition apply_resume :: "mutation_result db" where
  "apply_resume =
     db_bind (db_read (\<lambda>s. bt_contains_key (t_settings s) pause_key)) (\<lambda>changed.
     db_bind (db_write (\<lambda>s. s\<lparr>t_settings := bt_remove pause_key (t_settings s)\<rparr>)) (\<lambda>_.
     db_bind (db_require changed (Corrupt ''resume policy allowed without an exact durable pause'')) (\<lambda>_.
     db_return Resumed)))"

definition apply_retry :: "string \<Rightarrow> mutation_result db" where
  "apply_retry incident =
     db_bind (db_read (find_block incident)) (\<lambda>found.
     case found of
       None \<Rightarrow> db_fail (Corrupt ''retry policy allowed without an exact cleanup block'')
     | Some b \<Rightarrow> db_bind (delete_block incident (rb_tracking_key b)) (\<lambda>_. db_return (RetryScheduled incident)))"

definition apply_protect :: "int \<Rightarrow> string \<Rightarrow> mutation_result db" where
  "apply_protect committed_at incident =
     db_bind (db_read (latest_observation incident)) (\<lambda>found.
     case found of
       None \<Rightarrow> db_fail (Corrupt ''protection policy allowed without an exact observation'')
     | Some e \<Rightarrow>
         db_bind (db_lift (observed_report incident e)) (\<lambda>report.
         db_bind (db_constrained protections_ok (\<lambda>s. s\<lparr>t_protections :=
           t_protections s @ [new_protection report committed_at]\<rparr>)) (\<lambda>_.
         db_bind (protection_summary_transaction incident) (\<lambda>summary.
         case summary of
           None \<Rightarrow> db_fail (Corrupt ''incident protection disappeared during creation'')
         | Some protection \<Rightarrow> db_return (IncidentProtected protection)))))"

definition apply_unprotect :: "string \<Rightarrow> mutation_result db" where
  "apply_unprotect incident =
     db_bind (db_read (\<lambda>s. length (filter (\<lambda>p. pr_incident_id p = incident) (t_protections s)))) (\<lambda>changed.
     db_bind (delete_protection incident) (\<lambda>_.
     db_bind (db_require (changed = 1) (Corrupt ''unprotect policy allowed without an exact protection'')) (\<lambda>_.
     db_return (IncidentUnprotected incident))))"

definition apply_ordinary_mutation :: "ordinary_mutation \<Rightarrow> u64 \<Rightarrow> mutation_result db" where
  "apply_ordinary_mutation m committed_at_unix_millis =
     db_bind (db_lift (sqlite_millis committed_at_unix_millis ''mutation timestamp'')) (\<lambda>committed_at.
     case m of
       Pause duration_millis \<Rightarrow> apply_pause committed_at_unix_millis duration_millis
     | Resume \<Rightarrow> apply_resume
     | RetryFailedCleanup incident \<Rightarrow> apply_retry incident
     | ProtectIncident incident \<Rightarrow> apply_protect committed_at incident
     | UnprotectIncident incident \<Rightarrow> apply_unprotect incident)"

section \<open>Committing a mutation\<close>

record mutation_commit =
  cm_receipt :: mutation_receipt
  cm_newly_committed :: bool
  cm_state_changed :: bool

definition decide_mutation ::
    "runtime_policy_facts \<Rightarrow> ordinary_mutation \<Rightarrow> u64 \<Rightarrow> (mutation_outcome \<times> bool) db" where
  "decide_mutation runtime_facts m committed_at_unix_millis =
     db_bind (store_policy_facts_connection m committed_at_unix_millis) (\<lambda>facts.
     case evaluate_action runtime_facts facts m of
       Allow \<Rightarrow> db_bind (apply_ordinary_mutation m committed_at_unix_millis) (\<lambda>result. db_return (Applied result, True))
     | DecideNoChange reason \<Rightarrow> db_return (NoChange reason, False)
     | DecideReject reason \<Rightarrow> db_return (RejectedMutation reason, False))"

definition advance_policy_revision :: "bool \<Rightarrow> u64 db" where
  "advance_policy_revision state_changed =
     db_bind cleanup_policy_revision_connection (\<lambda>current_revision.
     if state_changed then
       (case u64_checked_add current_revision 1 of
          None \<Rightarrow> db_fail (RangeError ''cleanup policy revision overflowed u64'')
        | Some next \<Rightarrow>
            db_bind (db_lift (sqlite_millis next ''cleanup policy revision'')) (\<lambda>revision.
            db_bind (db_constrained (\<lambda>s. 1 \<le> t_policy_revision s) (\<lambda>s. s\<lparr>t_policy_revision := revision\<rparr>)) (\<lambda>_.
            db_return next)))
     else db_return current_revision)"

definition replay_mutation :: "mutation_context \<Rightarrow> ordinary_mutation \<Rightarrow> mutation_row \<Rightarrow> mutation_commit db" where
  "replay_mutation context m row =
     db_bind (db_require (mr_canonical_version row = 1 \<and> mr_command row = m)
       (Conflict ''mutation ID was already committed for a different canonical request'')) (\<lambda>_.
     db_bind (db_lift (validate_stored_mutation_receipt (mr_receipt row) context (mutation_kind_of m))) (\<lambda>_.
     db_return \<lparr>cm_receipt = mr_receipt row, cm_newly_committed = False, cm_state_changed = False\<rparr>))"

definition commit_new_mutation ::
    "mutation_context \<Rightarrow> ordinary_mutation \<Rightarrow> runtime_policy_facts \<Rightarrow> u64 \<Rightarrow> u64 \<Rightarrow> int \<Rightarrow> int \<Rightarrow> mutation_commit db" where
  "commit_new_mutation context m runtime_facts committed_at_unix_millis retain_until_unix_millis committed_at retain_until =
     db_bind current_mutation_namespace (\<lambda>token.
     db_bind (db_require (token = mc_namespace_token context)
       (AuthorityLost ''request namespace is no longer current and has no retained receipt'')) (\<lambda>_.
     db_bind reserve_mutation_receipt_slot (\<lambda>_.
     db_bind (decide_mutation runtime_facts m committed_at_unix_millis) (\<lambda>(mutation_outcome, state_changed).
     db_bind (advance_policy_revision state_changed) (\<lambda>policy_revision_after.
     let receipt = \<lparr>mu_namespace_token = mc_namespace_token context, mu_mutation_id = mc_mutation_id context,
           mu_kind = mutation_kind_of m, mu_committed_at_unix_millis = committed_at_unix_millis,
           mu_retain_until_unix_millis = retain_until_unix_millis, mu_policy_revision_after = policy_revision_after,
           mu_outcome = mutation_outcome\<rparr>
     in db_bind (db_constrained mutations_ok (\<lambda>s. s\<lparr>t_mutations := t_mutations s @
          [\<lparr>mr_namespace_token = mc_namespace_token context, mr_mutation_id = mc_mutation_id context,
            mr_canonical_version = 1, mr_command = m, mr_receipt = receipt, mr_committed_at = committed_at,
            mr_retain_until = retain_until\<rparr>]\<rparr>)) (\<lambda>_.
        db_return \<lparr>cm_receipt = receipt, cm_newly_committed = True, cm_state_changed = state_changed\<rparr>))))))"

definition commit_public_ordinary_mutation ::
    "mutation_context \<Rightarrow> ordinary_mutation \<Rightarrow> runtime_policy_facts \<Rightarrow> u64 \<Rightarrow> mutation_commit db" where
  "commit_public_ordinary_mutation context m runtime_facts committed_at_unix_millis =
     db_bind (db_lift (sqlite_millis committed_at_unix_millis ''mutation timestamp'')) (\<lambda>committed_at.
     case u64_checked_add committed_at_unix_millis mutation_reconciliation_window_millis of
       None \<Rightarrow> db_fail (RangeError ''mutation retention deadline overflowed u64'')
     | Some retain_until_unix_millis \<Rightarrow>
         db_bind (db_lift (sqlite_millis retain_until_unix_millis ''mutation retention deadline'')) (\<lambda>retain_until.
         db_bind (db_read (find_mutation context)) (\<lambda>stored.
         case stored of
           Some row \<Rightarrow> replay_mutation context m row
         | None \<Rightarrow> commit_new_mutation context m runtime_facts committed_at_unix_millis retain_until_unix_millis
             committed_at retain_until)))"

definition commit_ordinary_mutation :: "mutation_context \<Rightarrow> ordinary_mutation \<Rightarrow> u64 \<Rightarrow> mutation_commit db" where
  "commit_ordinary_mutation context m committed_at_unix_millis =
     commit_public_ordinary_mutation context m \<lparr>rp_draining = False, rp_failed = False\<rparr> committed_at_unix_millis"

end
