(* ===== verification/Store_Retention.thy ===== *)
theory Store_Retention
  imports Store_Mutations
begin

text \<open>
  Retention and the projections for readers in \<open>crates/unlinger-daemon/src/store.rs\<close>: what \<open>prune\<close> deletes, and
  the summaries of blocked cleanups and protections that the status of the daemon shows.
\<close>

section \<open>Pruning\<close>

record retention_policy =
  rt_max_age_millis :: u64
  rt_max_events :: usize

definition default_retention_policy :: retention_policy where
  "default_retention_policy = \<lparr>rt_max_age_millis = 14 * 24 * 60 * 60 * 1000, rt_max_events = 10000\<rparr>"

record prune_result =
  pn_removed_events :: usize
  pn_remaining_events :: usize

definition cleanup_detail_retention_millis :: u64 where
  "cleanup_detail_retention_millis = 14 * 24 * 60 * 60 * 1000"

definition event_count :: "store \<Rightarrow> nat" where
  "event_count s = length (t_events s)"

text \<open>Deleting an event deletes its public token (\<open>ON DELETE CASCADE\<close>) and is refused while an impact row refers to it.\<close>

definition delete_events :: "(store \<Rightarrow> event_row \<Rightarrow> bool) \<Rightarrow> unit db" where
  "delete_events P =
     db_bind (db_read (\<lambda>s. list_ex (\<lambda>e. P s e \<and> evt_id e \<in> set (map im_event_id (t_impacts s))) (t_events s))) (\<lambda>referenced.
     db_bind (db_require (\<not> referenced) (Sqlite ''FOREIGN KEY constraint failed'')) (\<lambda>_.
     db_write (\<lambda>s. s\<lparr>t_events := delete_where (P s) (t_events s),
       t_event_tokens := delete_where (\<lambda>k. fst k \<in> set (map evt_id (filter (P s) (t_events s)))) (t_event_tokens s)\<rparr>)))"

definition is_observation :: "event_row \<Rightarrow> bool" where
  "is_observation e \<longleftrightarrow> evt_kind e = ''observation''"

text \<open>\<open>ORDER BY occurred_at_ms DESC, id DESC\<close>.\<close>

definition newest_first :: "event_row list \<Rightarrow> event_row list" where
  "newest_first rows = rev (sort_key evt_occurred_at (sort_key evt_id rows))"

definition newest_observations :: "nat \<Rightarrow> store \<Rightarrow> int list" where
  "newest_observations n s = map evt_id (take n (newest_first (filter is_observation (t_events s))))"

definition prune_events :: "int \<Rightarrow> int \<Rightarrow> nat \<Rightarrow> unit db" where
  "prune_events cutoff cleanup_cutoff max_events =
     db_bind (delete_events (\<lambda>s e. is_observation e \<and> evt_occurred_at e < cutoff)) (\<lambda>_.
     db_bind (delete_events (\<lambda>s e. is_observation e \<and> evt_id e \<notin> set (newest_observations max_events s))) (\<lambda>_.
     db_bind (db_write (\<lambda>s. s\<lparr>t_impacts := delete_where (\<lambda>j. im_occurred_at j < cleanup_cutoff) (t_impacts s)\<rparr>)) (\<lambda>_.
     delete_events (\<lambda>s e. evt_kind e = ''cleanup'' \<and> evt_occurred_at e < cleanup_cutoff
       \<and> evt_id e \<notin> set (map im_event_id (t_impacts s))))))"

definition rotate_namespace :: "unit db" where
  "rotate_namespace = db_constrained (\<lambda>s. length (t_namespace s) = 32)
     (\<lambda>s. s\<lparr>t_namespace := t_random s (t_draws s), t_draws := Suc (t_draws s)\<rparr>)"

definition prune_receipts :: "int \<Rightarrow> unit db" where
  "prune_receipts now =
     db_bind (db_read (\<lambda>s. length (filter (\<lambda>r. mr_retain_until r \<le> now) (t_mutations s)))) (\<lambda>deleted_receipts.
     db_bind (db_write (\<lambda>s. s\<lparr>t_mutations := delete_where (\<lambda>r. mr_retain_until r \<le> now) (t_mutations s)\<rparr>)) (\<lambda>_.
     if deleted_receipts > 0 then rotate_namespace else db_return ()))"

text \<open>Attempts that nothing refers to any more.\<close>

definition attempt_unreferenced :: "store \<Rightarrow> attempt_row \<Rightarrow> bool" where
  "attempt_unreferenced s a \<longleftrightarrow> \<not> attempt_open a
     \<and> \<not> list_ex (\<lambda>e. evt_attempt_id e = Some (at_id a)) (t_events s)
     \<and> \<not> list_ex (\<lambda>b. rb_source_attempt_id b = at_id a) (t_retry_blocks s)
     \<and> \<not> list_ex (\<lambda>j. im_attempt_id j = at_id a) (t_impacts s)"

definition unreferenced_ids :: "store \<Rightarrow> int list" where
  "unreferenced_ids s = map at_id (filter (attempt_unreferenced s) (t_attempts s))"

definition prune_attempts :: "unit db" where
  "prune_attempts =
     db_bind (db_write (\<lambda>s. s\<lparr>t_actions := delete_where (\<lambda>a. ac_attempt_id a \<in> set (unreferenced_ids s)) (t_actions s)\<rparr>)) (\<lambda>_.
     db_bind (db_write (\<lambda>s. s\<lparr>t_artifact_actions :=
       delete_where (\<lambda>a. ar_attempt_id a \<in> set (unreferenced_ids s)) (t_artifact_actions s)\<rparr>)) (\<lambda>_.
     db_write (\<lambda>s. s\<lparr>t_attempts := delete_where (attempt_unreferenced s) (t_attempts s)\<rparr>)))"

definition i64_cutoff :: "u64 \<Rightarrow> string \<Rightarrow> store_error + int" where
  "i64_cutoff v message = (case i64_try_from v of None \<Rightarrow> Inl (RangeError message) | Some i \<Rightarrow> Inr i)"

definition prune :: "u64 \<Rightarrow> retention_policy \<Rightarrow> prune_result db" where
  "prune now_unix_millis policy =
     db_bind (db_read event_count) (\<lambda>before.
     db_bind (db_lift (i64_cutoff (saturating_sub now_unix_millis (rt_max_age_millis policy))
       ''retention cutoff overflowed i64'')) (\<lambda>cutoff.
     db_bind (db_lift (i64_cutoff (saturating_sub now_unix_millis (max (rt_max_age_millis policy) cleanup_detail_retention_millis))
       ''cleanup retention cutoff overflowed i64'')) (\<lambda>cleanup_cutoff.
     db_bind (db_require (rt_max_events policy < 2 ^ 63) (RangeError ''retention event limit overflowed i64'')) (\<lambda>_.
     db_bind (prune_events cutoff cleanup_cutoff (rt_max_events policy)) (\<lambda>_.
     db_bind (db_write (\<lambda>s. s\<lparr>t_cooling := delete_where (\<lambda>c. cr_last_wall c < cutoff) (t_cooling s)\<rparr>)) (\<lambda>_.
     db_bind (db_lift (sqlite_millis now_unix_millis ''mutation receipt prune timestamp'')) (\<lambda>now.
     db_bind (prune_receipts now) (\<lambda>_.
     db_bind prune_attempts (\<lambda>_.
     db_bind (db_read event_count) (\<lambda>remaining_events.
     db_return \<lparr>pn_removed_events = before - remaining_events, pn_remaining_events = remaining_events\<rparr>))))))))))"

section \<open>Projections\<close>

definition max_attention_summaries :: nat where
  "max_attention_summaries = 50"

definition max_reason_id_chars :: nat where
  "max_reason_id_chars = 128"

definition project_reason_id :: "string option \<Rightarrow> string" where
  "project_reason_id reason =
     (case reason of
        None \<Rightarrow> ''cleanup.unclassified_failure''
      | Some value \<Rightarrow>
          if value \<noteq> [] \<and> length value \<le> max_reason_id_chars \<and> list_all redacted_byte value then value
          else ''cleanup.unclassified_failure'')"

record protection_projection =
  pp_protected_incident_count :: usize
  pp_protected_incidents :: "protection_summary list"

definition project_protections :: "nat \<Rightarrow> protection_projection db" where
  "project_protections limit =
     db_bind (db_read (\<lambda>s. length (t_protections s))) (\<lambda>count.
     db_bind (db_read (\<lambda>s. take (min limit max_attention_summaries)
       (sort_key (\<lambda>p. - pr_protected_at p) (sort_key pr_incident_id (t_protections s))))) (\<lambda>rows.
     db_bind (db_map projected_protection_summary rows) (\<lambda>summaries.
     db_return \<lparr>pp_protected_incident_count = count, pp_protected_incidents = summaries\<rparr>)))"

record blocked_cleanup_summary =
  bc_event_token :: "string option"
  bc_incident_id :: string
  bc_state :: incident_state
  bc_blocked_at_unix_millis :: u64
  bc_reason_id :: string
  bc_outcome :: cleanup_outcome
  bc_last_exact_observed_at_unix_millis :: "u64 option"
  bc_exact_absence_since_unix_millis :: "u64 option"

record attention_projection =
  at_blocked_cleanup_count :: usize
  at_blocked_cleanups :: "blocked_cleanup_summary list"

text \<open>The terminal cleanup events of the attempt that a block names, newest first; the token is that of the
  newest one that has a token.\<close>

definition block_events :: "attempt_row \<Rightarrow> store \<Rightarrow> event_row list" where
  "block_events a s = newest_first (filter (\<lambda>e. evt_attempt_id e = Some (at_id a) \<and> evt_kind e = ''cleanup''
     \<and> Some (evt_state e) = at_terminal_state a) (t_events s))"

definition block_token :: "attempt_row \<Rightarrow> store \<Rightarrow> string option" where
  "block_token a s = (case List.map_filter (\<lambda>e. map_of (t_event_tokens s) (evt_id e)) (block_events a s) of
     [] \<Rightarrow> None | token # _ \<Rightarrow> Some token)"

definition blocked_cleanup :: "retry_block_row \<times> attempt_row \<Rightarrow> blocked_cleanup_summary db" where
  "blocked_cleanup = (\<lambda>(b, a).
     case at_terminal_state a of
       None \<Rightarrow> db_fail (Sqlite ''Invalid column type Null at index: 1, name: terminal_state'')
     | Some word \<Rightarrow>
         db_bind (db_lift (parse_state word)) (\<lambda>st.
         db_bind (db_require (st \<in> {Failed, Revived})
           (Corrupt (''retry block references non-blocking terminal state '' @ state_name st))) (\<lambda>_.
         db_bind (db_read (block_events a)) (\<lambda>found.
         case found of
           [] \<Rightarrow> db_fail (Corrupt ''retry block has no matching terminal cleanup event'')
         | e # _ \<Rightarrow>
             (case evt_payload e of
                ObservationPayload _ \<Rightarrow> db_fail (Corrupt ''retry block selected a non-cleanup event payload'')
              | CleanupPayload receipt \<Rightarrow>
                  db_bind (db_read (block_token a)) (\<lambda>token.
                  db_bind (db_lift (parse_nonnegative_millis (rb_blocked_at b) ''retry block timestamp'')) (\<lambda>blocked_at.
                  db_bind (db_lift (parse_optional_millis (rb_last_exact_observed_at b) ''last exact observation'')) (\<lambda>last_observed.
                  db_bind (db_lift (parse_optional_millis (rb_absence_since b) ''exact absence timestamp'')) (\<lambda>absence_since.
                  db_return \<lparr>bc_event_token = token, bc_incident_id = project_identifier (rb_incident_id b) ''redacted-incident'',
                    bc_state = st, bc_blocked_at_unix_millis = blocked_at, bc_reason_id = project_reason_id (rb_reason_id b),
                    bc_outcome = outcome receipt, bc_last_exact_observed_at_unix_millis = last_observed,
                    bc_exact_absence_since_unix_millis = absence_since\<rparr>)))))))))"

definition project_attention :: "nat \<Rightarrow> attention_projection db" where
  "project_attention limit =
     db_bind (db_read (\<lambda>s. length (t_retry_blocks s))) (\<lambda>count.
     db_bind (db_read (\<lambda>s. take (min limit max_attention_summaries)
       (sort_key (\<lambda>(b, a). - rb_blocked_at b) (sort_key (\<lambda>(b, a). rb_incident_id b) (joined_blocks s))))) (\<lambda>rows.
     db_bind (db_map blocked_cleanup rows) (\<lambda>summaries.
     db_return \<lparr>at_blocked_cleanup_count = count, at_blocked_cleanups = summaries\<rparr>)))"

end
