(* ===== verification/Store_Commit.thy ===== *)
theory Store_Commit
  imports Store_Retention
begin

text \<open>
  What the receipts of owner mutations promise: over any history of requests, prunings and other work of the
  store, a request is carried out at most once, a repetition is answered with the receipt of the first
  execution, and the policy revision counts exactly the changes.
\<close>

section \<open>What a commit touches\<close>

lemma keeps_mutation: 
  assumes "\<And>d. keeps I (f d)" "keeps I g" "\<And>i. keeps I (h i)" "\<And>i. keeps I (p i)" "\<And>i. keeps I (q i)"
  shows "keeps I (case m of Pause d \<Rightarrow> f d | Resume \<Rightarrow> g | RetryFailedCleanup i \<Rightarrow> h i | ProtectIncident i \<Rightarrow> p i
    | UnprotectIncident i \<Rightarrow> q i)"
  using assms by (cases m) simp_all

lemma keeps_decision:
  assumes "keeps I f" "\<And>r. keeps I (g r)" "\<And>r. keeps I (h r)"
  shows "keeps I (case d of Allow \<Rightarrow> f | DecideNoChange r \<Rightarrow> g r | DecideReject r \<Rightarrow> h r)"
  using assms by (cases d) simp_all

lemma keeps_facts: "keeps I (store_policy_facts_connection m now)"
  unfolding store_policy_facts_connection_def Let_def by (intro keeps_bind keeps_intros keeps_mutation)

lemma keeps_summary: "keeps I (protection_summary_transaction i)"
  unfolding protection_summary_transaction_def projected_protection_summary_def
  by (intro keeps_bind keeps_intros keeps_option)

definition frame_of :: "store \<Rightarrow> mutation_row list \<times> string \<times> (nat \<Rightarrow> string) \<times> nat \<times> int" where
  "frame_of s = (t_mutations s, t_namespace s, t_random s, t_draws s, t_policy_revision s)"

lemma keeps_apply: "keeps (\<lambda>s. frame_of s = x) (apply_ordinary_mutation m now)"
  unfolding apply_ordinary_mutation_def apply_pause_def apply_resume_def apply_retry_def apply_protect_def
    apply_unprotect_def delete_block_def delete_retry_block_def delete_protection_def
  by (intro keeps_bind keeps_intros keeps_option keeps_mutation keeps_summary keeps_write keeps_constrained)
     (simp_all add: frame_of_def)

lemma keeps_decide: "keeps (\<lambda>s. frame_of s = x) (decide_mutation r m now)"
  unfolding decide_mutation_def
  by (intro keeps_bind keeps_intros keeps_facts keeps_apply keeps_decision)

definition applied_outcome :: "mutation_outcome \<Rightarrow> bool" where
  "applied_outcome r = (case r of Applied _ \<Rightarrow> True | _ \<Rightarrow> False)"

lemma dwp_decision:
  "dwp (case d of Allow \<Rightarrow> f | DecideNoChange r \<Rightarrow> g r | DecideReject r \<Rightarrow> h r) Q s \<longleftrightarrow>
   (case d of Allow \<Rightarrow> dwp f Q s | DecideNoChange r \<Rightarrow> dwp (g r) Q s | DecideReject r \<Rightarrow> dwp (h r) Q s)"
  by (cases d) simp_all

lemma dwp_any: "(\<And>x s'. Q x s') \<Longrightarrow> dwp m Q s"
  by (simp add: dwp_def)

lemma decide_applied: "dwp (decide_mutation r m now) (\<lambda>(res, changed) _. changed = applied_outcome res) s"
  unfolding decide_mutation_def dwp_simps dwp_decision
  by (intro dwp_any) (auto simp: applied_outcome_def intro!: dwp_any split: policy_decision.split)

definition revision_ok :: "store \<Rightarrow> bool" where
  "revision_ok s \<longleftrightarrow> 1 \<le> t_policy_revision s \<and> t_policy_revision s < 2 ^ 63"

lemma advance_exact:
  assumes "revision_ok s"
  shows "dwp (advance_policy_revision changed)
    (\<lambda>n s'. s' = s\<lparr>t_policy_revision := t_policy_revision s + of_bool changed\<rparr> \<and> revision_ok s') s"
proof -
  let ?w = "word_of_int (t_policy_revision s) :: u64"
  have w: "uint ?w = t_policy_revision s"
    using assms by (simp add: revision_ok_def uint_word_of_int)
  then have succ: "uint (?w + 1) = t_policy_revision s + 1" using assms by (simp add: revision_ok_def uint_word_ariths)
  show ?thesis
    using assms unfolding advance_policy_revision_def cleanup_policy_revision_connection_def dwp_simps
    by (auto simp: dwp_simps u64_checked_add_def sqlite_millis_Inr succ revision_ok_def)
qed

text \<open>A commit either repeats: nothing changes and the stored receipt is the answer; or it is new: its receipt is
  stored under its key and the revision counts the change.\<close>

definition commit_effect :: "mutation_context \<Rightarrow> ordinary_mutation \<Rightarrow> store \<Rightarrow> mutation_commit \<Rightarrow> store \<Rightarrow> bool" where
  "commit_effect context m s c s' \<longleftrightarrow>
     (if cm_newly_committed c then
        find_mutation context s = None \<and> t_namespace s = mc_namespace_token context
        \<and> (\<exists>row. mutation_key row = context_key context \<and> mr_command row = m \<and> mr_receipt row = cm_receipt c
             \<and> frame_of s' = (t_mutations s @ [row], t_namespace s, t_random s, t_draws s,
                  t_policy_revision s + of_bool (applied_outcome (mu_outcome (cm_receipt c)))) \<and> revision_ok s')
      else s' = s \<and> (\<exists>row. find_mutation context s = Some row \<and> mr_command row = m \<and> mr_receipt row = cm_receipt c))"

lemma new_commit_effect:
  assumes "revision_ok s" "find_mutation context s = None"
  shows "dwp (commit_new_mutation context m rt now until c u) (commit_effect context m s) s"
proof -
  have decide: "dwp (decide_mutation rt m now)
      (\<lambda>(res, changed) s1. changed = applied_outcome res \<and> frame_of s1 = frame_of s) s"
    using decide_applied [of rt m now s] keepsD [OF keeps_decide [of "frame_of s"], of s] unfolding dwp_def by fastforce
  have rest: "dwp (advance_policy_revision changed) (\<lambda>n s2.
      frame_of s2 = (t_mutations s, t_namespace s, t_random s, t_draws s, t_policy_revision s + of_bool changed) \<and> revision_ok s2) s1"
    if "frame_of s1 = frame_of s" for s1 changed
  proof -
    have "revision_ok s1" using that assms(1) by (simp add: frame_of_def revision_ok_def)
    from advance_exact [OF this] show ?thesis by (rule dwp_mono) (use that in \<open>auto simp: frame_of_def\<close>)
  qed
  show ?thesis
    unfolding commit_new_mutation_def current_mutation_namespace_def reserve_mutation_receipt_slot_def dwp_simps Let_def
    by (split if_split, intro conjI impI dwp_mono [OF decide])
       (auto simp: dwp_simps assms(2) commit_effect_def frame_of_def mutation_key_def context_key_def revision_ok_def
          split del: if_split intro!: dwp_mono [OF rest])
qed

lemma commit_has_effect:
  assumes "revision_ok s" "commit_public_ordinary_mutation context m rt now s = Inr (c, s')"
  shows "commit_effect context m s c s'"
proof -
  have "dwp (commit_public_ordinary_mutation context m rt now) (commit_effect context m s) s"
    unfolding commit_public_ordinary_mutation_def dwp_simps
    by (auto simp: dwp_simps replay_mutation_def commit_effect_def
        intro!: new_commit_effect [OF assms(1)] split: option.split)
  then show ?thesis using assms(2) by (rule dwpD)
qed

lemma keeps_delete_events: "keeps (\<lambda>s. frame_of s = x) (delete_events P)"
  unfolding delete_events_def by (intro keeps_bind keeps_intros keeps_write) (simp add: frame_of_def)

lemma keeps_prune_events: "keeps (\<lambda>s. frame_of s = x) (prune_events a b n)"
  unfolding prune_events_def by (intro keeps_bind keeps_write keeps_delete_events) (simp add: frame_of_def)

lemma keeps_prune_attempts: "keeps (\<lambda>s. frame_of s = x) prune_attempts"
  unfolding prune_attempts_def by (intro keeps_bind keeps_write) (simp_all add: frame_of_def)

definition prune_effect :: "int \<Rightarrow> store \<Rightarrow> store \<Rightarrow> bool" where
  "prune_effect now s s' \<longleftrightarrow>
     frame_of s' = (delete_where (\<lambda>r. mr_retain_until r \<le> now) (t_mutations s),
       (if list_ex (\<lambda>r. mr_retain_until r \<le> now) (t_mutations s) then t_random s (t_draws s) else t_namespace s), t_random s,
       (if list_ex (\<lambda>r. mr_retain_until r \<le> now) (t_mutations s) then Suc (t_draws s) else t_draws s), t_policy_revision s)"

lemma prune_receipts_effect:
  assumes "frame_of s1 = frame_of s"
  shows "dwp (prune_receipts now) (\<lambda>_. prune_effect now s) s1"
  using assms unfolding prune_receipts_def rotate_namespace_def dwp_simps
  by (auto simp: prune_effect_def frame_of_def dwp_simps filter_empty_conv list_ex_iff)

lemma prune_has_effect:
  assumes "prune now policy s = Inr (r, s')"
  shows "prune_effect (uint now) s s'"
proof -
  have "dwp (prune now policy) (\<lambda>_. prune_effect (uint now) s) s"
    unfolding prune_def dwp_simps
    apply (intro allI impI dwp_keeps [OF keeps_prune_events [of "frame_of s"]])
    apply simp
    apply (clarsimp simp: sqlite_millis_Inr)
    apply (rule dwp_mono [OF prune_receipts_effect [of _ s]])
    apply (simp add: frame_of_def)
    apply (rule dwp_keeps [OF keeps_prune_attempts])
    apply (rule refl)
    apply (simp add: prune_effect_def)
    done
  then show ?thesis using assms by (rule dwpD)
qed

section \<open>Histories\<close>

datatype mutation_event =
    Executed mutation_context ordinary_mutation mutation_receipt
  | Repeated mutation_context ordinary_mutation mutation_receipt
  | Unrelated

definition commit_event :: "mutation_context \<Rightarrow> ordinary_mutation \<Rightarrow> mutation_commit \<Rightarrow> mutation_event" where
  "commit_event context m c =
     (if cm_newly_committed c then Executed context m (cm_receipt c) else Repeated context m (cm_receipt c))"

text \<open>The work of the daemon as far as the receipts see it. Everything else the store does leaves the receipts,
  the namespace and the revision alone, and may draw tokens.\<close>

inductive mutation_trace :: "store \<Rightarrow> mutation_event list \<Rightarrow> store \<Rightarrow> bool" for s0 where
  start: "mutation_trace s0 [] s0"
| committed: "mutation_trace s0 es s \<Longrightarrow> commit_public_ordinary_mutation context m rt now s = Inr (c, s') \<Longrightarrow>
    mutation_trace s0 (es @ [commit_event context m c]) s'"
| pruned: "mutation_trace s0 es s \<Longrightarrow> prune now policy s = Inr (r, s') \<Longrightarrow> mutation_trace s0 (es @ [Unrelated]) s'"
| elsewhere: "mutation_trace s0 es s \<Longrightarrow> t_mutations s' = t_mutations s \<Longrightarrow> t_namespace s' = t_namespace s \<Longrightarrow>
    t_random s' = t_random s \<Longrightarrow> t_draws s \<le> t_draws s' \<Longrightarrow> t_policy_revision s' = t_policy_revision s \<Longrightarrow>
    mutation_trace s0 (es @ [Unrelated]) s'"

definition executed_keys :: "mutation_event list \<Rightarrow> (string \<times> string) list" where
  "executed_keys es = List.map_filter (\<lambda>e. case e of Executed c _ _ \<Rightarrow> Some (context_key c) | _ \<Rightarrow> None) es"

definition changes :: "mutation_event list \<Rightarrow> nat" where
  "changes es = length (filter (\<lambda>e. case e of Executed _ _ r \<Rightarrow> applied_outcome (mu_outcome r) | _ \<Rightarrow> False) es)"

definition fresh_authority :: "store \<Rightarrow> bool" where
  "fresh_authority s \<longleftrightarrow> t_mutations s = [] \<and> inj (t_random s) \<and> (\<exists>k<t_draws s. t_namespace s = t_random s k)"

text \<open>The invariant: every stored receipt belongs to an execution of the history; every execution used the namespace
  of its time, and one whose receipt is gone used a namespace that is no longer current.\<close>

definition receipts_inv :: "store \<Rightarrow> mutation_event list \<Rightarrow> store \<Rightarrow> bool" where
  "receipts_inv s0 es s \<longleftrightarrow>
     t_random s = t_random s0 \<and> revision_ok s \<and> t_policy_revision s = t_policy_revision s0 + int (changes es) \<and>
     distinct (executed_keys es) \<and>
     (\<forall>r\<in>set (t_mutations s). \<exists>c. context_key c = mutation_key r \<and> Executed c (mr_command r) (mr_receipt r) \<in> set es) \<and>
     (\<exists>k<t_draws s. t_namespace s = t_random s k \<and>
        (\<forall>key\<in>set (executed_keys es). \<exists>j\<le>k. fst key = t_random s j \<and>
           (key \<in> mutation_key ` set (t_mutations s) \<or> j < k)))"

lemma executed_keys_snoc [simp]:
  "executed_keys (es @ [Executed c m r]) = executed_keys es @ [context_key c]"
  "executed_keys (es @ [Repeated c m r]) = executed_keys es" "executed_keys (es @ [Unrelated]) = executed_keys es"
  by (simp_all add: executed_keys_def map_filter_def)

lemma changes_snoc [simp]:
  "changes (es @ [Executed c m r]) = changes es + of_bool (applied_outcome (mu_outcome r))"
  "changes (es @ [Repeated c m r]) = changes es" "changes (es @ [Unrelated]) = changes es"
  by (simp_all add: changes_def)

lemma find_mutation_None: "find_mutation context s = None \<longleftrightarrow> context_key context \<notin> mutation_key ` set (t_mutations s)"
  by (auto simp: find_mutation_def find_None_iff image_iff)

lemma context_key_inject [simp]: "context_key c = context_key d \<longleftrightarrow> c = d"
  by (auto simp: context_key_def)

lemma inv_executed:
  assumes inv: "receipts_inv s0 es s" and inj: "inj (t_random s0)" and effect: "commit_effect context m s c s'" "cm_newly_committed c"
  shows "receipts_inv s0 (es @ [Executed context m (cm_receipt c)]) s'"
proof -
  from effect obtain row where rev: "revision_ok s'" and fresh: "context_key context \<notin> mutation_key ` set (t_mutations s)"
    and ns: "t_namespace s = mc_namespace_token context"
    and row: "mutation_key row = context_key context" "mr_command row = m" "mr_receipt row = cm_receipt c"
    and s': "frame_of s' = (t_mutations s @ [row], t_namespace s, t_random s, t_draws s,
        t_policy_revision s + of_bool (applied_outcome (mu_outcome (cm_receipt c))))"
    by (auto simp: commit_effect_def find_mutation_None)
  then have sf: "t_mutations s' = t_mutations s @ [row]" "t_random s' = t_random s" by (simp_all add: frame_of_def)
  from inv obtain k where k: "k < t_draws s" "t_namespace s = t_random s k"
    "\<forall>key\<in>set (executed_keys es). \<exists>j\<le>k. fst key = t_random s j \<and> (key \<in> mutation_key ` set (t_mutations s) \<or> j < k)"
    unfolding receipts_inv_def by blast
  have injs: "inj (t_random s)" using inv inj by (simp add: receipts_inv_def)
  have new: "context_key context \<notin> set (executed_keys es)"
  proof
    assume "context_key context \<in> set (executed_keys es)"
    with k(3) fresh obtain j where "j < k" "mc_namespace_token context = t_random s j" by (auto simp: context_key_def)
    with k(2) ns injs show False by (simp add: inj_eq)
  qed
  have "\<forall>key\<in>set (executed_keys (es @ [Executed context m (cm_receipt c)])). \<exists>j\<le>k. fst key = t_random s' j \<and>
      (key \<in> mutation_key ` set (t_mutations s') \<or> j < k)"
  proof (rule ballI)
    fix key assume "key \<in> set (executed_keys (es @ [Executed context m (cm_receipt c)]))"
    then consider "key = context_key context" | "key \<in> set (executed_keys es)" by auto
    then show "\<exists>j\<le>k. fst key = t_random s' j \<and> (key \<in> mutation_key ` set (t_mutations s') \<or> j < k)"
    proof cases
      case 1
      then have "fst key = t_random s' k" "key \<in> mutation_key ` set (t_mutations s')"
        using sf k(2) ns row(1) by (simp_all add: context_key_def)
      then show ?thesis by blast
    next
      case 2
      with k(3) sf show ?thesis by auto
    qed
  qed
  moreover have "\<forall>r\<in>set (t_mutations s'). \<exists>d. context_key d = mutation_key r \<and>
      Executed d (mr_command r) (mr_receipt r) \<in> set (es @ [Executed context m (cm_receipt c)])"
    using inv row unfolding receipts_inv_def sf by auto
  moreover have "t_random s' = t_random s0 \<and> k < t_draws s' \<and> t_namespace s' = t_random s' k \<and>
      t_policy_revision s' = t_policy_revision s0 + int (changes (es @ [Executed context m (cm_receipt c)]))"
    using inv k(1,2) s' by (auto simp: receipts_inv_def frame_of_def)
  moreover have "distinct (executed_keys (es @ [Executed context m (cm_receipt c)]))"
    using inv new by (simp add: receipts_inv_def)
  ultimately show ?thesis using rev unfolding receipts_inv_def by blast
qed

lemma inv_pruned:
  assumes inv: "receipts_inv s0 es s" and inj: "inj (t_random s0)" and effect: "prune_effect now s s'"
  shows "receipts_inv s0 (es @ [Unrelated]) s'"
proof -
  let ?gone = "\<lambda>r. mr_retain_until r \<le> now"
  have sf: "t_mutations s' = delete_where ?gone (t_mutations s)" "t_random s' = t_random s"
      "t_policy_revision s' = t_policy_revision s"
    using effect by (simp_all add: prune_effect_def frame_of_def)
  from inv obtain k where k: "k < t_draws s" "t_namespace s = t_random s k"
    "\<forall>key\<in>set (executed_keys es). \<exists>j\<le>k. fst key = t_random s j \<and> (key \<in> mutation_key ` set (t_mutations s) \<or> j < k)"
    unfolding receipts_inv_def by blast
  have "\<exists>k'<t_draws s'. t_namespace s' = t_random s' k' \<and> (\<forall>key\<in>set (executed_keys es). \<exists>j\<le>k'.
      fst key = t_random s' j \<and> (key \<in> mutation_key ` set (t_mutations s') \<or> j < k'))"
  proof (cases "list_ex ?gone (t_mutations s)")
    case True
    then have "t_namespace s' = t_random s' (t_draws s)" "t_draws s < t_draws s'"
      using effect by (simp_all add: prune_effect_def frame_of_def)
    moreover have "\<exists>j<t_draws s. fst key = t_random s' j" if "key \<in> set (executed_keys es)" for key
      using k(1,3) that sf(2) by (metis le_less_trans)
    ultimately show ?thesis by (metis less_imp_le)
  next
    case False
    then have "delete_where ?gone (t_mutations s) = t_mutations s"
      unfolding delete_where_def by (auto simp: list_ex_iff intro!: filter_True)
    then show ?thesis using False effect k sf by (auto simp: prune_effect_def frame_of_def)
  qed
  moreover have "\<forall>r\<in>set (t_mutations s'). \<exists>c. context_key c = mutation_key r \<and> Executed c (mr_command r) (mr_receipt r) \<in> set es"
    using inv unfolding receipts_inv_def sf by simp
  ultimately show ?thesis using inv sf unfolding receipts_inv_def revision_ok_def by simp
qed

text \<open>Every repetition got the receipt of an earlier execution of the same command.\<close>

definition answered :: "mutation_event list \<Rightarrow> bool" where
  "answered es \<longleftrightarrow> (\<forall>xs ys c m r. es = xs @ Repeated c m r # ys \<longrightarrow> Executed c m r \<in> set xs)"

lemma answered_snoc:
  "answered (es @ [e]) \<longleftrightarrow> answered es \<and> (\<forall>c m r. e = Repeated c m r \<longrightarrow> Executed c m r \<in> set es)"
proof
  assume all: "answered (es @ [e])"
  have "answered es" unfolding answered_def
  proof (intro allI impI)
    fix xs ys c m r
    assume "es = xs @ Repeated c m r # ys"
    then have "es @ [e] = xs @ Repeated c m r # (ys @ [e])" by simp
    with all show "Executed c m r \<in> set xs" unfolding answered_def by blast
  qed
  with all show "answered es \<and> (\<forall>c m r. e = Repeated c m r \<longrightarrow> Executed c m r \<in> set es)"
    unfolding answered_def by blast
next
  assume es: "answered es \<and> (\<forall>c m r. e = Repeated c m r \<longrightarrow> Executed c m r \<in> set es)"
  show "answered (es @ [e])" unfolding answered_def
  proof (intro allI impI)
    fix xs ys c m r
    assume "es @ [e] = xs @ Repeated c m r # ys"
    then show "Executed c m r \<in> set xs"
      using es by (cases ys rule: rev_cases) (auto simp: answered_def)
  qed
qed

lemma trace_receipts:
  assumes "fresh_authority s0" "revision_ok s0" "mutation_trace s0 es s"
  shows "receipts_inv s0 es s \<and> answered es"
  using assms(3)
proof (induction rule: mutation_trace.induct)
  case start
  then show ?case using assms(1,2) by (auto simp: receipts_inv_def fresh_authority_def executed_keys_def changes_def answered_def)
next
  case (committed es s ctx m rt now c s')
  have inv: "receipts_inv s0 es s" and inj: "inj (t_random s0)"
    using committed.IH assms(1) by (simp_all add: fresh_authority_def)
  have effect: "commit_effect ctx m s c s'"
    using commit_has_effect committed.hyps(2) inv by (simp add: receipts_inv_def)
  show ?case
  proof (cases "cm_newly_committed c")
    case True
    then show ?thesis using inv_executed [OF inv inj effect True] committed.IH
      by (simp add: commit_event_def answered_snoc True)
  next
    case False
    then obtain row where "s' = s" "row \<in> set (t_mutations s)" "mutation_key row = context_key ctx"
      "mr_command row = m" "mr_receipt row = cm_receipt c"
      using effect by (auto simp: commit_effect_def find_mutation_def dest: find_SomeD)
    moreover from this have "Executed ctx m (cm_receipt c) \<in> set es" using inv by (auto simp: receipts_inv_def)
    ultimately show ?thesis using False inv committed.IH
      by (auto simp: commit_event_def receipts_inv_def answered_snoc)
  qed
next
  case (pruned es s now policy r s')
  have "receipts_inv s0 (es @ [Unrelated]) s'"
    using inv_pruned [OF _ _ prune_has_effect [OF pruned.hyps(2)]] pruned.IH assms(1) by (simp add: fresh_authority_def)
  with pruned.IH show ?case by (simp add: answered_snoc)
next
  case (elsewhere es s s')
  then have "receipts_inv s0 (es @ [Unrelated]) s'"
    by (simp add: receipts_inv_def revision_ok_def) (metis order_less_le_trans)
  with elsewhere.IH show ?case by (simp add: answered_snoc)
qed

section \<open>At most once\<close>


definition demo_authority :: store where
  "demo_authority = empty_store\<lparr>t_random := \<lambda>n. replicate n (CHR ''a''), t_draws := 33, t_namespace := replicate 32 (CHR ''a'')\<rparr>"

definition demo_context :: mutation_context where
  "demo_context = \<lparr>mc_namespace_token = replicate 32 (CHR ''a''), mc_mutation_id = replicate 36 (CHR ''b'')\<rparr>"

definition demo_runtime :: runtime_policy_facts where
  "demo_runtime = \<lparr>rp_draining = False, rp_failed = False\<rparr>"

definition demo_receipt :: mutation_receipt where
  "demo_receipt = \<lparr>mu_namespace_token = replicate 32 (CHR ''a''), mu_mutation_id = replicate 36 (CHR ''b''), mu_kind = PauseKind,
     mu_committed_at_unix_millis = 7, mu_retain_until_unix_millis = 1209600007, mu_policy_revision_after = 2,
     mu_outcome = Applied (Paused 12)\<rparr>"

definition demo_paused :: store where
  "demo_paused = demo_authority\<lparr>t_settings := [(pause_key, Some 12)], t_policy_revision := 2, t_mutations :=
     [\<lparr>mr_namespace_token = replicate 32 (CHR ''a''), mr_mutation_id = replicate 36 (CHR ''b''), mr_canonical_version = 1,
       mr_command = Pause 5, mr_receipt = demo_receipt, mr_committed_at = 7, mr_retain_until = 1209600007\<rparr>]\<rparr>"

lemmas demo_defs = demo_authority_def demo_context_def demo_runtime_def demo_receipt_def demo_paused_def

lemma demo_valid: "is_valid_namespace_token (replicate 32 (CHR ''a''))"
  by code_simp

lemma demo_commit:
  "commit_public_ordinary_mutation demo_context (Pause 5) demo_runtime 7 demo_authority =
     Inr (\<lparr>cm_receipt = demo_receipt, cm_newly_committed = True, cm_state_changed = True\<rparr>, demo_paused)"
  by (simp add: commit_public_ordinary_mutation_def commit_new_mutation_def current_mutation_namespace_def
      reserve_mutation_receipt_slot_def max_mutation_receipts_def decide_mutation_def store_policy_facts_connection_def
      evaluate_action_def apply_ordinary_mutation_def apply_pause_def advance_policy_revision_def
      cleanup_policy_revision_connection_def u64_checked_add_def mutation_reconciliation_window_millis_def
      find_mutation_def mutations_ok_def mutation_check_def mutation_key_def context_key_def mutation_kind_of_def
      pause_deadline_def bt_get_def Let_def db_ops sqlite_millis_def i64_try_from_def demo_valid demo_defs empty_store_def)

lemma demo_repeat:
  "commit_public_ordinary_mutation demo_context (Pause 5) demo_runtime 9 demo_paused =
     Inr (\<lparr>cm_receipt = demo_receipt, cm_newly_committed = False, cm_state_changed = False\<rparr>, demo_paused)"
  by (simp add: commit_public_ordinary_mutation_def replay_mutation_def u64_checked_add_def find_mutation_def
      mutation_reconciliation_window_millis_def validate_stored_mutation_receipt_def mutation_key_def context_key_def
      mutation_kind_of_def db_ops sqlite_millis_def i64_try_from_def demo_defs)

lemma demo_trace:
  "mutation_trace demo_authority [Executed demo_context (Pause 5) demo_receipt, Repeated demo_context (Pause 5) demo_receipt]
     demo_paused"
  using mutation_trace.committed [OF mutation_trace.committed [OF mutation_trace.start demo_commit] demo_repeat]
  by (simp add: commit_event_def)

lemma demo_fresh: "fresh_authority demo_authority" "revision_ok demo_authority"
proof -
  have "inj (\<lambda>n. replicate n (CHR ''a''))" by (auto simp: inj_def replicate_eq_replicate)
  then show "fresh_authority demo_authority"
    by (auto simp: fresh_authority_def demo_authority_def empty_store_def intro!: exI [of _ 32])
  show "revision_ok demo_authority" by (simp add: revision_ok_def demo_authority_def empty_store_def)
qed


end
