(* ===== verification/Store_Prune.thy ===== *)
theory Store_Prune
  imports Store_Retention Store_Recovery
begin

text \<open>
  What pruning keeps: the invariant of the journal, every retry block and protection, every open
  attempt and everything that blocks arming. And what it does not keep: the terminal event of an attempt that a
  retry block still names, without which the status of the daemon cannot be read.
\<close>

section \<open>What every deletion keeps\<close>

lemma list_all_delete: "list_all P rows \<Longrightarrow> list_all P (delete_where Q rows)"
  by (simp add: list_all_iff)

lemma keyed_delete: "keyed k rows n \<Longrightarrow> keyed k (delete_where Q rows) n"
  by (simp add: keyed_def list_all_delete distinct_delete_where)

lemmas deletes = list_all_delete keyed_delete distinct_delete_where

lemma inv_delete_events:
  "journal_inv s \<Longrightarrow> journal_inv (s\<lparr>t_events := delete_where P (t_events s), t_event_tokens := delete_where Q (t_event_tokens s)\<rparr>)"
  unfolding journal_inv_defs table_checks is_open_def by (simp add: deletes)

lemma inv_delete_impacts: "journal_inv s \<Longrightarrow> journal_inv (s\<lparr>t_impacts := delete_where P (t_impacts s)\<rparr>)"
  unfolding journal_inv_defs table_checks is_open_def by (simp add: deletes)

lemma inv_delete_actions: "journal_inv s \<Longrightarrow> journal_inv (s\<lparr>t_actions := delete_where P (t_actions s)\<rparr>)"
  unfolding journal_inv_defs table_checks is_open_def by (simp add: deletes)

lemma inv_delete_artifact_actions:
  "journal_inv s \<Longrightarrow> journal_inv (s\<lparr>t_artifact_actions := delete_where P (t_artifact_actions s)\<rparr>)"
  unfolding journal_inv_defs table_checks is_open_def by (simp add: deletes)

lemma filter_delete: "(\<And>r. Q r \<Longrightarrow> \<not> P r) \<Longrightarrow> filter Q (delete_where P rows) = filter Q rows"
  unfolding delete_where_def filter_filter by (rule filter_cong) auto

lemma unreferenced_closed: "attempt_unreferenced s a \<Longrightarrow> \<not> attempt_open a"
  by (simp add: attempt_unreferenced_def)

lemma open_kept [simp]: "filter attempt_open (delete_where (attempt_unreferenced s) rows) = filter attempt_open rows"
  by (rule filter_delete) (use unreferenced_closed in blast)

lemma list_ex_delete: "list_ex Q rows \<Longrightarrow> (\<And>r. Q r \<Longrightarrow> \<not> P r) \<Longrightarrow> list_ex Q (delete_where P rows)"
  by (auto simp: list_ex_iff)

lemma inv_delete_attempts:
  assumes "journal_inv s"
  shows "journal_inv (s\<lparr>t_attempts := delete_where (attempt_unreferenced s) (t_attempts s)\<rparr>)"
proof -
  let ?s = "s\<lparr>t_attempts := delete_where (attempt_unreferenced s) (t_attempts s)\<rparr>"
  have "is_open i ?s" if "is_open i s" for i
    using that unfolding is_open_def by (auto intro!: list_ex_delete dest: unreferenced_closed)
  then have "prepared_ok ?s" using assms unfolding journal_inv_def prepared_ok_def list_all_iff by simp
  moreover have "impacts_closed ?s"
  proof -
    have "list_ex (\<lambda>a. at_id a = im_attempt_id j \<and> \<not> attempt_open a) (t_attempts ?s)"
      if imp: "j \<in> set (t_impacts s)" and ex: "list_ex (\<lambda>a. at_id a = im_attempt_id j \<and> \<not> attempt_open a) (t_attempts s)" for j
    proof -
      obtain a where a: "a \<in> set (t_attempts s)" "at_id a = im_attempt_id j" "\<not> attempt_open a"
        using ex by (auto simp: list_ex_iff)
      then have "a \<in> set (t_attempts ?s)" using imp by (auto simp: attempt_unreferenced_def list_ex_iff)
      with a show ?thesis by (auto simp: list_ex_iff)
    qed
    then show ?thesis using assms unfolding journal_inv_def impacts_closed_def list_all_iff by simp
  qed
  moreover have "tables_ok ?s"
    using assms unfolding journal_inv_def tables_ok_def table_checks by (simp add: deletes)
  ultimately show ?thesis
    using assms unfolding journal_inv_def keys_ok_def readable_rows_def references_ok_def by (simp add: deletes)
qed

section \<open>What pruning keeps\<close>

text \<open>The rows that decide what the daemon may do next.\<close>

definition live_actions :: "store \<Rightarrow> action_row list" where
  "live_actions s = filter (\<lambda>a. is_open (ac_attempt_id a) s \<or> list_ex (\<lambda>b. rb_source_attempt_id b = ac_attempt_id a) (t_retry_blocks s)) (t_actions s)"

definition live_artifact_actions :: "store \<Rightarrow> artifact_row list" where
  "live_artifact_actions s =
     filter (\<lambda>a. is_open (ar_attempt_id a) s \<or> list_ex (\<lambda>b. rb_source_attempt_id b = ar_attempt_id a) (t_retry_blocks s)) (t_artifact_actions s)"

definition authority_rows where
  "authority_rows s = (t_retry_blocks s, t_protections s, filter attempt_open (t_attempts s), live_actions s,
     live_artifact_actions s, t_lifecycle s, t_settings s)"

lemma is_open_filter: "is_open i s \<longleftrightarrow> list_ex (\<lambda>a. at_id a = i) (filter attempt_open (t_attempts s))"
  by (auto simp: is_open_def list_ex_iff)

lemma unreferenced_not_live:
  assumes "journal_inv s" "i \<in> set (unreferenced_ids s)"
  shows "\<not> is_open i s" "\<not> list_ex (\<lambda>b. rb_source_attempt_id b = i) (t_retry_blocks s)"
proof -
  obtain a where a: "a \<in> set (t_attempts s)" "at_id a = i" "attempt_unreferenced s a"
    using assms(2) by (auto simp: unreferenced_ids_def)
  show "\<not> list_ex (\<lambda>b. rb_source_attempt_id b = i) (t_retry_blocks s)" using a by (simp add: attempt_unreferenced_def)
  have "distinct (map at_id (t_attempts s))" using assms(1) by (simp add: journal_inv_def keys_ok_def keyed_def)
  then have "b = a" if "b \<in> set (t_attempts s)" "at_id b = i" for b
    using a that by (auto simp: distinct_map inj_on_def)
  then show "\<not> is_open i s" using a(3) unreferenced_closed by (auto simp: is_open_def list_ex_iff)
qed

abbreviation prune_inv where
  "prune_inv x s \<equiv> journal_inv s \<and> authority_rows s = x"

lemmas authority_defs = authority_rows_def live_actions_def live_artifact_actions_def is_open_filter

lemma keeps_prune_delete_events: "keeps (prune_inv x) (delete_events P)"
  unfolding delete_events_def
  by (intro keeps_bind keeps_intros keeps_write conjI inv_delete_events) (auto simp: authority_defs)

lemma keeps_prune_attempts_inv: "keeps (prune_inv x) prune_attempts"
proof -
  have 1: "prune_inv x (s\<lparr>t_actions := delete_where (\<lambda>a. ac_attempt_id a \<in> set (unreferenced_ids s)) (t_actions s)\<rparr>)"
    if "prune_inv x s" for s
  proof -
    let ?s = "s\<lparr>t_actions := delete_where (\<lambda>a. ac_attempt_id a \<in> set (unreferenced_ids s)) (t_actions s)\<rparr>"
    have same: "is_open i ?s = is_open i s" for i by (simp add: is_open_def)
    have "live_actions ?s = live_actions s" unfolding live_actions_def same
      by (simp, rule filter_delete) (use that unreferenced_not_live [of s] in blast)
    with same show ?thesis using that inv_delete_actions by (simp add: authority_rows_def live_artifact_actions_def)
  qed
  have 2: "prune_inv x (s\<lparr>t_artifact_actions := delete_where (\<lambda>a. ar_attempt_id a \<in> set (unreferenced_ids s)) (t_artifact_actions s)\<rparr>)"
    if "prune_inv x s" for s
  proof -
    let ?s = "s\<lparr>t_artifact_actions := delete_where (\<lambda>a. ar_attempt_id a \<in> set (unreferenced_ids s)) (t_artifact_actions s)\<rparr>"
    have same: "is_open i ?s = is_open i s" for i by (simp add: is_open_def)
    have "live_artifact_actions ?s = live_artifact_actions s" unfolding live_artifact_actions_def same
      by (simp, rule filter_delete) (use that unreferenced_not_live [of s] in blast)
    with same show ?thesis using that inv_delete_artifact_actions by (simp add: authority_rows_def live_actions_def)
  qed
  have 3: "prune_inv x (s\<lparr>t_attempts := delete_where (attempt_unreferenced s) (t_attempts s)\<rparr>)" if "prune_inv x s" for s
  proof -
    let ?s = "s\<lparr>t_attempts := delete_where (attempt_unreferenced s) (t_attempts s)\<rparr>"
    have same: "filter attempt_open (t_attempts ?s) = filter attempt_open (t_attempts s)"
      by simp
    then have "is_open i ?s = is_open i s" for i unfolding is_open_filter by simp
    with same have "authority_rows ?s = authority_rows s"
      by (simp add: authority_rows_def live_actions_def live_artifact_actions_def)
    then show ?thesis using that inv_delete_attempts by simp
  qed
  show ?thesis unfolding prune_attempts_def by (intro keeps_bind keeps_write 1 2 3)
qed

lemma inv_elsewhere [simp]:
  "journal_inv (s\<lparr>t_cooling := c\<rparr>) = journal_inv s" "journal_inv (s\<lparr>t_mutations := m\<rparr>) = journal_inv s"
  "journal_inv (s\<lparr>t_namespace := n, t_draws := d\<rparr>) = journal_inv s"
  "authority_rows (s\<lparr>t_cooling := c\<rparr>) = authority_rows s" "authority_rows (s\<lparr>t_mutations := m\<rparr>) = authority_rows s"
  "authority_rows (s\<lparr>t_namespace := n, t_draws := d\<rparr>) = authority_rows s"
  "authority_rows (s\<lparr>t_impacts := j\<rparr>) = authority_rows s"
  unfolding journal_inv_defs table_checks authority_rows_def live_actions_def live_artifact_actions_def is_open_def by simp_all

lemma keeps_prune: "keeps (prune_inv x) (prune now policy)"
  unfolding prune_def prune_events_def prune_receipts_def rotate_namespace_def
  by (intro keeps_bind keeps_intros keeps_if keeps_write keeps_constrained keeps_prune_delete_events keeps_prune_attempts_inv)
     (auto intro: inv_delete_impacts)

lemma action_disposed_live:
  assumes "b \<in> set (t_retry_blocks s)"
  shows "action_disposed s w v b \<longleftrightarrow>
    list_ex (\<lambda>a. ac_attempt_id a = rb_source_attempt_id b \<and> ac_disposition a = Some w) (live_actions s) \<or>
    list_ex (\<lambda>a. ar_attempt_id a = rb_source_attempt_id b \<and> ar_disposition a = Some v) (live_artifact_actions s)"
proof -
  have live: "list_ex (\<lambda>c. rb_source_attempt_id c = rb_source_attempt_id b) (t_retry_blocks s)"
    using assms by (auto simp: list_ex_iff)
  have restrict: "list_ex Q (filter P rows) = list_ex Q rows" if "\<And>a. Q a \<Longrightarrow> P a" for P Q and rows :: "'q list"
    using that by (auto simp: list_ex_iff)
  show ?thesis unfolding action_disposed_def live_actions_def live_artifact_actions_def
    using live by (intro arg_cong2 [where f = "(\<or>)"] restrict [symmetric]) auto
qed

lemma blocker_of_authority:
  assumes "authority_rows s' = authority_rows s"
  shows "managed_arm_blocker s' = managed_arm_blocker s"
proof -
  have same: "t_retry_blocks s' = t_retry_blocks s" "live_actions s' = live_actions s"
      "live_artifact_actions s' = live_artifact_actions s" "filter attempt_open (t_attempts s') = filter attempt_open (t_attempts s)"
    using assms by (simp_all add: authority_rows_def)
  have some: "list_ex (\<lambda>a. at_completed_at a = None) (t_attempts q) \<longleftrightarrow> filter attempt_open (t_attempts q) \<noteq> []" for q
    by (auto simp: list_ex_iff filter_empty_conv attempt_open_def)
  have opens: "list_ex (\<lambda>a. at_completed_at a = None) (t_attempts s') =
      list_ex (\<lambda>a. at_completed_at a = None) (t_attempts s)" unfolding some same(4) ..
  have disposed: "list_ex (action_disposed s' w v) (t_retry_blocks s') = list_ex (action_disposed s w v) (t_retry_blocks s)" for w v
    unfolding list_ex_iff same(1) by (intro bex_cong refl) (simp only: action_disposed_live same)
  show ?thesis unfolding managed_arm_blocker_def persistent_enforcement_blocker_def opens disposed ..
qed

text \<open>
  C35: pruning gives nothing away. Whatever the age and count limits are, a successful pruning keeps the invariant of the
  cleanup journal, every retry block, every protection, the pause, the lifecycle, the open attempt, and with them exactly what blocks
  the arming of enforcement.
\<close>

theorem prune_keeps_authority:
  assumes "journal_inv s" "prune now policy s = Inr (r, s')"
  shows "journal_inv s' \<and> t_retry_blocks s' = t_retry_blocks s \<and> t_protections s' = t_protections s
    \<and> t_settings s' = t_settings s \<and> t_lifecycle s' = t_lifecycle s
    \<and> filter attempt_open (t_attempts s') = filter attempt_open (t_attempts s)
    \<and> managed_arm_blocker s' = managed_arm_blocker s"
proof -
  have "prune_inv (authority_rows s) s'" using keepsD [OF keeps_prune _ assms(2)] assms(1) by blast
  then have inv: "journal_inv s'" and same: "authority_rows s' = authority_rows s" by simp_all
  from inv blocker_of_authority [OF same] same [unfolded authority_rows_def] show ?thesis by simp
qed

theorem prune_keeps_authority_witness:
  "\<exists>r s'. prune 9 default_retention_policy crash_store = Inr (r, s') \<and> journal_inv s' \<and>
     managed_arm_blocker s' = managed_arm_blocker crash_store"
proof -
  have "\<exists>r s'. prune 9 default_retention_policy crash_store = Inr (r, s')"
    by (simp add: prune_def prune_events_def prune_receipts_def prune_attempts_def delete_events_def db_ops
        i64_cutoff_def i64_try_from_def sqlite_millis_def default_retention_policy_def crash_store_def empty_store_def delete_where_def
        cleanup_detail_retention_millis_def saturating_sub_def max_def)
  then obtain r s' where run: "prune 9 default_retention_policy crash_store = Inr (r, s')" by blast
  from prune_keeps_authority [OF crash_store_inv run] have "journal_inv s'"
    "managed_arm_blocker s' = managed_arm_blocker crash_store" by simp_all
  with run show ?thesis by blast
qed

section \<open>What pruning loses\<close>


lemma db_map_fails:
  assumes "x \<in> set xs" "\<And>y v s'. f y s = Inr (v, s') \<Longrightarrow> s' = s" "\<exists>e. f x s = Inl e"
  shows "\<exists>e. db_map f xs s = Inl e"
  using assms(1)
proof (induction xs)
  case (Cons y ys)
  show ?case
  proof (cases "f y s")
    case (Inl e)
    then show ?thesis by (simp add: db_ops)
  next
    case (Inr r)
    then obtain v where "r = (v, s)" using assms(2) by (cases r) auto
    moreover have "x \<in> set ys" using Cons.prems Inr assms(3) by auto
    ultimately show ?thesis using Inr Cons.IH by (auto simp: db_ops)
  qed
qed simp

lemma blocked_cleanup_read_only: "blocked_cleanup r s = Inr (v, s') \<Longrightarrow> s' = s"
  by (auto simp: blocked_cleanup_def db_ops split: prod.splits option.splits sum.splits list.splits event_payload.splits if_splits)

lemma blocked_cleanup_needs_event: "block_events a s = [] \<Longrightarrow> \<exists>e. blocked_cleanup (b, a) s = Inl e"
  by (auto simp: blocked_cleanup_def db_ops split: option.splits sum.splits if_splits)

lemma set_newest_first [simp]: "set (newest_first rows) = set rows"
  by (simp add: newest_first_def)

lemma block_events_empty:
  "block_events a s = [] \<longleftrightarrow> (\<forall>e\<in>set (t_events s). evt_attempt_id e = Some (at_id a) \<longrightarrow> evt_kind e = ''cleanup'' \<longrightarrow>
     Some (evt_state e) \<noteq> at_terminal_state a)"
  unfolding set_empty [symmetric] block_events_def set_newest_first by auto

text \<open>The blocks that a projection with this limit lists, newest first.\<close>

definition listed_blocks :: "nat \<Rightarrow> store \<Rightarrow> (retry_block_row \<times> attempt_row) list" where
  "listed_blocks limit s = take (min limit max_attention_summaries)
     (sort_key (\<lambda>(b, a). - rb_blocked_at b) (sort_key (\<lambda>(b, a). rb_incident_id b) (joined_blocks s)))"

lemma attention_fails:
  assumes "(b, a) \<in> set (listed_blocks limit s)" "block_events a s = []"
  shows "\<exists>e. project_attention limit s = Inl e"
proof -
  have "\<exists>e. blocked_cleanup (b, a) s = Inl e" by (rule blocked_cleanup_needs_event) (rule assms(2))
  then have "\<exists>e. db_map blocked_cleanup (listed_blocks limit s) s = Inl e"
    using assms(1) blocked_cleanup_read_only by (blast intro: db_map_fails)
  then show ?thesis by (auto simp: project_attention_def listed_blocks_def db_ops)
qed

definition within where
  "within E J B s \<longleftrightarrow> set (t_events s) \<subseteq> E \<and> set (t_impacts s) \<subseteq> J \<and> joined_blocks s = B"

lemma joined_elsewhere [simp]:
  "joined_blocks (s\<lparr>t_events := x, t_event_tokens := y\<rparr>) = joined_blocks s" "joined_blocks (s\<lparr>t_impacts := j\<rparr>) = joined_blocks s"
  "joined_blocks (s\<lparr>t_cooling := c\<rparr>) = joined_blocks s" "joined_blocks (s\<lparr>t_mutations := m\<rparr>) = joined_blocks s"
  "joined_blocks (s\<lparr>t_namespace := n, t_draws := d\<rparr>) = joined_blocks s"
  "joined_blocks (s\<lparr>t_actions := ac\<rparr>) = joined_blocks s" "joined_blocks (s\<lparr>t_artifact_actions := ar\<rparr>) = joined_blocks s"
  by (simp_all add: joined_blocks_def)

lemma joined_delete [simp]:
  "joined_blocks (s\<lparr>t_attempts := delete_where (attempt_unreferenced s) (t_attempts s)\<rparr>) = joined_blocks s"
proof -
  have "filter (\<lambda>a. at_id a = rb_source_attempt_id b) (delete_where (attempt_unreferenced s) (t_attempts s)) =
      filter (\<lambda>a. at_id a = rb_source_attempt_id b) (t_attempts s)" if "b \<in> set (t_retry_blocks s)" for b
    by (rule filter_delete) (use that in \<open>auto simp: attempt_unreferenced_def list_ex_iff\<close>)
  then show ?thesis unfolding joined_blocks_def by (simp cong: map_cong)
qed

lemma keeps_within_delete: "keeps (within E J B) (delete_events P)"
  unfolding delete_events_def within_def by (intro keeps_bind keeps_intros keeps_write) auto

lemma keeps_within_attempts: "keeps (within E J B) prune_attempts"
  unfolding prune_attempts_def within_def by (intro keeps_bind keeps_intros keeps_write) auto

lemma keeps_within_receipts: "keeps (within E J B) (prune_receipts now)"
  unfolding prune_receipts_def rotate_namespace_def within_def
  by (intro keeps_bind keeps_intros keeps_if keeps_write keeps_constrained) auto

lemmas keeps_within = keeps_within_delete keeps_within_attempts keeps_within_receipts

text \<open>The cleanup events that are gone once the impacts and events older than the cutoff are.\<close>

definition outlived :: "int \<Rightarrow> impact_row set \<Rightarrow> event_row set \<Rightarrow> event_row set" where
  "outlived cutoff J E = {e \<in> E. evt_kind e = ''cleanup'' \<longrightarrow>
     cutoff \<le> evt_occurred_at e \<or> (\<exists>j\<in>J. im_event_id j = evt_id e \<and> cutoff \<le> im_occurred_at j)}"

lemma prune_events_outlived:
  "within E J B s \<Longrightarrow> dwp (prune_events c cutoff n) (\<lambda>_. within (outlived cutoff J E) J B) s"
  unfolding prune_events_def dwp_bind
  apply (rule dwp_keeps [OF keeps_within_delete], assumption)
  apply (rule dwp_keeps [OF keeps_within_delete], assumption)
  by (auto simp: delete_events_def dwp_simps within_def outlived_def image_iff not_less, force)

definition cleanup_cutoff_of :: "u64 \<Rightarrow> retention_policy \<Rightarrow> u64" where
  "cleanup_cutoff_of now policy = saturating_sub now (max (rt_max_age_millis policy) cleanup_detail_retention_millis)"

lemma dwp_then: "dwp m (\<lambda>_. P) s \<Longrightarrow> (\<And>x. keeps P (f x)) \<Longrightarrow> dwp (db_bind m f) (\<lambda>_. P) s"
  by (auto simp: dwp_bind keeps_dwp elim!: dwp_mono)

lemma prune_within:
  fixes policy :: retention_policy and now :: u64
  defines "c \<equiv> saturating_sub now (max (rt_max_age_millis policy) cleanup_detail_retention_millis)"
  shows "dwp (prune now policy) (\<lambda>_. within (outlived (uint c) (set (t_impacts s)) (set (t_events s)))
     (set (t_impacts s)) (joined_blocks s)) s"
proof -
  let ?W = "within (outlived (uint c) (set (t_impacts s)) (set (t_events s))) (set (t_impacts s)) (joined_blocks s)"
  have "within (set (t_events s)) (set (t_impacts s)) (joined_blocks s) s" by (simp add: within_def)
  then have events: "dwp (prune_events cutoff cc n) (\<lambda>_. ?W) s" if "i64_cutoff c m = Inr cc" for cutoff cc n m
    using prune_events_outlived that by (auto simp: i64_cutoff_def i64_try_from_def split: option.splits if_splits)
  show ?thesis unfolding prune_def dwp_bind [of "db_read event_count"] dwp_bind [of "db_lift z" for z] dwp_bind [of "db_require b e" for b e]
      dwp_read dwp_lift dwp_require c_def [symmetric]
    by (intro allI impI dwp_then events keeps_bind keeps_intros keeps_write keeps_within) (simp_all add: within_def)
qed

text \<open>
  C36: pruning can make the status of the daemon unreadable. A retry block outlives the details of the attempt that it names: once the
  cleanup events of that attempt and their impacts are older than the retention of cleanup details, pruning deletes them and keeps the block,
  and then, at whatever limit, every projection of the blocked cleanups that lists this block fails, because it looks for the terminal event of
  each block that it lists.
\<close>

theorem expired_block_hides_status:
  assumes "(b, a) \<in> set (listed_blocks limit s)"
    and "\<forall>e\<in>set (t_events s). evt_attempt_id e = Some (at_id a) \<longrightarrow> evt_occurred_at e < uint (cleanup_cutoff_of now policy)
      \<and> (\<forall>j\<in>set (t_impacts s). im_event_id j = evt_id e \<longrightarrow> im_occurred_at j < uint (cleanup_cutoff_of now policy))"
    and "prune now policy s = Inr (r, s')"
  shows "(b, a) \<in> set (listed_blocks limit s') \<and> (\<exists>e. project_attention limit s' = Inl e)"
proof -
  have w: "within (outlived (uint (cleanup_cutoff_of now policy)) (set (t_impacts s)) (set (t_events s)))
      (set (t_impacts s)) (joined_blocks s) s'"
    using prune_within assms(3) unfolding cleanup_cutoff_of_def by (rule dwpD)
  then have same: "listed_blocks limit s' = listed_blocks limit s" by (simp add: within_def listed_blocks_def)
  have "block_events a s' = []"
    unfolding block_events_empty using w assms(2) by (fastforce simp: within_def outlived_def)
  then show ?thesis using attention_fails [of b a limit s'] assms(1) unfolding same by blast
qed

text \<open>An attempt that failed at 5, with its block, its event and its impact; the status can be read until the details expire.\<close>

definition expired_attempt :: attempt_row where
  "expired_attempt = \<lparr>at_id = 1, at_incident_id = ''i'', at_tracking_key = ''k'',
     at_root_identity_fingerprint = ''r'', at_member_fingerprint = ''m'', at_enforcement_epoch = ''e'',
     at_started_at = 3, at_completed_at = Some 5, at_terminal_state = Some ''FAILED'', at_reason_id = None,
     at_survivor_pids = Some [], at_revival_checks = 0, at_resources = None, at_signature_pack = None,
     at_signature_version = None, at_process_count = None, at_resident_memory = None\<rparr>"

definition expired_block :: retry_block_row where
  "expired_block = \<lparr>rb_incident_id = ''i'', rb_tracking_key = ''k'', rb_blocked_at = 5, rb_reason_id = None,
     rb_source_attempt_id = 1, rb_last_exact_observed_at = None, rb_absence_since = None\<rparr>"

definition expired_event :: event_row where
  "expired_event = \<lparr>evt_id = 1, evt_incident_id = ''i'', evt_first_occurred_at = 5, evt_occurred_at = 5, evt_observation_count = 1,
     evt_kind = ''cleanup'', evt_state = ''FAILED'',
     evt_payload = CleanupPayload (recovered_receipt expired_attempt ''cleanup.interrupted_before_signal'' [] []),
     evt_attempt_id = Some 1\<rparr>"

definition expired_impact :: impact_row where
  "expired_impact = \<lparr>im_id = 1, im_attempt_id = 1, im_event_id = 1, im_incident_id = ''i'', im_family = ''f'', im_family_version = ''1'',
     im_occurred_at = 5, im_state = ''FAILED'', im_process_outcome = ''failed'', im_artifact_outcome = ''not_applicable'',
     im_overall_outcome = ''failed'', im_process_count = None, im_estimated_memory = None, im_revival_checks = 0\<rparr>"

definition expired_store :: store where
  "expired_store = empty_store\<lparr>t_attempts := [expired_attempt], t_retry_blocks := [expired_block], t_events := [expired_event],
     t_event_tokens := [(1, ''t'')], t_impacts := [expired_impact]\<rparr>"

lemmas expired_defs = expired_store_def expired_block_def expired_event_def expired_attempt_def expired_impact_def empty_store_def

lemma expired_store_readable: "\<exists>r. project_attention 16 expired_store = Inr r"
  by (simp add: project_attention_def max_attention_summaries_def db_ops expired_defs joined_blocks_def blocked_cleanup_def parse_state_def
      block_events_def newest_first_def parse_nonnegative_millis_def parse_optional_millis_def)

lemma expired_store_joined: "joined_blocks expired_store = [(expired_block, expired_attempt)]"
  by (simp add: joined_blocks_def expired_store_def) (simp add: expired_defs)

lemma expired_fields:
  "\<not> is_observation expired_event" "evt_kind expired_event = ''cleanup''" "evt_occurred_at expired_event = 5" "evt_id expired_event = 1"
  "im_occurred_at expired_impact = 5" "im_event_id expired_impact = 1"
  by (simp_all add: is_observation_def expired_event_def expired_impact_def)

lemma expired_events: "prune_events 6 6 n expired_store =
    Inr ((), expired_store\<lparr>t_events := [], t_event_tokens := [], t_impacts := []\<rparr>)"
  by (simp add: prune_events_def delete_events_def db_ops expired_store_def delete_where_def expired_fields del: set_filter)

lemma expired_store_pruned: "\<exists>r. prune 1209600006 default_retention_policy expired_store = Inr r"
  by (simp add: prune_def prune_receipts_def prune_attempts_def db_ops i64_cutoff_def i64_try_from_def sqlite_millis_def
        default_retention_policy_def cleanup_detail_retention_millis_def saturating_sub_def expired_events)
     (simp add: expired_store_def empty_store_def)

theorem expired_block_hides_status_witness:
  "(\<exists>r. project_attention 16 expired_store = Inr r) \<and>
   (\<exists>r s' e. prune 1209600006 default_retention_policy expired_store = Inr (r, s') \<and>
      project_attention 16 s' = Inl e)"
proof
  show "\<exists>r. project_attention 16 expired_store = Inr r" by (rule expired_store_readable)
  obtain r s' where run: "prune 1209600006 default_retention_policy expired_store = Inr (r, s')"
    using expired_store_pruned by (auto simp: split_paired_Ex)
  have cutoff: "cleanup_cutoff_of 1209600006 default_retention_policy = 6"
    by (simp add: cleanup_cutoff_of_def default_retention_policy_def cleanup_detail_retention_millis_def saturating_sub_def)
  have "\<exists>e. project_attention 16 s' = Inl e"
    using expired_block_hides_status [OF _ _ run, of expired_block expired_attempt 16]
    by (simp add: listed_blocks_def expired_store_joined cutoff max_attention_summaries_def) (simp add: expired_defs)
  with run show "\<exists>r s' e. prune 1209600006 default_retention_policy expired_store = Inr (r, s') \<and>
      project_attention 16 s' = Inl e" by blast
qed

end
