(* ===== verification/Store_Leases.thy ===== *)
theory Store_Leases
  imports Store_Protections
begin

text \<open>
  The two ownership lanes of the store: tasks (\<open>crates/unlinger-daemon/src/store/tasks.rs\<close>) and host-declared owners of
  ordinary sessions (\<open>store/session_owners.rs\<close>). A row is reserved by a registrar, activated once by an owner, released once,
  and the controllers that a scan admits are bound to it. JSON columns hold the values that they encode.
\<close>

definition saturating_mul :: "u64 \<Rightarrow> u64 \<Rightarrow> u64" where
  "saturating_mul a b = (if unat a * unat b < 2 ^ 64 then a * b else - 1)"

definition random_token :: "string db" where
  "random_token =
     db_bind (db_read (\<lambda>s. t_random s (t_draws s))) (\<lambda>token.
     db_bind (db_write (\<lambda>s. s\<lparr>t_draws := Suc (t_draws s)\<rparr>)) (\<lambda>_.
     db_return token))"

definition lease_retention_millis :: u64 where
  "lease_retention_millis = 14 * 24 * 60 * 60 * 1000"

definition retention_cutoff_micros :: "snapshot \<Rightarrow> u64" where
  "retention_cutoff_micros snapshot =
     saturating_mul (saturating_sub (observed_at_unix_millis snapshot) lease_retention_millis) 1000"

text \<open>The identity key and the incident of a controller.\<close>

definition controller_incident_id :: "process_record \<Rightarrow> string" where
  "controller_incident_id p =
     ''inc-'' @ fingerprint_parts [''playwright:'' @ dec_string (unat (process_pid p)) @ '':'' @
       fingerprint_process_identity (identity p)]"

datatype task_phase = TaskReserved | TaskActive | TaskReleased

definition task_phase_of :: "int option \<Rightarrow> int option \<Rightarrow> task_phase" where
  "task_phase_of activated released =
     (if released \<noteq> None then TaskReleased else if activated \<noteq> None then TaskActive else TaskReserved)"

section \<open>Tasks\<close>

record task_lease =
  tl_task_id :: string
  tl_session_name :: string
  tl_capability :: string

record task_status =
  tq_task_id :: string
  tq_session_name :: string
  tq_phase :: task_phase
  tq_release_reason :: "string option"
  tq_incident_ids :: "string list"

record task_scope =
  tk_task_id :: string
  tk_registrar :: task_owner_identity
  tk_owner :: "task_owner_identity option"
  tk_activated_at_us :: "u64 option"
  tk_released_at_us :: "u64 option"

definition task_check :: "task_scope_row \<Rightarrow> bool" where
  "task_check r \<longleftrightarrow> length (ts_task_id r) = 32 \<and> length (ts_capability r) = 32"

definition tasks_ok :: "store \<Rightarrow> bool" where
  "tasks_ok s \<longleftrightarrow> list_all task_check (t_tasks s) \<and> distinct (map ts_task_id (t_tasks s))"

definition task_controllers_ok :: "store \<Rightarrow> bool" where
  "task_controllers_ok s \<longleftrightarrow> distinct (map tc_identity_key (t_task_controllers s))
     \<and> list_all (\<lambda>c. tc_task_id c \<in> set (map ts_task_id (t_tasks s))) (t_task_controllers s)"

definition find_task :: "string \<Rightarrow> store \<Rightarrow> task_scope_row option" where
  "find_task task_id s = find (\<lambda>r. ts_task_id r = task_id) (t_tasks s)"

definition new_task :: "string \<Rightarrow> string \<Rightarrow> task_owner_identity \<Rightarrow> int \<Rightarrow> task_scope_row" where
  "new_task task_id capability registrar created_at =
     \<lparr>ts_task_id = task_id, ts_capability = capability, ts_registrar = registrar, ts_owner = None, ts_created_at = created_at,
      ts_activated_at = None, ts_released_at = None, ts_release_reason = None\<rparr>"

definition reserve_task :: "string \<Rightarrow> task_owner_identity \<Rightarrow> u64 \<Rightarrow> task_lease db" where
  "reserve_task task_id registrar now =
     (if \<not> valid_task_id task_id then db_fail (Invalid ''invalid task identifier'')
      else
        db_bind (db_read (find_task task_id)) (\<lambda>existing.
        db_bind
          (case existing of
             Some row \<Rightarrow>
               db_bind (db_require (ts_registrar row = registrar) (Invalid ''task belongs to another registrar'')) (\<lambda>_.
               db_return (ts_capability row))
           | None \<Rightarrow>
               db_bind (db_read (\<lambda>s. length (t_tasks s))) (\<lambda>count.
               db_bind (db_require (count < 4096) (Invalid ''task registry capacity reached'')) (\<lambda>_.
               db_bind random_token (\<lambda>capability.
               db_bind (db_lift (sqlite_millis now ''task creation'')) (\<lambda>created_at.
               db_bind (db_constrained tasks_ok (\<lambda>s. s\<lparr>t_tasks := t_tasks s @
                 [new_task task_id capability registrar created_at]\<rparr>)) (\<lambda>_.
               db_return capability)))))) (\<lambda>capability.
        db_return \<lparr>tl_task_id = task_id, tl_session_name = session_name_from_id task_id, tl_capability = capability\<rparr>)))"

definition task_scope_of_row :: "task_scope_row \<Rightarrow> task_scope db" where
  "task_scope_of_row row =
     db_bind (db_lift (parse_optional_millis (ts_activated_at row) ''task activation'')) (\<lambda>activated.
     db_bind (db_lift (parse_optional_millis (ts_released_at row) ''task release'')) (\<lambda>released.
     db_return \<lparr>tk_task_id = ts_task_id row, tk_registrar = ts_registrar row, tk_owner = ts_owner row,
       tk_activated_at_us = activated, tk_released_at_us = released\<rparr>))"

definition task_scopes :: "task_scope list db" where
  "task_scopes = db_bind (db_read t_tasks) (db_map task_scope_of_row)"

definition authorize_task :: "string \<Rightarrow> string \<Rightarrow> task_scope db" where
  "authorize_task task_id capability =
     db_bind (db_read (\<lambda>s. list_ex (\<lambda>r. ts_task_id r = task_id \<and> ts_capability r = capability) (t_tasks s))) (\<lambda>found.
     db_bind (db_require found (Invalid ''task capability does not match'')) (\<lambda>_.
     db_bind task_scopes (\<lambda>scopes.
     case find (\<lambda>scope. tk_task_id scope = task_id) scopes of
       None \<Rightarrow> db_fail (Invalid ''task is unavailable'')
     | Some scope \<Rightarrow> db_return scope)))"

definition activate_task :: "string \<Rightarrow> task_owner_identity \<Rightarrow> u64 \<Rightarrow> unit db" where
  "activate_task task_id owner now =
     db_bind (db_read (find_task task_id)) (\<lambda>found.
     case found of
       None \<Rightarrow> db_fail (Sqlite ''Query returned no rows'')
     | Some row \<Rightarrow>
         db_bind (db_require (ts_released_at row = None) (Invalid ''released tasks cannot be activated'')) (\<lambda>_.
         case ts_owner row of
           Some prior \<Rightarrow> db_require (prior = owner) (Invalid ''task command owner cannot be replaced'')
         | None \<Rightarrow>
             db_bind (db_lift (sqlite_u64 (saturating_mul now 1000) ''task activation'')) (\<lambda>activated.
             db_write (\<lambda>s. s\<lparr>t_tasks := update_where (\<lambda>r. ts_task_id r = task_id)
               (\<lambda>r. r\<lparr>ts_owner := Some owner, ts_activated_at := Some activated\<rparr>) (t_tasks s)\<rparr>))))"

definition release_task :: "string \<Rightarrow> u64 \<Rightarrow> string \<Rightarrow> task_owner_identity option \<Rightarrow> unit db" where
  "release_task task_id now reason owner =
     db_bind (db_lift (sqlite_u64 (saturating_mul (saturating_add now 1) 1000) ''task release'')) (\<lambda>released.
     db_write (\<lambda>s. s\<lparr>t_tasks := update_where
       (\<lambda>r. ts_task_id r = task_id \<and> ts_released_at r = None \<and> ts_owner r = owner)
       (\<lambda>r. r\<lparr>ts_released_at := Some released, ts_release_reason := Some reason\<rparr>) (t_tasks s)\<rparr>))"

text \<open>The scope that admits a process as controller: the first one with the identifier of its session name, if that scope is
  active and the process is of the registrar's user, was born in the window of the scope and has an exact identity.\<close>

definition born_within :: "u64 \<Rightarrow> u64 option \<Rightarrow> u64 \<Rightarrow> bool" where
  "born_within activated released birth \<longleftrightarrow>
     \<not> birth < activated \<and> (case released of None \<Rightarrow> True | Some cutoff \<Rightarrow> \<not> cutoff < birth)"

definition task_admitting :: "task_scope list \<Rightarrow> process_record \<Rightarrow> task_scope option" where
  "task_admitting scopes process =
     (case playwright_cli (runtime process) of
        None \<Rightarrow> None
      | Some cli \<Rightarrow>
          (case task_id_from_session (cli_session_name cli) of
             None \<Rightarrow> None
           | Some task_id \<Rightarrow>
               (case find (\<lambda>scope. tk_task_id scope = task_id) scopes of
                  None \<Rightarrow> None
                | Some scope \<Rightarrow>
                    (case tk_activated_at_us scope of
                       None \<Rightarrow> None
                     | Some activated \<Rightarrow>
                         if uid process \<noteq> owner_uid (tk_registrar scope)
                           \<or> \<not> born_within activated (tk_released_at_us scope) (started_at_unix_micros (identity process))
                           \<or> \<not> exact_match (identity process) (identity process)
                         then None else Some scope))))"

definition bind_task_controller :: "task_scope list \<Rightarrow> process_record \<Rightarrow> unit db" where
  "bind_task_controller scopes process =
     (case task_admitting scopes process of
        None \<Rightarrow> db_return ()
      | Some scope \<Rightarrow>
          db_bind (db_read (\<lambda>s. fingerprint_process_identity (identity process) \<in> set (map tc_identity_key (t_task_controllers s)))) (\<lambda>known.
          if known then db_return ()
          else db_constrained task_controllers_ok (\<lambda>s. s\<lparr>t_task_controllers := t_task_controllers s @
            [\<lparr>tc_identity_key = fingerprint_process_identity (identity process), tc_task_id = tk_task_id scope,
              tc_identity = identity process, tc_incident_id = controller_incident_id process\<rparr>]\<rparr>)))"

definition task_controller_bindings :: "task_controller_binding list db" where
  "task_controller_bindings = db_read (\<lambda>s. concat (map (\<lambda>c.
     map (\<lambda>r. \<lparr>tb_task_id = tc_task_id c, tb_controller = tc_identity c, tb_released = (ts_released_at r \<noteq> None)\<rparr>)
       (filter (\<lambda>r. ts_task_id r = tc_task_id c) (t_tasks s))) (t_task_controllers s)))"

definition task_observed :: "task_controller_binding list \<Rightarrow> snapshot \<Rightarrow> string \<Rightarrow> bool" where
  "task_observed bindings snapshot task_id =
     list_ex (\<lambda>process. Option.bind (task_session_name (runtime process)) task_id_from_session = Some task_id
       \<or> list_ex (\<lambda>b. tb_task_id b = task_id \<and> exact_match (tb_controller b) (identity process)) bindings)
       (processes snapshot)"

definition released_before :: "u64 \<Rightarrow> u64 option \<Rightarrow> bool" where
  "released_before cutoff released = (case released of None \<Rightarrow> False | Some r \<Rightarrow> r < cutoff)"

text \<open>Deleting a scope deletes its controllers (\<open>ON DELETE CASCADE\<close>).\<close>

definition delete_task :: "string \<Rightarrow> unit db" where
  "delete_task task_id = db_write (\<lambda>s. s\<lparr>t_tasks := delete_where (\<lambda>r. ts_task_id r = task_id) (t_tasks s),
     t_task_controllers := delete_where (\<lambda>c. tc_task_id c = task_id) (t_task_controllers s)\<rparr>)"

definition retire_task :: "task_controller_binding list \<Rightarrow> snapshot \<Rightarrow> task_scope \<Rightarrow> unit db" where
  "retire_task bindings snapshot scope =
     (if released_before (retention_cutoff_micros snapshot) (tk_released_at_us scope)
         \<and> \<not> task_observed bindings snapshot (tk_task_id scope)
      then delete_task (tk_task_id scope) else db_return ())"

definition bind_task_controllers :: "snapshot \<Rightarrow> unit db" where
  "bind_task_controllers snapshot =
     db_bind task_scopes (\<lambda>scopes.
     db_bind (db_each (bind_task_controller scopes) (processes snapshot)) (\<lambda>_.
     if proves_complete_exact_identity_coverage snapshot
     then db_bind task_controller_bindings (\<lambda>bindings. db_each (retire_task bindings snapshot) scopes)
     else db_return ()))"

definition read_task_status :: "string \<Rightarrow> task_status option db" where
  "read_task_status task_id = db_read (\<lambda>s.
     case find_task task_id s of
       None \<Rightarrow> None
     | Some row \<Rightarrow> Some \<lparr>tq_task_id = task_id, tq_session_name = session_name_from_id task_id,
         tq_phase = task_phase_of (ts_activated_at row) (ts_released_at row), tq_release_reason = ts_release_reason row,
         tq_incident_ids = sort (map tc_incident_id (filter (\<lambda>c. tc_task_id c = task_id) (t_task_controllers s)))\<rparr>)"


section \<open>Owners of ordinary sessions\<close>

record session_owner_lease =
  ol_lease_id :: string
  ol_session_name :: string
  ol_selector_fingerprint :: string
  ol_generation :: u64
  ol_capability :: string

record session_owner_status =
  oq_lease_id :: string
  oq_session_name :: string
  oq_selector_fingerprint :: string
  oq_generation :: u64
  oq_controller_version :: string
  oq_phase :: task_phase
  oq_release_reason :: "string option"
  oq_controller_bound :: bool
  oq_incident_ids :: "string list"

record session_owner_scope =
  os_lease_id :: string
  os_selector_fingerprint :: string
  os_session_name :: string
  os_controller_version :: string
  os_generation :: u64
  os_registrar :: task_owner_identity
  os_owner :: "task_owner_identity option"
  os_activated_at_us :: "u64 option"
  os_released_at_us :: "u64 option"

definition max_session_owner_leases :: nat where
  "max_session_owner_leases = 4096"

text \<open>\<open>u64::try_from(generation).unwrap_or(1)\<close>.\<close>

definition generation_u64 :: "int \<Rightarrow> u64" where
  "generation_u64 g = (if g < 0 then 1 else word_of_int g)"

definition lease_check :: "lease_row \<Rightarrow> bool" where
  "lease_check r \<longleftrightarrow> length (le_lease_id r) = 32 \<and> length (le_capability r) = 32
     \<and> length (le_selector_fingerprint r) = 16 \<and> length (le_session_name r) \<in> {1..64}
     \<and> length (le_controller_version r) \<in> {1..64} \<and> 1 \<le> le_generation r"

definition leases_ok :: "store \<Rightarrow> bool" where
  "leases_ok s \<longleftrightarrow> list_all lease_check (t_leases s) \<and> distinct (map le_lease_id (t_leases s))
     \<and> distinct (map (\<lambda>r. (le_selector_fingerprint r, le_generation r)) (t_leases s))"

definition lease_controllers_ok :: "store \<Rightarrow> bool" where
  "lease_controllers_ok s \<longleftrightarrow> distinct (map lc_identity_key (t_lease_controllers s))
     \<and> list_all (\<lambda>c. lc_lease_id c \<in> set (map le_lease_id (t_leases s))) (t_lease_controllers s)"

definition find_lease :: "string \<Rightarrow> store \<Rightarrow> lease_row option" where
  "find_lease lease_id s = find (\<lambda>r. le_lease_id r = lease_id) (t_leases s)"

definition active_lease :: "string \<Rightarrow> store \<Rightarrow> lease_row option" where
  "active_lease selector s =
     (case rev (sort_key le_generation (filter (\<lambda>r. le_selector_fingerprint r = selector \<and> le_released_at r = None) (t_leases s))) of
        [] \<Rightarrow> None
      | r # _ \<Rightarrow> Some r)"

definition next_generation :: "string \<Rightarrow> store \<Rightarrow> int" where
  "next_generation selector s =
     (case map le_generation (filter (\<lambda>r. le_selector_fingerprint r = selector) (t_leases s)) of
        [] \<Rightarrow> 0
      | g # gs \<Rightarrow> fold max gs g) + 1"

definition lease_view :: "string \<Rightarrow> string \<Rightarrow> string \<Rightarrow> int \<Rightarrow> string \<Rightarrow> session_owner_lease" where
  "lease_view lease_id session_name selector generation capability =
     \<lparr>ol_lease_id = lease_id, ol_session_name = session_name, ol_selector_fingerprint = selector,
      ol_generation = generation_u64 generation, ol_capability = capability\<rparr>"

definition rejoin_lease :: "string \<Rightarrow> string \<Rightarrow> string \<Rightarrow> task_owner_identity \<Rightarrow> lease_row \<Rightarrow> session_owner_lease db" where
  "rejoin_lease selector session_name controller_version registrar row =
     db_bind (db_require (le_registrar row = registrar) (Invalid ''session owner belongs to another registrar'')) (\<lambda>_.
     db_bind (db_require (le_session_name row = session_name \<and> le_controller_version row = controller_version)
       (Invalid ''active session-owner selector facts cannot be replaced'')) (\<lambda>_.
     db_bind (db_read (find_lease (le_lease_id row))) (\<lambda>stored.
     case stored of
       None \<Rightarrow> db_fail (Sqlite ''Query returned no rows'')
     | Some found \<Rightarrow>
         db_bind (db_require (le_session_name found = session_name \<and> le_controller_version found = controller_version)
           (Invalid ''session owner is already declared with different selector facts'')) (\<lambda>_.
         db_return (lease_view (le_lease_id row) session_name selector (le_generation row) (le_capability row))))))"

definition declare_generation :: "string \<Rightarrow> string \<Rightarrow> string \<Rightarrow> task_owner_identity \<Rightarrow> u64 \<Rightarrow> session_owner_lease db" where
  "declare_generation selector session_name controller_version registrar now =
     db_bind (db_read (\<lambda>s. length (t_leases s))) (\<lambda>count.
     db_bind (db_require (count < max_session_owner_leases) (Invalid ''session-owner registry capacity reached'')) (\<lambda>_.
     db_bind (db_read (next_generation selector)) (\<lambda>generation.
     db_bind random_token (\<lambda>lease_id.
     db_bind random_token (\<lambda>capability.
     db_bind (db_lift (sqlite_millis now ''session-owner declaration'')) (\<lambda>created_at.
     db_bind (db_constrained leases_ok (\<lambda>s. s\<lparr>t_leases := t_leases s @
       [\<lparr>le_lease_id = lease_id, le_capability = capability, le_selector_fingerprint = selector,
         le_session_name = session_name, le_controller_version = controller_version, le_generation = generation,
         le_registrar = registrar, le_owner = None, le_created_at = created_at, le_activated_at = None,
         le_released_at = None, le_release_reason = None\<rparr>]\<rparr>)) (\<lambda>_.
     db_return (lease_view lease_id session_name selector generation capability))))))))"

definition declare_session_owner ::
    "string \<Rightarrow> string \<Rightarrow> string \<Rightarrow> task_owner_identity \<Rightarrow> u64 \<Rightarrow> session_owner_lease db" where
  "declare_session_owner selector session_name controller_version registrar now =
     (if length selector \<noteq> 16 \<or> \<not> list_all (\<lambda>byte. is_ascii_digit byte \<or> byte_between 97 102 byte) selector
      then db_fail (Invalid ''invalid session-owner selector fingerprint'')
      else if \<not> valid_ordinary_session_name session_name then db_fail (Invalid ''invalid ordinary session name'')
      else if controller_version = [] \<or> length controller_version > 64
      then db_fail (Invalid ''session-owner controller version must be 1..=64 bytes'')
      else
        db_bind (db_read (active_lease selector)) (\<lambda>active.
        case active of
          Some row \<Rightarrow> rejoin_lease selector session_name controller_version registrar row
        | None \<Rightarrow> declare_generation selector session_name controller_version registrar now))"

definition session_owner_scope_of_row :: "lease_row \<Rightarrow> session_owner_scope db" where
  "session_owner_scope_of_row row =
     db_bind (db_lift (parse_optional_millis (le_activated_at row) ''session-owner activation'')) (\<lambda>activated.
     db_bind (db_lift (parse_optional_millis (le_released_at row) ''session-owner release'')) (\<lambda>released.
     db_return \<lparr>os_lease_id = le_lease_id row, os_selector_fingerprint = le_selector_fingerprint row,
       os_session_name = le_session_name row, os_controller_version = le_controller_version row,
       os_generation = generation_u64 (le_generation row), os_registrar = le_registrar row, os_owner = le_owner row,
       os_activated_at_us = activated, os_released_at_us = released\<rparr>))"

definition session_owner_scopes :: "session_owner_scope list db" where
  "session_owner_scopes = db_bind (db_read t_leases) (db_map session_owner_scope_of_row)"

definition authorize_session_owner :: "string \<Rightarrow> string \<Rightarrow> session_owner_scope db" where
  "authorize_session_owner lease_id capability =
     db_bind (db_read (\<lambda>s. list_ex (\<lambda>r. le_lease_id r = lease_id \<and> le_capability r = capability) (t_leases s))) (\<lambda>found.
     db_bind (db_require found (Invalid ''session-owner capability does not match'')) (\<lambda>_.
     db_bind session_owner_scopes (\<lambda>scopes.
     case find (\<lambda>scope. os_lease_id scope = lease_id) scopes of
       None \<Rightarrow> db_fail (Invalid ''session owner is unavailable'')
     | Some scope \<Rightarrow> db_return scope)))"

definition activate_session_owner :: "string \<Rightarrow> task_owner_identity \<Rightarrow> u64 \<Rightarrow> unit db" where
  "activate_session_owner lease_id owner now =
     db_bind (db_read (find_lease lease_id)) (\<lambda>found.
     case found of
       None \<Rightarrow> db_fail (Sqlite ''Query returned no rows'')
     | Some row \<Rightarrow>
         db_bind (db_require (le_released_at row = None) (Invalid ''released session owners cannot be activated'')) (\<lambda>_.
         case le_owner row of
           Some prior \<Rightarrow> db_require (prior = owner) (Invalid ''session owner cannot be replaced'')
         | None \<Rightarrow>
             db_bind (db_lift (sqlite_u64 (saturating_mul now 1000) ''session-owner activation'')) (\<lambda>activated.
             db_write (\<lambda>s. s\<lparr>t_leases := update_where (\<lambda>r. le_lease_id r = lease_id)
               (\<lambda>r. r\<lparr>le_owner := Some owner, le_activated_at := Some activated\<rparr>) (t_leases s)\<rparr>))))"

definition release_session_owner :: "string \<Rightarrow> u64 \<Rightarrow> string \<Rightarrow> task_owner_identity option \<Rightarrow> unit db" where
  "release_session_owner lease_id now reason owner =
     db_bind (db_lift (sqlite_u64 (saturating_mul (saturating_add now 1) 1000) ''session-owner release'')) (\<lambda>released.
     db_write (\<lambda>s. s\<lparr>t_leases := update_where
       (\<lambda>r. le_lease_id r = lease_id \<and> le_released_at r = None \<and> le_owner r = owner)
       (\<lambda>r. r\<lparr>le_released_at := Some released, le_release_reason := Some reason\<rparr>) (t_leases s)\<rparr>))"

text \<open>The scope of the highest generation for each selector.\<close>

definition keep_newest :: "session_owner_scope \<Rightarrow> (string, session_owner_scope) btree \<Rightarrow> (string, session_owner_scope) btree" where
  "keep_newest scope current =
     (case bt_get current (os_selector_fingerprint scope) of
        Some existing \<Rightarrow>
          if os_generation existing < os_generation scope then bt_insert (os_selector_fingerprint scope) scope current else current
      | None \<Rightarrow> bt_insert (os_selector_fingerprint scope) scope current)"

definition current_session_owner_scopes :: "session_owner_scope list db" where
  "current_session_owner_scopes =
     db_bind session_owner_scopes (\<lambda>scopes. db_return (bt_values (fold keep_newest scopes [])))"

definition lease_admitting :: "session_owner_scope list \<Rightarrow> process_record \<Rightarrow> session_owner_scope option" where
  "lease_admitting scopes process =
     (case playwright_cli (runtime process) of
        None \<Rightarrow> None
      | Some cli \<Rightarrow>
          if task_id_from_session (cli_session_name cli) \<noteq> None then None
          else
            (case cli_selector_fingerprint cli of
               None \<Rightarrow> None
             | Some selector \<Rightarrow>
                 (case find (\<lambda>scope. os_selector_fingerprint scope = selector \<and> os_session_name scope = cli_session_name cli
                      \<and> os_controller_version scope = cli_version cli) scopes of
                    None \<Rightarrow> None
                  | Some scope \<Rightarrow>
                      (case os_activated_at_us scope of
                         None \<Rightarrow> None
                       | Some activated \<Rightarrow>
                           if uid process \<noteq> owner_uid (os_registrar scope)
                             \<or> \<not> born_within activated (os_released_at_us scope) (started_at_unix_micros (identity process))
                             \<or> executable_device (identity process) = None \<or> executable_inode (identity process) = None
                           then None else Some scope))))"

definition bind_session_owner_controller :: "session_owner_scope list \<Rightarrow> process_record \<Rightarrow> unit db" where
  "bind_session_owner_controller scopes process =
     (case lease_admitting scopes process of
        None \<Rightarrow> db_return ()
      | Some scope \<Rightarrow>
          db_bind (db_read (\<lambda>s. fingerprint_process_identity (identity process) \<in> set (map lc_identity_key (t_lease_controllers s)))) (\<lambda>known.
          if known then db_return ()
          else db_constrained lease_controllers_ok (\<lambda>s. s\<lparr>t_lease_controllers := t_lease_controllers s @
            [\<lparr>lc_identity_key = fingerprint_process_identity (identity process), lc_lease_id = os_lease_id scope,
              lc_identity = identity process, lc_incident_id = controller_incident_id process\<rparr>]\<rparr>)))"

definition selector_observed :: "snapshot \<Rightarrow> string \<Rightarrow> bool" where
  "selector_observed snapshot selector =
     list_ex (\<lambda>process. Option.bind (playwright_cli (runtime process)) cli_selector_fingerprint = Some selector) (processes snapshot)"

definition delete_lease :: "string \<Rightarrow> unit db" where
  "delete_lease lease_id = db_write (\<lambda>s. s\<lparr>t_leases := delete_where (\<lambda>r. le_lease_id r = lease_id) (t_leases s),
     t_lease_controllers := delete_where (\<lambda>c. lc_lease_id c = lease_id) (t_lease_controllers s)\<rparr>)"

definition retire_lease :: "snapshot \<Rightarrow> session_owner_scope \<Rightarrow> unit db" where
  "retire_lease snapshot scope =
     (if released_before (retention_cutoff_micros snapshot) (os_released_at_us scope)
         \<and> \<not> selector_observed snapshot (os_selector_fingerprint scope)
      then delete_lease (os_lease_id scope) else db_return ())"

definition prune_session_owner_leases :: "snapshot \<Rightarrow> unit db" where
  "prune_session_owner_leases snapshot =
     (if \<not> proves_complete_exact_identity_coverage snapshot then db_return ()
      else db_bind session_owner_scopes (db_each (retire_lease snapshot)))"

definition bind_session_owner_controllers :: "snapshot \<Rightarrow> unit db" where
  "bind_session_owner_controllers snapshot =
     db_bind current_session_owner_scopes (\<lambda>scopes.
     db_bind (db_each (bind_session_owner_controller scopes) (processes snapshot)) (\<lambda>_.
     prune_session_owner_leases snapshot))"

definition session_owner_binding_of :: "session_owner_scope \<Rightarrow> lease_controller_row \<Rightarrow> session_owner_binding" where
  "session_owner_binding_of scope c =
     \<lparr>sb_lease_id = lc_lease_id c, sb_selector_fingerprint = os_selector_fingerprint scope, sb_session_name = os_session_name scope,
      sb_controller_version = os_controller_version scope, sb_controller = lc_identity c,
      sb_released = (os_released_at_us scope \<noteq> None)\<rparr>"

definition session_owner_bindings :: "session_owner_binding list db" where
  "session_owner_bindings =
     db_bind current_session_owner_scopes (\<lambda>scopes.
     let current = bt_of_list (map (\<lambda>scope. (os_lease_id scope, scope)) scopes)
     in db_read (\<lambda>s. List.map_filter
          (\<lambda>c. map_option (\<lambda>scope. session_owner_binding_of scope c) (bt_get current (lc_lease_id c)))
          (sort_key lc_lease_id (t_lease_controllers s))))"

definition read_session_owner_status :: "string \<Rightarrow> session_owner_status option db" where
  "read_session_owner_status lease_id = db_read (\<lambda>s.
     case find_lease lease_id s of
       None \<Rightarrow> None
     | Some row \<Rightarrow>
         let incident_ids = sort (map lc_incident_id (filter (\<lambda>c. lc_lease_id c = lease_id) (t_lease_controllers s)))
         in Some \<lparr>oq_lease_id = lease_id, oq_session_name = le_session_name row,
              oq_selector_fingerprint = le_selector_fingerprint row, oq_generation = generation_u64 (le_generation row),
              oq_controller_version = le_controller_version row,
              oq_phase = task_phase_of (le_activated_at row) (le_released_at row), oq_release_reason = le_release_reason row,
              oq_controller_bound = (incident_ids \<noteq> []), oq_incident_ids = incident_ids\<rparr>)"

end
