(* ===== verification/Store_Lanes.thy ===== *)
theory Store_Lanes
  imports Store_Leases
begin

text \<open>
  What the two ownership lanes promise, stated once for both: the terms of a lease never change once they are fixed, a row goes only
  after its release and retention, and every binding that a reader gets was admitted from an observed process.
\<close>

section \<open>Commands\<close>

datatype ownership_command =
    ReserveTask string task_owner_identity u64
  | ActivateTask string task_owner_identity u64
  | ReleaseTask string u64 string "task_owner_identity option"
  | BindTasks snapshot
  | DeclareOwner string string string task_owner_identity u64
  | ActivateOwner string task_owner_identity u64
  | ReleaseOwner string u64 string "task_owner_identity option"
  | BindOwners snapshot

fun run_ownership :: "ownership_command \<Rightarrow> unit db" where
  "run_ownership (ReserveTask task_id registrar now) = db_bind (reserve_task task_id registrar now) (\<lambda>_. db_return ())"
| "run_ownership (ActivateTask task_id owner now) = activate_task task_id owner now"
| "run_ownership (ReleaseTask task_id now reason owner) = release_task task_id now reason owner"
| "run_ownership (BindTasks snapshot) = bind_task_controllers snapshot"
| "run_ownership (DeclareOwner selector name version registrar now) =
     db_bind (declare_session_owner selector name version registrar now) (\<lambda>_. db_return ())"
| "run_ownership (ActivateOwner lease_id owner now) = activate_session_owner lease_id owner now"
| "run_ownership (ReleaseOwner lease_id now reason owner) = release_session_owner lease_id now reason owner"
| "run_ownership (BindOwners snapshot) = bind_session_owner_controllers snapshot"

definition ownership_apply :: "ownership_command \<Rightarrow> store \<Rightarrow> store" where
  "ownership_apply c s = (case run_ownership c s of Inl e \<Rightarrow> s | Inr (x, s') \<Rightarrow> s')"

definition ownership_history :: "ownership_command list \<Rightarrow> store \<Rightarrow> store" where
  "ownership_history cs s = fold ownership_apply cs s"

section \<open>The terms of a lease\<close>

record 'f terms =
  lt_facts :: 'f
  lt_owner :: "task_owner_identity option"
  lt_activated :: "int option"
  lt_released :: "int option"
  lt_reason :: "string option"

definition task_terms :: "task_scope_row \<Rightarrow> (string \<times> string \<times> task_owner_identity \<times> int) terms" where
  "task_terms r = \<lparr>lt_facts = (ts_task_id r, ts_capability r, ts_registrar r, ts_created_at r), lt_owner = ts_owner r,
     lt_activated = ts_activated_at r, lt_released = ts_released_at r, lt_reason = ts_release_reason r\<rparr>"

definition owner_terms ::
    "lease_row \<Rightarrow> (string \<times> string \<times> string \<times> string \<times> string \<times> int \<times> task_owner_identity \<times> int) terms" where
  "owner_terms r = \<lparr>lt_facts = (le_lease_id r, le_capability r, le_selector_fingerprint r, le_session_name r,
       le_controller_version r, le_generation r, le_registrar r, le_created_at r), lt_owner = le_owner r,
     lt_activated = le_activated_at r, lt_released = le_released_at r, lt_reason = le_release_reason r\<rparr>"

text \<open>What may become of a lease: its facts stay, an owner and an activation stay once they are set, and nothing changes after the release.\<close>

definition progressed :: "'f terms \<Rightarrow> 'f terms \<Rightarrow> bool" where
  "progressed v w \<longleftrightarrow> lt_facts w = lt_facts v
     \<and> (lt_owner v \<noteq> None \<or> lt_activated v \<noteq> None \<longrightarrow> lt_owner w = lt_owner v \<and> lt_activated w = lt_activated v)
     \<and> (lt_released v \<noteq> None \<longrightarrow> w = v)"

lemma progressed_refl: "progressed v v"
  by (simp add: progressed_def)

lemma progressed_trans: "progressed u v \<Longrightarrow> progressed v w \<Longrightarrow> progressed u w"
  by (auto simp: progressed_def)

text \<open>The invariant of a lane and one step of it, over the terms and bindings that a store shows: \<open>key\<close> reads the identifier of a row.\<close>

definition lane_ok :: "('f \<Rightarrow> string) \<Rightarrow> 'f terms list \<Rightarrow> bool" where
  "lane_ok key rows \<longleftrightarrow> distinct (map (\<lambda>v. key (lt_facts v)) rows)
     \<and> list_all (\<lambda>v. lt_owner v = None \<longleftrightarrow> lt_activated v = None) rows"

text \<open>Some rows of a lane are gone, each of them retired and without a binding.\<close>

definition lane_left ::
    "('f \<Rightarrow> string) \<Rightarrow> ('f terms \<Rightarrow> bool) \<Rightarrow> 'f terms list \<Rightarrow> 'f terms list \<Rightarrow> (string \<times> 'i) list \<Rightarrow> bool" where
  "lane_left key retires before rows bound \<longleftrightarrow> set rows \<subseteq> set before \<and> lane_ok key rows
     \<and> (\<forall>v\<in>set before. v \<in> set rows \<or> retires v \<and> key (lt_facts v) \<notin> fst ` set bound)"

lemma lane_ok_delete: "lane_ok key rows \<Longrightarrow> lane_ok key (filter P rows)"
  by (auto simp: lane_ok_def list_all_iff distinct_map_filter)

lemma lane_left_delete:
  assumes "lane_left key retires before rows bound" "\<And>v. v \<in> set before \<Longrightarrow> key (lt_facts v) = k \<Longrightarrow> retires v"
  shows "lane_left key retires before (filter (\<lambda>v. key (lt_facts v) \<noteq> k) rows) (filter (\<lambda>b. fst b \<noteq> k) bound)"
proof -
  have "v \<in> set (filter (\<lambda>v. key (lt_facts v) \<noteq> k) rows) \<or>
      retires v \<and> key (lt_facts v) \<notin> fst ` set (filter (\<lambda>b. fst b \<noteq> k) bound)" if v: "v \<in> set before" for v
  proof (cases "key (lt_facts v) = k")
    case True
    then show ?thesis using assms(2) v by auto
  next
    case False
    then show ?thesis using assms(1) v unfolding lane_left_def by fastforce
  qed
  then show ?thesis using assms(1) by (auto simp: lane_left_def lane_ok_delete)
qed

lemma lane_update:
  assumes "list_all2 (\<lambda>v w. progressed v w \<and> (lt_owner w = None \<longleftrightarrow> lt_activated w = None)) rows rows'" "lane_ok key rows"
  shows "lane_ok key rows'" "v \<in> set rows \<Longrightarrow> \<exists>w\<in>set rows'. progressed v w"
proof -
  have "map (\<lambda>v. key (lt_facts v)) rows' = map (\<lambda>v. key (lt_facts v)) rows \<and>
      list_all (\<lambda>w. lt_owner w = None \<longleftrightarrow> lt_activated w = None) rows'"
    using assms(1) by (induction rule: list_all2_induct) (simp_all add: progressed_def)
  then show "lane_ok key rows'" using assms(2) by (simp add: lane_ok_def)
  show "\<exists>w\<in>set rows'. progressed v w" if "v \<in> set rows"
    using assms(1) that by (induction rule: list_all2_induct) auto
qed

text \<open>One step: the terms of each row only progress unless the row is retired together with its bindings, and each new binding is admitted.\<close>

definition lane_step where
  "lane_step key retires admits rows bound rows' bound' \<longleftrightarrow> lane_ok key rows'
     \<and> (\<forall>v\<in>set rows. (\<exists>w\<in>set rows'. progressed v w) \<or> retires v \<and> key (lt_facts v) \<notin> fst ` set bound')
     \<and> (\<forall>b\<in>set bound'. b \<in> set bound \<or> (\<exists>v\<in>set rows. key (lt_facts v) = fst b \<and> admits v (snd b)))"

lemma lane_step_grow: "lane_ok key rows' \<Longrightarrow> set rows \<subseteq> set rows' \<Longrightarrow> lane_step key retires admits rows bound rows' bound"
  using progressed_refl by (fastforce simp: lane_step_def)

lemma lane_step_update:
  "list_all2 (\<lambda>v w. progressed v w \<and> (lt_owner w = None \<longleftrightarrow> lt_activated w = None)) rows rows' \<Longrightarrow> lane_ok key rows \<Longrightarrow>
     lane_step key retires admits rows bound rows' bound"
  unfolding lane_step_def using lane_update by blast

lemma lane_step_left:
  "lane_left key retires rows rows' bound' \<Longrightarrow>
     (\<And>b. b \<in> set bound' \<Longrightarrow> b \<in> set bound \<or> (\<exists>v\<in>set rows. key (lt_facts v) = fst b \<and> admits v (snd b))) \<Longrightarrow>
     lane_step key retires admits rows bound rows' bound'"
  using progressed_refl unfolding lane_step_def lane_left_def by blast

locale ownership_lane =
  fixes rows :: "store \<Rightarrow> 'f terms list"
    and bound :: "store \<Rightarrow> (string \<times> process_identity) list"
    and key :: "'f \<Rightarrow> string"
    and retires :: "ownership_command \<Rightarrow> 'f terms \<Rightarrow> bool"
    and admits :: "ownership_command \<Rightarrow> 'f terms \<Rightarrow> process_identity \<Rightarrow> bool"
  assumes step: "lane_ok key (rows s) \<Longrightarrow> run_ownership c s = Inr (x, s') \<Longrightarrow>
      lane_step key (retires c) (admits c) (rows s) (bound s) (rows s') (bound s')"
    and admits_kept: "admits c v i \<Longrightarrow> progressed v w \<Longrightarrow> admits c w i"
begin

lemma apply_step:
  "lane_ok key (rows s) \<Longrightarrow>
     lane_step key (retires c) (admits c) (rows s) (bound s) (rows (ownership_apply c s)) (bound (ownership_apply c s))"
  using step [of s c] lane_step_grow [of key "rows s" "rows s"] by (cases "run_ownership c s") (auto simp: ownership_apply_def)

lemma apply_terms:
  "lane_ok key (rows s) \<Longrightarrow> v \<in> set (rows s) \<Longrightarrow> (\<exists>w\<in>set (rows (ownership_apply c s)). progressed v w) \<or> retires c v"
  using apply_step [of s c] by (auto simp: lane_step_def)

lemma apply_ok: "lane_ok key (rows s) \<Longrightarrow> lane_ok key (rows (ownership_apply c s))"
  using apply_step [of s c] by (simp add: lane_step_def)

lemma history_terms:
  assumes "lane_ok key (rows s)" "v \<in> set (rows s)"
  shows "(\<exists>w\<in>set (rows (ownership_history cs s)). progressed v w)
    \<or> (\<exists>before c after. cs = before @ c # after \<and> (\<exists>w\<in>set (rows (ownership_history before s)). progressed v w \<and> retires c w))"
  using assms
proof (induction cs arbitrary: s v)
  case Nil
  then show ?case using progressed_refl by (auto simp: ownership_history_def)
next
  case (Cons c cs)
  from apply_terms [OF Cons.prems, of c] show ?case
  proof
    assume "\<exists>w\<in>set (rows (ownership_apply c s)). progressed v w"
    then obtain w where w: "w \<in> set (rows (ownership_apply c s))" "progressed v w" by blast
    have step: "ownership_history (c # ds) s = ownership_history ds (ownership_apply c s)" for ds by (simp add: ownership_history_def)
    from Cons.IH [OF apply_ok [OF Cons.prems(1)] w(1)] show ?thesis
    proof (elim disjE exE conjE)
      fix before d after assume "cs = before @ d # after"
        "\<exists>u\<in>set (rows (ownership_history before (ownership_apply c s))). progressed w u \<and> retires d u"
      then have "c # cs = (c # before) @ d # after"
        "\<exists>u\<in>set (rows (ownership_history (c # before) s)). progressed v u \<and> retires d u"
        using progressed_trans [OF w(2)] by (auto simp: step)
      then show ?thesis by blast
    qed (use progressed_trans [OF w(2)] in \<open>auto simp: step\<close>)
  next
    assume "retires c v"
    then have "c # cs = [] @ c # cs" "\<exists>w\<in>set (rows (ownership_history [] s)). progressed v w \<and> retires c w"
      using progressed_refl [of v] Cons.prems(2) by (auto simp: ownership_history_def)
    then show ?thesis by blast
  qed
qed

definition grounded :: "ownership_command list \<Rightarrow> store \<Rightarrow> bool" where
  "grounded cs s \<longleftrightarrow> (\<forall>b\<in>set (bound s). \<exists>v\<in>set (rows s). key (lt_facts v) = fst b \<and> (\<exists>c\<in>set cs. admits c v (snd b)))"

lemma apply_grounded:
  assumes "lane_ok key (rows s)" "grounded cs s"
  shows "grounded (cs @ [c]) (ownership_apply c s)"
  unfolding grounded_def
proof
  fix b assume new: "b \<in> set (bound (ownership_apply c s))"
  obtain v d where v: "v \<in> set (rows s)" "key (lt_facts v) = fst b" "d \<in> set (cs @ [c])" "admits d v (snd b)"
    using apply_step [OF assms(1), of c] assms(2) new unfolding grounded_def lane_step_def by (fastforce simp del: split_paired_Ex)
  then obtain w where w: "w \<in> set (rows (ownership_apply c s))" "progressed v w"
    using apply_step [OF assms(1), of c] new unfolding lane_step_def by (metis imageI)
  then have "key (lt_facts w) = fst b" "admits d w (snd b)" using v(2) admits_kept [OF v(4) w(2)] by (simp_all add: progressed_def)
  with w(1) v(3) show "\<exists>v\<in>set (rows (ownership_apply c s)). key (lt_facts v) = fst b \<and> (\<exists>d\<in>set (cs @ [c]). admits d v (snd b))"
    by blast
qed

lemma history_ok: "lane_ok key (rows s) \<Longrightarrow> lane_ok key (rows (ownership_history cs s))"
  unfolding ownership_history_def by (induction cs arbitrary: s) (simp_all add: apply_ok)

lemma history_grounded:
  assumes "lane_ok key (rows s)" "bound s = []"
  shows "grounded cs (ownership_history cs s)"
proof (induction cs rule: rev_induct)
  case Nil
  then show ?case using assms(2) by (simp add: grounded_def ownership_history_def)
next
  case (snoc c cs)
  from apply_grounded [OF history_ok [OF assms(1)] snoc] show ?case by (simp add: ownership_history_def)
qed

end

end
