(* ===== verification/Store_Ownership.thy ===== *)
theory Store_Ownership
  imports Store_Lanes
begin

text \<open>
  The two ownership lanes of the store, tasks and host-declared session owners, satisfy the contract of
  \<open>Store_Lanes\<close>; what the classification reads from them is grounded in observed processes.
\<close>

section \<open>Both lanes\<close>

lemma keeps_each_in:
  assumes "\<And>x. x \<in> set xs \<Longrightarrow> keeps I (f x)"
  shows "keeps I (db_each f xs)"
  using assms by (induction xs) (simp_all add: keeps_intros keeps_bind)

lemma keeps_scopes: "keeps I task_scopes" "keeps I session_owner_scopes" "keeps I current_session_owner_scopes"
  unfolding task_scopes_def session_owner_scopes_def current_session_owner_scopes_def
  by (intro keeps_bind keeps_intros keeps_db_map; simp add: task_scope_of_row_def session_owner_scope_of_row_def keeps_bind keeps_intros)+

lemma keeps_issued_token: "(\<And>s d. I (s\<lparr>t_draws := d\<rparr>) = I s) \<Longrightarrow> keeps I random_token"
  unfolding random_token_def by (intro keeps_bind keeps_intros keeps_write) simp

text \<open>Commands of one lane leave the tables of the other alone.\<close>

definition owner_tables where
  "owner_tables s = (t_leases s, t_lease_controllers s)"

definition task_tables where
  "task_tables s = (t_tasks s, t_task_controllers s)"

definition task_lane :: "ownership_command \<Rightarrow> bool" where
  "task_lane c = (case c of ReserveTask _ _ _ \<Rightarrow> True | ActivateTask _ _ _ \<Rightarrow> True | ReleaseTask _ _ _ _ \<Rightarrow> True | BindTasks _ \<Rightarrow> True | _ \<Rightarrow> False)"

lemma keeps_each_plain: "(\<And>x. keeps I (f x)) \<Longrightarrow> keeps I (db_each f xs)"
  by (rule keeps_each)

lemmas keeps_ownership = keeps_bind keeps_intros keeps_if keeps_option keeps_issued_token keeps_scopes keeps_each_plain keeps_write keeps_constrained

lemma task_ops_apart:
  "keeps (\<lambda>s. owner_tables s = x) (reserve_task i r now)"
  "keeps (\<lambda>s. owner_tables s = x) (activate_task i own now)"
  "keeps (\<lambda>s. owner_tables s = x) (release_task i now reason own')"
  "keeps (\<lambda>s. owner_tables s = x) (bind_task_controllers snap)"
  unfolding reserve_task_def activate_task_def release_task_def bind_task_controllers_def bind_task_controller_def
    task_controller_bindings_def retire_task_def delete_task_def
  by (intro keeps_ownership; simp add: owner_tables_def)+

lemma owner_ops_apart:
  "keeps (\<lambda>s. task_tables s = x) (declare_session_owner sel name version r now)"
  "keeps (\<lambda>s. task_tables s = x) (activate_session_owner i own now)"
  "keeps (\<lambda>s. task_tables s = x) (release_session_owner i now reason own')"
  "keeps (\<lambda>s. task_tables s = x) (bind_session_owner_controllers snap)"
  unfolding declare_session_owner_def rejoin_lease_def declare_generation_def activate_session_owner_def
      release_session_owner_def bind_session_owner_controllers_def bind_session_owner_controller_def
      prune_session_owner_leases_def retire_lease_def delete_lease_def
  by (intro keeps_ownership; simp add: task_tables_def)+

lemma task_commands_apart: "task_lane c \<Longrightarrow> keeps (\<lambda>s. owner_tables s = x) (run_ownership c)"
  by (cases c) (simp_all add: task_lane_def task_ops_apart keeps_bind keeps_intros)

lemma owner_commands_apart: "\<not> task_lane c \<Longrightarrow> keeps (\<lambda>s. task_tables s = x) (run_ownership c)"
  by (cases c) (simp_all add: task_lane_def owner_ops_apart keeps_bind keeps_intros)


lemma keeps_view: "(\<And>x. keeps (\<lambda>s. f s = x) m) \<Longrightarrow> keeps (\<lambda>s. P (f s)) m"
  unfolding keeps_def by metis

lemma dwp_discard: "dwp (db_bind m (\<lambda>_. db_return ())) (\<lambda>_. Q) s \<longleftrightarrow> dwp m (\<lambda>_. Q) s"
  unfolding dwp_def db_bind_Inr by (auto simp: db_simps)

lemma dwp_db_map:
  assumes "\<And>x s. dwp (f x) (\<lambda>y s'. s' = s \<and> R x y) s"
  shows "dwp (db_map f xs) (\<lambda>ys s'. s' = s \<and> list_all2 R xs ys) s"
proof (induction xs)
  case (Cons x xs)
  show ?case
    by (simp add: dwp_bind) (rule dwp_mono [OF assms], clarsimp simp: dwp_bind, rule dwp_mono [OF Cons.IH], simp add: dwp_return)
qed (simp add: dwp_return)

section \<open>The lane of the tasks\<close>

definition task_rows where
  "task_rows s = map task_terms (t_tasks s)"

definition task_bound :: "store \<Rightarrow> (string \<times> process_identity) list" where
  "task_bound s = map (\<lambda>c. (tc_task_id c, tc_identity c)) (t_task_controllers s)"

definition released_for :: "snapshot \<Rightarrow> int option \<Rightarrow> bool" where
  "released_for snapshot released = (case released of None \<Rightarrow> False
     | Some r \<Rightarrow> 0 \<le> r \<and> word_of_int r < retention_cutoff_micros snapshot)"

text \<open>A task may go at a complete scan that shows no process of its session, once it has been released for the retention period.\<close>

definition task_retired :: "ownership_command \<Rightarrow> (string \<times> 'q) terms \<Rightarrow> bool" where
  "task_retired c v = (case c of BindTasks snapshot \<Rightarrow> proves_complete_exact_identity_coverage snapshot
       \<and> released_for snapshot (lt_released v)
       \<and> \<not> list_ex (\<lambda>p. Option.bind (task_session_name (runtime p)) task_id_from_session = Some (fst (lt_facts v))) (processes snapshot)
     | _ \<Rightarrow> False)"

text \<open>A process is admitted as controller of a task by a scan that shows it under the session name of the task, with an exact
  identity, for the user of the registrar and born after the activation.\<close>

definition born_after :: "int option \<Rightarrow> process_identity \<Rightarrow> bool" where
  "born_after activated i = (case activated of None \<Rightarrow> False | Some a \<Rightarrow> 0 \<le> a \<and> word_of_int a \<le> started_at_unix_micros i)"

definition task_admits ::
    "ownership_command \<Rightarrow> (string \<times> string \<times> task_owner_identity \<times> int) terms \<Rightarrow> process_identity \<Rightarrow> bool" where
  "task_admits c v i = (case c of BindTasks snapshot \<Rightarrow> (case lt_facts v of (task_id, capability, registrar, created) \<Rightarrow>
       exact_match i i \<and> born_after (lt_activated v) i
       \<and> list_ex (\<lambda>p. identity p = i \<and> uid p = owner_uid registrar
           \<and> map_option cli_session_name (playwright_cli (runtime p)) = Some (session_name_from_id task_id)) (processes snapshot))
     | _ \<Rightarrow> False)"

definition task_scope_for :: "task_scope_row \<Rightarrow> task_scope \<Rightarrow> bool" where
  "task_scope_for r sc \<longleftrightarrow> tk_task_id sc = ts_task_id r \<and> tk_registrar sc = ts_registrar r
     \<and> tk_activated_at_us sc = map_option word_of_int (ts_activated_at r) \<and> tk_released_at_us sc = map_option word_of_int (ts_released_at r)
     \<and> (\<forall>a. ts_activated_at r = Some a \<longrightarrow> 0 \<le> a) \<and> (\<forall>a. ts_released_at r = Some a \<longrightarrow> 0 \<le> a)"

lemma parse_optional_Inr:
  "parse_optional_millis v label = Inr y \<longleftrightarrow> y = map_option word_of_int v \<and> (\<forall>a. v = Some a \<longrightarrow> 0 \<le> a)"
  by (auto simp: parse_optional_millis_def parse_nonnegative_millis_def split: option.splits if_splits sum.splits)

lemma task_scopes_for: "dwp task_scopes (\<lambda>scopes s'. s' = s \<and> list_all2 task_scope_for (t_tasks s) scopes) s"
  unfolding task_scopes_def dwp_bind dwp_read
  by (rule dwp_db_map) (simp add: task_scope_of_row_def dwp_simps parse_optional_Inr task_scope_for_def)

abbreviation task_step where
  "task_step c s s' \<equiv> lane_step fst (task_retired c) (task_admits c) (task_rows s) (task_bound s) (task_rows s') (task_bound s')"

abbreviation tasks_fit :: "store \<Rightarrow> bool" where
  "tasks_fit s \<equiv> lane_ok fst (task_rows s)"

lemma tasks_fit_def:
  "tasks_fit s \<longleftrightarrow> distinct (map ts_task_id (t_tasks s)) \<and> list_all (\<lambda>r. ts_owner r = None \<longleftrightarrow> ts_activated_at r = None) (t_tasks s)"
  by (simp add: lane_ok_def task_rows_def task_terms_def comp_def list_all_iff)

lemma task_elsewhere [simp]:
  "task_rows (s\<lparr>t_draws := d\<rparr>) = task_rows s" "task_bound (s\<lparr>t_draws := d\<rparr>) = task_bound s" "task_bound (s\<lparr>t_tasks := x\<rparr>) = task_bound s"
  by (simp_all add: task_rows_def task_bound_def)

lemma find_task_unique: "tasks_fit s \<Longrightarrow> find_task i s = Some row \<Longrightarrow> r \<in> set (t_tasks s) \<Longrightarrow> ts_task_id r = i \<Longrightarrow> r = row"
  unfolding tasks_fit_def by (auto simp: find_task_def find_Some_iff distinct_map inj_on_def)

lemma task_update_step:
  assumes "tasks_fit s" "\<And>r. r \<in> set (t_tasks s) \<Longrightarrow> P r \<Longrightarrow> progressed (task_terms r) (task_terms (f r)) \<and> (ts_owner (f r) = None \<longleftrightarrow> ts_activated_at (f r) = None)"
  shows "lane_step fst (task_retired c) (task_admits c) (task_rows s) (task_bound s)
    (task_rows (s\<lparr>t_tasks := update_where P f (t_tasks s)\<rparr>)) (task_bound s)"
proof (rule lane_step_update [OF _ assms(1)])
  show "list_all2 (\<lambda>v w. progressed v w \<and> (lt_owner w = None \<longleftrightarrow> lt_activated w = None)) (task_rows s)
      (task_rows (s\<lparr>t_tasks := update_where P f (t_tasks s)\<rparr>))"
    using assms progressed_refl unfolding tasks_fit_def
    by (auto simp: task_rows_def update_where_def list_all2_map1 list_all2_map2 list.rel_refl_strong list_all_iff task_terms_def
        intro!: list.rel_refl_strong)
qed

lemma lane_ok_snoc:
  "lane_ok key rows \<Longrightarrow> key (lt_facts v) \<notin> set (map (\<lambda>w. key (lt_facts w)) rows) \<Longrightarrow> lt_owner v = None \<Longrightarrow> lt_activated v = None \<Longrightarrow>
     lane_ok key (rows @ [v])"
  by (simp add: lane_ok_def)

lemma reserve_step: "tasks_fit s \<Longrightarrow> dwp (reserve_task i r now) (\<lambda>_ s'. task_step c s s') s"
  unfolding reserve_task_def random_token_def
  by (simp add: dwp_simps split: option.split)
     (auto intro!: lane_step_grow lane_ok_snoc simp: task_rows_def tasks_ok_def task_terms_def new_task_def)

lemma activate_step: "tasks_fit s \<Longrightarrow> dwp (activate_task i own now) (\<lambda>_ s'. task_step c s s') s"
  unfolding activate_task_def
proof (simp add: dwp_simps split: option.split, intro allI impI conjI)
  fix row assume inv: "tasks_fit s" and row: "find_task i s = Some row" "ts_released_at row = None"
  show "task_step c s s" by (rule lane_step_grow) (use inv in auto)
  fix activated assume free: "ts_owner row = None"
  show "lane_step fst (task_retired c) (task_admits c) (task_rows s) (task_bound s)
      (task_rows (s\<lparr>t_tasks := update_where (\<lambda>r. ts_task_id r = i)
         (\<lambda>r. r\<lparr>ts_owner := Some own, ts_activated_at := Some activated\<rparr>) (t_tasks s)\<rparr>)) (task_bound s)"
  proof (rule task_update_step [OF inv])
    fix r assume r: "r \<in> set (t_tasks s)" "ts_task_id r = i"
    then have "r = row" using find_task_unique [OF inv row(1)] by blast
    then show "progressed (task_terms r) (task_terms (r\<lparr>ts_owner := Some own, ts_activated_at := Some activated\<rparr>)) \<and>
        (ts_owner (r\<lparr>ts_owner := Some own, ts_activated_at := Some activated\<rparr>) = None) =
        (ts_activated_at (r\<lparr>ts_owner := Some own, ts_activated_at := Some activated\<rparr>) = None)"
      using free row(2) inv r(1) by (auto simp: progressed_def task_terms_def tasks_fit_def list_all_iff)
  qed
qed

lemma release_step: "tasks_fit s \<Longrightarrow> dwp (release_task i now reason own) (\<lambda>_ s'. task_step c s s') s"
  unfolding release_task_def dwp_bind dwp_lift dwp_write
  unfolding task_elsewhere by (intro allI impI task_update_step) (auto simp: progressed_def task_terms_def tasks_fit_def list_all_iff)

text \<open>A scan binds the controllers that a scope admits, and then drops the rows that have served their retention.\<close>

definition task_admitted :: "task_scope list \<Rightarrow> process_record list \<Rightarrow> (string \<times> process_identity) set" where
  "task_admitted scopes ps = {(tk_task_id sc, identity p) | sc p. p \<in> set ps \<and> task_admitting scopes p = Some sc}"

lemma task_admittedI: "p \<in> set ps \<Longrightarrow> task_admitting scopes p = Some sc \<Longrightarrow> (tk_task_id sc, identity p) \<in> task_admitted scopes ps"
  by (auto simp: task_admitted_def)

lemma list_all2_right: "list_all2 R xs ys \<Longrightarrow> y \<in> set ys \<Longrightarrow> \<exists>x\<in>set xs. R x y"
  by (induction rule: list_all2_induct) auto

lemma task_admitted_admits:
  assumes "list_all2 task_scope_for (t_tasks s) scopes" "b \<in> task_admitted scopes (processes snap)"
  shows "\<exists>v\<in>set (task_rows s). fst (lt_facts v) = fst b \<and> task_admits (BindTasks snap) v (snd b)"
proof -
  obtain sc p where p: "b = (tk_task_id sc, identity p)" "p \<in> set (processes snap)" "task_admitting scopes p = Some sc"
    using assms(2) by (auto simp: task_admitted_def)
  then obtain cli i where i: "playwright_cli (runtime p) = Some cli" "task_id_from_session (cli_session_name cli) = Some i"
      "find (\<lambda>sc. tk_task_id sc = i) scopes = Some sc"
    and ok: "uid p = owner_uid (tk_registrar sc)" "exact_match (identity p) (identity p)"
      "\<exists>a. tk_activated_at_us sc = Some a \<and> a \<le> started_at_unix_micros (identity p)"
    by (auto simp: task_admitting_def born_within_def not_less split: option.splits if_splits)
  have sc: "sc \<in> set scopes" "tk_task_id sc = i" using i(3) by (auto simp: find_Some_iff)
  then obtain r where r: "r \<in> set (t_tasks s)" "task_scope_for r sc" using list_all2_right [OF assms(1)] by blast
  have "cli_session_name cli = session_name_from_id i" using i(2) by (simp add: task_id_from_session_Some)
  then have "task_admits (BindTasks snap) (task_terms r) (identity p)"
    using r(2) ok i(1) p(2) sc(2) unfolding task_admits_def task_terms_def task_scope_for_def
    by (auto simp: born_after_def list_ex_iff intro!: bexI [of _ p])
  moreover have "fst (lt_facts (task_terms r)) = fst b" using r(2) p(1) by (simp add: task_terms_def task_scope_for_def)
  ultimately show ?thesis using r(1) p(1) by (auto simp: task_rows_def)
qed

lemma task_bound_snoc:
  "set (task_bound (s\<lparr>t_task_controllers := t_task_controllers s @ [c]\<rparr>)) = insert (tc_task_id c, tc_identity c) (set (task_bound s))"
  by (auto simp: task_bound_def)

lemma keeps_bind_tasks:
  "keeps (\<lambda>s. task_rows s = R \<and> set (task_bound s) \<subseteq> B \<union> task_admitted scopes ps) (db_each (bind_task_controller scopes) ps)"
proof (rule keeps_each_in)
  fix p assume "p \<in> set ps"
  then show "keeps (\<lambda>s. task_rows s = R \<and> set (task_bound s) \<subseteq> B \<union> task_admitted scopes ps) (bind_task_controller scopes p)"
    unfolding bind_task_controller_def
    by (cases "task_admitting scopes p")
       (auto intro!: keeps_bind keeps_intros keeps_if keeps_constrained simp: task_bound_snoc task_admittedI task_rows_def)
qed

lemma task_deleted:
  "task_rows (s\<lparr>t_tasks := delete_where (\<lambda>r. ts_task_id r = i) (t_tasks s), t_task_controllers := x\<rparr>) =
     filter (\<lambda>v. fst (lt_facts v) \<noteq> i) (task_rows s)"
  "task_bound (s\<lparr>t_tasks := y, t_task_controllers := delete_where (\<lambda>c. tc_task_id c = i) (t_task_controllers s)\<rparr>) =
     filter (\<lambda>b. fst b \<noteq> i) (task_bound s)"
  by (simp_all add: task_rows_def task_bound_def delete_where_def filter_map comp_def task_terms_def)

lemma keeps_retire_task:
  assumes "tasks_fit s0" "list_all2 task_scope_for (t_tasks s0) scopes" "sc \<in> set scopes" "proves_complete_exact_identity_coverage snap"
  shows "keeps (\<lambda>s. lane_left fst (task_retired (BindTasks snap)) (task_rows s0) (task_rows s) (task_bound s) \<and> set (task_bound s) \<subseteq> B)
    (retire_task bindings snap sc)"
proof (cases "released_before (retention_cutoff_micros snap) (tk_released_at_us sc) \<and> \<not> task_observed bindings snap (tk_task_id sc)")
  case True
  obtain r where r: "r \<in> set (t_tasks s0)" "task_scope_for r sc" using list_all2_right [OF assms(2,3)] by blast
  have "task_retired (BindTasks snap) (task_terms r)"
    using True r(2) assms(4) by (auto simp: task_retired_def task_terms_def released_for_def released_before_def task_scope_for_def
        task_observed_def list_ex_iff split: option.splits)
  moreover have "v = task_terms r" if "v \<in> set (task_rows s0)" "fst (lt_facts v) = tk_task_id sc" for v
    using assms(1) that r by (auto simp: lane_ok_def task_rows_def task_scope_for_def task_terms_def distinct_map inj_on_def)
  ultimately have "task_retired (BindTasks snap) v" if "v \<in> set (task_rows s0)" "fst (lt_facts v) = tk_task_id sc" for v
    using that by blast
  then have "keeps (\<lambda>s. lane_left fst (task_retired (BindTasks snap)) (task_rows s0) (task_rows s) (task_bound s) \<and> set (task_bound s) \<subseteq> B)
      (delete_task (tk_task_id sc))"
    unfolding delete_task_def by (intro keeps_write) (auto simp: task_deleted intro: lane_left_delete)
  then show ?thesis using True by (simp add: retire_task_def)
qed (auto simp: retire_task_def intro: keeps_intros)

lemma bind_tasks_step:
  assumes "tasks_fit s"
  shows "dwp (bind_task_controllers snap) (\<lambda>_ s'. task_step (BindTasks snap) s s') s"
  unfolding bind_task_controllers_def dwp_bind [of task_scopes]
proof (rule dwp_mono [OF task_scopes_for], clarify)
  fix scopes assume scopes: "list_all2 task_scope_for (t_tasks s) scopes"
  let ?B = "set (task_bound s) \<union> task_admitted scopes (processes snap)"
  let ?left = "\<lambda>s'. lane_left fst (task_retired (BindTasks snap)) (task_rows s) (task_rows s') (task_bound s') \<and> set (task_bound s') \<subseteq> ?B"
  have "keeps (\<lambda>s'. task_rows s' = task_rows s \<and> set (task_bound s') \<subseteq> ?B) (db_each (bind_task_controller scopes) (processes snap))"
    by (rule keeps_bind_tasks)
  then have bind: "dwp (db_each (bind_task_controller scopes) (processes snap)) (\<lambda>_. ?left) s"
    by (rule dwp_keeps) (use assms in \<open>auto simp: lane_left_def\<close>)
  have retire: "keeps ?left (if proves_complete_exact_identity_coverage snap
      then db_bind task_controller_bindings (\<lambda>bindings. db_each (retire_task bindings snap) scopes) else db_return ())"
    unfolding task_controller_bindings_def
    by (cases "proves_complete_exact_identity_coverage snap")
       (auto intro!: keeps_bind keeps_intros keeps_each_in keeps_retire_task assms scopes)
  have finish: "task_step (BindTasks snap) s s'" if left: "?left s'" for s'
  proof (rule lane_step_left [OF conjunct1 [OF left]])
    fix b assume "b \<in> set (task_bound s')"
    then have "b \<in> set (task_bound s) \<or> b \<in> task_admitted scopes (processes snap)" using left by blast
    then show "b \<in> set (task_bound s) \<or> (\<exists>v\<in>set (task_rows s). fst (lt_facts v) = fst b \<and> task_admits (BindTasks snap) v (snd b))"
      using task_admitted_admits [OF scopes] by blast
  qed
  show "dwp (db_bind (db_each (bind_task_controller scopes) (processes snap)) (\<lambda>_. if proves_complete_exact_identity_coverage snap
      then db_bind task_controller_bindings (\<lambda>bindings. db_each (retire_task bindings snap) scopes) else db_return ()))
      (\<lambda>_ s'. task_step (BindTasks snap) s s') s"
    unfolding dwp_bind [of "db_each f xs" for f xs]
    by (rule dwp_mono [OF bind], rule dwp_keeps [OF retire], assumption, rule finish)
qed

lemma task_command_step:
  assumes "tasks_fit s" "run_ownership c s = Inr (x, s')"
  shows "task_step c s s'"
proof (cases "task_lane c")
  case True
  then have "dwp (run_ownership c) (\<lambda>_ s'. task_step c s s') s"
    using reserve_step [OF assms(1)] activate_step [OF assms(1)] release_step [OF assms(1)] bind_tasks_step [OF assms(1)]
    by (cases c) (simp_all add: task_lane_def dwp_discard)
  then show ?thesis using assms(2) by (rule dwpD)
next
  case False
  have "task_tables s' = task_tables s" by (rule keepsD [OF owner_commands_apart [OF False] _ assms(2)]) simp
  then have same: "task_rows s' = task_rows s" "task_bound s' = task_bound s" by (simp_all add: task_tables_def task_rows_def task_bound_def)
  show ?thesis unfolding same by (rule lane_step_grow) (simp_all add: assms(1))
qed

lemma task_admits_kept: "task_admits c v i \<Longrightarrow> progressed v w \<Longrightarrow> task_admits c w i"
  by (auto simp: task_admits_def progressed_def born_after_def split: ownership_command.splits option.splits prod.splits)

interpretation tasks: ownership_lane task_rows task_bound fst task_retired task_admits
  by unfold_locales (auto intro: task_command_step task_admits_kept)

section \<open>The lane of the session owners\<close>

type_synonym owner_facts = "string \<times> string \<times> string \<times> string \<times> string \<times> int \<times> task_owner_identity \<times> int"

definition owner_rows :: "store \<Rightarrow> owner_facts terms list" where
  "owner_rows s = map owner_terms (t_leases s)"

definition owner_bound :: "store \<Rightarrow> (string \<times> process_identity) list" where
  "owner_bound s = map (\<lambda>c. (lc_lease_id c, lc_identity c)) (t_lease_controllers s)"

text \<open>A lease may go at a complete scan that shows no controller of its selector, once it has been released for the retention period.\<close>

definition owner_retired :: "ownership_command \<Rightarrow> owner_facts terms \<Rightarrow> bool" where
  "owner_retired c v = (case c of BindOwners snapshot \<Rightarrow> (case lt_facts v of (lease_id, capability, selector, rest) \<Rightarrow>
       proves_complete_exact_identity_coverage snapshot \<and> released_for snapshot (lt_released v) \<and> \<not> selector_observed snapshot selector)
     | _ \<Rightarrow> False)"

definition shows_selector :: "string \<Rightarrow> string \<Rightarrow> string \<Rightarrow> process_record \<Rightarrow> bool" where
  "shows_selector selector name version p = (case playwright_cli (runtime p) of None \<Rightarrow> False
     | Some cli \<Rightarrow> cli_selector_fingerprint cli = Some selector \<and> cli_session_name cli = name \<and> cli_version cli = version
         \<and> task_id_from_session name = None)"

definition owner_admits :: "ownership_command \<Rightarrow> owner_facts terms \<Rightarrow> process_identity \<Rightarrow> bool" where
  "owner_admits c v i = (case c of
       BindOwners snapshot \<Rightarrow> (case lt_facts v of (lease_id, capability, selector, name, version, generation, registrar, created) \<Rightarrow>
         exact_match i i \<and> born_after (lt_activated v) i
         \<and> list_ex (\<lambda>p. identity p = i \<and> uid p = owner_uid registrar \<and> shows_selector selector name version p) (processes snapshot))
     | _ \<Rightarrow> False)"

definition owner_scope_for :: "lease_row \<Rightarrow> session_owner_scope \<Rightarrow> bool" where
  "owner_scope_for r sc \<longleftrightarrow> os_lease_id sc = le_lease_id r \<and> os_selector_fingerprint sc = le_selector_fingerprint r
     \<and> os_session_name sc = le_session_name r \<and> os_controller_version sc = le_controller_version r
     \<and> os_generation sc = generation_u64 (le_generation r) \<and> os_registrar sc = le_registrar r
     \<and> os_activated_at_us sc = map_option word_of_int (le_activated_at r) \<and> os_released_at_us sc = map_option word_of_int (le_released_at r)
     \<and> (\<forall>a. le_activated_at r = Some a \<longrightarrow> 0 \<le> a) \<and> (\<forall>a. le_released_at r = Some a \<longrightarrow> 0 \<le> a)"

lemma owner_scopes_for: "dwp session_owner_scopes (\<lambda>scopes s'. s' = s \<and> list_all2 owner_scope_for (t_leases s) scopes) s"
  unfolding session_owner_scopes_def dwp_bind dwp_read
  by (rule dwp_db_map) (simp add: session_owner_scope_of_row_def dwp_simps parse_optional_Inr owner_scope_for_def)

text \<open>The scopes of the current generations.\<close>

definition newest_of :: "session_owner_scope list \<Rightarrow> session_owner_scope \<Rightarrow> bool" where
  "newest_of scopes sc \<longleftrightarrow> sc \<in> set scopes \<and>
     (\<forall>other\<in>set scopes. os_selector_fingerprint other = os_selector_fingerprint sc \<longrightarrow> os_generation other \<le> os_generation sc)"

definition current_of :: "session_owner_scope list \<Rightarrow> (string, session_owner_scope) btree \<Rightarrow> bool" where
  "current_of scopes m \<longleftrightarrow> bt_wf m \<and> (\<forall>k sc. bt_get m k = Some sc \<longrightarrow> os_selector_fingerprint sc = k \<and> newest_of scopes sc)
     \<and> (\<forall>sc\<in>set scopes. bt_get m (os_selector_fingerprint sc) \<noteq> None)"

lemma current_of_step:
  assumes "current_of scopes m"
  shows "current_of (scopes @ [sc]) (keep_newest sc m)"
proof (cases "bt_get m (os_selector_fingerprint sc)")
  case None
  then have "\<forall>other\<in>set scopes. os_selector_fingerprint other \<noteq> os_selector_fingerprint sc"
    using assms unfolding current_of_def by metis
  then show ?thesis using None assms by (auto simp: keep_newest_def current_of_def bt_wf_insert bt_get_insert newest_of_def)
next
  case (Some old)
  then have old: "os_selector_fingerprint old = os_selector_fingerprint sc" "newest_of scopes old"
    using assms by (auto simp: current_of_def)
  show ?thesis
  proof (cases "os_generation old < os_generation sc")
    case True
    have "newest_of (scopes @ [sc]) sc" using old True unfolding newest_of_def by fastforce
    moreover have "newest_of (scopes @ [sc]) x" if "newest_of scopes x" "os_selector_fingerprint x \<noteq> os_selector_fingerprint sc" for x
      using that by (auto simp: newest_of_def)
    ultimately show ?thesis using True Some assms by (auto simp: keep_newest_def current_of_def bt_wf_insert bt_get_insert)
  next
    case False
    have "newest_of (scopes @ [sc]) x" if "bt_get m k = Some x" for k x
      using that Some False assms old by (auto simp: newest_of_def current_of_def not_less)
    then show ?thesis using False Some assms old by (auto simp: keep_newest_def current_of_def)
  qed
qed

lemma keep_newest_current: "current_of scopes (fold keep_newest scopes [])"
proof (induction scopes rule: rev_induct)
  case Nil
  then show ?case by (simp add: current_of_def bt_wf_def bt_get_def)
next
  case (snoc sc scopes)
  then show ?case using current_of_step by simp
qed

lemma current_scopes_for:
  "dwp current_session_owner_scopes (\<lambda>current s'. s' = s \<and>
     (\<exists>scopes. list_all2 owner_scope_for (t_leases s) scopes \<and> (\<forall>sc\<in>set current. newest_of scopes sc))) s"
  unfolding current_session_owner_scopes_def dwp_bind
proof (rule dwp_mono [OF owner_scopes_for], clarsimp simp: dwp_return)
  fix scopes assume "list_all2 owner_scope_for (t_leases s) scopes"
  moreover have "newest_of scopes sc" if "sc \<in> set (bt_values (fold keep_newest scopes []))" for sc
    using that keep_newest_current [of scopes] by (auto simp: current_of_def bt_values_set)
  ultimately show "\<exists>all. list_all2 owner_scope_for (t_leases s) all \<and> (\<forall>sc\<in>set (bt_values (fold keep_newest scopes [])). newest_of all sc)"
    by blast
qed

abbreviation owner_step where
  "owner_step c s s' \<equiv> lane_step fst (owner_retired c) (owner_admits c) (owner_rows s) (owner_bound s) (owner_rows s') (owner_bound s')"

abbreviation owners_fit :: "store \<Rightarrow> bool" where
  "owners_fit s \<equiv> lane_ok fst (owner_rows s)"

lemma owners_fit_def:
  "owners_fit s \<longleftrightarrow> distinct (map le_lease_id (t_leases s)) \<and> list_all (\<lambda>r. le_owner r = None \<longleftrightarrow> le_activated_at r = None) (t_leases s)"
  by (simp add: lane_ok_def owner_rows_def owner_terms_def comp_def list_all_iff)

lemma owner_elsewhere [simp]:
  "owner_rows (s\<lparr>t_draws := d\<rparr>) = owner_rows s" "owner_bound (s\<lparr>t_draws := d\<rparr>) = owner_bound s" "owner_bound (s\<lparr>t_leases := x\<rparr>) = owner_bound s"
  by (simp_all add: owner_rows_def owner_bound_def)

lemma find_lease_unique: "owners_fit s \<Longrightarrow> find_lease i s = Some row \<Longrightarrow> r \<in> set (t_leases s) \<Longrightarrow> le_lease_id r = i \<Longrightarrow> r = row"
  unfolding owners_fit_def by (auto simp: find_lease_def find_Some_iff distinct_map inj_on_def)

lemma owner_update_step:
  assumes "owners_fit s" "\<And>r. r \<in> set (t_leases s) \<Longrightarrow> P r \<Longrightarrow> progressed (owner_terms r) (owner_terms (f r)) \<and> (le_owner (f r) = None \<longleftrightarrow> le_activated_at (f r) = None)"
  shows "lane_step fst (owner_retired c) (owner_admits c) (owner_rows s) (owner_bound s)
    (owner_rows (s\<lparr>t_leases := update_where P f (t_leases s)\<rparr>)) (owner_bound s)"
proof (rule lane_step_update [OF _ assms(1)])
  show "list_all2 (\<lambda>v w. progressed v w \<and> (lt_owner w = None \<longleftrightarrow> lt_activated w = None)) (owner_rows s)
      (owner_rows (s\<lparr>t_leases := update_where P f (t_leases s)\<rparr>))"
    using assms progressed_refl unfolding owners_fit_def
    by (auto simp: owner_rows_def update_where_def list_all2_map1 list_all2_map2 list_all_iff owner_terms_def
        intro!: list.rel_refl_strong)
qed

lemma declare_step: "owners_fit s \<Longrightarrow> dwp (declare_session_owner sel name version r now) (\<lambda>_ s'. owner_step c s s') s"
  unfolding declare_session_owner_def rejoin_lease_def declare_generation_def random_token_def
  by (simp add: dwp_simps split: option.split)
     (auto intro!: lane_step_grow lane_ok_snoc simp: owner_rows_def leases_ok_def owner_terms_def)

lemma activate_owner_step: "owners_fit s \<Longrightarrow> dwp (activate_session_owner i own now) (\<lambda>_ s'. owner_step c s s') s"
  unfolding activate_session_owner_def
proof (simp add: dwp_simps split: option.split, intro allI impI conjI)
  fix row assume inv: "owners_fit s" and row: "find_lease i s = Some row" "le_released_at row = None"
  show "owner_step c s s" by (rule lane_step_grow) (use inv in auto)
  fix activated assume free: "le_owner row = None"
  show "lane_step fst (owner_retired c) (owner_admits c) (owner_rows s) (owner_bound s)
      (owner_rows (s\<lparr>t_leases := update_where (\<lambda>r. le_lease_id r = i)
         (\<lambda>r. r\<lparr>le_owner := Some own, le_activated_at := Some activated\<rparr>) (t_leases s)\<rparr>)) (owner_bound s)"
  proof (rule owner_update_step [OF inv])
    fix r assume r: "r \<in> set (t_leases s)" "le_lease_id r = i"
    then have "r = row" using find_lease_unique [OF inv row(1)] by blast
    then show "progressed (owner_terms r) (owner_terms (r\<lparr>le_owner := Some own, le_activated_at := Some activated\<rparr>)) \<and>
        (le_owner (r\<lparr>le_owner := Some own, le_activated_at := Some activated\<rparr>) = None) =
        (le_activated_at (r\<lparr>le_owner := Some own, le_activated_at := Some activated\<rparr>) = None)"
      using free row(2) inv r(1) by (auto simp: progressed_def owner_terms_def owners_fit_def list_all_iff)
  qed
qed

lemma release_owner_step: "owners_fit s \<Longrightarrow> dwp (release_session_owner i now reason own) (\<lambda>_ s'. owner_step c s s') s"
  unfolding release_session_owner_def dwp_bind dwp_lift dwp_write
  unfolding owner_elsewhere by (intro allI impI owner_update_step) (auto simp: progressed_def owner_terms_def owners_fit_def list_all_iff)

definition owner_admitted :: "session_owner_scope list \<Rightarrow> process_record list \<Rightarrow> (string \<times> process_identity) set" where
  "owner_admitted scopes ps = {(os_lease_id sc, identity p) | sc p. p \<in> set ps \<and> lease_admitting scopes p = Some sc}"

lemma owner_admittedI: "p \<in> set ps \<Longrightarrow> lease_admitting scopes p = Some sc \<Longrightarrow> (os_lease_id sc, identity p) \<in> owner_admitted scopes ps"
  by (auto simp: owner_admitted_def)

lemma owner_admitted_admits:
  assumes "list_all2 owner_scope_for (t_leases s) scopes" "set current \<subseteq> set scopes" "b \<in> owner_admitted current (processes snap)"
  shows "\<exists>v\<in>set (owner_rows s). fst (lt_facts v) = fst b \<and> owner_admits (BindOwners snap) v (snd b)"
proof -
  obtain sc p where p: "b = (os_lease_id sc, identity p)" "p \<in> set (processes snap)" "lease_admitting current p = Some sc"
    using assms(3) by (auto simp: owner_admitted_def)
  then obtain cli sel where cli: "playwright_cli (runtime p) = Some cli" "cli_selector_fingerprint cli = Some sel"
      "task_id_from_session (cli_session_name cli) = None"
      "find (\<lambda>scope. os_selector_fingerprint scope = sel \<and> os_session_name scope = cli_session_name cli
         \<and> os_controller_version scope = cli_version cli) current = Some sc"
    and ok: "uid p = owner_uid (os_registrar sc)" "exact_match (identity p) (identity p)"
      "\<exists>a. os_activated_at_us sc = Some a \<and> a \<le> started_at_unix_micros (identity p)"
    by (auto simp: lease_admitting_def born_within_def not_less exact_match_def split: option.splits if_splits)
  have sc: "sc \<in> set scopes" "os_selector_fingerprint sc = sel" "os_session_name sc = cli_session_name cli" "os_controller_version sc = cli_version cli"
    using cli(4) assms(2) by (auto simp: find_Some_iff)
  then obtain r where r: "r \<in> set (t_leases s)" "owner_scope_for r sc" using list_all2_right [OF assms(1)] by blast
  have "owner_admits (BindOwners snap) (owner_terms r) (identity p)"
    using r(2) ok cli p(2) sc unfolding owner_admits_def owner_terms_def owner_scope_for_def
    by (auto simp: born_after_def list_ex_iff shows_selector_def intro!: bexI [of _ p])
  moreover have "fst (lt_facts (owner_terms r)) = fst b" using r(2) p(1) by (simp add: owner_terms_def owner_scope_for_def)
  ultimately show ?thesis using r(1) p(1) by (auto simp: owner_rows_def)
qed

lemma owner_bound_snoc:
  "set (owner_bound (s\<lparr>t_lease_controllers := t_lease_controllers s @ [c]\<rparr>)) = insert (lc_lease_id c, lc_identity c) (set (owner_bound s))"
  by (auto simp: owner_bound_def)

lemma keeps_bind_owners:
  "keeps (\<lambda>s. t_leases s = L \<and> set (owner_bound s) \<subseteq> B \<union> owner_admitted scopes ps) (db_each (bind_session_owner_controller scopes) ps)"
proof (rule keeps_each_in)
  fix p assume "p \<in> set ps"
  then show "keeps (\<lambda>s. t_leases s = L \<and> set (owner_bound s) \<subseteq> B \<union> owner_admitted scopes ps) (bind_session_owner_controller scopes p)"
    unfolding bind_session_owner_controller_def
    by (cases "lease_admitting scopes p")
       (auto intro!: keeps_bind keeps_intros keeps_if keeps_constrained simp: owner_bound_snoc owner_admittedI)
qed

lemma owner_deleted:
  "owner_rows (s\<lparr>t_leases := delete_where (\<lambda>r. le_lease_id r = i) (t_leases s), t_lease_controllers := x\<rparr>) =
     filter (\<lambda>v. fst (lt_facts v) \<noteq> i) (owner_rows s)"
  "owner_bound (s\<lparr>t_leases := y, t_lease_controllers := delete_where (\<lambda>c. lc_lease_id c = i) (t_lease_controllers s)\<rparr>) =
     filter (\<lambda>b. fst b \<noteq> i) (owner_bound s)"
  by (simp_all add: owner_rows_def owner_bound_def delete_where_def filter_map comp_def owner_terms_def)

lemma keeps_retire_owner:
  assumes "owners_fit s0" "list_all2 owner_scope_for (t_leases s0) scopes" "sc \<in> set scopes" "proves_complete_exact_identity_coverage snap"
  shows "keeps (\<lambda>s. lane_left fst (owner_retired (BindOwners snap)) (owner_rows s0) (owner_rows s) (owner_bound s) \<and> set (owner_bound s) \<subseteq> B)
    (retire_lease snap sc)"
proof (cases "released_before (retention_cutoff_micros snap) (os_released_at_us sc) \<and> \<not> selector_observed snap (os_selector_fingerprint sc)")
  case True
  obtain r where r: "r \<in> set (t_leases s0)" "owner_scope_for r sc" using list_all2_right [OF assms(2,3)] by blast
  have "owner_retired (BindOwners snap) (owner_terms r)"
    using True r(2) assms(4) by (auto simp: owner_retired_def owner_terms_def released_for_def released_before_def owner_scope_for_def
        split: option.splits)
  moreover have "v = owner_terms r" if "v \<in> set (owner_rows s0)" "fst (lt_facts v) = os_lease_id sc" for v
    using assms(1) that r by (auto simp: lane_ok_def owner_rows_def owner_scope_for_def owner_terms_def distinct_map inj_on_def)
  ultimately have "owner_retired (BindOwners snap) v" if "v \<in> set (owner_rows s0)" "fst (lt_facts v) = os_lease_id sc" for v
    using that by blast
  then have "keeps (\<lambda>s. lane_left fst (owner_retired (BindOwners snap)) (owner_rows s0) (owner_rows s) (owner_bound s) \<and> set (owner_bound s) \<subseteq> B)
      (delete_lease (os_lease_id sc))"
    unfolding delete_lease_def by (intro keeps_write) (auto simp: owner_deleted intro: lane_left_delete)
  then show ?thesis using True by (simp add: retire_lease_def)
qed (auto simp: retire_lease_def intro: keeps_intros)

lemma bind_owners_step:
  assumes "owners_fit s"
  shows "dwp (bind_session_owner_controllers snap) (\<lambda>_ s'. owner_step (BindOwners snap) s s') s"
  unfolding bind_session_owner_controllers_def dwp_bind
proof (rule dwp_mono [OF current_scopes_for], clarify)
  fix current scopes assume scopes: "list_all2 owner_scope_for (t_leases s) scopes" and "\<forall>sc\<in>set current. newest_of scopes sc"
  then have current: "set current \<subseteq> set scopes" by (auto simp: newest_of_def)
  let ?B = "set (owner_bound s) \<union> owner_admitted current (processes snap)"
  let ?left = "\<lambda>s'. lane_left fst (owner_retired (BindOwners snap)) (owner_rows s) (owner_rows s') (owner_bound s') \<and> set (owner_bound s') \<subseteq> ?B"
  have finish: "owner_step (BindOwners snap) s s'" if left: "?left s'" for s'
  proof (rule lane_step_left [OF conjunct1 [OF left]])
    fix b assume "b \<in> set (owner_bound s')"
    then have "b \<in> set (owner_bound s) \<or> b \<in> owner_admitted current (processes snap)" using left by blast
    then show "b \<in> set (owner_bound s) \<or> (\<exists>v\<in>set (owner_rows s). fst (lt_facts v) = fst b \<and> owner_admits (BindOwners snap) v (snd b))"
      using owner_admitted_admits [OF scopes current] by blast
  qed
  have prune: "dwp (prune_session_owner_leases snap) (\<lambda>_ s'. owner_step (BindOwners snap) s s') s1"
    if s1: "t_leases s1 = t_leases s \<and> set (owner_bound s1) \<subseteq> ?B" for s1
  proof (cases "proves_complete_exact_identity_coverage snap")
    case True
    have left: "?left s1" using s1 assms by (simp add: lane_left_def owner_rows_def)
    have "dwp (db_each (retire_lease snap) again) (\<lambda>_ s'. owner_step (BindOwners snap) s s') s1"
      if "list_all2 owner_scope_for (t_leases s) again" for again
      by (rule dwp_keeps [OF keeps_each_in [OF keeps_retire_owner [OF assms that _ True]]], assumption, rule left, rule finish)
    with True s1 show ?thesis unfolding prune_session_owner_leases_def
      by (simp add: dwp_bind) (rule dwp_mono [OF owner_scopes_for], clarsimp)
  next
    case False
    have "?left s1" using s1 assms by (simp add: lane_left_def owner_rows_def)
    with False finish show ?thesis by (simp add: prune_session_owner_leases_def dwp_return)
  qed
  show "dwp (db_each (bind_session_owner_controller current) (processes snap))
      (\<lambda>x. dwp (prune_session_owner_leases snap) (\<lambda>_ s'. owner_step (BindOwners snap) s s')) s"
    by (rule dwp_keeps [OF keeps_bind_owners [of "t_leases s" "set (owner_bound s)" current "processes snap"]], simp, rule prune)
qed

lemma owner_command_step:
  assumes "owners_fit s" "run_ownership c s = Inr (x, s')"
  shows "owner_step c s s'"
proof (cases "task_lane c")
  case False
  then have "dwp (run_ownership c) (\<lambda>_ s'. owner_step c s s') s"
    using declare_step [OF assms(1)] activate_owner_step [OF assms(1)] release_owner_step [OF assms(1)] bind_owners_step [OF assms(1)]
    by (cases c) (simp_all add: task_lane_def dwp_discard)
  then show ?thesis using assms(2) by (rule dwpD)
next
  case True
  have "owner_tables s' = owner_tables s" by (rule keepsD [OF task_commands_apart [OF True] _ assms(2)]) simp
  then have same: "owner_rows s' = owner_rows s" "owner_bound s' = owner_bound s" by (simp_all add: owner_tables_def owner_rows_def owner_bound_def)
  show ?thesis unfolding same by (rule lane_step_grow) (simp_all add: assms(1))
qed

lemma owner_admits_kept: "owner_admits c v i \<Longrightarrow> progressed v w \<Longrightarrow> owner_admits c w i"
  by (auto simp: owner_admits_def progressed_def born_after_def split: ownership_command.splits option.splits prod.splits)

interpretation owners: ownership_lane owner_rows owner_bound fst owner_retired owner_admits
  by unfold_locales (auto intro: owner_command_step owner_admits_kept)

section \<open>What both lanes promise\<close>


text \<open>
  C38: a task binding is grounded. From an empty store, each binding that the classification reads names a task that still stands and a
  process that some scan showed under the session name of the task, with an exact identity, for the user of the registrar and born
  after the activation; it counts as released exactly when the task is.
\<close>

theorem task_bindings_grounded:
  assumes "task_controller_bindings (ownership_history cs empty_store) = Inr (bindings, s)" "b \<in> set bindings"
  shows "\<exists>r\<in>set (t_tasks s). ts_task_id r = tb_task_id b \<and> (tb_released b \<longleftrightarrow> ts_released_at r \<noteq> None)
    \<and> (\<exists>c\<in>set cs. task_admits c (task_terms r) (tb_controller b))"
proof -
  have ok: "lane_ok fst (task_rows empty_store)" "task_bound empty_store = []"
    by (simp_all add: lane_ok_def task_rows_def task_bound_def empty_store_def)
  have s: "s = ownership_history cs empty_store" using assms(1) by (simp add: task_controller_bindings_def db_read_def)
  obtain c r where c: "c \<in> set (t_task_controllers s)" and r: "r \<in> set (t_tasks s)" "ts_task_id r = tc_task_id c"
      and b: "tb_task_id b = tc_task_id c" "tb_controller b = tc_identity c" "tb_released b \<longleftrightarrow> ts_released_at r \<noteq> None"
    using assms s by (auto simp: task_controller_bindings_def db_read_def)
  obtain v d where v: "v \<in> set (task_rows s)" "fst (lt_facts v) = tc_task_id c" "d \<in> set cs" "task_admits d v (tc_identity c)"
    using tasks.history_grounded [OF ok, of cs] c s by (force simp: tasks.grounded_def task_bound_def)
  have "v = task_terms r"
    using tasks.history_ok [OF ok(1), of cs] v(1,2) r by (auto simp: s lane_ok_def task_rows_def task_terms_def distinct_map inj_on_def)
  with r b v(3,4) show ?thesis by auto
qed

lemma list_all2_leftD: "list_all2 R xs ys \<Longrightarrow> x \<in> set xs \<Longrightarrow> \<exists>y\<in>set ys. R x y"
  by (induction rule: list_all2_induct) auto

lemma session_owner_bindings_current:
  "dwp session_owner_bindings (\<lambda>bindings s'. s' = s \<and> (\<forall>b\<in>set bindings. \<exists>c\<in>set (t_lease_controllers s). \<exists>r\<in>set (t_leases s).
     le_lease_id r = lc_lease_id c \<and> sb_lease_id b = lc_lease_id c \<and> sb_controller b = lc_identity c
     \<and> sb_selector_fingerprint b = le_selector_fingerprint r \<and> sb_session_name b = le_session_name r
     \<and> sb_controller_version b = le_controller_version r \<and> (sb_released b \<longleftrightarrow> le_released_at r \<noteq> None)
     \<and> (\<forall>q\<in>set (t_leases s). le_selector_fingerprint q = le_selector_fingerprint r \<longrightarrow>
          generation_u64 (le_generation q) \<le> generation_u64 (le_generation r)))) s"
  unfolding session_owner_bindings_def dwp_bind
proof (rule dwp_mono [OF current_scopes_for], clarsimp simp: dwp_read)
  fix current scopes b
  assume scopes: "list_all2 owner_scope_for (t_leases s) scopes" and newest: "\<forall>sc\<in>set current. newest_of scopes sc"
    and "b \<in> set (List.map_filter (\<lambda>c. map_option (\<lambda>scope. session_owner_binding_of scope c)
        (bt_get (bt_of_list (map (\<lambda>scope. (os_lease_id scope, scope)) current)) (lc_lease_id c)))
        (sort_key lc_lease_id (t_lease_controllers s)))"
  then obtain c sc where c: "c \<in> set (t_lease_controllers s)" "b = session_owner_binding_of sc c"
      and get: "bt_get (bt_of_list (map (\<lambda>scope. (os_lease_id scope, scope)) current)) (lc_lease_id c) = Some sc"
    by (auto simp: List.map_filter_def)
  from get have sc: "sc \<in> set current" "os_lease_id sc = lc_lease_id c"
    by (auto simp: bt_of_list_get dest!: map_of_SomeD)
  with newest have new: "newest_of scopes sc" by blast
  then obtain r where r: "r \<in> set (t_leases s)" "owner_scope_for r sc" using list_all2_right [OF scopes] by (auto simp: newest_of_def)
  have "generation_u64 (le_generation q) \<le> generation_u64 (le_generation r)"
    if q: "q \<in> set (t_leases s)" "le_selector_fingerprint q = le_selector_fingerprint r" for q
  proof -
    obtain sq where "sq \<in> set scopes" "owner_scope_for q sq" using list_all2_leftD [OF scopes q(1)] by blast
    with new r(2) q(2) show ?thesis by (auto simp: newest_of_def owner_scope_for_def)
  qed
  with c r sc(2) show "\<exists>c\<in>set (t_lease_controllers s). \<exists>r\<in>set (t_leases s). le_lease_id r = lc_lease_id c \<and> sb_lease_id b = lc_lease_id c
     \<and> sb_controller b = lc_identity c \<and> sb_selector_fingerprint b = le_selector_fingerprint r \<and> sb_session_name b = le_session_name r
     \<and> sb_controller_version b = le_controller_version r \<and> sb_released b = (\<exists>y. le_released_at r = Some y)
     \<and> (\<forall>q\<in>set (t_leases s). le_selector_fingerprint q = le_selector_fingerprint r \<longrightarrow>
          generation_u64 (le_generation q) \<le> generation_u64 (le_generation r))"
    by (intro bexI [of _ c] bexI [of _ r]) (auto simp: session_owner_binding_of_def owner_scope_for_def)
qed

text \<open>
  C39: a session binding is grounded and current. From an empty store, each binding that the classification reads belongs to
  the lease of the highest generation for its selector, carries the selector, name and version of that lease, and its controller was shown by
  some scan under exactly these, with an exact identity, for the user of the registrar and born after the activation.
\<close>

theorem owner_bindings_current:
  assumes "session_owner_bindings (ownership_history cs empty_store) = Inr (bindings, s)" "b \<in> set bindings"
  shows "\<exists>r\<in>set (t_leases s). le_lease_id r = sb_lease_id b \<and> sb_selector_fingerprint b = le_selector_fingerprint r
    \<and> sb_session_name b = le_session_name r \<and> sb_controller_version b = le_controller_version r
    \<and> (sb_released b \<longleftrightarrow> le_released_at r \<noteq> None)
    \<and> (\<forall>q\<in>set (t_leases s). le_selector_fingerprint q = le_selector_fingerprint r \<longrightarrow>
         generation_u64 (le_generation q) \<le> generation_u64 (le_generation r))
    \<and> (\<exists>c\<in>set cs. owner_admits c (owner_terms r) (sb_controller b))"
proof -
  have ok: "lane_ok fst (owner_rows empty_store)" "owner_bound empty_store = []"
    by (simp_all add: lane_ok_def owner_rows_def owner_bound_def empty_store_def)
  note found = dwpD [OF session_owner_bindings_current assms(1)]
  then have s: "s = ownership_history cs empty_store" by blast
  from found assms(2) obtain c r where c: "c \<in> set (t_lease_controllers s)" and r: "r \<in> set (t_leases s)" "le_lease_id r = lc_lease_id c"
      and b: "sb_lease_id b = lc_lease_id c" "sb_controller b = lc_identity c" "sb_selector_fingerprint b = le_selector_fingerprint r"
        "sb_session_name b = le_session_name r" "sb_controller_version b = le_controller_version r" "sb_released b \<longleftrightarrow> le_released_at r \<noteq> None"
        "\<forall>q\<in>set (t_leases s). le_selector_fingerprint q = le_selector_fingerprint r \<longrightarrow> generation_u64 (le_generation q) \<le> generation_u64 (le_generation r)"
    by auto
  obtain v d where v: "v \<in> set (owner_rows s)" "fst (lt_facts v) = lc_lease_id c" "d \<in> set cs" "owner_admits d v (lc_identity c)"
    using owners.history_grounded [OF ok, of cs] c s by (force simp: owners.grounded_def owner_bound_def)
  have "v = owner_terms r"
    using owners.history_ok [OF ok(1), of cs] v(1,2) r by (auto simp: s lane_ok_def owner_rows_def owner_terms_def distinct_map inj_on_def)
  with r b v(3,4) show ?thesis by auto
qed

section \<open>A concrete history\<close>

text \<open>A task and a session lease, each with one controller that the scan shows.\<close>

definition demo_id :: string where
  "demo_id = replicate 32 (CHR ''0'')"

definition demo_selector :: string where
  "demo_selector = replicate 16 (CHR ''a'')"

definition demo_token :: "nat \<Rightarrow> string" where
  "demo_token n = replicate 31 (CHR ''0'') @ dec_string n"

definition demo_registrar :: task_owner_identity where
  "demo_registrar = \<lparr>owner_pid = 9, owner_started_at_unix_micros = 1, owner_uid = 501\<rparr>"

definition demo_controller :: "u32 \<Rightarrow> string \<Rightarrow> string option \<Rightarrow> process_record" where
  "demo_controller p name selector = (plain_process p 1)\<lparr>runtime := no_runtime_facts\<lparr>playwright_cli :=
     Some \<lparr>cli_session_name = name, cli_version = ''1'', cli_persistent = False, cli_attached = False, cli_selector_fingerprint = selector\<rparr>\<rparr>\<rparr>"

definition demo_task_scan :: snapshot where
  "demo_task_scan = covering_snapshot 3 [demo_controller 7 (session_name_from_id demo_id) None]"

definition demo_owner_scan :: snapshot where
  "demo_owner_scan = covering_snapshot 3 [demo_controller 8 ''tab'' (Some demo_selector)]"

lemma demo_words: "valid_task_id demo_id" "length demo_id = 32" "length demo_selector = 16" "valid_ordinary_session_name ''tab''"
    "list_all (\<lambda>byte. is_ascii_digit byte \<or> byte_between 97 102 byte) demo_selector" "task_id_from_session ''tab'' = None"
    "length (demo_token 0) = 32" "length (demo_token (Suc 0)) = 32"
  by code_simp+

lemma demo_session: "task_id_from_session (session_name_from_id demo_id) = Some demo_id"
  by (simp add: task_id_from_session_Some demo_words)

lemma empty_random: "t_random empty_store n = demo_token n"
  by (simp add: empty_store_def demo_token_def)

lemma demo_fields:
  "uid (demo_controller p n sel) = 501" "task_session_name (runtime (demo_controller p n sel)) = None"
  "started_at_unix_micros (identity (demo_controller p n sel)) = 1000" "exact_match (identity (demo_controller p n sel)) (identity (demo_controller p n sel))"
  "executable_device (identity (demo_controller p n sel)) = Some 1" "executable_inode (identity (demo_controller p n sel)) = Some 7"
  "playwright_cli (runtime (demo_controller p n sel)) = Some \<lparr>cli_session_name = n, cli_version = ''1'', cli_persistent = False,
     cli_attached = False, cli_selector_fingerprint = sel\<rparr>"
  by (simp_all add: demo_controller_def plain_process_def plain_identity_def no_runtime_facts_def exact_match_def)

lemma empty_tables [simp]: "t_tasks empty_store = []" "t_task_controllers empty_store = []" "t_leases empty_store = []"
    "t_lease_controllers empty_store = []" "t_draws empty_store = 0"
  by (simp_all add: empty_store_def)

lemmas demo_eval = ownership_apply_def db_ops random_token_def sqlite_millis_def sqlite_u64_def i64_try_from_def saturating_mul_def
  update_where_def empty_random demo_words demo_session demo_fields

abbreviation demo_task where
  "demo_task \<equiv> (new_task demo_id (demo_token 0) demo_registrar 0)\<lparr>ts_owner := Some demo_registrar, ts_activated_at := Some 0\<rparr>"

lemma demo_reserved:
  "ownership_apply (ReserveTask demo_id demo_registrar 0) empty_store =
     empty_store\<lparr>t_tasks := [new_task demo_id (demo_token 0) demo_registrar 0], t_draws := 1\<rparr>"
  by (simp add: demo_eval reserve_task_def find_task_def tasks_ok_def task_check_def new_task_def)

lemma demo_activated:
  "ownership_apply (ActivateTask demo_id demo_registrar 0)
     (empty_store\<lparr>t_tasks := [new_task demo_id (demo_token 0) demo_registrar 0], t_draws := 1\<rparr>) =
   empty_store\<lparr>t_tasks := [demo_task], t_draws := 1\<rparr>"
  by (simp add: demo_eval activate_task_def find_task_def new_task_def)

definition demo_bound_store :: store where
  "demo_bound_store = empty_store\<lparr>t_tasks := [demo_task], t_draws := 1, t_task_controllers :=
     [\<lparr>tc_identity_key = fingerprint_process_identity (identity (demo_controller 7 (session_name_from_id demo_id) None)), tc_task_id = demo_id,
       tc_identity = identity (demo_controller 7 (session_name_from_id demo_id) None),
       tc_incident_id = controller_incident_id (demo_controller 7 (session_name_from_id demo_id) None)\<rparr>]\<rparr>"

lemma demo_scanned: "ownership_apply (BindTasks demo_task_scan) (empty_store\<lparr>t_tasks := [demo_task], t_draws := 1\<rparr>) = demo_bound_store"
  by (simp add: demo_eval bind_task_controllers_def task_scopes_def task_scope_of_row_def new_task_def parse_optional_millis_def
      parse_nonnegative_millis_def demo_task_scan_def covering_snapshot_def bind_task_controller_def task_admitting_def born_within_def
      task_controllers_ok_def task_controller_bindings_def retire_task_def released_before_def demo_bound_store_def)
     (simp add: demo_registrar_def)

lemma demo_history:
  "ownership_history [ReserveTask demo_id demo_registrar 0, ActivateTask demo_id demo_registrar 0, BindTasks demo_task_scan] empty_store =
     demo_bound_store"
  by (simp add: ownership_history_def demo_reserved demo_activated demo_scanned del: One_nat_def)


lemma demo_bindings:
  "task_controller_bindings demo_bound_store = Inr ([\<lparr>tb_task_id = demo_id,
     tb_controller = identity (demo_controller 7 (session_name_from_id demo_id) None), tb_released = False\<rparr>], demo_bound_store)"
  by (simp add: task_controller_bindings_def db_ops demo_bound_store_def new_task_def)

theorem task_bindings_grounded_witness:
  "\<exists>c\<in>set [ReserveTask demo_id demo_registrar 0, ActivateTask demo_id demo_registrar 0, BindTasks demo_task_scan].
     task_admits c (task_terms demo_task) (identity (demo_controller 7 (session_name_from_id demo_id) None))"
  using task_bindings_grounded [of "[ReserveTask demo_id demo_registrar 0, ActivateTask demo_id demo_registrar 0, BindTasks demo_task_scan]",
      unfolded demo_history, OF demo_bindings] by (simp add: demo_bound_store_def)

abbreviation demo_lease :: lease_row where
  "demo_lease \<equiv> \<lparr>le_lease_id = demo_token 0, le_capability = demo_token (Suc 0), le_selector_fingerprint = demo_selector,
     le_session_name = ''tab'', le_controller_version = ''1'', le_generation = 1, le_registrar = demo_registrar, le_owner = None,
     le_created_at = 0, le_activated_at = None, le_released_at = None, le_release_reason = None\<rparr>"

lemma demo_declared:
  "ownership_apply (DeclareOwner demo_selector ''tab'' ''1'' demo_registrar 0) empty_store = empty_store\<lparr>t_leases := [demo_lease], t_draws := Suc (Suc 0)\<rparr>"
  by (simp add: demo_eval declare_session_owner_def active_lease_def declare_generation_def next_generation_def max_session_owner_leases_def
      leases_ok_def lease_check_def lease_view_def)

lemma demo_owner_activated:
  "ownership_apply (ActivateOwner (demo_token 0) demo_registrar 0) (empty_store\<lparr>t_leases := [demo_lease], t_draws := Suc (Suc 0)\<rparr>) =
     empty_store\<lparr>t_leases := [demo_lease\<lparr>le_owner := Some demo_registrar, le_activated_at := Some 0\<rparr>], t_draws := Suc (Suc 0)\<rparr>"
  by (simp add: demo_eval activate_session_owner_def find_lease_def)

definition demo_owner_store :: store where
  "demo_owner_store = empty_store\<lparr>t_leases := [demo_lease\<lparr>le_owner := Some demo_registrar, le_activated_at := Some 0\<rparr>], t_draws := Suc (Suc 0),
     t_lease_controllers := [\<lparr>lc_identity_key = fingerprint_process_identity (identity (demo_controller 8 ''tab'' (Some demo_selector))),
       lc_lease_id = demo_token 0, lc_identity = identity (demo_controller 8 ''tab'' (Some demo_selector)),
       lc_incident_id = controller_incident_id (demo_controller 8 ''tab'' (Some demo_selector))\<rparr>]\<rparr>"

lemma demo_owner_scanned:
  "ownership_apply (BindOwners demo_owner_scan)
     (empty_store\<lparr>t_leases := [demo_lease\<lparr>le_owner := Some demo_registrar, le_activated_at := Some 0\<rparr>], t_draws := Suc (Suc 0)\<rparr>) = demo_owner_store"
  by (simp add: demo_eval bind_session_owner_controllers_def current_session_owner_scopes_def session_owner_scopes_def
      session_owner_scope_of_row_def parse_optional_millis_def parse_nonnegative_millis_def demo_owner_scan_def covering_snapshot_def
      bind_session_owner_controller_def lease_admitting_def born_within_def lease_controllers_ok_def prune_session_owner_leases_def
      retire_lease_def released_before_def demo_owner_store_def keep_newest_def bt_get_def bt_values_def)
     (simp add: demo_registrar_def)

lemma demo_owner_history:
  "ownership_history [DeclareOwner demo_selector ''tab'' ''1'' demo_registrar 0, ActivateOwner (demo_token 0) demo_registrar 0,
     BindOwners demo_owner_scan] empty_store = demo_owner_store"
  unfolding ownership_history_def fold_simps demo_declared demo_owner_activated demo_owner_scanned ..

lemma demo_owner_bindings:
  "session_owner_bindings demo_owner_store = Inr ([\<lparr>sb_lease_id = demo_token 0, sb_selector_fingerprint = demo_selector, sb_session_name = ''tab'',
     sb_controller_version = ''1'', sb_controller = identity (demo_controller 8 ''tab'' (Some demo_selector)), sb_released = False\<rparr>], demo_owner_store)"
  by (simp add: session_owner_bindings_def db_ops demo_owner_store_def current_session_owner_scopes_def session_owner_scopes_def
      session_owner_scope_of_row_def parse_optional_millis_def parse_nonnegative_millis_def keep_newest_def bt_get_def bt_values_def
      bt_of_list_def session_owner_binding_of_def List.map_filter_def)

theorem owner_bindings_current_witness:
  "\<exists>c\<in>set [DeclareOwner demo_selector ''tab'' ''1'' demo_registrar 0, ActivateOwner (demo_token 0) demo_registrar 0, BindOwners demo_owner_scan].
     owner_admits c (owner_terms (demo_lease\<lparr>le_owner := Some demo_registrar, le_activated_at := Some 0\<rparr>))
       (identity (demo_controller 8 ''tab'' (Some demo_selector)))"
  using owner_bindings_current [of "[DeclareOwner demo_selector ''tab'' ''1'' demo_registrar 0, ActivateOwner (demo_token 0) demo_registrar 0,
      BindOwners demo_owner_scan]", unfolded demo_owner_history, OF demo_owner_bindings] by (simp add: demo_owner_store_def)

end
