(* ===== verification/Store_Maintenance.thy ===== *)
theory Store_Maintenance
  imports Store_Leases Core_Storage
begin

text \<open>
  The maintenance ledgers of the store: storage cleanup attempts with the latest residue observation
  (\<open>crates/unlinger-daemon/src/store.rs\<close>) and the attempts of the uv, npm and Node compile caches
  (\<open>store/tool_cache.rs\<close>). \<open>json_len\<close> is the length of the text into which \<open>serde_json\<close>, a library, encodes
  an observation.
\<close>

section \<open>Storage cleanup attempts\<close>

record prepared_storage_cleanup_attempt =
  psa_id :: int
  psa_attempt_token :: string

record storage_cleanup_attempt_record =
  sar_attempt_token :: string
  sar_prepared_at_unix_millis :: u64
  sar_completed_at_unix_millis :: "u64 option"
  sar_disposition :: "storage_cleanup_disposition option"
  sar_planned_candidate_count :: usize
  sar_before_candidate_count :: usize
  sar_before_logical_bytes :: u64
  sar_removed_candidate_count :: "usize option"
  sar_after_candidate_count :: "usize option"
  sar_after_logical_bytes :: "u64 option"
  sar_retained_not_planned_count :: "usize option"

definition max_storage_residue_observation_bytes :: nat where
  "max_storage_residue_observation_bytes = 4 * 1024"

definition nonneg_opt :: "int option \<Rightarrow> bool" where
  "nonneg_opt v = (case v of None \<Rightarrow> True | Some i \<Rightarrow> 0 \<le> i)"

definition storage_attempt_check :: "storage_attempt_row \<Rightarrow> bool" where
  "storage_attempt_check r \<longleftrightarrow> length (sa_token r) = 32 \<and> 0 \<le> sa_prepared_at r
     \<and> (case sa_completed_at r of None \<Rightarrow> True | Some t \<Rightarrow> sa_prepared_at r \<le> t)
     \<and> (case sa_disposition r of None \<Rightarrow> True | Some d \<Rightarrow> d \<in> {''complete'', ''partial'', ''failed'', ''delivery_unknown''})
     \<and> 0 \<le> sa_planned r \<and> 0 \<le> sa_before_count r \<and> 0 \<le> sa_before_bytes r
     \<and> nonneg_opt (sa_removed r) \<and> nonneg_opt (sa_after_count r) \<and> nonneg_opt (sa_after_bytes r) \<and> nonneg_opt (sa_retained_not_planned r)
     \<and> sa_planned r \<le> sa_before_count r \<and> (sa_completed_at r = None \<longleftrightarrow> sa_disposition r = None)"

definition storage_attempts_ok :: "store \<Rightarrow> bool" where
  "storage_attempts_ok s \<longleftrightarrow> list_all storage_attempt_check (t_storage_attempts s)
     \<and> distinct (map sa_id (t_storage_attempts s)) \<and> distinct (map sa_token (t_storage_attempts s))"

definition storage_residue_ok :: "store \<Rightarrow> bool" where
  "storage_residue_ok s = (case t_storage_residue s of None \<Rightarrow> True | Some r \<Rightarrow> 0 \<le> sl_observed_at r)"

definition write_residue :: "int \<Rightarrow> storage_residue_observation \<Rightarrow> unit db" where
  "write_residue observed_at observation =
     db_constrained storage_residue_ok (\<lambda>s. s\<lparr>t_storage_residue := Some \<lparr>sl_observed_at = observed_at, sl_payload = observation\<rparr>\<rparr>)"

text \<open>The residue kind has one value, so that the test of the kind cannot fail.\<close>

definition record_storage_residue_observation ::
    "(storage_residue_observation \<Rightarrow> nat) \<Rightarrow> storage_residue_observation \<Rightarrow> unit db" where
  "record_storage_residue_observation json_len observation =
     db_bind (db_require (sro_kind observation = ChromeCodeSignClone)
       (Invalid ''storage residue observations must remain typed'')) (\<lambda>_.
     db_bind (db_require (json_len observation \<le> max_storage_residue_observation_bytes)
       (Invalid ''storage residue observation exceeds its storage bound'')) (\<lambda>_.
     db_bind (db_lift (sqlite_millis (sro_observed_at_unix_millis observation) ''storage residue observation timestamp'')) (\<lambda>observed_at.
     write_residue observed_at observation)))"

definition latest_storage_residue_observation ::
    "(storage_residue_observation \<Rightarrow> nat) \<Rightarrow> storage_residue_observation option db" where
  "latest_storage_residue_observation json_len =
     db_bind (db_read t_storage_residue) (\<lambda>found.
     case found of
       None \<Rightarrow> db_return None
     | Some row \<Rightarrow>
         db_bind (db_require (json_len (sl_payload row) \<le> max_storage_residue_observation_bytes)
           (Corrupt ''persisted storage residue observation exceeds its bound'')) (\<lambda>_.
         db_bind (db_lift (parse_nonnegative_millis (sl_observed_at row) ''storage residue observation timestamp'')) (\<lambda>indexed_at.
         db_bind (db_require (sro_kind (sl_payload row) = ChromeCodeSignClone
             \<and> sro_observed_at_unix_millis (sl_payload row) = indexed_at)
           (Corrupt ''storage residue index disagrees with its typed payload'')) (\<lambda>_.
         db_return (Some (sl_payload row))))))"

definition storage_open :: "storage_attempt_row \<Rightarrow> bool" where
  "storage_open r \<longleftrightarrow> sa_disposition r = None"

definition finalize_unknown_storage_cleanup_attempts :: "int \<Rightarrow> nat db" where
  "finalize_unknown_storage_cleanup_attempts completed_at =
     db_bind (db_read (\<lambda>s. length (filter storage_open (t_storage_attempts s)))) (\<lambda>updated.
     db_bind (db_constrained storage_attempts_ok (\<lambda>s. s\<lparr>t_storage_attempts := update_where storage_open
       (\<lambda>r. r\<lparr>sa_completed_at := Some (max completed_at (sa_prepared_at r)), sa_disposition := Some ''delivery_unknown''\<rparr>)
       (t_storage_attempts s)\<rparr>)) (\<lambda>_.
     db_return updated))"

definition begin_storage_cleanup_attempt ::
    "u64 \<Rightarrow> storage_cleanup_attempt_facts \<Rightarrow> prepared_storage_cleanup_attempt db" where
  "begin_storage_cleanup_attempt prepared_at_unix_millis facts =
     db_bind (db_require (sca_planned_candidate_count facts \<noteq> 0)
       (Invalid ''a storage cleanup attempt must plan at least one candidate'')) (\<lambda>_.
     db_bind (db_require (sca_planned_candidate_count facts \<le> sca_before_candidate_count facts)
       (Invalid ''a storage cleanup plan cannot exceed the observed candidate set'')) (\<lambda>_.
     db_bind (db_lift (sqlite_millis prepared_at_unix_millis ''storage cleanup preparation timestamp'')) (\<lambda>prepared_at.
     db_bind (db_lift (sqlite_usize (sca_planned_candidate_count facts) ''storage cleanup planned candidate count'')) (\<lambda>planned.
     db_bind (db_lift (sqlite_usize (sca_before_candidate_count facts) ''storage cleanup observed candidate count'')) (\<lambda>before_count.
     db_bind (db_lift (sqlite_u64 (sca_before_logical_bytes facts) ''storage cleanup observed logical bytes'')) (\<lambda>before_bytes.
     db_bind (finalize_unknown_storage_cleanup_attempts prepared_at) (\<lambda>_.
     db_bind (db_read t_next_storage_attempt_id) (\<lambda>row_id.
     db_bind random_token (\<lambda>token.
     db_bind (db_constrained storage_attempts_ok (\<lambda>s. s\<lparr>t_storage_attempts := t_storage_attempts s @
       [\<lparr>sa_id = row_id, sa_token = token, sa_prepared_at = prepared_at, sa_completed_at = None, sa_disposition = None,
         sa_planned = planned, sa_before_count = before_count, sa_before_bytes = before_bytes, sa_removed = None,
         sa_after_count = None, sa_after_bytes = None, sa_retained_not_planned = None\<rparr>],
       t_next_storage_attempt_id := row_id + 1\<rparr>)) (\<lambda>_.
     db_return \<lparr>psa_id = row_id, psa_attempt_token = token\<rparr>))))))))))"

text \<open>The counts that a result must carry, by disposition.\<close>

definition check_storage_result :: "storage_cleanup_result_facts \<Rightarrow> store_error + unit" where
  "check_storage_result result =
     (case scr_disposition result of
        StorageDeliveryUnknown \<Rightarrow> Inl (Invalid ''delivery_unknown results are only recorded by recovery'')
      | StorageFailed \<Rightarrow>
          (case (scr_removed_candidate_count result, scr_after_candidate_count result, scr_after_logical_bytes result,
                 scr_retained_not_planned_count result) of
             (Some removed, Some after_count, Some _, Some retained_not_planned) \<Rightarrow>
               if scr_planned_candidate_count result < removed
               then Inl (Invalid ''a storage cleanup result cannot remove unplanned candidates'')
               else
                 let retained_planned = scr_planned_candidate_count result - removed
                 in if after_count < retained_planned \<or> after_count - retained_planned \<noteq> retained_not_planned
                    then Inl (Invalid ''a storage cleanup result must be internally consistent'')
                    else Inr ()
           | _ \<Rightarrow> Inr ())
      | disposition \<Rightarrow>
          (case (scr_removed_candidate_count result, scr_after_candidate_count result, scr_after_logical_bytes result,
                 scr_retained_not_planned_count result) of
             (Some removed, Some after_count, Some _, Some retained_not_planned) \<Rightarrow>
               if removed \<noteq> scr_planned_candidate_count result
               then Inl (Invalid ''a complete or partial storage cleanup result must remove every planned candidate'')
               else if after_count \<noteq> (if disposition = StorageComplete then 0 else retained_not_planned)
               then Inl (Invalid ''a storage cleanup result must be internally consistent'')
               else Inr ()
           | _ \<Rightarrow> Inl (Invalid ''a complete or partial storage cleanup result requires proved counts'')))"

definition sqlite_usize_opt :: "usize option \<Rightarrow> string \<Rightarrow> store_error + int option" where
  "sqlite_usize_opt v label = (case v of None \<Rightarrow> Inr None | Some n \<Rightarrow> map_sum id Some (sqlite_usize n label))"

definition sqlite_u64_opt :: "u64 option \<Rightarrow> string \<Rightarrow> store_error + int option" where
  "sqlite_u64_opt v label = (case v of None \<Rightarrow> Inr None | Some n \<Rightarrow> map_sum id Some (sqlite_u64 n label))"

definition result_agrees :: "storage_cleanup_result_facts \<Rightarrow> storage_residue_observation \<Rightarrow> bool" where
  "result_agrees result observation =
     (case (scr_after_candidate_count result, scr_after_logical_bytes result) of
        (Some after_count, Some after_bytes) \<Rightarrow>
          after_count = sro_candidate_count observation \<and> after_bytes = sro_logical_bytes observation
      | _ \<Rightarrow> True)"

definition settle_storage_attempt ::
    "prepared_storage_cleanup_attempt \<Rightarrow> (storage_attempt_row \<Rightarrow> bool) \<Rightarrow> (storage_attempt_row \<Rightarrow> storage_attempt_row) \<Rightarrow> unit db" where
  "settle_storage_attempt prepared facts_match settle =
     (let selected = (\<lambda>r. sa_id r = psa_id prepared \<and> sa_token r = psa_attempt_token prepared \<and> storage_open r \<and> facts_match r)
      in db_bind (db_read (\<lambda>s. length (filter selected (t_storage_attempts s)))) (\<lambda>updated.
         db_bind (db_constrained storage_attempts_ok (\<lambda>s. s\<lparr>t_storage_attempts :=
           update_where selected settle (t_storage_attempts s)\<rparr>)) (\<lambda>_.
         db_require (updated = 1)
           (Invalid ''storage cleanup attempt is not open or its result facts disagree with PREPARED''))))"

definition complete_storage_cleanup_attempt ::
    "(storage_residue_observation \<Rightarrow> nat) \<Rightarrow> prepared_storage_cleanup_attempt \<Rightarrow> storage_cleanup_result_facts \<Rightarrow>
     storage_residue_observation \<Rightarrow> unit db" where
  "complete_storage_cleanup_attempt json_len prepared result observation =
     db_bind (db_require (sro_kind observation = ChromeCodeSignClone)
       (Invalid ''storage cleanup results must remain typed'')) (\<lambda>_.
     db_bind (db_require (json_len observation \<le> max_storage_residue_observation_bytes)
       (Invalid ''storage residue observation exceeds its storage bound'')) (\<lambda>_.
     db_bind (db_require (scr_planned_candidate_count result \<le> scr_before_candidate_count result)
       (Invalid ''a storage cleanup plan cannot exceed the observed candidate set'')) (\<lambda>_.
     db_bind (db_lift (check_storage_result result)) (\<lambda>_.
     db_bind (db_lift (sqlite_usize_opt (scr_removed_candidate_count result) ''storage cleanup removed candidate count'')) (\<lambda>removed.
     db_bind (db_lift (sqlite_usize_opt (scr_after_candidate_count result) ''storage cleanup after candidate count'')) (\<lambda>after_count.
     db_bind (db_lift (sqlite_u64_opt (scr_after_logical_bytes result) ''storage cleanup after logical bytes'')) (\<lambda>after_bytes.
     db_bind (db_lift (sqlite_usize_opt (scr_retained_not_planned_count result) ''storage cleanup retained candidate count'')) (\<lambda>retained.
     db_bind (db_lift (sqlite_usize (scr_planned_candidate_count result) ''storage cleanup planned candidate count'')) (\<lambda>planned.
     db_bind (db_lift (sqlite_usize (scr_before_candidate_count result) ''storage cleanup observed candidate count'')) (\<lambda>before_count.
     db_bind (db_lift (sqlite_u64 (scr_before_logical_bytes result) ''storage cleanup observed logical bytes'')) (\<lambda>before_bytes.
     db_bind (db_require (result_agrees result observation)
       (Invalid ''a storage cleanup result must agree with its latest residue observation'')) (\<lambda>_.
     db_bind (db_lift (sqlite_millis (sro_observed_at_unix_millis observation) ''storage cleanup completion timestamp'')) (\<lambda>completed_at.
     db_bind (db_lift (sqlite_millis (sro_observed_at_unix_millis observation) ''storage residue observation timestamp'')) (\<lambda>observed_at.
     db_bind (settle_storage_attempt prepared
       (\<lambda>r. sa_planned r = planned \<and> sa_before_count r = before_count \<and> sa_before_bytes r = before_bytes)
       (\<lambda>r. r\<lparr>sa_completed_at := Some completed_at, sa_disposition := Some (storage_disposition_as_str (scr_disposition result)),
              sa_removed := removed, sa_after_count := after_count, sa_after_bytes := after_bytes,
              sa_retained_not_planned := retained\<rparr>)) (\<lambda>_.
     write_residue observed_at observation)))))))))))))))"

definition recover_storage_cleanup_attempts :: "u64 \<Rightarrow> nat db" where
  "recover_storage_cleanup_attempts occurred_at_unix_millis =
     db_bind (db_lift (sqlite_millis occurred_at_unix_millis ''storage cleanup recovery timestamp''))
       finalize_unknown_storage_cleanup_attempts"

definition parse_nonnegative_u64 :: "int \<Rightarrow> string \<Rightarrow> store_error + u64" where
  "parse_nonnegative_u64 v label = (if v < 0 then Inl (Corrupt (label @ '' is negative'')) else Inr (word_of_int v))"

definition parse_nonnegative_usize :: "int \<Rightarrow> string \<Rightarrow> store_error + usize" where
  "parse_nonnegative_usize v label = (if v < 0 then Inl (Corrupt (label @ '' is negative'')) else Inr (nat v))"

definition parse_opt :: "(int \<Rightarrow> string \<Rightarrow> store_error + 'a) \<Rightarrow> int option \<Rightarrow> string \<Rightarrow> store_error + 'a option" where
  "parse_opt parse v label = (case v of None \<Rightarrow> Inr None | Some i \<Rightarrow> map_sum id Some (parse i label))"

definition parse_storage_disposition :: "string option \<Rightarrow> store_error + storage_cleanup_disposition option" where
  "parse_storage_disposition v =
     (case v of
        None \<Rightarrow> Inr None
      | Some value \<Rightarrow>
          (case storage_disposition_parse value of
             None \<Rightarrow> Inl (Corrupt ''unknown storage cleanup disposition'')
           | Some d \<Rightarrow> Inr (Some d)))"

definition latest_storage_cleanup_attempt :: "storage_cleanup_attempt_record option db" where
  "latest_storage_cleanup_attempt =
     db_bind (db_read (\<lambda>s. rev (sort_key sa_id (t_storage_attempts s)))) (\<lambda>found.
     case found of
       [] \<Rightarrow> db_return None
     | r # _ \<Rightarrow>
         db_bind (db_lift (parse_nonnegative_millis (sa_prepared_at r) ''storage cleanup preparation timestamp'')) (\<lambda>prepared_at.
         db_bind (db_lift (parse_opt parse_nonnegative_millis (sa_completed_at r) ''storage cleanup completion timestamp'')) (\<lambda>completed_at.
         db_bind (db_lift (parse_storage_disposition (sa_disposition r))) (\<lambda>disposition.
         db_bind (db_lift (parse_nonnegative_usize (sa_planned r) ''storage cleanup planned candidate count'')) (\<lambda>planned.
         db_bind (db_lift (parse_nonnegative_usize (sa_before_count r) ''storage cleanup observed candidate count'')) (\<lambda>before_count.
         db_bind (db_lift (parse_nonnegative_u64 (sa_before_bytes r) ''storage cleanup observed logical bytes'')) (\<lambda>before_bytes.
         db_bind (db_lift (parse_opt parse_nonnegative_usize (sa_removed r) ''removed candidate count'')) (\<lambda>removed.
         db_bind (db_lift (parse_opt parse_nonnegative_usize (sa_after_count r) ''after candidate count'')) (\<lambda>after_count.
         db_bind (db_lift (parse_opt parse_nonnegative_u64 (sa_after_bytes r) ''after logical bytes'')) (\<lambda>after_bytes.
         db_bind (db_lift (parse_opt parse_nonnegative_usize (sa_retained_not_planned r) ''retained not-planned candidate count'')) (\<lambda>retained.
         db_return (Some \<lparr>sar_attempt_token = sa_token r, sar_prepared_at_unix_millis = prepared_at,
           sar_completed_at_unix_millis = completed_at, sar_disposition = disposition, sar_planned_candidate_count = planned,
           sar_before_candidate_count = before_count, sar_before_logical_bytes = before_bytes,
           sar_removed_candidate_count = removed, sar_after_candidate_count = after_count,
           sar_after_logical_bytes = after_bytes, sar_retained_not_planned_count = retained\<rparr>))))))))))))"


section \<open>Cache attempts\<close>

record prepared_tool_cache_attempt =
  ptc_token :: string
  ptc_prepared_at_unix_millis :: u64
  ptc_kind :: tool_cache_kind

definition cache_check :: "'r cache_row option \<Rightarrow> bool" where
  "cache_check r = (case r of None \<Rightarrow> True | Some row \<Rightarrow> 0 \<le> ca_observed_at row)"

text \<open>\<open>INSERT .. ON CONFLICT(singleton) DO UPDATE\<close>: the attempt of an existing row stays.\<close>

definition observed_row :: "int \<Rightarrow> tool_cache_availability \<Rightarrow> 'r cache_row option \<Rightarrow> 'r cache_row" where
  "observed_row observed_at availability r =
     (case r of
        None \<Rightarrow> \<lparr>ca_observed_at = observed_at, ca_availability = availability, ca_token = None, ca_attempt = None\<rparr>
      | Some row \<Rightarrow> row\<lparr>ca_observed_at := observed_at, ca_availability := availability\<rparr>)"

definition record_tool_cache_observation :: "u64 \<Rightarrow> tool_cache_availability \<Rightarrow> unit db" where
  "record_tool_cache_observation now availability =
     db_bind (db_lift (sqlite_millis now ''cache observation'')) (\<lambda>observed_at.
     db_constrained (\<lambda>s. cache_check (t_tool_cache s))
       (\<lambda>s. s\<lparr>t_tool_cache := Some (observed_row observed_at availability (t_tool_cache s))\<rparr>))"

definition record_node_compile_cache_observation :: "u64 \<Rightarrow> tool_cache_availability \<Rightarrow> unit db" where
  "record_node_compile_cache_observation now availability =
     db_bind (db_lift (sqlite_millis now ''node cache observation'')) (\<lambda>observed_at.
     db_constrained (\<lambda>s. cache_check (t_node_compile_cache s))
       (\<lambda>s. s\<lparr>t_node_compile_cache := Some (observed_row observed_at availability (t_node_compile_cache s))\<rparr>))"

definition latest_tool_cache_maintenance :: "tool_cache_maintenance_summary option db" where
  "latest_tool_cache_maintenance =
     db_bind (db_read t_tool_cache) (\<lambda>found.
     case found of
       None \<Rightarrow> db_return None
     | Some row \<Rightarrow>
         db_bind (db_lift (parse_nonnegative_millis (ca_observed_at row) ''cache observation'')) (\<lambda>observed_at.
         db_return (Some \<lparr>tcm_kind = UvCache, tcm_observed_at_unix_millis = observed_at, tcm_availability = ca_availability row,
           tcm_automatic_maintenance_eligible = False, tcm_last_attempt = ca_attempt row\<rparr>)))"

definition retired_outcome :: "tool_cache_attempt_summary \<Rightarrow> tool_cache_attempt_summary" where
  "retired_outcome r = (if tca_outcome r = CacheNoOp then r\<lparr>tca_outcome := CacheCompleted\<rparr> else r)"

definition retired_npm_cache_maintenance :: "tool_cache_maintenance_summary option db" where
  "retired_npm_cache_maintenance =
     db_bind (db_read t_retired_npm_cache) (\<lambda>found.
     case found of
       None \<Rightarrow> db_return None
     | Some row \<Rightarrow>
         db_bind (db_lift (parse_nonnegative_millis (ca_observed_at row) ''cache observation'')) (\<lambda>observed_at.
         db_return (Some \<lparr>tcm_kind = NpmDownloadCache, tcm_observed_at_unix_millis = observed_at, tcm_availability = CacheUnsupported,
           tcm_automatic_maintenance_eligible = False, tcm_last_attempt = map_option retired_outcome (ca_attempt row)\<rparr>)))"

definition latest_node_compile_cache_maintenance :: "node_compile_cache_maintenance_summary option db" where
  "latest_node_compile_cache_maintenance =
     db_bind (db_read t_node_compile_cache) (\<lambda>found.
     case found of
       None \<Rightarrow> db_return None
     | Some row \<Rightarrow>
         db_bind (db_lift (parse_nonnegative_millis (ca_observed_at row) ''node cache observation'')) (\<lambda>observed_at.
         db_return (Some \<lparr>ncm_kind = NodeCompileCache, ncm_observed_at_unix_millis = observed_at, ncm_availability = ca_availability row,
           ncm_automatic_maintenance_eligible = False, ncm_last_attempt = ca_attempt row\<rparr>)))"

definition running_tool_attempt :: "u64 \<Rightarrow> tool_cache_attempt_summary" where
  "running_tool_attempt now = \<lparr>tca_outcome = CacheRunning, tca_prepared_at_unix_millis = now, tca_completed_at_unix_millis = None,
     tca_native_removed_entry_count = None, tca_native_removed_logical_bytes = None\<rparr>"

definition begin_tool_cache_attempt :: "u64 \<Rightarrow> prepared_tool_cache_attempt db" where
  "begin_tool_cache_attempt now =
     db_bind (db_read (\<lambda>s. Option.bind (t_tool_cache s) ca_attempt)) (\<lambda>previous.
     db_bind (db_require (map_option tca_outcome previous \<noteq> Some CacheRunning) (Invalid ''cache maintenance already prepared'')) (\<lambda>_.
     db_bind (record_tool_cache_observation now CacheAvailable) (\<lambda>_.
     db_bind random_token (\<lambda>token.
     db_bind (db_write (\<lambda>s. s\<lparr>t_tool_cache := map_option
       (\<lambda>row. row\<lparr>ca_token := Some token, ca_attempt := Some (running_tool_attempt now)\<rparr>) (t_tool_cache s)\<rparr>)) (\<lambda>_.
     db_return \<lparr>ptc_token = token, ptc_prepared_at_unix_millis = now, ptc_kind = UvCache\<rparr>)))))"

definition tool_result_ok :: "prepared_tool_cache_attempt \<Rightarrow> tool_cache_attempt_summary \<Rightarrow> u64 \<Rightarrow> bool" where
  "tool_result_ok prepared result completed \<longleftrightarrow>
     (let success = (tca_outcome result \<in> {CacheCompleted, CacheNoOp})
      in \<not> (ptc_kind prepared \<noteq> UvCache
         \<or> tca_outcome result \<in> {CacheRunning, CacheNoOp}
         \<or> tca_prepared_at_unix_millis result \<noteq> ptc_prepared_at_unix_millis prepared
         \<or> completed < ptc_prepared_at_unix_millis prepared
         \<or> (\<not> success \<and> (tca_native_removed_entry_count result \<noteq> None \<or> tca_native_removed_logical_bytes result \<noteq> None))
         \<or> (tca_outcome result = CacheNoOp
            \<and> (tca_native_removed_entry_count result \<noteq> Some 0 \<or> tca_native_removed_logical_bytes result \<noteq> Some 0))))"

definition holds_token :: "string \<Rightarrow> 'r cache_row option \<Rightarrow> bool" where
  "holds_token token r = (Option.bind r ca_token = Some token)"

definition settled_row :: "'r \<Rightarrow> 'r cache_row \<Rightarrow> 'r cache_row" where
  "settled_row result row = row\<lparr>ca_attempt := Some result, ca_token := None\<rparr>"

definition complete_tool_cache_attempt ::
    "prepared_tool_cache_attempt \<Rightarrow> tool_cache_attempt_summary \<Rightarrow> tool_cache_availability \<Rightarrow> unit db" where
  "complete_tool_cache_attempt prepared result availability =
     (case tca_completed_at_unix_millis result of
        None \<Rightarrow> db_fail (Invalid ''cache result has no completion time'')
      | Some completed \<Rightarrow>
          db_bind (db_require (tool_result_ok prepared result completed) (Invalid ''inconsistent cache result'')) (\<lambda>_.
          db_bind (db_read (\<lambda>s. holds_token (ptc_token prepared) (t_tool_cache s))) (\<lambda>changed.
          db_bind (db_require changed (Invalid ''cache attempt is no longer prepared'')) (\<lambda>_.
          db_bind (db_write (\<lambda>s. s\<lparr>t_tool_cache := map_option (settled_row result) (t_tool_cache s)\<rparr>)) (\<lambda>_.
          record_tool_cache_observation completed availability)))))"

text \<open>Recovery settles an attempt that was left open as unknown, without counters.\<close>

definition unknown_tool_attempt :: "u64 \<Rightarrow> tool_cache_attempt_summary \<Rightarrow> tool_cache_attempt_summary" where
  "unknown_tool_attempt now r = r\<lparr>tca_outcome := CacheDeliveryUnknown,
     tca_completed_at_unix_millis := Some (max now (tca_prepared_at_unix_millis r)),
     tca_native_removed_entry_count := None, tca_native_removed_logical_bytes := None\<rparr>"

definition recover_cache_attempt_in ::
    "(store \<Rightarrow> tool_cache_attempt_summary cache_row option) \<Rightarrow>
     ((tool_cache_attempt_summary cache_row option \<Rightarrow> tool_cache_attempt_summary cache_row option) \<Rightarrow> store \<Rightarrow> store) \<Rightarrow> u64 \<Rightarrow> bool db" where
  "recover_cache_attempt_in table update now =
     db_bind (db_read table) (\<lambda>found.
     case found of
       None \<Rightarrow> db_return False
     | Some row \<Rightarrow>
         if ca_token row = None then db_return False
         else
           (case ca_attempt row of
              None \<Rightarrow> db_fail (Sqlite ''Invalid column type Null at index: 0, name: attempt_json'')
            | Some attempt \<Rightarrow>
                db_bind (db_write (update (map_option (settled_row (unknown_tool_attempt now attempt))))) (\<lambda>_.
                db_return True)))"

definition recover_tool_cache_attempt :: "u64 \<Rightarrow> bool db" where
  "recover_tool_cache_attempt now = recover_cache_attempt_in t_tool_cache t_tool_cache_update now"

definition recover_retired_npm_cache_attempt :: "u64 \<Rightarrow> bool db" where
  "recover_retired_npm_cache_attempt now = recover_cache_attempt_in t_retired_npm_cache t_retired_npm_cache_update now"

definition running_node_attempt :: "u64 \<Rightarrow> node_compile_cache_attempt_summary" where
  "running_node_attempt now = \<lparr>nca_outcome = CacheRunning, nca_prepared_at_unix_millis = now, nca_completed_at_unix_millis = None,
     nca_removed_entry_count = None, nca_removed_logical_bytes = None\<rparr>"

definition begin_node_compile_cache_attempt :: "u64 \<Rightarrow> prepared_tool_cache_attempt db" where
  "begin_node_compile_cache_attempt now =
     db_bind (db_read (\<lambda>s. Option.bind (t_node_compile_cache s) ca_token \<noteq> None)) (\<lambda>opened.
     db_bind (db_require (\<not> opened) (Invalid ''node cache maintenance already prepared'')) (\<lambda>_.
     db_bind (record_node_compile_cache_observation now CacheAvailable) (\<lambda>_.
     db_bind random_token (\<lambda>token.
     db_bind (db_write (\<lambda>s. s\<lparr>t_node_compile_cache := map_option
       (\<lambda>row. row\<lparr>ca_token := Some token, ca_attempt := Some (running_node_attempt now)\<rparr>) (t_node_compile_cache s)\<rparr>)) (\<lambda>_.
     db_return \<lparr>ptc_token = token, ptc_prepared_at_unix_millis = now, ptc_kind = NodeCompileCache\<rparr>)))))"

definition node_result_ok :: "prepared_tool_cache_attempt \<Rightarrow> node_compile_cache_attempt_summary \<Rightarrow> u64 \<Rightarrow> bool" where
  "node_result_ok prepared result completed \<longleftrightarrow>
     \<not> (ptc_kind prepared \<noteq> NodeCompileCache
      \<or> nca_outcome result \<in> {CacheRunning, CacheNoOp}
      \<or> nca_prepared_at_unix_millis result \<noteq> ptc_prepared_at_unix_millis prepared
      \<or> completed < ptc_prepared_at_unix_millis prepared
      \<or> (nca_outcome result \<noteq> CacheCompleted \<and> (nca_removed_entry_count result \<noteq> None \<or> nca_removed_logical_bytes result \<noteq> None))
      \<or> (nca_outcome result = CacheCompleted \<and> (nca_removed_entry_count result = None \<or> nca_removed_logical_bytes result = None)))"

definition complete_node_compile_cache_attempt ::
    "prepared_tool_cache_attempt \<Rightarrow> node_compile_cache_attempt_summary \<Rightarrow> tool_cache_availability \<Rightarrow> unit db" where
  "complete_node_compile_cache_attempt prepared result availability =
     (case nca_completed_at_unix_millis result of
        None \<Rightarrow> db_fail (Invalid ''node cache result has no completion time'')
      | Some completed \<Rightarrow>
          db_bind (db_require (node_result_ok prepared result completed) (Invalid ''inconsistent node cache result'')) (\<lambda>_.
          db_bind (db_read (\<lambda>s. holds_token (ptc_token prepared) (t_node_compile_cache s))) (\<lambda>changed.
          db_bind (db_require changed (Invalid ''node cache attempt is no longer prepared'')) (\<lambda>_.
          db_bind (db_write (\<lambda>s. s\<lparr>t_node_compile_cache := map_option (settled_row result) (t_node_compile_cache s)\<rparr>)) (\<lambda>_.
          record_node_compile_cache_observation completed availability)))))"

definition unknown_node_attempt :: "u64 \<Rightarrow> node_compile_cache_attempt_summary \<Rightarrow> node_compile_cache_attempt_summary" where
  "unknown_node_attempt now r = r\<lparr>nca_outcome := CacheDeliveryUnknown,
     nca_completed_at_unix_millis := Some (max now (nca_prepared_at_unix_millis r)),
     nca_removed_entry_count := None, nca_removed_logical_bytes := None\<rparr>"

definition recover_node_compile_cache_attempt :: "u64 \<Rightarrow> bool db" where
  "recover_node_compile_cache_attempt now =
     db_bind (db_read t_node_compile_cache) (\<lambda>found.
     case found of
       None \<Rightarrow> db_return False
     | Some row \<Rightarrow>
         if ca_token row = None then db_return False
         else
           (case ca_attempt row of
              None \<Rightarrow> db_fail (Sqlite ''Invalid column type Null at index: 0, name: attempt_json'')
            | Some attempt \<Rightarrow>
                db_bind (db_write (\<lambda>s. s\<lparr>t_node_compile_cache :=
                  map_option (settled_row (unknown_node_attempt now attempt)) (t_node_compile_cache s)\<rparr>)) (\<lambda>_.
                db_return True)))"

end
