(* ===== verification/Store_Ledgers.thy ===== *)
theory Store_Ledgers
  imports Store_Maintenance
begin

text \<open>
  What the maintenance ledgers promise, stated once for the three of them: an attempt is settled only while it is the open one,
  so that a late result never overwrites a recovery or a newer attempt; and what a settled storage attempt says.
\<close>

section \<open>Commands and their events\<close>

datatype ledger_lane = StorageLane | UvLane | NodeLane

datatype ledger_event = Began ledger_lane string | Settled ledger_lane string | Recovered ledger_lane | Noted

datatype maintenance_command =
    RecordResidue storage_residue_observation
  | BeginStorage u64 storage_cleanup_attempt_facts
  | CompleteStorage prepared_storage_cleanup_attempt storage_cleanup_result_facts storage_residue_observation
  | RecoverStorage u64
  | ObserveUv u64 tool_cache_availability
  | BeginUv u64
  | CompleteUv prepared_tool_cache_attempt tool_cache_attempt_summary tool_cache_availability
  | RecoverUv u64
  | RecoverNpm u64
  | ObserveNode u64 tool_cache_availability
  | BeginNode u64
  | CompleteNode prepared_tool_cache_attempt node_compile_cache_attempt_summary tool_cache_availability
  | RecoverNode u64

definition yields :: "'a db \<Rightarrow> ('a \<Rightarrow> ledger_event) \<Rightarrow> ledger_event db" where
  "yields m e = db_bind m (\<lambda>x. db_return (e x))"

fun run_maintenance :: "(storage_residue_observation \<Rightarrow> nat) \<Rightarrow> maintenance_command \<Rightarrow> ledger_event db" where
  "run_maintenance json_len (RecordResidue ob) = yields (record_storage_residue_observation json_len ob) (\<lambda>_. Noted)"
| "run_maintenance json_len (BeginStorage now facts) =
     yields (begin_storage_cleanup_attempt now facts) (\<lambda>p. Began StorageLane (psa_attempt_token p))"
| "run_maintenance json_len (CompleteStorage p result ob) =
     yields (complete_storage_cleanup_attempt json_len p result ob) (\<lambda>_. Settled StorageLane (psa_attempt_token p))"
| "run_maintenance json_len (RecoverStorage now) = yields (recover_storage_cleanup_attempts now) (\<lambda>_. Recovered StorageLane)"
| "run_maintenance json_len (ObserveUv now av) = yields (record_tool_cache_observation now av) (\<lambda>_. Noted)"
| "run_maintenance json_len (BeginUv now) = yields (begin_tool_cache_attempt now) (\<lambda>p. Began UvLane (ptc_token p))"
| "run_maintenance json_len (CompleteUv p result av) = yields (complete_tool_cache_attempt p result av) (\<lambda>_. Settled UvLane (ptc_token p))"
| "run_maintenance json_len (RecoverUv now) = yields (recover_tool_cache_attempt now) (\<lambda>_. Recovered UvLane)"
| "run_maintenance json_len (RecoverNpm now) = yields (recover_retired_npm_cache_attempt now) (\<lambda>_. Noted)"
| "run_maintenance json_len (ObserveNode now av) = yields (record_node_compile_cache_observation now av) (\<lambda>_. Noted)"
| "run_maintenance json_len (BeginNode now) = yields (begin_node_compile_cache_attempt now) (\<lambda>p. Began NodeLane (ptc_token p))"
| "run_maintenance json_len (CompleteNode p result av) =
     yields (complete_node_compile_cache_attempt p result av) (\<lambda>_. Settled NodeLane (ptc_token p))"
| "run_maintenance json_len (RecoverNode now) = yields (recover_node_compile_cache_attempt now) (\<lambda>_. Recovered NodeLane)"

text \<open>A history: a failing command changes nothing and leaves no event.\<close>

fun maintenance_run :: "(storage_residue_observation \<Rightarrow> nat) \<Rightarrow> maintenance_command list \<Rightarrow> store \<Rightarrow> ledger_event list \<times> store" where
  "maintenance_run json_len [] s = ([], s)"
| "maintenance_run json_len (c # cs) s =
     (case run_maintenance json_len c s of
        Inl e \<Rightarrow> maintenance_run json_len cs s
      | Inr (e, s') \<Rightarrow> (case maintenance_run json_len cs s' of (es, t) \<Rightarrow> (e # es, t)))"

definition open_tokens :: "ledger_lane \<Rightarrow> store \<Rightarrow> string list" where
  "open_tokens lane s =
     (case lane of
        StorageLane \<Rightarrow> map sa_token (filter storage_open (t_storage_attempts s))
      | UvLane \<Rightarrow> (case Option.bind (t_tool_cache s) ca_token of None \<Rightarrow> [] | Some t \<Rightarrow> [t])
      | NodeLane \<Rightarrow> (case Option.bind (t_node_compile_cache s) ca_token of None \<Rightarrow> [] | Some t \<Rightarrow> [t]))"

definition event_lane :: "ledger_event \<Rightarrow> ledger_lane option" where
  "event_lane e = (case e of Began lane t \<Rightarrow> Some lane | Settled lane t \<Rightarrow> Some lane | Recovered lane \<Rightarrow> Some lane | Noted \<Rightarrow> None)"

section \<open>The contract of a ledger\<close>

definition ledger_step :: "ledger_lane \<Rightarrow> ledger_event \<Rightarrow> string list \<Rightarrow> string list \<Rightarrow> bool" where
  "ledger_step lane e before after \<longleftrightarrow>
     (if event_lane e = Some lane
      then (case e of Began _ t \<Rightarrow> after = [t] | Settled _ t \<Rightarrow> before = [t] \<and> after = [] | Recovered _ \<Rightarrow> after = [] | Noted \<Rightarrow> True)
      else after = before)"

locale attempt_ledger =
  fixes lane :: ledger_lane and opens :: "store \<Rightarrow> string list" and json_len :: "storage_residue_observation \<Rightarrow> nat"
  assumes step: "length (opens s) \<le> 1 \<Longrightarrow> run_maintenance json_len c s = Inr (e, s') \<Longrightarrow> ledger_step lane e (opens s) (opens s')"
begin

text \<open>The event that opened what is open: the last event of the lane, if it is a beginning.\<close>

definition opened :: "ledger_event list \<Rightarrow> store \<Rightarrow> bool" where
  "opened es s \<longleftrightarrow> opens s = [] \<or> (\<exists>t us vs. opens s = [t] \<and> es = us @ Began lane t # vs \<and> (\<forall>e\<in>set vs. event_lane e \<noteq> Some lane))"

lemma opened_length: "opened es s \<Longrightarrow> length (opens s) \<le> 1"
  by (auto simp: opened_def)

lemma opened_step:
  assumes "opened es s" "run_maintenance json_len c s = Inr (e, s')"
  shows "opened (es @ [e]) s'"
proof -
  have step: "ledger_step lane e (opens s) (opens s')" by (rule step [OF opened_length [OF assms(1)] assms(2)])
  show ?thesis
  proof (cases "event_lane e = Some lane")
    case True
    show ?thesis
    proof (cases e)
      case (Began l t)
      then have "opens s' = [t]" "e = Began lane t" using True step by (auto simp: ledger_step_def event_lane_def)
      then show ?thesis unfolding opened_def by (metis empty_iff list.set(1))
    qed (use True step in \<open>auto simp: ledger_step_def event_lane_def opened_def\<close>)
  next
    case False
    then have same: "opens s' = opens s" using step by (simp add: ledger_step_def)
    show ?thesis
    proof (cases "opens s = []")
      case nonempty: False
      then obtain t us vs where "opens s = [t]" "es = us @ Began lane t # vs" "\<forall>e\<in>set vs. event_lane e \<noteq> Some lane"
        using assms(1) by (auto simp: opened_def)
      then have "opens s' = [t]" "es @ [e] = us @ Began lane t # (vs @ [e])" "\<forall>x\<in>set (vs @ [e]). event_lane x \<noteq> Some lane"
        using same False by auto
      then show ?thesis unfolding opened_def by blast
    qed (use same in \<open>simp add: opened_def\<close>)
  qed
qed

lemma settled_when_open:
  assumes "opened before s" "fst (maintenance_run json_len cs s) = es @ Settled lane t # rest"
  shows "\<exists>us vs. before @ es = us @ Began lane t # vs \<and> (\<forall>e\<in>set vs. event_lane e \<noteq> Some lane)"
  using assms
proof (induction cs arbitrary: s before es)
  case (Cons c cs)
  show ?case
  proof (cases "run_maintenance json_len c s")
    case (Inl e)
    then show ?thesis using Cons by simp
  next
    case (Inr r)
    then obtain e s' where run: "run_maintenance json_len c s = Inr (e, s')" by (cases r) auto
    then have split: "e # fst (maintenance_run json_len cs s') = es @ Settled lane t # rest"
      using Cons.prems(2) by (simp add: case_prod_beta)
    show ?thesis
    proof (cases es)
      case Nil
      then have "opens s = [t]" using split step [OF opened_length [OF Cons.prems(1)] run] by (simp add: ledger_step_def event_lane_def)
      then show ?thesis using Nil Cons.prems(1) by (auto simp: opened_def)
    next
      case (Cons e' es')
      then show ?thesis using Cons.IH [OF opened_step [OF Cons.prems(1) run], of es'] split by simp
    qed
  qed
qed simp

end

section \<open>The three ledgers\<close>

lemma dwp_yields: "dwp (yields m e) Q s \<longleftrightarrow> dwp m (\<lambda>x s'. Q (e x) s') s"
  unfolding yields_def dwp_def db_bind_Inr by (auto simp: db_simps)

lemma open_elsewhere [simp]:
  "open_tokens lane (s\<lparr>t_draws := d\<rparr>) = open_tokens lane s" "open_tokens lane (s\<lparr>t_storage_residue := r\<rparr>) = open_tokens lane s"
  "open_tokens lane (s\<lparr>t_retired_npm_cache := n\<rparr>) = open_tokens lane s"
  by (cases lane; simp add: open_tokens_def)+

lemma closed_all: "filter storage_open (update_where storage_open (\<lambda>r. r\<lparr>sa_completed_at := f r, sa_disposition := Some d\<rparr>) rows) = []"
  by (auto simp: filter_empty_conv set_update_where storage_open_def)

lemma finalize_closes:
  "dwp (finalize_unknown_storage_cleanup_attempts t) (\<lambda>_ s'. filter storage_open (t_storage_attempts s') = []) s"
  by (simp add: finalize_unknown_storage_cleanup_attempts_def dwp_simps closed_all)

lemma begin_storage_opens:
  "dwp (begin_storage_cleanup_attempt now facts) (\<lambda>p s'. open_tokens StorageLane s' = [psa_attempt_token p]) s"
  unfolding begin_storage_cleanup_attempt_def random_token_def
  by (simp only: dwp_simps) (intro impI allI, rule dwp_mono [OF finalize_closes], simp add: dwp_simps open_tokens_def storage_open_def)

lemma recover_storage_closes: "dwp (recover_storage_cleanup_attempts now) (\<lambda>_ s'. open_tokens StorageLane s' = []) s"
  unfolding recover_storage_cleanup_attempts_def
  by (simp only: dwp_simps) (intro impI allI, rule dwp_mono [OF finalize_closes], simp add: open_tokens_def)

lemma filter_closed_one:
  assumes "\<And>r. P r \<Longrightarrow> \<not> Q (f r)" "\<And>r. P r \<Longrightarrow> Q r" "filter Q rows = [r]" "r' \<in> set rows" "P r'"
  shows "r' = r \<and> filter Q (update_where P f rows) = []"
proof -
  have "r' \<in> set (filter Q rows)" using assms(2,4,5) by simp
  then have "r' = r" using assms(3) by simp
  moreover have "q = r" if "q \<in> set rows" "Q q" for q
  proof -
    have "q \<in> set (filter Q rows)" using that by simp
    then show ?thesis by (simp add: assms(3))
  qed
  ultimately have "\<not> Q (if P q then f q else q)" if "q \<in> set rows" for q
    using that assms(1,5) by (cases "P q") auto
  then show ?thesis using \<open>r' = r\<close> by (auto simp: filter_empty_conv set_update_where)
qed

lemma settle_storage_closes:
  assumes "length (open_tokens StorageLane s) \<le> 1" "\<And>r. sa_disposition (f r) \<noteq> None"
  shows "dwp (settle_storage_attempt p m f) (\<lambda>_ s'. open_tokens StorageLane s = [psa_attempt_token p] \<and> open_tokens StorageLane s' = []) s"
proof -
  let ?P = "\<lambda>r. sa_id r = psa_id p \<and> sa_token r = psa_attempt_token p \<and> storage_open r \<and> m r"
  have "open_tokens StorageLane s = [psa_attempt_token p] \<and> filter storage_open (update_where ?P f (t_storage_attempts s)) = []"
    if one: "length (filter ?P (t_storage_attempts s)) = 1"
  proof -
    have "filter ?P (t_storage_attempts s) \<noteq> []" using one by auto
    then obtain r' where r': "r' \<in> set (t_storage_attempts s)" "?P r'" by (auto simp only: filter_empty_conv)
    then have "filter storage_open (t_storage_attempts s) \<noteq> []" by (auto simp: filter_empty_conv)
    then obtain r where r: "filter storage_open (t_storage_attempts s) = [r]"
      using assms(1) by (cases "filter storage_open (t_storage_attempts s)") (auto simp: open_tokens_def)
    show ?thesis using filter_closed_one [where P = ?P and f = f, OF _ _ r r'] assms(2) r r'(2) by (auto simp: open_tokens_def storage_open_def)
  qed
  then show ?thesis by (simp add: settle_storage_attempt_def dwp_simps Let_def open_tokens_def)
qed

lemma complete_storage_closes:
  assumes "length (open_tokens StorageLane s) \<le> 1"
  shows "dwp (complete_storage_cleanup_attempt json_len p result ob)
    (\<lambda>_ s'. open_tokens StorageLane s = [psa_attempt_token p] \<and> open_tokens StorageLane s' = []) s"
  unfolding complete_storage_cleanup_attempt_def write_residue_def
  by (simp only: dwp_simps open_elsewhere) (intro impI allI dwp_mono [OF settle_storage_closes [OF assms]]; simp add: dwp_simps)

definition cache_open :: "'r cache_row option \<Rightarrow> string list" where
  "cache_open r = (case Option.bind r ca_token of None \<Rightarrow> [] | Some t \<Rightarrow> [t])"

lemma open_caches: "open_tokens UvLane s = cache_open (t_tool_cache s)" "open_tokens NodeLane s = cache_open (t_node_compile_cache s)"
  by (simp_all add: open_tokens_def cache_open_def)

lemma cache_open_simps [simp]:
  "cache_open None = []" "ca_token q = None \<Longrightarrow> cache_open (Some q) = []"
  "cache_open (Some (observed_row at av r)) = cache_open r" "cache_open (map_option (settled_row x) r) = []"
  "cache_open (Some (settled_row x q)) = []" "holds_token t r \<Longrightarrow> cache_open r = [t]"
  "cache_open (Some (q\<lparr>ca_token := Some t, ca_attempt := y\<rparr>)) = [t]"
  by (cases r; simp add: cache_open_def observed_row_def settled_row_def holds_token_def)+

lemma recover_cache_closes:
  assumes "\<And>f s. table (update f s) = f (table s)"
  shows "dwp (recover_cache_attempt_in table update now) (\<lambda>_ s'. cache_open (table s') = []) s"
  by (simp add: recover_cache_attempt_in_def dwp_simps assms split: option.split)

lemma uv_effects:
  "dwp (record_tool_cache_observation now av) (\<lambda>_ s'. open_tokens UvLane s' = open_tokens UvLane s) s"
  "dwp (begin_tool_cache_attempt now) (\<lambda>p s'. open_tokens UvLane s' = [ptc_token p]) s"
  "dwp (complete_tool_cache_attempt p result av) (\<lambda>_ s'. open_tokens UvLane s = [ptc_token p] \<and> open_tokens UvLane s' = []) s"
  "dwp (recover_tool_cache_attempt now) (\<lambda>_ s'. open_tokens UvLane s' = []) s"
  unfolding open_caches recover_tool_cache_attempt_def
  by (simp_all add: begin_tool_cache_attempt_def complete_tool_cache_attempt_def record_tool_cache_observation_def random_token_def dwp_simps
      recover_cache_closes split: option.split)

lemma node_effects:
  "dwp (record_node_compile_cache_observation now av) (\<lambda>_ s'. open_tokens NodeLane s' = open_tokens NodeLane s) s"
  "dwp (begin_node_compile_cache_attempt now) (\<lambda>p s'. open_tokens NodeLane s' = [ptc_token p]) s"
  "dwp (complete_node_compile_cache_attempt p nresult av) (\<lambda>_ s'. open_tokens NodeLane s = [ptc_token p] \<and> open_tokens NodeLane s' = []) s"
  "dwp (recover_node_compile_cache_attempt now) (\<lambda>_ s'. open_tokens NodeLane s' = []) s"
  unfolding open_caches
  by (simp_all add: begin_node_compile_cache_attempt_def complete_node_compile_cache_attempt_def recover_node_compile_cache_attempt_def
      record_node_compile_cache_observation_def random_token_def dwp_simps split: option.split)

text \<open>The operations of one ledger leave the tables of the others alone.\<close>

lemma keeps_draw: "(\<And>s d. I (s\<lparr>t_draws := d\<rparr>) = I s) \<Longrightarrow> keeps I random_token"
  unfolding random_token_def by (intro keeps_bind keeps_intros keeps_write) simp

lemmas keeps_ledger = keeps_bind keeps_intros keeps_if keeps_option keeps_draw keeps_write keeps_constrained

definition cache_tables where
  "cache_tables s = (t_tool_cache s, t_node_compile_cache s)"

lemma storage_apart:
  "keeps (\<lambda>s. cache_tables s = x) (record_storage_residue_observation json_len ob)"
  "keeps (\<lambda>s. cache_tables s = x) (begin_storage_cleanup_attempt now facts)"
  "keeps (\<lambda>s. cache_tables s = x) (complete_storage_cleanup_attempt json_len p result ob)"
  "keeps (\<lambda>s. cache_tables s = x) (recover_storage_cleanup_attempts now)"
  unfolding record_storage_residue_observation_def begin_storage_cleanup_attempt_def complete_storage_cleanup_attempt_def
    recover_storage_cleanup_attempts_def finalize_unknown_storage_cleanup_attempts_def settle_storage_attempt_def write_residue_def Let_def
  by (intro keeps_ledger; simp add: cache_tables_def)+

definition other_than_uv where
  "other_than_uv s = (t_storage_attempts s, t_node_compile_cache s)"

lemma uv_apart:
  "keeps (\<lambda>s. other_than_uv s = x) (record_tool_cache_observation now av)"
  "keeps (\<lambda>s. other_than_uv s = x) (begin_tool_cache_attempt now)"
  "keeps (\<lambda>s. other_than_uv s = x) (complete_tool_cache_attempt p result av)"
  "keeps (\<lambda>s. other_than_uv s = x) (recover_tool_cache_attempt now)"
  unfolding begin_tool_cache_attempt_def complete_tool_cache_attempt_def recover_tool_cache_attempt_def recover_cache_attempt_in_def
    record_tool_cache_observation_def
  by (intro keeps_ledger; simp add: other_than_uv_def)+

definition other_than_node where
  "other_than_node s = (t_storage_attempts s, t_tool_cache s)"

lemma node_apart:
  "keeps (\<lambda>s. other_than_node s = x) (record_node_compile_cache_observation now av)"
  "keeps (\<lambda>s. other_than_node s = x) (begin_node_compile_cache_attempt now)"
  "keeps (\<lambda>s. other_than_node s = x) (complete_node_compile_cache_attempt p nresult av)"
  "keeps (\<lambda>s. other_than_node s = x) (recover_node_compile_cache_attempt now)"
  unfolding begin_node_compile_cache_attempt_def complete_node_compile_cache_attempt_def recover_node_compile_cache_attempt_def
    record_node_compile_cache_observation_def
  by (intro keeps_ledger; simp add: other_than_node_def)+

lemma npm_apart: "keeps (\<lambda>s. (t_storage_attempts s, t_tool_cache s, t_node_compile_cache s) = x) (recover_retired_npm_cache_attempt now)"
  unfolding recover_retired_npm_cache_attempt_def recover_cache_attempt_in_def by (intro keeps_ledger; simp)

lemma frame_after:
  assumes "\<And>x. keeps (\<lambda>s. f s = x) m" "\<And>s'. f s' = f s \<Longrightarrow> open_tokens lane s' = open_tokens lane s"
  shows "dwp m (\<lambda>_ s'. open_tokens lane s' = open_tokens lane s) s"
  by (rule dwp_keeps [OF assms(1) [of "f s"]]) (rule refl, erule assms(2))

lemma storage_unmoved: "(\<And>x. keeps (\<lambda>s. cache_tables s = x) m) \<Longrightarrow> lane \<noteq> StorageLane \<Longrightarrow> dwp m (\<lambda>_ s'. open_tokens lane s' = open_tokens lane s) s"
  by (rule frame_after) (assumption, cases lane, simp_all add: cache_tables_def open_tokens_def)

lemma uv_unmoved: "(\<And>x. keeps (\<lambda>s. other_than_uv s = x) m) \<Longrightarrow> lane \<noteq> UvLane \<Longrightarrow> dwp m (\<lambda>_ s'. open_tokens lane s' = open_tokens lane s) s"
  by (rule frame_after) (assumption, cases lane, simp_all add: other_than_uv_def open_tokens_def)

lemma node_unmoved: "(\<And>x. keeps (\<lambda>s. other_than_node s = x) m) \<Longrightarrow> lane \<noteq> NodeLane \<Longrightarrow> dwp m (\<lambda>_ s'. open_tokens lane s' = open_tokens lane s) s"
  by (rule frame_after) (assumption, cases lane, simp_all add: other_than_node_def open_tokens_def)

lemma npm_unmoved: "dwp (recover_retired_npm_cache_attempt now) (\<lambda>_ s'. open_tokens lane s' = open_tokens lane s) s"
  by (rule frame_after [OF npm_apart]) (cases lane; simp add: open_tokens_def)

lemma residue_unmoved: "dwp (record_storage_residue_observation json_len ob) (\<lambda>_ s'. open_tokens lane s' = open_tokens lane s) s"
  by (simp add: record_storage_residue_observation_def write_residue_def dwp_simps)

lemmas unmoved = residue_unmoved npm_unmoved storage_unmoved [OF storage_apart(2)] storage_unmoved [OF storage_apart(3)] storage_unmoved [OF storage_apart(4)]
  uv_unmoved [OF uv_apart(1)] uv_unmoved [OF uv_apart(2)] uv_unmoved [OF uv_apart(3)] uv_unmoved [OF uv_apart(4)]
  node_unmoved [OF node_apart(1)] node_unmoved [OF node_apart(2)] node_unmoved [OF node_apart(3)] node_unmoved [OF node_apart(4)]

text \<open>The effect of each command on one ledger.\<close>

lemma storage_step:
  "length (open_tokens StorageLane s) \<le> 1 \<Longrightarrow>
     dwp (run_maintenance json_len c) (\<lambda>e s'. ledger_step StorageLane e (open_tokens StorageLane s) (open_tokens StorageLane s')) s"
  by (cases c) (simp_all add: dwp_yields ledger_step_def event_lane_def unmoved begin_storage_opens complete_storage_closes recover_storage_closes)

lemma uv_step:
  "dwp (run_maintenance json_len c) (\<lambda>e s'. ledger_step UvLane e (open_tokens UvLane s) (open_tokens UvLane s')) s"
  by (cases c) (simp_all add: dwp_yields ledger_step_def event_lane_def unmoved uv_effects)

lemma node_step:
  "dwp (run_maintenance json_len c) (\<lambda>e s'. ledger_step NodeLane e (open_tokens NodeLane s) (open_tokens NodeLane s')) s"
  by (cases c) (simp_all add: dwp_yields ledger_step_def event_lane_def unmoved node_effects)

interpretation storage: attempt_ledger StorageLane "open_tokens StorageLane" json_len for json_len
  by unfold_locales (rule dwpD [OF storage_step])

interpretation uv: attempt_ledger UvLane "open_tokens UvLane" json_len for json_len
  by unfold_locales (rule dwpD [OF uv_step])

interpretation node: attempt_ledger NodeLane "open_tokens NodeLane" json_len for json_len
  by unfold_locales (rule dwpD [OF node_step])

text \<open>
  C40: a late result is refused. Over any history of storage, uv and Node compile cache maintenance from a store without open attempt,
  a result is settled for a token only while the last event of its ledger was the beginning of the attempt with that token: never after
  a recovery, never twice, and never once a newer attempt has begun.
\<close>

theorem late_results_refused:
  assumes "open_tokens lane s = []" "fst (maintenance_run json_len cs s) = es @ Settled lane t # rest"
  shows "\<exists>us vs. es = us @ Began lane t # vs \<and> (\<forall>e\<in>set vs. event_lane e \<noteq> Some lane)"
  using storage.settled_when_open [of "[]" s json_len cs es t rest] uv.settled_when_open [of "[]" s json_len cs es t rest]
    node.settled_when_open [of "[]" s json_len cs es t rest] assms
  by (cases lane) (simp_all add: storage.opened_def uv.opened_def node.opened_def)

lemma empty_random_tokens: "t_random empty_store n = replicate 31 (CHR ''0'') @ dec_string n"
  by (simp add: empty_store_def)

theorem late_results_refused_witness:
  "\<exists>us vs. [Began UvLane (t_random empty_store 0)] = us @ Began UvLane (t_random empty_store 0) # vs \<and>
     (\<forall>e\<in>set vs. event_lane e \<noteq> Some UvLane)"
proof -
  let ?p = "\<lparr>ptc_token = t_random empty_store 0, ptc_prepared_at_unix_millis = 1, ptc_kind = UvCache\<rparr>"
  let ?r = "\<lparr>tca_outcome = CacheCompleted, tca_prepared_at_unix_millis = 1, tca_completed_at_unix_millis = Some 2,
     tca_native_removed_entry_count = Some 3, tca_native_removed_logical_bytes = None\<rparr>"
  have "fst (maintenance_run length [BeginUv 1, CompleteUv ?p ?r CacheAvailable, CompleteUv ?p ?r CacheAvailable] empty_store) =
      [Began UvLane (t_random empty_store 0)] @ Settled UvLane (t_random empty_store 0) # []" for length
    by (simp add: yields_def begin_tool_cache_attempt_def complete_tool_cache_attempt_def record_tool_cache_observation_def random_token_def
        db_ops empty_store_def sqlite_millis_def i64_try_from_def cache_check_def observed_row_def holds_token_def tool_result_ok_def settled_row_def)
  moreover have "open_tokens UvLane empty_store = []" by (simp add: open_tokens_def empty_store_def)
  ultimately show ?thesis by (rule late_results_refused [rotated])
qed

section \<open>What a storage result says\<close>

definition storage_claim_ok :: "storage_attempt_row \<Rightarrow> bool" where
  "storage_claim_ok r = (case sa_disposition r of
       None \<Rightarrow> sa_removed r = None \<and> sa_after_count r = None \<and> sa_after_bytes r = None \<and> sa_retained_not_planned r = None
     | Some d \<Rightarrow>
         if d = ''complete'' then sa_removed r = Some (sa_planned r) \<and> sa_after_count r = Some 0
         else if d = ''partial'' then sa_removed r = Some (sa_planned r) \<and> sa_after_count r \<noteq> None \<and> sa_after_count r = sa_retained_not_planned r
         else if d = ''delivery_unknown''
         then sa_removed r = None \<and> sa_after_count r = None \<and> sa_after_bytes r = None \<and> sa_retained_not_planned r = None
         else d = ''failed'')"

definition claims_kept :: "storage_attempt_row set \<Rightarrow> store \<Rightarrow> bool" where
  "claims_kept C s \<longleftrightarrow> list_all storage_claim_ok (t_storage_attempts s) \<and> C \<subseteq> set (t_storage_attempts s) \<and> (\<forall>r\<in>C. \<not> storage_open r)"

lemma claims_update:
  assumes "claims_kept C s" "\<And>r. r \<in> set (t_storage_attempts s) \<Longrightarrow> P r \<Longrightarrow> storage_open r \<and> storage_claim_ok (f r)"
  shows "claims_kept C (s\<lparr>t_storage_attempts := update_where P f (t_storage_attempts s)\<rparr>)"
proof -
  have "c \<in> set (update_where P f (t_storage_attempts s))" if "c \<in> C" for c
    using assms that unfolding claims_kept_def set_update_where by (intro bexI [of _ c]) auto
  then show ?thesis using assms by (auto simp: claims_kept_def list_all_iff set_update_where)
qed

lemma claims_elsewhere [simp]:
  "claims_kept C (s\<lparr>t_storage_residue := x\<rparr>) = claims_kept C s" "claims_kept C (s\<lparr>t_draws := d\<rparr>) = claims_kept C s"
  by (simp_all add: claims_kept_def)

lemma keeps_finalize: "keeps (claims_kept C) (finalize_unknown_storage_cleanup_attempts t)"
  unfolding finalize_unknown_storage_cleanup_attempts_def
  by (intro keeps_bind keeps_intros keeps_constrained claims_update)
     (auto simp: claims_kept_def list_all_iff storage_claim_ok_def storage_open_def split: option.splits)

lemma sqlite_opt_Inr:
  "sqlite_usize_opt v label = Inr y \<Longrightarrow> y = map_option int v" "sqlite_u64_opt w label = Inr z \<Longrightarrow> z = map_option uint w"
  by (auto simp: sqlite_usize_opt_def sqlite_u64_opt_def sqlite_usize_def sqlite_u64_def i64_try_from_def split: option.splits if_splits)

lemma checked_claim:
  assumes "check_storage_result result = Inr ()" "sa_planned r = int (scr_planned_candidate_count result)"
    "removed = map_option int (scr_removed_candidate_count result)" "after_count = map_option int (scr_after_candidate_count result)"
    "retained = map_option int (scr_retained_not_planned_count result)"
  shows "storage_claim_ok (r\<lparr>sa_completed_at := x, sa_disposition := Some (storage_disposition_as_str (scr_disposition result)),
     sa_removed := removed, sa_after_count := after_count, sa_after_bytes := y, sa_retained_not_planned := retained\<rparr>)"
  using assms by (auto simp: check_storage_result_def storage_claim_ok_def storage_disposition_as_str_def
      split: storage_cleanup_disposition.splits option.splits if_splits)

lemma keeps_settle:
  "(\<And>r. m r \<Longrightarrow> storage_claim_ok (f r)) \<Longrightarrow> keeps (claims_kept C) (settle_storage_attempt p m f)"
  unfolding settle_storage_attempt_def Let_def
  by (intro keeps_bind keeps_intros keeps_constrained claims_update) auto

lemma keeps_tool_complete: "keeps (claims_kept C) (complete_storage_cleanup_attempt json_len p result ob)"
  unfolding keeps_dwp complete_storage_cleanup_attempt_def write_residue_def
  apply (simp only: dwp_simps claims_elsewhere)
  apply (intro allI impI)
  apply (rule dwp_keeps [OF keeps_settle], rule checked_claim)
         apply (simp_all add: sqlite_opt_Inr sqlite_usize_Inr dwp_simps)
  apply blast
  done

lemma keeps_tool_begin: "keeps (claims_kept C) (begin_storage_cleanup_attempt now facts)"
  unfolding begin_storage_cleanup_attempt_def
  by (intro keeps_bind keeps_intros keeps_finalize keeps_draw keeps_constrained)
     (auto simp: claims_kept_def storage_claim_ok_def)

lemma keeps_through:
  assumes "\<And>x. keeps (\<lambda>s. f s = x) m" "\<And>s s'. f s' = f s \<Longrightarrow> I s \<Longrightarrow> I s'"
  shows "keeps I m"
  unfolding keeps_def
proof (intro allI impI)
  fix s x s' assume "I s" "m s = Inr (x, s')"
  then show "I s'" using keepsD [OF assms(1) [of "f s"] refl, of x s'] assms(2) by blast
qed

lemma claims_same: "t_storage_attempts s' = t_storage_attempts s \<Longrightarrow> claims_kept C s \<Longrightarrow> claims_kept C s'"
  by (simp add: claims_kept_def)

lemma claims_uv: "(\<And>x. keeps (\<lambda>s. other_than_uv s = x) m) \<Longrightarrow> keeps (claims_kept C) m"
  by (erule keeps_through) (simp add: other_than_uv_def claims_same)

lemma claims_node: "(\<And>x. keeps (\<lambda>s. other_than_node s = x) m) \<Longrightarrow> keeps (claims_kept C) m"
  by (erule keeps_through) (simp add: other_than_node_def claims_same)

lemma claims_npm: "keeps (claims_kept C) (recover_retired_npm_cache_attempt now)"
  by (rule keeps_through [OF npm_apart]) (simp add: claims_same)

lemma claims_storage:
  "keeps (claims_kept C) (record_storage_residue_observation json_len ob)" "keeps (claims_kept C) (recover_storage_cleanup_attempts now)"
  unfolding record_storage_residue_observation_def write_residue_def recover_storage_cleanup_attempts_def
  by (intro keeps_bind keeps_intros keeps_finalize keeps_constrained; simp)+

lemma keeps_claims: "keeps (claims_kept C) (run_maintenance json_len c)"
  by (cases c) (simp_all add: yields_def keeps_bind keeps_intros keeps_tool_begin keeps_tool_complete claims_storage claims_npm
      claims_uv [OF uv_apart(1)] claims_uv [OF uv_apart(2)] claims_uv [OF uv_apart(3)] claims_uv [OF uv_apart(4)]
      claims_node [OF node_apart(1)] claims_node [OF node_apart(2)] claims_node [OF node_apart(3)] claims_node [OF node_apart(4)])

lemma run_claims: "claims_kept C s \<Longrightarrow> claims_kept C (snd (maintenance_run json_len cs s))"
proof (induction cs arbitrary: s)
  case (Cons c cs)
  then show ?case using keepsD [OF keeps_claims, of C s json_len c]
    by (cases "run_maintenance json_len c s") (auto simp: case_prod_beta)
qed simp

text \<open>
  Storage results are final and say what was proved. Over any history, a settled storage attempt never changes; complete means
  that every planned candidate was removed and none is left, partial that every planned one was removed and only
  unplanned ones are left, and an attempt that recovery settled carries no counts.
\<close>

theorem storage_results_final:
  assumes "list_all storage_claim_ok (t_storage_attempts s)"
  shows "list_all storage_claim_ok (t_storage_attempts (snd (maintenance_run json_len cs s)))
    \<and> (\<forall>r\<in>set (t_storage_attempts s). \<not> storage_open r \<longrightarrow> r \<in> set (t_storage_attempts (snd (maintenance_run json_len cs s))))"
  using run_claims [of "{r \<in> set (t_storage_attempts s). \<not> storage_open r}" s json_len cs] assms by (auto simp: claims_kept_def)

definition settled_attempt :: storage_attempt_row where
  "settled_attempt = \<lparr>sa_id = 1, sa_token = ''t'', sa_prepared_at = 1, sa_completed_at = Some 2, sa_disposition = Some ''complete'',
     sa_planned = 3, sa_before_count = 4, sa_before_bytes = 5, sa_removed = Some 3, sa_after_count = Some 0, sa_after_bytes = Some 0,
     sa_retained_not_planned = Some 0\<rparr>"

theorem storage_results_final_witness:
  "settled_attempt \<in> set (t_storage_attempts (snd (maintenance_run (\<lambda>_. 0) [RecoverStorage 9, RecoverStorage 1]
     (empty_store\<lparr>t_storage_attempts := [settled_attempt]\<rparr>))))"
proof -
  have "list_all storage_claim_ok (t_storage_attempts (empty_store\<lparr>t_storage_attempts := [settled_attempt]\<rparr>))"
    by (simp add: storage_claim_ok_def settled_attempt_def)
  moreover have "\<not> storage_open settled_attempt" by (simp add: storage_open_def settled_attempt_def)
  ultimately show ?thesis
    using storage_results_final [of "empty_store\<lparr>t_storage_attempts := [settled_attempt]\<rparr>" "\<lambda>_. 0"] by (simp del: maintenance_run.simps)
qed

end
