(* ===== verification/Store_History.thy ===== *)
theory Store_History
  imports Store_Retention
begin

text \<open>
  The readers of the history in \<open>crates/unlinger-daemon/src/store.rs\<close>: events with their public tokens, the
  detail of one incident, cleanup impacts and the most recent reclaim. Each row is checked before it is shown.
\<close>

section \<open>Events\<close>

record history_event =
  he_event_id :: int
  he_event_token :: string
  he_attempt_id :: "int option"
  he_incident_id :: string
  he_first_occurred_at_unix_millis :: u64
  he_occurred_at_unix_millis :: u64
  he_observation_count :: usize
  he_kind :: event_kind
  he_state :: incident_state
  he_payload :: event_payload

record incident_detail =
  id_incident_id :: string
  id_events :: "history_event list"

definition valid_event_token :: "string \<Rightarrow> bool" where
  "valid_event_token token \<longleftrightarrow> length token = 32 \<and> list_all is_ascii_hexdigit token"

definition i64_to_string :: "int \<Rightarrow> string" where
  "i64_to_string i = (if i < 0 then CHR ''-'' # dec_string (nat (- i)) else dec_string (nat i))"

definition about_event :: "int \<Rightarrow> string \<Rightarrow> store_error" where
  "about_event event_id text = Corrupt (''event '' @ i64_to_string event_id @ text)"

definition u64_from_i64 :: "store_error \<Rightarrow> int \<Rightarrow> store_error + u64" where
  "u64_from_i64 e v = (if v < 0 then Inl e else Inr (word_of_int v))"

definition usize_from_i64 :: "store_error \<Rightarrow> int \<Rightarrow> store_error + usize" where
  "usize_from_i64 e v = (if v < 0 then Inl e else Inr (nat v))"

definition event_of_row :: "event_row \<times> string \<Rightarrow> history_event db" where
  "event_of_row = (\<lambda>(e, event_token).
     db_bind (db_require (valid_event_token event_token) (about_event (evt_id e) '' has an invalid public token'')) (\<lambda>_.
     db_bind (db_lift (u64_from_i64 (Corrupt ''negative event timestamp'') (evt_occurred_at e))) (\<lambda>occurred_at.
     db_bind (db_lift (u64_from_i64 (Corrupt ''negative event start timestamp'') (evt_first_occurred_at e))) (\<lambda>first_occurred_at.
     db_bind (db_require (first_occurred_at \<le> occurred_at)
       (about_event (evt_id e) '' starts after its latest observation'')) (\<lambda>_.
     db_bind (db_lift (usize_from_i64 (Corrupt ''invalid event observation count'') (evt_observation_count e))) (\<lambda>count.
     db_bind (db_require (count \<noteq> 0) (about_event (evt_id e) '' has an empty observation span'')) (\<lambda>_.
     db_bind (db_lift (event_kind_parse (evt_kind e))) (\<lambda>kind.
     db_bind (db_lift (parse_state (evt_state e))) (\<lambda>st.
     db_bind (db_require (payload_kind (evt_payload e) = kind \<and> payload_state (evt_payload e) = st)
       (about_event (evt_id e) '' index columns disagree with payload'')) (\<lambda>_.
     db_return \<lparr>he_event_id = evt_id e, he_event_token = event_token, he_attempt_id = evt_attempt_id e,
       he_incident_id = evt_incident_id e, he_first_occurred_at_unix_millis = first_occurred_at,
       he_occurred_at_unix_millis = occurred_at, he_observation_count = count, he_kind = kind, he_state = st,
       he_payload = evt_payload e\<rparr>))))))))))"

text \<open>\<open>JOIN public_event_tokens\<close>: the key of that table is the event, so a row has at most one token.\<close>

definition with_token :: "('r \<Rightarrow> int) \<Rightarrow> store \<Rightarrow> 'r list \<Rightarrow> ('r \<times> string) list" where
  "with_token event_of s rows = List.map_filter (\<lambda>r. map_option (Pair r) (map_of (t_event_tokens s) (event_of r))) rows"

definition query_events :: "(store \<Rightarrow> (event_row \<times> string) list) \<Rightarrow> history_event list db" where
  "query_events select = db_bind (db_read select) (db_map event_of_row)"

definition history :: "usize \<Rightarrow> history_event list db" where
  "history limit =
     (if limit = 0 then db_return []
      else query_events (\<lambda>s. take (min limit 10000) (with_token evt_id s (newest_first (t_events s)))))"

definition oldest_first :: "event_row list \<Rightarrow> event_row list" where
  "oldest_first rows = sort_key evt_occurred_at (sort_key evt_id rows)"

definition explain :: "string \<Rightarrow> incident_detail option db" where
  "explain incident =
     db_bind (query_events (\<lambda>s. with_token evt_id s (oldest_first (filter (\<lambda>e. evt_incident_id e = incident) (t_events s))))) (\<lambda>found.
     db_return (if found = [] then None else Some \<lparr>id_incident_id = incident, id_events = found\<rparr>))"

section \<open>Impacts\<close>

record cleanup_impact =
  ci_event_token :: string
  ci_incident_id :: string
  ci_family :: string
  ci_family_version :: string
  ci_occurred_at_unix_millis :: u64
  ci_state :: incident_state
  ci_outcome :: cleanup_outcome
  ci_process_count :: "usize option"
  ci_estimated_reclaimed_memory_bytes :: "u64 option"
  ci_revival_checks_completed :: usize

definition transpose_option :: "('a \<Rightarrow> 'e + 'b) \<Rightarrow> 'a option \<Rightarrow> 'e + 'b option" where
  "transpose_option f v = (case v of None \<Rightarrow> Inr None | Some a \<Rightarrow> map_sum id Some (f a))"

definition impact_of_row :: "impact_row \<times> string \<Rightarrow> cleanup_impact db" where
  "impact_of_row = (\<lambda>(i, event_token).
     db_bind (db_require (valid_event_token event_token) (Corrupt ''cleanup impact has an invalid public event token'')) (\<lambda>_.
     db_bind (db_lift (u64_from_i64 (Corrupt ''negative cleanup impact timestamp'') (im_occurred_at i))) (\<lambda>occurred_at.
     db_bind (db_lift (parse_state (im_state i))) (\<lambda>st.
     db_bind (db_lift (parse_process_outcome (im_process_outcome i))) (\<lambda>process.
     db_bind (db_lift (parse_artifact_outcome (im_artifact_outcome i))) (\<lambda>artifact.
     db_bind (db_lift (parse_overall_outcome (im_overall_outcome i))) (\<lambda>overall.
     db_bind (db_lift (transpose_option (usize_from_i64 (Corrupt ''invalid cleanup impact process count'')) (im_process_count i))) (\<lambda>count.
     db_bind (db_lift (transpose_option (u64_from_i64 (Corrupt ''invalid cleanup impact memory value'')) (im_estimated_memory i))) (\<lambda>memory.
     db_bind (db_lift (usize_from_i64 (Corrupt ''invalid cleanup impact revival count'') (im_revival_checks i))) (\<lambda>revivals.
     db_return \<lparr>ci_event_token = event_token, ci_incident_id = im_incident_id i, ci_family = im_family i,
       ci_family_version = im_family_version i, ci_occurred_at_unix_millis = occurred_at, ci_state = st,
       ci_outcome = \<lparr>oc_process = process, oc_artifact = artifact, oc_overall = overall,
         oc_attention_required = (im_overall_outcome i \<noteq> ''cleared'')\<rparr>,
       ci_process_count = count, ci_estimated_reclaimed_memory_bytes = memory, ci_revival_checks_completed = revivals\<rparr>))))))))))"

definition query_cleanup_impacts :: "(store \<Rightarrow> impact_row \<Rightarrow> bool) \<Rightarrow> usize \<Rightarrow> cleanup_impact list db" where
  "query_cleanup_impacts predicate limit =
     (if limit = 0 then db_return []
      else if 2 ^ 63 \<le> limit then db_fail (RangeError ''cleanup impact limit overflowed i64'')
      else db_bind (db_read (\<lambda>s. take limit (with_token im_event_id s
             (rev (sort_key im_occurred_at (sort_key im_id (filter (predicate s) (t_impacts s)))))))) (db_map impact_of_row))"

definition delivered_reclaim :: "store \<Rightarrow> impact_row \<Rightarrow> bool" where
  "delivered_reclaim s i \<longleftrightarrow> im_process_outcome i = ''cleared''
     \<and> list_ex (\<lambda>a. ac_attempt_id a = im_attempt_id i \<and> ac_disposition a = Some ''delivered'') (t_actions s)"

record most_recent_reclaim =
  mo_event_token :: string
  mo_incident_id :: string
  mo_occurred_at_unix_millis :: u64
  mo_state :: incident_state
  mo_outcome :: cleanup_outcome

definition latest_reclaim :: "most_recent_reclaim option db" where
  "latest_reclaim =
     db_bind (query_cleanup_impacts delivered_reclaim 1) (\<lambda>impacts.
     db_return (if impacts = [] then None
       else let i = last impacts
            in Some \<lparr>mo_event_token = ci_event_token i, mo_incident_id = project_identifier (ci_incident_id i) ''redacted-incident'',
                 mo_occurred_at_unix_millis = ci_occurred_at_unix_millis i, mo_state = ci_state i, mo_outcome = ci_outcome i\<rparr>))"

definition cleanup_impact_for_event_token :: "string \<Rightarrow> cleanup_impact option db" where
  "cleanup_impact_for_event_token event_token =
     db_bind (db_read (\<lambda>s. map fst (filter (\<lambda>(i, t). t = event_token) (with_token im_event_id s (t_impacts s))))) (\<lambda>found.
     case found of
       [] \<Rightarrow> db_return None
     | i # _ \<Rightarrow>
         db_bind (query_cleanup_impacts (\<lambda>_ j. im_id j = im_id i) 1) (\<lambda>impacts.
         db_return (if impacts = [] then None else Some (last impacts))))"

section \<open>Readers change nothing\<close>

definition reader :: "'a db \<Rightarrow> bool" where
  "reader m \<longleftrightarrow> (\<forall>s x s'. m s = Inr (x, s') \<longrightarrow> s' = s)"

lemma reader_intros [intro]:
  "reader (db_return x)" "reader (db_fail e)" "reader (db_lift r)" "reader (db_read f)" "reader (db_require b e)"
  by (auto simp: reader_def db_simps)

lemma reader_bind [intro]: "reader m \<Longrightarrow> (\<And>x. reader (f x)) \<Longrightarrow> reader (db_bind m f)"
  unfolding reader_def db_bind_Inr by blast

lemma reader_map [intro]: "(\<And>x. reader (f x)) \<Longrightarrow> reader (db_map f xs)"
  by (induction xs) (auto intro!: reader_bind)

lemma readerD: "reader m \<Longrightarrow> m s = Inr (x, s') \<Longrightarrow> s' = s"
  by (auto simp: reader_def)

lemma reader_event_of_row: "reader (event_of_row r)"
  by (auto simp: event_of_row_def split: prod.splits intro!: reader_bind)

lemma reader_impact_of_row: "reader (impact_of_row r)"
  by (auto simp: impact_of_row_def split: prod.splits intro!: reader_bind)

lemma reader_query_events: "reader (query_events select)"
  unfolding query_events_def by (intro reader_bind reader_intros reader_map reader_event_of_row)

lemma reader_query_cleanup_impacts: "reader (query_cleanup_impacts P n)"
  unfolding query_cleanup_impacts_def by (auto intro!: reader_bind reader_map reader_impact_of_row)

lemma reader_history: "reader (history n)"
  by (auto simp: history_def reader_query_events)

lemma reader_explain: "reader (explain i)"
  by (auto simp: explain_def intro!: reader_bind reader_query_events)

lemma reader_latest_reclaim: "reader latest_reclaim"
  unfolding latest_reclaim_def by (intro reader_bind reader_query_cleanup_impacts reader_intros)

lemma reader_blocked_cleanup: "reader (blocked_cleanup r)"
  by (auto simp: blocked_cleanup_def split: prod.splits option.splits list.splits event_payload.splits intro!: reader_bind)

lemma reader_project_attention: "reader (project_attention n)"
  unfolding project_attention_def by (intro reader_bind reader_intros reader_map reader_blocked_cleanup)

lemma reader_protection_summary: "reader (projected_protection_summary p)"
  by (auto simp: projected_protection_summary_def intro!: reader_bind)

lemma reader_project_protections: "reader (project_protections n)"
  unfolding project_protections_def by (intro reader_bind reader_intros reader_map reader_protection_summary)

lemmas readers = reader_history reader_explain reader_latest_reclaim reader_project_attention reader_project_protections

end
