(* ===== verification/Control_Status.thy ===== *)
theory Control_Status
  imports Store_History Store_Executor Store_Ownership Store_Ledgers Store_Commit
begin

text \<open>
  The state of the control plane in \<open>crates/unlinger-daemon/src/ipc.rs\<close>: the daemon status that its mutex
  guards, the roster of the last observation, its errors, the two gates that decide whether a signal may be
  delivered and whether maintenance may start, and the identifiers it issues. The wall clock and its nanoseconds are
  arguments.
\<close>

section \<open>Status\<close>

datatype daemon_mode = ReportOnly | Enforce

datatype startup_state =
    Legacy | Booting | StartRecovering | StartFirstScanReportOnly | StartReadyReportOnly | StartReadyEnforce
  | StartDraining | StartFailed

record recent_reclaim =
  rr_event_token :: "string option"
  rr_incident_id :: string
  rr_occurred_at_unix_millis :: u64
  rr_state :: incident_state
  rr_outcome :: "cleanup_outcome option"

definition recent_reclaim_of :: "most_recent_reclaim \<Rightarrow> recent_reclaim" where
  "recent_reclaim_of r = \<lparr>rr_event_token = Some (mo_event_token r), rr_incident_id = mo_incident_id r,
     rr_occurred_at_unix_millis = mo_occurred_at_unix_millis r, rr_state = mo_state r, rr_outcome = Some (mo_outcome r)\<rparr>"

datatype attention_kind = CleanupFailed | CleanupRevived | DaemonUnhealthy | EventSourceDegraded | StorageRecovered

record attention_item =
  att_event_token :: "string option"
  att_outcome :: "cleanup_outcome option"
  att_kind :: attention_kind
  att_reason_id :: string
  att_incident_id :: "string option"
  att_state :: "incident_state option"
  att_occurred_at_unix_millis :: "u64 option"

record status_attention =
  an_blocked_cleanup_count :: usize
  an_items :: "attention_item list"

datatype storage_recovery_reason = IntegrityCheckFailed | RequiredSchemaInvalid

record storage_recovery_occurrence =
  so_recovery_id :: string
  so_public_token :: string
  so_occurred_at_unix_millis :: u64
  so_reason :: storage_recovery_reason
  so_quarantine_directory :: string
  so_quarantined_sidecar_count :: usize

record storage_recovery_status =
  sv_recovery_id :: string
  sv_public_token :: string
  sv_occurred_at_unix_millis :: u64
  sv_reason :: storage_recovery_reason
  sv_quarantined_sidecar_count :: usize

definition storage_recovery_status_of :: "storage_recovery_occurrence \<Rightarrow> storage_recovery_status" where
  "storage_recovery_status_of r = \<lparr>sv_recovery_id = so_recovery_id r, sv_public_token = so_public_token r,
     sv_occurred_at_unix_millis = so_occurred_at_unix_millis r, sv_reason = so_reason r,
     sv_quarantined_sidecar_count = so_quarantined_sidecar_count r\<rparr>"

record first_failure =
  ff_occurred_at_unix_millis :: u64
  ff_message :: string
  ff_source_file :: string
  ff_source_line :: u32

text \<open>The owner of a cache run and the owner of a storage cleanup have the same fields.\<close>

record lane_activity =
  la_token :: string
  la_epoch :: string
  la_cancel_requested :: bool

record daemon_status =
  ds_lifecycle_schema_version :: u32
  ds_ipc_schema_version :: u32
  ds_database_schema_version :: u32
  ds_daemon_version :: string
  ds_managed :: bool
  ds_instance_id :: string
  ds_healthy :: bool
  ds_ready :: bool
  ds_startup_state :: startup_state
  ds_mode :: daemon_mode
  ds_requested_mode :: daemon_mode
  ds_effective_mode :: daemon_mode
  ds_activation_generation :: "u64 option"
  ds_armed_generation :: "u64 option"
  ds_enforcement_epoch :: "string option"
  ds_draining :: bool
  ds_recovered_cleanup_attempts :: usize
  ds_event_source_healthy :: bool
  ds_last_event_source_error :: "string option"
  ds_storage_recovery :: "storage_recovery_status option"
  ds_attention :: status_attention
  ds_protected_incident_count :: usize
  ds_protected_incidents :: "protection_summary list"
  ds_pid :: u32
  ds_scan_in_progress :: bool
  ds_cleanup_in_progress :: bool
  ds_cache_activity :: "lane_activity option"
  ds_storage_activity :: "lane_activity option"
  ds_process_activity :: "string option"
  ds_paused_until_unix_millis :: "u64 option"
  ds_cycle_started_at_unix_millis :: "u64 option"
  ds_latest_observation_at_unix_millis :: "u64 option"
  ds_last_scan_at_unix_millis :: "u64 option"
  ds_confirmed_incidents :: usize
  ds_ambiguous_incidents :: usize
  ds_most_recent_reclaim :: "recent_reclaim option"
  ds_last_error :: "string option"
  ds_first_failure :: "first_failure option"

definition refresh_cleanup_activity :: "daemon_status \<Rightarrow> daemon_status" where
  "refresh_cleanup_activity st = st\<lparr>ds_cleanup_in_progress :=
     (ds_process_activity st \<noteq> None \<or> ds_cache_activity st \<noteq> None \<or> ds_storage_activity st \<noteq> None)\<rparr>"

definition browser_cleanup_in_progress :: "daemon_status \<Rightarrow> bool" where
  "browser_cleanup_in_progress st =
     (if ds_cache_activity st \<noteq> None \<or> ds_storage_activity st \<noteq> None then ds_process_activity st \<noteq> None
      else ds_cleanup_in_progress st)"

definition cancel_activity :: "lane_activity \<Rightarrow> lane_activity" where
  "cancel_activity a = a\<lparr>la_cancel_requested := True\<rparr>"

definition cancel_cache_activity :: "daemon_status \<Rightarrow> daemon_status" where
  "cancel_cache_activity st = st\<lparr>ds_cache_activity := map_option cancel_activity (ds_cache_activity st)\<rparr>"

definition cancel_storage_activity :: "daemon_status \<Rightarrow> daemon_status" where
  "cancel_storage_activity st = st\<lparr>ds_storage_activity := map_option cancel_activity (ds_storage_activity st)\<rparr>"

definition cancel_prompt_activities :: "daemon_status \<Rightarrow> daemon_status" where
  "cancel_prompt_activities st = cancel_storage_activity (cancel_cache_activity st)"

definition effective_mode :: "daemon_status \<Rightarrow> daemon_mode" where
  "effective_mode st = (if ds_lifecycle_schema_version st = 0 then ds_mode st else ds_effective_mode st)"

definition set_effective_mode :: "daemon_mode \<Rightarrow> daemon_status \<Rightarrow> daemon_status" where
  "set_effective_mode mode st = st\<lparr>ds_mode := mode, ds_effective_mode := mode\<rparr>"

section \<open>Issued identifiers\<close>

text \<open>\<open>{:x}\<close> formatting.\<close>

fun hex_string :: "nat \<Rightarrow> string" where
  "hex_string n = (if n < 16 then [digit_char n] else hex_string (n div 16) @ [digit_char (n mod 16)])"

declare hex_string.simps [simp del]

definition format_instance_id :: "u32 \<Rightarrow> u64 \<Rightarrow> nat \<Rightarrow> u64 \<Rightarrow> string" where
  "format_instance_id own_pid now wall_nanos sequence =
     hex_string (unat own_pid) @ ''-'' @ hex_string (unat now) @ ''-'' @ hex_string wall_nanos @ ''-'' @ hex_string (unat sequence)"

definition format_enforcement_epoch :: "u64 \<Rightarrow> u32 \<Rightarrow> string \<Rightarrow> u64 \<Rightarrow> u64 \<Rightarrow> string" where
  "format_enforcement_epoch generation own_pid instance_id now sequence =
     ''g'' @ hex_string (unat generation) @ ''-p'' @ hex_string (unat own_pid) @ ''-i'' @ instance_id @ ''-''
       @ hex_string (unat now) @ ''-'' @ hex_string (unat sequence)"

definition splitmix64 :: "u64 \<Rightarrow> u64" where
  "splitmix64 v0 =
     (let v1 = v0 + 0x9e3779b97f4a7c15;
          v2 = (v1 XOR drop_bit 30 v1) * 0xbf58476d1ce4e5b9;
          v3 = (v2 XOR drop_bit 27 v2) * 0x94d049bb133111eb
      in v3 XOR drop_bit 31 v3)"

definition format_cycle_token :: "u64 \<Rightarrow> nat \<Rightarrow> u64 \<Rightarrow> string" where
  "format_cycle_token now wall_nanos sequence =
     (let entropy = (of_nat wall_nanos XOR word_rotl 17 now) XOR word_rotl 41 sequence
      in hex16 (splitmix64 entropy) @ hex16 (splitmix64 (entropy XOR 0x9e3779b97f4a7c15)))"

definition new_status :: "daemon_mode \<Rightarrow> u32 \<Rightarrow> string \<Rightarrow> daemon_status" where
  "new_status mode own_pid instance_id =
     \<lparr>ds_lifecycle_schema_version = 1, ds_ipc_schema_version = 1, ds_database_schema_version = 14, ds_daemon_version = ''0.1.0'',
      ds_managed = False, ds_instance_id = instance_id, ds_healthy = False, ds_ready = False, ds_startup_state = Booting,
      ds_mode = mode, ds_requested_mode = mode, ds_effective_mode = mode, ds_activation_generation = None,
      ds_armed_generation = None,
      ds_enforcement_epoch = (if mode = Enforce then Some ''unmanaged-explicit-1'' else None),
      ds_draining = False, ds_recovered_cleanup_attempts = 0, ds_event_source_healthy = True, ds_last_event_source_error = None,
      ds_storage_recovery = None, ds_attention = \<lparr>an_blocked_cleanup_count = 0, an_items = []\<rparr>,
      ds_protected_incident_count = 0, ds_protected_incidents = [], ds_pid = own_pid, ds_scan_in_progress = False,
      ds_cleanup_in_progress = False, ds_cache_activity = None, ds_storage_activity = None, ds_process_activity = None,
      ds_paused_until_unix_millis = None, ds_cycle_started_at_unix_millis = None, ds_latest_observation_at_unix_millis = None,
      ds_last_scan_at_unix_millis = None, ds_confirmed_incidents = 0, ds_ambiguous_incidents = 0, ds_most_recent_reclaim = None,
      ds_last_error = None, ds_first_failure = None\<rparr>"

section \<open>Errors\<close>

datatype control_error =
    InvalidArgument string | ControlConflict string | ControlNotFound string | ControlAuthorityLost string
  | ControlStore string | Unavailable string

fun control_error_message :: "control_error \<Rightarrow> string" where
  "control_error_message (InvalidArgument m) = m"
| "control_error_message (ControlConflict m) = m"
| "control_error_message (ControlNotFound m) = m"
| "control_error_message (ControlAuthorityLost m) = m"
| "control_error_message (ControlStore m) = m"
| "control_error_message (Unavailable m) = m"

fun control_error_code :: "control_error \<Rightarrow> string" where
  "control_error_code (InvalidArgument _) = ''invalid_argument''"
| "control_error_code (ControlConflict _) = ''conflict''"
| "control_error_code (ControlNotFound _) = ''not_found''"
| "control_error_code (ControlAuthorityLost _) = ''authority_lost''"
| "control_error_code (ControlStore _) = ''store_error''"
| "control_error_code (Unavailable _) = ''unavailable''"

text \<open>\<open>chars().take(n)\<close> on UTF-8 bytes: a byte that is not a continuation byte begins a character.\<close>

definition continuation_byte :: "char \<Rightarrow> bool" where
  "continuation_byte c \<longleftrightarrow> byte_between 128 191 c"

fun take_chars :: "nat \<Rightarrow> string \<Rightarrow> string" where
  "take_chars n [] = []"
| "take_chars n (c # cs) =
     (if continuation_byte c then c # take_chars n cs
      else case n of 0 \<Rightarrow> [] | Suc k \<Rightarrow> c # take_chars k cs)"

definition bounded_message :: "string \<Rightarrow> string" where
  "bounded_message message = take_chars 512 message"

definition control_error_from_store :: "store_error \<Rightarrow> control_error" where
  "control_error_from_store e = ControlStore (bounded_message (store_error_message e))"

definition map_store_error :: "store_error \<Rightarrow> control_error" where
  "map_store_error e =
     (case e of
        Invalid m \<Rightarrow> InvalidArgument (bounded_message m)
      | RangeError m \<Rightarrow> InvalidArgument (bounded_message m)
      | Conflict m \<Rightarrow> ControlConflict (bounded_message m)
      | AuthorityLost m \<Rightarrow> ControlAuthorityLost (bounded_message m)
      | NotFound m \<Rightarrow> Unavailable (bounded_message m)
      | Capacity m \<Rightarrow> Unavailable (bounded_message m)
      | other \<Rightarrow> ControlStore (bounded_message (store_error_message other)))"

definition restore_state_error :: "string \<Rightarrow> store_error \<Rightarrow> control_error" where
  "restore_state_error surface e =
     ControlStore (bounded_message (''could not restore '' @ surface @ '': '' @ store_error_message e))"

definition validate_incident_id :: "string \<Rightarrow> control_error + unit" where
  "validate_incident_id incident =
     (if incident = [] \<or> 128 < length incident then Inl (InvalidArgument ''incident ID must contain 1 to 128 bytes'') else Inr ())"

section \<open>Projections into the status\<close>

definition max_status_attention_items :: nat where
  "max_status_attention_items = 16"

definition apply_protection_projection :: "protection_projection \<Rightarrow> daemon_status \<Rightarrow> daemon_status" where
  "apply_protection_projection p st = st\<lparr>ds_protected_incident_count := pp_protected_incident_count p,
     ds_protected_incidents := pp_protected_incidents p\<rparr>"

definition plain_attention :: "attention_kind \<Rightarrow> string \<Rightarrow> attention_item" where
  "plain_attention kind reason = \<lparr>att_event_token = None, att_outcome = None, att_kind = kind, att_reason_id = reason,
     att_incident_id = None, att_state = None, att_occurred_at_unix_millis = None\<rparr>"

definition recovery_attention :: "storage_recovery_status \<Rightarrow> attention_item" where
  "recovery_attention r = (plain_attention StorageRecovered
       (case sv_reason r of IntegrityCheckFailed \<Rightarrow> ''storage.integrity_recovered''
                          | RequiredSchemaInvalid \<Rightarrow> ''storage.schema_recovered''))
     \<lparr>att_event_token := Some (sv_public_token r), att_occurred_at_unix_millis := Some (sv_occurred_at_unix_millis r)\<rparr>"

definition blocked_attention :: "blocked_cleanup_summary \<Rightarrow> attention_item" where
  "blocked_attention b = \<lparr>att_event_token = bc_event_token b, att_outcome = Some (bc_outcome b),
     att_kind = (if bc_state b = Revived then CleanupRevived else CleanupFailed), att_reason_id = bc_reason_id b,
     att_incident_id = Some (bc_incident_id b), att_state = Some (bc_state b),
     att_occurred_at_unix_millis = Some (bc_blocked_at_unix_millis b)\<rparr>"

text \<open>At most three items are pushed before the loop over the blocked cleanups, which stops at the bound.\<close>

definition apply_attention_projection :: "attention_projection \<Rightarrow> daemon_status \<Rightarrow> daemon_status" where
  "apply_attention_projection p st =
     (let items = (case ds_storage_recovery st of None \<Rightarrow> [] | Some r \<Rightarrow> [recovery_attention r])
            @ (if ds_event_source_healthy st then [] else [plain_attention EventSourceDegraded ''runtime.event_source_degraded''])
            @ (if ds_healthy st then []
               else [plain_attention DaemonUnhealthy
                       (if ds_last_error st \<noteq> None then ''daemon.runtime_error'' else ''daemon.not_ready'')])
      in st\<lparr>ds_attention := \<lparr>an_blocked_cleanup_count = at_blocked_cleanup_count p,
              an_items = items @ map blocked_attention
                (take (max_status_attention_items - length items) (at_blocked_cleanups p))\<rparr>\<rparr>)"

section \<open>Lifecycle and gates\<close>

definition managed_identity :: "daemon_status \<Rightarrow> control_error + u64 \<times> string" where
  "managed_identity st =
     (if \<not> ds_managed st then Inl (Unavailable ''daemon is not managed by an activation generation'')
      else case ds_activation_generation st of
             None \<Rightarrow> Inl (Unavailable ''managed daemon has no activation generation'')
           | Some generation \<Rightarrow>
               if ds_instance_id st = [] then Inl (Unavailable ''managed daemon has no instance identity'')
               else Inr (generation, ds_instance_id st))"

definition require_exact_status_identity :: "daemon_status \<Rightarrow> u64 \<Rightarrow> string \<Rightarrow> control_error + unit" where
  "require_exact_status_identity st generation instance_id =
     (case managed_identity st of
        Inl e \<Rightarrow> Inl e
      | Inr (active_generation, active_instance) \<Rightarrow>
          if active_generation \<noteq> generation then
            Inl (InvalidArgument (''activation generation mismatch: active '' @ dec_string (unat active_generation)
              @ '', requested '' @ dec_string (unat generation)))
          else if active_instance \<noteq> instance_id then
            Inl (InvalidArgument ''instance ID does not match the active daemon'')
          else Inr ())"

fun startup_state_of :: "managed_startup_phase \<Rightarrow> startup_state" where
  "startup_state_of Recovering = StartRecovering"
| "startup_state_of FirstScanReportOnly = StartFirstScanReportOnly"
| "startup_state_of ReadyReportOnly = StartReadyReportOnly"
| "startup_state_of ReadyEnforce = StartReadyEnforce"
| "startup_state_of Draining = StartDraining"
| "startup_state_of PhaseFailed = StartFailed"

definition mode_of :: "bool \<Rightarrow> daemon_mode" where
  "mode_of enforce = (if enforce then Enforce else ReportOnly)"

definition apply_managed_lifecycle :: "managed_lifecycle \<Rightarrow> daemon_status \<Rightarrow> daemon_status" where
  "apply_managed_lifecycle l st0 =
     (let st = (if ml_effective_enforce l then st0 else cancel_prompt_activities st0)
      in (set_effective_mode (mode_of (ml_effective_enforce l)) st)\<lparr>ds_managed := True,
           ds_activation_generation := Some (ml_activation_generation l), ds_instance_id := ml_instance_id l,
           ds_requested_mode := mode_of (ml_requested_enforce l), ds_armed_generation := ml_armed_generation l,
           ds_enforcement_epoch := ml_enforcement_epoch l, ds_ready := ml_ready l, ds_draining := ml_draining l,
           ds_startup_state := startup_state_of (ml_startup_phase l)\<rparr>)"

definition signal_gate_matches :: "daemon_status \<Rightarrow> string \<Rightarrow> bool" where
  "signal_gate_matches st epoch =
     (if ds_draining st \<or> effective_mode st \<noteq> Enforce \<or> ds_enforcement_epoch st \<noteq> Some epoch then False
      else \<not> ds_managed st
        \<or> (ds_ready st \<and> ds_activation_generation st \<noteq> None \<and> ds_armed_generation st = ds_activation_generation st))"

definition storage_cleanup_gate_open :: "daemon_status \<Rightarrow> bool" where
  "storage_cleanup_gate_open st \<longleftrightarrow>
     ds_healthy st \<and> ds_ready st \<and> ds_startup_state st = StartReadyEnforce \<and> effective_mode st = Enforce
     \<and> ds_enforcement_epoch st \<noteq> None
     \<and> (\<not> ds_managed st \<or> (ds_activation_generation st \<noteq> None \<and> ds_armed_generation st = ds_activation_generation st))
     \<and> \<not> ds_draining st \<and> \<not> ds_scan_in_progress st \<and> \<not> ds_cleanup_in_progress st \<and> ds_paused_until_unix_millis st = None"

definition storage_cleanup_report_only_gate_open :: "daemon_status \<Rightarrow> bool" where
  "storage_cleanup_report_only_gate_open st \<longleftrightarrow>
     ds_healthy st \<and> ds_ready st \<and> ds_startup_state st = StartReadyReportOnly \<and> effective_mode st = ReportOnly
     \<and> \<not> ds_draining st \<and> \<not> ds_scan_in_progress st \<and> \<not> ds_cleanup_in_progress st \<and> ds_paused_until_unix_millis st = None"

section \<open>The roster\<close>

datatype roster_freshness = RosterCurrent | ScanInProgress | StaleAfterFailure | NeverObserved

record roster_state =
  ro_cycle_token :: "string option"
  ro_observed_at_unix_millis :: "u64 option"
  ro_freshness :: roster_freshness
  ro_classification_complete :: bool
  ro_reports :: "incident_report list"
  ro_active_cycle_token :: "string option"

record roster_snapshot =
  rs_cycle_token :: "string option"
  rs_observed_at_unix_millis :: "u64 option"
  rs_freshness :: roster_freshness
  rs_classification_complete :: bool
  rs_reports :: "incident_report list"

definition default_roster :: roster_state where
  "default_roster = \<lparr>ro_cycle_token = None, ro_observed_at_unix_millis = None, ro_freshness = NeverObserved,
     ro_classification_complete = False, ro_reports = [], ro_active_cycle_token = None\<rparr>"

definition snapshot_of_roster :: "roster_state \<Rightarrow> roster_snapshot" where
  "snapshot_of_roster r = \<lparr>rs_cycle_token = ro_cycle_token r, rs_observed_at_unix_millis = ro_observed_at_unix_millis r,
     rs_freshness = ro_freshness r, rs_classification_complete = ro_classification_complete r, rs_reports = ro_reports r\<rparr>"

section \<open>The control plane\<close>

text \<open>The counters are the process-wide atomics. \<open>cp_status_poisoned\<close> is set when a thread panicked while it held the
  status; from then on the status cannot be locked.\<close>

record control =
  cp_store :: store
  cp_status :: daemon_status
  cp_status_poisoned :: bool
  cp_roster :: roster_state
  cp_policy_revision :: u64
  cp_next_instance_id :: u64
  cp_next_enforcement_epoch :: u64
  cp_next_cycle_token :: u64

type_synonym 'a ctl = "(control, control_error, 'a) comp"

definition lock_status :: "daemon_status ctl" where
  "lock_status c =
     (if cp_status_poisoned c then (Exit (Unavailable ''daemon status lock is poisoned''), c) else (Next (cp_status c), c))"

definition put_status :: "daemon_status \<Rightarrow> (control, 'r, unit) comp" where
  "put_status st c = (Next (), c\<lparr>cp_status := st\<rparr>)"

definition on_store :: "(store_error \<Rightarrow> 'r) \<Rightarrow> 'a db \<Rightarrow> (control, 'r, 'a) comp" where
  "on_store h m c = (case m (cp_store c) of Inl e \<Rightarrow> (Exit (h e), c) | Inr (a, s) \<Rightarrow> (Next a, c\<lparr>cp_store := s\<rparr>))"

text \<open>\<open>match\<close> on the result of a store operation.\<close>

definition try_store :: "'a db \<Rightarrow> (control, 'r, store_error + 'a) comp" where
  "try_store m c = (case m (cp_store c) of Inl e \<Rightarrow> (Next (Inl e), c) | Inr (a, s) \<Rightarrow> (Next (Inr a), c\<lparr>cp_store := s\<rparr>))"

definition flift :: "'e + 'a \<Rightarrow> ('w, 'e, 'a) comp" where
  "flift r = (case r of Inl e \<Rightarrow> fexit e | Inr a \<Rightarrow> fnext a)"

definition fget :: "('w \<Rightarrow> 'a) \<Rightarrow> ('w, 'r, 'a) comp" where
  "fget f w = (Next (f w), w)"

definition fput :: "('w \<Rightarrow> 'w) \<Rightarrow> ('w, 'r, unit) comp" where
  "fput f w = (Next (), f w)"

end
