(* ===== verification/Control_Plane.thy ===== *)
theory Control_Plane
  imports Control_Status
begin

text \<open>
  The operations of \<open>ControlPlane\<close> in \<open>crates/unlinger-daemon/src/ipc.rs\<close>: restoring the state, observation
  cycles, owner mutations, the managed lifecycle with its fail-close, and the gated starts of cleanup, storage
  and cache work. An operation holds the status lock while it runs, so that operations of different threads follow one
  another.
\<close>

section \<open>Restoring\<close>

record restored_state =
  re_pause_until_unix_millis :: "u64 option"
  re_most_recent_reclaim :: "most_recent_reclaim option"
  re_attention :: attention_projection
  re_protection :: protection_projection
  re_storage_recovery :: "storage_recovery_occurrence option"
  re_cleanup_policy_revision :: u64

definition restore :: "string \<Rightarrow> 'a db \<Rightarrow> ('a \<Rightarrow> control_error + 'b) \<Rightarrow> store \<Rightarrow> control_error + 'b" where
  "restore surface m f s = (case m s of Inl e \<Rightarrow> Inl (restore_state_error surface e) | Inr (a, _) \<Rightarrow> f a)"

text \<open>The storage recovery is what the opening of the database left behind.\<close>

definition load_restored :: "storage_recovery_occurrence option \<Rightarrow> store \<Rightarrow> control_error + restored_state" where
  "load_restored recovery s =
     restore ''owner pause'' pause_until (\<lambda>pause.
     restore ''most recent reclaim'' latest_reclaim (\<lambda>reclaim.
     restore ''attention projection'' (project_attention max_status_attention_items) (\<lambda>attention.
     restore ''protection projection'' (project_protections max_status_attention_items) (\<lambda>protection.
     restore ''cleanup policy revision'' cleanup_policy_revision_connection (\<lambda>revision.
       Inr \<lparr>re_pause_until_unix_millis = pause, re_most_recent_reclaim = reclaim, re_attention = attention,
         re_protection = protection, re_storage_recovery = recovery, re_cleanup_policy_revision = revision\<rparr>) s) s) s) s) s"

definition from_restored :: "store \<Rightarrow> daemon_status \<Rightarrow> restored_state \<Rightarrow> u64 \<Rightarrow> control" where
  "from_restored s st r next_instance =
     (let st1 = st\<lparr>ds_database_schema_version := 14,
            ds_storage_recovery := map_option storage_recovery_status_of (re_storage_recovery r),
            ds_paused_until_unix_millis := re_pause_until_unix_millis r,
            ds_most_recent_reclaim := map_option recent_reclaim_of (re_most_recent_reclaim r)\<rparr>
      in \<lparr>cp_store = s,
          cp_status = apply_protection_projection (re_protection r) (apply_attention_projection (re_attention r) st1),
          cp_status_poisoned = False, cp_roster = default_roster, cp_policy_revision = re_cleanup_policy_revision r,
          cp_next_instance_id = next_instance, cp_next_enforcement_epoch = 1, cp_next_cycle_token = 1\<rparr>)"

definition new_control :: "storage_recovery_occurrence option \<Rightarrow> store \<Rightarrow> daemon_status \<Rightarrow> u64 \<Rightarrow> control_error + control" where
  "new_control recovery s st next_instance =
     (case load_restored recovery s of Inl e \<Rightarrow> Inl e | Inr r \<Rightarrow> Inr (from_restored s st r next_instance))"

text \<open>The instance identity is drawn first; \<open>DaemonStatus::new\<close> draws another one, which is replaced.\<close>

definition begin_managed ::
    "storage_recovery_occurrence option \<Rightarrow> store \<Rightarrow> u64 \<Rightarrow> u32 \<Rightarrow> u64 \<Rightarrow> nat \<Rightarrow> control_error + control" where
  "begin_managed recovery s generation own_pid now wall_nanos =
     (case load_restored recovery s of
        Inl e \<Rightarrow> Inl e
      | Inr r \<Rightarrow>
          let instance_id = format_instance_id own_pid now wall_nanos 1
          in (case begin_managed_boot generation instance_id now s of
                Inl e \<Rightarrow> Inl (map_store_error e)
              | Inr (lifecycle, s') \<Rightarrow>
                  let st = apply_managed_lifecycle lifecycle
                        ((new_status ReportOnly own_pid instance_id)\<lparr>ds_managed := True, ds_instance_id := instance_id\<rparr>)
                  in Inr (from_restored s' (st\<lparr>ds_healthy := False, ds_ready := False, ds_startup_state := StartRecovering\<rparr>) r 3)))"

section \<open>Observation cycles\<close>

definition event_source_degraded_message :: string where
  "event_source_degraded_message = ''native event source unavailable; periodic reconciliation remains active''"

definition max_roster_items :: nat where
  "max_roster_items = 32"

definition update_status :: "(daemon_status \<Rightarrow> daemon_status) \<Rightarrow> unit ctl" where
  "update_status f =
     fbind lock_status (\<lambda>st.
       let st1 = f st;
           st2 = st1\<lparr>ds_last_error := map_option bounded_message (ds_last_error st1)\<rparr>;
           st3 = (if ds_last_event_source_error st2 \<noteq> None
                  then st2\<lparr>ds_last_event_source_error := Some event_source_degraded_message\<rparr> else st2)
       in put_status st3)"

definition note_event_source_failure :: "unit ctl" where
  "note_event_source_failure = update_status (\<lambda>st. st\<lparr>ds_event_source_healthy := False,
     ds_last_event_source_error := Some event_source_degraded_message\<rparr>)"

definition note_event_source_healthy :: "unit ctl" where
  "note_event_source_healthy = update_status (\<lambda>st. st\<lparr>ds_event_source_healthy := True, ds_last_event_source_error := None\<rparr>)"

definition clear_error_unless_failed :: "daemon_status \<Rightarrow> daemon_status" where
  "clear_error_unless_failed st = (if ds_startup_state st \<noteq> StartFailed then st\<lparr>ds_last_error := None\<rparr> else st)"

definition begin_observation_cycle :: "nat \<Rightarrow> u64 \<Rightarrow> string ctl" where
  "begin_observation_cycle wall_nanos started_at =
     fbind (fget cp_next_cycle_token) (\<lambda>sequence.
       let cycle_token = format_cycle_token started_at wall_nanos sequence
       in fbind (fput (\<lambda>c. c\<lparr>cp_next_cycle_token := sequence + 1,
              cp_roster := (cp_roster c)\<lparr>ro_active_cycle_token := Some cycle_token, ro_freshness := ScanInProgress\<rparr>\<rparr>)) (\<lambda>_.
          fbind (update_status (\<lambda>st. clear_error_unless_failed
              (st\<lparr>ds_scan_in_progress := True, ds_cycle_started_at_unix_millis := Some started_at\<rparr>))) (\<lambda>_.
          fnext cycle_token)))"

definition publish_roster :: "string \<Rightarrow> u64 \<Rightarrow> incident_report list \<Rightarrow> bool \<Rightarrow> unit ctl" where
  "publish_roster cycle_token observed_at reports classification_complete =
     fbind (fget cp_roster) (\<lambda>r.
     if ro_active_cycle_token r \<noteq> Some cycle_token then fexit (Unavailable ''observation cycle token is no longer active'')
     else
       fbind (fput (\<lambda>c. c\<lparr>cp_roster := r\<lparr>ro_cycle_token := Some cycle_token, ro_observed_at_unix_millis := Some observed_at,
         ro_classification_complete := (classification_complete \<and> length reports \<le> max_roster_items),
         ro_reports := take max_roster_items reports\<rparr>\<rparr>)) (\<lambda>_.
       update_status (\<lambda>st. st\<lparr>ds_latest_observation_at_unix_millis := Some observed_at\<rparr>)))"

definition finish_observation_cycle :: "string \<Rightarrow> bool \<Rightarrow> (control, 'r, unit) comp" where
  "finish_observation_cycle cycle_token succeeded =
     fput (\<lambda>c. let r = cp_roster c
       in if ro_active_cycle_token r \<noteq> Some cycle_token then c
          else c\<lparr>cp_roster := r\<lparr>ro_freshness := (if succeeded \<or> ro_cycle_token r = Some cycle_token
                                                  then RosterCurrent else StaleAfterFailure),
                 ro_active_cycle_token := None\<rparr>\<rparr>)"

text \<open>What the reconciliation engine writes into the status with \<open>update_status\<close>.\<close>

datatype status_note =
    ScanEnded u64
  | ScanFailed string
  | IncidentsCounted usize usize
  | ReclaimShown "recent_reclaim option"

fun apply_note :: "status_note \<Rightarrow> daemon_status \<Rightarrow> daemon_status" where
  "apply_note (ScanEnded completed_at) st = clear_error_unless_failed
     (st\<lparr>ds_scan_in_progress := False, ds_last_scan_at_unix_millis := Some completed_at\<rparr>)"
| "apply_note (ScanFailed message) st = st\<lparr>ds_scan_in_progress := False, ds_last_error := Some message\<rparr>"
| "apply_note (IncidentsCounted confirmed ambiguous) st =
     st\<lparr>ds_confirmed_incidents := confirmed, ds_ambiguous_incidents := ambiguous\<rparr>"
| "apply_note (ReclaimShown reclaim) st = st\<lparr>ds_most_recent_reclaim := reclaim\<rparr>"

definition note_status :: "status_note \<Rightarrow> unit ctl" where
  "note_status note = update_status (apply_note note)"

section \<open>Reading the status\<close>

definition expire_pause :: "u64 \<Rightarrow> unit ctl" where
  "expire_pause now =
     fbind lock_status (\<lambda>st.
     case ds_paused_until_unix_millis st of
       None \<Rightarrow> fnext ()
     | Some deadline \<Rightarrow>
         if deadline \<le> now then
           fbind (on_store control_error_from_store (set_pause_until None)) (\<lambda>_.
           put_status (st\<lparr>ds_paused_until_unix_millis := None\<rparr>))
         else fnext ())"

definition read_status :: "daemon_status ctl" where
  "read_status =
     fbind (on_store map_store_error (project_attention max_status_attention_items)) (\<lambda>attention.
     fbind (on_store map_store_error (project_protections max_status_attention_items)) (\<lambda>protection.
     fbind lock_status (\<lambda>st.
     fnext (apply_protection_projection protection (apply_attention_projection attention st)))))"

definition status_at :: "u64 \<Rightarrow> daemon_status ctl" where
  "status_at now = fbind (expire_pause now) (\<lambda>_. read_status)"

definition browser_source_snapshot_at :: "u64 \<Rightarrow> (daemon_status \<times> roster_snapshot) ctl" where
  "browser_source_snapshot_at now =
     fbind (expire_pause now) (\<lambda>_.
     fbind (on_store map_store_error (project_attention max_status_attention_items)) (\<lambda>attention.
     fbind (on_store map_store_error (project_protections max_status_attention_items)) (\<lambda>protection.
     fbind lock_status (\<lambda>st.
     fbind (fget cp_roster) (\<lambda>r.
     fnext (apply_protection_projection protection (apply_attention_projection attention st), snapshot_of_roster r))))))"

definition is_draining :: "control \<Rightarrow> bool" where
  "is_draining c = (cp_status_poisoned c \<or> ds_draining (cp_status c))"

section \<open>Owner mutations\<close>

definition runtime_facts_of :: "daemon_status \<Rightarrow> runtime_policy_facts" where
  "runtime_facts_of st = \<lparr>rp_draining = (ds_draining st \<or> ds_startup_state st = StartDraining),
     rp_failed = (ds_startup_state st = StartFailed)\<rparr>"

definition ordinary_mutation_unavailable_reason :: "ordinary_mutation \<Rightarrow> u64 \<Rightarrow> string option ctl" where
  "ordinary_mutation_unavailable_reason m wall_millis =
     fbind lock_status (\<lambda>st.
     fbind (on_store control_error_from_store (store_policy_facts_connection m wall_millis)) (\<lambda>facts.
     fnext (unavailable_reason (evaluate_action (runtime_facts_of st) facts m))))"

definition control_mutation_lookup :: "mutation_context \<Rightarrow> mutation_lookup_result ctl" where
  "control_mutation_lookup context =
     fbind lock_status (\<lambda>_. on_store control_error_from_store (mutation_lookup context))"

definition apply_mutation_result :: "mutation_result \<Rightarrow> daemon_status \<Rightarrow> daemon_status" where
  "apply_mutation_result result st =
     (case result of
        Paused until \<Rightarrow> cancel_prompt_activities (st\<lparr>ds_paused_until_unix_millis := Some until\<rparr>)
      | Resumed \<Rightarrow> st\<lparr>ds_paused_until_unix_millis := None\<rparr>
      | RetryScheduled incident \<Rightarrow> st\<lparr>ds_attention := \<lparr>an_blocked_cleanup_count = an_blocked_cleanup_count (ds_attention st) - 1,
          an_items = filter (\<lambda>item. att_incident_id item \<noteq> Some incident \<or> att_kind item \<notin> {CleanupFailed, CleanupRevived})
            (an_items (ds_attention st))\<rparr>\<rparr>
      | IncidentProtected protection \<Rightarrow>
          let kept = filter (\<lambda>item. ps_incident_id item \<noteq> ps_incident_id protection) (ds_protected_incidents st) @ [protection]
          in st\<lparr>ds_protected_incidents := kept, ds_protected_incident_count := length kept\<rparr>
      | IncidentUnprotected incident \<Rightarrow>
          let kept = filter (\<lambda>item. ps_incident_id item \<noteq> incident) (ds_protected_incidents st)
          in st\<lparr>ds_protected_incidents := kept, ds_protected_incident_count := length kept\<rparr>)"

definition commit_public_mutation :: "mutation_context \<Rightarrow> ordinary_mutation \<Rightarrow> u64 \<Rightarrow> mutation_commit ctl" where
  "commit_public_mutation context m now =
     fbind lock_status (\<lambda>st.
     fbind (on_store map_store_error (commit_public_ordinary_mutation context m (runtime_facts_of st) now)) (\<lambda>commit.
     fbind (fput (\<lambda>c. c\<lparr>cp_policy_revision := mu_policy_revision_after (cm_receipt commit)\<rparr>)) (\<lambda>_.
     if \<not> cm_state_changed commit then fnext commit
     else case mu_outcome (cm_receipt commit) of
            Applied result \<Rightarrow> fbind (put_status (apply_mutation_result result st)) (\<lambda>_. fnext commit)
          | _ \<Rightarrow> fexit (ControlStore ''a state-changing mutation receipt lacked an applied result''))))"

section \<open>Managed lifecycle\<close>

definition finish_startup_recovery :: "usize \<Rightarrow> u64 \<Rightarrow> unit ctl" where
  "finish_startup_recovery recovered now =
     fbind lock_status (\<lambda>st.
     if \<not> ds_managed st then
       put_status (st\<lparr>ds_recovered_cleanup_attempts := recovered, ds_startup_state := StartFirstScanReportOnly\<rparr>)
     else
       fbind (flift (managed_identity st)) (\<lambda>(generation, instance_id).
       fbind (on_store map_store_error (finish_managed_recovery generation instance_id now)) (\<lambda>lifecycle.
       put_status ((apply_managed_lifecycle lifecycle st)\<lparr>ds_recovered_cleanup_attempts := recovered, ds_healthy := False,
         ds_ready := False, ds_startup_state := StartFirstScanReportOnly\<rparr>))))"

text \<open>What the status becomes when the durable transition to Failed could not be made.\<close>

definition closed_status :: "string option \<Rightarrow> daemon_status \<Rightarrow> daemon_status" where
  "closed_status error st = (set_effective_mode ReportOnly (st\<lparr>ds_requested_mode := ReportOnly\<rparr>))
     \<lparr>ds_armed_generation := None, ds_enforcement_epoch := None, ds_ready := False, ds_startup_state := StartFailed,
      ds_healthy := False, ds_last_error := error\<rparr>"

text \<open>The three paragraphs of \<open>complete_successful_cycle\<close> that fail the instance have this shape: \<open>error\<close> is what the
  status shows, \<open>ended\<close> what is returned, \<open>also_failed\<close> what is returned when the durable transition fails too.\<close>

definition fail_instance ::
    "daemon_status \<Rightarrow> u64 \<Rightarrow> string \<Rightarrow> u64 \<Rightarrow> string option \<Rightarrow> control_error \<Rightarrow> (store_error \<Rightarrow> control_error) \<Rightarrow> unit ctl" where
  "fail_instance st generation instance_id now error ended also_failed =
     fbind (try_store (fail_managed generation instance_id now)) (\<lambda>result.
     case result of
       Inr lifecycle \<Rightarrow>
         fbind (put_status ((apply_managed_lifecycle lifecycle st)\<lparr>ds_healthy := False, ds_last_error := error\<rparr>)) (\<lambda>_.
         fexit ended)
     | Inl e \<Rightarrow>
         fbind (put_status (closed_status error st)) (\<lambda>_. fexit (also_failed e)))"

definition draw_epoch :: "daemon_status \<Rightarrow> u64 \<Rightarrow> string \<Rightarrow> u64 \<Rightarrow> (control, 'r, string) comp" where
  "draw_epoch st generation instance_id now =
     fbind (fget cp_next_enforcement_epoch) (\<lambda>sequence.
     fbind (fput (\<lambda>c. c\<lparr>cp_next_enforcement_epoch := sequence + 1\<rparr>)) (\<lambda>_.
     fnext (format_enforcement_epoch generation (ds_pid st) instance_id now sequence)))"

definition ready_status :: "daemon_status \<Rightarrow> daemon_status" where
  "ready_status st = st\<lparr>ds_healthy := \<not> ds_draining st, ds_ready := (ds_ready st \<or> \<not> ds_managed st),
     ds_startup_state := (if ds_draining st then StartDraining
                          else if effective_mode st = Enforce then StartReadyEnforce else StartReadyReportOnly)\<rparr>"

definition first_scan_completed :: "daemon_status \<Rightarrow> u64 \<Rightarrow> unit ctl" where
  "first_scan_completed st now =
     fbind (flift (managed_identity st)) (\<lambda>(generation, instance_id).
     if ds_startup_state st \<noteq> StartFirstScanReportOnly then
       let message = bounded_message ''managed cycle completed in invalid startup state ''
       in fail_instance st generation instance_id now (Some message) (Unavailable message)
            (\<lambda>e. ControlStore (bounded_message (message @ ''; durable fail-close also failed: '' @ store_error_message e)))
     else
       fbind (draw_epoch st generation instance_id now) (\<lambda>epoch.
       fbind (try_store (complete_managed_first_scan generation instance_id epoch now)) (\<lambda>result.
       case result of
         Inr lifecycle \<Rightarrow> put_status (ready_status (apply_managed_lifecycle lifecycle st))
       | Inl e \<Rightarrow>
           let completion_error = map_store_error e
           in fail_instance st generation instance_id now
                (Some (bounded_message (''managed first-scan completion failed: '' @ control_error_message completion_error)))
                completion_error
                (\<lambda>f. ControlStore (bounded_message
                   (control_error_message completion_error @ ''; durable fail-close also failed: '' @ store_error_message f))))))"

definition complete_successful_cycle :: "u64 \<Rightarrow> unit ctl" where
  "complete_successful_cycle now =
     fbind lock_status (\<lambda>st.
     if \<not> ds_managed st \<and> ds_startup_state st = StartFailed then
       fexit (Unavailable ''daemon instance remains terminal Failed; restart is required'')
     else if ds_managed st \<and> ds_startup_state st = StartFailed then
       fbind (flift (managed_identity st)) (\<lambda>(generation, instance_id).
       fail_instance st generation instance_id now (ds_last_error st)
         (Unavailable ''managed lifecycle is failed; exact service restart is required'')
         (\<lambda>e. ControlStore (bounded_message
            (''managed lifecycle remains failed; durable fail-close retry failed: '' @ store_error_message e))))
     else if ds_managed st \<and> \<not> ds_draining st \<and> \<not> ds_ready st then first_scan_completed st now
     else put_status (ready_status st))"

text \<open>\<open>fail_closed\<close> at a source location, whose file and line the first failure records.\<close>

definition fail_closed :: "string \<Rightarrow> u32 \<Rightarrow> u64 \<Rightarrow> string \<Rightarrow> unit ctl" where
  "fail_closed source_file source_line now text =
     (let message = bounded_message text
      in fbind lock_status (\<lambda>st0.
           let st1 = cancel_prompt_activities st0;
               st = (if ds_first_failure st1 = None
                     then st1\<lparr>ds_first_failure := Some \<lparr>ff_occurred_at_unix_millis = now, ff_message = message,
                            ff_source_file = source_file, ff_source_line = source_line\<rparr>\<rparr>
                     else st1)
           in if ds_managed st then
                (case managed_identity st of
                   Inl e \<Rightarrow> fbind (put_status (closed_status (Some message) st)) (\<lambda>_. fexit e)
                 | Inr (generation, instance_id) \<Rightarrow>
                     fbind (try_store (fail_managed generation instance_id now)) (\<lambda>result.
                     case result of
                       Inl e \<Rightarrow> fbind (put_status (closed_status (Some message) st)) (\<lambda>_. fexit (map_store_error e))
                     | Inr lifecycle \<Rightarrow>
                         put_status (closed_status (Some message) (apply_managed_lifecycle lifecycle st))))
              else put_status (closed_status (Some message) st)))"

definition control_preserve_restart_intent :: "u64 \<Rightarrow> unit ctl" where
  "control_preserve_restart_intent now =
     fbind lock_status (\<lambda>st.
     fbind (flift (managed_identity st)) (\<lambda>(generation, instance_id).
     fbind (on_store map_store_error (preserve_managed_pre_ready_restart_intent generation instance_id now)) (\<lambda>lifecycle.
     put_status (apply_managed_lifecycle lifecycle st))))"

section \<open>Storage and cache maintenance\<close>

definition start_storage_cleanup_if_ready_enforce ::
    "u64 \<Rightarrow> storage_cleanup_attempt_facts \<Rightarrow> (prepared_storage_cleanup_attempt \<times> string) option ctl" where
  "start_storage_cleanup_if_ready_enforce now facts =
     fbind (expire_pause now) (\<lambda>_.
     fbind lock_status (\<lambda>st.
     if \<not> storage_cleanup_gate_open st then fnext None
     else let epoch = the (ds_enforcement_epoch st)
          in fbind (on_store map_store_error (begin_storage_cleanup_attempt now facts)) (\<lambda>prepared.
             fbind (put_status (refresh_cleanup_activity (st\<lparr>ds_storage_activity := Some
               \<lparr>la_token = psa_attempt_token prepared, la_epoch = epoch, la_cancel_requested = False\<rparr>\<rparr>))) (\<lambda>_.
             fnext (Some (prepared, epoch))))))"

definition owns_lane :: "lane_activity option \<Rightarrow> string \<Rightarrow> string \<Rightarrow> bool" where
  "owns_lane activity token epoch =
     (case activity of None \<Rightarrow> False | Some a \<Rightarrow> la_token a = token \<and> la_epoch a = epoch \<and> \<not> la_cancel_requested a)"

definition storage_action_may_continue :: "prepared_storage_cleanup_attempt \<Rightarrow> string \<Rightarrow> control \<Rightarrow> bool" where
  "storage_action_may_continue prepared epoch c =
     (\<not> cp_status_poisoned c \<and> owns_lane (ds_storage_activity (cp_status c)) (psa_attempt_token prepared) epoch
      \<and> (let gate = refresh_cleanup_activity ((cp_status c)\<lparr>ds_storage_activity := None, ds_process_activity := None,
                      ds_scan_in_progress := False\<rparr>)
         in storage_cleanup_gate_open gate \<and> ds_enforcement_epoch gate = Some epoch))"

definition finish_storage_action :: "prepared_storage_cleanup_attempt \<Rightarrow> unit ctl" where
  "finish_storage_action prepared =
     fbind lock_status (\<lambda>st.
     if (case ds_storage_activity st of None \<Rightarrow> False | Some a \<Rightarrow> la_token a \<noteq> psa_attempt_token prepared) then
       fexit (Unavailable ''storage activity belongs to another attempt'')
     else put_status (refresh_cleanup_activity (st\<lparr>ds_storage_activity := None\<rparr>)))"

definition storage_cleanup_state_at :: "u64 \<Rightarrow> (daemon_mode \<times> bool) ctl" where
  "storage_cleanup_state_at now =
     fbind (expire_pause now) (\<lambda>_.
     fbind lock_status (\<lambda>st.
     fnext (effective_mode st,
       case effective_mode st of Enforce \<Rightarrow> storage_cleanup_gate_open st
                               | ReportOnly \<Rightarrow> storage_cleanup_report_only_gate_open st)))"

text \<open>\<open>started\<close> is what the factory of the child process returns.\<close>

definition start_cache_if_ready_enforce ::
    "u64 \<Rightarrow> bool \<Rightarrow> (string \<Rightarrow> string \<Rightarrow> 'e + 't) \<Rightarrow> (prepared_tool_cache_attempt \<times> ('e + 't) \<times> string) option ctl" where
  "start_cache_if_ready_enforce now node started =
     fbind (expire_pause now) (\<lambda>_.
     fbind lock_status (\<lambda>st.
     if \<not> storage_cleanup_gate_open st then fnext None
     else
       fbind (on_store map_store_error (if node then begin_node_compile_cache_attempt now else begin_tool_cache_attempt now)) (\<lambda>prepared.
       let epoch = the (ds_enforcement_epoch st);
           child = started (ptc_token prepared) epoch
       in fbind (case child of
                   Inl _ \<Rightarrow> fnext ()
                 | Inr _ \<Rightarrow> put_status (refresh_cleanup_activity (st\<lparr>ds_cache_activity := Some
                     \<lparr>la_token = ptc_token prepared, la_epoch = epoch, la_cancel_requested = False\<rparr>\<rparr>))) (\<lambda>_.
          fnext (Some (prepared, child, epoch))))))"

definition start_tool_cache_if_ready_enforce ::
    "u64 \<Rightarrow> (string \<Rightarrow> string \<Rightarrow> 'e + 't) \<Rightarrow> (prepared_tool_cache_attempt \<times> ('e + 't) \<times> string) option ctl" where
  "start_tool_cache_if_ready_enforce now started = start_cache_if_ready_enforce now False started"

definition start_node_compile_cache_if_ready_enforce ::
    "u64 \<Rightarrow> (string \<Rightarrow> string \<Rightarrow> 'e + 't) \<Rightarrow> (prepared_tool_cache_attempt \<times> ('e + 't) \<times> string) option ctl" where
  "start_node_compile_cache_if_ready_enforce now started = start_cache_if_ready_enforce now True started"

definition tool_cache_action_may_continue :: "prepared_tool_cache_attempt \<Rightarrow> string \<Rightarrow> control \<Rightarrow> bool" where
  "tool_cache_action_may_continue prepared epoch c =
     (\<not> cp_status_poisoned c \<and> owns_lane (ds_cache_activity (cp_status c)) (ptc_token prepared) epoch
      \<and> (let gate = refresh_cleanup_activity ((cp_status c)\<lparr>ds_cache_activity := None, ds_process_activity := None,
                      ds_scan_in_progress := False\<rparr>)
         in storage_cleanup_gate_open gate \<and> ds_enforcement_epoch gate = Some epoch))"

definition finish_tool_cache_action :: "prepared_tool_cache_attempt \<Rightarrow> unit ctl" where
  "finish_tool_cache_action prepared =
     fbind lock_status (\<lambda>st.
     if (case ds_cache_activity st of None \<Rightarrow> False | Some a \<Rightarrow> la_token a \<noteq> ptc_token prepared) then
       fexit (Unavailable ''cache activity belongs to another attempt'')
     else put_status (refresh_cleanup_activity (st\<lparr>ds_cache_activity := None\<rparr>)))"

section \<open>Process cleanup\<close>

definition begin_process_cleanup_activity :: "string \<Rightarrow> unit ctl" where
  "begin_process_cleanup_activity token =
     fbind lock_status (\<lambda>st.
     if ds_process_activity st \<noteq> None then fexit (Unavailable ''process cleanup already active'')
     else put_status (refresh_cleanup_activity (st\<lparr>ds_process_activity := Some token\<rparr>)))"

definition drop_process_cleanup_activity :: "string \<Rightarrow> (control, 'r, unit) comp" where
  "drop_process_cleanup_activity token =
     fput (\<lambda>c. if \<not> cp_status_poisoned c \<and> ds_process_activity (cp_status c) = Some token
       then c\<lparr>cp_status := refresh_cleanup_activity ((cp_status c)\<lparr>ds_process_activity := None\<rparr>)\<rparr> else c)"

definition action_gate_closed :: "string \<Rightarrow> u64 \<Rightarrow> control \<Rightarrow> bool" where
  "action_gate_closed epoch frozen_revision c =
     (cp_status_poisoned c \<or> \<not> signal_gate_matches (cp_status c) epoch \<or> cp_policy_revision c \<noteq> frozen_revision)"

definition begin_cleanup_attempt_if_armed ::
    "u64 \<Rightarrow> incident_report \<Rightarrow> string \<Rightarrow> u64 \<Rightarrow> cleanup_attempt_handle option ctl" where
  "begin_cleanup_attempt_if_armed now report epoch frozen_revision =
     fbind lock_status (\<lambda>st.
     fbind (fget cp_policy_revision) (\<lambda>revision.
     if \<not> signal_gate_matches st epoch \<or> revision \<noteq> frozen_revision then fnext None
     else fbind (on_store map_store_error (begin_cleanup_attempt now report epoch)) (\<lambda>attempt. fnext (Some attempt))))"

text \<open>The delivery runs on the world of the caller, of which the control plane is a part.\<close>

definition deliver_signal_if_armed ::
    "string \<Rightarrow> u64 \<Rightarrow> ('w \<Rightarrow> control) \<Rightarrow> ('w \<Rightarrow> signal_disposition \<times> 'w) \<Rightarrow> 'w \<Rightarrow> signal_disposition \<times> 'w" where
  "deliver_signal_if_armed epoch frozen_revision control_of deliver w =
     (if action_gate_closed epoch frozen_revision (control_of w) then (CancelledBeforeDelivery, w) else deliver w)"

end
