(* ===== verification/Engine.thy ===== *)
theory Engine
  imports Control_Plane Store_Cooling Rules_Analyzer
begin

text \<open>
  The reconciliation engine of \<open>crates/unlinger-daemon/src/engine.rs\<close>: one cycle observes, classifies, keeps the abandonment
  clock, reconciles the owner's decisions, records and publishes what it found, and hands confirmed incidents to the
  executor behind the delivery gate. The runtime acts on an arbitrary world; between any two operations other threads
  may act on the control plane. A panic of the runtime inside a signal or a removal is the disposition \<open>DeliveryUnknown\<close> that the code makes of it.
\<close>

section \<open>Configuration and errors\<close>

record engine_config =
  ec_observation_gap :: duration
  ec_abandonment_grace :: duration
  ec_cooling_continuity_gap :: duration
  ec_exact_absence_retention :: duration
  ec_cleanup_policy :: cleanup_policy
  ec_retention_policy :: retention_policy

definition default_engine_config :: engine_config where
  "default_engine_config = \<lparr>ec_observation_gap = duration_from_secs 15, ec_abandonment_grace = duration_from_secs 90,
     ec_cooling_continuity_gap = duration_from_secs 120, ec_exact_absence_retention = duration_from_secs (14 * 24 * 60 * 60),
     ec_cleanup_policy = default_cleanup_policy, ec_retention_policy = default_retention_policy\<rparr>"

record cycle_report =
  cy_schema_version :: u32
  cy_observed_twice :: bool
  cy_incidents :: "incident_report list"
  cy_cleanup_receipts :: "cleanup_receipt list"

datatype engine_error =
    EngineRuntime runtime_failure
  | EngineRules rule_error
  | EngineGraph string
  | EngineStore store_error
  | EngineControl control_error
  | EnginePlan cleanup_plan_error
  | EngineCleanup cleanup_error
  | PostDeliveryFailure string
  | EngineConfigError string
  | EngineWorker string

fun rule_error_message :: "rule_error \<Rightarrow> string" where
  "rule_error_message (Parse m) = ''could not parse signature pack: '' @ m"
| "rule_error_message (InvalidPack m) = ''invalid signature pack: '' @ m"
| "rule_error_message (InvalidGraph m) = ''invalid process graph: '' @ m"

fun plan_error_message :: "cleanup_plan_error \<Rightarrow> string" where
  "plan_error_message NotConfirmed = ''incident is not cleanup-eligible CONFIRMED''"
| "plan_error_message NoTargets = ''incident has no frozen targets''"
| "plan_error_message MissingSessionFingerprint = ''incident has no revival/session fingerprint''"
| "plan_error_message (DuplicateTarget p) = ''duplicate target PID '' @ dec_string (unat p)"
| "plan_error_message (IncompleteIdentity p) = ''target PID '' @ dec_string (unat p) @ '' has incomplete identity''"
| "plan_error_message RootMissing = ''incident root is missing from frozen targets''"
| "plan_error_message NoPrimaryTarget = ''incident has no controller or browser root target''"
| "plan_error_message TooManyArtifacts = ''incident has more than one 0.1 runtime artifact''"
| "plan_error_message DuplicateArtifact = ''incident has a duplicate artifact''"
| "plan_error_message ArtifactSessionMismatch = ''runtime artifact does not belong to the incident session''"

fun cleanup_error_message :: "cleanup_error \<Rightarrow> string" where
  "cleanup_error_message (RuntimeError e _) = ''cleanup runtime failed: '' @ failure_message e"
| "cleanup_error_message (AttemptOpen e _ _) = ''cleanup action remains open: '' @ failure_message e"

fun engine_error_message :: "engine_error \<Rightarrow> string" where
  "engine_error_message (EngineRuntime e) = ''snapshot runtime failed: '' @ failure_message e"
| "engine_error_message (EngineRules e) = ''classification failed: '' @ rule_error_message e"
| "engine_error_message (EngineGraph e) = ''process graph failed: '' @ e"
| "engine_error_message (EngineStore e) = ''history store failed: '' @ store_error_message e"
| "engine_error_message (EngineControl e) = ''daemon control failed: '' @ control_error_message e"
| "engine_error_message (EnginePlan e) = ''cleanup plan failed: '' @ plan_error_message e"
| "engine_error_message (EngineCleanup e) = ''cleanup execution failed: '' @ cleanup_error_message e"
| "engine_error_message (PostDeliveryFailure incident) =
     ''cleanup '' @ incident @ '' ended with an uncertain or incomplete delivered side effect''"
| "engine_error_message (EngineConfigError e) = ''engine configuration failed: '' @ e"
| "engine_error_message (EngineWorker e) = ''cleanup worker failed: '' @ e"

section \<open>The world of the engine\<close>

record background_cleanup =
  bg_started_at_unix_millis :: u64

record cleanup_completion =
  cl_completed_at_unix_millis :: u64
  cl_result :: "engine_error + cleanup_receipt"

record 'w engine_world =
  ew_outside :: 'w
  ew_control :: control
  ew_background :: "background_cleanup option"

text \<open>What the engine is given: the runtime of the cycle and, when it was opted in, that of the cleanup worker, of which
  only the operations of \<open>CleanupRuntime\<close> and the stop request are used; what other threads do before the next operation;
  the nanoseconds of the clock; and the thread of the worker.\<close>

record 'w engine_env =
  ee_runtime :: "'w cleanup_env"
  ee_worker_runtime :: "'w cleanup_env option"
  ee_others :: "'w \<times> control \<Rightarrow> 'w \<times> control"
  ee_wall_nanos :: "'w \<Rightarrow> nat"
  ee_spawn :: "'w \<Rightarrow> string option \<times> 'w"
  ee_finished :: "'w \<Rightarrow> bool"
  ee_join :: "'w \<Rightarrow> cleanup_completion option \<times> 'w"
  ee_cancel :: "'w \<Rightarrow> 'w"
  ee_cancelled :: "'w \<Rightarrow> bool"

record engine =
  en_rules :: rule_set
  en_config :: engine_config
  en_self_pid :: "u32 option"

type_synonym ('w, 'a) eng = "('w engine_world, engine_error, 'a) comp"

definition others :: "'w engine_env \<Rightarrow> 'w engine_world \<Rightarrow> 'w engine_world" where
  "others env x = (case ee_others env (ew_outside x, ew_control x) of (w, c) \<Rightarrow> x\<lparr>ew_outside := w, ew_control := c\<rparr>)"

definition outside :: "('w \<Rightarrow> 'a \<times> 'w) \<Rightarrow> 'w engine_world \<Rightarrow> 'a \<times> 'w engine_world" where
  "outside f x = (case f (ew_outside x) of (a, w) \<Rightarrow> (a, x\<lparr>ew_outside := w\<rparr>))"

definition on_runtime_op :: "('w \<Rightarrow> (runtime_failure + 'a) \<times> 'w) \<Rightarrow> ('w, 'a) eng" where
  "on_runtime_op f = ftry (outside f) EngineRuntime"

definition on_control :: "'w engine_env \<Rightarrow> ('r \<Rightarrow> 'q) \<Rightarrow> (control, 'r, 'a) comp \<Rightarrow> ('w engine_world, 'q, 'a) comp" where
  "on_control env h m x = (let y = others env x
     in case m (ew_control y) of
          (Next a, c) \<Rightarrow> (Next a, y\<lparr>ew_control := c\<rparr>)
        | (Exit e, c) \<Rightarrow> (Exit (h e), y\<lparr>ew_control := c\<rparr>))"

definition on_tables :: "'w engine_env \<Rightarrow> 'a db \<Rightarrow> ('w, 'a) eng" where
  "on_tables env m = on_control env id (on_store EngineStore m)"

definition control_op :: "'w engine_env \<Rightarrow> 'a ctl \<Rightarrow> ('w, 'a) eng" where
  "control_op env m = on_control env EngineControl m"

text \<open>\<open>let _ =\<close> drops the result of an operation of the control plane.\<close>

definition ignored :: "'w engine_env \<Rightarrow> 'a ctl \<Rightarrow> ('w, unit) eng" where
  "ignored env m = fbind (fcatch (control_op env m)) (\<lambda>_ :: engine_error + 'a. fnext ())"

definition should_stop_now :: "'w engine_env \<Rightarrow> ('w, bool) eng" where
  "should_stop_now env = fcall (outside (env_should_stop (ee_runtime env)))"

section \<open>Helpers\<close>

definition duration_millis :: "duration \<Rightarrow> engine_error + u64" where
  "duration_millis d = (let millis = d div 1000000
     in if millis < 2 ^ 64 then Inr (of_nat millis) else Inl (EngineConfigError ''duration overflowed u64 milliseconds''))"

definition exact_live_identity_fingerprints :: "snapshot \<Rightarrow> string list" where
  "exact_live_identity_fingerprints snapshot = bs_of_list (map (\<lambda>p. fingerprint_process_identity (identity p))
     (filter (\<lambda>p. 0 < started_at_unix_micros (identity p) \<and> executable_device (identity p) \<noteq> None
        \<and> executable_inode (identity p) \<noteq> None) (processes snapshot)))"

definition apply_owner_protection :: "incident_report \<Rightarrow> incident_report" where
  "apply_owner_protection report =
     (let protected = report\<lparr>state := Protected, gates := (gates report)\<lparr>no_protection_rule := False\<rparr>\<rparr>
      in if list_ex (\<lambda>e. ev_id e = ''protection.owner_exact_incident'') (evidence report) then protected
         else protected\<lparr>evidence := sort_key evidence_key (evidence report
                @ [item ''protection.owner_exact_incident'' Protection (Some (root_pid (root report)))])\<rparr>)"

definition receipt_requires_global_fail_close :: "cleanup_receipt \<Rightarrow> bool" where
  "receipt_requires_global_fail_close receipt =
     (let uncertain = (list_ex (\<lambda>a. action_disposition a = DeliveryUnknown) (rcpt_actions receipt)
            \<or> list_ex (\<lambda>a. aa_disposition a = ArtifactDeliveryUnknown) (rcpt_artifact_actions receipt));
          delivered_side_effect = (list_ex (\<lambda>a. action_disposition a = Delivered) (rcpt_actions receipt)
            \<or> list_ex (\<lambda>a. aa_disposition a = Removed) (rcpt_artifact_actions receipt))
      in if uncertain then True
         else if oc_overall (outcome receipt) = ClearedWithResidue then False
         else rcpt_state receipt \<noteq> Cleared \<and> delivered_side_effect)"

definition terminal_timestamp :: "'w cleanup_env \<Rightarrow> u64 \<Rightarrow> ('w engine_world, 'r, u64) comp" where
  "terminal_timestamp rt started_at =
     fbind (fcall (outside (env_clock_sample rt))) (\<lambda>sample.
     fnext (max (case sample of Inl _ \<Rightarrow> started_at | Inr s \<Rightarrow> wall_unix_millis s) started_at))"

definition cooling_clock_of :: "clock_sample \<Rightarrow> string \<Rightarrow> cooling_clock" where
  "cooling_clock_of sample epoch = \<lparr>cc_wall_unix_millis = wall_unix_millis sample, cc_continuous_millis = continuous_millis sample,
     cc_boot_session_fingerprint = boot_session_fingerprint sample, cc_enforcement_epoch = epoch\<rparr>"

section \<open>Ownership\<close>

text \<open>A lookup that fails proves nothing.\<close>

definition owner_is_absent :: "'w engine_env \<Rightarrow> task_owner_identity \<Rightarrow> ('w, bool) eng" where
  "owner_is_absent env holder =
     fbind (fcall (outside (env_lookup_process (ee_runtime env) (owner_pid holder)))) (\<lambda>answer.
     fnext (case answer of Inl _ \<Rightarrow> False | Inr None \<Rightarrow> True | Inr (Some process) \<Rightarrow> \<not> owner_matches holder process))"

definition absence_reason :: "task_owner_identity option \<Rightarrow> string" where
  "absence_reason holder = (if holder \<noteq> None then ''owner_disappeared'' else ''never_started'')"

definition holder_or :: "task_owner_identity option \<Rightarrow> task_owner_identity \<Rightarrow> task_owner_identity" where
  "holder_or holder registrar = (case holder of Some h \<Rightarrow> h | None \<Rightarrow> registrar)"

definition release_absent_task_owners :: "'w engine_env \<Rightarrow> ('w, unit) eng" where
  "release_absent_task_owners env =
     fbind (on_tables env task_scopes) (\<lambda>scopes.
     ffold (\<lambda>scope _.
       if tk_released_at_us scope \<noteq> None then fnext ()
       else
         fbind (owner_is_absent env (holder_or (tk_owner scope) (tk_registrar scope))) (\<lambda>absent.
         if \<not> absent then fnext ()
         else
           fbind (on_runtime_op (env_clock_sample (ee_runtime env))) (\<lambda>sample.
           on_tables env (release_task (tk_task_id scope) (wall_unix_millis sample) (absence_reason (tk_owner scope)) (tk_owner scope)))))
       scopes ())"

definition release_absent_session_owners :: "'w engine_env \<Rightarrow> ('w, unit) eng" where
  "release_absent_session_owners env =
     fbind (on_tables env session_owner_scopes) (\<lambda>scopes.
     ffold (\<lambda>scope _.
       if os_released_at_us scope \<noteq> None then fnext ()
       else
         fbind (owner_is_absent env (holder_or (os_owner scope) (os_registrar scope))) (\<lambda>absent.
         if \<not> absent then fnext ()
         else
           fbind (on_runtime_op (env_clock_sample (ee_runtime env))) (\<lambda>sample.
           on_tables env (release_session_owner (os_lease_id scope) (wall_unix_millis sample) (absence_reason (os_owner scope)) (os_owner scope)))))
       scopes ())"

definition refresh_task_ownership :: "'w engine_env \<Rightarrow> snapshot \<Rightarrow> ('w, unit) eng" where
  "refresh_task_ownership env snapshot =
     fbind (release_absent_task_owners env) (\<lambda>_.
     fbind (on_tables env (bind_task_controllers snapshot)) (\<lambda>_.
     fbind (release_absent_session_owners env) (\<lambda>_.
     on_tables env (bind_session_owner_controllers snapshot))))"

definition analyzer_for :: "'w engine_env \<Rightarrow> engine \<Rightarrow> snapshot \<Rightarrow> ('w, analyzer) eng" where
  "analyzer_for env en snapshot =
     (case from_snapshot snapshot of
        Inl e \<Rightarrow> fexit (EngineGraph (graph_error_message e))
      | Inr graph \<Rightarrow>
          fbind (on_tables env task_controller_bindings) (\<lambda>tasks.
          fbind (on_tables env session_owner_bindings) (\<lambda>owners.
          fnext \<lparr>rules = en_rules en, analyzer_ctx = \<lparr>self_pid = en_self_pid en,
            context_ancestor_pids = (case en_self_pid en of None \<Rightarrow> [] | Some p \<Rightarrow> bs_of_list (Core_Graph.ancestor_pids graph p)),
            task_controllers = tasks, session_owners = owners\<rparr>\<rparr>)))"

section \<open>Observation\<close>

definition cooling_reports :: "incident_report list \<Rightarrow> incident_report list" where
  "cooling_reports reports = filter (\<lambda>r. state r = Cooling) reports"

definition track_first :: "'w engine_env \<Rightarrow> incident_report list \<Rightarrow> cooling_clock \<Rightarrow> u64 \<Rightarrow> u64 \<Rightarrow> ('w, unit) eng" where
  "track_first env reports clock grace gap =
     ffold (\<lambda>report _. fbind (on_tables env (track_cooling report clock grace gap)) (\<lambda>_. fnext ())) (cooling_reports reports) ()"

text \<open>The tracking keys that the second observation shows, and those whose grace period is over.\<close>

definition track_second ::
    "'w engine_env \<Rightarrow> incident_report list \<Rightarrow> cooling_clock \<Rightarrow> u64 \<Rightarrow> u64 \<Rightarrow> ('w, string list \<times> string list) eng" where
  "track_second env reports clock grace gap =
     ffold (\<lambda>report (active, confirmed).
       fbind (on_tables env (track_cooling report clock grace gap)) (\<lambda>over.
       fnext (bs_insert (tracking_key report) active, if over then bs_insert (tracking_key report) confirmed else confirmed)))
       (cooling_reports reports) ([], [])"

record observation_result =
  ob_incidents :: "incident_report list"
  ob_observed_twice :: bool
  ob_latest_snapshot :: snapshot
  ob_observed_at_unix_millis :: u64

definition observed_once :: "incident_report list \<Rightarrow> snapshot \<Rightarrow> cooling_clock \<Rightarrow> observation_result" where
  "observed_once reports snapshot clock = \<lparr>ob_incidents = reports, ob_observed_twice = False, ob_latest_snapshot = snapshot,
     ob_observed_at_unix_millis = cc_wall_unix_millis clock\<rparr>"

definition second_observation ::
    "'w engine_env \<Rightarrow> analyzer \<Rightarrow> incident_report list \<Rightarrow> string \<Rightarrow> u64 \<Rightarrow> u64 \<Rightarrow> ('w, observation_result) eng" where
  "second_observation env a first_reports epoch grace gap =
     fbind (on_runtime_op (env_snapshot (ee_runtime env))) (\<lambda>second_snapshot.
     fbind (on_runtime_op (env_clock_sample (ee_runtime env))) (\<lambda>sample.
     let second_clock = cooling_clock_of sample epoch
     in case observe a second_snapshot of
          Inl e \<Rightarrow> fexit (EngineRules e)
        | Inr second_reports \<Rightarrow>
            fbind (track_second env second_reports second_clock grace gap) (\<lambda>(active, confirmed).
            fbind (on_tables env (retain_cooling active)) (\<lambda>_.
            fnext \<lparr>ob_incidents = reconcile_with_abandonment first_reports second_reports confirmed, ob_observed_twice = True,
              ob_latest_snapshot = second_snapshot, ob_observed_at_unix_millis = cc_wall_unix_millis second_clock\<rparr>))))"

definition observe_incidents :: "'w engine_env \<Rightarrow> engine \<Rightarrow> string \<Rightarrow> ('w, analyzer \<times> observation_result) eng" where
  "observe_incidents env en epoch =
     fbind (on_runtime_op (env_snapshot (ee_runtime env))) (\<lambda>first_snapshot.
     fbind (refresh_task_ownership env first_snapshot) (\<lambda>_.
     fbind (on_runtime_op (env_clock_sample (ee_runtime env))) (\<lambda>sample.
     let first_clock = cooling_clock_of sample epoch
     in fbind (analyzer_for env en first_snapshot) (\<lambda>a.
        case observe a first_snapshot of
          Inl e \<Rightarrow> fexit (EngineRules e)
        | Inr first_reports \<Rightarrow>
            fbind (flift (duration_millis (ec_abandonment_grace (en_config en)))) (\<lambda>grace.
            fbind (flift (duration_millis (ec_cooling_continuity_gap (en_config en)))) (\<lambda>gap.
            fbind (track_first env first_reports first_clock grace gap) (\<lambda>_.
            if list_ex (\<lambda>r. state r = Cooling) first_reports then
              fbind (on_runtime_op (env_wait_until (ee_runtime env) (ec_observation_gap (en_config en)))) (\<lambda>waited.
              if waited = Interrupted then fnext (a, observed_once first_reports first_snapshot first_clock)
              else fbind (second_observation env a first_reports epoch grace gap) (\<lambda>result. fnext (a, result)))
            else
              fbind (on_tables env (retain_cooling [])) (\<lambda>_.
              fnext (a, observed_once first_reports first_snapshot first_clock)))))))))"

section \<open>Recording\<close>

definition protect_incidents :: "'w engine_env \<Rightarrow> incident_report list \<Rightarrow> ('w, incident_report list) eng" where
  "protect_incidents env reports =
     ffold (\<lambda>report done.
       fbind (on_tables env (db_read (is_incident_protected report))) (\<lambda>protected.
       fnext (done @ [if protected then apply_owner_protection report else report]))) reports []"

definition record_incidents :: "'w engine_env \<Rightarrow> engine \<Rightarrow> u64 \<Rightarrow> string \<Rightarrow> observation_result \<Rightarrow> ('w, incident_report list) eng" where
  "record_incidents env en now cycle_token ob =
     (let observed = map observed_identity_of (ob_incidents ob);
          live = exact_live_identity_fingerprints (ob_latest_snapshot ob);
          absence_proven = proves_complete_exact_identity_coverage (ob_latest_snapshot ob)
      in fbind (flift (duration_millis (ec_exact_absence_retention (en_config en)))) (\<lambda>retention.
         fbind (on_tables env (reconcile_retry_blocks observed live absence_proven now retention)) (\<lambda>_.
         fbind (on_tables env (reconcile_incident_protections live absence_proven now retention)) (\<lambda>_.
         fbind (protect_incidents env (ob_incidents ob)) (\<lambda>incidents.
         fbind (on_tables env (record_observation_batch (ob_observed_at_unix_millis ob) incidents)) (\<lambda>_.
         fbind (control_op env (publish_roster cycle_token (ob_observed_at_unix_millis ob) incidents
           (proves_complete_classification_coverage (ob_latest_snapshot ob)))) (\<lambda>_.
         fnext incidents)))))))"

section \<open>Cleanup behind the gate\<close>

record frozen_cleanup =
  fc_analyzer :: analyzer
  fc_attempt :: cleanup_attempt_handle
  fc_plan :: cleanup_plan
  fc_policy :: cleanup_policy
  fc_enforcement_epoch :: string
  fc_cleanup_policy_revision :: u64
  fc_started_at_unix_millis :: u64

type_synonym 'w cleanup_world = "'w engine_world \<times> attempt_journal"

definition in_engine :: "('w engine_world \<Rightarrow> 'a \<times> 'w engine_world) \<Rightarrow> 'w cleanup_world \<Rightarrow> 'a \<times> 'w cleanup_world" where
  "in_engine f x = (case x of (y, j) \<Rightarrow> case f y of (a, y') \<Rightarrow> (a, (y', j)))"

text \<open>The journal of the attempt works on the tables of the control plane.\<close>

definition in_journal ::
    "'w engine_env \<Rightarrow> (attempt_journal \<times> store \<Rightarrow> 'a \<times> attempt_journal \<times> store) \<Rightarrow> 'w cleanup_world \<Rightarrow> 'a \<times> 'w cleanup_world" where
  "in_journal env f x = (case x of (y0, j) \<Rightarrow>
     let y = others env y0
     in case f (j, cp_store (ew_control y)) of
          (a, j', s) \<Rightarrow> (a, (y\<lparr>ew_control := (ew_control y)\<lparr>cp_store := s\<rparr>\<rparr>, j')))"

text \<open>\<open>GatedRuntime\<close> and the stop request of \<open>execute_cleanup\<close>. A signal or removal runs while the status is locked, so nothing
  comes between the check of the gate and the delivery; \<open>cancelled\<close> is the flag of the worker.\<close>

definition gated_delivery ::
    "'w engine_env \<Rightarrow> ('w \<Rightarrow> bool) \<Rightarrow> string \<Rightarrow> u64 \<Rightarrow> ('w \<Rightarrow> signal_disposition \<times> 'w) \<Rightarrow> 'w engine_world \<Rightarrow> signal_disposition \<times> 'w engine_world" where
  "gated_delivery env cancelled epoch revision deliver x =
     deliver_signal_if_armed epoch revision ew_control
       (\<lambda>y. if cancelled (ew_outside y) then (CancelledBeforeDelivery, y) else outside deliver y) (others env x)"

text \<open>The disposition of a removal is handed out of the closure, which itself reports \<open>Delivered\<close>.\<close>

definition gated_removal ::
    "'w engine_env \<Rightarrow> ('w \<Rightarrow> bool) \<Rightarrow> string \<Rightarrow> u64 \<Rightarrow> ('w \<Rightarrow> artifact_disposition \<times> 'w) \<Rightarrow> 'w engine_world \<Rightarrow> artifact_disposition \<times> 'w engine_world" where
  "gated_removal env cancelled epoch revision remove x =
     (let y = others env x
      in if action_gate_closed epoch revision (ew_control y) \<or> cancelled (ew_outside y) then (ArtifactCancelledBeforeDelivery, y)
         else outside remove y)"

definition gated_stop ::
    "'w engine_env \<Rightarrow> 'w cleanup_env \<Rightarrow> ('w \<Rightarrow> bool) \<Rightarrow> string \<Rightarrow> u64 \<Rightarrow> 'w engine_world \<Rightarrow> bool \<times> 'w engine_world" where
  "gated_stop env rt cancelled epoch revision x =
     (case outside (env_should_stop rt) x of (stop, y) \<Rightarrow>
        let z = others env y
        in (stop \<or> cancelled (ew_outside z) \<or> action_gate_closed epoch revision (ew_control z), z))"

definition gated_env ::
    "'w engine_env \<Rightarrow> 'w cleanup_env \<Rightarrow> ('w \<Rightarrow> bool) \<Rightarrow> string \<Rightarrow> u64 \<Rightarrow> 'w cleanup_world cleanup_env" where
  "gated_env env rt cancelled epoch revision =
     \<lparr>env_snapshot = in_engine (outside (env_snapshot rt)), env_lookup_process = (\<lambda>p. in_engine (outside (env_lookup_process rt p))),
      env_clock_sample = in_engine (outside (env_clock_sample rt)),
      env_signal_exact = (\<lambda>i sig. in_engine (gated_delivery env cancelled epoch revision (env_signal_exact rt i sig))),
      env_wait_until = (\<lambda>d. in_engine (outside (env_wait_until rt d))),
      env_freeze_artifact = (\<lambda>c. in_engine (outside (env_freeze_artifact rt c))),
      env_remove_artifact_exact = (\<lambda>f. in_engine (gated_removal env cancelled epoch revision (env_remove_artifact_exact rt f))),
      env_prepare_action = (\<lambda>i at. in_journal env (journal_prepare_action i at)),
      env_complete_action = (\<lambda>a d at. in_journal env (journal_complete_action a d at)),
      env_prepare_artifact_action = (\<lambda>i at. in_journal env (journal_prepare_artifact_action i at)),
      env_complete_artifact_action = (\<lambda>a d at. in_journal env (journal_complete_artifact_action a d at)),
      env_should_stop = in_engine (gated_stop env rt cancelled epoch revision)\<rparr>"

definition run_executor ::
    "'w engine_env \<Rightarrow> 'w cleanup_env \<Rightarrow> ('w \<Rightarrow> bool) \<Rightarrow> frozen_cleanup \<Rightarrow> 'w engine_world \<Rightarrow> cleanup_result \<times> 'w engine_world" where
  "run_executor env rt cancelled frozen x =
     (case execute (gated_env env rt cancelled (fc_enforcement_epoch frozen) (fc_cleanup_policy_revision frozen))
             (revalidate (fc_analyzer frozen)) (fc_plan frozen) (fc_policy frozen) (x, journal_for (fc_attempt frozen)) of
        (result, (y, _)) \<Rightarrow> (result, y))"

text \<open>\<open>fail_closed\<close> notes the file and the line of its caller.\<close>

definition engine_file :: string where
  "engine_file = ''engine.rs''"

definition settle_receipt ::
    "'w engine_env \<Rightarrow> (cleanup_resources \<Rightarrow> nat) \<Rightarrow> frozen_cleanup \<Rightarrow> u64 \<Rightarrow> cleanup_result \<Rightarrow> ('w, cleanup_receipt) eng" where
  "settle_receipt env json_len frozen completed_at execution =
     (case execution of
        Inr receipt \<Rightarrow> on_tables env (complete_cleanup_attempt json_len (fc_attempt frozen) completed_at receipt)
      | Inl e \<Rightarrow>
          fbind (case terminal_receipt e of
                   Some receipt \<Rightarrow> fbind (on_tables env (complete_cleanup_attempt json_len (fc_attempt frozen) completed_at receipt)) (\<lambda>_. fnext ())
                 | None \<Rightarrow> control_op env (fail_closed engine_file 787 completed_at (cleanup_error_message e))) (\<lambda>_.
          fexit (EngineCleanup e)))"

definition execute_cleanup ::
    "'w engine_env \<Rightarrow> (cleanup_resources \<Rightarrow> nat) \<Rightarrow> 'w cleanup_env \<Rightarrow> ('w \<Rightarrow> bool) \<Rightarrow> frozen_cleanup \<Rightarrow> ('w, cleanup_receipt) eng" where
  "execute_cleanup env json_len rt cancelled frozen =
     fbind (fcall (run_executor env rt cancelled frozen)) (\<lambda>execution.
     fbind (terminal_timestamp rt (fc_started_at_unix_millis frozen)) (\<lambda>completed_at.
     fbind (settle_receipt env json_len frozen completed_at execution) (\<lambda>receipt.
     if receipt_requires_global_fail_close receipt then fexit (PostDeliveryFailure (rcpt_incident_id receipt))
     else
       fbind (if oc_process (outcome receipt) = ProcessCleared then
                fbind (on_tables env latest_reclaim) (\<lambda>reclaim.
                control_op env (note_status (ReclaimShown (map_option recent_reclaim_of reclaim))))
              else fnext ()) (\<lambda>_.
       fnext receipt))))"

section \<open>The worker\<close>

text \<open>The body of the worker thread, which has no stop request but its flag; its activity is dropped when it ends.\<close>

definition cleanup_worker ::
    "'w engine_env \<Rightarrow> (cleanup_resources \<Rightarrow> nat) \<Rightarrow> 'w cleanup_env \<Rightarrow> frozen_cleanup \<Rightarrow> string \<Rightarrow> ('w, cleanup_completion) eng" where
  "cleanup_worker env json_len rt frozen activity =
     fbind (fcatch (execute_cleanup env json_len (rt\<lparr>env_should_stop := Pair False\<rparr>) (ee_cancelled env) frozen)) (\<lambda>result.
     fbind (terminal_timestamp rt (fc_started_at_unix_millis frozen)) (\<lambda>completed_at.
     fbind (case result of
              Inl e \<Rightarrow> ignored env (fail_closed engine_file 585 completed_at (engine_error_message e))
            | Inr _ \<Rightarrow> fnext ()) (\<lambda>_.
     fbind (on_control env id (drop_process_cleanup_activity activity)) (\<lambda>_.
     fnext \<lparr>cl_completed_at_unix_millis = completed_at, cl_result = result\<rparr>))))"

definition background_cleanup_finished :: "'w engine_env \<Rightarrow> 'w engine_world \<Rightarrow> bool" where
  "background_cleanup_finished env x = (ew_background x \<noteq> None \<and> ee_finished env (ew_outside x))"

definition collect_background_cleanup :: "'w engine_env \<Rightarrow> bool \<Rightarrow> ('w, cleanup_receipt option) eng" where
  "collect_background_cleanup env wait =
     fbind (fget (\<lambda>x. (background_cleanup_finished env x, ew_background x))) (\<lambda>(finished, background).
     if \<not> wait \<and> \<not> finished then fnext None
     else case background of
            None \<Rightarrow> fnext None
          | Some worker \<Rightarrow>
              fbind (fput (\<lambda>x. x\<lparr>ew_background := None\<rparr>)) (\<lambda>_.
              fbind (fcall (outside (ee_join env))) (\<lambda>joined.
              let completion = (case joined of Some c \<Rightarrow> c
                    | None \<Rightarrow> \<lparr>cl_completed_at_unix_millis = bg_started_at_unix_millis worker,
                               cl_result = Inl (EngineWorker ''thread panicked'')\<rparr>)
              in case cl_result completion of
                   Inr receipt \<Rightarrow> fnext (Some receipt)
                 | Inl e \<Rightarrow>
                     fbind (ignored env (fail_closed engine_file 194 (cl_completed_at_unix_millis completion) (engine_error_message e))) (\<lambda>_.
                     fbind (on_tables env (recover_incomplete_attempts (cl_completed_at_unix_millis completion))) (\<lambda>_.
                     fexit e)))))"

definition shutdown_background_cleanup :: "'w engine_env \<Rightarrow> ('w, unit) eng" where
  "shutdown_background_cleanup env =
     fbind (fput (\<lambda>x. if ew_background x \<noteq> None then x\<lparr>ew_outside := ee_cancel env (ew_outside x)\<rparr> else x)) (\<lambda>_.
     fbind (collect_background_cleanup env True) (\<lambda>_. fnext ()))"

section \<open>Dispatch\<close>

text \<open>A spawned worker runs as one of the other threads; when it cannot be spawned, the closure that owns its activity is dropped.\<close>

definition spawn_worker :: "'w engine_env \<Rightarrow> u64 \<Rightarrow> string \<Rightarrow> ('w, unit) eng" where
  "spawn_worker env now activity =
     fbind (fcall (outside (ee_spawn env))) (\<lambda>spawned.
     case spawned of
       None \<Rightarrow> fput (\<lambda>x. x\<lparr>ew_background := Some \<lparr>bg_started_at_unix_millis = now\<rparr>\<rparr>)
     | Some e \<Rightarrow>
         fbind (on_control env id (drop_process_cleanup_activity activity)) (\<lambda>_.
         fbind (control_op env (fail_closed engine_file 602 now e)) (\<lambda>_.
         fbind (on_tables env (recover_incomplete_attempts now)) (\<lambda>_.
         fexit (EngineWorker e)))))"

definition execute_here ::
    "'w engine_env \<Rightarrow> (cleanup_resources \<Rightarrow> nat) \<Rightarrow> frozen_cleanup \<Rightarrow> string \<Rightarrow> ('w, cleanup_receipt) eng" where
  "execute_here env json_len frozen activity =
     fbind (fcatch (execute_cleanup env json_len (ee_runtime env) (\<lambda>_. False) frozen)) (\<lambda>result.
     fbind (on_control env id (drop_process_cleanup_activity activity)) (\<lambda>_.
     flift result))"

fun dispatch ::
    "'w engine_env \<Rightarrow> (cleanup_resources \<Rightarrow> nat) \<Rightarrow> engine \<Rightarrow> analyzer \<Rightarrow> u64 \<Rightarrow> string \<Rightarrow> string \<Rightarrow> u64 \<Rightarrow> incident_report list
      \<Rightarrow> cleanup_receipt list \<Rightarrow> ('w, cleanup_receipt list) eng" where
  "dispatch env json_len en a now cycle_token epoch revision [] receipts = fnext receipts"
| "dispatch env json_len en a now cycle_token epoch revision (report # rest) receipts =
     fbind (should_stop_now env) (\<lambda>stop.
     if stop then fnext receipts
     else
       fbind (on_tables env (db_read (cleanup_blocked (incident_id report)))) (\<lambda>blocked.
       if blocked then dispatch env json_len en a now cycle_token epoch revision rest receipts
       else
         fbind (case from_confirmed report of Inl e \<Rightarrow> fexit (EnginePlan e) | Inr plan \<Rightarrow> fnext plan) (\<lambda>plan.
         fbind (control_op env (begin_cleanup_attempt_if_armed now report epoch revision)) (\<lambda>begun.
         case begun of
           None \<Rightarrow> fnext receipts
         | Some attempt \<Rightarrow>
             fbind (control_op env (begin_process_cleanup_activity cycle_token)) (\<lambda>_.
             let frozen = \<lparr>fc_analyzer = a, fc_attempt = attempt, fc_plan = plan, fc_policy = ec_cleanup_policy (en_config en),
                   fc_enforcement_epoch = epoch, fc_cleanup_policy_revision = revision, fc_started_at_unix_millis = now\<rparr>
             in if ee_worker_runtime env \<noteq> None then fbind (spawn_worker env now cycle_token) (\<lambda>_. fnext receipts)
                else fbind (execute_here env json_len frozen cycle_token) (\<lambda>receipt.
                     dispatch env json_len en a now cycle_token epoch revision rest (receipts @ [receipt])))))))"

section \<open>A cycle\<close>

definition authorizes_cleanup :: "daemon_status \<Rightarrow> daemon_status \<Rightarrow> string \<Rightarrow> u64 \<Rightarrow> u64 \<Rightarrow> bool" where
  "authorizes_cleanup lifecycle st epoch current_revision revision \<longleftrightarrow>
     effective_mode lifecycle = Enforce \<and> ds_enforcement_epoch lifecycle = Some epoch
     \<and> effective_mode st = Enforce \<and> ds_enforcement_epoch st = Some epoch \<and> current_revision = revision"

definition clean_confirmed ::
    "'w engine_env \<Rightarrow> (cleanup_resources \<Rightarrow> nat) \<Rightarrow> engine \<Rightarrow> analyzer \<Rightarrow> u64 \<Rightarrow> string \<Rightarrow> daemon_status \<Rightarrow> string \<Rightarrow> u64
      \<Rightarrow> incident_report list \<Rightarrow> cleanup_receipt list \<Rightarrow> ('w, cleanup_receipt list) eng" where
  "clean_confirmed env json_len en a now cycle_token lifecycle epoch revision incidents receipts =
     fbind (control_op env (status_at now)) (\<lambda>st.
     fbind (on_control env id (fget cp_policy_revision)) (\<lambda>current_revision.
     let paused = (case ds_paused_until_unix_millis st of None \<Rightarrow> False | Some deadline \<Rightarrow> now < deadline)
     in if \<not> authorizes_cleanup lifecycle st epoch current_revision revision \<or> paused then fnext receipts
        else
          fbind (should_stop_now env) (\<lambda>stop.
          fbind (fget ew_background) (\<lambda>background.
          if stop \<or> background \<noteq> None then fnext receipts
          else dispatch env json_len en a now cycle_token epoch revision (filter (\<lambda>r. state r = Confirmed) incidents) receipts))))"

definition run_cycle_inner :: "'w engine_env \<Rightarrow> (cleanup_resources \<Rightarrow> nat) \<Rightarrow> engine \<Rightarrow> u64 \<Rightarrow> string \<Rightarrow> ('w, cycle_report) eng" where
  "run_cycle_inner env json_len en now cycle_token =
     fbind (collect_background_cleanup env False) (\<lambda>collected.
     fbind (control_op env (status_at now)) (\<lambda>lifecycle.
     fbind (on_control env id (fget cp_policy_revision)) (\<lambda>revision.
     let epoch = (case ds_enforcement_epoch lifecycle of Some e \<Rightarrow> e | None \<Rightarrow> ''disarmed'')
     in fbind (observe_incidents env en epoch) (\<lambda>(a, ob).
        fbind (record_incidents env en now cycle_token ob) (\<lambda>incidents.
        fbind (clean_confirmed env json_len en a now cycle_token lifecycle epoch revision incidents
          (case collected of None \<Rightarrow> [] | Some receipt \<Rightarrow> [receipt])) (\<lambda>receipts.
        let attempted = bs_of_list (map rcpt_incident_id receipts);
            confirmed = length (filter (\<lambda>r. state r = Confirmed \<and> incident_id r \<notin> set attempted) incidents);
            ambiguous = length (filter (\<lambda>r. state r = Ambiguous) incidents)
        in fbind (control_op env (note_status (IncidentsCounted confirmed ambiguous))) (\<lambda>_.
           fbind (on_tables env (prune now (ec_retention_policy (en_config en)))) (\<lambda>_.
           fnext \<lparr>cy_schema_version = 1, cy_observed_twice = ob_observed_twice ob, cy_incidents = incidents,
             cy_cleanup_receipts = receipts\<rparr>))))))))"

definition finish_cycle ::
    "'w engine_env \<Rightarrow> u64 \<Rightarrow> string \<Rightarrow> engine_error + cycle_report \<Rightarrow> ('w, unit) eng" where
  "finish_cycle env now cycle_token result =
     fbind (terminal_timestamp (ee_runtime env) now) (\<lambda>ended_at.
     case result of
       Inr _ \<Rightarrow>
         fbind (on_control env id (finish_observation_cycle cycle_token True)) (\<lambda>_.
         fbind (control_op env (note_status (ScanEnded ended_at))) (\<lambda>_.
         control_op env (complete_successful_cycle ended_at)))
     | Inl e \<Rightarrow>
         fbind (on_control env id (finish_observation_cycle cycle_token False)) (\<lambda>_.
         fbind (ignored env (fail_closed engine_file 361 ended_at (engine_error_message e))) (\<lambda>_.
         ignored env (note_status (ScanFailed (engine_error_message e))))))"

definition run_cycle_at_until :: "'w engine_env \<Rightarrow> (cleanup_resources \<Rightarrow> nat) \<Rightarrow> engine \<Rightarrow> u64 \<Rightarrow> ('w, cycle_report) eng" where
  "run_cycle_at_until env json_len en now =
     fbind (fget (\<lambda>x. ee_wall_nanos env (ew_outside x))) (\<lambda>nanos.
     fbind (control_op env (begin_observation_cycle nanos now)) (\<lambda>cycle_token.
     fbind (fcatch (run_cycle_inner env json_len en now cycle_token)) (\<lambda>result.
     fbind (finish_cycle env now cycle_token result) (\<lambda>_.
     flift result))))"

end
