(* ===== verification/Control_Requests.thy ===== *)
theory Control_Requests
  imports Control_Plane
begin

text \<open>
  The requests of the local socket in \<open>crates/unlinger-daemon/src/ipc.rs\<close>: \<open>handle_at\<close> for the commands of any
  local client and \<open>handle_owner_peer_at\<close> for the ownership commands, which are bound to the process at the other end of the
  socket. Process lookups are those of the macOS adapter; \<open>native n pid\<close> is the answer to the \<open>n\<close>-th lookup of a
  request.
\<close>

datatype ipc_command =
    IpcStatus
  | TaskReserve string
  | TaskActivate string string u32
  | TaskFinish string string
  | IpcTaskStatus string
  | SessionOwnerDeclare string string string
  | SessionOwnerActivate string string u32
  | SessionOwnerRelease string string
  | IpcSessionOwnerStatus string
  | IpcHistory usize
  | IpcExplain string
  | IpcPause u64
  | IpcResume
  | IpcArm u64 string
  | IpcDisarm u64 string
  | IpcBeginDrain u64 string
  | IpcRetryFailedCleanup string
  | IpcProtectIncident string
  | IpcUnprotectIncident string
  | IpcExportDiagnostics string

record diagnostics_bundle =
  dg_schema_version :: u32
  dg_generated_at_unix_millis :: u64
  dg_status :: daemon_status
  dg_incident :: incident_detail

datatype ipc_payload =
    PayStatus daemon_status
  | PayTaskLease task_lease
  | PayTaskStatus task_status
  | PaySessionOwnerLease session_owner_lease
  | PaySessionOwnerStatus session_owner_status
  | PayHistory "history_event list"
  | PayIncident incident_detail
  | PayPause u64
  | PayResumed
  | PayLifecycle daemon_status
  | PayRetryScheduled string
  | PayIncidentProtected protection_summary
  | PayIncidentUnprotected string
  | PayDiagnostics diagnostics_bundle

definition max_history_limit :: nat where
  "max_history_limit = 1000"

definition max_pause_millis :: u64 where
  "max_pause_millis = 30 * 24 * 60 * 60 * 1000"

definition ok_or :: "'e \<Rightarrow> 'a option \<Rightarrow> ('w, 'e, 'a) comp" where
  "ok_or e x = (case x of None \<Rightarrow> fexit e | Some a \<Rightarrow> fnext a)"

definition bump_policy_revision :: "(control, 'r, unit) comp" where
  "bump_policy_revision = fput (\<lambda>c. c\<lparr>cp_policy_revision := cp_policy_revision c + 1\<rparr>)"

section \<open>Commands of any client\<close>

definition task_status_payload :: "string \<Rightarrow> ipc_payload ctl" where
  "task_status_payload task_id =
     fbind (on_store map_store_error (read_task_status task_id)) (\<lambda>found.
     fbind (ok_or (ControlNotFound ''task not found'') found) (\<lambda>t. fnext (PayTaskStatus t)))"

definition session_owner_status_payload :: "string \<Rightarrow> ipc_payload ctl" where
  "session_owner_status_payload lease_id =
     fbind (on_store map_store_error (read_session_owner_status lease_id)) (\<lambda>found.
     fbind (ok_or (ControlNotFound ''session owner not found'') found) (\<lambda>t. fnext (PaySessionOwnerStatus t)))"

definition handle_pause :: "u64 \<Rightarrow> u64 \<Rightarrow> ipc_payload ctl" where
  "handle_pause duration_millis now =
     (if duration_millis = 0 \<or> max_pause_millis < duration_millis then
        fexit (InvalidArgument (''pause duration must be between 1 millisecond and ''
          @ dec_string (unat max_pause_millis) @ '' milliseconds''))
      else
        fbind (ok_or (InvalidArgument ''pause deadline overflowed u64'') (u64_checked_add now duration_millis)) (\<lambda>deadline.
        fbind lock_status (\<lambda>st.
        fbind (on_store control_error_from_store (set_pause_until (Some deadline))) (\<lambda>_.
        fbind (put_status (cancel_prompt_activities (st\<lparr>ds_paused_until_unix_millis := Some deadline\<rparr>))) (\<lambda>_.
        fbind bump_policy_revision (\<lambda>_.
        fnext (PayPause deadline)))))))"

definition handle_resume :: "ipc_payload ctl" where
  "handle_resume =
     fbind lock_status (\<lambda>st.
     fbind (on_store control_error_from_store (set_pause_until None)) (\<lambda>_.
     fbind (put_status (st\<lparr>ds_paused_until_unix_millis := None\<rparr>)) (\<lambda>_.
     fbind bump_policy_revision (\<lambda>_.
     fnext PayResumed))))"

definition ready_to_arm :: "daemon_status \<Rightarrow> u64 \<Rightarrow> bool" where
  "ready_to_arm st generation =
     (let ready_report_only = (ds_startup_state st = StartReadyReportOnly \<and> effective_mode st = ReportOnly
            \<and> ds_armed_generation st = None \<and> ds_enforcement_epoch st = None);
          already_ready_enforce = (ds_startup_state st = StartReadyEnforce \<and> effective_mode st = Enforce
            \<and> ds_armed_generation st = Some generation \<and> ds_enforcement_epoch st \<noteq> None)
      in ds_healthy st \<and> ds_ready st \<and> \<not> ds_draining st \<and> (ready_report_only \<or> already_ready_enforce))"

definition handle_arm :: "u64 \<Rightarrow> string \<Rightarrow> u64 \<Rightarrow> ipc_payload ctl" where
  "handle_arm generation instance_id now =
     fbind lock_status (\<lambda>st.
     fbind (flift (require_exact_status_identity st generation instance_id)) (\<lambda>_.
     if \<not> ready_to_arm st generation then fexit (Unavailable ''managed daemon lifecycle is not ready to arm'')
     else
       fbind (draw_epoch st generation (ds_instance_id st) now) (\<lambda>epoch.
       fbind (on_store map_store_error (arm_managed generation instance_id epoch now)) (\<lambda>lifecycle.
       let st' = (apply_managed_lifecycle lifecycle st)\<lparr>ds_healthy := True, ds_last_error := None\<rparr>
       in fbind (put_status st') (\<lambda>_. fnext (PayLifecycle st'))))))"

definition handle_disarm :: "u64 \<Rightarrow> string \<Rightarrow> u64 \<Rightarrow> ipc_payload ctl" where
  "handle_disarm generation instance_id now =
     fbind lock_status (\<lambda>st.
     fbind (flift (require_exact_status_identity st generation instance_id)) (\<lambda>_.
     let failed = (ds_startup_state st = StartFailed)
     in fbind (on_store map_store_error (if failed then fail_managed generation instance_id now
                                          else disarm_managed generation instance_id now)) (\<lambda>lifecycle.
        let st1 = apply_managed_lifecycle lifecycle st;
            st' = (if failed then st1\<lparr>ds_healthy := False, ds_last_error := ds_last_error st\<rparr>
                   else st1\<lparr>ds_last_error := None\<rparr>)
        in fbind (put_status st') (\<lambda>_. fnext (PayLifecycle st')))))"

definition handle_begin_drain :: "u64 \<Rightarrow> string \<Rightarrow> u64 \<Rightarrow> ipc_payload ctl" where
  "handle_begin_drain generation instance_id now =
     fbind lock_status (\<lambda>st.
     fbind (flift (require_exact_status_identity st generation instance_id)) (\<lambda>_.
     fbind (on_store map_store_error (begin_managed_drain generation instance_id now)) (\<lambda>lifecycle.
     let st' = (apply_managed_lifecycle lifecycle st)\<lparr>ds_healthy := True, ds_last_error := None\<rparr>
     in fbind (put_status st') (\<lambda>_. fnext (PayLifecycle st')))))"

definition handle_retry :: "string \<Rightarrow> u64 \<Rightarrow> ipc_payload ctl" where
  "handle_retry incident now =
     fbind (flift (validate_incident_id incident)) (\<lambda>_.
     fbind lock_status (\<lambda>_.
     fbind (on_store control_error_from_store (authorize_retry incident now)) (\<lambda>authorized.
     if \<not> authorized then fexit (ControlNotFound ''incident has no blocked cleanup to retry'')
     else fbind bump_policy_revision (\<lambda>_. fnext (PayRetryScheduled incident)))))"

definition handle_protect :: "string \<Rightarrow> u64 \<Rightarrow> ipc_payload ctl" where
  "handle_protect incident now =
     fbind (flift (validate_incident_id incident)) (\<lambda>_.
     fbind lock_status (\<lambda>_.
     fbind (on_store control_error_from_store (protect_incident incident now)) (\<lambda>found.
     fbind (ok_or (ControlNotFound ''incident has no observation to protect'') found) (\<lambda>protection.
     fbind bump_policy_revision (\<lambda>_. fnext (PayIncidentProtected protection))))))"

definition handle_unprotect :: "string \<Rightarrow> ipc_payload ctl" where
  "handle_unprotect incident =
     fbind (flift (validate_incident_id incident)) (\<lambda>_.
     fbind lock_status (\<lambda>_.
     fbind (on_store control_error_from_store (unprotect_incident incident)) (\<lambda>removed.
     if \<not> removed then fexit (ControlNotFound ''incident has no exact protection override'')
     else fbind bump_policy_revision (\<lambda>_. fnext (PayIncidentUnprotected incident)))))"

definition incident_payload :: "string \<Rightarrow> incident_detail ctl" where
  "incident_payload incident =
     fbind (flift (validate_incident_id incident)) (\<lambda>_.
     fbind (on_store control_error_from_store (explain incident)) (\<lambda>found.
     ok_or (ControlNotFound ''incident was not found'') found))"

definition handle_export :: "string \<Rightarrow> u64 \<Rightarrow> ipc_payload ctl" where
  "handle_export incident now =
     fbind (incident_payload incident) (\<lambda>detail.
     fbind read_status (\<lambda>st.
     fnext (PayDiagnostics \<lparr>dg_schema_version = 1, dg_generated_at_unix_millis = now, dg_status = st, dg_incident = detail\<rparr>)))"

definition handle_history :: "usize \<Rightarrow> ipc_payload ctl" where
  "handle_history limit =
     (if max_history_limit < limit then
        fexit (InvalidArgument (''history limit must not exceed '' @ dec_string max_history_limit))
      else fbind (on_store control_error_from_store (history limit)) (\<lambda>events. fnext (PayHistory events)))"

definition handle_at :: "ipc_command \<Rightarrow> u64 \<Rightarrow> ipc_payload ctl" where
  "handle_at command now =
     (case command of
        IpcStatus \<Rightarrow> fbind (status_at now) (\<lambda>st. fnext (PayStatus st))
      | IpcTaskStatus task_id \<Rightarrow> task_status_payload task_id
      | IpcHistory limit \<Rightarrow> handle_history limit
      | IpcExplain incident \<Rightarrow> fbind (incident_payload incident) (\<lambda>detail. fnext (PayIncident detail))
      | IpcPause duration_millis \<Rightarrow> handle_pause duration_millis now
      | IpcResume \<Rightarrow> handle_resume
      | IpcArm generation instance_id \<Rightarrow> handle_arm generation instance_id now
      | IpcDisarm generation instance_id \<Rightarrow> handle_disarm generation instance_id now
      | IpcBeginDrain generation instance_id \<Rightarrow> handle_begin_drain generation instance_id now
      | IpcRetryFailedCleanup incident \<Rightarrow> handle_retry incident now
      | IpcProtectIncident incident \<Rightarrow> handle_protect incident now
      | IpcUnprotectIncident incident \<Rightarrow> handle_unprotect incident
      | IpcExportDiagnostics incident \<Rightarrow> handle_export incident now
      | _ \<Rightarrow> fexit (Unavailable ''ownership registration requires an authenticated local socket''))"

section \<open>Commands of an ownership peer\<close>

type_synonym 'e native_lookup = "nat \<Rightarrow> u32 \<Rightarrow> 'e + process_record option"

definition looked_up :: "'e + process_record option \<Rightarrow> control_error \<Rightarrow> control_error \<Rightarrow> process_record ctl" where
  "looked_up answer unreadable gone =
     (case answer of Inl _ \<Rightarrow> fexit unreadable | Inr None \<Rightarrow> fexit gone | Inr (Some p) \<Rightarrow> fnext p)"

definition ready_for_ownership :: "daemon_status \<Rightarrow> bool" where
  "ready_for_ownership st \<longleftrightarrow> ds_healthy st \<and> ds_ready st \<and> \<not> ds_draining st \<and> ds_startup_state st \<noteq> StartFailed"

definition require_ready_for_ownership :: "string \<Rightarrow> unit ctl" where
  "require_ready_for_ownership what =
     fbind lock_status (\<lambda>st.
     if ready_for_ownership st then fnext () else fexit (Unavailable (what @ '' requires a healthy ready daemon'')))"

text \<open>The owner of an activation is the exact child of the peer and runs for the same user.\<close>

definition command_owner ::
    "'e + process_record option \<Rightarrow> u32 \<Rightarrow> task_owner_identity \<Rightarrow> string \<Rightarrow> task_owner_identity ctl" where
  "command_owner answer peer_pid registrar who =
     fbind (looked_up answer (Unavailable (who @ '' identity unavailable'')) (ControlConflict (who @ '' has exited''))) (\<lambda>owner.
     if parent_pid owner \<noteq> peer_pid \<or> uid owner \<noteq> owner_uid registrar then
       fexit (ControlConflict (who @ '' must be the registrar's exact child''))
     else ok_or (InvalidArgument (''invalid '' @ who @ '' identity'')) (owner_from_process owner))"

text \<open>A release needs proof that the owner is gone.\<close>

definition owner_absent :: "'e native_lookup \<Rightarrow> task_owner_identity option \<Rightarrow> string \<Rightarrow> unit ctl" where
  "owner_absent native owner who =
     (case owner of
        None \<Rightarrow> fnext ()
      | Some holder \<Rightarrow>
          (case native 1 (owner_pid holder) of
             Inl _ \<Rightarrow> fexit (Unavailable (who @ '' absence is unproved''))
           | Inr (Some process) \<Rightarrow>
               if owner_matches holder process then fexit (ControlConflict (who @ '' is still running'')) else fnext ()
           | Inr None \<Rightarrow> fnext ()))"

definition release_reason :: "task_owner_identity option \<Rightarrow> string" where
  "release_reason owner = (if owner \<noteq> None then ''reported_exit'' else ''never_started'')"

definition task_reserve :: "task_owner_identity \<Rightarrow> string \<Rightarrow> u64 \<Rightarrow> ipc_payload ctl" where
  "task_reserve registrar task_id now =
     fbind (require_ready_for_ownership ''task registration'') (\<lambda>_.
     fbind (on_store map_store_error (reserve_task task_id registrar now)) (\<lambda>lease. fnext (PayTaskLease lease)))"

definition task_activate ::
    "'e native_lookup \<Rightarrow> u32 \<Rightarrow> task_owner_identity \<Rightarrow> string \<Rightarrow> string \<Rightarrow> u32 \<Rightarrow> u64 \<Rightarrow> ipc_payload ctl" where
  "task_activate native peer_pid registrar task_id capability child_pid now =
     fbind (require_ready_for_ownership ''task activation'') (\<lambda>_.
     fbind (on_store map_store_error (authorize_task task_id capability)) (\<lambda>scope.
     if tk_registrar scope \<noteq> registrar then fexit (ControlConflict ''task activation belongs to its original registrar'')
     else
       fbind (command_owner (native 1 child_pid) peer_pid registrar ''command owner'') (\<lambda>identity.
       fbind (on_store map_store_error (activate_task task_id identity now)) (\<lambda>_.
       task_status_payload task_id))))"

definition task_finish :: "'e native_lookup \<Rightarrow> string \<Rightarrow> string \<Rightarrow> u64 \<Rightarrow> ipc_payload ctl" where
  "task_finish native task_id capability now =
     fbind (on_store map_store_error (authorize_task task_id capability)) (\<lambda>scope.
     fbind (if tk_released_at_us scope = None then
              fbind (owner_absent native (tk_owner scope) ''command owner'') (\<lambda>_.
              on_store map_store_error (release_task task_id now (release_reason (tk_owner scope)) (tk_owner scope)))
            else fnext ()) (\<lambda>_.
     task_status_payload task_id))"

definition session_owner_declare ::
    "task_owner_identity \<Rightarrow> string \<Rightarrow> string \<Rightarrow> string \<Rightarrow> u64 \<Rightarrow> ipc_payload ctl" where
  "session_owner_declare registrar session_name registry_namespace controller_version now =
     fbind (require_ready_for_ownership ''session-owner declaration'') (\<lambda>_.
     if \<not> valid_registry_namespace registry_namespace then
       fexit (InvalidArgument ''session-owner registry namespace must be 16 lowercase hex bytes'')
     else
       fbind (on_store map_store_error (declare_session_owner (ordinary_selector_fingerprint registry_namespace session_name)
         session_name controller_version registrar now)) (\<lambda>lease.
       fnext (PaySessionOwnerLease lease)))"

definition session_owner_activate ::
    "'e native_lookup \<Rightarrow> u32 \<Rightarrow> task_owner_identity \<Rightarrow> string \<Rightarrow> string \<Rightarrow> u32 \<Rightarrow> u64 \<Rightarrow> ipc_payload ctl" where
  "session_owner_activate native peer_pid registrar lease_id capability child_pid now =
     fbind (require_ready_for_ownership ''session-owner activation'') (\<lambda>_.
     fbind (on_store map_store_error (authorize_session_owner lease_id capability)) (\<lambda>scope.
     if os_registrar scope \<noteq> registrar then
       fexit (ControlConflict ''session-owner activation belongs to its original registrar'')
     else
       fbind (command_owner (native 1 child_pid) peer_pid registrar ''session owner'') (\<lambda>identity.
       fbind (on_store map_store_error (activate_session_owner lease_id identity now)) (\<lambda>_.
       session_owner_status_payload lease_id))))"

definition session_owner_release :: "'e native_lookup \<Rightarrow> string \<Rightarrow> string \<Rightarrow> u64 \<Rightarrow> ipc_payload ctl" where
  "session_owner_release native lease_id capability now =
     fbind (on_store map_store_error (authorize_session_owner lease_id capability)) (\<lambda>scope.
     fbind (if os_released_at_us scope = None then
              fbind (owner_absent native (os_owner scope) ''session owner'') (\<lambda>_.
              on_store map_store_error (release_session_owner lease_id now (release_reason (os_owner scope)) (os_owner scope)))
            else fnext ()) (\<lambda>_.
     session_owner_status_payload lease_id))"

definition handle_owner_peer_at :: "'e native_lookup \<Rightarrow> ipc_command \<Rightarrow> u32 \<Rightarrow> u64 \<Rightarrow> ipc_payload ctl" where
  "handle_owner_peer_at native command peer_pid now =
     fbind (looked_up (native 0 peer_pid) (Unavailable ''task registrar identity unavailable'')
       (Unavailable ''task registrar has exited'')) (\<lambda>peer.
     fbind (ok_or (InvalidArgument ''invalid task registrar identity'') (owner_from_process peer)) (\<lambda>registrar.
     case command of
       TaskReserve task_id \<Rightarrow> task_reserve registrar task_id now
     | TaskActivate task_id capability child_pid \<Rightarrow> task_activate native peer_pid registrar task_id capability child_pid now
     | TaskFinish task_id capability \<Rightarrow> task_finish native task_id capability now
     | SessionOwnerDeclare session_name registry_namespace controller_version \<Rightarrow>
         session_owner_declare registrar session_name registry_namespace controller_version now
     | SessionOwnerActivate lease_id capability child_pid \<Rightarrow>
         session_owner_activate native peer_pid registrar lease_id capability child_pid now
     | SessionOwnerRelease lease_id capability \<Rightarrow> session_owner_release native lease_id capability now
     | IpcSessionOwnerStatus lease_id \<Rightarrow> session_owner_status_payload lease_id
     | _ \<Rightarrow> handle_at command now))"

end
