(* ===== verification/Control_Frames.thy ===== *)
theory Control_Frames
  imports Control_Requests
begin

text \<open>
  What the operations of the control plane leave alone. Only the lifecycle transitions touch the lifecycle row and the
  authority in the status; everything else is quiet, and the two maintenance lanes change only by a fresh start, a
  cancellation or an end.
\<close>

section \<open>Quiet store operations\<close>

definition store_quiet :: "store \<Rightarrow> store \<Rightarrow> bool" where
  "store_quiet s s' \<longleftrightarrow> t_lifecycle s' = t_lifecycle s \<and> t_random s' = t_random s \<and> t_draws s \<le> t_draws s'"

lemma store_quiet_refl [simp]: "store_quiet s s"
  by (simp add: store_quiet_def)

lemma store_quiet_trans: "store_quiet s t \<Longrightarrow> store_quiet t u \<Longrightarrow> store_quiet s u"
  by (simp add: store_quiet_def)

definition frames :: "'a db \<Rightarrow> bool" where
  "frames m \<longleftrightarrow> (\<forall>s x s'. m s = Inr (x, s') \<longrightarrow> store_quiet s s')"

lemma framesD: "frames m \<Longrightarrow> m s = Inr (x, s') \<Longrightarrow> store_quiet s s'"
  by (auto simp: frames_def)

lemma frames_reader: "reader m \<Longrightarrow> frames m"
  by (auto simp: frames_def dest: readerD)

lemma frames_intros:
  "frames (db_return x)" "frames (db_fail e)" "frames (db_lift r)" "frames (db_read f)" "frames (db_require b e)"
  by (auto simp: frames_def db_simps)

lemma frames_bind: "frames m \<Longrightarrow> (\<And>x. frames (f x)) \<Longrightarrow> frames (db_bind m f)"
  unfolding frames_def db_bind_Inr by (blast intro: store_quiet_trans)

lemma frames_if: "frames m \<Longrightarrow> frames m' \<Longrightarrow> frames (if b then m else m')"
  by simp

lemma frames_option: "frames m \<Longrightarrow> (\<And>x. frames (f x)) \<Longrightarrow> frames (case r of None \<Rightarrow> m | Some x \<Rightarrow> f x)"
  by (cases r) auto

lemma frames_split: "(\<And>a b. frames (f a b)) \<Longrightarrow> frames (case x of (a, b) \<Rightarrow> f a b)"
  by (cases x) simp

lemma frames_map: "(\<And>x. frames (f x)) \<Longrightarrow> frames (db_map f xs)"
  by (induction xs) (simp_all add: frames_bind frames_intros)

lemma frames_write: "(\<And>s. store_quiet s (f s)) \<Longrightarrow> frames (db_write f)"
  by (auto simp: frames_def db_simps)

lemma frames_constrained: "(\<And>s. store_quiet s (f s)) \<Longrightarrow> frames (db_constrained ok f)"
  by (auto simp: frames_def db_simps)

lemmas frames_rules = frames_bind frames_intros frames_if frames_option frames_split frames_map frames_write frames_constrained

lemma frames_mutation:
  assumes "\<And>d. frames (f d)" "frames g" "\<And>i. frames (h i)" "\<And>i. frames (p i)" "\<And>i. frames (q i)"
  shows "frames (case m of Pause d \<Rightarrow> f d | Resume \<Rightarrow> g | RetryFailedCleanup i \<Rightarrow> h i | ProtectIncident i \<Rightarrow> p i
    | UnprotectIncident i \<Rightarrow> q i)"
  using assms by (cases m) simp_all

lemma frames_decision:
  assumes "frames f" "\<And>r. frames (g r)" "\<And>r. frames (h r)"
  shows "frames (case d of Allow \<Rightarrow> f | DecideNoChange r \<Rightarrow> g r | DecideReject r \<Rightarrow> h r)"
  using assms by (cases d) simp_all

lemma frames_random_token: "frames random_token"
  unfolding random_token_def by (intro frames_rules) (simp_all add: store_quiet_def)

lemma frames_summary: "frames (protection_summary_transaction i)"
  unfolding protection_summary_transaction_def by (intro frames_rules frames_reader reader_protection_summary)

lemma frames_pause: "frames (set_pause_until p)"
  unfolding set_pause_until_def by (intro frames_rules) (simp_all add: store_quiet_def)

lemma frames_retry: "frames (authorize_retry i now)"
  unfolding authorize_retry_def delete_block_def delete_retry_block_def by (intro frames_rules) (simp_all add: store_quiet_def)

lemma frames_protect: "frames (protect_incident i now)"
  unfolding protect_incident_def Let_def by (intro frames_rules frames_summary) (simp_all add: store_quiet_def)

lemma frames_unprotect: "frames (unprotect_incident i)"
  unfolding unprotect_incident_def delete_protection_def by (intro frames_rules) (simp_all add: store_quiet_def)

lemma frames_facts: "frames (store_policy_facts_connection m now)"
  unfolding store_policy_facts_connection_def Let_def by (intro frames_rules frames_mutation)

lemma frames_apply_mutation: "frames (apply_ordinary_mutation m now)"
  unfolding apply_ordinary_mutation_def apply_pause_def apply_resume_def apply_retry_def apply_protect_def apply_unprotect_def
    delete_block_def delete_retry_block_def delete_protection_def
  by (intro frames_rules frames_mutation frames_summary) (simp_all add: store_quiet_def)

lemma frames_commit: "frames (commit_public_ordinary_mutation context m facts now)"
  unfolding commit_public_ordinary_mutation_def replay_mutation_def commit_new_mutation_def current_mutation_namespace_def
    reserve_mutation_receipt_slot_def decide_mutation_def advance_policy_revision_def cleanup_policy_revision_connection_def Let_def
  by (intro frames_rules frames_decision frames_facts frames_apply_mutation) (simp_all add: store_quiet_def)

lemma frames_lookup: "frames (mutation_lookup context)"
  unfolding mutation_lookup_def mutation_receipt_connection_def current_mutation_namespace_def
  by (intro frames_rules)

lemma frames_task_scopes: "frames task_scopes"
  unfolding task_scopes_def task_scope_of_row_def by (intro frames_rules)

lemma frames_owner_scopes: "frames session_owner_scopes"
  unfolding session_owner_scopes_def session_owner_scope_of_row_def by (intro frames_rules)

lemma frames_tasks:
  "frames (reserve_task i r now)" "frames (authorize_task i c)" "frames (activate_task i w now)"
  "frames (release_task i now reason v)" "frames (read_task_status i)"
  unfolding reserve_task_def authorize_task_def activate_task_def release_task_def read_task_status_def
  by (intro frames_rules frames_random_token frames_task_scopes; simp add: store_quiet_def)+

lemma frames_owners:
  "frames (declare_session_owner f n v r now)" "frames (authorize_session_owner i c)" "frames (activate_session_owner i w now)"
  "frames (release_session_owner i now reason u)" "frames (read_session_owner_status i)"
  unfolding declare_session_owner_def rejoin_lease_def declare_generation_def authorize_session_owner_def
    activate_session_owner_def release_session_owner_def read_session_owner_status_def
  by (intro frames_rules frames_random_token frames_owner_scopes; simp add: store_quiet_def)+

lemma frames_storage: "frames (begin_storage_cleanup_attempt now facts)"
  unfolding begin_storage_cleanup_attempt_def finalize_unknown_storage_cleanup_attempts_def
  by (intro frames_rules frames_random_token) (simp_all add: store_quiet_def)

lemma frames_caches: "frames (begin_tool_cache_attempt now)" "frames (begin_node_compile_cache_attempt now)"
  unfolding begin_tool_cache_attempt_def record_tool_cache_observation_def begin_node_compile_cache_attempt_def
    record_node_compile_cache_observation_def
  by (intro frames_rules frames_random_token; simp add: store_quiet_def)+

lemma frames_begin_attempt: "frames (begin_cleanup_attempt now report epoch)"
  unfolding begin_cleanup_attempt_def insert_event_transaction_def insert_public_event_token_def
  by (intro frames_rules) (simp_all add: store_quiet_def)

lemmas frames_store = frames_pause frames_retry frames_protect frames_unprotect frames_facts frames_commit frames_lookup frames_tasks
  frames_owners frames_storage frames_caches frames_begin_attempt readers [THEN frames_reader]

text \<open>The token of a new maintenance attempt is the next one of the stream.\<close>

definition fresh_token :: "store \<Rightarrow> store \<Rightarrow> string \<Rightarrow> bool" where
  "fresh_token s s' token \<longleftrightarrow> (\<exists>k. token = t_random s k \<and> t_draws s \<le> k \<and> k < t_draws s')"

lemma storage_token_fresh:
  "begin_storage_cleanup_attempt now facts s = Inr (p, s') \<Longrightarrow> fresh_token s s' (psa_attempt_token p)"
  by (auto simp: begin_storage_cleanup_attempt_def finalize_unknown_storage_cleanup_attempts_def random_token_def db_simps fresh_token_def)

lemma cache_token_fresh:
  "begin_tool_cache_attempt now s = Inr (p, s') \<Longrightarrow> fresh_token s s' (ptc_token p)"
  "begin_node_compile_cache_attempt now s = Inr (p, s') \<Longrightarrow> fresh_token s s' (ptc_token p)"
  by (auto simp: begin_tool_cache_attempt_def record_tool_cache_observation_def begin_node_compile_cache_attempt_def
      record_node_compile_cache_observation_def random_token_def db_simps fresh_token_def)

section \<open>Quiet operations of the control plane\<close>

definition core_of :: "daemon_status \<Rightarrow> bool \<times> u32 \<times> daemon_mode \<times> daemon_mode \<times> bool \<times> bool \<times> startup_state \<times> string option" where
  "core_of st = (ds_managed st, ds_lifecycle_schema_version st, ds_mode st, ds_effective_mode st, ds_ready st, ds_draining st,
     ds_startup_state st, ds_enforcement_epoch st)"

definition lane_step :: "store \<Rightarrow> store \<Rightarrow> lane_activity option \<Rightarrow> lane_activity option \<Rightarrow> bool" where
  "lane_step s s' a a' \<longleftrightarrow> a' = a \<or> a' = None \<or> a' = map_option cancel_activity a
     \<or> (\<exists>x. a' = Some x \<and> fresh_token s s' (la_token x))"

definition lanes_step :: "control \<Rightarrow> control \<Rightarrow> bool" where
  "lanes_step c c' \<longleftrightarrow>
     lane_step (cp_store c) (cp_store c') (ds_storage_activity (cp_status c)) (ds_storage_activity (cp_status c'))
     \<and> lane_step (cp_store c) (cp_store c') (ds_cache_activity (cp_status c)) (ds_cache_activity (cp_status c'))"

definition quiet :: "control \<Rightarrow> control \<Rightarrow> bool" where
  "quiet c c' \<longleftrightarrow> cp_status_poisoned c' = cp_status_poisoned c \<and> core_of (cp_status c') = core_of (cp_status c)
     \<and> cp_next_enforcement_epoch c' = cp_next_enforcement_epoch c \<and> store_quiet (cp_store c) (cp_store c') \<and> lanes_step c c'"

lemma core_updates [simp]:
  "core_of (st\<lparr>ds_healthy := x0\<rparr>) = core_of st"
  "core_of (st\<lparr>ds_requested_mode := x1\<rparr>) = core_of st"
  "core_of (st\<lparr>ds_activation_generation := x2\<rparr>) = core_of st"
  "core_of (st\<lparr>ds_armed_generation := x3\<rparr>) = core_of st"
  "core_of (st\<lparr>ds_recovered_cleanup_attempts := x4\<rparr>) = core_of st"
  "core_of (st\<lparr>ds_event_source_healthy := x5\<rparr>) = core_of st"
  "core_of (st\<lparr>ds_last_event_source_error := x6\<rparr>) = core_of st"
  "core_of (st\<lparr>ds_attention := x7\<rparr>) = core_of st"
  "core_of (st\<lparr>ds_protected_incident_count := x8\<rparr>) = core_of st"
  "core_of (st\<lparr>ds_protected_incidents := x9\<rparr>) = core_of st"
  "core_of (st\<lparr>ds_scan_in_progress := x10\<rparr>) = core_of st"
  "core_of (st\<lparr>ds_cleanup_in_progress := x11\<rparr>) = core_of st"
  "core_of (st\<lparr>ds_cache_activity := x12\<rparr>) = core_of st"
  "core_of (st\<lparr>ds_storage_activity := x13\<rparr>) = core_of st"
  "core_of (st\<lparr>ds_process_activity := x14\<rparr>) = core_of st"
  "core_of (st\<lparr>ds_paused_until_unix_millis := x15\<rparr>) = core_of st"
  "core_of (st\<lparr>ds_cycle_started_at_unix_millis := x16\<rparr>) = core_of st"
  "core_of (st\<lparr>ds_latest_observation_at_unix_millis := x17\<rparr>) = core_of st"
  "core_of (st\<lparr>ds_last_scan_at_unix_millis := x18\<rparr>) = core_of st"
  "core_of (st\<lparr>ds_confirmed_incidents := x19\<rparr>) = core_of st"
  "core_of (st\<lparr>ds_ambiguous_incidents := x20\<rparr>) = core_of st"
  "core_of (st\<lparr>ds_most_recent_reclaim := x21\<rparr>) = core_of st"
  "core_of (st\<lparr>ds_last_error := x22\<rparr>) = core_of st"
  "core_of (st\<lparr>ds_first_failure := x23\<rparr>) = core_of st"
  by (simp_all add: core_of_def)

lemmas flow_ops = fbind_def fnext_def fexit_def fget_def fput_def flift_def lock_status_def put_status_def on_store_def try_store_def
  ok_or_def

lemma cancel_twice [simp]: "cancel_activity (cancel_activity a) = cancel_activity a"
  by (simp add: cancel_activity_def)

lemma cancel_token [simp]: "la_token (cancel_activity a) = la_token a" "la_cancel_requested (cancel_activity a)"
  by (simp_all add: cancel_activity_def)

lemma lane_step_refl [simp]: "lane_step s s' a a" "lane_step s s' a None" "lane_step s s' a (map_option cancel_activity a)"
  by (simp_all add: lane_step_def)

lemma lane_step_start: "fresh_token s s' (la_token x) \<Longrightarrow> lane_step s s' a (Some x)"
  by (auto simp: lane_step_def)

lemma cancel_prompt_fields [simp]:
  "core_of (cancel_prompt_activities st) = core_of st"
  "ds_storage_activity (cancel_prompt_activities st) = map_option cancel_activity (ds_storage_activity st)"
  "ds_cache_activity (cancel_prompt_activities st) = map_option cancel_activity (ds_cache_activity st)"
  by (simp_all add: cancel_prompt_activities_def cancel_storage_activity_def cancel_cache_activity_def core_of_def)

lemma refresh_fields [simp]:
  "core_of (refresh_cleanup_activity st) = core_of st"
  "ds_storage_activity (refresh_cleanup_activity st) = ds_storage_activity st"
  "ds_cache_activity (refresh_cleanup_activity st) = ds_cache_activity st"
  by (simp_all add: refresh_cleanup_activity_def core_of_def)

lemma quiet_refl [simp]: "quiet c c"
  by (simp add: quiet_def lanes_step_def)

lemma fresh_token_mono:
  "fresh_token s t token \<Longrightarrow> store_quiet t u \<Longrightarrow> fresh_token s u token"
  "fresh_token t u token \<Longrightarrow> store_quiet s t \<Longrightarrow> fresh_token s u token"
  by (fastforce simp: fresh_token_def store_quiet_def)+

lemma lane_step_trans:
  assumes "lane_step s t a b" "lane_step t u b d" "store_quiet s t" "store_quiet t u"
  shows "lane_step s u a d"
  using assms(1,2) fresh_token_mono [of s t _ u] fresh_token_mono(2) [of t u _ s] assms(3,4)
  by (auto simp: lane_step_def option.map_comp comp_def)

lemma quiet_trans: "quiet c d \<Longrightarrow> quiet d e \<Longrightarrow> quiet c e"
  unfolding quiet_def lanes_step_def by (auto intro: store_quiet_trans lane_step_trans)

definition quietly :: "(control, 'r, 'a) comp \<Rightarrow> bool" where
  "quietly m \<longleftrightarrow> (\<forall>c. quiet c (snd (m c)))"

lemma quietlyD: "quietly m \<Longrightarrow> quiet c (snd (m c))"
  by (simp add: quietly_def)

lemma quietly_bind: "quietly m \<Longrightarrow> (\<And>x. quietly (f x)) \<Longrightarrow> quietly (fbind m f)"
  unfolding quietly_def fbind_def
  by (auto split: prod.splits flow.splits) (metis quiet_trans snd_conv)+

lemma quietly_intros:
  "quietly (fnext x)" "quietly (fexit r)" "quietly lock_status" "quietly (fget f)" "quietly (flift w)" "quietly (ok_or e y)"
  "quietly bump_policy_revision"
  unfolding bump_policy_revision_def quietly_def flow_ops
  by (auto simp: quiet_def lanes_step_def split: sum.splits option.splits)

lemma quietly_store: "frames m \<Longrightarrow> quietly (on_store h m)"
  by (auto simp: quietly_def on_store_def quiet_def lanes_step_def split: sum.splits dest: framesD)

lemma quietly_if: "quietly m \<Longrightarrow> quietly n \<Longrightarrow> quietly (if b then m else n)"
  by simp

lemma quietly_option: "quietly m \<Longrightarrow> (\<And>x. quietly (f x)) \<Longrightarrow> quietly (case y of None \<Rightarrow> m | Some x \<Rightarrow> f x)"
  by (cases y) simp_all

lemma quietly_sum: "(\<And>x. quietly (f x)) \<Longrightarrow> (\<And>x. quietly (g x)) \<Longrightarrow> quietly (case y of Inl x \<Rightarrow> f x | Inr x \<Rightarrow> g x)"
  by (cases y) simp_all

lemma quietly_split: "(\<And>a b. quietly (f a b)) \<Longrightarrow> quietly (case x of (a, b) \<Rightarrow> f a b)"
  by (cases x) simp

lemmas quietly_rules = quietly_bind quietly_intros quietly_store quietly_if quietly_option quietly_sum quietly_split frames_store

text \<open>An operation that works on the status it has locked is judged at that status.\<close>

lemma quietly_locked:
  assumes "\<And>c. \<not> cp_status_poisoned c \<Longrightarrow> quiet c (snd (f (cp_status c) c))"
  shows "quietly (fbind lock_status f)"
  using assms by (simp add: quietly_def fbind_def lock_status_def)

lemma quiet_put:
  "core_of st = core_of (cp_status c) \<Longrightarrow> lane_step (cp_store c) (cp_store c) (ds_storage_activity (cp_status c)) (ds_storage_activity st)
   \<Longrightarrow> lane_step (cp_store c) (cp_store c) (ds_cache_activity (cp_status c)) (ds_cache_activity st) \<Longrightarrow> quiet c (snd (put_status st c))"
  by (simp add: put_status_def quiet_def lanes_step_def)

lemma quietly_update_status:
  assumes "\<And>st. core_of (f st) = core_of st" "\<And>st. ds_storage_activity (f st) = ds_storage_activity st"
    "\<And>st. ds_cache_activity (f st) = ds_cache_activity st"
  shows "quietly (update_status f)"
  using assms unfolding update_status_def Let_def
  by (intro quietly_locked quiet_put) (simp_all split: if_splits)

text \<open>Store work under the lock, then the new status.\<close>

lemma quietly_store_put:
  assumes "frames m" "\<And>a. quietly (k a)"
    "\<And>a st. core_of (g a st) = core_of st"
    "\<And>a st s s'. m s = Inr (a, s') \<Longrightarrow> lane_step s s' (ds_storage_activity st) (ds_storage_activity (g a st))"
    "\<And>a st s s'. m s = Inr (a, s') \<Longrightarrow> lane_step s s' (ds_cache_activity st) (ds_cache_activity (g a st))"
  shows "quiet c (snd (fbind (on_store h m) (\<lambda>a. fbind (put_status (g a (cp_status c))) (\<lambda>_. k a)) c))"
proof (cases "m (cp_store c)")
  case (Inl e)
  then show ?thesis by (simp add: flow_ops)
next
  case (Inr r)
  obtain a s where r: "r = (a, s)" by fastforce
  let ?d = "c\<lparr>cp_store := s, cp_status := g a (cp_status c)\<rparr>"
  have "quiet c ?d" using assms(3-5) framesD [OF assms(1)] Inr r by (simp add: quiet_def lanes_step_def)
  moreover have "quiet ?d (snd (k a ?d))" using assms(2) by (rule quietlyD)
  ultimately have "quiet c (snd (k a ?d))" by (rule quiet_trans)
  then show ?thesis using Inr r by (simp add: flow_ops)
qed

lemma put_status_next [simp]:
  "fbind (put_status st) (\<lambda>_. fnext ()) = put_status st" "fbind (put_status st) fnext = put_status st"
  by (rule ext, simp add: fbind_def put_status_def fnext_def)+

lemma quietly_expire: "quietly (expire_pause now)"
proof -
  have "quiet c (snd (fbind (on_store control_error_from_store (set_pause_until None))
          (\<lambda>_. put_status ((cp_status c)\<lparr>ds_paused_until_unix_millis := None\<rparr>)) c))" for c
    using quietly_store_put [OF frames_pause [of None], where k = "\<lambda>_. fnext ()" and g = "\<lambda>_ st. st\<lparr>ds_paused_until_unix_millis := None\<rparr>"
        and c = c and h = control_error_from_store]
    by (simp add: quietly_intros)
  then show ?thesis unfolding expire_pause_def
    by (intro quietly_locked) (simp add: fnext_def split: option.splits)
qed

lemma quietly_pause: "quietly (handle_pause d now)"
proof -
  have "quietly (fbind lock_status (\<lambda>st.
        fbind (on_store control_error_from_store (set_pause_until (Some deadline))) (\<lambda>_.
        fbind (put_status (cancel_prompt_activities (st\<lparr>ds_paused_until_unix_millis := Some deadline\<rparr>))) (\<lambda>_.
        fbind bump_policy_revision (\<lambda>_. fnext (PayPause deadline))))))" for deadline
    by (rule quietly_locked, rule quietly_store_put [OF frames_pause,
        where g = "\<lambda>_ st. cancel_prompt_activities (st\<lparr>ds_paused_until_unix_millis := Some deadline\<rparr>)"])
      (simp_all add: quietly_bind quietly_intros)
  then show ?thesis unfolding handle_pause_def
    by (rule quietly_if [OF quietly_intros(2) quietly_bind [OF quietly_intros(6)]])
qed

lemma quietly_resume: "quietly handle_resume"
  unfolding handle_resume_def
  by (rule quietly_locked, rule quietly_store_put [OF frames_pause, where g = "\<lambda>_ st. st\<lparr>ds_paused_until_unix_millis := None\<rparr>"])
    (simp_all add: quietly_bind quietly_intros)

lemma quietly_requests:
  "quietly (handle_retry i now)" "quietly (handle_protect i now)" "quietly (handle_unprotect i)" "quietly read_status"
  "quietly (handle_history n)" "quietly (incident_payload i)" "quietly (task_status_payload i)" "quietly (session_owner_status_payload i)"
  unfolding handle_retry_def handle_protect_def handle_unprotect_def read_status_def handle_history_def incident_payload_def
    task_status_payload_def session_owner_status_payload_def
  by (intro quietly_rules)+

lemma quietly_status: "quietly (status_at now)" "quietly (handle_export i now)"
  unfolding status_at_def handle_export_def by (intro quietly_rules quietly_expire quietly_requests)+

text \<open>The requests that change the lifecycle are the three of the service manager.\<close>

definition lifecycle_request :: "ipc_command \<Rightarrow> bool" where
  "lifecycle_request command \<longleftrightarrow> (case command of IpcArm _ _ \<Rightarrow> True | IpcDisarm _ _ \<Rightarrow> True | IpcBeginDrain _ _ \<Rightarrow> True | _ \<Rightarrow> False)"

lemma quietly_handle: "\<not> lifecycle_request command \<Longrightarrow> quietly (handle_at command now)"
  unfolding handle_at_def lifecycle_request_def
  by (cases command) (simp_all add: quietly_bind quietly_intros quietly_status quietly_requests quietly_pause quietly_resume)

lemma quietly_looked_up: "quietly (looked_up a e e')"
  unfolding looked_up_def by (cases a) (simp_all add: quietly_intros split: option.splits)

lemma quietly_ownership:
  "quietly (require_ready_for_ownership w)" "quietly (command_owner a peer r w)" "quietly (owner_absent native holder w)"
  unfolding require_ready_for_ownership_def command_owner_def owner_absent_def
  by (intro quietly_rules quietly_looked_up)+

lemma quietly_owner_peer:
  assumes "\<not> lifecycle_request command"
  shows "quietly (handle_owner_peer_at native command peer now)"
proof -
  have "quietly (case command of
       TaskReserve task_id \<Rightarrow> task_reserve registrar task_id now
     | TaskActivate task_id capability child_pid \<Rightarrow> task_activate native peer registrar task_id capability child_pid now
     | TaskFinish task_id capability \<Rightarrow> task_finish native task_id capability now
     | SessionOwnerDeclare session_name registry_namespace controller_version \<Rightarrow>
         session_owner_declare registrar session_name registry_namespace controller_version now
     | SessionOwnerActivate lease_id capability child_pid \<Rightarrow>
         session_owner_activate native peer registrar lease_id capability child_pid now
     | SessionOwnerRelease lease_id capability \<Rightarrow> session_owner_release native lease_id capability now
     | IpcSessionOwnerStatus lease_id \<Rightarrow> session_owner_status_payload lease_id
     | _ \<Rightarrow> handle_at command now)" for registrar
    unfolding task_reserve_def task_activate_def task_finish_def session_owner_declare_def session_owner_activate_def
      session_owner_release_def
    using quietly_handle [OF assms]
    by (cases command) (simp_all add: quietly_bind quietly_intros quietly_store frames_store quietly_ownership quietly_requests)
  then show ?thesis unfolding handle_owner_peer_at_def by (intro quietly_bind quietly_looked_up quietly_intros)
qed

lemma quietly_mutation: "quietly (commit_public_mutation context m now)"
  unfolding commit_public_mutation_def
proof (rule quietly_locked)
  fix c :: control
  let ?m = "commit_public_ordinary_mutation context m (runtime_facts_of (cp_status c)) now"
  let ?k = "\<lambda>commit. fbind (fput (\<lambda>c. c\<lparr>cp_policy_revision := mu_policy_revision_after (cm_receipt commit)\<rparr>)) (\<lambda>_.
     if \<not> cm_state_changed commit then fnext commit
     else case mu_outcome (cm_receipt commit) of
            Applied result \<Rightarrow> fbind (put_status (apply_mutation_result result (cp_status c))) (\<lambda>_. fnext commit)
          | _ \<Rightarrow> fexit (ControlStore ''a state-changing mutation receipt lacked an applied result''))"
  have "quiet c (snd (?k commit (c\<lparr>cp_store := s\<rparr>)))" if "?m (cp_store c) = Inr (commit, s)" for commit s
    using framesD [OF frames_commit that]
    by (auto simp: flow_ops quiet_def lanes_step_def apply_mutation_result_def Let_def split: mutation_outcome.splits mutation_result.splits)
  then show "quiet c (snd (fbind (on_store map_store_error ?m) ?k c))"
    by (auto simp: fbind_def on_store_def split: sum.splits)
qed

lemma quietly_cycles:
  "quietly (begin_observation_cycle n t)" "quietly (publish_roster token t rs b)" "quietly (finish_observation_cycle token b)"
  "quietly note_event_source_failure" "quietly note_event_source_healthy"
proof -
  show "quietly (begin_observation_cycle n t)"
    unfolding begin_observation_cycle_def Let_def
    by (intro quietly_bind quietly_intros quietly_update_status)
      (simp_all add: clear_error_unless_failed_def quietly_def fput_def quiet_def lanes_step_def)
  show "quietly (publish_roster token t rs b)"
    unfolding publish_roster_def
    by (intro quietly_bind quietly_intros quietly_if quietly_update_status)
      (simp_all add: quietly_def fput_def quiet_def lanes_step_def)
  show "quietly (finish_observation_cycle token b)"
    unfolding finish_observation_cycle_def by (simp add: quietly_def fput_def quiet_def lanes_step_def Let_def)
  show "quietly note_event_source_failure" "quietly note_event_source_healthy"
    unfolding note_event_source_failure_def note_event_source_healthy_def by (intro quietly_update_status; simp)+
qed

lemma quietly_start_storage: "quietly (start_storage_cleanup_if_ready_enforce now facts)"
proof -
  have "quietly (fbind lock_status (\<lambda>st. if \<not> storage_cleanup_gate_open st then fnext None
     else fbind (on_store map_store_error (begin_storage_cleanup_attempt now facts)) (\<lambda>prepared.
             fbind (put_status (refresh_cleanup_activity (st\<lparr>ds_storage_activity := Some
               \<lparr>la_token = psa_attempt_token prepared, la_epoch = the (ds_enforcement_epoch st), la_cancel_requested = False\<rparr>\<rparr>))) (\<lambda>_.
             fnext (Some (prepared, the (ds_enforcement_epoch st)))))))"
  proof (rule quietly_locked)
    fix c :: control
    let ?e = "the (ds_enforcement_epoch (cp_status c))"
    show "quiet c (snd ((if \<not> storage_cleanup_gate_open (cp_status c) then fnext None
     else fbind (on_store map_store_error (begin_storage_cleanup_attempt now facts)) (\<lambda>prepared.
             fbind (put_status (refresh_cleanup_activity ((cp_status c)\<lparr>ds_storage_activity := Some
               \<lparr>la_token = psa_attempt_token prepared, la_epoch = ?e, la_cancel_requested = False\<rparr>\<rparr>))) (\<lambda>_.
             fnext (Some (prepared, ?e))))) c))"
      using quietly_store_put [OF frames_storage, where c = c and h = map_store_error and k = "\<lambda>prepared. fnext (Some (prepared, ?e))"
          and g = "\<lambda>prepared st. refresh_cleanup_activity (st\<lparr>ds_storage_activity := Some
               \<lparr>la_token = psa_attempt_token prepared, la_epoch = ?e, la_cancel_requested = False\<rparr>\<rparr>)"]
      by (simp add: quietly_intros lane_step_start storage_token_fresh fnext_def)
  qed
  then show ?thesis unfolding start_storage_cleanup_if_ready_enforce_def Let_def by (rule quietly_bind [OF quietly_expire])
qed

lemma quietly_start_cache: "quietly (start_cache_if_ready_enforce now node started)"
proof -
  let ?m = "if node then begin_node_compile_cache_attempt now else begin_tool_cache_attempt now"
  let ?k = "\<lambda>st prepared. fbind (case started (ptc_token prepared) (the (ds_enforcement_epoch st)) of
                   Inl _ \<Rightarrow> fnext ()
                 | Inr _ \<Rightarrow> put_status (refresh_cleanup_activity (st\<lparr>ds_cache_activity := Some
                     \<lparr>la_token = ptc_token prepared, la_epoch = the (ds_enforcement_epoch st), la_cancel_requested = False\<rparr>\<rparr>))) (\<lambda>_.
          fnext (Some (prepared, started (ptc_token prepared) (the (ds_enforcement_epoch st)), the (ds_enforcement_epoch st))))"
  have step: "quiet c (snd (?k (cp_status c) p (c\<lparr>cp_store := s\<rparr>)))" if "?m (cp_store c) = Inr (p, s)" for c p s
  proof -
    have "fresh_token (cp_store c) s (ptc_token p)" "store_quiet (cp_store c) s"
      using that cache_token_fresh framesD [OF frames_caches(1)] framesD [OF frames_caches(2)] by (auto split: if_splits)
    then show ?thesis by (auto simp: flow_ops quiet_def lanes_step_def lane_step_start split: sum.splits)
  qed
  have "quietly (fbind lock_status (\<lambda>st. if \<not> storage_cleanup_gate_open st then fnext None
     else fbind (on_store map_store_error ?m) (?k st)))"
  proof (rule quietly_locked)
    fix c :: control
    show "quiet c (snd ((if \<not> storage_cleanup_gate_open (cp_status c) then fnext None
       else fbind (on_store map_store_error ?m) (?k (cp_status c))) c))"
      using step [of c] by (auto simp: fbind_def on_store_def fnext_def split: sum.splits)
  qed
  then show ?thesis unfolding start_cache_if_ready_enforce_def Let_def by (rule quietly_bind [OF quietly_expire])
qed

lemma quietly_ends:
  "quietly (finish_storage_action p)" "quietly (finish_tool_cache_action q)" "quietly (begin_process_cleanup_activity token)"
  "quietly (drop_process_cleanup_activity token)" "quietly (begin_cleanup_attempt_if_armed now report epoch revision)"
proof -
  show "quietly (finish_storage_action p)" "quietly (finish_tool_cache_action q)" "quietly (begin_process_cleanup_activity token)"
    unfolding finish_storage_action_def finish_tool_cache_action_def begin_process_cleanup_activity_def
    by (intro quietly_locked; simp add: flow_ops quiet_def lanes_step_def)+
  show "quietly (drop_process_cleanup_activity token)"
    unfolding drop_process_cleanup_activity_def by (simp add: quietly_def fput_def quiet_def lanes_step_def)
  show "quietly (begin_cleanup_attempt_if_armed now report epoch revision)"
    unfolding begin_cleanup_attempt_if_armed_def by (intro quietly_rules)
qed

lemma quietly_note: "quietly (note_status entry)"
  unfolding note_status_def by (rule quietly_update_status; cases entry) (simp_all add: clear_error_unless_failed_def)

end
