(* ===== verification/Control_Gate.thy ===== *)
theory Control_Gate
  imports Control_Frames
begin

text \<open>
  What the control plane promises over any interleaving of its operations: a fail-close is terminal, a revoked
  enforcement epoch never authorises again, and a cancelled maintenance lease never resumes. And one thing it does not
  promise: a repeated owner mutation sets the policy revision back.
\<close>

section \<open>Outcomes of the lifecycle transitions\<close>

lemma connection_view:
  "managed_lifecycle_connection s = Inr (x, s') \<Longrightarrow> s' = s \<and> map_option lifecycle_view (t_lifecycle s) = x"
  unfolding managed_lifecycle_connection_def parse_generation_def parse_sqlite_bool_def
  by (auto simp: db_simps lifecycle_view_def split: option.splits if_splits)

lemma transition_outcome:
  assumes "transition_managed g i now change s = Inr (l, s')"
  obtains r r' where "t_lifecycle s = Some r" "change (lifecycle_view r) (uint now) s = Inr ((), s')"
    "t_lifecycle s' = Some r'" "l = lifecycle_view r'"
  using assms unfolding transition_managed_def expect_lifecycle_def
  by (auto simp: db_simps sqlite_millis_def i64_try_from_def split: option.splits if_splits dest!: connection_view)

definition same_streams :: "store \<Rightarrow> store \<Rightarrow> bool" where
  "same_streams s s' \<longleftrightarrow> t_random s' = t_random s \<and> t_draws s' = t_draws s"

lemma phase_words:
  "parse_managed_startup_phase ''draining'' = Inr Draining" "parse_managed_startup_phase ''ready_report_only'' = Inr ReadyReportOnly"
  by (simp_all add: parse_managed_startup_phase_def)

lemma fail_outcome:
  assumes "fail_managed g i now s = Inr (l, s')"
  shows "\<exists>r. t_lifecycle s' = Some r \<and> l = lifecycle_view r \<and> \<not> ml_effective_enforce l \<and> \<not> ml_ready l
    \<and> ml_enforcement_epoch l = None \<and> ml_startup_phase l = (if ml_draining l then Draining else PhaseFailed) \<and> same_streams s s'"
  using assms unfolding fail_managed_def
  by (elim transition_outcome)
    (auto simp: db_simps update_lifecycle_def lifecycle_view_def disarmed_def same_streams_def parse_managed_startup_phase_def
      split: if_splits)

lemma drain_outcome:
  assumes "begin_managed_drain g i now s = Inr (l, s')"
  shows "\<exists>r. t_lifecycle s' = Some r \<and> l = lifecycle_view r \<and> \<not> ml_effective_enforce l \<and> \<not> ml_ready l
    \<and> ml_enforcement_epoch l = None \<and> ml_draining l \<and> ml_startup_phase l = Draining \<and> same_streams s s'"
  using assms unfolding begin_managed_drain_def
  by (elim transition_outcome)
    (auto simp: db_simps update_lifecycle_def lifecycle_view_def disarmed_def same_streams_def parse_managed_startup_phase_def)

lemma disarm_outcome:
  assumes "disarm_managed g i now s = Inr (l, s')"
  shows "\<exists>r r'. t_lifecycle s = Some r \<and> t_lifecycle s' = Some r' \<and> l = lifecycle_view r' \<and> \<not> ml_effective_enforce l
    \<and> ml_ready l = ml_ready (lifecycle_view r) \<and> ml_draining l = ml_draining (lifecycle_view r) \<and> ml_enforcement_epoch l = None
    \<and> ml_startup_phase l = (if ml_draining l then Draining else if ml_ready l then ReadyReportOnly
         else ml_startup_phase (lifecycle_view r)) \<and> same_streams s s'"
proof -
  from assms obtain r r' where r: "t_lifecycle s = Some r" "t_lifecycle s' = Some r'" "l = lifecycle_view r'"
    and change: "(let phase = (if ml_draining (lifecycle_view r) then ''draining''
                    else if ml_ready (lifecycle_view r) then ''ready_report_only''
                    else managed_startup_phase_name (ml_startup_phase (lifecycle_view r)))
       in update_lifecycle (\<lambda>r. (disarmed r)\<lparr>lr_requested_enforce := 0, lr_startup_phase := phase, lr_updated_at := uint now\<rparr>)) s
       = Inr ((), s')"
    unfolding disarm_managed_def by (elim transition_outcome) simp
  show ?thesis using r change
    by (auto simp: db_simps update_lifecycle_def Let_def phase_words same_streams_def lifecycle_view_def disarmed_def)
qed

lemma preserve_outcome:
  assumes "preserve_managed_pre_ready_restart_intent g i now s = Inr (l, s')"
  shows "\<exists>r r'. t_lifecycle s = Some r \<and> t_lifecycle s' = Some r' \<and> l = lifecycle_view r' \<and> \<not> ml_effective_enforce l
    \<and> \<not> ml_ready l \<and> \<not> ml_draining l \<and> ml_enforcement_epoch l = None \<and> ml_startup_phase l = ReadyReportOnly
    \<and> \<not> ml_draining (lifecycle_view r) \<and> same_streams s s'"
  using assms unfolding preserve_managed_pre_ready_restart_intent_def
  by (elim transition_outcome)
    (auto simp: db_simps update_lifecycle_def lifecycle_view_def disarmed_def same_streams_def parse_managed_startup_phase_def
      split: if_splits)

lemma finish_recovery_outcome:
  assumes "finish_managed_recovery g i now s = Inr (l, s')"
  shows "\<exists>r. t_lifecycle s' = Some r \<and> l = lifecycle_view r \<and> ml_enforcement_epoch l = None \<and> same_streams s s'"
  using assms unfolding finish_managed_recovery_def
  by (elim transition_outcome)
    (auto simp: db_simps update_lifecycle_def lifecycle_view_def disarmed_def same_streams_def split: if_splits)

text \<open>A completed first scan leaves the epoch that was drawn for it, or none.\<close>

lemma first_scan_outcome:
  assumes "complete_managed_first_scan g i epoch now s = Inr (l, s')"
  shows "\<exists>r. t_lifecycle s' = Some r \<and> l = lifecycle_view r \<and> ml_enforcement_epoch l \<in> {None, Some epoch} \<and> same_streams s s'"
proof -
  from assms have "transition_managed g i now (first_scan_change epoch) s = Inr (l, s')"
    by (simp add: complete_managed_first_scan_def db_simps)
  then show ?thesis
    by (elim transition_outcome)
      (auto simp: db_simps first_scan_change_def apply_managed_report_only_ready_def apply_managed_arm_def update_lifecycle_def
        lifecycle_view_def disarmed_def same_streams_def split: if_splits)
qed

text \<open>Arming writes the epoch that was drawn for it, or finds the daemon armed and changes nothing.\<close>

lemma arm_outcome:
  assumes "arm_managed g i epoch now s = Inr (l, s')"
  shows "\<exists>r r'. t_lifecycle s = Some r \<and> t_lifecycle s' = Some r' \<and> l = lifecycle_view r' \<and> same_streams s s'
    \<and> (ml_enforcement_epoch l = Some epoch \<or> r' = r)"
proof -
  from assms have "transition_managed g i now (arm_change g epoch) s = Inr (l, s')"
    by (simp add: arm_managed_def db_simps)
  then show ?thesis
    by (elim transition_outcome)
      (auto simp: db_simps arm_change_def apply_managed_arm_def update_lifecycle_def lifecycle_view_def same_streams_def
        split: if_splits option.splits)
qed

section \<open>Events\<close>

text \<open>Everything that happens to a running control plane, after its start-up. \<open>StoreWork\<close> is any other work on the store, by
  the engine or another thread: it may change every table but the lifecycle row, and it draws from the same stream of tokens.\<close>

datatype control_event =
    Request ipc_command u64
  | PeerRequest "unit native_lookup" ipc_command u32 u64
  | Mutate mutation_context ordinary_mutation u64
  | CycleBegan nat u64
  | RosterPublished string u64 "incident_report list" bool
  | CycleFinished string bool
  | CycleCompleted u64
  | FailClosed string u32 u64 string
  | PreserveRestart u64
  | StorageStarted u64 storage_cleanup_attempt_facts
  | StorageFinished prepared_storage_cleanup_attempt
  | CacheStarted u64 bool "string \<Rightarrow> string \<Rightarrow> unit + unit"
  | CacheFinished prepared_tool_cache_attempt
  | ActivityBegan string
  | ActivityDropped string
  | AttemptBegan u64 incident_report string u64
  | SourceFailed
  | SourceHealthy
  | StatusNoted status_note
  | StoreWork "store \<Rightarrow> store"

definition store_work :: "(store \<Rightarrow> store) \<Rightarrow> store \<Rightarrow> store" where
  "store_work f s = (f s)\<lparr>t_lifecycle := t_lifecycle s, t_random := t_random s, t_draws := max (t_draws s) (t_draws (f s))\<rparr>"

fun run_event :: "control_event \<Rightarrow> control \<Rightarrow> control" where
  "run_event (Request command now) c = snd (handle_at command now c)"
| "run_event (PeerRequest native command peer now) c = snd (handle_owner_peer_at native command peer now c)"
| "run_event (Mutate context m now) c = snd (commit_public_mutation context m now c)"
| "run_event (CycleBegan n now) c = snd (begin_observation_cycle n now c)"
| "run_event (RosterPublished token at reports complete) c = snd (publish_roster token at reports complete c)"
| "run_event (CycleFinished token succeeded) c = snd ((finish_observation_cycle token succeeded :: unit ctl) c)"
| "run_event (CycleCompleted now) c = snd (complete_successful_cycle now c)"
| "run_event (FailClosed source_file source_line now message) c = snd (fail_closed source_file source_line now message c)"
| "run_event (PreserveRestart now) c = snd (control_preserve_restart_intent now c)"
| "run_event (StorageStarted now facts) c = snd (start_storage_cleanup_if_ready_enforce now facts c)"
| "run_event (StorageFinished prepared) c = snd (finish_storage_action prepared c)"
| "run_event (CacheStarted now node started) c = snd (start_cache_if_ready_enforce now node started c)"
| "run_event (CacheFinished prepared) c = snd (finish_tool_cache_action prepared c)"
| "run_event (ActivityBegan token) c = snd (begin_process_cleanup_activity token c)"
| "run_event (ActivityDropped token) c = snd ((drop_process_cleanup_activity token :: unit ctl) c)"
| "run_event (AttemptBegan now report epoch revision) c = snd (begin_cleanup_attempt_if_armed now report epoch revision c)"
| "run_event SourceFailed c = snd (note_event_source_failure c)"
| "run_event SourceHealthy c = snd (note_event_source_healthy c)"
| "run_event (StatusNoted note) c = snd (note_status note c)"
| "run_event (StoreWork f) c = c\<lparr>cp_store := store_work f (cp_store c)\<rparr>"

definition run_events :: "control_event list \<Rightarrow> control \<Rightarrow> control" where
  "run_events es c = fold run_event es c"

definition lifecycle_event :: "control_event \<Rightarrow> bool" where
  "lifecycle_event e \<longleftrightarrow> (case e of
       Request command _ \<Rightarrow> lifecycle_request command
     | PeerRequest _ command _ _ \<Rightarrow> lifecycle_request command
     | CycleCompleted _ \<Rightarrow> True
     | FailClosed _ _ _ _ \<Rightarrow> True
     | PreserveRestart _ \<Rightarrow> True
     | _ \<Rightarrow> False)"

lemma quiet_event: "\<not> lifecycle_event e \<Longrightarrow> quiet c (run_event e c)"
proof (cases e)
  case (StoreWork f)
  then show ?thesis by (simp add: quiet_def lanes_step_def store_work_def store_quiet_def)
qed (simp_all add: lifecycle_event_def quietlyD quietly_handle quietly_owner_peer quietly_mutation quietly_cycles quietly_start_storage
    quietly_start_cache quietly_ends quietly_note)

text \<open>The lifecycle requests of a peer are those of any client, once the peer is known.\<close>

lemma peer_lifecycle_request:
  assumes "lifecycle_request command"
  shows "run_event (PeerRequest native command peer now) c = c \<or> run_event (PeerRequest native command peer now) c = run_event (Request command now) c"
  using assms
  by (cases command) (simp_all add: lifecycle_request_def handle_owner_peer_at_def looked_up_def fbind_def ok_or_def fexit_def fnext_def
      split: sum.splits option.splits)

section \<open>What a lifecycle event does\<close>

definition may_cancel :: "lane_activity option \<Rightarrow> lane_activity option \<Rightarrow> bool" where
  "may_cancel a a' \<longleftrightarrow> a' = a \<or> a' = map_option cancel_activity a"

definition moved :: "control \<Rightarrow> store \<Rightarrow> daemon_status \<Rightarrow> u64 \<Rightarrow> control \<Rightarrow> bool" where
  "moved c s st n c' \<longleftrightarrow> cp_store c' = s \<and> core_of (cp_status c') = core_of st \<and> cp_next_enforcement_epoch c' = n
     \<and> cp_status_poisoned c' = cp_status_poisoned c
     \<and> may_cancel (ds_storage_activity (cp_status c)) (ds_storage_activity (cp_status c'))
     \<and> may_cancel (ds_cache_activity (cp_status c)) (ds_cache_activity (cp_status c'))"

text \<open>The ways in which a lifecycle event ends.\<close>

inductive lifecycle_move :: "control \<Rightarrow> control \<Rightarrow> bool" for c where
  idle: "moved c (cp_store c) (cp_status c) n c' \<Longrightarrow> n \<in> {cp_next_enforcement_epoch c, cp_next_enforcement_epoch c + 1} \<Longrightarrow>
    lifecycle_move c c'"
| armed: "ready_to_arm (cp_status c) g \<Longrightarrow>
    arm_managed g i (format_enforcement_epoch g p j now (cp_next_enforcement_epoch c)) now (cp_store c) = Inr (l, s) \<Longrightarrow>
    moved c s (apply_managed_lifecycle l (cp_status c)) (cp_next_enforcement_epoch c + 1) c' \<Longrightarrow> lifecycle_move c c'"
| first_scan: "ds_managed (cp_status c) \<Longrightarrow> ds_startup_state (cp_status c) = StartFirstScanReportOnly \<Longrightarrow> \<not> ds_draining (cp_status c) \<Longrightarrow>
    complete_managed_first_scan g i (format_enforcement_epoch g p j now (cp_next_enforcement_epoch c)) now (cp_store c) = Inr (l, s) \<Longrightarrow>
    moved c s (ready_status (apply_managed_lifecycle l (cp_status c))) (cp_next_enforcement_epoch c + 1) c' \<Longrightarrow> lifecycle_move c c'"
| ready: "ds_startup_state (cp_status c) \<noteq> StartFailed \<Longrightarrow> (ds_managed (cp_status c) \<Longrightarrow> ds_draining (cp_status c) \<or> ds_ready (cp_status c)) \<Longrightarrow>
    moved c (cp_store c) (ready_status (cp_status c)) (cp_next_enforcement_epoch c) c' \<Longrightarrow> lifecycle_move c c'"
| disarmed: "ds_managed (cp_status c) \<Longrightarrow> ds_startup_state (cp_status c) \<noteq> StartFailed \<Longrightarrow> disarm_managed g i now (cp_store c) = Inr (l, s) \<Longrightarrow>
    moved c s (apply_managed_lifecycle l (cp_status c)) (cp_next_enforcement_epoch c) c' \<Longrightarrow> lifecycle_move c c'"
| drained: "ds_managed (cp_status c) \<Longrightarrow> begin_managed_drain g i now (cp_store c) = Inr (l, s) \<Longrightarrow>
    moved c s (apply_managed_lifecycle l (cp_status c)) (cp_next_enforcement_epoch c) c' \<Longrightarrow> lifecycle_move c c'"
| preserved: "ds_managed (cp_status c) \<Longrightarrow> preserve_managed_pre_ready_restart_intent g i now (cp_store c) = Inr (l, s) \<Longrightarrow>
    moved c s (apply_managed_lifecycle l (cp_status c)) (cp_next_enforcement_epoch c) c' \<Longrightarrow> lifecycle_move c c'"
| failed: "ds_managed (cp_status c) \<Longrightarrow> fail_managed g i now (cp_store c) = Inr (l, s) \<Longrightarrow>
    st \<in> {apply_managed_lifecycle l (cp_status c), closed_status e (apply_managed_lifecycle l (cp_status c))} \<Longrightarrow>
    n \<in> {cp_next_enforcement_epoch c, cp_next_enforcement_epoch c + 1} \<Longrightarrow> moved c s st n c' \<Longrightarrow> lifecycle_move c c'"
| closed: "n \<in> {cp_next_enforcement_epoch c, cp_next_enforcement_epoch c + 1} \<Longrightarrow>
    moved c (cp_store c) (closed_status e (cp_status c)) n c' \<Longrightarrow> lifecycle_move c c'"

lemma may_cancel_simps [simp]: "may_cancel a a" "may_cancel a (map_option cancel_activity a)"
  "may_cancel a (if b then a else map_option cancel_activity a)"
  "may_cancel a (map_option cancel_activity (map_option cancel_activity a))"
  "may_cancel a (if b then map_option cancel_activity a else map_option cancel_activity (map_option cancel_activity a))"
  by (simp_all add: may_cancel_def option.map_comp comp_def)

lemma applied_lanes [simp]:
  "ds_storage_activity (apply_managed_lifecycle l st) =
     (if ml_effective_enforce l then ds_storage_activity st else map_option cancel_activity (ds_storage_activity st))"
  "ds_cache_activity (apply_managed_lifecycle l st) =
     (if ml_effective_enforce l then ds_cache_activity st else map_option cancel_activity (ds_cache_activity st))"
  by (simp_all add: apply_managed_lifecycle_def set_effective_mode_def)

lemma core_applied [simp]:
  "core_of (apply_managed_lifecycle l st) = (True, ds_lifecycle_schema_version st, mode_of (ml_effective_enforce l),
     mode_of (ml_effective_enforce l), ml_ready l, ml_draining l, startup_state_of (ml_startup_phase l), ml_enforcement_epoch l)"
  by (simp add: apply_managed_lifecycle_def set_effective_mode_def core_of_def Let_def cancel_prompt_activities_def
      cancel_storage_activity_def cancel_cache_activity_def)

lemma applied_parts [simp]:
  "ds_managed (apply_managed_lifecycle l st)" "ds_lifecycle_schema_version (apply_managed_lifecycle l st) = ds_lifecycle_schema_version st"
  "ds_draining (apply_managed_lifecycle l st) = ml_draining l" "ds_ready (apply_managed_lifecycle l st) = ml_ready l"
  "ds_startup_state (apply_managed_lifecycle l st) = startup_state_of (ml_startup_phase l)"
  "ds_enforcement_epoch (apply_managed_lifecycle l st) = ml_enforcement_epoch l"
  using core_applied [of l st] by (simp_all add: core_of_def)

lemma closed_parts [simp]:
  "ds_storage_activity (closed_status e st) = ds_storage_activity st" "ds_cache_activity (closed_status e st) = ds_cache_activity st"
  "core_of (closed_status e st) = (ds_managed st, ds_lifecycle_schema_version st, ReportOnly, ReportOnly, False, ds_draining st,
     StartFailed, None)"
  by (simp_all add: closed_status_def set_effective_mode_def core_of_def)

lemma ready_parts [simp]:
  "ds_storage_activity (ready_status st) = ds_storage_activity st" "ds_cache_activity (ready_status st) = ds_cache_activity st"
  by (simp_all add: ready_status_def)

lemma identity_managed: "managed_identity st = Inr x \<Longrightarrow> ds_managed st"
  by (auto simp: managed_identity_def split: if_splits)

lemma exact_identity_managed: "require_exact_status_identity st g i = Inr x \<Longrightarrow> ds_managed st"
  by (auto simp: require_exact_status_identity_def dest: identity_managed split: sum.splits)

lemma idle_same: "lifecycle_move c c"
  by (rule idle [of c "cp_next_enforcement_epoch c"]) (simp_all add: moved_def)

lemma move_arm: "lifecycle_move c (snd (handle_arm g i now c))"
proof (cases "\<not> cp_status_poisoned c \<and> require_exact_status_identity (cp_status c) g i = Inr () \<and> ready_to_arm (cp_status c) g")
  case False
  then show ?thesis by (auto simp: handle_arm_def flow_ops idle_same split: sum.splits)
next
  case True
  let ?e = "format_enforcement_epoch g (ds_pid (cp_status c)) (ds_instance_id (cp_status c)) now (cp_next_enforcement_epoch c)"
  show ?thesis
  proof (cases "arm_managed g i ?e now (cp_store c)")
    case (Inl e)
    with True show ?thesis
      by (intro idle [where n = "cp_next_enforcement_epoch c + 1"]) (simp_all add: handle_arm_def draw_epoch_def flow_ops moved_def)
  next
    case (Inr r)
    obtain l s where r: "r = (l, s)" by fastforce
    show ?thesis
      by (rule armed [OF _ Inr [unfolded r]]) (use True Inr r in \<open>simp_all add: handle_arm_def draw_epoch_def flow_ops moved_def Let_def\<close>)
  qed
qed

lemma move_disarm: "lifecycle_move c (snd (handle_disarm g i now c))"
proof (cases "\<not> cp_status_poisoned c \<and> require_exact_status_identity (cp_status c) g i = Inr ()")
  case False
  then show ?thesis by (auto simp: handle_disarm_def flow_ops idle_same split: sum.splits)
next
  case True
  then have managed: "ds_managed (cp_status c)" by (blast dest: exact_identity_managed)
  let ?m = "if ds_startup_state (cp_status c) = StartFailed then fail_managed g i now else disarm_managed g i now"
  show ?thesis
  proof (cases "?m (cp_store c)")
    case (Inl e)
    with True show ?thesis by (auto simp: handle_disarm_def flow_ops idle_same Let_def)
  next
    case (Inr r)
    obtain l s where r: "r = (l, s)" by fastforce
    show ?thesis
    proof (cases "ds_startup_state (cp_status c) = StartFailed")
      case True': True
      with Inr r have f: "fail_managed g i now (cp_store c) = Inr (l, s)" by simp
      show ?thesis
        by (rule failed [OF managed f, where n = "cp_next_enforcement_epoch c" and st = "apply_managed_lifecycle l (cp_status c)"])
          (use True True' f in \<open>simp_all add: handle_disarm_def flow_ops moved_def Let_def\<close>)
    next
      case False
      with Inr r have f: "disarm_managed g i now (cp_store c) = Inr (l, s)" by simp
      show ?thesis
        by (rule disarmed [OF managed False f]) (use True False f in \<open>simp_all add: handle_disarm_def flow_ops moved_def Let_def\<close>)
    qed
  qed
qed

lemma move_drain: "lifecycle_move c (snd (handle_begin_drain g i now c))"
proof (cases "\<not> cp_status_poisoned c \<and> require_exact_status_identity (cp_status c) g i = Inr ()")
  case False
  then show ?thesis by (auto simp: handle_begin_drain_def flow_ops idle_same split: sum.splits)
next
  case True
  then have managed: "ds_managed (cp_status c)" by (blast dest: exact_identity_managed)
  show ?thesis
  proof (cases "begin_managed_drain g i now (cp_store c)")
    case (Inl e)
    with True show ?thesis by (auto simp: handle_begin_drain_def flow_ops idle_same Let_def)
  next
    case (Inr r)
    obtain l s where r: "r = (l, s)" by fastforce
    show ?thesis
      by (rule drained [OF managed Inr [unfolded r]]) (use True Inr r in \<open>simp_all add: handle_begin_drain_def flow_ops moved_def Let_def\<close>)
  qed
qed

lemma move_preserve: "lifecycle_move c (snd (control_preserve_restart_intent now c))"
proof (cases "\<not> cp_status_poisoned c")
  case False
  then show ?thesis by (simp add: control_preserve_restart_intent_def flow_ops idle_same)
next
  case True
  show ?thesis
  proof (cases "managed_identity (cp_status c)")
    case (Inl e)
    then show ?thesis using True by (simp add: control_preserve_restart_intent_def flow_ops idle_same)
  next
    case (Inr gi)
    obtain g i where gi: "gi = (g, i)" by fastforce
    show ?thesis
    proof (cases "preserve_managed_pre_ready_restart_intent g i now (cp_store c)")
      case (Inl e)
      then show ?thesis using True Inr gi by (simp add: control_preserve_restart_intent_def flow_ops idle_same)
    next
      case (Inr r)
      obtain l s where r: "r = (l, s)" by fastforce
      show ?thesis
        by (rule preserved [OF _ Inr [unfolded r]])
          (use True \<open>managed_identity (cp_status c) = Inr gi\<close> gi Inr r identity_managed in
            \<open>simp_all add: control_preserve_restart_intent_def flow_ops moved_def\<close>)
    qed
  qed
qed

lemma move_fail_instance:
  assumes "ds_managed (cp_status c)" "core_of (cp_status d) = core_of (cp_status c)" "cp_status d = cp_status c" "cp_store d = cp_store c"
    "cp_status_poisoned d = cp_status_poisoned c"
    "cp_next_enforcement_epoch d \<in> {cp_next_enforcement_epoch c, cp_next_enforcement_epoch c + 1}"
  shows "lifecycle_move c (snd (fail_instance (cp_status c) g i now error ended also_failed d))"
proof (cases "fail_managed g i now (cp_store c)")
  case (Inl e)
  then show ?thesis
    by (intro closed [where n = "cp_next_enforcement_epoch d" and e = error])
      (use assms Inl in \<open>simp_all add: fail_instance_def flow_ops moved_def\<close>)
next
  case (Inr r)
  obtain l s where r: "r = (l, s)" by fastforce
  show ?thesis
    by (rule failed [OF assms(1) Inr [unfolded r], where n = "cp_next_enforcement_epoch d" and st = "apply_managed_lifecycle l (cp_status c)"])
      (use assms Inr r in \<open>simp_all add: fail_instance_def flow_ops moved_def\<close>)
qed

lemma move_first_scan:
  assumes "ds_managed (cp_status c)" "\<not> ds_draining (cp_status c)"
  shows "lifecycle_move c (snd (first_scan_completed (cp_status c) now c))"
proof (cases "managed_identity (cp_status c)")
  case (Inl e)
  then show ?thesis by (simp add: first_scan_completed_def flow_ops idle_same)
next
  case (Inr gi)
  obtain g i where gi: "gi = (g, i)" by fastforce
  let ?e = "format_enforcement_epoch g (ds_pid (cp_status c)) i now (cp_next_enforcement_epoch c)"
  show ?thesis
  proof (cases "ds_startup_state (cp_status c) = StartFirstScanReportOnly")
    case False
    then show ?thesis
      unfolding first_scan_completed_def fbind_def flift_def Inr gi Let_def by (simp add: fnext_def assms move_fail_instance)
  next
    case True
    show ?thesis
    proof (cases "complete_managed_first_scan g i ?e now (cp_store c)")
      case (Inl e)
      with True show ?thesis
        unfolding first_scan_completed_def fbind_def flift_def Inr gi Let_def draw_epoch_def
        by (simp add: fnext_def fget_def fput_def try_store_def assms move_fail_instance)
    next
      case scan: (Inr r)
      obtain l s where r: "r = (l, s)" by fastforce
      show ?thesis
        by (rule first_scan [OF assms(1) True assms(2) scan [unfolded r]])
          (use True Inr gi scan r in \<open>simp_all add: first_scan_completed_def draw_epoch_def flow_ops moved_def Let_def\<close>)
    qed
  qed
qed

lemma move_complete: "lifecycle_move c (snd (complete_successful_cycle now c))"
proof -
  let ?st = "cp_status c"
  consider "cp_status_poisoned c \<or> (\<not> ds_managed ?st \<and> ds_startup_state ?st = StartFailed)"
    | "\<not> cp_status_poisoned c" "ds_managed ?st" "ds_startup_state ?st = StartFailed"
    | "\<not> cp_status_poisoned c" "ds_startup_state ?st \<noteq> StartFailed" "ds_managed ?st" "\<not> ds_draining ?st" "\<not> ds_ready ?st"
    | "\<not> cp_status_poisoned c" "ds_startup_state ?st \<noteq> StartFailed" "ds_managed ?st \<longrightarrow> ds_draining ?st \<or> ds_ready ?st"
    by blast
  then show ?thesis
  proof cases
    case 1
    then show ?thesis by (auto simp: complete_successful_cycle_def flow_ops idle_same)
  next
    case 2
    show ?thesis
    proof (cases "managed_identity ?st")
      case (Inl e)
      with 2 show ?thesis by (simp add: complete_successful_cycle_def flow_ops idle_same)
    next
      case (Inr gi)
      with 2 show ?thesis
        by (cases gi) (simp add: complete_successful_cycle_def fbind_def fnext_def flift_def lock_status_def move_fail_instance)
    qed
  next
    case 3
    then show ?thesis by (simp add: complete_successful_cycle_def fbind_def lock_status_def move_first_scan)
  next
    case 4
    then show ?thesis by (intro ready) (auto simp: complete_successful_cycle_def flow_ops moved_def)
  qed
qed

definition failing :: "u64 \<Rightarrow> string \<Rightarrow> string \<Rightarrow> u32 \<Rightarrow> daemon_status \<Rightarrow> daemon_status" where
  "failing now message source_file source_line st0 =
     (let st1 = cancel_prompt_activities st0
      in if ds_first_failure st1 = None
         then st1\<lparr>ds_first_failure := Some \<lparr>ff_occurred_at_unix_millis = now, ff_message = message,
                ff_source_file = source_file, ff_source_line = source_line\<rparr>\<rparr>
         else st1)"

lemma failing_parts [simp]:
  "ds_managed (failing now m f n st) = ds_managed st" "managed_identity (failing now m f n st) = managed_identity st"
  "ds_lifecycle_schema_version (failing now m f n st) = ds_lifecycle_schema_version st" "ds_draining (failing now m f n st) = ds_draining st"
  "ds_storage_activity (failing now m f n st) = map_option cancel_activity (ds_storage_activity st)"
  "ds_cache_activity (failing now m f n st) = map_option cancel_activity (ds_cache_activity st)"
  by (simp_all add: failing_def Let_def managed_identity_def cancel_prompt_activities_def cancel_storage_activity_def cancel_cache_activity_def
      split: option.split)

lemma fail_closed_failing:
  "snd (fail_closed f n now text c) =
     (let message = bounded_message text; st = failing now message f n (cp_status c)
      in if cp_status_poisoned c then c
         else case managed_identity st of
                Inl _ \<Rightarrow> c\<lparr>cp_status := closed_status (Some message) st\<rparr>
              | Inr (generation, instance_id) \<Rightarrow>
                  (case fail_managed generation instance_id now (cp_store c) of
                     Inl _ \<Rightarrow> c\<lparr>cp_status := closed_status (Some message) st\<rparr>
                   | Inr (l, s) \<Rightarrow> c\<lparr>cp_store := s, cp_status := closed_status (Some message) (apply_managed_lifecycle l st)\<rparr>))"
proof (cases "ds_managed (cp_status c)")
  case True
  then show ?thesis
    unfolding fail_closed_def Let_def failing_def [symmetric, unfolded Let_def]
    by (auto simp: flow_ops split: sum.splits prod.splits)
next
  case False
  then show ?thesis
    unfolding fail_closed_def Let_def failing_def [symmetric, unfolded Let_def]
    by (auto simp: flow_ops managed_identity_def split: sum.splits prod.splits)
qed

lemma move_fail_closed: "lifecycle_move c (snd (fail_closed f n now text c))"
proof -
  let ?st = "failing now (bounded_message text) f n (cp_status c)"
  have closes: "lifecycle_move c (c\<lparr>cp_status := closed_status e ?st\<rparr>)" for e
    by (rule closed [where n = "cp_next_enforcement_epoch c" and e = e]) (simp_all add: moved_def)
  have fails: "lifecycle_move c (c\<lparr>cp_store := s, cp_status := closed_status e (apply_managed_lifecycle l ?st)\<rparr>)"
    if "managed_identity (cp_status c) = Inr (g, i)" "fail_managed g i now (cp_store c) = Inr (l, s)" for g i l s e
    by (rule failed [OF identity_managed [OF that(1)] that(2), where n = "cp_next_enforcement_epoch c"
          and st = "closed_status e (apply_managed_lifecycle l (cp_status c))" and e = e])
      (simp_all add: moved_def)
  show ?thesis
    unfolding fail_closed_failing Let_def
    by (auto simp: idle_same closes fails split: sum.splits)
qed

lemma lifecycle_event_moves: "lifecycle_event e \<Longrightarrow> lifecycle_move c (run_event e c)"
proof -
  have request: "lifecycle_request command \<Longrightarrow> lifecycle_move c (run_event (Request command now) c)" for command now
    by (cases command) (simp_all add: lifecycle_request_def handle_at_def move_arm move_disarm move_drain)
  assume "lifecycle_event e"
  then show ?thesis
  proof (cases e)
    case (PeerRequest native command peer now)
    with \<open>lifecycle_event e\<close> show ?thesis
      using peer_lifecycle_request [of command native peer now c] request [of command now] by (auto simp: lifecycle_event_def idle_same)
  qed (use request in \<open>auto simp: lifecycle_event_def move_complete move_fail_closed move_preserve\<close>)
qed

lemma event_step: "quiet c (run_event e c) \<or> lifecycle_move c (run_event e c)"
  using quiet_event lifecycle_event_moves by blast

end
