(* ===== verification/Control_Safety.thy ===== *)
theory Control_Safety
  imports Control_Gate
begin

text \<open>
  The promises of the control plane over any interleaving of its operations: a fail-close is terminal, a revoked
  enforcement epoch never authorises again, and a cancelled maintenance lease never resumes. And one thing it does not
  promise: a repeated owner mutation sets the policy revision back.
\<close>

lemma run_events_simps [simp]:
  "run_events [] c = c" "run_events (e # es) c = run_events es (run_event e c)"
  by (simp_all add: run_events_def)

lemma run_events_invariant:
  assumes "\<And>e c. I c \<Longrightarrow> I (run_event e c)" "I c"
  shows "I (run_events es c)"
  using assms(2) by (induction es arbitrary: c) (simp_all add: assms(1))

section \<open>A fail-close is terminal\<close>

text \<open>A status that shows Failed, or a stored row from which no transition but a restart leads back.\<close>

definition spent :: "control \<Rightarrow> bool" where
  "spent c \<longleftrightarrow> ds_startup_state (cp_status c) = StartFailed
     \<or> (ds_managed (cp_status c) \<and> \<not> ds_ready (cp_status c)
        \<and> (ds_draining (cp_status c) \<or> ds_startup_state (cp_status c) \<noteq> StartFirstScanReportOnly)
        \<and> (\<exists>r. t_lifecycle (cp_store c) = Some r \<and> \<not> ml_ready (lifecycle_view r)
             \<and> ml_draining (lifecycle_view r) = ds_draining (cp_status c)
             \<and> (ds_draining (cp_status c) \<or> ml_startup_phase (lifecycle_view r) \<noteq> FirstScanReportOnly)))"

definition closed_for_good :: "control \<Rightarrow> bool" where
  "closed_for_good c \<longleftrightarrow> cp_status_poisoned c
     \<or> (ds_mode (cp_status c) = ReportOnly \<and> ds_effective_mode (cp_status c) = ReportOnly \<and> spent c)"

lemma core_iff:
  "core_of st = (m, v, md, em, rd, dr, ss, ep) \<longleftrightarrow> ds_managed st = m \<and> ds_lifecycle_schema_version st = v \<and> ds_mode st = md
     \<and> ds_effective_mode st = em \<and> ds_ready st = rd \<and> ds_draining st = dr \<and> ds_startup_state st = ss \<and> ds_enforcement_epoch st = ep"
  "core_of st = core_of st' \<longleftrightarrow> ds_managed st = ds_managed st' \<and> ds_lifecycle_schema_version st = ds_lifecycle_schema_version st'
     \<and> ds_mode st = ds_mode st' \<and> ds_effective_mode st = ds_effective_mode st' \<and> ds_ready st = ds_ready st'
     \<and> ds_draining st = ds_draining st' \<and> ds_startup_state st = ds_startup_state st' \<and> ds_enforcement_epoch st = ds_enforcement_epoch st'"
  by (auto simp: core_of_def)

lemma mode_of_simps [simp]: "mode_of False = ReportOnly" "mode_of True = Enforce"
  by (simp_all add: mode_of_def)

lemma startup_first_scan [simp]: "startup_state_of p = StartFirstScanReportOnly \<longleftrightarrow> p = FirstScanReportOnly"
  by (cases p) simp_all

lemma closed_for_good_quiet: "quiet c c' \<Longrightarrow> closed_for_good c \<Longrightarrow> closed_for_good c'"
  unfolding quiet_def closed_for_good_def spent_def store_quiet_def by (auto simp: core_iff)

lemma closed_for_good_move:
  assumes "lifecycle_move c c'" "closed_for_good c"
  shows "closed_for_good c'"
proof (cases "cp_status_poisoned c")
  case True
  with assms(1) show ?thesis by cases (simp_all add: moved_def closed_for_good_def)
next
  case False
  with assms(2) have c: "ds_mode (cp_status c) = ReportOnly" "ds_effective_mode (cp_status c) = ReportOnly" "spent c"
    by (simp_all add: closed_for_good_def)
  from assms(1) show ?thesis
  proof cases
    case (idle n)
    then show ?thesis using c unfolding moved_def closed_for_good_def spent_def by (auto simp: core_iff)
  next
    case (armed g i p j now l s)
    then show ?thesis using c unfolding ready_to_arm_def spent_def Let_def by auto
  next
    case (first_scan g i p j now l s)
    then show ?thesis using c unfolding spent_def by auto
  next
    case ready
    then show ?thesis using c unfolding moved_def closed_for_good_def spent_def
      by (auto simp: core_iff ready_status_def)
  next
    case (disarmed g i now l s)
    then show ?thesis using c unfolding moved_def closed_for_good_def spent_def
      by (auto simp: core_iff dest!: disarm_outcome)
  next
    case (drained g i now l s)
    then show ?thesis unfolding moved_def closed_for_good_def spent_def
      by (auto simp: core_iff dest!: drain_outcome)
  next
    case (preserved g i now l s)
    then show ?thesis unfolding moved_def closed_for_good_def spent_def
      by (auto simp: core_iff dest!: preserve_outcome)
  next
    case (failed g i now l s st e n)
    from fail_outcome [OF failed(2)] obtain r where r: "t_lifecycle s = Some r" "l = lifecycle_view r" "\<not> ml_effective_enforce l"
      "\<not> ml_ready l" "ml_startup_phase l = (if ml_draining l then Draining else PhaseFailed)"
      by blast
    from failed(3) show ?thesis
    proof (elim insertE emptyE)
      assume st: "st = apply_managed_lifecycle l (cp_status c)"
      show ?thesis using failed(5) r unfolding moved_def closed_for_good_def spent_def st by (simp add: core_iff)
    next
      assume st: "st = closed_status e (apply_managed_lifecycle l (cp_status c))"
      show ?thesis using failed(5) unfolding moved_def closed_for_good_def spent_def st by (simp add: core_iff)
    qed
  next
    case (closed n e)
    then show ?thesis unfolding moved_def closed_for_good_def spent_def
      by (auto simp: core_iff)
  qed
qed

lemma closed_for_good_event: "closed_for_good c \<Longrightarrow> closed_for_good (run_event e c)"
  using event_step closed_for_good_quiet closed_for_good_move by blast

lemma fail_closed_closes: "closed_for_good (snd (fail_closed f n now text c))"
  unfolding fail_closed_failing Let_def closed_for_good_def spent_def
  by (auto simp: closed_status_def set_effective_mode_def split: sum.splits)

lemma closed_for_good_gates:
  assumes "closed_for_good c"
  shows "action_gate_closed epoch revision c" "\<not> storage_action_may_continue p epoch c" "\<not> tool_cache_action_may_continue q epoch c"
  using assms
  by (auto simp: closed_for_good_def action_gate_closed_def signal_gate_matches_def effective_mode_def storage_action_may_continue_def
      tool_cache_action_may_continue_def storage_cleanup_gate_open_def Let_def refresh_cleanup_activity_def)

lemma closed_for_good_storage:
  assumes "closed_for_good c"
  shows "fst (start_storage_cleanup_if_ready_enforce now facts c) \<noteq> Next (Some x)"
proof -
  have "closed_for_good (snd (expire_pause now c))"
    using assms quietlyD [OF quietly_expire] by (rule closed_for_good_quiet [rotated])
  then show ?thesis
    unfolding start_storage_cleanup_if_ready_enforce_def
    by (auto simp: flow_ops closed_for_good_def storage_cleanup_gate_open_def effective_mode_def split: prod.splits flow.splits)
qed

lemma closed_for_good_cache:
  assumes "closed_for_good c"
  shows "fst (start_cache_if_ready_enforce now node started c) \<noteq> Next (Some x)"
proof -
  have "closed_for_good (snd (expire_pause now c))"
    using assms quietlyD [OF quietly_expire] by (rule closed_for_good_quiet [rotated])
  then show ?thesis
    unfolding start_cache_if_ready_enforce_def
    by (auto simp: flow_ops closed_for_good_def storage_cleanup_gate_open_def effective_mode_def split: prod.splits flow.splits)
qed

lemma closed_for_good_attempt:
  "closed_for_good c \<Longrightarrow> fst (begin_cleanup_attempt_if_armed now report epoch revision c) \<noteq> Next (Some h)"
  unfolding begin_cleanup_attempt_if_armed_def
  by (auto simp: flow_ops closed_for_good_def signal_gate_matches_def effective_mode_def)

text \<open>C9: A fail-close is terminal. Whatever happens afterwards - requests of clients and peers, arming included, owner
  mutations, completed cycles, other fail-closes, other work on the store - no signal is delivered under any epoch and policy
  revision, no cleanup attempt begins, and no storage or cache action starts or continues.\<close>

theorem fail_closed_is_terminal:
  "let d = run_events es (snd (fail_closed source_file source_line now text c))
   in deliver_signal_if_armed epoch revision id deliver d = (CancelledBeforeDelivery, d)
      \<and> fst (begin_cleanup_attempt_if_armed at report epoch revision d) \<noteq> Next (Some attempt)
      \<and> fst (start_storage_cleanup_if_ready_enforce at facts d) \<noteq> Next (Some storage)
      \<and> fst (start_cache_if_ready_enforce at node started d) \<noteq> Next (Some cache)
      \<and> \<not> storage_action_may_continue p epoch d
      \<and> \<not> tool_cache_action_may_continue q epoch d"
proof -
  have closed: "closed_for_good (run_events es (snd (fail_closed source_file source_line now text c)))"
    using closed_for_good_event fail_closed_closes by (rule run_events_invariant)
  show ?thesis
    unfolding Let_def deliver_signal_if_armed_def
    by (simp add: closed_for_good_gates [OF closed] closed_for_good_attempt [OF closed] closed_for_good_storage [OF closed]
        closed_for_good_cache [OF closed])
qed

section \<open>A revoked epoch never authorises again\<close>

text \<open>An epoch ends with the number it was drawn with.\<close>

lemma hex_string_inject: "hex_string n = hex_string m \<longleftrightarrow> n = m"
proof (induction n arbitrary: m rule: hex_string.induct)
  case (1 n)
  have small: "hex_string k = [digit_char k]" if "k < 16" for k
    using that by (simp add: hex_string.simps)
  have big: "hex_string k = hex_string (k div 16) @ [digit_char (k mod 16)]" if "\<not> k < 16" for k
    using that by (subst hex_string.simps) simp
  have nonempty: "hex_string k \<noteq> []" "[] \<noteq> hex_string k" for k by (subst hex_string.simps, simp)+
  show ?case
  proof (cases "n < 16"; cases "m < 16")
    assume n: "\<not> n < 16" and m: "\<not> m < 16"
    then have "hex_string n = hex_string m \<longleftrightarrow> n div 16 = m div 16 \<and> n mod 16 = m mod 16"
      using 1 [OF n] by (simp add: big digit_char_inject)
    then show ?thesis by (metis div_mult_mod_eq)
  qed (auto simp: small big nonempty digit_char_inject)
qed

lemma hex_string_no_dash: "CHR ''-'' \<notin> set (hex_string n)"
proof (induction n rule: hex_string.induct)
  case (1 n)
  have "digit_char d \<noteq> CHR ''-''" if "d < 16" for d
  proof
    assume "digit_char d = CHR ''-''"
    then have "(of_char (digit_char d) :: nat) = of_char CHR ''-''" by simp
    with that show False by (simp add: of_char_digit_char split: if_splits)
  qed
  from this [of "n mod 16"] this [of n] show ?case
    using 1 by (subst hex_string.simps) auto
qed

lemma last_part_inject:
  assumes "xs @ CHR ''-'' # hex_string n = ys @ CHR ''-'' # hex_string m"
  shows "n = m"
proof -
  have "takeWhile (\<lambda>c. c \<noteq> CHR ''-'') (rev (xs @ CHR ''-'' # hex_string n)) = rev (hex_string n)" for xs n
    using hex_string_no_dash [of n] by (subst rev_append) (auto simp: takeWhile_append)
  from this [of xs n] this [of ys m] assms show ?thesis by (simp add: hex_string_inject)
qed

lemma epoch_sequence_inject:
  "format_enforcement_epoch g p i t q = format_enforcement_epoch g' p' i' t' q' \<Longrightarrow> q = q'"
  using last_part_inject [of "''g'' @ hex_string (unat g) @ ''-p'' @ hex_string (unat p) @ ''-i'' @ i @ ''-'' @ hex_string (unat t)" "unat q"
      "''g'' @ hex_string (unat g') @ ''-p'' @ hex_string (unat p') @ ''-i'' @ i' @ ''-'' @ hex_string (unat t')" "unat q'"]
  by (simp add: format_enforcement_epoch_def word_unat_eq_iff)

definition issued :: "string \<Rightarrow> control \<Rightarrow> bool" where
  "issued epoch c \<longleftrightarrow> (\<exists>g p i t q. epoch = format_enforcement_epoch g p i t q \<and> unat q < unat (cp_next_enforcement_epoch c))"

definition stored_epoch :: "store \<Rightarrow> string option" where
  "stored_epoch s = (case t_lifecycle s of None \<Rightarrow> None | Some r \<Rightarrow> ml_enforcement_epoch (lifecycle_view r))"

definition revoked :: "nat \<Rightarrow> string \<Rightarrow> control \<Rightarrow> bool" where
  "revoked k epoch c \<longleftrightarrow> issued epoch c \<and> unat (cp_next_enforcement_epoch c) + k < 2 ^ 64
     \<and> ds_enforcement_epoch (cp_status c) \<noteq> Some epoch \<and> stored_epoch (cp_store c) \<noteq> Some epoch"

lemma unat_next: "unat (n :: u64) + Suc k < 2 ^ 64 \<Longrightarrow> unat (n + 1) = Suc (unat n)"
  by (subst unat_plus_simple [THEN iffD1]) (simp_all add: word_le_nat_alt unat_word_ariths)

lemma issued_step:
  assumes "issued epoch c" "unat (cp_next_enforcement_epoch c) + Suc k < 2 ^ 64"
    "cp_next_enforcement_epoch c' \<in> {cp_next_enforcement_epoch c, cp_next_enforcement_epoch c + 1}"
  shows "issued epoch c'" "unat (cp_next_enforcement_epoch c') + k < 2 ^ 64"
proof -
  have "unat (cp_next_enforcement_epoch c) \<le> unat (cp_next_enforcement_epoch c')"
    using assms(3) unat_next [OF assms(2)] by auto
  moreover from assms(1) obtain g p i t q where "epoch = format_enforcement_epoch g p i t q" "unat q < unat (cp_next_enforcement_epoch c)"
    by (auto simp: issued_def)
  ultimately have "epoch = format_enforcement_epoch g p i t q \<and> unat q < unat (cp_next_enforcement_epoch c')" by simp
  then show "issued epoch c'" unfolding issued_def by blast
  show "unat (cp_next_enforcement_epoch c') + k < 2 ^ 64" using assms(2,3) unat_next [OF assms(2)] by auto
qed

lemma issued_not_next: "issued epoch c \<Longrightarrow> format_enforcement_epoch g p i t (cp_next_enforcement_epoch c) \<noteq> epoch"
  by (auto simp: issued_def dest!: epoch_sequence_inject)

lemma stored_epoch_view [simp]: "t_lifecycle s = Some r \<Longrightarrow> stored_epoch s = ml_enforcement_epoch (lifecycle_view r)"
  by (simp add: stored_epoch_def)

lemma moved_revoked:
  assumes "moved c s st n c'" "revoked (Suc k) epoch c" "n \<in> {cp_next_enforcement_epoch c, cp_next_enforcement_epoch c + 1}"
    "ds_enforcement_epoch st \<noteq> Some epoch" "stored_epoch s \<noteq> Some epoch"
  shows "revoked k epoch c'"
  using assms issued_step [of epoch c k c'] by (auto simp: moved_def revoked_def core_iff(2))

lemma revoked_move:
  assumes "lifecycle_move c c'" "revoked (Suc k) epoch c"
  shows "revoked k epoch c'"
proof -
  have old: "ds_enforcement_epoch (cp_status c) \<noteq> Some epoch" "stored_epoch (cp_store c) \<noteq> Some epoch" "issued epoch c"
    using assms(2) by (simp_all add: revoked_def)
  from assms(1) show ?thesis
  proof cases
    case (idle n)
    then show ?thesis using assms(2) old by (blast intro: moved_revoked)
  next
    case (armed g i p j now l s)
    from arm_outcome [OF armed(2)] issued_not_next [OF old(3), of g p j now] old(2)
    have "ml_enforcement_epoch l \<noteq> Some epoch" "stored_epoch s = ml_enforcement_epoch l" by auto
    then show ?thesis using moved_revoked [OF armed(3) assms(2)] by simp
  next
    case (first_scan g i p j now l s)
    from first_scan_outcome [OF first_scan(4)] issued_not_next [OF old(3), of g p j now]
    have "ml_enforcement_epoch l \<noteq> Some epoch" "stored_epoch s = ml_enforcement_epoch l" by auto
    then show ?thesis using moved_revoked [OF first_scan(5) assms(2)] by (simp add: ready_status_def)
  next
    case ready
    then show ?thesis using moved_revoked [OF ready(3) assms(2)] old by (simp add: ready_status_def)
  next
    case (disarmed g i now l s)
    then show ?thesis using moved_revoked [OF disarmed(4) assms(2)] disarm_outcome [OF disarmed(3)] by auto
  next
    case (drained g i now l s)
    then show ?thesis using moved_revoked [OF drained(3) assms(2)] drain_outcome [OF drained(2)] by auto
  next
    case (preserved g i now l s)
    then show ?thesis using moved_revoked [OF preserved(3) assms(2)] preserve_outcome [OF preserved(2)] by auto
  next
    case (failed g i now l s st e n)
    then show ?thesis using moved_revoked [OF failed(5) assms(2) failed(4)] fail_outcome [OF failed(2)]
      by (auto simp: closed_status_def)
  next
    case (closed n e)
    then show ?thesis using moved_revoked [OF closed(2) assms(2) closed(1)] old by (simp add: closed_status_def)
  qed
qed

lemma revoked_quiet: "quiet c c' \<Longrightarrow> revoked (Suc k) epoch c \<Longrightarrow> revoked k epoch c'"
  by (auto simp: quiet_def revoked_def issued_def stored_epoch_def store_quiet_def core_iff(2))

lemma revoked_event: "revoked (Suc k) epoch c \<Longrightarrow> revoked k epoch (run_event e c)"
  using event_step revoked_quiet revoked_move by blast

lemma revoked_events: "revoked (length es + k) epoch c \<Longrightarrow> revoked k epoch (run_events es c)"
  by (induction es arbitrary: c) (simp_all add: revoked_event)

text \<open>The answers that revoke: a successful disarm or the beginning of a drain.\<close>

lemma issued_updates [simp]: "issued epoch (c\<lparr>cp_store := s\<rparr>) = issued epoch c" "issued epoch (c\<lparr>cp_status := st\<rparr>) = issued epoch c"
  by (simp_all add: issued_def)

lemma revoking_answer:
  assumes "command \<in> {IpcDisarm g i, IpcBeginDrain g i}" "handle_at command now c = (Next payload, d)"
    "issued epoch c" "unat (cp_next_enforcement_epoch c) + k < 2 ^ 64"
  shows "revoked k epoch d"
  using assms
  by (auto simp: handle_at_def handle_disarm_def handle_begin_drain_def flow_ops Let_def revoked_def
      dest!: disarm_outcome drain_outcome fail_outcome split: if_splits sum.splits)

lemma revoked_gates:
  assumes "revoked k epoch c"
  shows "action_gate_closed epoch revision c" "\<not> storage_action_may_continue p epoch c" "\<not> tool_cache_action_may_continue q epoch c"
    "fst (begin_cleanup_attempt_if_armed now report epoch revision c) \<noteq> Next (Some attempt)"
  using assms
  by (auto simp: revoked_def action_gate_closed_def signal_gate_matches_def storage_action_may_continue_def
      tool_cache_action_may_continue_def Let_def refresh_cleanup_activity_def begin_cleanup_attempt_if_armed_def flow_ops)

text \<open>C13: Once the service manager has disarmed the daemon or begun to drain it, no epoch issued before authorises anything
  again: whatever follows, arming again included, the signals, the cleanup attempts and the storage and cache actions
  of that epoch stay refused. The bound is that of the 64-bit counter of epochs.\<close>

theorem revoked_epoch_stays_closed:
  assumes "command \<in> {IpcDisarm generation instance_id, IpcBeginDrain generation instance_id}"
    and "handle_at command now c = (Next payload, d)"
    and "issued epoch c" and "unat (cp_next_enforcement_epoch c) + length es < 2 ^ 64"
  shows "let later = run_events es d
    in action_gate_closed epoch revision later
       \<and> fst (begin_cleanup_attempt_if_armed at report epoch revision later) \<noteq> Next (Some attempt)
       \<and> \<not> storage_action_may_continue p epoch later \<and> \<not> tool_cache_action_may_continue q epoch later"
proof -
  have "revoked 0 epoch (run_events es d)"
    using revoking_answer [OF assms(1,2,3), of "length es + 0"] assms(4) by (intro revoked_events) simp
  then show ?thesis unfolding Let_def by (intro conjI revoked_gates)
qed

text \<open>An armed daemon that is disarmed.\<close>

definition demo_epoch :: string where
  "demo_epoch = format_enforcement_epoch 1 7 ''i'' 7 1"

definition armed_row :: lifecycle_row where
  "armed_row = ready_row\<lparr>lr_requested_enforce := 1, lr_effective_enforce := 1, lr_armed_generation := Some 1,
     lr_enforcement_epoch := Some demo_epoch, lr_startup_phase := ''ready_enforce'', lr_updated_at := 7\<rparr>"

definition demo_armed :: control where
  "demo_armed = \<lparr>cp_store = empty_store\<lparr>t_lifecycle := Some armed_row\<rparr>,
     cp_status = (apply_managed_lifecycle (lifecycle_view armed_row) (new_status ReportOnly 7 ''i''))\<lparr>ds_healthy := True\<rparr>,
     cp_status_poisoned = False, cp_roster = default_roster, cp_policy_revision = 1, cp_next_instance_id = 2,
     cp_next_enforcement_epoch = 2, cp_next_cycle_token = 1\<rparr>"

lemma demo_identity: "validate_managed_identity 1 ''i'' = Inr ()"
  by code_simp

lemmas armed_defs = demo_armed_def armed_row_def ready_row_def lifecycle_view_def apply_managed_lifecycle_def new_status_def
  set_effective_mode_def parse_managed_startup_phase_def

lemma demo_disarm:
  "disarm_managed 1 ''i'' 8 (cp_store demo_armed) =
     Inr (lifecycle_view (ready_row\<lparr>lr_updated_at := 8\<rparr>), empty_store\<lparr>t_lifecycle := Some (ready_row\<lparr>lr_updated_at := 8\<rparr>)\<rparr>)"
  by (simp add: disarm_managed_def transition_managed_def demo_identity db_ops sqlite_millis_def i64_try_from_def expect_lifecycle_def
      managed_lifecycle_connection_def parse_generation_def parse_sqlite_bool_def require_exact_managed_identity_def update_lifecycle_def
      lifecycle_ok_def lifecycle_check_def disarmed_def armed_defs)

lemma demo_disarms: "\<exists>payload d. handle_at (IpcDisarm 1 ''i'') 8 demo_armed = (Next payload, d)"
proof -
  have status: "\<not> cp_status_poisoned demo_armed" "ds_startup_state (cp_status demo_armed) = StartReadyEnforce"
    "require_exact_status_identity (cp_status demo_armed) 1 ''i'' = Inr ()"
    by (simp_all add: armed_defs require_exact_status_identity_def managed_identity_def)
  then show ?thesis using demo_disarm by (simp add: handle_at_def handle_disarm_def flow_ops Let_def)
qed

lemma demo_open: "\<not> action_gate_closed demo_epoch 1 demo_armed" "issued demo_epoch demo_armed"
proof -
  show "\<not> action_gate_closed demo_epoch 1 demo_armed"
    by (simp add: action_gate_closed_def signal_gate_matches_def effective_mode_def armed_defs mode_of_def)
  have "demo_epoch = format_enforcement_epoch 1 7 ''i'' 7 1 \<and> unat (1 :: u64) < unat (cp_next_enforcement_epoch demo_armed)"
    by (simp add: demo_epoch_def demo_armed_def)
  then show "issued demo_epoch demo_armed" unfolding issued_def by blast
qed

theorem revoked_epoch_stays_closed_witness:
  "\<not> action_gate_closed demo_epoch 1 demo_armed
   \<and> action_gate_closed demo_epoch 1
       (run_events [Request (IpcArm 1 ''i'') 9, CycleCompleted 10] (snd (handle_at (IpcDisarm 1 ''i'') 8 demo_armed)))"
proof -
  from demo_disarms obtain payload d where d: "handle_at (IpcDisarm 1 ''i'') 8 demo_armed = (Next payload, d)" by blast
  have "action_gate_closed demo_epoch 1 (run_events [Request (IpcArm 1 ''i'') 9, CycleCompleted 10] d)"
    using revoked_epoch_stays_closed [OF _ d demo_open(2), of 1 "''i''" "[Request (IpcArm 1 ''i'') 9, CycleCompleted 10]" 1]
    by (simp add: Let_def demo_armed_def)
  with demo_open(1) d show ?thesis by simp
qed

section \<open>A cancelled lease never resumes\<close>

lemma move_streams: "lifecycle_move c c' \<Longrightarrow> same_streams (cp_store c) (cp_store c')"
proof (induction rule: lifecycle_move.induct)
  case (failed g i now l s st e n c')
  then show ?case using fail_outcome [OF failed(2)] by (auto simp: moved_def)
qed (auto simp: moved_def same_streams_def dest!: arm_outcome first_scan_outcome disarm_outcome drain_outcome preserve_outcome)

lemma event_streams:
  "t_random (cp_store (run_event e c)) = t_random (cp_store c)" "t_draws (cp_store c) \<le> t_draws (cp_store (run_event e c))"
  using event_step [of c e] move_streams [of c "run_event e c"] by (auto simp: quiet_def store_quiet_def same_streams_def)

lemma move_lanes: "lifecycle_move c c' \<Longrightarrow> lanes_step c c'"
  by (induction rule: lifecycle_move.induct) (auto simp: moved_def lanes_step_def may_cancel_def)

lemma event_lanes: "lanes_step c (run_event e c)"
  using event_step [of c e] move_lanes by (auto simp: quiet_def)

text \<open>A maintenance lane: a slot of the status that every event leaves, cancels, empties or gives to a fresh token, and a
  check that only the uncancelled owner of the slot passes.\<close>

locale maintenance_lane =
  fixes lane :: "daemon_status \<Rightarrow> lane_activity option" and may_continue :: "string \<Rightarrow> string \<Rightarrow> control \<Rightarrow> bool"
  assumes event_lane: "lane_step (cp_store c) (cp_store (run_event e c)) (lane (cp_status c)) (lane (cp_status (run_event e c)))"
    and owner_continues: "may_continue token epoch c \<Longrightarrow> owns_lane (lane (cp_status c)) token epoch"
begin

definition retired :: "string \<Rightarrow> control \<Rightarrow> bool" where
  "retired token c \<longleftrightarrow> inj (t_random (cp_store c)) \<and> token \<in> t_random (cp_store c) ` {..<t_draws (cp_store c)}
     \<and> (\<forall>a. lane (cp_status c) = Some a \<longrightarrow> la_token a = token \<longrightarrow> la_cancel_requested a)"

lemma retired_event:
  assumes "retired token c"
  shows "retired token (run_event e c)"
proof -
  have drawn: "inj (t_random (cp_store c))" "token \<in> t_random (cp_store c) ` {..<t_draws (cp_store c)}"
    using assms by (simp_all add: retired_def)
  have "\<not> fresh_token (cp_store c) s' token" for s'
    using drawn by (auto simp: fresh_token_def inj_eq)
  moreover have "token \<in> t_random (cp_store (run_event e c)) ` {..<t_draws (cp_store (run_event e c))}"
    using drawn(2) event_streams [where e = e and c = c] by auto
  ultimately show ?thesis
    using assms event_lane [of c e] event_streams(1) [of e c] by (auto simp: retired_def lane_step_def)
qed

lemma retired_stops: "retired token c \<Longrightarrow> \<not> may_continue token epoch (run_events es c)"
  using run_events_invariant [of "retired token" c es, OF retired_event] owner_continues
  by (fastforce simp: retired_def owns_lane_def split: option.splits)

lemma cancelled_retires:
  "inj (t_random (cp_store c)) \<Longrightarrow> token \<in> t_random (cp_store c) ` {..<t_draws (cp_store c)} \<Longrightarrow>
   lane (cp_status (run_event e c)) = map_option cancel_activity (lane (cp_status c)) \<Longrightarrow> retired token (run_event e c)"
  using event_streams [where e = e and c = c] by (auto simp: retired_def)

lemma cancelled_never_resumes:
  assumes "inj (t_random (cp_store c))" "token \<in> t_random (cp_store c) ` {..<t_draws (cp_store c)}"
    "lane (cp_status (run_event e c)) = map_option cancel_activity (lane (cp_status c))"
  shows "\<not> may_continue token epoch (run_events (e # es) c)"
  using retired_stops [OF cancelled_retires [OF assms]] by simp

end

interpretation storage_lane: maintenance_lane ds_storage_activity
    "\<lambda>token epoch c. \<exists>p. psa_attempt_token p = token \<and> storage_action_may_continue p epoch c"
  by unfold_locales (use event_lanes in \<open>auto simp: lanes_step_def storage_action_may_continue_def\<close>)

interpretation cache_lane: maintenance_lane ds_cache_activity
    "\<lambda>token epoch c. \<exists>p. ptc_token p = token \<and> tool_cache_action_may_continue p epoch c"
  by unfold_locales (use event_lanes in \<open>auto simp: lanes_step_def tool_cache_action_may_continue_def\<close>)

text \<open>The events that withdraw the permission to continue: an accepted pause, of either kind, a disarm, a drain and a
  fail-close.\<close>

definition withdraws :: "control_event \<Rightarrow> control \<Rightarrow> bool" where
  "withdraws e c \<longleftrightarrow> (case e of
       Request (IpcPause d) now \<Rightarrow> \<exists>payload d'. handle_at (IpcPause d) now c = (Next payload, d')
     | Request (IpcDisarm g i) now \<Rightarrow> \<exists>payload d'. handle_at (IpcDisarm g i) now c = (Next payload, d')
     | Request (IpcBeginDrain g i) now \<Rightarrow> \<exists>payload d'. handle_at (IpcBeginDrain g i) now c = (Next payload, d')
     | Mutate context (Pause d) now \<Rightarrow> \<exists>commit d'. commit_public_mutation context (Pause d) now c = (Next commit, d') \<and> cm_state_changed commit
     | FailClosed _ _ _ _ \<Rightarrow> \<not> cp_status_poisoned c
     | _ \<Rightarrow> False)"

lemma pause_decided:
  "decide_mutation facts (Pause d) now s = Inr ((decided, True), s') \<Longrightarrow> \<exists>until. decided = Applied (Paused until)"
  by (auto simp: decide_mutation_def apply_ordinary_mutation_def apply_pause_def db_simps split: policy_decision.splits option.splits)
    (metis policy_decision.exhaust)+

lemma pause_committed:
  assumes "commit_public_ordinary_mutation context (Pause d) facts now s = Inr (commit, s')" "cm_state_changed commit"
  shows "\<exists>until. mu_outcome (cm_receipt commit) = Applied (Paused until)"
  using assms
  by (auto simp: commit_public_ordinary_mutation_def replay_mutation_def commit_new_mutation_def db_simps Let_def split: option.splits
      dest!: pause_decided)

definition lanes_cancelled :: "control \<Rightarrow> control \<Rightarrow> bool" where
  "lanes_cancelled c c' \<longleftrightarrow>
     ds_storage_activity (cp_status c') = map_option cancel_activity (ds_storage_activity (cp_status c))
     \<and> ds_cache_activity (cp_status c') = map_option cancel_activity (ds_cache_activity (cp_status c))"

lemma pause_cancels: "handle_pause d now c = (Next payload, d') \<Longrightarrow> lanes_cancelled c d'"
  by (auto simp: handle_pause_def flow_ops bump_policy_revision_def lanes_cancelled_def split: if_splits option.splits sum.splits)

lemma disarm_cancels: "handle_disarm g i now c = (Next payload, d') \<Longrightarrow> lanes_cancelled c d'"
  by (auto simp: handle_disarm_def flow_ops Let_def lanes_cancelled_def split: if_splits sum.splits dest!: disarm_outcome fail_outcome)

lemma drain_cancels: "handle_begin_drain g i now c = (Next payload, d') \<Longrightarrow> lanes_cancelled c d'"
  by (auto simp: handle_begin_drain_def flow_ops Let_def lanes_cancelled_def split: if_splits sum.splits dest!: drain_outcome)

lemma fail_closed_cancels: "\<not> cp_status_poisoned c \<Longrightarrow> lanes_cancelled c (snd (fail_closed f n now text c))"
  by (auto simp: fail_closed_failing Let_def lanes_cancelled_def option.map_comp comp_def split: sum.splits)

lemma mutation_cancels:
  assumes "commit_public_mutation context (Pause d) now c = (Next commit, d')" "cm_state_changed commit"
  shows "lanes_cancelled c d'"
proof -
  from assms(1) obtain s where s: "commit_public_ordinary_mutation context (Pause d) (runtime_facts_of (cp_status c)) now (cp_store c) = Inr (commit, s)"
    by (auto simp: commit_public_mutation_def flow_ops split: if_splits sum.splits mutation_outcome.splits)
  from pause_committed [OF s assms(2)] assms s show ?thesis
    by (auto simp: commit_public_mutation_def flow_ops lanes_cancelled_def apply_mutation_result_def split: if_splits)
qed

lemma withdraws_cancels: "withdraws e c \<Longrightarrow> lanes_cancelled c (run_event e c)"
  by (auto simp: withdraws_def handle_at_def split: control_event.splits ipc_command.splits ordinary_mutation.splits
      dest: pause_cancels disarm_cancels drain_cancels mutation_cancels intro: fail_closed_cancels)

text \<open>C14: Once a pause is accepted, the daemon is disarmed, begins to drain or fails closed, no storage or cache action that was
  begun before is ever told again that it may continue, also when the pause is lifted and the daemon armed again: the lane is
  cancelled under its token, and a later action carries a token of its own.\<close>

theorem withdrawn_lease_never_resumes:
  assumes "withdraws e c" and "inj (t_random (cp_store c))"
    and "{psa_attempt_token p, ptc_token q} \<subseteq> t_random (cp_store c) ` {..<t_draws (cp_store c)}"
  shows "\<not> storage_action_may_continue p epoch (run_events (e # es) c) \<and> \<not> tool_cache_action_may_continue q epoch (run_events (e # es) c)"
proof -
  have "lanes_cancelled c (run_event e c)" using assms(1) by (rule withdraws_cancels)
  then show ?thesis
    using storage_lane.cancelled_never_resumes [OF assms(2), of "psa_attempt_token p" e epoch es]
      cache_lane.cancelled_never_resumes [OF assms(2), of "ptc_token q" e epoch es] assms(3)
    by (auto simp: lanes_cancelled_def simp del: run_events_simps)
qed

definition demo_storage :: prepared_storage_cleanup_attempt where
  "demo_storage = \<lparr>psa_id = 1, psa_attempt_token = replicate 1 (CHR ''a'')\<rparr>"

definition demo_cache :: prepared_tool_cache_attempt where
  "demo_cache = \<lparr>ptc_token = [], ptc_prepared_at_unix_millis = 7, ptc_kind = UvCache\<rparr>"

definition demo_leased :: control where
  "demo_leased = demo_armed\<lparr>cp_store := (cp_store demo_armed)\<lparr>t_random := \<lambda>n. replicate n (CHR ''a''), t_draws := 2\<rparr>,
     cp_status := refresh_cleanup_activity ((cp_status demo_armed)\<lparr>ds_storage_activity :=
       Some \<lparr>la_token = replicate 1 (CHR ''a''), la_epoch = demo_epoch, la_cancel_requested = False\<rparr>\<rparr>)\<rparr>"

lemma demo_leased_continues: "storage_action_may_continue demo_storage demo_epoch demo_leased"
  by (simp add: storage_action_may_continue_def owns_lane_def demo_storage_def demo_leased_def refresh_cleanup_activity_def
      storage_cleanup_gate_open_def effective_mode_def mode_of_def armed_defs Let_def)

lemma demo_leased_paused: "withdraws (Request (IpcPause 5) 9) demo_leased"
  by (simp add: withdraws_def handle_at_def handle_pause_def max_pause_millis_def u64_checked_add_def flow_ops set_pause_until_def db_ops
      sqlite_millis_def i64_try_from_def bump_policy_revision_def demo_leased_def demo_armed_def)

lemma demo_leased_tokens:
  "inj (t_random (cp_store demo_leased))"
  "{psa_attempt_token demo_storage, ptc_token demo_cache} \<subseteq> t_random (cp_store demo_leased) ` {..<t_draws (cp_store demo_leased)}"
  by (auto simp: demo_leased_def demo_storage_def demo_cache_def inj_def replicate_eq_replicate
      intro: image_eqI [where x = 1] image_eqI [where x = 0])

theorem withdrawn_lease_never_resumes_witness:
  "storage_action_may_continue demo_storage demo_epoch demo_leased
   \<and> \<not> storage_action_may_continue demo_storage demo_epoch (run_events [Request (IpcPause 5) 9, Request IpcResume 10] demo_leased)"
  using demo_leased_continues withdrawn_lease_never_resumes [OF demo_leased_paused demo_leased_tokens, of demo_epoch "[Request IpcResume 10]"]
  by blast

section \<open>A repeated mutation sets the policy revision back\<close>

text \<open>C15: \<open>commit_public_mutation\<close> stores the revision of the receipt it answers with, also when the receipt is that of an
  earlier mutation whose request is repeated. The repetition changes no table, but the policy revision in memory becomes
  the old one, whatever has been committed since: a cleanup frozen at that revision, which later mutations had stopped, may
  deliver signals again.\<close>

theorem repeated_mutation_reopens_gate:
  assumes "commit_public_ordinary_mutation context m (runtime_facts_of (cp_status c)) now (cp_store c) = Inr (commit, cp_store c)"
    and "\<not> cm_state_changed commit" and "\<not> cp_status_poisoned c" and "signal_gate_matches (cp_status c) epoch"
  shows "snd (commit_public_mutation context m now c) = c\<lparr>cp_policy_revision := mu_policy_revision_after (cm_receipt commit)\<rparr>
    \<and> \<not> action_gate_closed epoch (mu_policy_revision_after (cm_receipt commit)) (snd (commit_public_mutation context m now c))"
  using assms by (simp add: commit_public_mutation_def flow_ops action_gate_closed_def)

definition demo_superseded :: control where
  "demo_superseded = demo_armed\<lparr>cp_store := demo_paused\<lparr>t_lifecycle := Some armed_row, t_policy_revision := 3\<rparr>, cp_policy_revision := 3\<rparr>"

lemma demo_superseded_repeat:
  "commit_public_ordinary_mutation demo_context (Pause 5) (runtime_facts_of (cp_status demo_superseded)) 9 (cp_store demo_superseded) =
     Inr (\<lparr>cm_receipt = demo_receipt, cm_newly_committed = False, cm_state_changed = False\<rparr>, cp_store demo_superseded)"
  by (simp add: demo_superseded_def commit_public_ordinary_mutation_def replay_mutation_def u64_checked_add_def find_mutation_def
      mutation_reconciliation_window_millis_def validate_stored_mutation_receipt_def mutation_key_def context_key_def
      mutation_kind_of_def db_ops sqlite_millis_def i64_try_from_def demo_defs)

lemma demo_superseded_gate:
  "\<not> cp_status_poisoned demo_superseded" "signal_gate_matches (cp_status demo_superseded) demo_epoch"
  "action_gate_closed demo_epoch 2 demo_superseded"
  by (simp_all add: demo_superseded_def action_gate_closed_def signal_gate_matches_def effective_mode_def mode_of_def armed_defs)

theorem repeated_mutation_reopens_gate_witness:
  "action_gate_closed demo_epoch 2 demo_superseded
   \<and> \<not> action_gate_closed demo_epoch 2 (snd (commit_public_mutation demo_context (Pause 5) 9 demo_superseded))"
  using demo_superseded_gate(3) repeated_mutation_reopens_gate [OF demo_superseded_repeat _ demo_superseded_gate(1,2), THEN conjunct2]
  by (simp add: demo_receipt_def)

end
