(* ===== verification/Engine_Safety.thy ===== *)
theory Engine_Safety
  imports Engine Control_Safety
begin

text \<open>
  The engine and the control plane together. Other threads act on the control plane by its events only; under this
  assumption a failed cycle is terminal, and a cleanup that runs when the control plane fails closed delivers nothing more.
\<close>

section \<open>Other threads\<close>

definition acts_by_events :: "'w engine_env \<Rightarrow> bool" where
  "acts_by_events env \<longleftrightarrow> (\<forall>w c. \<exists>es. snd (ee_others env (w, c)) = run_events es c)"

lemma run_events_closed: "closed_for_good c \<Longrightarrow> closed_for_good (run_events es c)"
  using closed_for_good_event by (rule run_events_invariant)

lemma others_events:
  assumes "acts_by_events env"
  obtains es where "ew_control (others env x) = run_events es (ew_control x)"
proof -
  obtain es where "snd (ee_others env (ew_outside x, ew_control x)) = run_events es (ew_control x)"
    using assms by (auto simp: acts_by_events_def)
  then show thesis by (intro that [of es]) (auto simp: others_def split: prod.splits)
qed

lemma others_closed: "acts_by_events env \<Longrightarrow> closed_for_good (ew_control x) \<Longrightarrow> closed_for_good (ew_control (others env x))"
  by (metis others_events run_events_closed)

lemma outside_control [simp]: "ew_control (snd (outside f x)) = ew_control x"
  by (simp add: outside_def split: prod.splits)

section \<open>A failed cycle is terminal\<close>

definition closed_engine :: "'w engine_world \<Rightarrow> bool" where
  "closed_engine x \<longleftrightarrow> closed_for_good (ew_control x)"

lemma kept_control:
  assumes "acts_by_events env" "quietly m"
  shows "kept closed_engine (on_control env h m)"
  unfolding kept_def
proof (intro allI impI)
  fix x :: "'a engine_world" assume "closed_engine x"
  then have "closed_for_good (ew_control (others env x))" using others_closed [OF assms(1)] by (simp add: closed_engine_def)
  then have "closed_for_good (snd (m (ew_control (others env x))))"
    using quietlyD [OF assms(2)] by (rule closed_for_good_quiet [rotated])
  then show "closed_engine (snd (on_control env h m x))"
    by (auto simp: on_control_def Let_def closed_engine_def split: prod.splits flow.splits)
qed

lemma fail_closed_engine:
  "closed_engine (snd (on_control env h (fail_closed f n now m) x))"
  using fail_closed_closes [of f n now m "ew_control (others env x)"]
  by (auto simp: on_control_def Let_def closed_engine_def split: prod.splits flow.splits)

lemma fwp_call: "fwp (fcall f) Q E x = (case f x of (a, y) \<Rightarrow> Q a y)"
  by (simp add: fwp_def fcall_def split: prod.splits)

lemma fwp_ignored: "fwp (ignored env m) Q E x = Q () (snd (control_op env m x))"
  by (auto simp: fwp_def ignored_def fbind_def fcatch_def fnext_def split: prod.splits flow.splits)

lemma fwp_put: "fwp (on_control env h (finish_observation_cycle token b)) Q E x = Q () (snd (on_control env h (finish_observation_cycle token b) x))"
  by (simp add: fwp_def on_control_def Let_def finish_observation_cycle_def fput_def)

lemma failed_cycle_closes:
  assumes "acts_by_events env"
  shows "fwp (finish_cycle env now token (Inl e)) (\<lambda>_. closed_engine) (\<lambda>_ _. False) z"
proof -
  have "closed_engine (snd (control_op env (note_status n) (snd (control_op env (fail_closed f l t m) w))))" for n f l t m w
    using kept_control [OF assms quietly_note, of EngineControl n] fail_closed_engine [of env EngineControl f l t m w]
    by (simp add: kept_def control_op_def)
  then show ?thesis
    by (simp add: finish_cycle_def terminal_timestamp_def wp_simps fwp_call fwp_ignored fwp_put split: prod.splits)
qed

text \<open>C12: Whatever goes wrong in the inner run of a cycle - the runtime, the rules, the store, a plan, a cleanup - the cycle returns that
  error and leaves the control plane closed for good: no later event lets a signal through under any epoch and revision. The claim is not
  about errors of the completion step after an inner run that succeeded.\<close>

theorem failed_cycle_is_terminal:
  assumes "acts_by_events env"
    and "control_op env (begin_observation_cycle (ee_wall_nanos env (ew_outside x)) now) x = (Next cycle_token, y)"
    and "run_cycle_inner env json_len en now cycle_token y = (Exit e, z)"
  shows "fst (run_cycle_at_until env json_len en now x) = Exit e
    \<and> action_gate_closed epoch revision (run_events es (ew_control (snd (run_cycle_at_until env json_len en now x))))"
proof -
  have "fwp (run_cycle_at_until env json_len en now) (\<lambda>_ _. False) (\<lambda>r w. r = e \<and> closed_engine w) x"
    unfolding run_cycle_at_until_def
    using failed_cycle_closes [OF assms(1), of now cycle_token e z] assms(2,3)
    by (auto simp: fwp_def fbind_def fget_def fcatch_def flift_def fexit_def split: prod.splits flow.splits)
  then have "fst (run_cycle_at_until env json_len en now x) = Exit e \<and> closed_engine (snd (run_cycle_at_until env json_len en now x))"
    by (auto simp: fwp_def split: prod.splits flow.splits)
  then show ?thesis by (auto simp: closed_engine_def intro: closed_for_good_gates run_events_closed)
qed

section \<open>A closed gate stops a running cleanup\<close>

lemma frames_actions:
  "frames (prepare_cleanup_action attempt n at i)" "frames (complete_cleanup_action h at d)"
  "frames (prepare_cleanup_artifact_action attempt n at ai)" "frames (complete_cleanup_artifact_action ah at ad)"
  unfolding prepare_cleanup_action_def complete_cleanup_action_def prepare_cleanup_artifact_action_def complete_cleanup_artifact_action_def
    open_attempt_row_def Let_def
  by (intro frames_rules; simp add: store_quiet_def)+

lemma journal_quiet:
  "journal_prepare_action i at (j, s) = (a, j', s') \<Longrightarrow> store_quiet s s'"
  "journal_complete_action x d at (j, s) = (b, j', s') \<Longrightarrow> store_quiet s s'"
  "journal_prepare_artifact_action ai at (j, s) = (a, j', s') \<Longrightarrow> store_quiet s s'"
  "journal_complete_artifact_action x ad at (j, s) = (b, j', s') \<Longrightarrow> store_quiet s s'"
  unfolding journal_prepare_action_def journal_complete_action_def journal_prepare_artifact_action_def journal_complete_artifact_action_def
  by (auto simp: Let_def split: if_splits sum.splits option.splits dest: framesD [OF frames_actions(1)] framesD [OF frames_actions(2)]
      framesD [OF frames_actions(3)] framesD [OF frames_actions(4)])

fun delivery_event :: "event \<Rightarrow> bool" where
  "delivery_event (EvSignal _ _ _) = True"
| "delivery_event (EvRemove _ _) = True"
| "delivery_event _ = False"

text \<open>Other threads do not call the runtime of this cleanup.\<close>

definition keeps_log :: "('w \<times> event_trace) engine_env \<Rightarrow> bool" where
  "keeps_log env \<longleftrightarrow> (\<forall>x c. snd (fst (ee_others env (x, c))) = snd x)"

definition nothing_delivered :: "('w \<times> event_trace) cleanup_world \<Rightarrow> bool" where
  "nothing_delivered x \<longleftrightarrow> closed_engine (fst x) \<and> \<not> list_ex delivery_event (snd (ew_outside (fst x)))"

lemma others_log:
  assumes "keeps_log env"
  shows "snd (ew_outside (others env x)) = snd (ew_outside x)"
proof -
  have "snd (fst (ee_others env (ew_outside x, ew_control x))) = snd (ew_outside x)"
    using assms unfolding keeps_log_def by blast
  then show ?thesis by (auto simp: others_def split: prod.split)
qed

lemma logged_quiet:
  "nothing_delivered x \<Longrightarrow> (\<And>a. \<not> delivery_event (mk a)) \<Longrightarrow> nothing_delivered (snd (in_engine (outside (logged f mk)) x))"
  by (auto simp: nothing_delivered_def in_engine_def outside_def logged_def closed_engine_def split: prod.splits)

lemma closed_store: "closed_for_good c \<Longrightarrow> store_quiet (cp_store c) s \<Longrightarrow> closed_for_good (c\<lparr>cp_store := s\<rparr>)"
  by (rule closed_for_good_quiet [of c]) (simp_all add: quiet_def lanes_step_def)

lemma journal_delivers_nothing:
  assumes "acts_by_events env" "keeps_log env" "nothing_delivered x"
    "\<And>j s a j' s'. f (j, s) = (a, j', s') \<Longrightarrow> store_quiet s s'"
  shows "nothing_delivered (snd (in_journal env f x))"
  using assms(3,4) others_closed [OF assms(1)] others_log [OF assms(2)]
  by (auto simp: nothing_delivered_def in_journal_def Let_def closed_engine_def closed_store split: prod.splits)

lemma gated_delivers_nothing:
  assumes "acts_by_events env" "keeps_log env" "nothing_delivered x"
  shows "nothing_delivered (snd (in_engine (gated_delivery env cancelled epoch revision deliver) x))"
    "nothing_delivered (snd (in_engine (gated_removal env cancelled epoch revision remove) x))"
  using assms(3) others_closed [OF assms(1)] others_log [OF assms(2)] closed_for_good_gates(1)
  by (auto simp: nothing_delivered_def in_engine_def gated_delivery_def gated_removal_def deliver_signal_if_armed_def Let_def
      closed_engine_def split: prod.splits)

lemma stop_delivers_nothing:
  assumes "acts_by_events env" "keeps_log env" "nothing_delivered x"
  shows "nothing_delivered (snd (in_engine (gated_stop env (traced rt) cancelled epoch revision) x))"
proof -
  obtain y j where x: "x = (y, j)" by fastforce
  let ?z = "others env (snd (outside (env_should_stop (traced rt)) y))"
  have "snd (in_engine (gated_stop env (traced rt) cancelled epoch revision) x) = (?z, j)"
    by (auto simp: x in_engine_def gated_stop_def Let_def split: prod.splits)
  moreover have "nothing_delivered (snd (outside (env_should_stop (traced rt)) y), j)"
    using logged_quiet [OF assms(3), of EvStop "env_should_stop rt"] by (simp add: x in_engine_def wp_simps split: prod.splits)
  ultimately show ?thesis
    using others_closed [OF assms(1)] others_log [OF assms(2)] by (simp add: nothing_delivered_def closed_engine_def)
qed

lemma closed_environment:
  assumes "acts_by_events env" "keeps_log env"
  shows "environment_invariant (gated_env env (traced rt) cancelled epoch revision) nothing_delivered"
  by unfold_locales
    (simp_all add: gated_env_def wp_simps logged_quiet stop_delivers_nothing [OF assms] gated_delivers_nothing [OF assms]
      journal_delivers_nothing [OF assms] journal_quiet)

text \<open>C11: A cleanup that is carried out after a fail-close, by the cycle or by its worker, delivers nothing: whatever the runtime answers,
  whatever the plan is and whatever other threads request, the runtime is asked for no signal and no removal.\<close>

theorem fail_close_stops_cleanup:
  assumes "acts_by_events env" and "keeps_log env"
    and "ew_control x = run_events es (snd (fail_closed source_file source_line now message c))" and "ew_outside x = (w, [])"
  shows "\<not> list_ex delivery_event (snd (ew_outside (snd (run_executor env (traced rt) cancelled frozen x))))"
proof -
  have "nothing_delivered (x, journal_for (fc_attempt frozen))"
    using assms(3,4) run_events_closed [OF fail_closed_closes] by (simp add: nothing_delivered_def closed_engine_def)
  from environment_invariant.execute_keeps [OF closed_environment [OF assms(1,2)] this]
  show ?thesis by (auto simp: run_executor_def nothing_delivered_def split: prod.splits) (metis fst_conv snd_conv)
qed

section \<open>A concrete engine\<close>

text \<open>An engine without other threads, on the armed control plane.\<close>

definition alone :: "'w cleanup_env \<Rightarrow> 'w engine_env" where
  "alone rt = \<lparr>ee_runtime = rt, ee_worker_runtime = None, ee_others = id, ee_wall_nanos = (\<lambda>_. 0), ee_spawn = (\<lambda>w. (None, w)),
     ee_finished = (\<lambda>_. False), ee_join = (\<lambda>w. (None, w)), ee_cancel = id, ee_cancelled = (\<lambda>_. False)\<rparr>"

lemma alone_acts: "acts_by_events (alone rt)" "keeps_log (alone rt')" "others (alone rt) x = x"
proof -
  have "snd (ee_others (alone rt) (w, c)) = run_events [] c" for w c by (simp add: alone_def)
  then show "acts_by_events (alone rt)" unfolding acts_by_events_def by blast
qed (simp_all add: alone_def keeps_log_def others_def)

lemma alone_parts: "ee_runtime (alone rt) = rt" "ee_finished (alone rt) w = False"
  by (simp_all add: alone_def)

definition blind_env :: "demo_world cleanup_env" where
  "blind_env = (demo_env False)\<lparr>env_snapshot := \<lambda>w. (Inl \<lparr>failure_message = ''denied''\<rparr>, w)\<rparr>"

definition demo_engine :: engine where
  "demo_engine = \<lparr>en_rules = \<lparr>packs = []\<rparr>, en_config = default_engine_config, en_self_pid = None\<rparr>"

definition demo_engine_world :: "'w \<Rightarrow> control \<Rightarrow> 'w engine_world" where
  "demo_engine_world w c = \<lparr>ew_outside = w, ew_control = c, ew_background = None\<rparr>"

definition armed_at_work :: "demo_world engine_world" where
  "armed_at_work = demo_engine_world ([], False) demo_armed"

lemma blind_cycle_begins:
  "\<exists>token c. control_op (alone blind_env) (begin_observation_cycle (ee_wall_nanos (alone blind_env) (ew_outside armed_at_work)) 9) armed_at_work
     = (Next token, demo_engine_world ([], False) c) \<and> cp_store c = cp_store demo_armed \<and> \<not> cp_status_poisoned c
     \<and> ds_paused_until_unix_millis (cp_status c) = None"
  by (simp add: control_op_def on_control_def alone_acts armed_at_work_def demo_engine_world_def begin_observation_cycle_def flow_ops
      update_status_def clear_error_unless_failed_def Let_def armed_defs)

lemma blind_cycle_fails:
  assumes "cp_store c = cp_store demo_armed" "\<not> cp_status_poisoned c" "ds_paused_until_unix_millis (cp_status c) = None"
  shows "\<exists>e z. run_cycle_inner (alone blind_env) (\<lambda>_. 0) demo_engine 9 token (demo_engine_world ([], False) c) = (Exit e, z)"
  using assms
  by (simp add: run_cycle_inner_def collect_background_cleanup_def background_cleanup_finished_def control_op_def on_control_def alone_acts
      demo_engine_world_def status_at_def expire_pause_def read_status_def project_attention_def project_protections_def joined_blocks_def
      flow_ops db_ops demo_armed_def empty_store_def observe_incidents_def on_runtime_op_def ftry_def fcall_def outside_def blind_env_def
      alone_parts Let_def)

theorem failed_cycle_is_terminal_witness:
  "\<not> action_gate_closed demo_epoch 1 (ew_control armed_at_work)
   \<and> action_gate_closed demo_epoch 1 (run_events [Request (IpcArm 1 ''i'') 10]
       (ew_control (snd (run_cycle_at_until (alone blind_env) (\<lambda>_. 0) demo_engine 9 armed_at_work))))"
proof -
  obtain token c where c: "control_op (alone blind_env) (begin_observation_cycle (ee_wall_nanos (alone blind_env) (ew_outside armed_at_work)) 9)
      armed_at_work = (Next token, demo_engine_world ([], False) c)" "cp_store c = cp_store demo_armed" "\<not> cp_status_poisoned c"
    "ds_paused_until_unix_millis (cp_status c) = None"
    using blind_cycle_begins by blast
  obtain e z where run: "run_cycle_inner (alone blind_env) (\<lambda>_. 0) demo_engine 9 token (demo_engine_world ([], False) c) = (Exit e, z)"
    using blind_cycle_fails [OF c(2,3,4)] by blast
  show ?thesis
    using failed_cycle_is_terminal [OF alone_acts(1) c(1) run, THEN conjunct2] demo_open(1)
    by (simp add: armed_at_work_def demo_engine_world_def del: run_events_simps)
qed

definition demo_cleanup :: frozen_cleanup where
  "demo_cleanup = \<lparr>fc_analyzer = \<lparr>rules = \<lparr>packs = []\<rparr>, analyzer_ctx = \<lparr>self_pid = None, context_ancestor_pids = [], task_controllers = [],
       session_owners = []\<rparr>\<rparr>, fc_attempt = \<lparr>cah_id = 1, cah_incident_id = ''i''\<rparr>, fc_plan = demo_plan, fc_policy = demo_policy,
     fc_enforcement_epoch = demo_epoch, fc_cleanup_policy_revision = 1, fc_started_at_unix_millis = 7\<rparr>"

theorem fail_close_stops_cleanup_witness:
  "\<not> list_ex delivery_event (snd (ew_outside (snd (run_executor (alone (traced (demo_env False))) (traced (demo_env False)) (\<lambda>_. False) demo_cleanup
     (demo_engine_world (([plain_process 7 1], True), []) (run_events [Request (IpcArm 1 ''i'') 10] (snd (fail_closed ''engine.rs'' 361 9 ''denied'' demo_armed))))))))"
  by (rule fail_close_stops_cleanup [OF alone_acts(1,2), where es = "[Request (IpcArm 1 ''i'') 10]"])
    (simp_all add: demo_engine_world_def del: run_events_simps)

end
