(* ===== verification/Engine_Grounding.thy ===== *)
theory Engine_Grounding
  imports Engine_Safety Rules_Example
begin

text \<open>
  What a cycle records and publishes as confirmed. Each confirmed incident was found cooling by two observations of the cycle, under the
  same root identity and members, the durable clock answered that its grace period is over, every gate of its ledger holds, and the
  owner has not protected it. A concrete cycle confirms an abandoned session.
\<close>

section \<open>Two observations\<close>

lemma fwp_ran: "(\<And>a w. m x = (Next a, w) \<Longrightarrow> Q a w) \<Longrightarrow> fwp m Q (\<lambda>_ _. True) x"
  by (simp add: fwp_def split: prod.splits flow.splits)

lemma bind_ran: "fbind m f x = (Next b, z) \<longleftrightarrow> (\<exists>a y. m x = (Next a, y) \<and> f a y = (Next b, z))"
  by (auto simp: fbind_def split: prod.splits flow.splits)

lemma next_ran: "fnext a x = (Next b, z) \<longleftrightarrow> b = a \<and> z = x" "fexit e x = (Next b, z) \<longleftrightarrow> False" "flift r x = (Next b, z) \<longleftrightarrow> r = Inr b \<and> z = x"
  by (auto simp: fnext_def fexit_def flift_def split: sum.splits)

text \<open>The run of a cycle that starts in \<open>x\<close> and looks twice: the runtime answers \<open>x\<close> with the first snapshot, which the analyzer classifies as
  \<open>first\<close>; after the wait it answers with \<open>latest\<close> and the time \<open>clock\<close>, which leaves the cycle in \<open>u\<close>, where the durable clock is asked for
  the second time.\<close>

definition two_looks ::
    "'w engine_env \<Rightarrow> engine \<Rightarrow> string \<Rightarrow> 'w engine_world \<Rightarrow> analyzer \<Rightarrow> incident_report list \<Rightarrow> snapshot \<Rightarrow> cooling_clock \<Rightarrow> u64 \<Rightarrow> u64
      \<Rightarrow> 'w engine_world \<Rightarrow> bool" where
  "two_looks env en epoch x a first latest clock grace gap u \<longleftrightarrow> (\<exists>first_snapshot x1 x2 sample x3 x4 x5 x6 x7 second_sample.
     on_runtime_op (env_snapshot (ee_runtime env)) x = (Next first_snapshot, x1)
     \<and> refresh_task_ownership env first_snapshot x1 = (Next (), x2)
     \<and> on_runtime_op (env_clock_sample (ee_runtime env)) x2 = (Next sample, x3)
     \<and> analyzer_for env en first_snapshot x3 = (Next a, x4) \<and> observe a first_snapshot = Inr first
     \<and> duration_millis (ec_abandonment_grace (en_config en)) = Inr grace \<and> duration_millis (ec_cooling_continuity_gap (en_config en)) = Inr gap
     \<and> track_first env first (cooling_clock_of sample epoch) grace gap x4 = (Next (), x5)
     \<and> on_runtime_op (env_wait_until (ee_runtime env) (ec_observation_gap (en_config en))) x5 = (Next DeadlineReached, x6)
     \<and> on_runtime_op (env_snapshot (ee_runtime env)) x6 = (Next latest, x7)
     \<and> on_runtime_op (env_clock_sample (ee_runtime env)) x7 = (Next second_sample, u) \<and> clock = cooling_clock_of second_sample epoch)"

text \<open>In the loop over the cooling reports that starts in \<open>u\<close>, the durable clock answers yes for a report with this tracking key, on the
  tables that the cycle has reached by then.\<close>

definition clock_answers ::
    "'w engine_env \<Rightarrow> incident_report list \<Rightarrow> cooling_clock \<Rightarrow> u64 \<Rightarrow> u64 \<Rightarrow> 'w engine_world \<Rightarrow> string \<Rightarrow> bool" where
  "clock_answers env reports clock grace gap u key \<longleftrightarrow> (\<exists>before r after found v v'. cooling_reports reports = before @ r # after
     \<and> tracking_key r = key \<and> track_second env before clock grace gap u = (Next found, v)
     \<and> on_tables env (track_cooling r clock grace gap) v = (Next True, v'))"

lemma track_second_loop:
  "track_second env reports clock grace gap = ffold (\<lambda>report found.
     fbind (on_tables env (track_cooling report clock grace gap)) (\<lambda>over.
     fnext (bs_insert (tracking_key report) (fst found), if over then bs_insert (tracking_key report) (snd found) else snd found)))
     (cooling_reports reports) ([], [])"
  by (simp add: track_second_def case_prod_unfold)

lemma ffold_append: "ffold f (xs @ ys) s = fbind (ffold f xs s) (ffold f ys)"
proof (induction xs arbitrary: s)
  case Nil
  then show ?case by (simp add: fbind_def fnext_def fun_eq_iff)
next
  case (Cons x xs)
  then have "ffold f (xs @ ys) = (\<lambda>s. fbind (ffold f xs s) (ffold f ys))" by (simp add: fun_eq_iff)
  then show ?case by (auto simp: fbind_def fun_eq_iff split: prod.splits flow.splits)
qed

lemma track_second_answers:
  assumes "track_second env reports clock grace gap u = (Next found, w)" "key \<in> set (snd found)"
  shows "clock_answers env reports clock grace gap u key"
proof -
  let ?f = "\<lambda>report found.
     fbind (on_tables env (track_cooling report clock grace gap)) (\<lambda>over.
     fnext (bs_insert (tracking_key report) (fst found), if over then bs_insert (tracking_key report) (snd found) else snd found))"
  have "\<exists>before r after found v v'. rs = before @ r # after \<and> tracking_key r = key \<and> ffold ?f before ([], []) u = (Next found, v)
      \<and> on_tables env (track_cooling r clock grace gap) v = (Next True, v')"
    if "ffold ?f rs ([], []) u = (Next found, w)" "key \<in> set (snd found)" for rs found w
    using that
  proof (induction rs arbitrary: found w rule: rev_induct)
    case Nil
    then show ?case by (simp add: next_ran)
  next
    case (snoc r rs)
    then obtain found' v over v' where run: "ffold ?f rs ([], []) u = (Next found', v)"
        "on_tables env (track_cooling r clock grace gap) v = (Next over, v')"
        and key: "key \<in> set (snd found') \<or> over \<and> key = tracking_key r"
      by (auto simp: ffold_append bind_ran next_ran split: if_splits)
    show ?case
    proof (cases "key \<in> set (snd found')")
      case True
      from snoc.IH [OF run(1) this] obtain before q after f' w w' where q: "rs = before @ q # after" "tracking_key q = key"
          "ffold ?f before ([], []) u = (Next f', w)" "on_tables env (track_cooling q clock grace gap) w = (Next True, w')"
        by blast
      from q(1) have "rs @ [r] = before @ q # (after @ [r])" by simp
      with q(2-4) show ?thesis by blast
    next
      case False
      with key have "over" "tracking_key r = key" by simp_all
      with run have "rs @ [r] = rs @ r # []" "tracking_key r = key" "ffold ?f rs ([], []) u = (Next found', v)"
          "on_tables env (track_cooling r clock grace gap) v = (Next True, v')"
        by simp_all
      then show ?thesis by blast
    qed
  qed
  from this [of "cooling_reports reports" found w] assms obtain before r after f' v v' where
    r: "cooling_reports reports = before @ r # after" "tracking_key r = key" "ffold ?f before ([], []) u = (Next f', v)"
      "on_tables env (track_cooling r clock grace gap) v = (Next True, v')"
    by (auto simp: track_second_loop)
  have "cooling_reports before = before"
  proof -
    have "list_all (\<lambda>q. state q = Cooling) (cooling_reports reports)" by (simp add: cooling_reports_def list_all_iff)
    then have "list_all (\<lambda>q. state q = Cooling) before" unfolding r(1) by simp
    then show ?thesis by (simp add: cooling_reports_def list_all_iff filter_id_conv)
  qed
  with r(3) have "track_second env before clock grace gap u = (Next f', v)" by (simp add: track_second_loop)
  with r(1,2,4) show ?thesis unfolding clock_answers_def by blast
qed

lemma second_observation_ran:
  assumes "second_observation env a first epoch grace gap x = (Next ob, y)"
  obtains x7 second_sample u second active keys v where
    "on_runtime_op (env_snapshot (ee_runtime env)) x = (Next (ob_latest_snapshot ob), x7)"
    "on_runtime_op (env_clock_sample (ee_runtime env)) x7 = (Next second_sample, u)" "observe a (ob_latest_snapshot ob) = Inr second"
    "track_second env second (cooling_clock_of second_sample epoch) grace gap u = (Next (active, keys), v)"
    "ob_incidents ob = reconcile_with_abandonment first second keys" "ob_observed_twice ob"
proof -
  from assms obtain latest x7 second_sample u where looked: "on_runtime_op (env_snapshot (ee_runtime env)) x = (Next latest, x7)"
      "on_runtime_op (env_clock_sample (ee_runtime env)) x7 = (Next second_sample, u)"
    and rest: "(case observe a latest of
        Inl e \<Rightarrow> fexit (EngineRules e)
      | Inr second_reports \<Rightarrow>
          fbind (track_second env second_reports (cooling_clock_of second_sample epoch) grace gap) (\<lambda>(active, confirmed).
          fbind (on_tables env (retain_cooling active)) (\<lambda>_.
          fnext \<lparr>ob_incidents = reconcile_with_abandonment first second_reports confirmed, ob_observed_twice = True,
            ob_latest_snapshot = latest, ob_observed_at_unix_millis = cc_wall_unix_millis (cooling_clock_of second_sample epoch)\<rparr>))) u = (Next ob, y)"
    unfolding second_observation_def Let_def bind_ran by blast
  show thesis
  proof (cases "observe a latest")
    case (Inr second)
    with rest obtain active keys v where "track_second env second (cooling_clock_of second_sample epoch) grace gap u = (Next (active, keys), v)"
        and ob: "ob = \<lparr>ob_incidents = reconcile_with_abandonment first second keys, ob_observed_twice = True,
          ob_latest_snapshot = latest, ob_observed_at_unix_millis = cc_wall_unix_millis (cooling_clock_of second_sample epoch)\<rparr>"
      by (auto simp: bind_ran next_ran split: prod.splits)
    with looked Inr show thesis by (intro that) simp_all
  qed (use rest in \<open>simp add: next_ran\<close>)
qed

lemma observed_once_or_twice:
  assumes "observe_incidents env en epoch x = (Next (a, ob), y)"
  obtains (once) first_snapshot where "observe a first_snapshot = Inr (ob_incidents ob)"
  | (twice) first clock grace gap u second keys active v where "two_looks env en epoch x a first (ob_latest_snapshot ob) clock grace gap u"
      "observe a (ob_latest_snapshot ob) = Inr second" "track_second env second clock grace gap u = (Next (active, keys), v)"
      "ob_incidents ob = reconcile_with_abandonment first second keys" "ob_observed_twice ob"
proof -
  from assms obtain first_snapshot x1 refreshed x2 sample x3 b x4 where begun: "on_runtime_op (env_snapshot (ee_runtime env)) x = (Next first_snapshot, x1)"
      "refresh_task_ownership env first_snapshot x1 = (Next refreshed, x2)" "on_runtime_op (env_clock_sample (ee_runtime env)) x2 = (Next sample, x3)"
      "analyzer_for env en first_snapshot x3 = (Next b, x4)"
    and rest: "(case observe b first_snapshot of
          Inl e \<Rightarrow> fexit (EngineRules e)
        | Inr first_reports \<Rightarrow>
            fbind (flift (duration_millis (ec_abandonment_grace (en_config en)))) (\<lambda>grace.
            fbind (flift (duration_millis (ec_cooling_continuity_gap (en_config en)))) (\<lambda>gap.
            fbind (track_first env first_reports (cooling_clock_of sample epoch) grace gap) (\<lambda>_.
            if list_ex (\<lambda>r. state r = Cooling) first_reports then
              fbind (on_runtime_op (env_wait_until (ee_runtime env) (ec_observation_gap (en_config en)))) (\<lambda>waited.
              if waited = Interrupted then fnext (b, observed_once first_reports first_snapshot (cooling_clock_of sample epoch))
              else fbind (second_observation env b first_reports epoch grace gap) (\<lambda>result. fnext (b, result)))
            else
              fbind (on_tables env (retain_cooling [])) (\<lambda>_.
              fnext (b, observed_once first_reports first_snapshot (cooling_clock_of sample epoch))))))) x4 = (Next (a, ob), y)"
    unfolding observe_incidents_def Let_def bind_ran by blast
  have unit: "refresh_task_ownership env first_snapshot x1 = (Next (), x2)" using begun(2) by simp
  show thesis
  proof (cases "observe b first_snapshot")
    case (Inr first)
    obtain grace gap x5 where set: "duration_millis (ec_abandonment_grace (en_config en)) = Inr grace"
        "duration_millis (ec_cooling_continuity_gap (en_config en)) = Inr gap" "track_first env first (cooling_clock_of sample epoch) grace gap x4 = (Next (), x5)"
      and "a = b" and
      ends: "ob = observed_once first first_snapshot (cooling_clock_of sample epoch) \<or> (\<exists>x6. second_observation env b first epoch grace gap x6 = (Next ob, y)
        \<and> on_runtime_op (env_wait_until (ee_runtime env) (ec_observation_gap (en_config en))) x5 = (Next DeadlineReached, x6))"
      using rest by (auto simp: Inr bind_ran next_ran split: if_splits) (metis (full_types) wait_outcome.exhaust)
    from ends show thesis
    proof (elim disjE exE conjE)
      assume "ob = observed_once first first_snapshot (cooling_clock_of sample epoch)"
      with Inr \<open>a = b\<close> show thesis by (intro once) (simp add: observed_once_def)
    next
      fix x6 assume "second_observation env b first epoch grace gap x6 = (Next ob, y)"
        and waited: "on_runtime_op (env_wait_until (ee_runtime env) (ec_observation_gap (en_config en))) x5 = (Next DeadlineReached, x6)"
      then obtain x7 second_sample u second active keys v where look: "on_runtime_op (env_snapshot (ee_runtime env)) x6 = (Next (ob_latest_snapshot ob), x7)"
          "on_runtime_op (env_clock_sample (ee_runtime env)) x7 = (Next second_sample, u)"
        and found: "observe b (ob_latest_snapshot ob) = Inr second"
          "track_second env second (cooling_clock_of second_sample epoch) grace gap u = (Next (active, keys), v)"
          "ob_incidents ob = reconcile_with_abandonment first second keys" "ob_observed_twice ob"
        by (elim second_observation_ran)
      have "two_looks env en epoch x b first (ob_latest_snapshot ob) (cooling_clock_of second_sample epoch) grace gap u"
        unfolding two_looks_def using begun Inr set waited look unit by blast
      with found \<open>a = b\<close> show thesis by (intro twice) simp_all
    qed
  qed (use rest in \<open>simp add: next_ran\<close>)
qed

section \<open>Owner protections\<close>

text \<open>Other threads do not change the owner's protections while the incidents are recorded.\<close>

definition keeps_protections :: "'w engine_env \<Rightarrow> bool" where
  "keeps_protections env \<longleftrightarrow> (\<forall>w c. t_protections (cp_store (snd (ee_others env (w, c)))) = t_protections (cp_store c))"

definition protected_as :: "protection_row list \<Rightarrow> 'w engine_world \<Rightarrow> bool" where
  "protected_as ps x \<longleftrightarrow> t_protections (cp_store (ew_control x)) = ps"

lemma others_protections:
  assumes "keeps_protections env"
  shows "t_protections (cp_store (ew_control (others env x))) = t_protections (cp_store (ew_control x))"
  using assms unfolding keeps_protections_def others_def by (auto split: prod.splits) (metis snd_conv)

lemma kept_protections_table:
  assumes "keeps_protections env" "keeps (\<lambda>s. t_protections s = ps) m"
  shows "kept (protected_as ps) (on_tables env m)"
  unfolding kept_def
proof (intro allI impI)
  fix x :: "'a engine_world" assume "protected_as ps x"
  then have "t_protections (cp_store (ew_control (others env x))) = ps"
    using others_protections [OF assms(1)] by (simp add: protected_as_def)
  then show "protected_as ps (snd (on_tables env m x))"
    using keepsD [OF assms(2), of "cp_store (ew_control (others env x))"]
    by (simp add: protected_as_def on_tables_def on_control_def on_store_def Let_def split: sum.splits prod.splits)
qed

lemma keeps_record_batch: "keeps (\<lambda>s. t_protections s = ps) (record_observation_batch t reports)"
  unfolding record_observation_batch_def upsert_observation_span_transaction_def insert_observation_def insert_event_transaction_def
    insert_public_event_token_def
  by (intro keeps_db_map keeps_bind keeps_intros keeps_option keeps_if keeps_constrained; simp)

lemma kept_protections_roster:
  assumes "keeps_protections env"
  shows "kept (protected_as ps) (control_op env (publish_roster token t reports complete))"
  using others_protections [OF assms]
  by (auto simp: kept_def protected_as_def control_op_def on_control_def Let_def publish_roster_def update_status_def flow_ops
      split: prod.splits flow.splits)

text \<open>No report of this state is protected while the rows are these.\<close>

definition unprotected_in :: "protection_row list \<Rightarrow> incident_report \<Rightarrow> bool" where
  "unprotected_in ps r \<longleftrightarrow> (\<forall>s. t_protections s = ps \<longrightarrow> \<not> is_incident_protected r s)"

lemma unprotected_in: "unprotected_in (t_protections s) r \<longleftrightarrow> \<not> is_incident_protected r s"
  by (auto simp: unprotected_in_def is_incident_protected_def)

lemma apply_owner_protection_state [simp]: "state (apply_owner_protection r) = Protected"
  by (simp add: apply_owner_protection_def Let_def)

lemma protect_incidents_unprotected:
  assumes "keeps_protections env"
  shows "fspec (protected_as ps) (protect_incidents env reports)
    (\<lambda>incidents w. protected_as ps w \<and> (\<forall>r \<in> set incidents. state r = Confirmed \<longrightarrow> r \<in> set reports \<and> unprotected_in ps r)) (\<lambda>_ _. True)"
proof -
  let ?I = "\<lambda>done w. protected_as ps w \<and> (\<forall>r \<in> set done. state r = Confirmed \<longrightarrow> r \<in> set reports \<and> unprotected_in ps r)"
  have "fspec (?I d) (fbind (on_tables env (db_read (is_incident_protected r))) (\<lambda>protected.
       fnext (d @ [if protected then apply_owner_protection r else r]))) ?I (\<lambda>_ _. True)" if "r \<in> set reports" for r d
    using that others_protections [OF assms]
    by (auto simp: fspec_def fbind_def fnext_def on_tables_def on_control_def on_store_def db_read_def Let_def protected_as_def
        unprotected_in [symmetric] split: prod.splits flow.splits)
  then have "fspec (?I []) (protect_incidents env reports) ?I (\<lambda>_ _. True)"
    unfolding protect_incidents_def by (rule fspec_ffold)
  then show ?thesis by (simp add: fspec_def)
qed

lemma record_incidents_unprotected:
  assumes "keeps_protections env"
  shows "fwp (record_incidents env en now token ob) (\<lambda>incidents z. \<forall>r \<in> set incidents. state r = Confirmed \<longrightarrow>
     r \<in> set (ob_incidents ob) \<and> \<not> is_incident_protected r (cp_store (ew_control z))) (\<lambda>_ _. True) y"
proof -
  have recorded: "fwp (protect_incidents env (ob_incidents ob)) (\<lambda>incidents.
      fwp (on_tables env (record_observation_batch t incidents)) (\<lambda>_.
      fwp (control_op env (publish_roster token t' incidents complete)) (\<lambda>_ z. \<forall>r \<in> set incidents. state r = Confirmed \<longrightarrow>
       r \<in> set (ob_incidents ob) \<and> \<not> is_incident_protected r (cp_store (ew_control z))) (\<lambda>_ _. True)) (\<lambda>_ _. True)) (\<lambda>_ _. True) x"
    for t t' complete x
  proof (rule fwp_ran, rule fwp_ran, rule fwp_ran, intro ballI impI)
    fix incidents x1 ids x2 u z r
    assume run: "protect_incidents env (ob_incidents ob) x = (Next incidents, x1)"
      "on_tables env (record_observation_batch t incidents) x1 = (Next ids, x2)"
      "control_op env (publish_roster token t' incidents complete) x2 = (Next u, z)"
      and r: "r \<in> set incidents" "state r = Confirmed"
    define ps where "ps = t_protections (cp_store (ew_control x))"
    have "protected_as ps x1" "r \<in> set (ob_incidents ob)" "unprotected_in ps r"
      using fspecD_Next [OF protect_incidents_unprotected [OF assms, of ps] _ run(1)] r by (simp_all add: ps_def protected_as_def)
    moreover from this(1) have "protected_as ps z"
      using kept_protections_table [OF assms keeps_record_batch [of ps t incidents]] kept_protections_roster [OF assms, of ps token t' incidents complete] run(2,3)
      unfolding kept_def by (metis snd_conv)
    ultimately show "r \<in> set (ob_incidents ob) \<and> \<not> is_incident_protected r (cp_store (ew_control z))"
      unfolding protected_as_def by (metis unprotected_in)
  qed
  show ?thesis
    unfolding record_incidents_def Let_def fwp_bind fwp_next
    by (rule fwp_ran, rule fwp_ran, rule fwp_ran, rule recorded)
qed

section \<open>What is published as confirmed\<close>

text \<open>The grounds of a confirmed report \<open>r\<close> in a cycle that started in \<open>x\<close>.\<close>

definition confirmed_on_grounds ::
    "'w engine_env \<Rightarrow> engine \<Rightarrow> string \<Rightarrow> 'w engine_world \<Rightarrow> analyzer \<Rightarrow> snapshot \<Rightarrow> incident_report \<Rightarrow> bool" where
  "confirmed_on_grounds env en epoch x a latest r \<longleftrightarrow> (\<exists>first clock grace gap u second r1 r2.
     two_looks env en epoch x a first latest clock grace gap u \<and> observe a latest = Inr second
     \<and> r1 \<in> set first \<and> state r1 = Cooling \<and> tracking_key r1 = tracking_key r
     \<and> r2 \<in> set second \<and> state r2 = Cooling \<and> same_finding r2 r \<and> stable_pair r1 r2
     \<and> same_user (gates r2) \<and> strong_automation_provenance (gates r2) \<and> isolated_session (gates r2) \<and> no_protection_rule (gates r2)
     \<and> clock_answers env second clock grace gap u (tracking_key r))"

lemma same_finding_key: "same_finding r r' \<Longrightarrow> tracking_key r' = tracking_key r"
  unfolding same_finding_def by (erule ssubst) simp

lemma earlier_report_in: "earlier_report first r = Some p \<Longrightarrow> p \<in> set first \<and> tracking_key p = tracking_key r"
  by (auto simp: earlier_report_def dest!: map_of_SomeD)

lemma grounded_confirmation:
  assumes "observe_incidents env en epoch x = (Next (a, ob), y)" "r \<in> set (ob_incidents ob)" "state r = Confirmed"
  shows "ob_observed_twice ob \<and> cleanup_eligible (gates r) \<and> confirmed_on_grounds env en epoch x a (ob_latest_snapshot ob) r"
  using assms(1)
proof (cases rule: observed_once_or_twice)
  case (once first_snapshot)
  then show ?thesis using observe_not_confirmed assms(2,3) by blast
next
  case (twice first clock grace gap u second keys active v)
  obtain r2 where r2: "r2 \<in> set second" "confirmed_by_pair first keys r2" "same_finding r2 r" "cleanup_eligible (gates r)"
    using confirmed_reconciled [OF twice(2) _ assms(3)] assms(2) twice(4) by metis
  then obtain r1 where r1: "earlier_report first r2 = Some r1" "state r1 = Cooling" "stable_pair r1 r2"
    by (auto simp: confirmed_by_pair_def split: option.splits)
  have "clock_answers env second clock grace gap u (tracking_key r)"
    using track_second_answers [OF twice(3)] r2(2) same_finding_key [OF r2(3)] by (simp add: confirmed_by_pair_def)
  moreover have "r1 \<in> set first" "tracking_key r1 = tracking_key r"
    using earlier_report_in [OF r1(1)] same_finding_key [OF r2(3)] by simp_all
  ultimately have "confirmed_on_grounds env en epoch x a (ob_latest_snapshot ob) r"
    unfolding confirmed_on_grounds_def using twice(1,2) r1(2,3) r2 by (auto simp: confirmed_by_pair_def) blast
  with twice(5) r2(4) show ?thesis by blast
qed

text \<open>C10: Whatever the runtime answers and whatever other threads do, save changing the owner's protections: an incident that a cycle records
  and publishes as confirmed was observed twice in this cycle. The snapshot that the runtime gave at the start of the cycle and the one that it
  gave after the wait both show it cooling, under the same root identity and members and with every other gate open; asked between
  the second look and the publication, on the tables of the cycle at that moment, the durable clock answered for its tracking key that the
  configured grace period is over; its gates make it eligible; and no protection of the owner names it.\<close>

theorem confirmed_incidents_grounded:
  assumes "keeps_protections env"
    and "observe_incidents env en epoch x = (Next (a, ob), y)" and "record_incidents env en now cycle_token ob y = (Next incidents, z)"
    and "r \<in> set incidents" and "state r = Confirmed"
  shows "ob_observed_twice ob \<and> cleanup_eligible (gates r) \<and> \<not> is_incident_protected r (cp_store (ew_control z))
    \<and> confirmed_on_grounds env en epoch x a (ob_latest_snapshot ob) r"
proof -
  have "r \<in> set (ob_incidents ob)" "\<not> is_incident_protected r (cp_store (ew_control z))"
    using record_incidents_unprotected [OF assms(1), of en now cycle_token ob y] assms(3-5) by (simp_all add: fwp_def)
  then show ?thesis using grounded_confirmation [OF assms(2) _ assms(5)] by blast
qed

section \<open>A cycle that confirms\<close>

text \<open>The abandoned session of \<open>Rules_Example\<close>, observed twice at a distance of ninety seconds.\<close>

definition ticking_env :: "nat cleanup_env" where
  "ticking_env =
     \<lparr>env_snapshot = (\<lambda>w. (Inr (demo_snapshot 100000), w)),
      env_lookup_process = (\<lambda>p w. (Inr None, w)),
      env_clock_sample = (\<lambda>w. (Inr \<lparr>wall_unix_millis = of_nat (100000 + 90000 * w), continuous_millis = of_nat (90000 * w),
         boot_session_fingerprint = ''boot''\<rparr>, w + 1)),
      env_signal_exact = (\<lambda>i s w. (Delivered, w)),
      env_wait_until = (\<lambda>d w. (Inr DeadlineReached, w)),
      env_freeze_artifact = (\<lambda>c w. (Inr FreezeAbsent, w)),
      env_remove_artifact_exact = (\<lambda>f w. (Removed, w)),
      env_prepare_action = (\<lambda>i at w. (Inr ''action'', w)),
      env_complete_action = (\<lambda>a d at w. (Inr (), w)),
      env_prepare_artifact_action = (\<lambda>i at w. (Inr ''artifact'', w)),
      env_complete_artifact_action = (\<lambda>a d at w. (Inr (), w)),
      env_should_stop = (\<lambda>w. (False, w))\<rparr>"

definition packs_engine :: engine where
  "packs_engine = \<lparr>en_rules = rules demo_analyzer, en_config = default_engine_config, en_self_pid = Some 900\<rparr>"

lemma on_tables_alone:
  "on_tables (alone rt) m x = (case m (cp_store (ew_control x)) of Inl e \<Rightarrow> (Exit (EngineStore e), x)
     | Inr (a, s) \<Rightarrow> (Next a, x\<lparr>ew_control := (ew_control x)\<lparr>cp_store := s\<rparr>\<rparr>))"
  by (simp add: on_tables_def on_control_def alone_acts on_store_def split: sum.splits prod.splits)

text \<open>A store without owned sessions.\<close>

definition no_owners :: "store \<Rightarrow> bool" where
  "no_owners s \<longleftrightarrow> t_tasks s = [] \<and> t_task_controllers s = [] \<and> t_leases s = [] \<and> t_lease_controllers s = []"

lemma task_admitting_none: "task_admitting [] p = None"
  by (simp add: task_admitting_def split: option.splits)

lemma lease_admitting_none: "lease_admitting [] p = None"
  by (simp add: lease_admitting_def split: option.splits)

lemma each_nothing: "(\<And>x. f x = db_return ()) \<Longrightarrow> db_each f xs = db_return ()"
  by (induction xs) (simp_all add: db_ops fun_eq_iff)

lemma no_owner_refresh:
  assumes "no_owners (cp_store (ew_control x))"
  shows "refresh_task_ownership (alone rt) snapshot x = (Next (), x)"
  using assms
  by (simp add: refresh_task_ownership_def release_absent_task_owners_def release_absent_session_owners_def flow_ops fbind_def
      on_tables_alone task_scopes_def session_owner_scopes_def no_owners_def db_ops
      bind_task_controllers_def bind_task_controller_def task_admitting_none each_nothing bind_session_owner_controllers_def
      bind_session_owner_controller_def lease_admitting_none current_session_owner_scopes_def prune_session_owner_leases_def bt_values_def
      task_controller_bindings_def cong: if_cong)

lemma demo_self: "bs_of_list (ancestor_pids demo_graph 900) = []"
  by code_simp

lemma no_owner_analyzer:
  assumes "no_owners (cp_store (ew_control x))"
  shows "analyzer_for (alone rt) packs_engine (demo_snapshot t) x = (Next demo_analyzer, x)"
  using assms
  by (simp add: analyzer_for_def demo_observed packs_engine_def no_owners_def on_tables_alone fbind_def fnext_def task_controller_bindings_def
     session_owner_bindings_def current_session_owner_scopes_def session_owner_scopes_def db_ops Let_def bt_values_def List.map_filter_def demo_analyzer_def demo_self)

definition tick :: "nat \<Rightarrow> cooling_clock" where
  "tick n = \<lparr>cc_wall_unix_millis = of_nat (100000 + 90000 * n), cc_continuous_millis = of_nat (90000 * n),
     cc_boot_session_fingerprint = ''boot'', cc_enforcement_epoch = demo_epoch\<rparr>"

lemma demo_report_cooling: "state demo_report = Cooling"
  using demo_cooling by (simp add: demo_report_def)

definition cooled :: "nat \<Rightarrow> cooling_row" where
  "cooled n = \<lparr>cr_tracking_key = tracking_key demo_report, cr_first_continuous = 0, cr_last_continuous = 90000 * int n,
     cr_first_wall = 100000, cr_last_wall = 100000 + 90000 * int n, cr_root_identity_fingerprint = root_identity_fingerprint (root demo_report),
     cr_member_fingerprint = member_fingerprint demo_report, cr_boot_session_fingerprint = ''boot'', cr_enforcement_epoch = demo_epoch,
     cr_signature_pack = signature_pack demo_report, cr_signature_version = signature_version demo_report\<rparr>"

lemma hex_one: "hex_string (Suc 0) = ''1''"
  by code_simp

lemma tick_trims: "str_trim ''boot'' \<noteq> []" "str_trim demo_epoch \<noteq> []"
proof -
  show "str_trim ''boot'' \<noteq> []" by (simp add: printable_def)
  show "str_trim demo_epoch \<noteq> []" by (simp add: demo_epoch_def format_enforcement_epoch_def hex_one printable_def)
qed

lemma first_tick:
  assumes "t_cooling s = []"
  shows "\<exists>over. track_cooling demo_report (tick 0) 90000 120000 s = Inr (over, s\<lparr>t_cooling := [cooled 0]\<rparr>)"
  using assms
  by (simp add: track_cooling_def demo_report_cooling tick_def tick_trims db_ops sqlite_millis_def i64_try_from_def cooling_check_def cooled_def upsert_def Let_def)

lemma second_tick:
  assumes "t_cooling s = [cooled 0]"
  shows "track_cooling demo_report (tick 1) 90000 120000 s = Inr (True, s\<lparr>t_cooling := [cooled 1]\<rparr>)"
  using assms
  by (simp add: track_cooling_def demo_report_cooling tick_def tick_trims db_ops sqlite_millis_def i64_try_from_def cooling_check_def cooled_def upsert_def Let_def
     continues_row_def wall_continuity_is_plausible_def u64_try_from_def update_where_def)

lemma default_millis:
  "duration_millis (ec_abandonment_grace (en_config packs_engine)) = Inr 90000"
  "duration_millis (ec_cooling_continuity_gap (en_config packs_engine)) = Inr 120000"
  "duration_millis (ec_exact_absence_retention (en_config packs_engine)) = Inr 1209600000"
  by (simp_all add: duration_millis_def packs_engine_def default_engine_config_def duration_from_secs_def)

lemma tracked:
  assumes "t_cooling (cp_store (ew_control x)) = []"
  shows "track_first (alone rt) [demo_report] (tick 0) 90000 120000 x
    = (Next (), x\<lparr>ew_control := (ew_control x)\<lparr>cp_store := (cp_store (ew_control x))\<lparr>t_cooling := [cooled 0]\<rparr>\<rparr>\<rparr>)"
  using first_tick [OF assms]
  by (auto simp: track_first_def cooling_reports_def demo_report_cooling on_tables_alone fbind_def fnext_def)

lemma tracked_again:
  assumes "t_cooling (cp_store (ew_control x)) = [cooled 0]"
  shows "track_second (alone rt) [demo_report] (tick 1) 90000 120000 x
    = (Next ([tracking_key demo_report], [tracking_key demo_report]),
       x\<lparr>ew_control := (ew_control x)\<lparr>cp_store := (cp_store (ew_control x))\<lparr>t_cooling := [cooled 1]\<rparr>\<rparr>\<rparr>)"
  using second_tick [OF assms]
  by (simp add: track_second_def cooling_reports_def demo_report_cooling on_tables_alone fbind_def fnext_def bs_insert_def)

definition cycle_world :: "store \<Rightarrow> nat \<Rightarrow> nat engine_world" where
  "cycle_world s n = demo_engine_world n (demo_armed\<lparr>cp_store := s, cp_roster := default_roster\<lparr>ro_active_cycle_token := Some ''cycle''\<rparr>\<rparr>)"

lemma cycle_world_parts [simp]: "cp_store (ew_control (cycle_world s n)) = s" "ew_outside (cycle_world s n) = n"
  "(cycle_world s n)\<lparr>ew_control := (ew_control (cycle_world s n))\<lparr>cp_store := s'\<rparr>\<rparr> = cycle_world s' n"
  "(cycle_world s n)\<lparr>ew_outside := n'\<rparr> = cycle_world s n'" "\<not> cp_status_poisoned (ew_control (cycle_world s n))"
  "ro_active_cycle_token (cp_roster (ew_control (cycle_world s n))) = Some ''cycle''"
  by (simp_all add: cycle_world_def demo_engine_world_def demo_armed_def)

definition seen_twice :: observation_result where
  "seen_twice = \<lparr>ob_incidents = reconcile_with_abandonment [demo_report] [demo_report] [tracking_key demo_report], ob_observed_twice = True,
     ob_latest_snapshot = demo_snapshot 100000, ob_observed_at_unix_millis = 190000\<rparr>"

definition start_store :: store where
  "start_store = cp_store demo_armed"

lemma start_store: "no_owners start_store" "t_cooling start_store = []"
  by (simp_all add: start_store_def demo_armed_def empty_store_def no_owners_def)

lemma ticking_ops: "ee_runtime (alone ticking_env) = ticking_env" "env_snapshot ticking_env w = (Inr (demo_snapshot 100000), w)"
  "env_clock_sample ticking_env w = (Inr \<lparr>wall_unix_millis = of_nat (100000 + 90000 * w), continuous_millis = of_nat (90000 * w),
         boot_session_fingerprint = ''boot''\<rparr>, w + 1)" "env_wait_until ticking_env d w = (Inr DeadlineReached, w)"
  by (simp_all add: alone_def ticking_env_def)

lemma ticking_clock: "cooling_clock_of \<lparr>wall_unix_millis = of_nat (100000 + 90000 * w), continuous_millis = of_nat (90000 * w),
         boot_session_fingerprint = ''boot''\<rparr> demo_epoch = tick w"
  by (simp add: cooling_clock_of_def tick_def)

lemma tick_wall: "cc_wall_unix_millis (tick (Suc 0)) = 190000"
  by (simp add: tick_def)

lemma second_seen:
  assumes "t_cooling s = [cooled 0]"
  shows "second_observation (alone ticking_env) demo_analyzer [demo_report] demo_epoch 90000 120000 (cycle_world s (Suc 0))
    = (Next seen_twice, cycle_world (s\<lparr>t_cooling := [cooled 1]\<rparr>) (Suc (Suc 0)))"
proof -
  have keep: "retain_cooling [tracking_key demo_report] s' = Inr ((), s')" if "t_cooling s' = [cooled 1]" for s'
    using that by (simp add: retain_cooling_def db_ops cooled_def)
  show ?thesis
    using tracked_again [of "cycle_world s (Suc (Suc 0))" ticking_env] assms
    by (simp add: second_observation_def on_runtime_op_def ftry_def fcall_def outside_def ticking_ops fbind_def fnext_def demo_observe ticking_clock
        on_tables_alone keep seen_twice_def Let_def tick_wall del: of_nat_add of_nat_mult)
qed

lemma cycle_observes:
  "observe_incidents (alone ticking_env) packs_engine demo_epoch (cycle_world start_store 0)
     = (Next (demo_analyzer, seen_twice), cycle_world (start_store\<lparr>t_cooling := [cooled 1]\<rparr>) (Suc (Suc 0)))"
proof -
  have clock: "cooling_clock_of \<lparr>wall_unix_millis = 100000, continuous_millis = 0, boot_session_fingerprint = ''boot''\<rparr> demo_epoch = tick 0"
    by (simp add: cooling_clock_of_def tick_def)
  show ?thesis
    using tracked [of "cycle_world start_store (Suc 0)" ticking_env] start_store no_owner_refresh [of "cycle_world start_store 0" ticking_env]
      no_owner_analyzer [of "cycle_world start_store (Suc 0)" ticking_env] second_seen [of "start_store\<lparr>t_cooling := [cooled 0]\<rparr>"]
    by (simp add: observe_incidents_def on_runtime_op_def ftry_def fcall_def outside_def ticking_ops fbind_def fnext_def demo_observe clock
        default_millis flift_def Let_def demo_report_cooling)
qed

lemma cycle_records:
  "\<exists>z. record_incidents (alone ticking_env) packs_engine 190000 ''cycle'' seen_twice (cycle_world (start_store\<lparr>t_cooling := [cooled 1]\<rparr>) (Suc (Suc 0)))
     = (Next (ob_incidents seen_twice), z)"
proof -
  obtain r where r: "ob_incidents seen_twice = [r]" "state r = Confirmed"
    using demo_confirmed by (auto simp: seen_twice_def)
  have facts: "length (dec_string 0) = 1" "ob_observed_at_unix_millis seen_twice = 190000"
    by (code_simp, simp add: seen_twice_def)
  show ?thesis
    by (simp add: facts record_incidents_def Let_def default_millis flift_def fbind_def fnext_def on_tables_alone reconcile_retry_blocks_def
       reconcile_incident_protections_def db_ops sqlite_millis_def i64_try_from_def joined_blocks_def start_store_def demo_armed_def empty_store_def
       protect_incidents_def r is_incident_protected_def record_observation_batch_def upsert_observation_span_transaction_def latest_event_def
       insert_observation_def insert_event_transaction_def insert_public_event_token_def events_ok_def event_check_def tokens_ok_def
       control_op_def on_control_def alone_acts publish_roster_def flow_ops update_status_def)
qed

theorem confirmed_incidents_grounded_witness:
  "\<exists>r. fst (record_incidents (alone ticking_env) packs_engine 190000 ''cycle'' seen_twice
       (snd (observe_incidents (alone ticking_env) packs_engine demo_epoch (cycle_world start_store 0)))) = Next [r]
     \<and> state r = Confirmed \<and> cleanup_eligible (gates r)
     \<and> confirmed_on_grounds (alone ticking_env) packs_engine demo_epoch (cycle_world start_store 0) demo_analyzer (demo_snapshot 100000) r"
proof -
  obtain r where r: "ob_incidents seen_twice = [r]" "state r = Confirmed"
    using demo_confirmed by (auto simp: seen_twice_def)
  obtain z where z: "record_incidents (alone ticking_env) packs_engine 190000 ''cycle'' seen_twice
      (cycle_world (start_store\<lparr>t_cooling := [cooled 1]\<rparr>) (Suc (Suc 0))) = (Next [r], z)"
    using cycle_records r(1) by auto
  have "keeps_protections (alone ticking_env)" by (simp add: keeps_protections_def alone_def)
  from confirmed_incidents_grounded [OF this cycle_observes z _ r(2)] z r(2) show ?thesis
    by (simp add: cycle_observes seen_twice_def)
qed

end
