(* ===== verification/Spec2Isabelle.thy ===== *)
theory Spec2Isabelle
  imports Guarded_Cleanup Core_Storage Core_Task Rules_Example Store_Cooling Store_Executor Store_Absence Store_Commit Store_Prune
    Store_Ownership Store_Ledgers Engine_Grounding
begin

text \<open>
  A verification development of Unlinger, a macOS service that ends the process trees of browser automation sessions whose owner is
  gone.

  \<^bold>\<open>The program.\<close> The adapter \<open>crates/unlinger-macos\<close> turns system calls into snapshots of the process table. The rules
  (\<open>crates/unlinger-rules\<close>) group the processes of a snapshot into sessions and classify each of them; only a session with proved
  provenance, without living owner and isolated from everything else starts cooling. The daemon (\<open>crates/unlinger-daemon\<close>)
  observes twice per cycle, keeps a durable abandonment clock, lets the rules reconcile both observations, and freezes a confirmed
  report into a plan. The executor (\<open>crates/unlinger-core\<close>) carries out the plan: before each signal and each removal it writes
  a journal entry, takes a fresh snapshot, asks the rules again, and honours a drain request. The store
  (\<open>crates/unlinger-daemon/src/store.rs\<close> with its submodules) is a SQLite database that holds the journal, the history, the owner's
  protections, the retry blocks, the leases of tasks and session owners, the maintenance ledgers and the lifecycle of the daemon.
  The control plane (\<open>crates/unlinger-daemon/src/ipc.rs\<close>) answers the requests of the local socket and holds the status
  from which every signal, cleanup attempt and maintenance action must obtain its permission.

  \<^bold>\<open>Shared theories.\<close>
  \<^item> \<open>Unlinger_Prelude\<close>: machine integers at their width, checked and saturating arithmetic, the parts of \<open>str\<close>, \<open>Path\<close>, \<open>BTreeMap\<close> and
    \<open>BTreeSet\<close> that the sources use.
  \<^item> \<open>Flow\<close>: stateful code with early exits (\<open>?\<close> and \<open>return\<close>) and its triples.

  \<^bold>\<open>The core crate\<close> (\<open>crates/unlinger-core/src\<close>).
  \<^item> \<open>Core_Model\<close> (\<open>model.rs\<close>), \<open>Core_State\<close> (\<open>state.rs\<close>), \<open>Core_Fingerprint\<close> (\<open>fingerprint.rs\<close>), \<open>Core_Graph\<close> (\<open>graph.rs\<close>),
    \<open>Core_Evidence\<close> (\<open>evidence.rs\<close>), \<open>Core_Task\<close> (\<open>task.rs\<close>), \<open>Core_Artifact\<close> (\<open>artifact.rs\<close>), \<open>Core_Storage\<close>
    (\<open>storage_residue.rs\<close>): every type and function. Shown: the walks over the process graph end and compute
    reachability even when parent pids form a cycle; an incident is reclaimed only after Cooling and Confirmed; a fingerprint changes with
    every single byte; the name spaces of tasks and ordinary sessions are disjoint.
  \<^item> \<open>Core_Cleanup\<close>: plans, receipts and the outcome projection of \<open>cleanup.rs\<close>. Shown: exactly which reports become plans, and exactly which
    receipts count as cleared.
  \<^item> \<open>Core_Executor\<close>: \<open>CleanupExecutor::execute\<close>, cut at its paragraphs. The traits \<open>CleanupRuntime\<close> and \<open>CleanupActionJournal\<close> and the stop
    request are a record of operations on an arbitrary world about which nothing is assumed.
    \<open>Core_Executor_Trace\<close>, \<open>Core_Executor_Safety\<close>, \<open>Core_Executor_Invariant\<close> and \<open>Core_Executor_Correct\<close> log every call and show, for every
    environment: each signal and removal was journalled, observed and revalidated immediately before; the receipt is the journal; nothing
    happens after a drain request was seen; Cleared is reported only on proof.

  \<^bold>\<open>The rules crate\<close> (\<open>crates/unlinger-rules/src/lib.rs\<close>).
  \<^item> \<open>Rules_Packs\<close>: signature packs, validation, version policies, and the three embedded packs; the TOML parser is a parameter. Shown: exactly which
    sources load.
  \<^item> \<open>Rules_Match\<close>, \<open>Rules_Candidates\<close>, \<open>Rules_Classify\<close>: markers and flags, candidate sessions, and the classification paragraph by
    paragraph. Shown: the state is Cooling exactly when a declarative definition of a reclaimable session holds.
  \<^item> \<open>Rules_Analyzer\<close>: one observation, the reconciliation of two, and the revalidation. Shown: exactly what is confirmed, that each confirmed
    report becomes a plan, and that each verdict is grounded in its snapshot. \<open>Rules_Example\<close> runs a concrete abandoned session.
  \<^item> \<open>Guarded_Cleanup\<close>: the executor with the analyzer as its revalidator, through the locale \<open>session_guard\<close>: every
    signal goes to a process that the last snapshot shows under the exact frozen identity, of the current non-root user, and neither the
    program itself nor one of its ancestors.

  \<^bold>\<open>The store\<close> (\<open>crates/unlinger-daemon/src/store.rs\<close> and \<open>store/\<close>).
  \<^item> \<open>Protocol_Types\<close>: the part of \<open>crates/unlinger-protocol/src/lib.rs\<close> that the store keeps.
  \<^item> \<open>Store_Base\<close>: errors, integer columns, tables, CHECK and uniqueness constraints, transactions. An operation maps the tables to an error or
    to a result and new tables, so that a failure rolls back. \<open>Store_Names\<close>: the words of the text columns and that they parse back.
  \<^item> \<open>Store_Lifecycle\<close>: boot, first scan, arming, drain and failure; arming needs clearance, draining is final, the row stays well-formed.
  \<^item> \<open>Store_Cooling\<close>: the abandonment clock, which refines a declarative series of sightings.
  \<^item> \<open>Store_Attempts\<close>, with \<open>Store_Journal\<close>, \<open>Store_Recovery\<close> and \<open>Store_Executor\<close>: attempts, write-ahead actions, events, impact and crash
    recovery. Shown: recorded outcomes are never rewritten, at most one attempt is open, exactly when recovery succeeds, and that a run of the
    executor over this journal leaves its receipt in the tables: in the attempt, in its event, in its actions and in its impact row.
  \<^item> \<open>Store_Protections\<close>, with \<open>Store_Absence\<close>: owner protections, retry blocks, their reconciliation with scans, and the pause. Shown, through
    one locale for both tables: a row is retired exactly after an unbroken series of proofs of absence that spans the retention period.
  \<^item> \<open>Store_Mutations\<close>, with \<open>Store_Commit\<close>: the policy of \<open>public_action_policy.rs\<close> and the receipts of owner mutations; each request is
    carried out at most once.
  \<^item> \<open>Store_Retention\<close>, with \<open>Store_Prune\<close>: pruning and the attention projections. Pruning keeps all authority; and it makes the
    attention projection fail when the events of a blocked attempt expire, which is recorded as a finding.
  \<^item> \<open>Store_Leases\<close> (\<open>store/tasks.rs\<close>, \<open>store/session_owners.rs\<close>), with \<open>Store_Lanes\<close> and \<open>Store_Ownership\<close>: both ownership lanes, whose contract
    is the locale \<open>ownership_lane\<close>. Shown: terms are final, bindings are grounded in observed processes and belong to the newest lease.
  \<^item> \<open>Store_Maintenance\<close> (\<open>store.rs\<close>, \<open>store/tool_cache.rs\<close>), with \<open>Store_Ledgers\<close>: storage and cache maintenance attempts, whose contract is the
    locale \<open>attempt_ledger\<close>. Shown: late results are refused, settled results are final.
  \<^item> \<open>Store_History\<close>: the readers of events, incidents and impacts, which change nothing.

  \<^bold>\<open>The control plane\<close> (\<open>crates/unlinger-daemon/src/ipc.rs\<close>).
  \<^item> \<open>Control_Status\<close>: \<open>DaemonStatus\<close>, the roster, \<open>ControlError\<close>, the projections into the status, the two gates and the identifiers that
    are issued. The record \<open>control\<close> holds the store, the status behind its mutex, the policy revision and the process-wide counters; a
    poisoned mutex is a flag of it.
  \<^item> \<open>Control_Plane\<close>: the operations of \<open>ControlPlane\<close>: restoring, observation cycles, owner mutations, the managed lifecycle with
    \<open>complete_successful_cycle\<close> and \<open>fail_closed\<close>, and the gated starts of process, storage and cache work.
  \<^item> \<open>Control_Requests\<close>: \<open>handle_at\<close> and \<open>handle_owner_peer_at\<close>, one definition per command. The lookups of the macOS adapter are an argument.
  \<^item> \<open>Control_Frames\<close> and \<open>Control_Gate\<close>: what each operation leaves alone, the events of a running control plane as a sequence of
    operations of any threads, and the few ways in which a lifecycle event can end (\<open>lifecycle_move\<close>).
  \<^item> \<open>Control_Safety\<close>: over every sequence of events a fail-close is terminal, a revoked epoch stays refused, and a withdrawn maintenance lease,
    of either lane of the locale \<open>maintenance_lane\<close>, never resumes; and a repeated owner mutation sets the policy
    revision back, which is recorded as a finding.

  \<^bold>\<open>The engine\<close> (\<open>crates/unlinger-daemon/src/engine.rs\<close>).
  \<^item> \<open>Engine\<close>: one reconciliation cycle composed of the parts above, from the release of absent owners to the dispatch of a confirmed incident.
    The world of the engine is the outside world of the runtime, the control plane and the handle of the worker;
    before each operation on the control plane the other threads (\<open>ee_others\<close>) may act. The spawned worker is one of
    these threads, and its body is \<open>cleanup_worker\<close>. \<open>GatedRuntime\<close> is \<open>gated_env\<close>, an instance of the environment of the executor.
  \<^item> \<open>Engine_Safety\<close>: other threads act by the events of \<open>Control_Gate\<close> only. Shown: a cycle whose inner run fails closes the control plane for
    good, and a cleanup that runs after a fail-close delivers nothing.
  \<^item> \<open>Engine_Grounding\<close>: an incident that a cycle publishes as confirmed was found cooling in both snapshots of that cycle under the same identity, the durable
    clock answered on the tables of that cycle that its grace period is over, and, unless other threads changed the protections meanwhile, no
    protection names it; a concrete cycle confirms the session of \<open>Rules_Example\<close>.

  \<^bold>\<open>Conventions.\<close> A \<open>BTreeMap\<close> is a key-sorted association list, a table the list of its rows in insertion order. A JSON
  column holds the value that it encodes; the length of an encoded text, which some CHECK constraints bound, is the parameter \<open>json_len\<close>.
  The wall clock is an argument. An operation of the control plane holds its lock while it runs, so operations of
  different threads follow one another; where one operation of the code locks or commits more than once (the expiry of a pause before a
  gated start, the binding of controllers to leases), the model takes one step. \<open>randomblob\<close> is a stream of tokens in the store, and an AUTOINCREMENT column has its next identifier there. Every loop of
  the sources that is modelled is a total function: structural recursion, or recursion with a measure on the pids not yet seen; there is no
  fuel. Where a message prints a value with \<open>{:?}\<close>, the model keeps its literal text. The sum of the
  resident memory of a session wraps, as in a release build.

  \<^bold>\<open>Not modelled.\<close> The macOS adapter and the two cache cleaners (\<open>tool_cache.rs\<close> and \<open>node_compile_cache.rs\<close> of the daemon) are system
  calls; their results are arguments of the model. The sockets and the framing of \<open>ipc.rs\<close>, the views of \<open>public_ipc.rs\<close>, the
  entry point, the paths, the scheduler that starts the cycles and the command line are input and output. Threads are not started; a panic is modelled
  where the gated runtime catches it. Opening and migrating the database file and the read-only totals of
  impact and attribution change no table. Lines that the daemon prints are left out. Faults of the database engine (I/O, locking) are outside
  the model.
\<close>

end
